(* ===== verification/Prelude.thy ===== *)
theory Prelude
  imports Main "HOL-Library.Word"
begin

text \<open>
  Shared material: the collections of simplification rules the component theories
  extend, association lists with the update discipline of JavaScript objects, and
  generic facts on lists and options.
\<close>

section \<open>Collections\<close>

named_theorems alist_simps \<open>lookup and update laws of association lists\<close>
named_theorems js_simps \<open>evaluation rules of the JavaScript value operations\<close>
named_theorems handler_defs \<open>definitions of the handlers, unfolded in their functional lemmas\<close>

section \<open>Association lists in insertion order\<close>

text \<open>
  A JavaScript object keeps its own properties in insertion order, and writing to an
  existing property keeps its position. Keys are strings; an object literal with a
  spread (\<open>...o\<close>) is a sequence of such writes.
\<close>

primrec aupd :: "'k \<Rightarrow> 'v \<Rightarrow> ('k \<times> 'v) list \<Rightarrow> ('k \<times> 'v) list" where
  "aupd k v [] = [(k, v)]"
| "aupd k v (p # ps) = (if fst p = k then (k, v) # ps else p # aupd k v ps)"

definition adel :: "'k \<Rightarrow> ('k \<times> 'v) list \<Rightarrow> ('k \<times> 'v) list" where
  "adel k ps = filter (\<lambda>p. fst p \<noteq> k) ps"

definition has_key :: "'k \<Rightarrow> ('k \<times> 'v) list \<Rightarrow> bool" where
  "has_key k ps \<longleftrightarrow> map_of ps k \<noteq> None"

definition aspread :: "('k \<times> 'v) list \<Rightarrow> ('k \<times> 'v) list \<Rightarrow> ('k \<times> 'v) list" where
  "aspread base new = fold (\<lambda>p acc. aupd (fst p) (snd p) acc) new base"

lemma map_of_aupd [simp, alist_simps]: "map_of (aupd k v ps) = (map_of ps)(k \<mapsto> v)"
  by (induction ps) (auto simp: fun_eq_iff)

lemma map_of_adel [simp, alist_simps]: "map_of (adel k ps) = (map_of ps)(k := None)"
  by (induction ps) (auto simp: adel_def fun_eq_iff)

lemma has_key_aupd [simp, alist_simps]: "has_key k (aupd k' v ps) \<longleftrightarrow> k = k' \<or> has_key k ps"
  by (auto simp: has_key_def)

lemma has_key_adel [simp, alist_simps]: "has_key k (adel k' ps) \<longleftrightarrow> k \<noteq> k' \<and> has_key k ps"
  by (auto simp: has_key_def)

lemma has_key_Nil [simp]: "\<not> has_key k []"
  by (simp add: has_key_def)

lemma has_key_Cons [simp, alist_simps]: "has_key k (p # ps) \<longleftrightarrow> fst p = k \<or> has_key k ps"
  by (cases p) (auto simp: has_key_def)

lemma has_key_iff: "has_key k ps \<longleftrightarrow> k \<in> fst ` set ps"
  by (induction ps) auto

lemma aupd_keys: "map fst (aupd k v ps) = (if has_key k ps then map fst ps else map fst ps @ [k])"
  by (induction ps) auto

lemma distinct_aupd: "distinct (map fst ps) \<Longrightarrow> distinct (map fst (aupd k v ps))"
  by (simp add: aupd_keys has_key_iff)

lemma aspread_Nil [simp]: "aspread base [] = base"
  by (simp add: aspread_def)

lemma aspread_Cons [simp]: "aspread base (p # ps) = aspread (aupd (fst p) (snd p) base) ps"
  by (simp add: aspread_def)

lemma has_key_aspread [simp]: "has_key k (aspread base new) \<longleftrightarrow> has_key k base \<or> has_key k new"
  by (induction new arbitrary: base) auto

text \<open>The default discipline: write only when the key is absent.\<close>

definition adefault :: "'k \<Rightarrow> 'v \<Rightarrow> ('k \<times> 'v) list \<Rightarrow> ('k \<times> 'v) list" where
  "adefault k v ps = (if has_key k ps then ps else aupd k v ps)"

lemma map_of_adefault [alist_simps]:
  "map_of (adefault k v ps) k' = (if k' = k \<and> map_of ps k = None then Some v else map_of ps k')"
  by (auto simp: adefault_def has_key_def)

lemma has_key_adefault [simp]: "has_key k (adefault k' v ps) \<longleftrightarrow> k = k' \<or> has_key k ps"
  by (auto simp: adefault_def)

lemma adefault_present: "has_key k ps \<Longrightarrow> adefault k v ps = ps"
  by (simp add: adefault_def)

section \<open>Lists\<close>

lemma list_all2_refl_conv: "list_all2 P xs xs \<longleftrightarrow> (\<forall>x \<in> set xs. P x x)"
  by (induction xs) auto

lemma filter_False_conv: "filter P xs = [] \<longleftrightarrow> (\<forall>x \<in> set xs. \<not> P x)"
  by (induction xs) auto

lemma concat_map_single [simp]: "concat (map (\<lambda>x. [f x]) xs) = map f xs"
  by (induction xs) auto

lemma sum_length_filter:
  assumes "finite I"
  shows "(\<Sum>i \<in> I. length (filter (\<lambda>x. f x = i) xs)) = length (filter (\<lambda>x. f x \<in> I) xs)"
proof (induction xs)
  case (Cons a xs)
  have "(\<Sum>i \<in> I. length (filter (\<lambda>x. f x = i) (a # xs))) =
      (\<Sum>i \<in> I. (if f a = i then 1 else 0) + length (filter (\<lambda>x. f x = i) xs))"
    by (intro sum.cong) auto
  also have "\<dots> = (if f a \<in> I then 1 else 0) + length (filter (\<lambda>x. f x \<in> I) xs)"
    using assms by (simp add: sum.distrib Cons)
  finally show ?case by simp
qed simp

end
