(* ===== verification/JSNum.thy ===== *)
theory JSNum
  imports Complex_Main Prelude
begin

text \<open>
  JavaScript numbers: IEEE 754 binary64 with round-to-nearest, ties to even. A finite
  double is the rational it denotes, so the two signed zeros are one value (no operation
  modelled in this development divides by a zero or prints its sign). \<open>rnd\<close> rounds a
  rational to the double precision grid, \<open>dbl\<close> adds the overflow to an infinity; the
  arithmetic below is the exact operation followed by \<open>dbl\<close>, as the standard defines it.
\<close>

section \<open>Rounding\<close>

definition rhe :: "rat \<Rightarrow> int" where
  "rhe x = (let f = \<lfloor>x\<rfloor>; d = x - of_int f in
     if d < 1/2 then f else if 1/2 < d then f + 1 else if even f then f else f + 1)"

lemma rhe_of_int [simp]: "rhe (of_int n) = n"
  by (simp add: rhe_def)

lemma rhe_bounds: "of_int (rhe x) - 1/2 \<le> x \<and> x \<le> of_int (rhe x) + 1/2"
proof -
  have "of_int \<lfloor>x\<rfloor> \<le> x" "x < of_int \<lfloor>x\<rfloor> + 1" by linarith+
  then show ?thesis unfolding rhe_def Let_def by (simp split: if_splits; linarith)
qed

lemma rhe_mono: assumes "x \<le> y" shows "rhe x \<le> rhe y"
proof (cases "\<lfloor>x\<rfloor> = \<lfloor>y\<rfloor>")
  case True
  with assms show ?thesis by (auto simp: rhe_def Let_def)
next
  case False
  with assms have "\<lfloor>x\<rfloor> + 1 \<le> \<lfloor>y\<rfloor>" by (meson floor_mono less_le_not_le nle_le zless_imp_add1_zle order.strict_iff_order)
  moreover have "rhe x \<le> \<lfloor>x\<rfloor> + 1" by (simp add: rhe_def Let_def)
  moreover have "\<lfloor>y\<rfloor> \<le> rhe y" by (simp add: rhe_def Let_def)
  ultimately show ?thesis by linarith
qed

fun ilog2 :: "int \<Rightarrow> int" where
  "ilog2 n = (if n < 2 then 0 else ilog2 (n div 2) + 1)"

declare ilog2.simps [simp del]

lemma ilog2_nonneg: "0 \<le> ilog2 n"
  by (induction n rule: ilog2.induct) (subst ilog2.simps, simp)

lemma ilog2_bounds: "1 \<le> n \<Longrightarrow> 2 ^ nat (ilog2 n) \<le> n \<and> n < 2 ^ nat (ilog2 n + 1)"
proof (induction n rule: ilog2.induct)
  case (1 n)
  show ?case
  proof (cases "n < 2")
    case True
    with 1 show ?thesis by (simp add: ilog2.simps[of n])
  next
    case False
    then have ge: "1 \<le> n div 2" by linarith
    have nn: "0 \<le> ilog2 (n div 2)" by (rule ilog2_nonneg)
    have ih: "2 ^ nat (ilog2 (n div 2)) \<le> n div 2" "n div 2 < 2 ^ nat (ilog2 (n div 2) + 1)"
      using 1(1)[OF False ge] by auto
    have e1: "(2::int) ^ nat (ilog2 (n div 2) + 1) = 2 * 2 ^ nat (ilog2 (n div 2))"
      using nn by (simp add: nat_add_distrib)
    have e2: "(2::int) ^ nat (ilog2 (n div 2) + 1 + 1) = 2 * 2 ^ nat (ilog2 (n div 2) + 1)"
      using nn by (simp add: nat_add_distrib)
    from False have "ilog2 n = ilog2 (n div 2) + 1" by (simp add: ilog2.simps[of n])
    with ih e1 e2 show ?thesis by simp linarith
  qed
qed

definition flog2 :: "rat \<Rightarrow> int" where
  "flog2 x = (let p = quotient_of x; e = ilog2 (fst p) - ilog2 (snd p)
     in if 2 powi e \<le> x then e else e - 1)"

lemma powi_ge_0 [simp]: "0 < (2::rat) powi k"
  by (simp add: zero_less_power_int)

lemma powi_nat: "0 \<le> k \<Longrightarrow> (2::rat) powi k = of_int (2 ^ nat k)"
  by (simp add: power_int_def)

lemma flog2_bounds:
  assumes "0 < x" shows "2 powi (flog2 x) \<le> x \<and> x < 2 powi (flog2 x + 1)"
proof -
  obtain p q where pq: "quotient_of x = (p, q)" by force
  then have q: "0 < q" and x: "x = of_int p / of_int q"
    by (auto simp: quotient_of_denom_pos quotient_of_div)
  with assms have p: "0 < p" by (simp add: zero_less_divide_iff)
  let ?a = "ilog2 p" and ?b = "ilog2 q"
  have pb: "2 powi ?a \<le> (of_int p :: rat)" "(of_int p :: rat) < 2 powi (?a + 1)"
    using ilog2_bounds[of p] p ilog2_nonneg[of p]
    by (simp_all add: powi_nat del: of_int_power)
  have qb: "2 powi ?b \<le> (of_int q :: rat)" "(of_int q :: rat) < 2 powi (?b + 1)"
    using ilog2_bounds[of q] q ilog2_nonneg[of q]
    by (simp_all add: powi_nat del: of_int_power)
  have lo: "2 powi (?a - ?b - 1) < x"
  proof -
    have "2 powi (?a - ?b - 1) * of_int q < (2::rat) powi (?a - ?b - 1) * 2 powi (?b + 1)"
      using qb by simp
    also have "\<dots> = 2 powi ?a" by (simp flip: power_int_add)
    also have "\<dots> \<le> of_int p" using pb by simp
    finally show ?thesis using q by (simp add: x pos_less_divide_eq)
  qed
  have hi: "x < 2 powi (?a - ?b + 1)"
  proof -
    have "of_int p < (2::rat) powi (?a + 1)" using pb by simp
    also have "\<dots> = 2 powi (?a - ?b + 1) * 2 powi ?b" by (simp flip: power_int_add)
    also have "\<dots> \<le> 2 powi (?a - ?b + 1) * of_int q" using qb by simp
    finally show ?thesis using q by (simp add: x pos_divide_less_eq)
  qed
  from lo hi show ?thesis by (auto simp: flog2_def pq Let_def)
qed

lemma flog2_unique:
  assumes "2 powi k \<le> x" "x < 2 powi (k + 1)" shows "flog2 x = k"
proof -
  have "0 < x" using assms(1) powi_ge_0[of k] by linarith
  then have b: "2 powi (flog2 x) \<le> x" "x < 2 powi (flog2 x + 1)" using flog2_bounds by auto
  have "(2::rat) powi k < 2 powi (flog2 x + 1)" "(2::rat) powi (flog2 x) < 2 powi (k + 1)"
    using assms b by linarith+
  then show ?thesis
    using power_int_increasing[of "flog2 x + 1" k "2::rat"] power_int_increasing[of "k + 1" "flog2 x" "2::rat"]
    by (cases "flog2 x + 1 \<le> k"; cases "k + 1 \<le> flog2 x") auto
qed

lemma flog2_mono: assumes "0 < x" "x \<le> y" shows "flog2 x \<le> flog2 y"
proof (rule ccontr)
  assume "\<not> ?thesis"
  then have "flog2 y + 1 \<le> flog2 x" by simp
  then have "(2::rat) powi (flog2 y + 1) \<le> 2 powi (flog2 x)" by (rule power_int_increasing) simp
  with flog2_bounds[OF assms(1)] flog2_bounds[of y] assms show False by force
qed

text \<open>The exponent of the unit in the last place: 52 bits below the leading bit, and not
  below the subnormal grid.\<close>

definition quantum :: "rat \<Rightarrow> int" where
  "quantum x = max (flog2 \<bar>x\<bar> - 52) (- 1074)"

definition rnd :: "rat \<Rightarrow> rat" where
  "rnd x = (if x = 0 then 0
     else if 0 < x then of_int (rhe (x / 2 powi quantum x)) * 2 powi quantum x
     else - (of_int (rhe (- x / 2 powi quantum x)) * 2 powi quantum x))"

lemma rnd_0 [simp]: "rnd 0 = 0"
  by (simp add: rnd_def)

lemma quantum_minus [simp]: "quantum (- x) = quantum x"
  by (simp add: quantum_def)

lemma rnd_minus [simp]: "rnd (- x) = - rnd x"
  by (auto simp: rnd_def)

text \<open>A rational on the grid of its own magnitude is exact.\<close>

lemma rnd_grid:
  assumes "0 < x" "x = of_int m * 2 powi quantum x" shows "rnd x = x"
proof -
  have "x / 2 powi quantum x = of_int m" using assms(2) powi_ge_0[of "quantum x"]
    by (simp add: nonzero_divide_eq_eq)
  then show ?thesis using assms by (simp add: rnd_def)
qed

lemma powi_quantum_int:
  assumes "quantum x \<le> k" shows "\<exists>m::int. (2::rat) powi k = of_int m * 2 powi quantum x"
proof -
  have "(2::rat) powi k = 2 powi (k - quantum x) * 2 powi quantum x" by (simp flip: power_int_add)
  also have "(2::rat) powi (k - quantum x) = of_int (2 ^ nat (k - quantum x))"
    using assms by (simp only: powi_nat)
  finally show ?thesis by blast
qed

lemma rnd_nonneg: assumes "0 \<le> x" shows "0 \<le> rnd x"
proof (cases "x = 0")
  case False
  with assms have "rhe 0 \<le> rhe (x / 2 powi quantum x)" by (intro rhe_mono) simp
  moreover have "rhe 0 = 0" using rhe_of_int[of 0] by simp
  ultimately show ?thesis using assms False by (simp add: rnd_def)
qed simp

lemma rnd_upper:
  assumes "0 < x" "x \<le> 2 powi k" "quantum x \<le> k" shows "rnd x \<le> 2 powi k"
proof -
  obtain m :: int where m: "(2::rat) powi k = of_int m * 2 powi quantum x"
    using powi_quantum_int[OF assms(3)] by blast
  have "x / 2 powi quantum x \<le> of_int m" using assms m by (simp add: pos_divide_le_eq)
  then have "rhe (x / 2 powi quantum x) \<le> rhe (of_int m)" by (rule rhe_mono)
  then have "rhe (x / 2 powi quantum x) \<le> m" by simp
  then have "of_int (rhe (x / 2 powi quantum x)) * 2 powi quantum x \<le> of_int m * (2::rat) powi quantum x"
    by (intro mult_right_mono) auto
  with assms m show ?thesis by (simp add: rnd_def)
qed

lemma rnd_lower:
  assumes "0 < y" "2 powi k \<le> y" "quantum y \<le> k" shows "2 powi k \<le> rnd y"
proof -
  obtain m :: int where m: "(2::rat) powi k = of_int m * 2 powi quantum y"
    using powi_quantum_int[OF assms(3)] by blast
  have "of_int m \<le> y / 2 powi quantum y" using assms m by (simp add: pos_le_divide_eq)
  then have "rhe (of_int m) \<le> rhe (y / 2 powi quantum y)" by (rule rhe_mono)
  then have "m \<le> rhe (y / 2 powi quantum y)" by simp
  then have "of_int m * (2::rat) powi quantum y \<le> of_int (rhe (y / 2 powi quantum y)) * 2 powi quantum y"
    by (intro mult_right_mono) auto
  with assms m show ?thesis by (simp add: rnd_def)
qed

lemma rnd_mono_pos: assumes "0 < x" "x \<le> y" shows "rnd x \<le> rnd y"
proof (cases "quantum x = quantum y")
  case True
  have "rhe (x / 2 powi quantum y) \<le> rhe (y / 2 powi quantum y)"
    using assms by (intro rhe_mono divide_right_mono) auto
  with True assms show ?thesis by (auto simp: rnd_def intro!: mult_right_mono)
next
  case False
  from assms have le: "flog2 x \<le> flog2 y" by (rule flog2_mono)
  with False assms have lt: "flog2 x < flog2 y" "-1074 < flog2 y - 52" by (auto simp: quantum_def)
  have "x \<le> 2 powi (flog2 x + 1)" using flog2_bounds[OF assms(1)] by simp
  also have "\<dots> \<le> (2::rat) powi (flog2 y)" using lt by (intro power_int_increasing) auto
  finally have "rnd x \<le> 2 powi (flog2 y)"
    using assms lt by (intro rnd_upper) (auto simp: quantum_def)
  also have "\<dots> \<le> rnd y" using assms flog2_bounds[of y]
    lt by (intro rnd_lower) (auto simp: quantum_def)
  finally show ?thesis .
qed

lemma rnd_mono: assumes "x \<le> y" shows "rnd x \<le> rnd y"
proof -
  consider "0 < x" | "y < 0" | "x \<le> 0" "0 \<le> y" by linarith
  then show ?thesis
  proof cases
    case 1 with assms show ?thesis by (intro rnd_mono_pos)
  next
    case 2
    with assms have "rnd (- y) \<le> rnd (- x)" by (intro rnd_mono_pos) auto
    then show ?thesis by simp
  next
    case 3
    then have "0 \<le> rnd (- x)" "0 \<le> rnd y" by (auto intro!: rnd_nonneg simp del: rnd_minus)
    then show ?thesis by simp
  qed
qed

text \<open>Integers up to \<open>2^53\<close> in absolute value are doubles.\<close>

lemma rnd_of_int_pos:
  assumes "0 < n" "n \<le> 2 ^ 53" shows "rnd (of_int n) = of_int n"
proof -
  let ?x = "of_int n :: rat"
  have pos: "0 < ?x" using assms by simp
  show ?thesis
  proof (cases "n = 2 ^ 53")
    case True
    then have f: "flog2 ?x = 53" by (intro flog2_unique) (simp_all add: power_int_def)
    then have "quantum ?x = 1" using pos by (simp add: quantum_def)
    then show ?thesis using True by (intro rnd_grid[where m = "2 ^ 52"]) (simp_all add: pos)
  next
    case False
    have "flog2 ?x < 53"
    proof (rule ccontr)
      assume "\<not> ?thesis"
      then have "(2::rat) powi 53 \<le> 2 powi (flog2 ?x)" by (intro power_int_increasing) auto
      also have "\<dots> \<le> ?x" using flog2_bounds[OF pos] by simp
      finally have "(of_int (2 ^ 53) :: rat) \<le> of_int n" by simp
      then have "2 ^ 53 \<le> n" by (simp only: of_int_le_iff)
      with assms False show False by simp
    qed
    then have q: "quantum ?x \<le> 0" using pos by (simp add: quantum_def)
    obtain m :: int where m: "(2::rat) powi 0 = of_int m * 2 powi quantum ?x"
      using powi_quantum_int[OF q] by blast
    then have "?x = of_int (n * m) * 2 powi quantum ?x" by simp
    then show ?thesis by (rule rnd_grid[OF pos])
  qed
qed

lemma rnd_of_int: assumes "\<bar>n\<bar> \<le> 2 ^ 53" shows "rnd (of_int n) = of_int n"
proof -
  consider "n = 0" | "0 < n" | "n < 0" by linarith
  then show ?thesis
  proof cases
    case 3
    with assms have "rnd (of_int (- n)) = of_int (- n)" by (intro rnd_of_int_pos) auto
    then show ?thesis by simp
  qed (use assms rnd_of_int_pos in auto)
qed

section \<open>The number type\<close>

datatype jsnum = NaN | Infty bool | Fin rat

definition dbl_limit :: rat where
  "dbl_limit = 2 ^ 1024"

definition dbl :: "rat \<Rightarrow> jsnum" where
  "dbl x = (let r = rnd x in
     if dbl_limit \<le> r then Infty True else if r \<le> - dbl_limit then Infty False else Fin r)"

definition num :: "int \<Rightarrow> jsnum" where
  "num n = Fin (of_int n)"

fun num_is_nan :: "jsnum \<Rightarrow> bool" where
  "num_is_nan NaN = True"
| "num_is_nan _ = False"

fun num_finite :: "jsnum \<Rightarrow> bool" where
  "num_finite (Fin _) = True"
| "num_finite _ = False"

text \<open>\<open>==\<close> and \<open>===\<close> between numbers: a NaN differs from everything.\<close>

fun num_eq :: "jsnum \<Rightarrow> jsnum \<Rightarrow> bool" where
  "num_eq (Fin x) (Fin y) = (x = y)"
| "num_eq (Infty a) (Infty b) = (a = b)"
| "num_eq _ _ = False"

fun num_lt :: "jsnum \<Rightarrow> jsnum \<Rightarrow> bool" where
  "num_lt (Fin x) (Fin y) = (x < y)"
| "num_lt (Infty a) (Infty b) = (\<not> a \<and> b)"
| "num_lt (Infty a) (Fin _) = (\<not> a)"
| "num_lt (Fin _) (Infty b) = b"
| "num_lt _ _ = False"

text \<open>The comparison operators of the language, as the orders of the type.\<close>

instantiation jsnum :: ord
begin

definition less_jsnum :: "jsnum \<Rightarrow> jsnum \<Rightarrow> bool" where
  "less_jsnum a b = num_lt a b"

definition less_eq_jsnum :: "jsnum \<Rightarrow> jsnum \<Rightarrow> bool" where
  "less_eq_jsnum a b = (num_lt a b \<or> num_eq a b)"

instance ..

end

fun num_sgn_pos :: "jsnum \<Rightarrow> bool" where
  "num_sgn_pos (Fin x) = (0 < x)"
| "num_sgn_pos (Infty a) = a"
| "num_sgn_pos NaN = False"

fun num_add :: "jsnum \<Rightarrow> jsnum \<Rightarrow> jsnum" where
  "num_add (Fin x) (Fin y) = dbl (x + y)"
| "num_add (Infty a) (Infty b) = (if a = b then Infty a else NaN)"
| "num_add (Infty a) (Fin _) = Infty a"
| "num_add (Fin _) (Infty b) = Infty b"
| "num_add _ _ = NaN"

fun num_neg :: "jsnum \<Rightarrow> jsnum" where
  "num_neg (Fin x) = Fin (- x)"
| "num_neg (Infty a) = Infty (\<not> a)"
| "num_neg NaN = NaN"

fun num_mul :: "jsnum \<Rightarrow> jsnum \<Rightarrow> jsnum" where
  "num_mul (Fin x) (Fin y) = dbl (x * y)"
| "num_mul (Infty a) (Infty b) = Infty (a = b)"
| "num_mul (Infty a) (Fin y) = (if y = 0 then NaN else Infty (a = (0 < y)))"
| "num_mul (Fin x) (Infty b) = (if x = 0 then NaN else Infty ((0 < x) = b))"
| "num_mul _ _ = NaN"

fun num_div :: "jsnum \<Rightarrow> jsnum \<Rightarrow> jsnum" where
  "num_div (Fin x) (Fin y) = (if y = 0 then (if x = 0 then NaN else Infty (0 < x)) else dbl (x / y))"
| "num_div (Infty a) (Infty b) = NaN"
| "num_div (Infty a) (Fin y) = Infty (a = (0 \<le> y))"
| "num_div (Fin x) (Infty b) = Fin 0"
| "num_div _ _ = NaN"

instantiation jsnum :: "{plus, minus, times, uminus, zero, one}"
begin

definition plus_jsnum :: "jsnum \<Rightarrow> jsnum \<Rightarrow> jsnum" where
  "plus_jsnum a b = num_add a b"

definition minus_jsnum :: "jsnum \<Rightarrow> jsnum \<Rightarrow> jsnum" where
  "minus_jsnum a b = num_add a (num_neg b)"

definition times_jsnum :: "jsnum \<Rightarrow> jsnum \<Rightarrow> jsnum" where
  "times_jsnum a b = num_mul a b"

definition uminus_jsnum :: "jsnum \<Rightarrow> jsnum" where
  "uminus_jsnum a = num_neg a"

definition zero_jsnum :: jsnum where
  "zero_jsnum = Fin 0"

definition one_jsnum :: jsnum where
  "one_jsnum = Fin 1"

instance ..

end

fun num_abs :: "jsnum \<Rightarrow> jsnum" where
  "num_abs (Fin x) = Fin \<bar>x\<bar>"
| "num_abs (Infty _) = Infty True"
| "num_abs NaN = NaN"

text \<open>\<open>Math.floor\<close>, \<open>Math.trunc\<close> and \<open>Math.round\<close> (half up) are exact on doubles.\<close>

fun num_floor :: "jsnum \<Rightarrow> jsnum" where
  "num_floor (Fin x) = Fin (of_int \<lfloor>x\<rfloor>)"
| "num_floor v = v"

fun num_trunc :: "jsnum \<Rightarrow> jsnum" where
  "num_trunc (Fin x) = Fin (of_int (if 0 \<le> x then \<lfloor>x\<rfloor> else - \<lfloor>- x\<rfloor>))"
| "num_trunc v = v"

fun num_round :: "jsnum \<Rightarrow> jsnum" where
  "num_round (Fin x) = Fin (of_int \<lfloor>x + 1/2\<rfloor>)"
| "num_round v = v"

definition num_min :: "jsnum \<Rightarrow> jsnum \<Rightarrow> jsnum" where
  "num_min a b = (if num_is_nan a \<or> num_is_nan b then NaN else if a < b then a else b)"

definition num_max :: "jsnum \<Rightarrow> jsnum \<Rightarrow> jsnum" where
  "num_max a b = (if num_is_nan a \<or> num_is_nan b then NaN else if a < b then b else a)"

lemma num_lt_simps [simp, js_simps]:
  "Fin x < Fin y \<longleftrightarrow> x < y" "\<not> (NaN < a)" "\<not> (a < NaN)"
  "Infty a' < Infty b' \<longleftrightarrow> \<not> a' \<and> b'" "Infty a' < Fin x \<longleftrightarrow> \<not> a'" "Fin x < Infty b' \<longleftrightarrow> b'"
  by (cases a; simp add: less_jsnum_def)+

lemma num_le_simps [simp, js_simps]:
  "Fin x \<le> Fin y \<longleftrightarrow> x \<le> y" "\<not> (NaN \<le> a)" "\<not> (a \<le> NaN)"
  by (cases a; auto simp: less_eq_jsnum_def)+

lemma num_arith_simps [js_simps]:
  "Fin x + Fin y = dbl (x + y)" "Fin x * Fin y = dbl (x * y)" "Fin x - Fin y = dbl (x - y)"
  "NaN + a = NaN" "a + NaN = NaN" "NaN * a = NaN" "a * NaN = NaN" "NaN - a = NaN" "a - NaN = NaN"
  by (cases a; simp add: plus_jsnum_def times_jsnum_def minus_jsnum_def)+

lemma num_lt_irrefl [simp]: "\<not> (a < (a::jsnum))"
  by (cases a) auto

lemma num_lt_asym: "a < (b::jsnum) \<Longrightarrow> \<not> b < a"
  by (cases a; cases b) auto

lemma num_lt_trans: "a < (b::jsnum) \<Longrightarrow> b < c \<Longrightarrow> a < c"
  by (cases a; cases b; cases c) auto

lemma num_eq_refl_iff [simp]: "num_eq a a \<longleftrightarrow> a \<noteq> NaN"
  by (cases a) auto

lemma num_eq_iff: "num_eq a b \<longleftrightarrow> a = b \<and> a \<noteq> NaN"
  by (cases a; cases b) auto

lemma num_is_nan_iff [simp]: "num_is_nan a \<longleftrightarrow> a = NaN"
  by (cases a) auto

text \<open>Integers of up to 53 bits are exact, so sums and products that stay in that range are too.\<close>

lemma dbl_limit_large: "2 ^ 53 < dbl_limit"
  unfolding dbl_limit_def by (rule power_strict_increasing) auto

lemma dbl_exact: "rnd x = x \<Longrightarrow> \<bar>x\<bar> \<le> 2 ^ 53 \<Longrightarrow> dbl x = Fin x"
  using dbl_limit_large by (auto simp: dbl_def abs_le_iff)

lemma dbl_of_int: assumes "\<bar>n\<bar> \<le> 2 ^ 53" shows "dbl (of_int n) = num n"
proof -
  have "(of_int \<bar>n\<bar> :: rat) \<le> of_int (2 ^ 53)" using assms by (simp only: of_int_le_iff)
  then show ?thesis unfolding num_def by (intro dbl_exact rnd_of_int assms) simp
qed

lemma num_add_int: "\<bar>a + b\<bar> \<le> 2 ^ 53 \<Longrightarrow> num a + num b = num (a + b)"
  using dbl_of_int[of "a + b"] by (simp add: num_def num_arith_simps)

lemma num_mul_int: "\<bar>a * b\<bar> \<le> 2 ^ 53 \<Longrightarrow> num a * num b = num (a * b)"
  using dbl_of_int[of "a * b"] by (simp add: num_def num_arith_simps)

lemma num_diff_int: "\<bar>a - b\<bar> \<le> 2 ^ 53 \<Longrightarrow> num a - num b = num (a - b)"
  using dbl_of_int[of "a - b"] by (simp add: num_def num_arith_simps)

lemma num_inj [simp]: "num a = num b \<longleftrightarrow> a = b"
  by (simp add: num_def)

lemma num_less [simp]: "num a < num b \<longleftrightarrow> a < b" and num_leq [simp]: "num a \<le> num b \<longleftrightarrow> a \<le> b"
  and num_not_nan [simp]: "num a \<noteq> NaN" and num_eq_num [simp]: "num_eq (num a) (num b) \<longleftrightarrow> a = b"
  by (simp_all add: num_def)

end
