(* ===== verification/JSVal.thy ===== *)
theory JSVal
  imports JSNum
begin

text \<open>
  JavaScript values as the services see them: documents and requests are plain objects
  whose fields may be missing, null or of any type, and the code relies on the coercions
  of the language. Strings are lists of bytes (UTF-8); the code compares, concatenates
  and scans them, which does not depend on the code unit size. Object identity is not
  modelled: \<open>===\<close> between two objects is false, as it is for the distinct objects the
  code compares. BSON doubles read and written by the driver are numbers.
\<close>

section \<open>Values\<close>

datatype jsval =
    Undef | Null | Bool bool | Num jsnum | Str string
  | Date jsnum
  | Arr "jsval list"
  | Obj "(string \<times> jsval) list"

type_synonym doc = "(string \<times> jsval) list"

datatype js_error = TypeError | RangeError | SyntaxError | Thrown string

text \<open>Property read on a known object; \<open>v.k\<close> on any value throws on null and undefined,
  \<open>v?.k\<close> does not.\<close>

definition fld :: "doc \<Rightarrow> string \<Rightarrow> jsval" where
  "fld d k = (case map_of d k of None \<Rightarrow> Undef | Some v \<Rightarrow> v)"

fun opt_get :: "jsval \<Rightarrow> string \<Rightarrow> jsval" where
  "opt_get (Obj d) k = fld d k"
| "opt_get _ k = Undef"

definition get :: "jsval \<Rightarrow> string \<Rightarrow> js_error + jsval" where
  "get v k = (case v of Undef \<Rightarrow> Inl TypeError | Null \<Rightarrow> Inl TypeError | _ \<Rightarrow> Inr (opt_get v k))"

fun typeof :: "jsval \<Rightarrow> string" where
  "typeof Undef = ''undefined''"
| "typeof (Bool _) = ''boolean''"
| "typeof (Num _) = ''number''"
| "typeof (Str _) = ''string''"
| "typeof _ = ''object''"

fun truthy :: "jsval \<Rightarrow> bool" where
  "truthy Undef = False"
| "truthy Null = False"
| "truthy (Bool b) = b"
| "truthy (Num x) = (\<not> num_is_nan x \<and> x \<noteq> Fin 0)"
| "truthy (Str s) = (s \<noteq> [])"
| "truthy _ = True"

text \<open>\<open>a || b\<close> on values.\<close>

definition js_or :: "jsval \<Rightarrow> jsval \<Rightarrow> jsval" where
  "js_or a b = (if truthy a then a else b)"

section \<open>Strings and numbers\<close>

definition is_digit :: "char \<Rightarrow> bool" where
  "is_digit c = (48 \<le> (of_char c :: nat) \<and> (of_char c :: nat) \<le> 57)"

definition digit_val :: "char \<Rightarrow> int" where
  "digit_val c = of_char c - 48"

definition digit_char :: "int \<Rightarrow> char" where
  "digit_char d = char_of (d + 48)"

definition is_space :: "char \<Rightarrow> bool" where
  "is_space c = (c \<in> set [CHR '' '', CHR 0x09, CHR 0x0A, CHR 0x0B, CHR 0x0C, CHR 0x0D])"

definition trim_start :: "string \<Rightarrow> string" where
  "trim_start s = dropWhile is_space s"

definition trim :: "string \<Rightarrow> string" where
  "trim s = rev (dropWhile is_space (rev (dropWhile is_space s)))"

definition starts_with :: "string \<Rightarrow> string \<Rightarrow> bool" where
  "starts_with p s = (take (length p) s = p)"

fun index_of :: "string \<Rightarrow> string \<Rightarrow> int" where
  "index_of p [] = (if p = [] then 0 else -1)"
| "index_of p (c # s) = (if starts_with p (c # s) then 0
     else (let i = index_of p s in if i < 0 then -1 else i + 1))"

definition to_lower_char :: "char \<Rightarrow> char" where
  "to_lower_char c = (if 65 \<le> (of_char c :: nat) \<and> (of_char c :: nat) \<le> 90
     then char_of ((of_char c :: nat) + 32) else c)"

definition to_lower :: "string \<Rightarrow> string" where
  "to_lower s = map to_lower_char s"

definition digits_val :: "string \<Rightarrow> int" where
  "digits_val s = foldl (\<lambda>n c. 10 * n + digit_val c) 0 s"

text \<open>The longest unsigned decimal literal at the head of a string, and what follows it.\<close>

definition scan_exp :: "string \<Rightarrow> int \<times> string" where
  "scan_exp s = (case s of
      [] \<Rightarrow> (0, s)
    | c # t \<Rightarrow>
        if c = CHR ''e'' \<or> c = CHR ''E'' then
          (let neg = (t \<noteq> [] \<and> hd t = CHR ''-'');
               u = (if t \<noteq> [] \<and> (hd t = CHR ''-'' \<or> hd t = CHR ''+'') then tl t else t);
               ds = takeWhile is_digit u
           in if ds = [] then (0, s)
              else ((if neg then - digits_val ds else digits_val ds), dropWhile is_digit u))
        else (0, s))"

definition scan_dec :: "string \<Rightarrow> (rat \<times> string) option" where
  "scan_dec s =
     (let ip = takeWhile is_digit s; r1 = dropWhile is_digit s;
          dot = (r1 \<noteq> [] \<and> hd r1 = CHR ''.'');
          fp = (if dot then takeWhile is_digit (tl r1) else []);
          r2 = (if dot then dropWhile is_digit (tl r1) else r1)
      in if ip = [] \<and> fp = [] then None
         else (let (e, r3) = scan_exp r2
               in Some (of_int (digits_val (ip @ fp)) * 10 powi (e - int (length fp)), r3)))"

definition split_sign :: "string \<Rightarrow> bool \<times> string" where
  "split_sign s = (case s of [] \<Rightarrow> (False, [])
     | c # t \<Rightarrow> if c = CHR ''-'' then (True, t) else if c = CHR ''+'' then (False, t) else (False, s))"

definition parse_float :: "string \<Rightarrow> jsnum" where
  "parse_float str =
     (let (neg, s) = split_sign (trim_start str)
      in if starts_with ''Infinity'' s then Infty (\<not> neg)
         else case scan_dec s of None \<Rightarrow> NaN | Some (x, _) \<Rightarrow> dbl (if neg then - x else x))"

definition hex_val :: "char \<Rightarrow> int option" where
  "hex_val c = (let n = (of_char (to_lower_char c) :: int) in
     if 48 \<le> n \<and> n \<le> 57 then Some (n - 48) else if 97 \<le> n \<and> n \<le> 102 then Some (n - 87) else None)"

definition radix_digit :: "int \<Rightarrow> char \<Rightarrow> bool" where
  "radix_digit r c = (case hex_val c of None \<Rightarrow> False | Some d \<Rightarrow> d < r)"

definition radix_val :: "int \<Rightarrow> string \<Rightarrow> int" where
  "radix_val r s = foldl (\<lambda>n c. r * n + (case hex_val c of None \<Rightarrow> 0 | Some d \<Rightarrow> d)) 0 s"

text \<open>\<open>parseInt\<close> with no radix: an optional sign, \<open>0x\<close> for hexadecimal, the longest run of digits.\<close>

definition parse_int :: "string \<Rightarrow> jsnum" where
  "parse_int str =
     (let (neg, s) = split_sign (trim_start str);
          hex = starts_with ''0x'' (to_lower s);
          r = (if hex then 16 else 10);
          ds = takeWhile (radix_digit r) (if hex then drop 2 s else s)
      in if ds = [] then NaN
         else dbl (of_int (if neg then - radix_val r ds else radix_val r ds)))"

text \<open>\<open>Number(string)\<close>.\<close>

definition str_to_num :: "string \<Rightarrow> jsnum" where
  "str_to_num str =
     (let t = trim str; (neg, s) = split_sign t; p = take 2 (to_lower t); ds = drop 2 t;
          lit = (\<lambda>r. if ds \<noteq> [] \<and> list_all (radix_digit r) ds then dbl (of_int (radix_val r ds)) else NaN)
      in if t = [] then Fin 0
         else if p = ''0x'' then lit 16 else if p = ''0o'' then lit 8 else if p = ''0b'' then lit 2
         else if s = ''Infinity'' then Infty (\<not> neg)
         else case scan_dec s of None \<Rightarrow> NaN
                | Some (x, rest) \<Rightarrow> if rest = [] then dbl (if neg then - x else x) else NaN)"

section \<open>Printing numbers\<close>

fun nat_digits :: "nat \<Rightarrow> string" where
  "nat_digits n = (if n < 10 then [digit_char (int n)]
     else nat_digits (n div 10) @ [digit_char (int (n mod 10))])"

declare nat_digits.simps [simp del]

definition int_to_string :: "int \<Rightarrow> string" where
  "int_to_string n = (if n < 0 then CHR ''-'' # nat_digits (nat (- n)) else nat_digits (nat n))"

text \<open>
  \<open>Number::toString\<close>: the least number of digits \<open>k\<close> whose decimal rounds to the value, and
  for it the closest such decimal. \<open>n\<close> is the decimal exponent: \<open>10^(n-1) <= x < 10^n\<close>.
\<close>

function dec_exp_up :: "rat \<Rightarrow> int \<Rightarrow> nat \<Rightarrow> int" where
  "dec_exp_up x n 0 = n"
| "dec_exp_up x n (Suc f) = (if 10 powi n \<le> x then dec_exp_up x (n + 1) f else n)"
  by pat_completeness auto
termination by (relation "measure (\<lambda>(x, n, f). f)") auto

function dec_exp_down :: "rat \<Rightarrow> int \<Rightarrow> nat \<Rightarrow> int" where
  "dec_exp_down x n 0 = n"
| "dec_exp_down x n (Suc f) = (if x < 10 powi (n - 1) then dec_exp_down x (n - 1) f else n)"
  by pat_completeness auto
termination by (relation "measure (\<lambda>(x, n, f). f)") auto

definition dec_exp :: "rat \<Rightarrow> int" where
  "dec_exp x = dec_exp_down x (dec_exp_up x 0 310) 330"

definition try_digits :: "rat \<Rightarrow> int \<Rightarrow> nat \<Rightarrow> int option" where
  "try_digits x n k =
     (let y = x * 10 powi (int k - n); s = rhe y; s' = (if of_int s \<le> y then s + 1 else s - 1)
      in if rnd (of_int s * 10 powi (n - int k)) = x then Some s
         else if rnd (of_int s' * 10 powi (n - int k)) = x then Some s' else None)"

fun shortest :: "rat \<Rightarrow> int \<Rightarrow> nat \<Rightarrow> nat \<Rightarrow> int \<times> nat" where
  "shortest x n k 0 = (rhe (x * 10 powi (int k - n)), k)"
| "shortest x n k (Suc f) = (case try_digits x n k of Some s \<Rightarrow> (s, k) | None \<Rightarrow> shortest x n (Suc k) f)"

definition fin_to_string :: "rat \<Rightarrow> string" where
  "fin_to_string x =
     (if x = 0 then ''0'' else
      let a = \<bar>x\<bar>; n = dec_exp a; (s, k) = shortest a n 1 16; ds = int_to_string s;
          n' = n + (int (length ds) - int k); k' = int (length ds);
          body =
            (if k' \<le> n' \<and> n' \<le> 21 then ds @ replicate (nat (n' - k')) (CHR ''0'')
             else if 0 < n' \<and> n' \<le> 21 then take (nat n') ds @ ''.'' @ drop (nat n') ds
             else if -6 < n' \<and> n' \<le> 0 then ''0.'' @ replicate (nat (- n')) (CHR ''0'') @ ds
             else take 1 ds @ (if k' = 1 then [] else ''.'' @ drop 1 ds) @ ''e'' @
                  (if 0 \<le> n' - 1 then ''+'' else ''-'') @ nat_digits (nat \<bar>n' - 1\<bar>))
      in if x < 0 then CHR ''-'' # body else body)"

definition num_to_string :: "jsnum \<Rightarrow> string" where
  "num_to_string v = (case v of NaN \<Rightarrow> ''NaN'' | Infty b \<Rightarrow> (if b then ''Infinity'' else ''-Infinity'')
     | Fin x \<Rightarrow> if x = of_int \<lfloor>x\<rfloor> \<and> \<bar>x\<bar> < 10 ^ 21 \<and> \<bar>x\<bar> \<le> 2 ^ 53 then int_to_string \<lfloor>x\<rfloor> else fin_to_string x)"

text \<open>\<open>x.toFixed(f)\<close>: the closest decimal with \<open>f\<close> fraction digits, the larger on a tie.\<close>

definition to_fixed :: "jsnum \<Rightarrow> nat \<Rightarrow> string" where
  "to_fixed v f = (case v of Fin x \<Rightarrow>
       if 10 ^ 21 \<le> \<bar>x\<bar> then num_to_string v
       else (let n = \<lfloor>\<bar>x\<bar> * 10 ^ f + 1/2\<rfloor>; m = nat_digits (nat n);
                 z = replicate (f + 1 - length m) (CHR ''0'') @ m; k = length z - f
             in (if x < 0 then ''-'' else '''') @ take k z @ (if f = 0 then [] else ''.'' @ drop k z))
     | _ \<Rightarrow> num_to_string v)"

section \<open>Coercions\<close>

fun to_string :: "jsval \<Rightarrow> string" and arr_join :: "jsval list \<Rightarrow> string" where
  "to_string Undef = ''undefined''"
| "to_string Null = ''null''"
| "to_string (Bool b) = (if b then ''true'' else ''false'')"
| "to_string (Num x) = num_to_string x"
| "to_string (Str s) = s"
| "to_string (Date t) = num_to_string t"
| "to_string (Obj _) = ''[object Object]''"
| "to_string (Arr vs) = arr_join vs"
| "arr_join [] = []"
| "arr_join [v] = (if v = Undef \<or> v = Null then [] else to_string v)"
| "arr_join (v # vs) = (if v = Undef \<or> v = Null then [] else to_string v) @ '','' @ arr_join vs"

fun to_number :: "jsval \<Rightarrow> jsnum" where
  "to_number Undef = NaN"
| "to_number Null = Fin 0"
| "to_number (Bool b) = (if b then Fin 1 else Fin 0)"
| "to_number (Num x) = x"
| "to_number (Str s) = str_to_num s"
| "to_number (Date t) = t"
| "to_number (Arr vs) = str_to_num (arr_join vs)"
| "to_number (Obj _) = NaN"

definition is_nan :: "jsval \<Rightarrow> bool" where
  "is_nan v = num_is_nan (to_number v)"

fun strict_eq :: "jsval \<Rightarrow> jsval \<Rightarrow> bool" where
  "strict_eq Undef Undef = True"
| "strict_eq Null Null = True"
| "strict_eq (Bool a) (Bool b) = (a = b)"
| "strict_eq (Num a) (Num b) = num_eq a b"
| "strict_eq (Str a) (Str b) = (a = b)"
| "strict_eq _ _ = False"

fun is_prim :: "jsval \<Rightarrow> bool" where
  "is_prim (Arr _) = False"
| "is_prim (Obj _) = False"
| "is_prim (Date _) = False"
| "is_prim _ = True"

definition nullish :: "jsval \<Rightarrow> bool" where
  "nullish v = (v = Undef \<or> v = Null)"

definition to_prim :: "jsval \<Rightarrow> jsval" where
  "to_prim v = (if is_prim v then v else Str (to_string v))"

text \<open>\<open>a == b\<close>.\<close>

definition loose_eq :: "jsval \<Rightarrow> jsval \<Rightarrow> bool" where
  "loose_eq a b =
     (if nullish a \<or> nullish b then nullish a \<and> nullish b
      else if \<not> is_prim a \<and> \<not> is_prim b then False
      else (let p = to_prim a; q = to_prim b in
        case (p, q) of (Str s, Str t) \<Rightarrow> s = t | _ \<Rightarrow> num_eq (to_number p) (to_number q)))"

fun str_lt :: "string \<Rightarrow> string \<Rightarrow> bool" where
  "str_lt _ [] = False"
| "str_lt [] (_ # _) = True"
| "str_lt (a # s) (b # t) = ((of_char a :: nat) < of_char b \<or> (a = b \<and> str_lt s t))"

text \<open>\<open>a < b\<close>, \<open>a <= b\<close>: numeric unless both sides are strings; a date compares by its time.\<close>

definition rel_prim :: "jsval \<Rightarrow> jsval" where
  "rel_prim v = (case v of Date t \<Rightarrow> Num t | _ \<Rightarrow> to_prim v)"

definition js_lt :: "jsval \<Rightarrow> jsval \<Rightarrow> bool" where
  "js_lt a b = (case (rel_prim a, rel_prim b) of (Str s, Str t) \<Rightarrow> str_lt s t
     | (p, q) \<Rightarrow> to_number p < to_number q)"

definition js_le :: "jsval \<Rightarrow> jsval \<Rightarrow> bool" where
  "js_le a b = (case (rel_prim a, rel_prim b) of (Str s, Str t) \<Rightarrow> \<not> str_lt t s
     | (p, q) \<Rightarrow> to_number p \<le> to_number q)"

text \<open>\<open>a + b\<close>: concatenation when either side is a string after conversion to a primitive.\<close>

definition js_add :: "jsval \<Rightarrow> jsval \<Rightarrow> jsval" where
  "js_add a b = (let p = to_prim a; q = to_prim b in
     case (p, q) of (Str s, _) \<Rightarrow> Str (s @ to_string q) | (_, Str t) \<Rightarrow> Str (to_string p @ t)
     | _ \<Rightarrow> Num (to_number p + to_number q))"

lemma js_lt_Num [simp]: "js_lt (Num a) (Num b) = (a < b)"
  by (simp add: js_lt_def rel_prim_def to_prim_def)

lemma js_le_Num [simp]: "js_le (Num a) (Num b) = (a \<le> b)"
  by (simp add: js_le_def rel_prim_def to_prim_def)

lemma js_add_Num [simp]: "js_add (Num a) (Num b) = Num (a + b)"
  by (simp add: js_add_def to_prim_def)

lemma js_add_Str [simp]: "js_add (Str s) (Str t) = Str (s @ t)"
  by (simp add: js_add_def to_prim_def)

end
