(* ===== verification/DocStore.thy ===== *)
theory DocStore
  imports JSVal
begin

text \<open>
  The interface of the document database the services rely on, as far as the proofs use
  it: the effect of an update \<open>{$set: s}\<close> on one document. The driver and the server are
  not part of the repository; the models take the update as an argument and the laws
  below are the documented behaviour they need. The association list model of a document
  is an instance.
\<close>

lemma fld_aupd [simp, js_simps]: "fld (aupd k v d) k' = (if k' = k then v else fld d k')"
  by (simp add: fld_def)

lemma fld_Nil [simp]: "fld [] k = Undef"
  by (simp add: fld_def)

lemma fld_Cons [simp]: "fld (p # d) k = (if fst p = k then snd p else fld d k)"
  by (cases p) (simp add: fld_def)

lemma fld_absent: "\<not> has_key k d \<Longrightarrow> fld d k = Undef"
  by (simp add: fld_def has_key_def)

lemma fld_adel [simp]: "fld (adel k d) k' = (if k' = k then Undef else fld d k')"
  by (simp add: fld_def)

lemma fld_aspread:
  "distinct (map fst s) \<Longrightarrow> fld (aspread d s) k = (if has_key k s then fld s k else fld d k)"
  by (induction s arbitrary: d) (auto simp: has_key_iff)

lemma map_of_append_doc [simp]: "map_of (a @ b) k = (case map_of a k of None \<Rightarrow> map_of b k | Some v \<Rightarrow> Some v)"
  by (simp add: map_add_def split: option.splits)

lemma has_key_append [simp]: "has_key k (a @ b) \<longleftrightarrow> has_key k a \<or> has_key k b"
  by (auto simp: has_key_iff)

locale mongo_set =
  fixes upd :: "doc \<Rightarrow> doc \<Rightarrow> doc"
  assumes upd_written: "distinct (map fst s) \<Longrightarrow> has_key k s \<Longrightarrow> map_of (upd d s) k = map_of s k"
    and upd_other: "distinct (map fst s) \<Longrightarrow> \<not> has_key k s \<Longrightarrow> map_of (upd d s) k = map_of d k"
begin

lemma fld_upd:
  assumes "distinct (map fst s)"
  shows "fld (upd d s) k = (if has_key k s then fld s k else fld d k)"
  using upd_written[OF assms, of k d] upd_other[OF assms, of k d] by (simp add: fld_def)

lemma has_key_upd:
  assumes "distinct (map fst s)"
  shows "has_key k (upd d s) \<longleftrightarrow> has_key k s \<or> has_key k d"
  using upd_written[OF assms, of k d] upd_other[OF assms, of k d]
  by (cases "has_key k s") (auto simp: has_key_def)

text \<open>The last of two updates of the same fields wins, and an update is idempotent.\<close>

lemma upd_idem_fld:
  assumes "distinct (map fst s)"
  shows "fld (upd (upd d s) s) k = fld (upd d s) k"
  using fld_upd[OF assms] by simp

end

lemma map_of_aspread:
  "distinct (map fst s) \<Longrightarrow> map_of (aspread d s) k = (if has_key k s then map_of s k else map_of d k)"
proof (induction s arbitrary: d)
  case (Cons p s)
  then show ?case by (cases p) (auto simp: has_key_iff)
qed simp

interpretation alist_set: mongo_set aspread
  by unfold_locales (simp_all add: map_of_aspread)

end
