(* ===== verification/Redundancy.thy ===== *)
theory Redundancy
  imports DocStore
begin

text \<open>
  Active/standby control shared by the services (\<open>redundancy.js\<close> of
  \<open>cs_data_processor\<close>, \<open>mongofw\<close>, \<open>mongowr\<close>, \<open>mqtt-sparkplug\<close>, \<open>n8n-client\<close> and
  \<open>camera-onvif\<close>). Every node polls the instance document kept in MongoDB; the active
  node refreshes its keep-alive time, a standby node counts the polls that find the
  keep-alive unchanged and takes over after more than \<open>countKeepAliveUpdatesLimit\<close>.
  The module state is a record, the document found by \<open>findOne\<close> is an argument, the
  writes it issues are returned. An ISO string is represented by the time it prints.
\<close>

section \<open>State, configuration and the variants of the module\<close>

record red_state =
  ProcessActive :: bool
  lastActiveNodeKeepAliveTimeTag :: "rat option"
  countKeepAliveNotUpdated :: nat

record red_config =
  cNAME :: string
  cVERSION :: string
  cInstance :: jsnum
  cLogLevel :: jsnum
  cnodeName :: string

text \<open>
  What differs between the copies: the key fields of the document, the early return when
  MongoDB is disconnected, the \<open>Array.isArray\<close> guard on \<open>nodeNames\<close>, the log level
  written on creation and the \<open>stats\<close> field of the keep-alive update.
\<close>

record red_variant =
  nameField :: string
  numberField :: string
  connectedGuard :: bool
  arrayGuard :: bool
  fixedLogLevel :: "jsnum option"
  statsField :: "jsval option"

datatype red_write =
    InsertInstance doc
  | UpdateInstance doc doc

datatype red_result = Continue red_state "red_write list" | Exit

definition red_init :: red_state where
  "red_init = \<lparr>ProcessActive = False, lastActiveNodeKeepAliveTimeTag = None, countKeepAliveNotUpdated = 0\<rparr>"

definition countKeepAliveUpdatesLimit :: nat where
  "countKeepAliveUpdatesLimit = 4"

section \<open>One poll\<close>

definition keepalive_tag :: "doc \<Rightarrow> js_error + rat option" where
  "keepalive_tag inst =
     (case map_of inst ''activeNodeKeepAliveTimeTag'' of
        None \<Rightarrow> Inr None
      | Some (Date (Fin t)) \<Rightarrow> Inr (Some t)
      | Some (Date _) \<Rightarrow> Inl RangeError
      | Some _ \<Rightarrow> Inl TypeError)"

text \<open>The \<open>nodeNames\<close> test: \<open>Inr False\<close> when the node is not in a non-empty list.\<close>

definition node_allowed :: "bool \<Rightarrow> doc \<Rightarrow> string \<Rightarrow> js_error + bool" where
  "node_allowed guard inst name =
     (case fld inst ''nodeNames'' of
        Arr vs \<Rightarrow> Inr (vs = [] \<or> Str name \<in> set vs)
      | v \<Rightarrow> if guard then Inr True else
          (case v of
             Null \<Rightarrow> Inr True
           | Undef \<Rightarrow> Inl TypeError
           | Str s \<Rightarrow> Inr (s = [] \<or> 0 \<le> index_of name s)
           | Obj d \<Rightarrow> if js_lt (Num (Fin 0)) (fld d ''length'') then Inl TypeError else Inr True
           | _ \<Rightarrow> Inr True))"

definition instance_key :: "red_variant \<Rightarrow> red_config \<Rightarrow> doc" where
  "instance_key v cfg = [(nameField v, Str (cNAME cfg)), (numberField v, Num (cInstance cfg))]"

definition new_instance_doc :: "red_variant \<Rightarrow> red_config \<Rightarrow> jsnum \<Rightarrow> doc" where
  "new_instance_doc v cfg now = instance_key v cfg @
     [(''enabled'', Bool True),
      (''logLevel'', Num (case fixedLogLevel v of None \<Rightarrow> cLogLevel cfg | Some l \<Rightarrow> l)),
      (''nodeNames'', Arr []),
      (''activeNodeName'', Str (cnodeName cfg)),
      (''activeNodeKeepAliveTimeTag'', Date now)]"

definition keepalive_set :: "red_variant \<Rightarrow> red_config \<Rightarrow> jsnum \<Rightarrow> doc" where
  "keepalive_set v cfg now =
     [(''activeNodeName'', Str (cnodeName cfg)),
      (''activeNodeKeepAliveTimeTag'', Date now),
      (''softwareVersion'', Str (cVERSION cfg))] @
     (case statsField v of None \<Rightarrow> [] | Some s \<Rightarrow> [(''stats'', s)])"

text \<open>The decision on the state, when the document names this node or another one.\<close>

definition own_tick :: "red_state \<Rightarrow> red_state" where
  "own_tick st = st\<lparr>countKeepAliveNotUpdated := 0, ProcessActive := True\<rparr>"

definition other_tick :: "rat option \<Rightarrow> red_state \<Rightarrow> red_state" where
  "other_tick tag st =
     (let st1 = (if ProcessActive st then st\<lparr>countKeepAliveNotUpdated := 0\<rparr> else st);
          st2 = st1\<lparr>ProcessActive := False\<rparr>;
          st3 = (if lastActiveNodeKeepAliveTimeTag st2 = tag
                 then st2\<lparr>countKeepAliveNotUpdated := countKeepAliveNotUpdated st2 + 1\<rparr>
                 else st2\<lparr>countKeepAliveNotUpdated := 0\<rparr>);
          st4 = st3\<lparr>lastActiveNodeKeepAliveTimeTag := tag\<rparr>
      in if countKeepAliveNotUpdated st4 > countKeepAliveUpdatesLimit
         then st4\<lparr>countKeepAliveNotUpdated := 0, ProcessActive := True\<rparr> else st4)"

text \<open>
  \<open>ProcessRedundancy\<close> once \<open>findOne\<close> has answered: \<open>None\<close> for no document. An exception is
  caught and logged, the state stays as it was when it was thrown.
\<close>

definition process_redundancy ::
  "red_variant \<Rightarrow> red_config \<Rightarrow> bool \<Rightarrow> doc option \<Rightarrow> jsnum \<Rightarrow> red_state \<Rightarrow> red_result" where
  "process_redundancy v cfg conn found now st =
     (if connectedGuard v \<and> \<not> conn then Continue (st\<lparr>ProcessActive := False\<rparr>) []
      else case found of
        None \<Rightarrow> Continue (st\<lparr>ProcessActive := True\<rparr>) [InsertInstance (new_instance_doc v cfg now)]
      | Some inst \<Rightarrow>
          (case keepalive_tag inst of
             Inl e \<Rightarrow> Continue st []
           | Inr tag \<Rightarrow>
               if strict_eq (fld inst ''enabled'') (Bool False) then Exit
               else (case node_allowed (arrayGuard v) inst (cnodeName cfg) of
                   Inl e \<Rightarrow> Continue st []
                 | Inr False \<Rightarrow> Exit
                 | Inr True \<Rightarrow>
                     (let st' = (if strict_eq (fld inst ''activeNodeName'') (Str (cnodeName cfg))
                                 then own_tick st else other_tick tag st)
                      in Continue st' (if ProcessActive st'
                           then [UpdateInstance (instance_key v cfg) (keepalive_set v cfg now)] else [])))))"

text \<open>The body of the interval timer installed by \<open>Start\<close>.\<close>

definition interval_tick ::
  "red_variant \<Rightarrow> red_config \<Rightarrow> bool \<Rightarrow> doc option \<Rightarrow> jsnum \<Rightarrow> red_state \<Rightarrow> red_result" where
  "interval_tick v cfg conn found now st =
     (if \<not> conn then Continue (st\<lparr>ProcessActive := False\<rparr>) []
      else process_redundancy v cfg conn found now st)"

section \<open>The copies of the module\<close>

definition cs_data_processor_variant :: "jsval \<Rightarrow> red_variant" where
  "cs_data_processor_variant stats = \<lparr>nameField = ''processName'', numberField = ''processInstanceNumber'',
     connectedGuard = False, arrayGuard = False, fixedLogLevel = None, statsField = Some stats\<rparr>"

definition mongofw_variant :: red_variant where
  "mongofw_variant = \<lparr>nameField = ''processName'', numberField = ''processInstanceNumber'',
     connectedGuard = False, arrayGuard = False, fixedLogLevel = Some (Fin 1), statsField = Some (Obj [])\<rparr>"

definition mongowr_variant :: red_variant where
  "mongowr_variant = \<lparr>nameField = ''processName'', numberField = ''processInstanceNumber'',
     connectedGuard = False, arrayGuard = False, fixedLogLevel = Some (Fin 1), statsField = Some (Obj [])\<rparr>"

definition mqtt_variant :: red_variant where
  "mqtt_variant = \<lparr>nameField = ''protocolDriver'', numberField = ''protocolDriverInstanceNumber'',
     connectedGuard = False, arrayGuard = True, fixedLogLevel = None, statsField = Some (Obj [])\<rparr>"

definition n8n_variant :: red_variant where
  "n8n_variant = \<lparr>nameField = ''protocolDriver'', numberField = ''protocolDriverInstanceNumber'',
     connectedGuard = True, arrayGuard = False, fixedLogLevel = None, statsField = None\<rparr>"

definition camera_variant :: red_variant where
  "camera_variant = \<lparr>nameField = ''protocolDriver'', numberField = ''protocolDriverInstanceNumber'',
     connectedGuard = True, arrayGuard = False, fixedLogLevel = None, statsField = None\<rparr>"

definition cs_data_processor_redundancy ::
  "jsval \<Rightarrow> red_config \<Rightarrow> bool \<Rightarrow> doc option \<Rightarrow> jsnum \<Rightarrow> red_state \<Rightarrow> red_result" where
  "cs_data_processor_redundancy stats = process_redundancy (cs_data_processor_variant stats)"

definition mongofw_redundancy ::
  "red_config \<Rightarrow> bool \<Rightarrow> doc option \<Rightarrow> jsnum \<Rightarrow> red_state \<Rightarrow> red_result" where
  "mongofw_redundancy = process_redundancy mongofw_variant"

definition mongowr_redundancy ::
  "red_config \<Rightarrow> bool \<Rightarrow> doc option \<Rightarrow> jsnum \<Rightarrow> red_state \<Rightarrow> red_result" where
  "mongowr_redundancy = process_redundancy mongowr_variant"

definition mqtt_redundancy ::
  "red_config \<Rightarrow> bool \<Rightarrow> doc option \<Rightarrow> jsnum \<Rightarrow> red_state \<Rightarrow> red_result" where
  "mqtt_redundancy = process_redundancy mqtt_variant"

definition n8n_redundancy ::
  "red_config \<Rightarrow> bool \<Rightarrow> doc option \<Rightarrow> jsnum \<Rightarrow> red_state \<Rightarrow> red_result" where
  "n8n_redundancy = process_redundancy n8n_variant"

definition camera_redundancy ::
  "red_config \<Rightarrow> bool \<Rightarrow> doc option \<Rightarrow> jsnum \<Rightarrow> red_state \<Rightarrow> red_result" where
  "camera_redundancy = process_redundancy camera_variant"

section \<open>Lemmas on one poll\<close>

lemma own_tick_simps [simp]:
  "ProcessActive (own_tick st)" "countKeepAliveNotUpdated (own_tick st) = 0"
  "lastActiveNodeKeepAliveTimeTag (own_tick st) = lastActiveNodeKeepAliveTimeTag st"
  by (simp_all add: own_tick_def)

lemma other_tick_last [simp]: "lastActiveNodeKeepAliveTimeTag (other_tick tag st) = tag"
  by (simp add: other_tick_def Let_def)

lemma other_tick_changed:
  "lastActiveNodeKeepAliveTimeTag st \<noteq> tag \<Longrightarrow>
   countKeepAliveNotUpdated (other_tick tag st) = 0 \<and> \<not> ProcessActive (other_tick tag st)"
  by (simp add: other_tick_def Let_def countKeepAliveUpdatesLimit_def)

lemma other_tick_same:
  assumes "lastActiveNodeKeepAliveTimeTag st = tag"
  shows "countKeepAliveNotUpdated (other_tick tag st) =
           (let c = (if ProcessActive st then 0 else countKeepAliveNotUpdated st) in if c < 4 then c + 1 else 0)"
    and "ProcessActive (other_tick tag st) \<longleftrightarrow> \<not> ProcessActive st \<and> 4 \<le> countKeepAliveNotUpdated st"
  using assms by (auto simp: other_tick_def Let_def countKeepAliveUpdatesLimit_def)

text \<open>The documents the services write and read: the fields have the types of the schema.\<close>

definition wf_instance :: "doc \<Rightarrow> bool" where
  "wf_instance inst \<longleftrightarrow> (\<exists>t. map_of inst ''activeNodeKeepAliveTimeTag'' = Some (Date (Fin t))) \<and>
     (\<exists>vs. fld inst ''nodeNames'' = Arr vs)"

definition may_run :: "doc \<Rightarrow> string \<Rightarrow> bool" where
  "may_run inst name \<longleftrightarrow> fld inst ''enabled'' \<noteq> Bool False \<and> node_allowed False inst name = Inr True"

definition names_node :: "doc \<Rightarrow> string \<Rightarrow> bool" where
  "names_node inst name \<longleftrightarrow> fld inst ''activeNodeName'' = Str name"

lemma strict_eq_str [simp]: "strict_eq v (Str s) \<longleftrightarrow> v = Str s"
  and strict_eq_bool [simp]: "strict_eq v (Bool b) \<longleftrightarrow> v = Bool b"
  by (cases v; simp)+

lemma wf_node_allowed: "wf_instance inst \<Longrightarrow> node_allowed g inst name = node_allowed g' inst name"
  by (auto simp: wf_instance_def node_allowed_def)

lemma wf_node_allowed_Inr: "wf_instance inst \<Longrightarrow> \<exists>b. node_allowed g inst name = Inr b"
  by (auto simp: wf_instance_def node_allowed_def)

lemma wf_keepalive: "wf_instance inst \<Longrightarrow> \<exists>t. keepalive_tag inst = Inr (Some t)"
  by (auto simp: wf_instance_def keepalive_tag_def)

lemma process_redundancy_running:
  assumes "wf_instance inst" "may_run inst (cnodeName cfg)" "keepalive_tag inst = Inr tag"
    and "conn \<or> \<not> connectedGuard v"
  shows "process_redundancy v cfg conn (Some inst) now st =
     (let st' = (if names_node inst (cnodeName cfg) then own_tick st else other_tick tag st)
      in Continue st' (if ProcessActive st'
           then [UpdateInstance (instance_key v cfg) (keepalive_set v cfg now)] else []))"
  using assms wf_node_allowed[of inst "arrayGuard v" "cnodeName cfg" False]
  by (auto simp: process_redundancy_def may_run_def names_node_def)

lemma process_redundancy_exit_iff:
  assumes "wf_instance inst" "conn \<or> \<not> connectedGuard v"
  shows "process_redundancy v cfg conn (Some inst) now st = Exit \<longleftrightarrow> \<not> may_run inst (cnodeName cfg)"
proof -
  obtain t where t: "keepalive_tag inst = Inr (Some t)" using wf_keepalive[OF assms(1)] by blast
  obtain b where b: "node_allowed (arrayGuard v) inst (cnodeName cfg) = Inr b"
    using wf_node_allowed_Inr[OF assms(1)] by blast
  with wf_node_allowed[OF assms(1), of False "cnodeName cfg" "arrayGuard v"]
  show ?thesis using assms t
    by (cases b) (auto simp: process_redundancy_def may_run_def Let_def)
qed

section \<open>A sequence of polls of one node\<close>

fun red_run ::
  "red_variant \<Rightarrow> red_config \<Rightarrow> (doc \<times> jsnum) list \<Rightarrow> red_state \<Rightarrow> red_result" where
  "red_run v cfg [] st = Continue st []"
| "red_run v cfg ((inst, now) # xs) st =
     (case interval_tick v cfg True (Some inst) now st of
        Exit \<Rightarrow> Exit
      | Continue st' ws \<Rightarrow>
          (case red_run v cfg xs st' of Exit \<Rightarrow> Exit | Continue st'' ws' \<Rightarrow> Continue st'' (ws @ ws')))"

definition standby_doc :: "red_config \<Rightarrow> rat option \<Rightarrow> doc \<Rightarrow> bool" where
  "standby_doc cfg tag inst \<longleftrightarrow> wf_instance inst \<and> may_run inst (cnodeName cfg) \<and>
     keepalive_tag inst = Inr tag \<and> \<not> names_node inst (cnodeName cfg)"

lemma interval_tick_standby:
  assumes "standby_doc cfg tag inst"
  shows "interval_tick v cfg True (Some inst) now st =
     Continue (other_tick tag st) (if ProcessActive (other_tick tag st)
        then [UpdateInstance (instance_key v cfg) (keepalive_set v cfg now)] else [])"
  using assms process_redundancy_running[of inst cfg tag True v now st]
  by (simp add: standby_doc_def interval_tick_def)

text \<open>The state reached over documents that name another node is the fold of the decision.\<close>

lemma red_run_standby_state:
  assumes "list_all2 (\<lambda>tag x. standby_doc cfg tag (fst x)) tags xs"
  shows "\<exists>ws. red_run v cfg xs st = Continue (fold other_tick tags st) ws"
  using assms
proof (induction tags xs arbitrary: st rule: list_all2_induct)
  case (Cons tag tags x xs)
  obtain inst now where x: "x = (inst, now)" by (cases x)
  from Cons(3)[of "other_tick tag st"] obtain ws
    where "red_run v cfg xs (other_tick tag st) = Continue (fold other_tick tags (other_tick tag st)) ws"
    by blast
  with Cons(1) show ?case by (simp add: x interval_tick_standby)
qed simp

text \<open>The counter counts the last observations that found the keep-alive unchanged.\<close>

definition counts_repeats :: "rat option list \<Rightarrow> red_state \<Rightarrow> bool" where
  "counts_repeats h st \<longleftrightarrow> countKeepAliveNotUpdated st \<le> countKeepAliveUpdatesLimit \<and>
     (\<exists>p. h = p @ replicate (countKeepAliveNotUpdated st + 1) (lastActiveNodeKeepAliveTimeTag st))"

lemma replicate_snoc: "replicate n x @ [x] = replicate (Suc n) x"
  by (simp add: replicate_append_same)

lemma other_tick_counts:
  assumes "counts_repeats h st"
  shows "counts_repeats (h @ [tag]) (other_tick tag st)"
    and "ProcessActive (other_tick tag st) \<Longrightarrow> \<exists>p. h @ [tag] = p @ replicate 6 tag"
proof -
  obtain p where h: "h = p @ replicate (countKeepAliveNotUpdated st + 1) (lastActiveNodeKeepAliveTimeTag st)"
    and le: "countKeepAliveNotUpdated st \<le> 4"
    using assms by (auto simp: counts_repeats_def countKeepAliveUpdatesLimit_def)
  let ?c = "if ProcessActive st then 0 else countKeepAliveNotUpdated st"
  have rep: "\<exists>p. h @ [tag] = p @ replicate (n + 1) tag"
    if "lastActiveNodeKeepAliveTimeTag st = tag" "n \<le> countKeepAliveNotUpdated st + 1" for n
  proof -
    have "h @ [tag] = p @ replicate (countKeepAliveNotUpdated st + 2) tag"
      using h that(1) by (simp add: replicate_append_same)
    also have "countKeepAliveNotUpdated st + 2 = (countKeepAliveNotUpdated st + 1 - n) + (n + 1)"
      using that(2) by simp
    also have "replicate \<dots> tag =
        replicate (countKeepAliveNotUpdated st + 1 - n) tag @ replicate (n + 1) tag"
      by (rule replicate_add)
    finally show ?thesis by (intro exI[of _ "p @ replicate (countKeepAliveNotUpdated st + 1 - n) tag"]) simp
  qed
  show "counts_repeats (h @ [tag]) (other_tick tag st)"
  proof (cases "lastActiveNodeKeepAliveTimeTag st = tag")
    case True
    let ?n = "countKeepAliveNotUpdated (other_tick tag st)"
    have n: "?n \<le> countKeepAliveNotUpdated st + 1" "?n \<le> 4"
      using other_tick_same(1)[OF True] by (auto simp: Let_def)
    then show ?thesis using rep[OF True n(1)]
      by (simp add: counts_repeats_def countKeepAliveUpdatesLimit_def)
  next
    case False
    then show ?thesis using other_tick_changed[OF False] by (simp add: counts_repeats_def)
  qed
  show "\<exists>p. h @ [tag] = p @ replicate 6 tag" if act: "ProcessActive (other_tick tag st)"
  proof -
    have True: "lastActiveNodeKeepAliveTimeTag st = tag"
      using other_tick_changed act by blast
    then have "4 \<le> countKeepAliveNotUpdated st" using other_tick_same(2)[OF True] act by simp
    then show ?thesis using rep[OF True, of 5] by simp
  qed
qed

lemma fold_other_tick_counts:
  assumes "counts_repeats h st"
  shows "counts_repeats (h @ tags) (fold other_tick tags st)"
  using assms
proof (induction tags arbitrary: h st)
  case (Cons t tags)
  from Cons.IH[OF other_tick_counts(1)[OF Cons.prems]] show ?case by simp
qed simp

section \<open>Failover\<close>

lemma other_tick_fold_same:
  assumes "\<not> ProcessActive st" "lastActiveNodeKeepAliveTimeTag st = tag" "countKeepAliveNotUpdated st + n \<le> 4"
  shows "\<not> ProcessActive (fold other_tick (replicate n tag) st) \<and>
     countKeepAliveNotUpdated (fold other_tick (replicate n tag) st) = countKeepAliveNotUpdated st + n \<and>
     lastActiveNodeKeepAliveTimeTag (fold other_tick (replicate n tag) st) = tag"
  using assms
proof (induction n arbitrary: st)
  case (Suc n)
  have "\<not> ProcessActive (other_tick tag st)" "countKeepAliveNotUpdated (other_tick tag st) = countKeepAliveNotUpdated st + 1"
    using other_tick_same[OF Suc.prems(2)] Suc.prems by simp_all
  then show ?case using Suc.IH[of "other_tick tag st"] Suc.prems by simp
qed simp

lemma standby_prefix_inactive:
  assumes "\<not> ProcessActive st" "lastActiveNodeKeepAliveTimeTag st \<noteq> tag" "n \<le> 5"
  shows "\<not> ProcessActive (fold other_tick (replicate n tag) st)"
proof (cases n)
  case (Suc m)
  have "\<not> ProcessActive (other_tick tag st)" "countKeepAliveNotUpdated (other_tick tag st) = 0"
    using other_tick_changed[OF assms(2)] by auto
  then show ?thesis using Suc assms(3) other_tick_fold_same[of "other_tick tag st" tag m] by simp
qed (use assms in simp)

lemma standby_sixth_active:
  assumes "\<not> ProcessActive st" "lastActiveNodeKeepAliveTimeTag st \<noteq> tag"
  shows "ProcessActive (fold other_tick (replicate 6 tag) st)"
proof -
  let ?s = "fold other_tick (replicate 4 tag) (other_tick tag st)"
  have s1: "\<not> ProcessActive (other_tick tag st)" "countKeepAliveNotUpdated (other_tick tag st) = 0"
    using other_tick_changed[OF assms(2)] by auto
  have s5: "\<not> ProcessActive ?s" "countKeepAliveNotUpdated ?s = 4" "lastActiveNodeKeepAliveTimeTag ?s = tag"
    using other_tick_fold_same[OF s1(1) other_tick_last, of 4] s1(2) by simp_all
  have "replicate 6 tag = tag # replicate 4 tag @ [tag]" by (simp add: eval_nat_numeral)
  then have "fold other_tick (replicate 6 tag) st = other_tick tag ?s" by simp
  then show ?thesis using other_tick_same(2)[OF s5(3)] s5 by simp
qed

lemma red_run_snoc:
  "red_run v cfg (xs @ [x]) st =
     (case red_run v cfg xs st of Exit \<Rightarrow> Exit
      | Continue st' ws \<Rightarrow> (case red_run v cfg [x] st' of Exit \<Rightarrow> Exit
          | Continue st'' ws' \<Rightarrow> Continue st'' (ws @ ws')))"
proof (induction xs arbitrary: st)
  case (Cons y xs)
  then show ?case by (cases y) (auto split: red_result.splits)
qed (auto split: red_result.splits)

text \<open>Polls of one unchanged document: nothing is written as long as the node stays inactive.\<close>

lemma red_run_same_doc:
  assumes "standby_doc cfg tag inst" "\<not> ProcessActive st" "lastActiveNodeKeepAliveTimeTag st \<noteq> tag"
  shows "length clks \<le> 5 \<Longrightarrow> red_run v cfg (map (\<lambda>t. (inst, t)) clks) st =
     Continue (fold other_tick (replicate (length clks) tag) st) []"
proof (induction clks rule: rev_induct)
  case (snoc t clks)
  let ?s = "fold other_tick (replicate (length clks) tag) st"
  have rep: "replicate (Suc (length clks)) tag = replicate (length clks) tag @ [tag]"
    by (simp add: replicate_append_same)
  then have "\<not> ProcessActive (other_tick tag ?s)"
    using standby_prefix_inactive[OF assms(2,3), of "Suc (length clks)"] snoc.prems by simp
  then show ?case using snoc rep
    by (simp add: red_run_snoc interval_tick_standby[OF assms(1)] del: replicate.simps)
qed simp

text \<open>C1. Failover: when the document of another active node stops changing, a standby
  node that had seen an older keep-alive stays inactive and writes nothing for five polls
  and takes over at the sixth, when it writes its own name and keep-alive exactly once.\<close>

theorem failover_at_sixth_poll:
  assumes "standby_doc cfg tag inst" "\<not> ProcessActive st" "lastActiveNodeKeepAliveTimeTag st \<noteq> tag"
    and "length clks = 5"
  shows "\<exists>st5 st6. red_run v cfg (map (\<lambda>t. (inst, t)) clks) st = Continue st5 [] \<and> \<not> ProcessActive st5 \<and>
     red_run v cfg (map (\<lambda>t. (inst, t)) (clks @ [now])) st =
       Continue st6 [UpdateInstance (instance_key v cfg) (keepalive_set v cfg now)] \<and> ProcessActive st6"
proof -
  let ?s = "fold other_tick (replicate 5 tag) st"
  have r5: "red_run v cfg (map (\<lambda>t. (inst, t)) clks) st = Continue ?s []"
    using red_run_same_doc[OF assms(1-3), of clks v] assms(4) by simp
  have "replicate 6 tag = replicate 5 tag @ [tag]" by (simp add: eval_nat_numeral)
  then have "ProcessActive (other_tick tag ?s)"
    using standby_sixth_active[OF assms(2,3)] by simp
  moreover have "\<not> ProcessActive ?s" using standby_prefix_inactive[OF assms(2,3)] by simp
  ultimately show ?thesis using r5
    by (simp add: red_run_snoc interval_tick_standby[OF assms(1)])
qed

definition demo_cfg :: red_config where
  "demo_cfg = \<lparr>cNAME = ''CS_DATA_PROCESSOR'', cVERSION = ''0.1.10'', cInstance = num 1, cLogLevel = num 1,
     cnodeName = ''nodeB''\<rparr>"

definition demo_inst :: doc where
  "demo_inst = [(''processName'', Str ''CS_DATA_PROCESSOR''), (''enabled'', Bool True),
     (''nodeNames'', Arr [Str ''nodeA'', Str ''nodeB'']), (''activeNodeName'', Str ''nodeA''),
     (''activeNodeKeepAliveTimeTag'', Date (num 1000))]"

lemma demo_standby: "standby_doc demo_cfg (Some 1000) demo_inst"
  by (simp add: standby_doc_def wf_instance_def may_run_def names_node_def keepalive_tag_def
      node_allowed_def demo_cfg_def demo_inst_def num_def)

theorem failover_at_sixth_poll_witness:
  "\<exists>st5 st6. red_run mongofw_variant demo_cfg (map (\<lambda>t. (demo_inst, t)) (map num [1, 2, 3, 4, 5])) red_init = Continue st5 [] \<and>
     \<not> ProcessActive st5 \<and>
     red_run mongofw_variant demo_cfg (map (\<lambda>t. (demo_inst, t)) (map num [1, 2, 3, 4, 5] @ [num 6])) red_init =
       Continue st6 [UpdateInstance (instance_key mongofw_variant demo_cfg) (keepalive_set mongofw_variant demo_cfg (num 6))] \<and>
     ProcessActive st6"
  by (rule failover_at_sixth_poll[OF demo_standby]) (simp_all add: red_init_def)

text \<open>C2. No premature takeover: over any polls that find another node active, a standby
  node can only have become active if its last six observations of the keep-alive (the
  stored one included) are the same.\<close>

theorem takeover_needs_six_equal_keepalives:
  assumes "list_all2 (\<lambda>tag x. standby_doc cfg tag (fst x)) tags xs" "tags \<noteq> []"
    and "\<not> ProcessActive st" "countKeepAliveNotUpdated st = 0"
    and "red_run v cfg xs st = Continue st' ws" "ProcessActive st'"
  shows "\<exists>p. lastActiveNodeKeepAliveTimeTag st # tags = p @ replicate 6 (last tags)"
proof -
  obtain ts t where ts: "tags = ts @ [t]" using assms(2) by (metis rev_exhaust)
  have "counts_repeats [lastActiveNodeKeepAliveTimeTag st] st"
    using assms(4) by (simp add: counts_repeats_def countKeepAliveUpdatesLimit_def)
  then have c: "counts_repeats (lastActiveNodeKeepAliveTimeTag st # ts) (fold other_tick ts st)"
    using fold_other_tick_counts by fastforce
  have "st' = fold other_tick tags st" using red_run_standby_state[OF assms(1), of v st] assms(5) by auto
  then have "ProcessActive (other_tick t (fold other_tick ts st))" using assms(6) ts by simp
  then show ?thesis using other_tick_counts(2)[OF c] ts by simp
qed

theorem takeover_needs_six_equal_keepalives_witness:
  "\<exists>st' ws. red_run mongofw_variant demo_cfg (map (\<lambda>t. (demo_inst, t)) (map num [1, 2, 3, 4, 5, 6])) red_init = Continue st' ws \<and>
     ProcessActive st' \<and>
     (\<exists>p. lastActiveNodeKeepAliveTimeTag red_init # replicate 6 (Some 1000) = p @ replicate 6 (last (replicate 6 (Some 1000))))"
proof -
  have run: "\<exists>st' ws. red_run mongofw_variant demo_cfg (map (\<lambda>t. (demo_inst, t)) (map num [1, 2, 3, 4, 5, 6])) red_init = Continue st' ws \<and> ProcessActive st'"
    by (simp add: interval_tick_standby[OF demo_standby] red_init_def other_tick_def countKeepAliveUpdatesLimit_def)
  have all: "list_all2 (\<lambda>tag x. standby_doc demo_cfg tag (fst x)) (replicate 6 (Some 1000))
      (map (\<lambda>t. (demo_inst, t)) (map num [1, 2, 3, 4, 5, 6]))"
    using demo_standby by (simp add: eval_nat_numeral)
  from run obtain st' ws where r: "red_run mongofw_variant demo_cfg (map (\<lambda>t. (demo_inst, t)) (map num [1, 2, 3, 4, 5, 6])) red_init = Continue st' ws"
    and a: "ProcessActive st'" by blast
  have "\<exists>p. lastActiveNodeKeepAliveTimeTag red_init # replicate 6 (Some 1000) = p @ replicate 6 (last (replicate 6 (Some 1000)))"
    by (rule takeover_needs_six_equal_keepalives[OF all _ _ _ r a]) (simp_all add: red_init_def)
  with r a show ?thesis by blast
qed

section \<open>What a poll writes\<close>

definition writes_own_name :: "red_config \<Rightarrow> red_write \<Rightarrow> bool" where
  "writes_own_name cfg w = (case w of
      InsertInstance d \<Rightarrow> fld d ''activeNodeName'' = Str (cnodeName cfg)
    | UpdateInstance q s \<Rightarrow> fld s ''activeNodeName'' = Str (cnodeName cfg))"

definition distinct_names :: "red_variant \<Rightarrow> bool" where
  "distinct_names v \<longleftrightarrow> nameField v \<noteq> ''activeNodeName'' \<and> numberField v \<noteq> ''activeNodeName''"

lemma distinct_names_variants [simp]:
  "distinct_names (cs_data_processor_variant s)" "distinct_names mongofw_variant" "distinct_names mongowr_variant"
  "distinct_names mqtt_variant" "distinct_names n8n_variant" "distinct_names camera_variant"
  by (simp_all add: distinct_names_def cs_data_processor_variant_def mongofw_variant_def mongowr_variant_def
      mqtt_variant_def n8n_variant_def camera_variant_def)

lemma fld_new_instance [simp]:
  "distinct_names v \<Longrightarrow> fld (new_instance_doc v cfg now) ''activeNodeName'' = Str (cnodeName cfg)"
  by (simp add: new_instance_doc_def instance_key_def distinct_names_def)

lemma fld_keepalive_set [simp]:
  "fld (keepalive_set v cfg now) ''activeNodeName'' = Str (cnodeName cfg)"
  "fld (keepalive_set v cfg now) ''activeNodeKeepAliveTimeTag'' = Date now"
  by (simp_all add: keepalive_set_def)

text \<open>Only an active node writes, whatever the stored document looks like, and what it
  writes claims the activity for itself: a poll that leaves the node inactive never
  refreshes the keep-alive of another node.\<close>

theorem only_active_nodes_write:
  assumes "distinct_names v" "process_redundancy v cfg conn found now st = Continue st' ws" "\<not> ProcessActive st"
  shows "(ws \<noteq> [] \<longleftrightarrow> ProcessActive st') \<and> (\<forall>w \<in> set ws. writes_own_name cfg w)"
  using assms
  by (auto simp: process_redundancy_def writes_own_name_def Let_def
      split: option.splits sum.splits if_splits bool.splits)

theorem only_active_nodes_write_witness:
  "\<exists>st' ws. process_redundancy n8n_variant demo_cfg True None (num 7) red_init = Continue st' ws \<and>
     (ws \<noteq> [] \<longleftrightarrow> ProcessActive st') \<and> (\<forall>w \<in> set ws. writes_own_name demo_cfg w)"
proof -
  obtain st' ws where r: "process_redundancy n8n_variant demo_cfg True None (num 7) red_init = Continue st' ws"
    by (simp add: process_redundancy_def)
  from only_active_nodes_write[OF _ r] r show ?thesis by (auto simp: red_init_def)
qed

text \<open>The six copies are one state machine: on a connected node and a document with the
  types of the schema they reach the same state, or all of them exit.\<close>

fun result_state :: "red_result \<Rightarrow> red_state option" where
  "result_state Exit = None"
| "result_state (Continue st ws) = Some st"

theorem variants_same_transitions:
  assumes "wf_instance inst"
  shows "\<forall>run \<in> {cs_data_processor_redundancy stats, mongowr_redundancy, mqtt_redundancy, n8n_redundancy, camera_redundancy}.
     result_state (run cfg True (Some inst) now st) = result_state (mongofw_redundancy cfg True (Some inst) now st)"
proof -
  have same: "result_state (process_redundancy v cfg True (Some inst) now st) =
      result_state (process_redundancy v' cfg True (Some inst) now st)" for v v'
  proof (cases "may_run inst (cnodeName cfg)")
    case True
    obtain t where "keepalive_tag inst = Inr (Some t)" using wf_keepalive[OF assms] by blast
    then show ?thesis using process_redundancy_running[OF assms True] by (simp add: Let_def)
  next
    case False
    then have "process_redundancy w cfg True (Some inst) now st = Exit" for w
      using process_redundancy_exit_iff[OF assms, of True w cfg now st] by simp
    then show ?thesis by simp
  qed
  show ?thesis
    using same by (simp add: cs_data_processor_redundancy_def mongofw_redundancy_def mongowr_redundancy_def
      mqtt_redundancy_def n8n_redundancy_def camera_redundancy_def)
qed

theorem variants_same_transitions_witness:
  "wf_instance demo_inst \<and>
   result_state (mqtt_redundancy demo_cfg True (Some demo_inst) (num 9) red_init) =
   result_state (mongofw_redundancy demo_cfg True (Some demo_inst) (num 9) red_init)"
proof -
  have "wf_instance demo_inst" using demo_standby by (simp add: standby_doc_def)
  with variants_same_transitions[OF this, of "Obj []" demo_cfg "num 9" red_init] show ?thesis by simp
qed

text \<open>The copies part on a document without \<open>nodeNames\<close>: the copies without the array guard
  throw before the decision, so the node keeps its state and never refreshes its keep-alive.\<close>

lemma missing_nodeNames_stalls:
  assumes "keepalive_tag inst = Inr tag" "fld inst ''enabled'' = Bool True" "\<not> has_key ''nodeNames'' inst"
  shows "mongofw_redundancy cfg conn (Some inst) now st = Continue st []"
    and "\<exists>st' ws. mqtt_redundancy cfg conn (Some inst) now st = Continue st' ws \<and>
         (names_node inst (cnodeName cfg) \<longrightarrow> ProcessActive st' \<and> ws \<noteq> [])"
  using assms
  by (auto simp: mongofw_redundancy_def mqtt_redundancy_def process_redundancy_def mongofw_variant_def
      mqtt_variant_def node_allowed_def fld_absent names_node_def Let_def)

section \<open>Nodes sharing one instance document\<close>

text \<open>
  A cluster: the stored document and the module state of every running node (\<open>None\<close> after
  \<open>process.exit\<close>). One step is the poll of one node with its update applied by \<open>upd\<close>, the
  effect of \<open>$set\<close> in the database.
\<close>

record cluster =
  stored :: doc
  running :: "string \<Rightarrow> red_state option"

definition apply_write :: "(doc \<Rightarrow> doc \<Rightarrow> doc) \<Rightarrow> doc \<Rightarrow> red_write \<Rightarrow> doc" where
  "apply_write upd d w = (case w of InsertInstance d' \<Rightarrow> d' | UpdateInstance q s \<Rightarrow> upd d s)"

definition cluster_poll ::
  "(doc \<Rightarrow> doc \<Rightarrow> doc) \<Rightarrow> red_variant \<Rightarrow> red_config \<Rightarrow> string \<Rightarrow> rat \<Rightarrow> cluster \<Rightarrow> cluster" where
  "cluster_poll upd v base name now c =
     (case running c name of
        None \<Rightarrow> c
      | Some st \<Rightarrow>
          (case interval_tick v (base\<lparr>cnodeName := name\<rparr>) True (Some (stored c)) (Fin now) st of
             Exit \<Rightarrow> c\<lparr>running := (running c)(name := None)\<rparr>
           | Continue st' ws \<Rightarrow>
               \<lparr>stored = foldl (apply_write upd) (stored c) ws, running = (running c)(name \<mapsto> st')\<rparr>))"

definition node_active :: "cluster \<Rightarrow> string \<Rightarrow> bool" where
  "node_active c name \<longleftrightarrow> (\<exists>st. running c name = Some st \<and> ProcessActive st)"

fun cluster_run ::
  "(doc \<Rightarrow> doc \<Rightarrow> doc) \<Rightarrow> red_variant \<Rightarrow> red_config \<Rightarrow> (string \<times> rat) list \<Rightarrow> cluster \<Rightarrow> cluster" where
  "cluster_run upd v base [] c = c"
| "cluster_run upd v base ((name, now) # ps) c = cluster_run upd v base ps (cluster_poll upd v base name now c)"

lemma keepalive_set_distinct: "distinct (map fst (keepalive_set v cfg now))"
  by (simp add: keepalive_set_def split: option.splits)

lemma keepalive_set_keys:
  "has_key k (keepalive_set v cfg now) \<longleftrightarrow> k \<in> {''activeNodeName'', ''activeNodeKeepAliveTimeTag'', ''softwareVersion''} \<or>
     (statsField v \<noteq> None \<and> k = ''stats'')"
  by (auto simp: keepalive_set_def split: option.splits)

context mongo_set
begin

lemma upd_keepalive_fld:
  "fld (upd d (keepalive_set v cfg now)) ''activeNodeName'' = Str (cnodeName cfg)"
  using fld_upd[OF keepalive_set_distinct, of d v cfg now] by (simp add: keepalive_set_keys)

lemma upd_keepalive_other:
  "k \<notin> {''activeNodeName'', ''activeNodeKeepAliveTimeTag'', ''softwareVersion'', ''stats''} \<Longrightarrow>
   fld (upd d (keepalive_set v cfg now)) k = fld d k"
  using fld_upd[OF keepalive_set_distinct, of d v cfg now] by (auto simp: keepalive_set_keys)

lemma upd_keepalive_wf:
  assumes "wf_instance d" shows "wf_instance (upd d (keepalive_set v cfg (Fin now)))"
proof -
  have "map_of (upd d (keepalive_set v cfg (Fin now))) ''activeNodeKeepAliveTimeTag'' = Some (Date (Fin now))"
    using upd_written[OF keepalive_set_distinct, of "''activeNodeKeepAliveTimeTag''" v cfg "Fin now" d]
    by (simp add: keepalive_set_keys) (simp add: keepalive_set_def)
  then show ?thesis using assms upd_keepalive_other[of "''nodeNames''" d v cfg "Fin now"]
    by (auto simp: wf_instance_def)
qed

text \<open>After its poll a running node is active exactly if the document names it.\<close>

lemma cluster_poll_running:
  assumes "wf_instance (stored c)" "running c name = Some st" "may_run (stored c) name"
  shows "node_active (cluster_poll upd v base name now c) name \<longleftrightarrow>
           names_node (stored (cluster_poll upd v base name now c)) name"
    and "wf_instance (stored (cluster_poll upd v base name now c))"
    and "n \<noteq> name \<Longrightarrow> running (cluster_poll upd v base name now c) n = running c n"
    and "may_run (stored (cluster_poll upd v base name now c)) n = may_run (stored c) n"
proof -
  let ?cfg = "base\<lparr>cnodeName := name\<rparr>"
  obtain t where t: "keepalive_tag (stored c) = Inr (Some t)" using wf_keepalive[OF assms(1)] by blast
  let ?st = "if names_node (stored c) name then own_tick st else other_tick (Some t) st"
  have step: "interval_tick v ?cfg True (Some (stored c)) (Fin now) st =
      Continue ?st (if ProcessActive ?st
        then [UpdateInstance (instance_key v ?cfg) (keepalive_set v ?cfg (Fin now))] else [])"
    using process_redundancy_running[of "stored c" ?cfg "Some t" True v "Fin now" st] assms t
    by (simp add: interval_tick_def)
  let ?c' = "cluster_poll upd v base name now c"
  let ?new = "upd (stored c) (keepalive_set v ?cfg (Fin now))"
  have c': "?c' = \<lparr>stored = (if ProcessActive ?st then ?new else stored c),
      running = (running c)(name \<mapsto> ?st)\<rparr>"
    using assms(2) step by (simp add: cluster_poll_def apply_write_def)
  show "node_active ?c' name \<longleftrightarrow> names_node (stored ?c') name"
    using upd_keepalive_fld[of "stored c" v ?cfg "Fin now"]
    by (auto simp: c' node_active_def names_node_def)
  show "wf_instance (stored ?c')" using upd_keepalive_wf[OF assms(1)] assms(1) by (simp add: c')
  show "n \<noteq> name \<Longrightarrow> running ?c' n = running c n" by (simp add: c')
  show "may_run (stored ?c') n = may_run (stored c) n"
    using upd_keepalive_other[of _ "stored c" v ?cfg "Fin now"]
    by (simp add: c' may_run_def node_allowed_def)
qed

text \<open>Polls of running nodes during which the document keeps naming the same node.\<close>

lemma cluster_run_agrees:
  assumes "wf_instance (stored c)"
    and "\<forall>n \<in> fst ` set ps. running c n \<noteq> None \<and> may_run (stored c) n"
    and "\<forall>k \<le> length ps. names_node (stored (cluster_run upd v base (take k ps) c)) m"
  shows "n \<in> fst ` set ps \<or> (node_active c n \<longleftrightarrow> n = m) \<Longrightarrow>
    node_active (cluster_run upd v base ps c) n \<longleftrightarrow> n = m"
  using assms
proof (induction ps arbitrary: c)
  case (Cons p ps)
  obtain name now where p: "p = (name, now)" by (cases p)
  let ?c = "cluster_poll upd v base name now c"
  obtain st where st: "running c name = Some st" "may_run (stored c) name" using Cons.prems(3) p by auto
  note poll = cluster_poll_running[OF Cons.prems(2) st, where v = v and base = base and now = now]
  have named: "names_node (stored ?c) m" using Cons.prems(4)[rule_format, of 1] p by simp
  have act: "node_active ?c name \<longleftrightarrow> name = m" using poll(1) named by (auto simp: names_node_def)
  have others: "node_active ?c x \<longleftrightarrow> node_active c x" if "x \<noteq> name" for x
    using poll(3)[OF that] by (simp add: node_active_def)
  have run: "\<forall>x \<in> fst ` set ps. running ?c x \<noteq> None \<and> may_run (stored ?c) x"
  proof
    fix x assume "x \<in> fst ` set ps"
    then have x: "running c x \<noteq> None" "may_run (stored c) x" using Cons.prems(3) by auto
    have "running ?c name \<noteq> None" using st poll(1) poll(3) named
      by (auto simp: cluster_poll_def interval_tick_def split: red_result.splits)
         (use process_redundancy_exit_iff[OF Cons.prems(2), of True v "base\<lparr>cnodeName := name\<rparr>"] st in auto)
    then show "running ?c x \<noteq> None \<and> may_run (stored ?c) x"
      using x poll(3)[of x] poll(4)[of x] by (cases "x = name") auto
  qed
  have names: "\<forall>k \<le> length ps. names_node (stored (cluster_run upd v base (take k ps) ?c)) m"
    using Cons.prems(4) p by (metis Suc_le_mono cluster_run.simps(2) length_Cons take_Suc_Cons)
  have "n \<in> fst ` set ps \<or> (node_active ?c n \<longleftrightarrow> n = m)"
    using Cons.prems(1) act others p by (cases "n = name") auto
  from Cons.IH[OF this poll(2) run names] show ?case by (simp add: p)
qed simp

end

text \<open>A split brain heals: if two or more nodes believe they are active, then after any
  sequence of polls in which every node polls and no node takes over (the document keeps
  naming \<open>m\<close>), exactly the nodes that polled and are named by the document are active.\<close>

theorem split_brain_heals:
  assumes "wf_instance (stored c)"
    and "\<forall>n \<in> fst ` set ps. running c n \<noteq> None \<and> may_run (stored c) n"
    and "\<forall>k \<le> length ps. names_node (stored (cluster_run aspread v base (take k ps) c)) m"
    and "n \<in> fst ` set ps"
  shows "node_active (cluster_run aspread v base ps c) n \<longleftrightarrow> n = m"
  using alist_set.cluster_run_agrees[OF assms(1-3)] assms(4) by blast

definition demo_cluster :: cluster where
  "demo_cluster = \<lparr>stored = demo_inst,
     running = (\<lambda>_. Some (red_init\<lparr>ProcessActive := True\<rparr>))\<rparr>"

theorem split_brain_heals_witness:
  "node_active demo_cluster ''nodeA'' \<and> node_active demo_cluster ''nodeB'' \<and>
   (node_active (cluster_run aspread mqtt_variant demo_cfg [(''nodeB'', 2000), (''nodeA'', 2001)] demo_cluster) ''nodeB''
     \<longleftrightarrow> ''nodeB'' = ''nodeA'')"
proof -
  let ?ps = "[(''nodeB'', 2000), (''nodeA'', 2001)] :: (string \<times> rat) list"
  let ?P = "\<lambda>k. names_node (stored (cluster_run aspread mqtt_variant demo_cfg (take k ?ps) demo_cluster)) ''nodeA''"
  have "?P 0" "?P 1" "?P 2"
    by (simp_all add: demo_cluster_def demo_inst_def demo_cfg_def cluster_poll_def interval_tick_def
        process_redundancy_def mqtt_variant_def keepalive_tag_def num_def node_allowed_def other_tick_def Let_def
        own_tick_def countKeepAliveUpdatesLimit_def names_node_def red_init_def apply_write_def
        keepalive_set_def instance_key_def)
  then have names: "\<forall>k \<le> length ?ps. ?P k"
    by (auto simp: le_Suc_eq numeral_2_eq_2)
  have w: "wf_instance (stored demo_cluster)"
    using demo_standby by (simp add: demo_cluster_def standby_doc_def)
  have r: "\<forall>n \<in> fst ` set ?ps. running demo_cluster n \<noteq> None \<and> may_run (stored demo_cluster) n"
    by (simp add: demo_cluster_def may_run_def demo_inst_def node_allowed_def)
  from split_brain_heals[OF w r names, of "''nodeB''"] show ?thesis
    by (simp add: node_active_def demo_cluster_def)
qed

end
