(* ===== verification/Metrics.thy ===== *)
theory Metrics
  imports DocStore "HOL-Library.Char_ord" "HOL-Library.List_Lexorder"
begin

text \<open>
  Latency instrumentation (\<open>cs_data_processor/metrics.js\<close>): the logarithmic histogram, its
  percentiles, the registry of counters and stages and the reports. Samples are integer
  microseconds; counts and sums are integers (exact as doubles below \<open>2^53\<close>); the printed
  statistics are doubles, every division rounded by \<open>rnd\<close>. \<open>Math.log2\<close> is approximated by
  the JavaScript engine: its integer part is an argument \<open>log2f\<close>.
\<close>

section \<open>Stages and counters\<close>

definition stageOrder :: "string list" where
  "stageOrder = [''sourceToRecv'', ''queueWait'', ''processing'', ''writeLinger'', ''bulkWrite'',
     ''endToEnd'', ''soeWrite'', ''histWrite'']"

definition counterOrder :: "string list" where
  "counterOrder = [''changesReceived'', ''changesProcessed'', ''inserts'', ''updatesQueued'', ''notChanged'',
     ''ignoredInactive'', ''soeInserted'', ''histQueued'', ''mongoBulkWrites'', ''mongoDocsWritten'',
     ''histDocsWritten'', ''sqlFilesWritten'', ''errors'', ''droppedOnBackpressure'', ''changeStreamRetries'']"

section \<open>Histogram\<close>

definition HIST_SUB_BUCKET_BITS :: int where "HIST_SUB_BUCKET_BITS = 6"
definition HIST_SUB_BUCKET_COUNT :: int where "HIST_SUB_BUCKET_COUNT = 64"
definition HIST_BUCKET_COUNT :: int where "HIST_BUCKET_COUNT = 4096"

lemmas hist_consts = HIST_SUB_BUCKET_BITS_def HIST_SUB_BUCKET_COUNT_def HIST_BUCKET_COUNT_def

text \<open>Leading zeros of a 32 bit integer.\<close>

definition clz32 :: "int \<Rightarrow> int" where
  "clz32 v = (if v = 0 then 32 else 31 - ilog2 v)"

definition histIndex :: "(int \<Rightarrow> int) \<Rightarrow> int \<Rightarrow> int" where
  "histIndex log2f v =
     (if v < HIST_SUB_BUCKET_COUNT then (if v < 0 then 0 else v)
      else (let shift = (if v < 0x80000000 then 32 - clz32 v - (HIST_SUB_BUCKET_BITS + 1)
                         else log2f v - HIST_SUB_BUCKET_BITS);
                idx = HIST_SUB_BUCKET_COUNT * shift + v div 2 ^ nat shift
            in if idx \<ge> HIST_BUCKET_COUNT then HIST_BUCKET_COUNT - 1 else idx))"

definition histValue :: "int \<Rightarrow> int" where
  "histValue idx =
     (if idx < 2 * HIST_SUB_BUCKET_COUNT then idx
      else (let shift = idx div HIST_SUB_BUCKET_COUNT - 1;
                sub = idx mod HIST_SUB_BUCKET_COUNT + HIST_SUB_BUCKET_COUNT;
                width = 2 ^ nat shift
            in sub * width + width div 2))"

record histogram =
  buckets :: "int \<Rightarrow> nat"
  hcount :: nat
  hsum :: int
  hmin :: "int option"
  hmax :: int

text \<open>\<open>min\<close> starts at \<open>Infinity\<close>, here \<open>None\<close>. \<open>reset\<close> restores this state.\<close>

definition hist_new :: histogram where
  "hist_new = \<lparr>buckets = (\<lambda>_. 0), hcount = 0, hsum = 0, hmin = None, hmax = 0\<rparr>"

definition hist_reset :: "histogram \<Rightarrow> histogram" where
  "hist_reset h = h\<lparr>buckets := (\<lambda>_. 0), hcount := 0, hsum := 0, hmin := None, hmax := 0\<rparr>"

text \<open>\<open>observe\<close>: the argument is \<open>None\<close> for a NaN.\<close>

definition observe :: "(int \<Rightarrow> int) \<Rightarrow> histogram \<Rightarrow> int option \<Rightarrow> histogram" where
  "observe log2f h arg =
     (let us = (case arg of Some u \<Rightarrow> if 0 \<le> u then u else 0 | None \<Rightarrow> 0);
          i = histIndex log2f us
      in \<lparr>buckets = (buckets h)(i := buckets h i + 1),
          hcount = hcount h + 1,
          hsum = hsum h + us,
          hmin = (case hmin h of None \<Rightarrow> Some us | Some m \<Rightarrow> if us < m then Some us else Some m),
          hmax = (if us > hmax h then us else hmax h)\<rparr>)"

text \<open>A time difference in milliseconds is finite or NaN.\<close>

definition observeMs :: "(int \<Rightarrow> int) \<Rightarrow> histogram \<Rightarrow> jsnum \<Rightarrow> histogram" where
  "observeMs log2f h ms =
     observe log2f h (case num_round (ms * num 1000) of Fin r \<Rightarrow> Some \<lfloor>r\<rfloor> | _ \<Rightarrow> None)"

text \<open>Nanosecond BigInt difference, divided with truncation.\<close>

definition observeSince :: "(int \<Rightarrow> int) \<Rightarrow> histogram \<Rightarrow> int \<Rightarrow> int \<Rightarrow> histogram" where
  "observeSince log2f h hrNow hrStart =
     (let d = hrNow - hrStart in observe log2f h (Some (if 0 \<le> d then d div 1000 else - (- d div 1000))))"

record hist_stats =
  scount :: nat
  minMs :: rat
  maxMs :: rat
  avgMs :: rat
  p50Ms :: rat
  p90Ms :: rat
  p99Ms :: rat
  p999Ms :: rat

text \<open>The literals \<open>0.5\<close>, \<open>0.9\<close>, \<open>0.99\<close>, \<open>0.999\<close> as doubles.\<close>

definition targets :: "rat list" where
  "targets = [rnd (5/10), rnd (9/10), rnd (99/100), rnd (999/1000)]"

text \<open>
  The scan over the buckets: \<open>n\<close> buckets are left from index \<open>i\<close>, \<open>acc\<close> samples lie below,
  \<open>qs\<close> are the targets not reached yet; the result lists the values of the targets reached.
\<close>

fun pct_scan :: "(int \<Rightarrow> nat) \<Rightarrow> nat \<Rightarrow> nat \<Rightarrow> int \<Rightarrow> nat \<Rightarrow> rat list \<Rightarrow> rat list" where
  "pct_scan b c 0 i acc qs = []"
| "pct_scan b c (Suc n) i acc qs =
     (if qs = [] then []
      else if b i = 0 then pct_scan b c n (i + 1) acc qs
      else (let acc' = acc + b i; reached = takeWhile (\<lambda>q. rnd (q * of_nat c) \<le> of_nat acc') qs
            in replicate (length reached) (rnd (of_int (histValue i) / 1000)) @
               pct_scan b c n (i + 1) acc' (dropWhile (\<lambda>q. rnd (q * of_nat c) \<le> of_nat acc') qs)))"

definition percentiles :: "histogram \<Rightarrow> rat \<Rightarrow> rat list" where
  "percentiles h maxv =
     (let found = pct_scan (buckets h) (hcount h) (nat HIST_BUCKET_COUNT) 0 0 targets
      in found @ replicate (length targets - length found) maxv)"

definition hist_snapshot :: "histogram \<Rightarrow> hist_stats" where
  "hist_snapshot h =
     (if hcount h = 0
      then \<lparr>scount = 0, minMs = 0, maxMs = 0, avgMs = 0, p50Ms = 0, p90Ms = 0, p99Ms = 0, p999Ms = 0\<rparr>
      else (let mx = rnd (of_int (hmax h) / 1000); ps = percentiles h mx
            in \<lparr>scount = hcount h,
                minMs = rnd (of_int (the (hmin h)) / 1000),
                maxMs = mx,
                avgMs = rnd (rnd (of_int (hsum h) / of_nat (hcount h)) / 1000),
                p50Ms = ps ! 0, p90Ms = ps ! 1, p99Ms = ps ! 2, p999Ms = ps ! 3\<rparr>))"

section \<open>Registry\<close>

record metrics =
  stages :: "(string \<times> histogram) list"
  counters :: "(string \<times> nat) list"
  startedAt :: int
  resetAt :: int
  mInstance :: jsval
  mNodeName :: jsval

definition metrics_new :: "int \<Rightarrow> metrics" where
  "metrics_new now = \<lparr>stages = map (\<lambda>s. (s, hist_new)) stageOrder, counters = map (\<lambda>c. (c, 0)) counterOrder,
     startedAt = now, resetAt = now, mInstance = Num (num 0), mNodeName = Str []\<rparr>"

text \<open>\<open>stage(name)\<close> returns the histogram, created and stored when absent.\<close>

definition metrics_stage :: "metrics \<Rightarrow> string \<Rightarrow> histogram \<times> metrics" where
  "metrics_stage m name = (case map_of (stages m) name of
      Some h \<Rightarrow> (h, m)
    | None \<Rightarrow> (hist_new, m\<lparr>stages := aupd name hist_new (stages m)\<rparr>))"

definition stage_update :: "string \<Rightarrow> (histogram \<Rightarrow> histogram) \<Rightarrow> metrics \<Rightarrow> metrics" where
  "stage_update name f m = (let (h, m') = metrics_stage m name in m'\<lparr>stages := aupd name (f h) (stages m')\<rparr>)"

definition metrics_get :: "metrics \<Rightarrow> string \<Rightarrow> nat" where
  "metrics_get m name = (case map_of (counters m) name of None \<Rightarrow> 0 | Some n \<Rightarrow> n)"

definition metrics_inc :: "string \<Rightarrow> nat \<Rightarrow> metrics \<Rightarrow> metrics" where
  "metrics_inc name delta m = m\<lparr>counters := aupd name (metrics_get m name + delta) (counters m)\<rparr>"

definition metrics_setConfig :: "doc \<Rightarrow> metrics \<Rightarrow> metrics" where
  "metrics_setConfig cfg m = m\<lparr>mInstance := fld cfg ''Instance'', mNodeName := fld cfg ''nodeName''\<rparr>"

definition metrics_reset :: "int \<Rightarrow> metrics \<Rightarrow> metrics" where
  "metrics_reset now m = m\<lparr>stages := map (\<lambda>(k, h). (k, hist_reset h)) (stages m),
     counters := map (\<lambda>(k, n). (k, 0)) (counters m), resetAt := now\<rparr>"

record snapshot =
  nImplementation :: string
  nProcess :: string
  nVersion :: string
  nInstance :: jsval
  nNodeName :: jsval
  processActive :: bool
  nTimestamp :: int
  uptimeSec :: rat
  windowSec :: rat
  nCounters :: "(string \<times> nat) list"
  ratesPerSec :: "(string \<times> rat) list"
  gauges :: "(string \<times> nat) list"
  latencyMs :: "(string \<times> hist_stats) list"

text \<open>\<open>gaugeProvider\<close>: \<open>None\<close> when it is not set or throws; \<open>active\<close> is what \<open>isActive\<close> returns.\<close>

definition metrics_snapshot :: "int \<Rightarrow> (string \<times> nat) list option \<Rightarrow> bool \<Rightarrow> metrics \<Rightarrow> snapshot" where
  "metrics_snapshot now gauge active m =
     (let w0 = rnd (of_int (now - resetAt m) / 1000); w = (if w0 \<le> 0 then rnd (1 / 10 ^ 9) else w0)
      in \<lparr>nImplementation = ''nodejs'', nProcess = ''CS_DATA_PROCESSOR'', nVersion = ''0.1.10'',
          nInstance = js_or (mInstance m) (Num (num 0)), nNodeName = js_or (mNodeName m) (Str []),
          processActive = active, nTimestamp = now,
          uptimeSec = rnd (of_int (now - startedAt m) / 1000), windowSec = w,
          nCounters = counters m,
          ratesPerSec = map (\<lambda>(k, n). (k, rnd (of_nat n / w))) (counters m),
          gauges = (case gauge of None \<Rightarrow> [] | Some g \<Rightarrow> g),
          latencyMs = map (\<lambda>(k, h). (k, hist_snapshot h)) (stages m)\<rparr>)"

section \<open>Reports\<close>

definition pad :: "string \<Rightarrow> nat \<Rightarrow> bool \<Rightarrow> string" where
  "pad s n left = (if n \<le> length s then s
     else (let fill = replicate (n - length s) (CHR '' '') in if left then fill @ s else s @ fill))"

definition join :: "string \<Rightarrow> string list \<Rightarrow> string" where
  "join sep xs = (case xs of [] \<Rightarrow> [] | x # ys \<Rightarrow> x @ concat (map (\<lambda>y. sep @ y) ys))"

definition nl :: string where "nl = [CHR 0x0A]"

definition nat_to_string :: "nat \<Rightarrow> string" where
  "nat_to_string n = nat_digits n"

definition rate_of :: "snapshot \<Rightarrow> string \<Rightarrow> rat" where
  "rate_of s name = (case map_of (ratesPerSec s) name of None \<Rightarrow> 0 | Some r \<Rightarrow> r)"

definition formatSummary :: "snapshot \<Rightarrow> string" where
  "formatSummary s =
     (let fixed = (\<lambda>x f. to_fixed (Fin x) f);
          head = ''METRICS ['' @ nImplementation s @ ''] instance '' @ to_string (nInstance s) @ '' active='' @
                 to_string (Bool (processActive s)) @ '' uptime='' @ fixed (uptimeSec s) 0 @ ''s window='' @
                 fixed (windowSec s) 0 @ ''s'';
          cnt = ''  counters:'' @ concat (map (\<lambda>k. case map_of (nCounters s) k of None \<Rightarrow> []
                  | Some n \<Rightarrow> if n = 0 then [] else '' '' @ k @ ''='' @ nat_to_string n) counterOrder);
          thr = ''  throughput: '' @ fixed (rate_of s ''changesProcessed'') 1 @ '' changes/s, '' @
                fixed (rate_of s ''mongoDocsWritten'') 1 @ '' rt-docs/s'';
          gk = sort (map fst (gauges s));
          gl = (if gk = [] then [] else [''  gauges:'' @ concat (map (\<lambda>k. '' '' @ k @ ''='' @
                  (case map_of (gauges s) k of None \<Rightarrow> ''undefined'' | Some n \<Rightarrow> nat_to_string n)) gk)]);
          title = ''  '' @ pad ''stage(ms)'' 14 False @ concat (map (\<lambda>h. '' '' @ pad h 9 True)
                  [''count'', ''avg'', ''p50'', ''p90'', ''p99'', ''p99.9'', ''max'']);
          rows = concat (map (\<lambda>name. case map_of (latencyMs s) name of None \<Rightarrow> []
                  | Some st \<Rightarrow> if scount st = 0 then [] else
                      [''  '' @ pad name 14 False @ '' '' @ pad (nat_to_string (scount st)) 9 True @
                       concat (map (\<lambda>v. '' '' @ pad (fixed v 3) 9 True)
                         [avgMs st, p50Ms st, p90Ms st, p99Ms st, p999Ms st, maxMs st])]) stageOrder)
      in join nl ([head, cnt, thr] @ gl @ [title] @ rows))"

definition quoted :: "string \<Rightarrow> string" where
  "quoted s = CHR 0x22 # s @ [CHR 0x22]"

definition rat_str :: "rat \<Rightarrow> string" where
  "rat_str x = num_to_string (Fin x)"

definition prom_label :: "snapshot \<Rightarrow> (string \<times> string) list \<Rightarrow> string" where
  "prom_label s extra = ''{'' @ join '','' (map (\<lambda>(k, v). k @ ''='' @ quoted v)
     ([(''impl'', nImplementation s), (''instance'', to_string (nInstance s)), (''node'', to_string (nNodeName s))] @ extra)) @ ''}''"

definition formatPrometheus :: "snapshot \<Rightarrow> string" where
  "formatPrometheus s =
     (let lbl = prom_label s [];
          head = [''# HELP csdp_uptime_seconds Process uptime.'', ''# TYPE csdp_uptime_seconds gauge'',
                  ''csdp_uptime_seconds'' @ lbl @ '' '' @ rat_str (uptimeSec s),
                  ''# TYPE csdp_process_active gauge'',
                  ''csdp_process_active'' @ lbl @ '' '' @ (if processActive s then ''1'' else ''0'')];
          val = (\<lambda>m k. case map_of m k of None \<Rightarrow> ''undefined'' | Some n \<Rightarrow> nat_to_string n);
          cs = concat (map (\<lambda>k. [''# TYPE csdp_'' @ k @ ''_total counter'',
                  ''csdp_'' @ k @ ''_total'' @ lbl @ '' '' @ val (nCounters s) k]) (sort (map fst (nCounters s))));
          gs = concat (map (\<lambda>k. [''# TYPE csdp_'' @ k @ '' gauge'',
                  ''csdp_'' @ k @ lbl @ '' '' @ val (gauges s) k]) (sort (map fst (gauges s))));
          ls = concat (map (\<lambda>name. case map_of (latencyMs s) name of None \<Rightarrow> []
                | Some st \<Rightarrow>
                   (let sl = prom_label s [(''stage'', name)] in
                    [''csdp_latency_ms_count'' @ sl @ '' '' @ nat_to_string (scount st),
                     ''csdp_latency_ms_avg'' @ sl @ '' '' @ rat_str (avgMs st)] @
                    map (\<lambda>(q, v). ''csdp_latency_ms'' @ prom_label s [(''stage'', name), (''quantile'', q)] @ '' '' @ rat_str v)
                      [(''0.5'', p50Ms st), (''0.9'', p90Ms st), (''0.99'', p99Ms st), (''0.999'', p999Ms st)] @
                    [''csdp_latency_ms_max'' @ sl @ '' '' @ rat_str (maxMs st)])) stageOrder)
      in join nl (head @ cs @ gs @ ls) @ nl)"

text \<open>The condensed document written to \<open>processInstances.stats\<close>.\<close>

definition stats_doc :: "hist_stats \<Rightarrow> jsval" where
  "stats_doc st = Obj [(''count'', Num (num (int (scount st)))), (''avgMs'', Num (Fin (avgMs st))),
     (''p50Ms'', Num (Fin (p50Ms st))), (''p90Ms'', Num (Fin (p90Ms st))), (''p99Ms'', Num (Fin (p99Ms st))),
     (''maxMs'', Num (Fin (maxMs st)))]"

definition statsDocument :: "snapshot \<Rightarrow> doc" where
  "statsDocument s =
     (let lat = concat (map (\<lambda>name. case map_of (latencyMs s) name of None \<Rightarrow> []
                  | Some st \<Rightarrow> if scount st = 0 then [] else [(name, stats_doc st)]) stageOrder);
          cs = concat (map (\<lambda>name. case map_of (nCounters s) name of None \<Rightarrow> []
                  | Some n \<Rightarrow> if n = 0 then [] else [(name, Num (num (int n)))]) counterOrder)
      in [(''implementation'', Str (nImplementation s)), (''uptimeSec'', Num (Fin (uptimeSec s))),
          (''windowSec'', Num (Fin (windowSec s))), (''changesPerSec'', Num (Fin (rate_of s ''changesProcessed''))),
          (''counters'', Obj cs), (''latencyMs'', Obj lat)])"

text \<open>The HTTP endpoint: the path before \<open>?\<close> selects the report; \<open>/metrics/reset\<close> changes the state.\<close>

datatype http_reply = Json snapshot | Prom string | PlainText string | ResetDone | Health bool | NotFound

definition metrics_http ::
  "int \<Rightarrow> (string \<times> nat) list option \<Rightarrow> bool \<Rightarrow> string \<Rightarrow> metrics \<Rightarrow> http_reply \<times> metrics" where
  "metrics_http now gauge active url m =
     (let path = takeWhile (\<lambda>c. c \<noteq> CHR ''?'') url; s = metrics_snapshot now gauge active m in
      if path = ''/metrics'' then (Json s, m)
      else if path = ''/metrics/prom'' then (Prom (formatPrometheus s), m)
      else if path = ''/metrics/text'' then (PlainText (formatSummary s @ nl), m)
      else if path = ''/metrics/reset'' then (ResetDone, metrics_reset now m)
      else if path = ''/health'' then (Health active, m)
      else (NotFound, m))"

section \<open>Bucketing\<close>

text \<open>What the engine's \<open>Math.log2\<close> must satisfy: its integer part is exact, except that it
  may round up within 1/128 below a power of two and down within 1/128 above one.\<close>

definition log2_ok :: "(int \<Rightarrow> int) \<Rightarrow> bool" where
  "log2_ok log2f \<longleftrightarrow> (\<forall>v \<ge> 0x80000000. log2f v = ilog2 v \<or>
     (log2f v = ilog2 v + 1 \<and> 127 * 2 ^ nat (ilog2 v + 1) \<le> 128 * v) \<or>
     (log2f v = ilog2 v - 1 \<and> 128 * v < 129 * 2 ^ nat (ilog2 v)))"

definition exactIndex :: "int \<Rightarrow> int" where
  "exactIndex v = (if v < 64 then max 0 v
     else min 4095 (64 * (ilog2 v - 6) + v div 2 ^ nat (ilog2 v - 6)))"

lemma ilog2_ge: assumes "2 ^ k \<le> v" shows "int k \<le> ilog2 v"
proof (rule ccontr)
  assume "\<not> int k \<le> ilog2 v"
  then have "nat (ilog2 v + 1) \<le> k" by linarith
  then have "(2::int) ^ nat (ilog2 v + 1) \<le> 2 ^ k" by (rule power_increasing) simp
  moreover have "1 \<le> v" using assms by (metis one_le_power order_trans one_le_numeral)
  ultimately show False using ilog2_bounds[of v] assms by linarith
qed

lemma ilog2_lt: assumes "1 \<le> v" "v < 2 ^ k" shows "ilog2 v < int k"
proof (rule ccontr)
  assume "\<not> ilog2 v < int k"
  then have "k \<le> nat (ilog2 v)" by linarith
  then have "(2::int) ^ k \<le> 2 ^ nat (ilog2 v)" by (rule power_increasing) simp
  then show False using ilog2_bounds[of v] assms by linarith
qed

lemma pow_split: "0 \<le> t \<Longrightarrow> s = t + int k \<Longrightarrow> (2::int) ^ nat s = 2 ^ nat t * 2 ^ k"
  by (simp add: nat_add_distrib power_add)

lemma div_bracket:
  fixes v :: int assumes "0 < p" shows "v div p * p \<le> v" "v < v div p * p + p"
proof -
  have "v div p * p + v mod p = v" "0 \<le> v mod p" "v mod p < p" using assms by simp_all
  then show "v div p * p \<le> v" "v < v div p * p + p" by linarith+
qed

lemma div_lt: fixes v :: int assumes "0 < p" "v < p * b" shows "v div p < b"
  using div_bracket(1)[OF assms(1), of v] assms by (metis mult.commute mult_less_cancel_left_pos order_le_less_trans)

text \<open>The mantissa of a sample: between 64 and 127.\<close>

lemma mantissa_bounds:
  assumes "64 \<le> v" shows "64 \<le> v div 2 ^ nat (ilog2 v - 6)" "v div 2 ^ nat (ilog2 v - 6) < 128"
proof -
  have e: "6 \<le> ilog2 v" using ilog2_ge[of 6 v] assms by simp
  let ?P = "(2::int) ^ nat (ilog2 v - 6)"
  have b: "?P * 64 \<le> v" "v < ?P * 128"
    using ilog2_bounds[of v] assms pow_split[of "ilog2 v - 6" "ilog2 v" 6]
      pow_split[of "ilog2 v - 6" "ilog2 v + 1" 7] e by simp_all
  show "64 \<le> v div ?P" using b zdiv_mono1[of "?P * 64" v ?P] by simp
  show "v div ?P < 128" using b by (intro div_lt) auto
qed

lemma histIndex_exact:
  assumes "log2_ok log2f" shows "histIndex log2f v = exactIndex v"
proof (cases "v < 64")
  case True then show ?thesis by (auto simp: histIndex_def exactIndex_def hist_consts)
next
  case False
  let ?e = "ilog2 v"
  have e6: "6 \<le> ?e" using ilog2_ge[of 6 v] False by simp
  consider "v < 0x80000000" | "0x80000000 \<le> v" "log2f v = ?e"
    | "0x80000000 \<le> v" "log2f v = ?e + 1" "127 * 2 ^ nat (?e + 1) \<le> 128 * v"
    | "0x80000000 \<le> v" "log2f v = ?e - 1" "128 * v < 129 * 2 ^ nat ?e"
    using assms[unfolded log2_ok_def, rule_format, of v] by (cases "v < 0x80000000") auto
  then show ?thesis
  proof cases
    case 1 then show ?thesis using False by (simp add: histIndex_def exactIndex_def hist_consts clz32_def Let_def)
  next
    case 2 then show ?thesis using False by (simp add: histIndex_def exactIndex_def hist_consts Let_def)
  next
    case 3
    let ?P = "(2::int) ^ nat (?e - 6)"
    have p: "(2::int) ^ nat (?e + 1) = ?P * 128" "(2::int) ^ nat (?e - 5) = ?P * 2"
      using pow_split[of "?e - 6" "?e + 1" 7] pow_split[of "?e - 6" "?e - 5" 1] e6 by simp_all
    have up: "v < ?P * 128" using ilog2_bounds[of v] False p by simp
    have lo: "127 * ?P \<le> v" using 3 p by simp
    have "v div ?P = 127" using up lo by (intro int_div_pos_eq[of _ _ _ "v - 127 * ?P"]) auto
    moreover have "v div (?P * 2) = 63" using up lo by (intro int_div_pos_eq[of _ _ _ "v - 63 * (?P * 2)"]) auto
    ultimately show ?thesis using 3 p False by (simp add: histIndex_def exactIndex_def hist_consts Let_def)
  next
    case 4
    have e31: "31 \<le> ?e" using ilog2_ge[of 31 v] 4 by simp
    let ?P = "(2::int) ^ nat (?e - 7)"
    have p: "(2::int) ^ nat ?e = ?P * 128" "(2::int) ^ nat (?e - 6) = ?P * 2"
      using pow_split[of "?e - 7" ?e 7] pow_split[of "?e - 7" "?e - 6" 1] e31 by simp_all
    have lo: "?P * 128 \<le> v" using ilog2_bounds[of v] False p by simp
    have up: "v < 129 * ?P" using 4 p by simp
    have "v div ?P = 128" using up lo by (intro int_div_pos_eq[of _ _ _ "v - 128 * ?P"]) auto
    moreover have "v div (?P * 2) = 64" using up lo by (intro int_div_pos_eq[of _ _ _ "v - 64 * (?P * 2)"]) auto
    ultimately show ?thesis using 4 p False by (simp add: histIndex_def exactIndex_def hist_consts Let_def)
  qed
qed

lemma exactIndex_range: "0 \<le> exactIndex v \<and> exactIndex v < 4096"
proof (cases "v < 64")
  case False
  then have "6 \<le> ilog2 v" using ilog2_ge[of 6 v] by simp
  then show ?thesis using mantissa_bounds[of v] False by (simp add: exactIndex_def min_def)
qed (simp add: exactIndex_def)

lemma ilog2_mono: "u \<le> v \<Longrightarrow> 1 \<le> u \<Longrightarrow> ilog2 u \<le> ilog2 v"
  using ilog2_lt[of u "nat (ilog2 v + 1)"] ilog2_bounds[of v] ilog2_nonneg[of v] by simp

lemma exactIndex_mono: assumes "u \<le> v" shows "exactIndex u \<le> exactIndex v"
proof (cases "u < 64")
  case True
  show ?thesis
  proof (cases "v < 64")
    case False
    then have "6 \<le> ilog2 v" using ilog2_ge[of 6 v] by simp
    then show ?thesis using mantissa_bounds[of v] False True by (simp add: exactIndex_def min_def)
  qed (use True assms in \<open>simp add: exactIndex_def\<close>)
next
  case False
  then have v: "\<not> v < 64" using assms by simp
  show ?thesis
  proof (cases "ilog2 u = ilog2 v")
    case True
    have "u div 2 ^ nat (ilog2 v - 6) \<le> v div 2 ^ nat (ilog2 v - 6)" using assms by (rule zdiv_mono1) simp
    then show ?thesis using True False v by (simp add: exactIndex_def min_def)
  next
    case neq: False
    then have "ilog2 u + 1 \<le> ilog2 v" using ilog2_mono[OF assms] False by simp
    then show ?thesis using mantissa_bounds[of u] mantissa_bounds[of v] False v by (simp add: exactIndex_def min_def)
  qed
qed

lemma histValue_exactIndex_small: "0 \<le> v \<Longrightarrow> v < 128 \<Longrightarrow> histValue (exactIndex v) = v"
proof -
  assume v: "0 \<le> v" "v < 128"
  show ?thesis
  proof (cases "v < 64")
    case True with v show ?thesis by (simp add: exactIndex_def histValue_def hist_consts)
  next
    case False
    have "ilog2 v = 6" using ilog2_ge[of 6 v] ilog2_lt[of v 7] v False by simp
    then show ?thesis using v False by (simp add: exactIndex_def histValue_def hist_consts)
  qed
qed

lemma histValue_exactIndex_large:
  assumes "128 \<le> v" "v < 2 ^ 69"
  shows "\<exists>w r. 0 < w \<and> even w \<and> histValue (exactIndex v) = r * w + w div 2 \<and> r * w \<le> v \<and> v < r * w + w \<and> 64 \<le> r"
proof -
  let ?e = "ilog2 v" and ?m = "v div 2 ^ nat (ilog2 v - 6)" and ?P = "(2::int) ^ nat (ilog2 v - 6)"
  have e: "7 \<le> ?e" "?e < 69" using ilog2_ge[of 7 v] ilog2_lt[of v 69] assms by simp_all
  have m: "64 \<le> ?m" "?m < 128" using mantissa_bounds[of v] assms by simp_all
  have idx: "exactIndex v = 64 * (?e - 6) + ?m" using m e assms by (simp add: exactIndex_def min_def)
  have d: "exactIndex v div 64 = ?e - 5" "exactIndex v mod 64 = ?m - 64"
    using m idx int_div_pos_eq[of "exactIndex v" 64 "?e - 5" "?m - 64"]
      int_mod_pos_eq[of "exactIndex v" 64 "?e - 5" "?m - 64"] by simp_all
  have ge: "\<not> exactIndex v < 128" using m e by (simp add: idx)
  have "histValue (exactIndex v) = ?m * ?P + ?P div 2"
    using ge d by (simp add: histValue_def hist_consts Let_def)
  moreover have "even ?P" using e by simp
  moreover have "?m * ?P \<le> v" "v < ?m * ?P + ?P"
    by (rule div_bracket, simp)+
  ultimately show ?thesis using m by (intro exI[of _ ?P] exI[of _ ?m]) auto
qed


section \<open>Samples a histogram represents\<close>

definition clamp_us :: "int option \<Rightarrow> int" where
  "clamp_us a = (case a of Some u \<Rightarrow> max 0 u | None \<Rightarrow> 0)"

definition represents :: "histogram \<Rightarrow> int list \<Rightarrow> bool" where
  "represents h xs \<longleftrightarrow>
     (\<forall>i. buckets h i = length (filter (\<lambda>x. exactIndex x = i) xs)) \<and>
     hcount h = length xs \<and> hsum h = sum_list xs \<and>
     hmin h = (if xs = [] then None else Some (Min (set xs))) \<and>
     hmax h = Max (insert 0 (set xs)) \<and> (\<forall>x \<in> set xs. 0 \<le> x)"

lemma represents_new: "represents hist_new []"
  by (simp add: represents_def hist_new_def)

lemma represents_reset: "represents (hist_reset h) []"
  by (simp add: represents_def hist_reset_def)

lemma observe_represents:
  assumes "log2_ok log2f" "represents h xs"
  shows "represents (observe log2f h a) (xs @ [clamp_us a])"
proof -
  let ?u = "clamp_us a"
  have us: "(case a of Some u \<Rightarrow> if 0 \<le> u then u else 0 | None \<Rightarrow> 0) = ?u"
    by (simp add: clamp_us_def max_def split: option.splits)
  have u0: "0 \<le> ?u" by (simp add: clamp_us_def split: option.splits)
  have mn: "xs \<noteq> [] \<Longrightarrow> Min (set (xs @ [?u])) = min ?u (Min (set xs))" by simp
  have F: "Max (insert 0 (set ys)) = fold max ys 0" for ys :: "int list"
    using Max.set_eq_fold[of 0 ys] by simp
  have mn2: "(if ?u < Min (set xs) then Some ?u else Some (Min (set xs))) = Some (min ?u (Min (set xs)))"
    by auto
  have mnA: "min ?u (Min (set xs)) = Min (set xs)" if "x \<in> set xs" "\<not> ?u < x" for x
  proof -
    have "Min (set xs) \<le> x" using that(1) by (intro Min_le) simp_all
    then have "Min (set xs) \<le> ?u" using that(2) by linarith
    then show ?thesis by (simp add: min_absorb2)
  qed
  show ?thesis
    using assms(2) u0
    unfolding represents_def observe_def us Let_def histIndex_exact[OF assms(1)] F
    by (auto simp: mn2 max_def intro!: mnA[symmetric])
qed

text \<open>C8. Refinement of the histogram: starting from the constructor, after any sequence of
  \<open>observe\<close> calls the object represents exactly the multiset of clamped samples: every
  bucket counts the samples of its index, and count, sum, minimum and maximum are theirs.\<close>

theorem histogram_refines_samples:
  assumes "log2_ok log2f"
  shows "represents (foldl (observe log2f) hist_new args) (map clamp_us args)"
proof (induction args rule: rev_induct)
  case Nil show ?case by (simp add: represents_new)
next
  case (snoc a args) then show ?case using observe_represents[OF assms snoc] by simp
qed

lemma log2_ok_ilog2: "log2_ok ilog2"
  by (simp add: log2_ok_def)

theorem histogram_refines_samples_witness:
  "log2_ok ilog2 \<and> represents (foldl (observe ilog2) hist_new [Some 70, None, Some (- 3)]) (map clamp_us [Some 70, None, Some (- 3)])"
  using histogram_refines_samples[OF log2_ok_ilog2, of "[Some 70, None, Some (- 3)]"] log2_ok_ilog2 by blast

text \<open>Bucketing: whatever the engine's rounding of \<open>Math.log2\<close> within 1/128 of a power of
  two, every sample falls into one of the 4096 buckets, larger samples never into a lower
  bucket, and for samples below \<open>2^69\<close> microseconds the value read back from the bucket
  differs from the sample by at most one part in 128.\<close>

theorem histogram_bucket_accuracy:
  assumes "log2_ok log2f"
  shows "0 \<le> histIndex log2f v \<and> histIndex log2f v < HIST_BUCKET_COUNT \<and>
     (u \<le> v \<longrightarrow> histIndex log2f u \<le> histIndex log2f v) \<and>
     (0 \<le> v \<and> v < 2 ^ 69 \<longrightarrow> 128 * \<bar>histValue (histIndex log2f v) - v\<bar> \<le> v)"
proof (intro conjI impI)
  show "0 \<le> histIndex log2f v" "histIndex log2f v < HIST_BUCKET_COUNT"
    using exactIndex_range[of v] by (simp_all add: histIndex_exact[OF assms] HIST_BUCKET_COUNT_def)
  show "u \<le> v \<Longrightarrow> histIndex log2f u \<le> histIndex log2f v"
    by (simp add: histIndex_exact[OF assms] exactIndex_mono)
  have aux: "64 * w \<le> x \<Longrightarrow> 2 * y = w \<Longrightarrow> D \<le> y \<Longrightarrow> x \<le> v \<Longrightarrow> 128 * D \<le> v" for D w x y :: int
    by linarith
  assume v: "0 \<le> v \<and> v < 2 ^ 69"
  show "128 * \<bar>histValue (histIndex log2f v) - v\<bar> \<le> v"
  proof (cases "v < 128")
    case True
    then show ?thesis using v by (simp add: histIndex_exact[OF assms] histValue_exactIndex_small)
  next
    case False
    then obtain w r where w: "0 < w" "even w" "histValue (exactIndex v) = r * w + w div 2"
      "r * w \<le> v" "v < r * w + w" "64 \<le> r"
      using histValue_exactIndex_large[of v] v by (metis not_less)
    have "64 * w \<le> r * w" using w by (intro mult_right_mono) auto
    moreover have h: "2 * (w div 2) = w" using w(2) by simp
    moreover have "\<bar>r * w + w div 2 - v\<bar> \<le> w div 2" using w(4,5) h by linarith
    ultimately have "128 * \<bar>r * w + w div 2 - v\<bar> \<le> v" using w(4) aux by blast
    then show ?thesis using w(3) by (simp only: histIndex_exact[OF assms])
  qed
qed

theorem histogram_bucket_accuracy_witness:
  "log2_ok ilog2 \<and> 128 * \<bar>histValue (histIndex ilog2 1000) - 1000\<bar> \<le> 1000"
  using histogram_bucket_accuracy[OF log2_ok_ilog2, of 1000 0] log2_ok_ilog2 by simp

section \<open>Percentiles\<close>

definition below :: "(int \<Rightarrow> nat) \<Rightarrow> int \<Rightarrow> int \<Rightarrow> nat" where
  "below b i j = (\<Sum>k \<in> {i..<j}. b k)"

lemma below_step: "i < j \<Longrightarrow> below b i j = b i + below b (i + 1) j"
proof -
  assume "i < j"
  then have "{i..<j} = insert i {i + 1..<j}" by auto
  then show ?thesis by (simp add: below_def)
qed

lemma below_refl [simp]: "below b i i = 0"
  by (simp add: below_def)

lemma below_one [simp]: "below b i (i + 1) = b i"
  by (simp add: below_step)

lemma below_mono: "j \<le> j' \<Longrightarrow> below b i j \<le> below b i j'"
  unfolding below_def by (rule sum_mono2) auto

text \<open>\<open>i\<close> is the first bucket at which the running count reaches the threshold \<open>t\<close>.\<close>

definition reaches :: "(int \<Rightarrow> nat) \<Rightarrow> int \<Rightarrow> nat \<Rightarrow> rat \<Rightarrow> int \<Rightarrow> bool" where
  "reaches b i0 acc t i \<longleftrightarrow> i0 \<le> i \<and> of_nat (acc + below b i0 i) < t \<and> t \<le> of_nat (acc + below b i0 (i + 1))"

lemma reaches_mono:
  assumes "reaches b i0 acc t i" "reaches b i0 acc t' i'" "t \<le> t'" shows "i \<le> i'"
proof (rule ccontr)
  assume "\<not> i \<le> i'"
  then have "below b i0 (i' + 1) \<le> below b i0 i" by (intro below_mono) simp
  then have "(of_nat (acc + below b i0 (i' + 1)) :: rat) \<le> of_nat (acc + below b i0 i)" by (simp only: of_nat_le_iff add_left_mono)
  then show False using assms by (simp only: reaches_def) linarith
qed

lemma reaches_shift:
  "reaches b (i0 + 1) (acc + b i0) t i \<Longrightarrow> reaches b i0 acc t i"
  by (auto simp: reaches_def below_step[of i0] add.assoc)

lemma dropWhile_sorted:
  fixes f :: "'a \<Rightarrow> 'b::linorder"
  assumes "sorted (map f qs)" "q \<in> set (dropWhile (\<lambda>q. f q \<le> a) qs)" shows "a < f q"
  using assms by (induction qs) (auto split: if_splits)

lemma pct_scan_reaches:
  assumes "sorted (map (\<lambda>q. rnd (q * of_nat c)) qs)"
    and "\<forall>q \<in> set qs. of_nat acc < rnd (q * of_nat c) \<and> rnd (q * of_nat c) \<le> of_nat (acc + below b i (i + int n))"
  shows "list_all2 (\<lambda>q v. \<exists>j. reaches b i acc (rnd (q * of_nat c)) j \<and> v = rnd (of_int (histValue j) / 1000))
     qs (pct_scan b c n i acc qs)"
  using assms
proof (induction n arbitrary: i acc qs)
  case 0
  then have "qs = []" by (cases qs) auto
  then show ?case by simp
next
  case (Suc n)
  let ?t = "\<lambda>q. rnd (q * of_nat c)" and ?acc = "acc + b i"
  let ?P = "\<lambda>q. ?t q \<le> of_nat ?acc"
  show ?case
  proof (cases "qs = []")
    case False
    have step: "below b i (i + int (Suc n)) = b i + below b (i + 1) (i + 1 + int n)"
      using below_step[of i "i + int (Suc n)" b] by (simp add: algebra_simps)
    have tw: "list_all2 (\<lambda>q v. \<exists>j. reaches b i acc (?t q) j \<and> v = rnd (of_int (histValue j) / 1000))
        (takeWhile ?P qs) (replicate (length (takeWhile ?P qs)) (rnd (of_int (histValue i) / 1000)))"
    proof (rule list_all2_all_nthI)
      fix k assume k: "k < length (takeWhile ?P qs)"
      then have "takeWhile ?P qs ! k \<in> set (takeWhile ?P qs)" by (rule nth_mem)
      then have "?P (takeWhile ?P qs ! k)" "takeWhile ?P qs ! k \<in> set qs"
        by (auto dest: set_takeWhileD)
      then have "reaches b i acc (?t (takeWhile ?P qs ! k)) i" using Suc.prems(2) by (simp add: reaches_def)
      then show "\<exists>j. reaches b i acc (?t (takeWhile ?P qs ! k)) j \<and>
          replicate (length (takeWhile ?P qs)) (rnd (of_int (histValue i) / 1000)) ! k = rnd (of_int (histValue j) / 1000)"
        using k by auto
    qed simp
    have dw: "list_all2 (\<lambda>q v. \<exists>j. reaches b i acc (?t q) j \<and> v = rnd (of_int (histValue j) / 1000))
        (dropWhile ?P qs) (pct_scan b c n (i + 1) ?acc (dropWhile ?P qs))"
    proof (rule list_all2_mono[OF Suc.IH])
      show "sorted (map ?t (dropWhile ?P qs))"
        using Suc.prems(1) by (simp add: dropWhile_eq_drop sorted_wrt_drop flip: drop_map)
      show "\<forall>q \<in> set (dropWhile ?P qs). of_nat ?acc < ?t q \<and> ?t q \<le> of_nat (?acc + below b (i + 1) (i + 1 + int n))"
        using dropWhile_sorted[OF Suc.prems(1)] Suc.prems(2) step
        by (auto dest: set_dropWhileD simp: add.assoc)
    qed (auto dest: reaches_shift)
    show ?thesis
    proof (cases "b i = 0")
      case True
      have "takeWhile ?P qs = []" using Suc.prems(2) True False by (cases qs) auto
      then have "dropWhile ?P qs = qs" by (metis append_Nil takeWhile_dropWhile_id)
      then show ?thesis using dw True False by simp
    next
      case bi: False
      have "list_all2 (\<lambda>q v. \<exists>j. reaches b i acc (?t q) j \<and> v = rnd (of_int (histValue j) / 1000))
        (takeWhile ?P qs @ dropWhile ?P qs) (pct_scan b c (Suc n) i acc qs)"
        using list_all2_appendI[OF tw dw] bi False by (simp add: Let_def)
      then show ?thesis by simp
    qed
  qed simp
qed

lemma targets_eq: "targets = [1/2, rnd (9/10), rnd (99/100), rnd (999/1000)]"
proof -
  have "flog2 (1/2) = - 1" by (rule flog2_unique) (simp_all add: power_int_def)
  then have "rnd (1/2) = 1/2" by (intro rnd_grid[where m = "2 ^ 52"]) (simp_all add: quantum_def power_int_def power_divide)
  then show ?thesis by (simp add: targets_def)
qed

lemma rnd_below_one: assumes "0 \<le> q" "q \<le> 1" shows "0 \<le> rnd q" "rnd q \<le> 1"
  using rnd_mono[OF assms(1)] rnd_mono[OF assms(2)] rnd_of_int[of 1] by simp_all

lemma targets_range: "q \<in> set targets \<Longrightarrow> 1/2 \<le> q \<and> q \<le> 1"
proof -
  have half: "rnd (1/2) = 1/2" using targets_eq by (simp add: targets_def)
  assume "q \<in> set targets"
  then show ?thesis
    using rnd_mono[of "1/2" "9/10"] rnd_mono[of "1/2" "99/100"] rnd_mono[of "1/2" "999/1000"]
      rnd_below_one[of "9/10"] rnd_below_one[of "99/100"] rnd_below_one[of "999/1000"] half
    by (auto simp: targets_def)
qed

lemma targets_sorted: "sorted targets"
  using rnd_mono[of "5/10" "9/10"] rnd_mono[of "9/10" "99/100"] rnd_mono[of "99/100" "999/1000"]
    rnd_mono[of "5/10" "99/100"] rnd_mono[of "5/10" "999/1000"] rnd_mono[of "9/10" "999/1000"]
  by (simp add: targets_def)

text \<open>The thresholds \<open>q * count\<close> lie above zero and not above the count, as long as the
  count is an exact double.\<close>

lemma thresholds:
  assumes "q \<in> set targets" "0 < c" "c \<le> 2 ^ 53"
  shows "0 < rnd (q * of_nat c)" "rnd (q * of_nat c) \<le> of_nat c"
proof -
  have q: "1/2 \<le> q" "q \<le> 1" using targets_range[OF assms(1)] by auto
  have "rnd (q * of_nat c) \<le> rnd (of_nat c)" using q by (intro rnd_mono) (simp add: mult_left_le_one_le)
  also have "\<dots> = of_nat c" using rnd_of_int[of "int c"] assms(3) by simp
  finally show "rnd (q * of_nat c) \<le> of_nat c" .
  have half: "rnd (1/2) = 1/2" using targets_eq by (simp add: targets_def)
  have "1/2 * 1 \<le> q * of_nat c" using q assms(2) by (intro mult_mono) auto
  then have "rnd (1/2) \<le> rnd (q * of_nat c)" by (intro rnd_mono) simp
  then show "0 < rnd (q * of_nat c)" using half by simp
qed

text \<open>Samples whose bucket lies below \<open>i\<close>.\<close>

lemma represents_below:
  assumes "represents h xs" shows "below (buckets h) 0 i = length (filter (\<lambda>x. exactIndex x < i) xs)"
proof -
  have "below (buckets h) 0 i = (\<Sum>j \<in> {0..<i}. length (filter (\<lambda>x. exactIndex x = j) xs))"
    using assms by (simp add: below_def represents_def)
  also have "\<dots> = length (filter (\<lambda>x. exactIndex x \<in> {0..<i}) xs)"
    by (rule sum_length_filter) simp
  finally show ?thesis using exactIndex_range by simp
qed

lemma represents_total: "represents h xs \<Longrightarrow> below (buckets h) 0 4096 = length xs"
  using represents_below[of h xs 4096] exactIndex_range by simp

text \<open>The nearest-rank percentile over buckets: \<open>i\<close> is the bucket of the sample of rank \<open>t\<close>.\<close>

definition rank_bucket :: "int list \<Rightarrow> rat \<Rightarrow> int \<Rightarrow> bool" where
  "rank_bucket xs t i \<longleftrightarrow> 0 \<le> i \<and> of_nat (length (filter (\<lambda>x. exactIndex x < i) xs)) < t \<and>
     t \<le> of_nat (length (filter (\<lambda>x. exactIndex x \<le> i) xs))"

lemma reaches_rank:
  "represents h xs \<Longrightarrow> reaches (buckets h) 0 0 t i \<Longrightarrow> rank_bucket xs t i"
  by (simp add: reaches_def rank_bucket_def represents_below)

lemma percentiles_rank:
  assumes "represents h xs" "xs \<noteq> []" "length xs \<le> 2 ^ 53"
  shows "list_all2 (\<lambda>q v. \<exists>i. reaches (buckets h) 0 0 (rnd (q * of_nat (length xs))) i \<and>
           v = rnd (of_int (histValue i) / 1000)) targets (percentiles h mx)"
proof -
  have c: "hcount h = length xs" using assms(1) by (simp add: represents_def)
  let ?R = "\<lambda>q v. \<exists>i. reaches (buckets h) 0 0 (rnd (q * of_nat (length xs))) i \<and> v = rnd (of_int (histValue i) / 1000)"
  let ?found = "pct_scan (buckets h) (length xs) 4096 0 0 targets"
  have sorted: "sorted (map (\<lambda>q. rnd (q * of_nat (length xs))) targets)"
    unfolding sorted_map
    by (rule sorted_wrt_mono_rel[OF _ targets_sorted]) (auto intro!: rnd_mono mult_right_mono)
  have all: "list_all2 ?R targets ?found"
    using pct_scan_reaches[OF sorted, of 0 "buckets h" 0 4096] thresholds assms(2,3) represents_total[OF assms(1)]
    by simp
  then have "length ?found = length targets" by (simp add: list_all2_lengthD)
  then show ?thesis using all by (simp add: percentiles_def c HIST_BUCKET_COUNT_def)
qed

lemma div64_carry:
  assumes "(k::int) mod 64 = 63" shows "(k + 1) div 64 = k div 64 + 1" "(k + 1) mod 64 = 0"
proof -
  have "k = 64 * (k div 64) + 63" using mult_div_mod_eq[of 64 k] assms by simp
  then have e: "k + 1 = 64 * (k div 64 + 1) + 0" by simp
  show "(k + 1) div 64 = k div 64 + 1" by (rule int_div_pos_eq[OF e]) simp_all
  show "(k + 1) mod 64 = 0" by (rule int_mod_pos_eq[OF e]) simp_all
qed

lemma div64_next:
  assumes "(k::int) mod 64 \<noteq> 63" shows "(k + 1) div 64 = k div 64" "(k + 1) mod 64 = k mod 64 + 1"
proof -
  have m: "0 \<le> k mod 64" "k mod 64 < 63" using assms pos_mod_bound[of 64 k] pos_mod_sign[of 64 k] by linarith+
  have e: "k + 1 = 64 * (k div 64) + (k mod 64 + 1)" using mult_div_mod_eq[of 64 k] by simp
  show "(k + 1) div 64 = k div 64" by (rule int_div_pos_eq[OF e]) (use m in simp_all)
  show "(k + 1) mod 64 = k mod 64 + 1" by (rule int_mod_pos_eq[OF e]) (use m in simp_all)
qed

definition hist_cell :: "int \<Rightarrow> int \<Rightarrow> int" where
  "hist_cell s m = (m + 64) * 2 ^ nat s + 2 ^ nat s div 2"

lemma histValue_cell: "128 \<le> k \<Longrightarrow> histValue k = hist_cell (k div 64 - 1) (k mod 64)"
  by (simp add: histValue_def hist_consts Let_def hist_cell_def)

lemma hist_cell_mono: "hist_cell s m \<le> hist_cell s (m + 1)"
  unfolding hist_cell_def by (intro add_right_mono mult_right_mono) auto

lemma hist_cell_carry: assumes "0 \<le> s" shows "hist_cell s 63 \<le> hist_cell (s + 1) 0"
proof -
  have "nat (s + 1) = Suc (nat s)" using assms by simp
  then have p: "(2::int) ^ nat (s + 1) = 2 * 2 ^ nat s" by simp
  have "0 < (2::int) ^ nat s" by simp
  then have "(2::int) ^ nat s div 2 \<le> 2 * 2 ^ nat s" by linarith
  then show ?thesis unfolding hist_cell_def p by simp
qed

lemma histValue_step: assumes "0 \<le> k" shows "histValue k \<le> histValue (k + 1)"
proof -
  consider "k < 127" | "k = 127" | "128 \<le> k" "k mod 64 = 63" | "128 \<le> k" "k mod 64 \<noteq> 63" by linarith
  then show ?thesis
  proof cases
    case 1 then show ?thesis by (simp add: histValue_def hist_consts)
  next
    case 2 then show ?thesis by (simp add: histValue_def hist_consts)
  next
    case 3
    have "0 \<le> k div 64 - 1" using 3 zdiv_mono1[of 128 k 64] by simp
    then show ?thesis
      using 3 hist_cell_carry[of "k div 64 - 1"] div64_carry[of k] by (simp add: histValue_cell)
  next
    case 4
    then show ?thesis
      using hist_cell_mono[of "k div 64 - 1" "k mod 64"] div64_next[of k] by (simp add: histValue_cell)
  qed
qed

lemma histValue_mono: assumes "0 \<le> i" "i \<le> j" shows "histValue i \<le> histValue j"
proof -
  have "0 \<le> i \<Longrightarrow> histValue i \<le> histValue (i + int n)" for n
  proof (induction n)
    case (Suc n)
    then have "histValue i \<le> histValue (i + int n)" "histValue (i + int n) \<le> histValue (i + int n + 1)"
      using histValue_step[of "i + int n"] by simp_all
    moreover have "i + int (Suc n) = i + int n + 1" by simp
    ultimately show ?case by (simp only:)
  qed simp
  from this[of "nat (j - i)"] assms show ?thesis by simp
qed

text \<open>Percentiles: for a histogram of at least one sample, every percentile is resolved by
  the scan (the fallback to the maximum is never taken), is the value of the bucket that
  holds the sample of rank \<open>q * count\<close>, and p50, p90, p99 and p99.9 are in ascending order.\<close>

theorem snapshot_percentiles:
  assumes "represents h xs" "xs \<noteq> []" "length xs \<le> 2 ^ 53"
  shows "\<exists>i50 i90 i99 i999.
      rank_bucket xs (rnd (rnd (5/10) * of_nat (length xs))) i50 \<and> p50Ms (hist_snapshot h) = rnd (of_int (histValue i50) / 1000) \<and>
      rank_bucket xs (rnd (rnd (9/10) * of_nat (length xs))) i90 \<and> p90Ms (hist_snapshot h) = rnd (of_int (histValue i90) / 1000) \<and>
      rank_bucket xs (rnd (rnd (99/100) * of_nat (length xs))) i99 \<and> p99Ms (hist_snapshot h) = rnd (of_int (histValue i99) / 1000) \<and>
      rank_bucket xs (rnd (rnd (999/1000) * of_nat (length xs))) i999 \<and> p999Ms (hist_snapshot h) = rnd (of_int (histValue i999) / 1000) \<and>
      p50Ms (hist_snapshot h) \<le> p90Ms (hist_snapshot h) \<and> p90Ms (hist_snapshot h) \<le> p99Ms (hist_snapshot h) \<and>
      p99Ms (hist_snapshot h) \<le> p999Ms (hist_snapshot h)"
proof -
  let ?t = "\<lambda>q. rnd (q * of_nat (length xs))" and ?mx = "rnd (of_int (hmax h) / 1000)"
  have ne: "hcount h \<noteq> 0" using assms by (simp add: represents_def)
  let ?R = "\<lambda>q v. \<exists>i. reaches (buckets h) 0 0 (?t q) i \<and> v = rnd (of_int (histValue i) / 1000)"
  have "list_all2 ?R [rnd (5/10), rnd (9/10), rnd (99/100), rnd (999/1000)] (percentiles h ?mx)"
    using percentiles_rank[OF assms, of ?mx] unfolding targets_def .
  then obtain p1 p2 p3 p4 where ps: "percentiles h ?mx = [p1, p2, p3, p4]"
    and all: "?R (rnd (5/10)) p1" "?R (rnd (9/10)) p2" "?R (rnd (99/100)) p3" "?R (rnd (999/1000)) p4"
    unfolding list_all2_Cons1 list_all2_Nil by blast
  obtain i1 where r1: "reaches (buckets h) 0 0 (?t (rnd (5/10))) i1" "p1 = rnd (of_int (histValue i1) / 1000)"
    using all(1) by blast
  obtain i2 where r2: "reaches (buckets h) 0 0 (?t (rnd (9/10))) i2" "p2 = rnd (of_int (histValue i2) / 1000)"
    using all(2) by blast
  obtain i3 where r3: "reaches (buckets h) 0 0 (?t (rnd (99/100))) i3" "p3 = rnd (of_int (histValue i3) / 1000)"
    using all(3) by blast
  obtain i4 where r4: "reaches (buckets h) 0 0 (?t (rnd (999/1000))) i4" "p4 = rnd (of_int (histValue i4) / 1000)"
    using all(4) by blast
  note r = r1 r2 r3 r4
  have t: "?t (rnd (5/10)) \<le> ?t (rnd (9/10))" "?t (rnd (9/10)) \<le> ?t (rnd (99/100))" "?t (rnd (99/100)) \<le> ?t (rnd (999/1000))"
    by (intro rnd_mono mult_right_mono; simp)+
  have ord: "rnd (of_int (histValue i) / 1000) \<le> rnd (of_int (histValue j) / 1000)"
    if "reaches (buckets h) 0 0 t i" "reaches (buckets h) 0 0 t' j" "t \<le> t'" for i j t t'
    using reaches_mono[OF that] that(1) histValue_mono[of i j] by (intro rnd_mono) (simp add: reaches_def divide_right_mono)
  have snap: "p50Ms (hist_snapshot h) = p1" "p90Ms (hist_snapshot h) = p2" "p99Ms (hist_snapshot h) = p3" "p999Ms (hist_snapshot h) = p4"
    using ne ps by (simp_all add: hist_snapshot_def Let_def)
  show ?thesis
    using reaches_rank[OF assms(1) r(1)] reaches_rank[OF assms(1) r(3)] reaches_rank[OF assms(1) r(5)]
      reaches_rank[OF assms(1) r(7)] ord[OF r(1) r(3) t(1)] ord[OF r(3) r(5) t(2)] ord[OF r(5) r(7) t(3)]
    unfolding snap r(2) r(4) r(6) r(8) by blast
qed

theorem snapshot_percentiles_witness:
  "\<exists>h. represents h [70, 5, 1000] \<and> p50Ms (hist_snapshot h) \<le> p90Ms (hist_snapshot h)"
proof -
  let ?h = "foldl (observe ilog2) hist_new [Some 70, Some 5, Some 1000]"
  have "represents ?h [70, 5, 1000]"
    using observe_represents[OF log2_ok_ilog2 observe_represents[OF log2_ok_ilog2
        observe_represents[OF log2_ok_ilog2 represents_new, of "Some 70"], of "Some 5"], of "Some 1000"]
    by (simp add: clamp_us_def)
  then show ?thesis using snapshot_percentiles[of ?h "[70, 5, 1000]"] by force
qed

section \<open>Counters\<close>

lemma metrics_get_inc: "metrics_get (metrics_inc k n m) k' = (if k' = k then metrics_get m k + n else metrics_get m k')"
  by (simp add: metrics_get_def metrics_inc_def)

lemma map_of_zeroed: "map_of (map (\<lambda>(k, n). (k, 0)) ps) k = (case map_of ps k of None \<Rightarrow> None | Some n \<Rightarrow> Some (0::nat))"
  by (induction ps) auto

lemma metrics_get_reset: "metrics_get (metrics_reset now m) k = 0"
  by (simp add: metrics_get_def metrics_reset_def map_of_zeroed split: option.splits)

lemma metrics_get_run:
  "metrics_get (fold (\<lambda>p. metrics_inc (fst p) (snd p)) ps m) k =
     metrics_get m k + sum_list (map snd (filter (\<lambda>p. fst p = k) ps))"
  by (induction ps arbitrary: m) (auto simp: metrics_get_inc)

text \<open>Counters: after a request to \<open>/metrics/reset\<close> and any sequence of increments, the
  snapshot reported by \<open>/metrics\<close> counts for each counter exactly the increments made since
  the reset, whatever query string the requests carried.\<close>

theorem counters_since_reset:
  assumes "takeWhile (\<lambda>c. c \<noteq> CHR ''?'') url1 = ''/metrics/reset''" "takeWhile (\<lambda>c. c \<noteq> CHR ''?'') url2 = ''/metrics''"
    and "m1 = snd (metrics_http t1 g1 a1 url1 m)" "m2 = fold (\<lambda>p. metrics_inc (fst p) (snd p)) ps m1"
    and "metrics_http t2 g2 a2 url2 m2 = (Json s, m3)"
  shows "m3 = m2 \<and> nTimestamp s = t2 \<and> processActive s = a2 \<and>
    (case map_of (nCounters s) k of None \<Rightarrow> 0 | Some n \<Rightarrow> n) = sum_list (map snd (filter (\<lambda>p. fst p = k) ps))"
proof -
  have m1: "m1 = metrics_reset t1 m" using assms(1,3) by (simp add: metrics_http_def Let_def)
  have s: "s = metrics_snapshot t2 g2 a2 m2" "m3 = m2" using assms(2,5) by (auto simp: metrics_http_def Let_def)
  have "metrics_get m2 k = sum_list (map snd (filter (\<lambda>p. fst p = k) ps))"
    by (simp add: assms(4) m1 metrics_get_run metrics_get_reset)
  then show ?thesis by (simp add: s metrics_snapshot_def Let_def metrics_get_def)
qed

theorem counters_since_reset_witness:
  "\<exists>s m. metrics_http 9 None True ''/metrics?x=1'' (metrics_inc ''errors'' 3 (metrics_reset 5 (metrics_new 0))) = (Json s, m) \<and>
     (case map_of (nCounters s) ''errors'' of None \<Rightarrow> 0 | Some n \<Rightarrow> n) = 3"
proof -
  let ?m = "metrics_inc ''errors'' 3 (metrics_reset 5 (metrics_new 0))"
  have eq: "metrics_http 9 None True ''/metrics?x=1'' ?m = (Json (metrics_snapshot 9 None True ?m), ?m)"
    by (simp add: metrics_http_def Let_def)
  then show ?thesis
    using counters_since_reset[of "''/metrics/reset''" "''/metrics?x=1''" "metrics_reset 5 (metrics_new 0)" 5 None True "metrics_new 0"
      ?m "[(''errors'', 3)]" 9 None True "metrics_snapshot 9 None True ?m" ?m "''errors''"]
    by (simp add: metrics_http_def Let_def)
qed

end
