(* ===== verification/JSText.thy ===== *)
theory JSText
  imports JSVal
begin

text \<open>
  Text produced from values: \<open>JSON.stringify\<close> without indentation, \<open>replaceAll\<close> and
  \<open>split\<close> on literal separators.
\<close>

section \<open>JSON\<close>

definition hex_char :: "nat \<Rightarrow> char" where
  "hex_char d = (if d < 10 then char_of (d + 48) else char_of (d + 87))"

definition json_char :: "char \<Rightarrow> string" where
  "json_char c = (let n = of_char c :: nat in
     if n = 0x22 then [CHR 0x5C, CHR 0x22] else if n = 0x5C then [CHR 0x5C, CHR 0x5C]
     else if n = 8 then CHR 0x5C # ''b'' else if n = 9 then CHR 0x5C # ''t'' else if n = 10 then CHR 0x5C # ''n''
     else if n = 12 then CHR 0x5C # ''f'' else if n = 13 then CHR 0x5C # ''r''
     else if n < 32 then CHR 0x5C # ''u00'' @ [hex_char (n div 16), hex_char (n mod 16)]
     else [c])"

definition json_quote :: "string \<Rightarrow> string" where
  "json_quote s = CHR 0x22 # concat (map json_char s) @ [CHR 0x22]"

fun sep_concat :: "string list \<Rightarrow> string" where
  "sep_concat [] = []"
| "sep_concat [x] = x"
| "sep_concat (x # xs) = x @ '','' @ sep_concat xs"

text \<open>The encoding of a value inside an array; a property whose value is undefined is left
  out of its object. Dates are printed by \<open>isof\<close> (\<open>toISOString\<close>).\<close>

fun json_val :: "(jsnum \<Rightarrow> string) \<Rightarrow> jsval \<Rightarrow> string" where
  "json_val isof Undef = ''null''"
| "json_val isof Null = ''null''"
| "json_val isof (Bool b) = (if b then ''true'' else ''false'')"
| "json_val isof (Num x) = (case x of Fin _ \<Rightarrow> num_to_string x | _ \<Rightarrow> ''null'')"
| "json_val isof (Str s) = json_quote s"
| "json_val isof (Date t) = (case t of Fin _ \<Rightarrow> json_quote (isof t) | _ \<Rightarrow> ''null'')"
| "json_val isof (Arr vs) = ''['' @ sep_concat (map (json_val isof) vs) @ '']''"
| "json_val isof (Obj d) = ''{'' @ sep_concat (concat (map (\<lambda>(k, v). if v = Undef then []
      else [json_quote k @ '':'' @ json_val isof v]) d)) @ ''}''"

definition json_stringify :: "(jsnum \<Rightarrow> string) \<Rightarrow> jsval \<Rightarrow> jsval" where
  "json_stringify isof v = (if v = Undef then Undef else Str (json_val isof v))"

section \<open>Searching and replacing\<close>

definition str_includes :: "string \<Rightarrow> string \<Rightarrow> bool" where
  "str_includes p s = (index_of p s \<ge> 0)"

text \<open>\<open>s.replaceAll(p, r)\<close> for a pattern of one character.\<close>

definition replace_char :: "char \<Rightarrow> string \<Rightarrow> string \<Rightarrow> string" where
  "replace_char c r s = concat (map (\<lambda>x. if x = c then r else [x]) s)"

text \<open>\<open>s.replaceAll(p, r)\<close> for a longer pattern: left to right, not overlapping.\<close>

function replace_all :: "string \<Rightarrow> string \<Rightarrow> string \<Rightarrow> string" where
  "replace_all p r s = (if p = [] then s else (case s of [] \<Rightarrow> [] | c # t \<Rightarrow>
     if starts_with p s then r @ replace_all p r (drop (length p) s) else c # replace_all p r t))"
  by pat_completeness auto
termination
  by (relation "measure (\<lambda>(p, r, s). length s)") (auto simp: neq_Nil_conv)

declare replace_all.simps [simp del]

fun split_char :: "char \<Rightarrow> string \<Rightarrow> string list" where
  "split_char c [] = [[]]"
| "split_char c (x # s) = (if x = c then [] # split_char c s
     else (case split_char c s of w # ws \<Rightarrow> (x # w) # ws | [] \<Rightarrow> [[x]]))"

lemma replace_char_append [simp]: "replace_char c r (s @ t) = replace_char c r s @ replace_char c r t"
  by (simp add: replace_char_def)

lemma replace_char_absent: "c \<notin> set s \<Longrightarrow> replace_char c r s = s"
  by (induction s) (auto simp: replace_char_def)

section \<open>Length in code units\<close>

text \<open>\<open>s.length\<close> counts UTF-16 units: one for each character, two for those outside the basic
  plane, whose UTF-8 form starts with a byte from \<open>F0\<close> on.\<close>

definition utf16_units :: "char \<Rightarrow> nat" where
  "utf16_units c = (let n = of_char c :: nat in if 0x80 \<le> n \<and> n < 0xC0 then 0 else if 0xF0 \<le> n then 2 else 1)"

definition js_length :: "string \<Rightarrow> nat" where
  "js_length s = sum_list (map utf16_units s)"

lemma js_length_simps [simp, js_simps]:
  "js_length [] = 0" "js_length (c # s) = utf16_units c + js_length s" "js_length (s @ t) = js_length s + js_length t"
  by (simp_all add: js_length_def)

text \<open>\<open>v.length\<close> of a value that is not null.\<close>

definition length_of :: "jsval \<Rightarrow> jsval" where
  "length_of v = (case v of Str s \<Rightarrow> Num (num (int (js_length s))) | Arr vs \<Rightarrow> Num (num (int (length vs))) | _ \<Rightarrow> opt_get v ''length'')"

section \<open>Indexed reading\<close>

text \<open>The values \<open>v[0]\<close>, \<open>v[1]\<close>, and so on below \<open>v.length\<close>. The characters of a text and the numbered
  properties of an object are read too, the latter up to the first that is missing, which is
  undefined.\<close>

definition js_elements :: "jsval \<Rightarrow> js_error + jsval list" where
  "js_elements v = (case v of
       Arr vs \<Rightarrow> Inr vs
     | Str s \<Rightarrow> Inr (map (\<lambda>c. Str [c]) s)
     | Obj d \<Rightarrow> Inr (map (\<lambda>i. case map_of d (int_to_string (int i)) of None \<Rightarrow> Undef | Some x \<Rightarrow> x)
         (takeWhile (\<lambda>i. js_lt (Num (num (int i))) (case map_of d ''length'' of None \<Rightarrow> Undef | Some x \<Rightarrow> x)) [0..<length d + 1]))
     | Null \<Rightarrow> Inl TypeError | Undef \<Rightarrow> Inl TypeError | _ \<Rightarrow> Inr [])"

section \<open>Decimal texts\<close>

lemma digit_char_props:
  assumes "0 \<le> n" "n < 10" shows "is_digit (digit_char n)" "digit_val (digit_char n) = n"
proof -
  have i: "(of_char (digit_char n) :: int) = n + 48" using assms by (simp add: digit_char_def)
  have "(of_char (digit_char n) :: nat) = nat (n + 48)" unfolding i[symmetric] by (rule nat_of_char[symmetric])
  then show "is_digit (digit_char n)" "digit_val (digit_char n) = n" using assms i
    by (auto simp: is_digit_def digit_val_def le_nat_iff nat_le_iff)
qed

lemma nat_digits_all: "list_all is_digit (nat_digits n)"
proof (induction n rule: nat_digits.induct)
  case (1 n)
  then show ?case using digit_char_props(1)[of "int n"] digit_char_props(1)[of "int (n mod 10)"]
    by (subst nat_digits.simps) (simp add: list_all_iff)
qed

lemma nat_digits_ne: "nat_digits n \<noteq> []"
  by (subst nat_digits.simps) simp

lemma digits_val_snoc: "digits_val (s @ [c]) = 10 * digits_val s + digit_val c"
  by (simp add: digits_val_def)

text \<open>Printing and reading back a natural number.\<close>

lemma digits_val_nat_digits: "digits_val (nat_digits n) = int n"
proof (induction n rule: nat_digits.induct)
  case (1 n)
  show ?case
  proof (cases "n < 10")
    case True
    then show ?thesis using digit_char_props(2)[of "int n"] by (subst nat_digits.simps) (simp add: digits_val_def)
  next
    case False
    have "10 * int (n div 10) + int (n mod 10) = int n" by presburger
    then show ?thesis using False 1 digit_char_props(2)[of "int (n mod 10)"]
      by (subst nat_digits.simps) (simp add: digits_val_snoc)
  qed
qed

lemma int_to_string_digits: "0 \<le> i \<Longrightarrow> list_all is_digit (int_to_string i)"
  by (simp add: int_to_string_def nat_digits_all)

lemma int_to_string_inj: "0 \<le> i \<Longrightarrow> 0 \<le> j \<Longrightarrow> int_to_string i = int_to_string j \<Longrightarrow> i = j"
proof -
  assume ij: "0 \<le> i" "0 \<le> j" "int_to_string i = int_to_string j"
  have "digits_val (int_to_string k) = k" if "0 \<le> k" for k
    using that digits_val_nat_digits[of "nat k"] by (simp add: int_to_string_def)
  note inv = this
  have "i = digits_val (int_to_string i)" by (rule inv[OF ij(1), symmetric])
  also have "\<dots> = digits_val (int_to_string j)" by (simp only: ij(3))
  also have "\<dots> = j" by (rule inv[OF ij(2)])
  finally show "i = j" .
qed

lemma num_to_string_int: "\<bar>i\<bar> \<le> 2 ^ 53 \<Longrightarrow> num_to_string (num i) = int_to_string i"
proof -
  assume a: "\<bar>i\<bar> \<le> 2 ^ 53"
  then have "(of_int \<bar>i\<bar> :: rat) \<le> of_int (2 ^ 53)" by (simp only: of_int_le_iff)
  then show ?thesis by (simp add: num_to_string_def num_def)
qed

end
