(* ===== verification/JSDate.thy ===== *)
theory JSDate
  imports JSText
begin

text \<open>
  Dates: a time value is a number of milliseconds since 1970-01-01 UTC. The calendar date
  of a day number, \<open>toISOString\<close>, and the local year (\<open>getFullYear\<close>), for which the offset
  of the local time zone is an argument.
\<close>

definition MS_PER_DAY :: int where "MS_PER_DAY = 86400000"

text \<open>The year, month and day of a day counted from 1970-01-01. Years start in March,
  so that the leap day is the last one; an era is 400 years, 146097 days.\<close>

definition civil_of_days :: "int \<Rightarrow> int \<times> int \<times> int" where
  "civil_of_days n =
     (let z = n + 719468; era = z div 146097; doe = z mod 146097;
          yoe = (doe - doe div 1460 + doe div 36524 - doe div 146096) div 365;
          doy = doe - (365 * yoe + yoe div 4 - yoe div 100);
          mp = (5 * doy + 2) div 153; d = doy - (153 * mp + 2) div 5 + 1;
          m = (if mp < 10 then mp + 3 else mp - 9); y = yoe + era * 400
      in (if m \<le> 2 then y + 1 else y, m, d))"

definition pad0 :: "nat \<Rightarrow> int \<Rightarrow> string" where
  "pad0 k n = (let s = nat_digits (nat n) in replicate (k - length s) (CHR ''0'') @ s)"

definition iso_year :: "int \<Rightarrow> string" where
  "iso_year y = (if 0 \<le> y \<and> y \<le> 9999 then pad0 4 y else if y < 0 then CHR ''-'' # pad0 6 (- y) else CHR ''+'' # pad0 6 y)"

definition iso_text :: "int \<Rightarrow> string" where
  "iso_text t = (let days = t div MS_PER_DAY; ms = t mod MS_PER_DAY; (y, m, d) = civil_of_days days in
     iso_year y @ ''-'' @ pad0 2 m @ ''-'' @ pad0 2 d @ ''T'' @ pad0 2 (ms div 3600000) @ '':'' @ pad0 2 (ms div 60000 mod 60) @
     '':'' @ pad0 2 (ms div 1000 mod 60) @ ''.'' @ pad0 3 (ms mod 1000) @ ''Z'')"

text \<open>\<open>toISOString\<close>: an invalid date throws.\<close>

definition to_iso :: "jsnum \<Rightarrow> js_error + string" where
  "to_iso t = (case t of Fin x \<Rightarrow> Inr (iso_text \<lfloor>x\<rfloor>) | _ \<Rightarrow> Inl RangeError)"

definition iso_of :: "jsnum \<Rightarrow> string" where
  "iso_of t = (case t of Fin x \<Rightarrow> iso_text \<lfloor>x\<rfloor> | _ \<Rightarrow> [])"

text \<open>\<open>getFullYear\<close>; \<open>tz\<close> gives the offset in milliseconds at a time.\<close>

definition full_year :: "(int \<Rightarrow> int) \<Rightarrow> jsnum \<Rightarrow> jsnum" where
  "full_year tz t = (case t of Fin x \<Rightarrow> num (fst (civil_of_days ((\<lfloor>x\<rfloor> + tz \<lfloor>x\<rfloor>) div MS_PER_DAY))) | _ \<Rightarrow> NaN)"

text \<open>\<open>new Date(v)\<close>: a time value is cut to whole milliseconds within the range of dates; \<open>parse\<close> is
  \<open>Date.parse\<close>, whose reading of other texts than ISO ones is left to the engine.\<close>

definition time_clip :: "jsnum \<Rightarrow> jsnum" where
  "time_clip t = (case t of Fin x \<Rightarrow> if \<bar>x\<bar> \<le> 8640000000000000 then num (if 0 \<le> x then \<lfloor>x\<rfloor> else - \<lfloor>- x\<rfloor>) else NaN | _ \<Rightarrow> NaN)"

definition js_date :: "(string \<Rightarrow> jsnum) \<Rightarrow> jsval \<Rightarrow> jsnum" where
  "js_date parse v = (case v of Date t \<Rightarrow> t
     | _ \<Rightarrow> (case to_prim v of Str t \<Rightarrow> parse t | p \<Rightarrow> time_clip (to_number p)))"

section \<open>Checks\<close>

lemma iso_epoch: "iso_text 0 = ''1970-01-01T00:00:00.000Z''"
  by code_simp

lemma iso_leap: "iso_text 951782400123 = ''2000-02-29T00:00:00.123Z''"
  by code_simp

text \<open>Printed text holds no quote.\<close>

lemma nat_digits_no_quote: "CHR 0x27 \<notin> set (nat_digits n)"
  using nat_digits_all[of n] by (auto simp: list_all_iff is_digit_def)

lemma pad0_no_quote [simp]: "CHR 0x27 \<notin> set (pad0 k n)"
  by (auto simp: pad0_def Let_def nat_digits_no_quote)

lemma iso_text_no_quote [simp]: "CHR 0x27 \<notin> set (iso_text t)"
  by (auto simp: iso_text_def Let_def iso_year_def split: prod.splits)

end
