(* ===== verification/ProcQueue.thy ===== *)
theory ProcQueue
  imports Metrics JSDate "HOL-Library.While_Combinator"
begin

text \<open>
  The state of \<open>cs_data_processor.js\<close>, its three queues and what empties them: the bulk write
  of \<open>realtimeData\<close> updates, which coalesces what is queued and keeps one write in flight, and
  the periodic files for the SQL historian. Also the handling of a lost change stream.

  \<open>queue-fifo\<close> is a package outside the repository: what is used of it is the locale \<open>fifo\<close>,
  interpreted on lists. A date read during one synchronous run of a handler is one reading,
  an argument. The module local state is the record \<open>dproc\<close>.
\<close>

section \<open>First-in first-out queues\<close>

locale fifo =
  fixes empty :: 'q and enqueue :: "'a \<Rightarrow> 'q \<Rightarrow> 'q" and peek :: "'q \<Rightarrow> 'a" and dequeue :: "'q \<Rightarrow> 'q"
    and isEmpty :: "'q \<Rightarrow> bool" and contents :: "'q \<Rightarrow> 'a list"
  assumes contents_empty: "contents empty = []"
    and contents_enqueue: "contents (enqueue x q) = contents q @ [x]"
    and isEmpty_iff: "isEmpty q \<longleftrightarrow> contents q = []"
    and peek_dequeue: "contents q = x # xs \<Longrightarrow> peek q = x \<and> contents (dequeue q) = xs"
begin

text \<open>The loop \<open>while (!q.isEmpty()) { x = q.peek(); q.dequeue(); ... }\<close> ends, has emptied the
  queue and has seen its elements in the order they were put in.\<close>

lemma drain_loop:
  "\<exists>q'. while_option (\<lambda>(q, a). \<not> isEmpty q) (\<lambda>(q, a). (dequeue q, f (peek q) a)) (q, a) = Some (q', fold f (contents q) a) \<and>
     contents q' = []"
proof (induction "contents q" arbitrary: q a)
  case Nil
  then show ?case by (subst while_option_unfold) (simp add: isEmpty_iff)
next
  case (Cons x xs)
  from Cons(2)[symmetric] have s: "peek q = x" "contents (dequeue q) = xs" "\<not> isEmpty q"
    using peek_dequeue[of q x xs] by (auto simp: isEmpty_iff)
  then show ?case using Cons(1)[of "dequeue q" "f x a"] Cons(2)
    by (subst while_option_unfold) (simp flip: Cons(2))
qed

end

definition q_enqueue :: "'a \<Rightarrow> 'a list \<Rightarrow> 'a list" where "q_enqueue x q = q @ [x]"
definition q_peek :: "'a list \<Rightarrow> 'a" where "q_peek q = hd q"
definition q_dequeue :: "'a list \<Rightarrow> 'a list" where "q_dequeue q = tl q"
definition q_isEmpty :: "'a list \<Rightarrow> bool" where "q_isEmpty q = (q = [])"

lemmas queue_defs = q_enqueue_def q_peek_def q_dequeue_def q_isEmpty_def

interpretation queue_fifo: fifo "[]" q_enqueue q_peek q_dequeue q_isEmpty "\<lambda>q. q"
  by unfold_locales (auto simp: queue_defs)

definition drain :: "('a \<Rightarrow> 'b \<Rightarrow> 'b) \<Rightarrow> 'a list \<Rightarrow> 'b \<Rightarrow> ('a list \<times> 'b) option" where
  "drain f q a = while_option (\<lambda>(q, a). \<not> q_isEmpty q) (\<lambda>(q, a). (q_dequeue q, f (q_peek q) a)) (q, a)"

lemma drain_eq [simp]: "drain f q a = Some ([], fold f q a)"
  using queue_fifo.drain_loop[of f q a] by (simp add: drain_def)

section \<open>State\<close>

text \<open>An update of \<open>realtimeData\<close> with the two time stamps kept under symbol keys.\<close>

record queued =
  q_upd :: doc
  q_enqueuedAt :: "jsnum option"
  q_sourceTime :: "jsnum option"

record hist_entry =
  he_sql :: string
  he_obj :: doc

record latency =
  latencyAccTotal :: jsnum
  latencyTotalCnt :: nat
  latencyAccMinute :: jsnum
  latencyMinuteCnt :: nat
  latencyPeak :: jsnum

text \<open>Clients and resume tokens are objects compared by identity: a number each. \<open>p_immediates\<close>
  counts the calls of \<open>setImmediate\<close> not run yet, \<open>p_wakes\<close> the timers that end the wait of
  the main loop, \<open>p_soe\<close> the documents inserted into \<open>soeData\<close>.\<close>

record dproc =
  sqlHistQueue :: "hist_entry list"
  sqlRtDataQueue :: "string list"
  mongoRtDataQueue :: "queued list"
  digitalUpdatesCount :: int
  rtFlushScheduled :: bool
  rtFlushRunning :: bool
  p_immediates :: nat
  p_collection :: bool
  p_client :: "nat option"
  HintMongoIsConnected :: bool
  resumeToken :: "nat option"
  prevResumeToken :: "nat option"
  wakeMainLoop :: bool
  p_wakes :: nat
  p_latency :: latency
  p_soe :: "doc list"
  p_metrics :: metrics

definition on_metrics :: "(metrics \<Rightarrow> metrics) \<Rightarrow> dproc \<Rightarrow> dproc" where
  "on_metrics f w = w\<lparr>p_metrics := f (p_metrics w)\<rparr>"

definition count :: "string \<Rightarrow> nat \<Rightarrow> dproc \<Rightarrow> dproc" where
  "count name n = on_metrics (metrics_inc name n)"

definition observe_ms :: "(int \<Rightarrow> int) \<Rightarrow> string \<Rightarrow> jsnum \<Rightarrow> dproc \<Rightarrow> dproc" where
  "observe_ms log2f name ms = on_metrics (stage_update name (\<lambda>h. observeMs log2f h ms))"

definition observe_ns :: "(int \<Rightarrow> int) \<Rightarrow> string \<Rightarrow> int \<Rightarrow> dproc \<Rightarrow> dproc" where
  "observe_ns log2f name ns = on_metrics (stage_update name (\<lambda>h. observeSince log2f h ns 0))"

section \<open>Updates of realtimeData\<close>

definition scheduleRtDataFlush :: "dproc \<Rightarrow> dproc" where
  "scheduleRtDataFlush w = (if rtFlushScheduled w \<or> rtFlushRunning w then w
     else w\<lparr>rtFlushScheduled := True, p_immediates := p_immediates w + 1\<rparr>)"

definition queueRtUpdate :: "int \<Rightarrow> doc \<Rightarrow> jsnum option \<Rightarrow> dproc \<Rightarrow> dproc" where
  "queueRtUpdate t upd sourceTime w =
     scheduleRtDataFlush (count ''updatesQueued'' 1
       (w\<lparr>mongoRtDataQueue := q_enqueue \<lparr>q_upd = upd, q_enqueuedAt = Some (num t), q_sourceTime = sourceTime\<rparr> (mongoRtDataQueue w)\<rparr>))"

text \<open>The operations of a bulk write: \<open>{$set: doc}\<close> or \<open>{$addToSet: value}\<close> on one \<open>_id\<close>.\<close>

datatype write_op = SetOp jsval doc | AddToSetOp jsval jsval

definition rt_ops :: "queued \<Rightarrow> write_op list" where
  "rt_ops u =
     (let i = fld (q_upd u) ''_id''; d = adel ''_id'' (q_upd u) in
      if has_key ''$addToSet'' d
      then SetOp i (adel ''$addToSet'' d) # (if truthy (fld d ''$addToSet'') then [AddToSetOp i (fld d ''$addToSet'')] else [])
      else [SetOp i d])"

text \<open>The body of the loop: operations, source times and metrics so far.\<close>

definition rt_collect :: "(int \<Rightarrow> int) \<Rightarrow> int \<Rightarrow> queued \<Rightarrow> (write_op list \<times> jsnum list) \<times> dproc \<Rightarrow> (write_op list \<times> jsnum list) \<times> dproc" where
  "rt_collect log2f flushStart u acc =
     (case acc of ((ops, sts), w) \<Rightarrow>
       ((ops @ rt_ops u, sts @ (case q_sourceTime u of None \<Rightarrow> [] | Some s \<Rightarrow> [s])),
        (case q_enqueuedAt u of None \<Rightarrow> w | Some e \<Rightarrow> observe_ms log2f ''writeLinger'' (num flushStart - e) w)))"

text \<open>\<open>processRtDataMongoUpdates\<close> up to the bulk write it waits for, and after it. The write
  itself is the result of the first part.\<close>

definition rt_flush_start :: "(int \<Rightarrow> int) \<Rightarrow> int \<Rightarrow> dproc \<Rightarrow> (write_op list \<times> jsnum list) option \<times> dproc" where
  "rt_flush_start log2f t w0 =
     (let w = w0\<lparr>rtFlushScheduled := False\<rparr> in
      if \<not> p_collection w \<or> p_client w = None \<or> \<not> HintMongoIsConnected w \<or> q_isEmpty (mongoRtDataQueue w) then (None, w)
      else (case drain (rt_collect log2f t) (mongoRtDataQueue w) (([], []), w\<lparr>rtFlushRunning := True\<rparr>) of
          None \<Rightarrow> (None, w)
        | Some (q, (batch, w')) \<Rightarrow> (Some batch, w'\<lparr>mongoRtDataQueue := q\<rparr>)))"

definition rt_flush_done :: "(int \<Rightarrow> int) \<Rightarrow> int \<Rightarrow> int \<Rightarrow> bool \<Rightarrow> write_op list \<times> jsnum list \<Rightarrow> dproc \<Rightarrow> dproc" where
  "rt_flush_done log2f t ns failed batch w =
     (let w1 = (if failed then count ''errors'' 1 w else w);
          w2 = observe_ns log2f ''bulkWrite'' ns w1;
          w3 = fold (\<lambda>st. observe_ms log2f ''endToEnd'' (num t - st)) (snd batch) w2;
          w4 = count ''mongoDocsWritten'' (length (fst batch)) (count ''mongoBulkWrites'' 1 w3);
          w5 = w4\<lparr>rtFlushRunning := False\<rparr>
      in if \<not> q_isEmpty (mongoRtDataQueue w5) then scheduleRtDataFlush w5 else w5)"

section \<open>Files for the SQL historian\<close>

definition nl_str :: string where "nl_str = [CHR 0x0A]"

definition hist_head :: string where
  "hist_head = ''START TRANSACTION;'' @ nl_str @
     ''INSERT INTO hist (tag, time_tag, value, value_json, time_tag_at_source, flags) VALUES ''"

definition rtdata_head :: string where
  "rtdata_head = ''WITH ordered_values AS (  SELECT DISTINCT ON (tag) tag, time_tag, json_data FROM (VALUES ''"

definition rtdata_tail :: string where
  "rtdata_tail = '') AS t(tag, time_tag, json_data)'' @ nl_str @
     ''          ORDER BY tag, time_tag DESC'' @ nl_str @
     ''        )'' @ nl_str @
     ''        INSERT INTO realtime_data (tag, time_tag, json_data)'' @ nl_str @
     ''        SELECT tag, time_tag::timestamptz, json_data::jsonb'' @ nl_str @
     ''        FROM ordered_values'' @ nl_str @
     ''        ON CONFLICT (tag) DO UPDATE '' @ nl_str @
     ''        SET time_tag = EXCLUDED.time_tag,'' @ nl_str @
     ''            json_data = EXCLUDED.json_data;'' @ nl_str @ ''    ''"

definition sql_file :: "string \<Rightarrow> int \<Rightarrow> jsval \<Rightarrow> string" where
  "sql_file kind t inst = ''../../sql/pg_'' @ kind @ ''_'' @ num_to_string (num t) @ ''_'' @ to_string inst @ ''.sql''"

record hist_flush_result =
  hf_inserted :: "doc list option"
  hf_files :: "(string \<times> string) list"

text \<open>One run of \<open>processSqlAndMongoHistUpdates\<close>: the documents given to \<open>insertMany\<close>, when any,
  and the files written. The callbacks of the writes count files and errors later.\<close>

definition hist_flush :: "(int \<Rightarrow> int) \<Rightarrow> int \<Rightarrow> int \<Rightarrow> jsval \<Rightarrow> dproc \<Rightarrow> hist_flush_result \<times> dproc" where
  "hist_flush log2f t ns inst w =
     (if \<not> p_collection w \<or> p_client w = None \<or> \<not> HintMongoIsConnected w then (\<lparr>hf_inserted = None, hf_files = []\<rparr>, w)
      else
       (let (q1, (did1, sql1, objs)) = the (drain (\<lambda>e (b, s, os). (True, s @ nl_str @ ''('' @ he_sql e @ ''),'', os @ [he_obj e]))
              (sqlHistQueue w) (False, hist_head, []));
            w1 = w\<lparr>sqlHistQueue := q1\<rparr>;
            w2 = (if did1 then count ''histDocsWritten'' (length objs) w1 else w1);
            text1 = butlast sql1 @ '' '' @ nl_str @ ''ON CONFLICT (tag, time_tag) DO NOTHING;'' @ nl_str @ ''COMMIT;'' @ nl_str;
            (q2, (did2, sql2)) = the (drain (\<lambda>e (b, s). (True, s @ nl_str @ '' ('' @ e @ ''),''))
              (sqlRtDataQueue w) (False, rtdata_head));
            w3 = w2\<lparr>sqlRtDataQueue := q2\<rparr>;
            text2 = butlast sql2 @ '' '' @ nl_str @ rtdata_tail
        in (\<lparr>hf_inserted = (if did1 then Some objs else None),
             hf_files = (if did1 then [(sql_file ''hist'' t inst, text1)] else []) @
                        (if did2 then [(sql_file ''rtdata'' t inst, text2)] else [])\<rparr>,
            if did1 \<or> did2 then observe_ns log2f ''histWrite'' ns w3 else w3)))"

section \<open>Loss of the change stream\<close>

text \<open>\<open>closeAndReconnect(client)\<close>: a token that was already tried is given up.\<close>

definition drop_token :: "dproc \<Rightarrow> dproc" where
  "drop_token w =
     (let w1 = (if resumeToken w \<noteq> None \<and> resumeToken w = prevResumeToken w
                then w\<lparr>prevResumeToken := None, resumeToken := None\<rparr> else w)
      in w1\<lparr>prevResumeToken := resumeToken w1\<rparr>)"

definition closeAndReconnect :: "nat \<Rightarrow> dproc \<Rightarrow> dproc" where
  "closeAndReconnect client w =
     (if Some client \<noteq> p_client w then w
      else (let w1 = drop_token (count ''changeStreamRetries'' 1 w); w2 = w1\<lparr>p_client := None\<rparr>
            in if wakeMainLoop w2 then w2\<lparr>p_wakes := p_wakes w2 + 1\<rparr> else w2))"

definition mongo_connected :: "nat \<Rightarrow> dproc \<Rightarrow> dproc" where
  "mongo_connected client w = w\<lparr>p_client := Some client, HintMongoIsConnected := True, p_collection := True\<rparr>"

definition topology_closed :: "dproc \<Rightarrow> dproc" where
  "topology_closed w = w\<lparr>HintMongoIsConnected := False, p_client := None\<rparr>"

section \<open>Lemmas\<close>

named_theorems dproc_simps \<open>what the metrics calls leave of the state\<close>

lemma on_metrics_keeps [dproc_simps]:
  "mongoRtDataQueue (on_metrics f w) = mongoRtDataQueue w" "sqlHistQueue (on_metrics f w) = sqlHistQueue w"
  "sqlRtDataQueue (on_metrics f w) = sqlRtDataQueue w" "rtFlushScheduled (on_metrics f w) = rtFlushScheduled w"
  "rtFlushRunning (on_metrics f w) = rtFlushRunning w" "p_immediates (on_metrics f w) = p_immediates w"
  "p_client (on_metrics f w) = p_client w" "p_collection (on_metrics f w) = p_collection w"
  "HintMongoIsConnected (on_metrics f w) = HintMongoIsConnected w" "resumeToken (on_metrics f w) = resumeToken w"
  "prevResumeToken (on_metrics f w) = prevResumeToken w" "wakeMainLoop (on_metrics f w) = wakeMainLoop w"
  "p_wakes (on_metrics f w) = p_wakes w" "p_soe (on_metrics f w) = p_soe w" "digitalUpdatesCount (on_metrics f w) = digitalUpdatesCount w"
  "p_latency (on_metrics f w) = p_latency w"
  by (simp_all add: on_metrics_def)

lemmas metrics_calls = count_def observe_ms_def observe_ns_def

lemma on_metrics_id: "on_metrics (\<lambda>m. m) w = w"
  by (cases w) (simp add: on_metrics_def)

lemma on_metrics_comp: "on_metrics g (on_metrics f w) = on_metrics (\<lambda>m. g (f m)) w"
  by (simp add: on_metrics_def)

lemma fold_on_metrics: "\<exists>g. fold (\<lambda>x. on_metrics (f x)) xs w = on_metrics g w"
proof (induction xs arbitrary: w)
  case Nil
  show ?case by (rule exI[of _ "\<lambda>m. m"]) (simp add: on_metrics_id)
next
  case (Cons x xs)
  obtain g where "fold (\<lambda>x. on_metrics (f x)) xs (on_metrics (f x) w) = on_metrics g (on_metrics (f x) w)"
    using Cons by blast
  then show ?case by (intro exI[of _ "\<lambda>m. g (f x m)"]) (simp add: on_metrics_comp)
qed

definition source_times :: "queued list \<Rightarrow> jsnum list" where
  "source_times us = concat (map (\<lambda>u. case q_sourceTime u of None \<Rightarrow> [] | Some s \<Rightarrow> [s]) us)"

lemma rt_collect_step: "\<exists>h. rt_collect log2f t u ((ops, sts), w) = ((ops @ rt_ops u, sts @ source_times [u]), on_metrics h w)"
proof (cases "q_enqueuedAt u")
  case None
  then show ?thesis
    by (intro exI[of _ "\<lambda>m. m"]) (simp add: rt_collect_def on_metrics_id source_times_def)
next
  case (Some e)
  then show ?thesis by (auto simp: rt_collect_def observe_ms_def source_times_def)
qed

lemma rt_collect_fold:
  "\<exists>g. fold (rt_collect log2f t) us ((ops, sts), w) = ((ops @ concat (map rt_ops us), sts @ source_times us), on_metrics g w)"
proof (induction us arbitrary: ops sts w)
  case Nil
  show ?case by (rule exI[of _ "\<lambda>m. m"]) (simp add: on_metrics_id source_times_def)
next
  case (Cons u us)
  obtain h where h: "rt_collect log2f t u ((ops, sts), w) = ((ops @ rt_ops u, sts @ source_times [u]), on_metrics h w)"
    using rt_collect_step by blast
  obtain g where g: "fold (rt_collect log2f t) us ((ops @ rt_ops u, sts @ source_times [u]), on_metrics h w) =
     (((ops @ rt_ops u) @ concat (map rt_ops us), (sts @ source_times [u]) @ source_times us), on_metrics g (on_metrics h w))"
    using Cons by blast
  show ?case
    by (intro exI[of _ "\<lambda>m. g (h m)"]) (simp add: h g on_metrics_comp, simp add: source_times_def)
qed

text \<open>What a flush does, up to the metrics.\<close>

definition can_flush :: "dproc \<Rightarrow> bool" where
  "can_flush w \<longleftrightarrow> p_collection w \<and> p_client w \<noteq> None \<and> HintMongoIsConnected w \<and> mongoRtDataQueue w \<noteq> []"

lemma rt_flush_start_no: "\<not> can_flush w \<Longrightarrow> rt_flush_start log2f t w = (None, w\<lparr>rtFlushScheduled := False\<rparr>)"
  by (auto simp: rt_flush_start_def can_flush_def q_isEmpty_def)

lemma rt_flush_start_yes:
  assumes "can_flush w"
  shows "\<exists>g. rt_flush_start log2f t w =
    (Some (concat (map rt_ops (mongoRtDataQueue w)), source_times (mongoRtDataQueue w)),
     on_metrics g (w\<lparr>rtFlushScheduled := False, rtFlushRunning := True, mongoRtDataQueue := []\<rparr>))"
proof -
  obtain g where g: "fold (rt_collect log2f t) (mongoRtDataQueue w) (([], []), w\<lparr>rtFlushScheduled := False, rtFlushRunning := True\<rparr>) =
     ((concat (map rt_ops (mongoRtDataQueue w)), source_times (mongoRtDataQueue w)),
      on_metrics g (w\<lparr>rtFlushScheduled := False, rtFlushRunning := True\<rparr>))"
    using rt_collect_fold[of log2f t "mongoRtDataQueue w" "[]" "[]"] by auto
  with assms show ?thesis
    by (intro exI[of _ g]) (auto simp: rt_flush_start_def can_flush_def q_isEmpty_def on_metrics_def)
qed

lemma rt_flush_done_eq:
  "\<exists>g. rt_flush_done log2f t ns failed batch w = on_metrics g
     (if mongoRtDataQueue w \<noteq> [] then scheduleRtDataFlush (w\<lparr>rtFlushRunning := False\<rparr>) else w\<lparr>rtFlushRunning := False\<rparr>)"
proof -
  obtain f where f: "(if failed then count ''errors'' 1 w else w) = on_metrics f w"
    using on_metrics_id[of w] by (cases failed) (auto simp: count_def dest: sym)
  obtain g where g: "fold (\<lambda>st. observe_ms log2f ''endToEnd'' (num t - st)) (snd batch) (observe_ns log2f ''bulkWrite'' ns (on_metrics f w)) =
      on_metrics g (observe_ns log2f ''bulkWrite'' ns (on_metrics f w))"
    using fold_on_metrics[of "\<lambda>st. stage_update ''endToEnd'' (\<lambda>h. observeMs log2f h (num t - st))"] by (auto simp: observe_ms_def)
  define h where "h = (\<lambda>m. metrics_inc ''mongoDocsWritten'' (length (fst batch)) (metrics_inc ''mongoBulkWrites'' 1
      (g (stage_update ''bulkWrite'' (\<lambda>h. observeSince log2f h ns 0) (f m)))))"
  have "rt_flush_done log2f t ns failed batch w = on_metrics h
     (if mongoRtDataQueue w \<noteq> [] then scheduleRtDataFlush (w\<lparr>rtFlushRunning := False\<rparr>) else w\<lparr>rtFlushRunning := False\<rparr>)"
    unfolding rt_flush_done_def Let_def f g
    by (simp add: q_isEmpty_def h_def count_def observe_ns_def on_metrics_def scheduleRtDataFlush_def)
  then show ?thesis by blast
qed

section \<open>The write of realtimeData as a transition system\<close>

text \<open>The module with what happens around it: the bulk writes in flight, the updates queued so
  far and the batches written so far.\<close>

record flush_sys =
  fs_w :: dproc
  fs_inflight :: "(write_op list \<times> jsnum list) list"
  fs_enqueued :: "queued list"
  fs_batches :: "write_op list list"

inductive flush_step :: "(int \<Rightarrow> int) \<Rightarrow> flush_sys \<Rightarrow> flush_sys \<Rightarrow> bool" for log2f where
  enqueue: "flush_step log2f s (s\<lparr>fs_w := queueRtUpdate t upd st (fs_w s),
      fs_enqueued := fs_enqueued s @ [\<lparr>q_upd = upd, q_enqueuedAt = Some (num t), q_sourceTime = st\<rparr>]\<rparr>)"
| timer: "flush_step log2f s (s\<lparr>fs_w := scheduleRtDataFlush (fs_w s)\<rparr>)"
| immediate: "0 < p_immediates (fs_w s) \<Longrightarrow>
    rt_flush_start log2f t ((fs_w s)\<lparr>p_immediates := p_immediates (fs_w s) - 1\<rparr>) = (b, w') \<Longrightarrow>
    flush_step log2f s (s\<lparr>fs_w := w', fs_inflight := fs_inflight s @ (case b of None \<Rightarrow> [] | Some x \<Rightarrow> [x]),
      fs_batches := fs_batches s @ (case b of None \<Rightarrow> [] | Some x \<Rightarrow> [fst x])\<rparr>)"
| written: "fs_inflight s = b # bs \<Longrightarrow>
    flush_step log2f s (s\<lparr>fs_w := rt_flush_done log2f t ns failed b (fs_w s), fs_inflight := bs\<rparr>)"
| link: "flush_step log2f s (s\<lparr>fs_w := (fs_w s)\<lparr>p_client := c, HintMongoIsConnected := h, p_collection := k\<rparr>\<rparr>)"

inductive flush_reach :: "(int \<Rightarrow> int) \<Rightarrow> flush_sys \<Rightarrow> bool" for log2f where
  start: "mongoRtDataQueue w = [] \<Longrightarrow> \<not> rtFlushScheduled w \<Longrightarrow> \<not> rtFlushRunning w \<Longrightarrow> p_immediates w = 0 \<Longrightarrow>
    flush_reach log2f \<lparr>fs_w = w, fs_inflight = [], fs_enqueued = [], fs_batches = []\<rparr>"
| move: "flush_reach log2f s \<Longrightarrow> flush_step log2f s s' \<Longrightarrow> flush_reach log2f s'"

definition ops_of :: "queued list \<Rightarrow> write_op list" where
  "ops_of us = concat (map rt_ops us)"

definition flush_inv :: "flush_sys \<Rightarrow> bool" where
  "flush_inv s \<longleftrightarrow> p_immediates (fs_w s) = of_bool (rtFlushScheduled (fs_w s)) \<and>
     length (fs_inflight s) = of_bool (rtFlushRunning (fs_w s)) \<and> \<not> (rtFlushScheduled (fs_w s) \<and> rtFlushRunning (fs_w s)) \<and>
     concat (fs_batches s) @ ops_of (mongoRtDataQueue (fs_w s)) = ops_of (fs_enqueued s)"

lemma schedule_inv: "flush_inv s \<Longrightarrow> flush_inv (s\<lparr>fs_w := scheduleRtDataFlush (fs_w s)\<rparr>)"
  by (auto simp: flush_inv_def scheduleRtDataFlush_def)

lemma queue_inv:
  assumes "flush_inv s"
  shows "flush_inv (s\<lparr>fs_w := queueRtUpdate t upd st (fs_w s),
      fs_enqueued := fs_enqueued s @ [\<lparr>q_upd = upd, q_enqueuedAt = Some (num t), q_sourceTime = st\<rparr>]\<rparr>)"
  using assms by (auto simp: flush_inv_def queueRtUpdate_def scheduleRtDataFlush_def count_def dproc_simps q_enqueue_def ops_of_def)

lemma immediate_inv:
  assumes "flush_inv s" "0 < p_immediates (fs_w s)"
    and "rt_flush_start log2f t ((fs_w s)\<lparr>p_immediates := p_immediates (fs_w s) - 1\<rparr>) = (b, w')"
  shows "flush_inv (s\<lparr>fs_w := w', fs_inflight := fs_inflight s @ (case b of None \<Rightarrow> [] | Some x \<Rightarrow> [x]),
      fs_batches := fs_batches s @ (case b of None \<Rightarrow> [] | Some x \<Rightarrow> [fst x])\<rparr>)"
proof -
  let ?w = "(fs_w s)\<lparr>p_immediates := p_immediates (fs_w s) - 1\<rparr>"
  show ?thesis
  proof (cases "can_flush ?w")
    case False
    with assms show ?thesis by (auto simp: flush_inv_def rt_flush_start_no split: if_splits)
  next
    case True
    then obtain g where "rt_flush_start log2f t ?w = (Some (concat (map rt_ops (mongoRtDataQueue ?w)), source_times (mongoRtDataQueue ?w)),
       on_metrics g (?w\<lparr>rtFlushScheduled := False, rtFlushRunning := True, mongoRtDataQueue := []\<rparr>))"
      using rt_flush_start_yes by blast
    with assms show ?thesis by (auto simp: flush_inv_def dproc_simps ops_of_def split: if_splits)
  qed
qed

lemma written_inv:
  assumes "flush_inv s" "fs_inflight s = b # bs"
  shows "flush_inv (s\<lparr>fs_w := rt_flush_done log2f t ns failed b (fs_w s), fs_inflight := bs\<rparr>)"
proof -
  obtain g where "rt_flush_done log2f t ns failed b (fs_w s) = on_metrics g
     (if mongoRtDataQueue (fs_w s) \<noteq> [] then scheduleRtDataFlush ((fs_w s)\<lparr>rtFlushRunning := False\<rparr>) else (fs_w s)\<lparr>rtFlushRunning := False\<rparr>)"
    using rt_flush_done_eq by blast
  with assms show ?thesis
    by (cases "rtFlushRunning (fs_w s)") (auto simp: flush_inv_def dproc_simps scheduleRtDataFlush_def split: if_splits)
qed

lemma flush_reach_inv: "flush_reach log2f s \<Longrightarrow> flush_inv s"
proof (induction rule: flush_reach.induct)
  case (start w)
  then show ?case by (simp add: flush_inv_def ops_of_def)
next
  case (move s s')
  from move(2,3) show ?case
  proof (induction rule: flush_step.induct)
    case (link s c h k)
    then show ?case by (simp add: flush_inv_def)
  qed (rule schedule_inv queue_inv immediate_inv written_inv; assumption)+
qed


text \<open>A lost change stream: events of a client that is not the current one change nothing, so
  an \<open>error\<close> followed by \<open>close\<close> counts once; the current client is dropped; the next attempt
  resumes from the last token, unless that token is the one of the previous failure, which is
  then given up.\<close>

theorem closeAndReconnect_once:
  "(p_client w \<noteq> Some c \<longrightarrow> closeAndReconnect c w = w) \<and>
   p_client (closeAndReconnect c (w\<lparr>p_client := Some c\<rparr>)) = None \<and>
   closeAndReconnect c (closeAndReconnect c (w\<lparr>p_client := Some c\<rparr>)) = closeAndReconnect c (w\<lparr>p_client := Some c\<rparr>) \<and>
   resumeToken (closeAndReconnect c (w\<lparr>p_client := Some c\<rparr>)) =
     (if resumeToken w = prevResumeToken w then None else resumeToken w) \<and>
   prevResumeToken (closeAndReconnect c (w\<lparr>p_client := Some c\<rparr>)) = resumeToken (closeAndReconnect c (w\<lparr>p_client := Some c\<rparr>))"
proof -
  have "p_client (closeAndReconnect c (w\<lparr>p_client := Some c\<rparr>)) = None"
    by (simp add: closeAndReconnect_def drop_token_def Let_def)
  moreover have "closeAndReconnect c v = v" if "p_client v \<noteq> Some c" for v
    using that by (simp add: closeAndReconnect_def)
  moreover have "resumeToken (closeAndReconnect c (w\<lparr>p_client := Some c\<rparr>)) =
     (if resumeToken w = prevResumeToken w then None else resumeToken w) \<and>
     prevResumeToken (closeAndReconnect c (w\<lparr>p_client := Some c\<rparr>)) = resumeToken (closeAndReconnect c (w\<lparr>p_client := Some c\<rparr>))"
    by (auto simp: closeAndReconnect_def drop_token_def count_def dproc_simps Let_def)
  ultimately show ?thesis by simp
qed

text \<open>A run of the module, for the theorems that need one.\<close>

definition demo_dproc :: dproc where
  "demo_dproc = \<lparr>sqlHistQueue = [], sqlRtDataQueue = [], mongoRtDataQueue = [], digitalUpdatesCount = 0,
     rtFlushScheduled = False, rtFlushRunning = False, p_immediates = 0, p_collection = True, p_client = Some 1,
     HintMongoIsConnected = True, resumeToken = Some 5, prevResumeToken = None, wakeMainLoop = True, p_wakes = 0,
     p_latency = \<lparr>latencyAccTotal = num 0, latencyTotalCnt = 0, latencyAccMinute = num 0, latencyMinuteCnt = 0, latencyPeak = num 0\<rparr>,
     p_soe = [], p_metrics = metrics_new 0\<rparr>"

definition demo_upd :: doc where
  "demo_upd = [(''_id'', Num (num 7)), (''value'', Num (num 1))]"


theorem closeAndReconnect_once_witness:
  "resumeToken (closeAndReconnect 1 demo_dproc) = Some 5 \<and>
   resumeToken (closeAndReconnect 2 ((closeAndReconnect 1 demo_dproc)\<lparr>p_client := Some 2\<rparr>)) = None"
proof -
  have "demo_dproc\<lparr>p_client := Some 1\<rparr> = demo_dproc" by (simp add: demo_dproc_def)
  then have a: "resumeToken (closeAndReconnect 1 demo_dproc) = Some 5"
    "prevResumeToken (closeAndReconnect 1 demo_dproc) = resumeToken (closeAndReconnect 1 demo_dproc)"
    using closeAndReconnect_once[of demo_dproc 1] by (simp_all add: demo_dproc_def)
  then show ?thesis using closeAndReconnect_once[of "closeAndReconnect 1 demo_dproc" 2] by simp
qed

end
