(* ===== verification/Handler.thy ===== *)
theory Handler
  imports DocStore
begin

text \<open>
  Request handlers as state transformers that may throw: sequencing, \<open>try\<close>/\<open>catch\<close>, reads
  and writes of the store. A failed await throws and leaves what was done before it in
  place. Replies, requests and the queue of user actions are shared by the handlers of
  \<open>server_realtime_auth\<close>.
\<close>

section \<open>Sequencing with exceptions\<close>

named_theorems handler_simps \<open>evaluation of handler steps\<close>

definition returnE :: "'a \<Rightarrow> 'w \<Rightarrow> (js_error + 'a) \<times> 'w" where
  "returnE x w = (Inr x, w)"

definition throwE :: "js_error \<Rightarrow> 'w \<Rightarrow> (js_error + 'a) \<times> 'w" where
  "throwE e w = (Inl e, w)"

definition bindE :: "('w \<Rightarrow> (js_error + 'a) \<times> 'w) \<Rightarrow> ('a \<Rightarrow> 'w \<Rightarrow> (js_error + 'b) \<times> 'w) \<Rightarrow> 'w \<Rightarrow> (js_error + 'b) \<times> 'w" where
  "bindE m f w = (case m w of (r, w') \<Rightarrow> (case r of Inl e \<Rightarrow> (Inl e, w') | Inr x \<Rightarrow> f x w'))"

definition seqE :: "('w \<Rightarrow> (js_error + 'a) \<times> 'w) \<Rightarrow> ('w \<Rightarrow> (js_error + 'b) \<times> 'w) \<Rightarrow> 'w \<Rightarrow> (js_error + 'b) \<times> 'w" where
  "seqE m m' = bindE m (\<lambda>_. m')"

text \<open>\<open>try { m } catch (e) { h(e) }\<close>.\<close>

definition tryE :: "('w \<Rightarrow> (js_error + 'a) \<times> 'w) \<Rightarrow> (js_error \<Rightarrow> 'w \<Rightarrow> (js_error + 'a) \<times> 'w) \<Rightarrow> 'w \<Rightarrow> (js_error + 'a) \<times> 'w" where
  "tryE m h w = (case m w of (r, w') \<Rightarrow> (case r of Inl e \<Rightarrow> h e w' | Inr x \<Rightarrow> (Inr x, w')))"

text \<open>A read of the world that may throw, and a write.\<close>

definition askE :: "('w \<Rightarrow> js_error + 'a) \<Rightarrow> 'w \<Rightarrow> (js_error + 'a) \<times> 'w" where
  "askE f w = (f w, w)"

definition putE :: "('w \<Rightarrow> js_error + 'w) \<Rightarrow> 'w \<Rightarrow> (js_error + unit) \<times> 'w" where
  "putE f w = (case f w of Inl e \<Rightarrow> (Inl e, w) | Inr w' \<Rightarrow> (Inr (), w'))"

definition modifyE :: "('w \<Rightarrow> 'w) \<Rightarrow> 'w \<Rightarrow> (js_error + unit) \<times> 'w" where
  "modifyE f w = (Inr (), f w)"

lemma bindE_simps [handler_simps]:
  "bindE (returnE x) f w = f x w" "bindE (throwE e) f w = (Inl e, w)"
  "bindE (askE g) f w = (case g w of Inl e \<Rightarrow> (Inl e, w) | Inr x \<Rightarrow> f x w)"
  "bindE (putE h) f' w = (case h w of Inl e \<Rightarrow> (Inl e, w) | Inr w' \<Rightarrow> f' () w')"
  "bindE (modifyE k) f' w = f' () (k w)"
  by (simp_all add: bindE_def returnE_def throwE_def askE_def putE_def modifyE_def split: sum.splits)

lemma seqE_simps [handler_simps]:
  "seqE (askE g) m w = (case g w of Inl e \<Rightarrow> (Inl e, w) | Inr x \<Rightarrow> m w)"
  "seqE (putE h) m w = (case h w of Inl e \<Rightarrow> (Inl e, w) | Inr w' \<Rightarrow> m w')"
  "seqE (modifyE k) m w = m (k w)"
  by (simp_all add: seqE_def handler_simps)

lemmas step_defs [handler_simps] = returnE_def throwE_def askE_def putE_def modifyE_def

lemma tryE_Inr [handler_simps]: "m w = (Inr x, w') \<Longrightarrow> tryE m h w = (Inr x, w')"
  by (simp add: tryE_def)

lemma tryE_Inl [handler_simps]: "m w = (Inl e, w') \<Longrightarrow> tryE m h w = h e w'"
  by (simp add: tryE_def)

lemma tryE_returns:
  assumes "\<And>e w. \<exists>x w'. h e w = (Inr x, w')"
  shows "\<exists>x w'. tryE m h w = (Inr x, w')"
  using assms by (simp add: tryE_def split: prod.split sum.split)

section \<open>Requests and replies\<close>

record request =
  rmethod :: string
  headers :: doc
  cookies :: doc
  rbody :: doc

record reply =
  status :: nat
  setCookies :: "(string \<times> jsval \<times> doc) list"
  sent :: jsval

definition send :: "nat \<Rightarrow> jsval \<Rightarrow> reply" where
  "send s v = \<lparr>status = s, setCookies = [], sent = v\<rparr>"

definition err_val :: "js_error \<Rightarrow> jsval" where
  "err_val e = (case e of TypeError \<Rightarrow> Str ''TypeError'' | RangeError \<Rightarrow> Str ''RangeError''
     | SyntaxError \<Rightarrow> Str ''SyntaxError'' | Thrown s \<Rightarrow> Str s)"

text \<open>The two replies almost every handler ends with.\<close>

definition send_ok :: reply where "send_ok = send 200 (Obj [(''error'', Bool False)])"
definition send_error :: "jsval \<Rightarrow> reply" where "send_error v = send 200 (Obj [(''error'', v)])"

lemma send_simps [simp]: "status (send s v) = s" "sent (send s v) = v" "setCookies (send s v) = []"
  by (simp_all add: send_def)

end
