(* ===== verification/ProcChange.thy ===== *)
theory ProcChange
  imports ProcQueue Handler
begin

text \<open>
  The change stream handler of \<open>cs_data_processor.js\<close>: from a raw update written by a protocol
  driver (\<open>sourceDataUpdate\<close>) to the update of the point, the alarm, the sequence of events
  and the historian. The handler runs synchronously; it may throw at any property access,
  what it did before stays done.

  Outside the model: the text of a number with a fraction in base two (an argument), and the
  offset of the local time zone (an argument).
\<close>

section \<open>Events and environment\<close>

record proc_env =
  e_now :: int
  e_ns :: int
  e_log2 :: "int \<Rightarrow> int"
  e_active :: bool
  e_token :: "nat option"
  e_tz :: "int \<Rightarrow> int"
  e_bin :: "rat \<Rightarrow> string"

record change_event =
  chg_type :: string
  chg_full :: jsval
  chg_desc :: jsval

text \<open>The \<open>$match\<close> of the pipeline: \<open>dexp\<close> is the configured expression.\<close>

definition path_exists :: "string list \<Rightarrow> jsval \<Rightarrow> bool" where
  "path_exists p v = (snd (fold (\<lambda>k (x, ok). case x of Obj d \<Rightarrow> (fld d k, ok \<and> has_key k d) | _ \<Rightarrow> (Undef, False)) p (v, True)))"

definition pipeline_match :: "(change_event \<Rightarrow> bool) \<Rightarrow> change_event \<Rightarrow> bool" where
  "pipeline_match dexp c \<longleftrightarrow> path_exists [''value''] (chg_full c) \<and> dexp c \<and>
     path_exists [''updatedFields'', ''sourceDataUpdate''] (chg_desc c) \<and> (chg_type c = ''update'' \<or> chg_type c = ''insert'')"

definition as_obj :: "jsval \<Rightarrow> js_error + doc" where
  "as_obj v = (case v of Obj d \<Rightarrow> Inr d | _ \<Rightarrow> Inl TypeError)"

definition as_str :: "jsval \<Rightarrow> js_error + string" where
  "as_str v = (case v of Str s \<Rightarrow> Inr s | _ \<Rightarrow> Inl TypeError)"

text \<open>\<open>v.getTime()\<close>, \<open>v.toISOString()\<close>.\<close>

definition get_time :: "jsval \<Rightarrow> js_error + jsnum" where
  "get_time v = (case v of Date t \<Rightarrow> Inr t | _ \<Rightarrow> Inl TypeError)"

definition iso_string :: "jsval \<Rightarrow> js_error + string" where
  "iso_string v = (case v of Date t \<Rightarrow> to_iso t | _ \<Rightarrow> Inl TypeError)"

definition is_type :: "doc \<Rightarrow> string \<Rightarrow> bool" where
  "is_type fd ty = strict_eq (fld fd ''type'') (Str ty)"

section \<open>Quoting for SQL\<close>

definition sql_escape :: "string \<Rightarrow> string" where
  "sql_escape s = replace_char (CHR 0x27) [CHR 0x27, CHR 0x27] s"

definition sql_quote :: "string \<Rightarrow> string" where
  "sql_quote s = CHR 0x27 # sql_escape s @ [CHR 0x27]"

section \<open>Quality\<close>

record quality =
  q_invalid :: bool
  q_transient :: bool
  q_overflow :: bool
  q_nottopical :: bool
  q_carry :: bool
  q_substituted :: bool
  q_blocked :: bool

definition src_flag :: "doc \<Rightarrow> string \<Rightarrow> bool" where
  "src_flag sdu k = (case fld sdu k of Bool b \<Rightarrow> b | _ \<Rightarrow> False)"

definition source_quality :: "doc \<Rightarrow> quality" where
  "source_quality sdu = \<lparr>
     q_invalid = src_flag sdu ''invalidAtSource'' \<or> src_flag sdu ''notTopicalAtSource'' \<or> src_flag sdu ''overflowAtSource'' \<or>
       src_flag sdu ''transientAtSource'',
     q_transient = src_flag sdu ''transientAtSource'', q_overflow = src_flag sdu ''overflowAtSource'',
     q_nottopical = src_flag sdu ''notTopicalAtSource'', q_carry = src_flag sdu ''carryAtSource'',
     q_substituted = src_flag sdu ''substitutedAtSource'', q_blocked = src_flag sdu ''blockedAtSource''\<rparr>"

text \<open>Undefined, null or a value that is no number becomes an invalid zero.\<close>

definition source_value :: "doc \<Rightarrow> quality \<Rightarrow> jsval \<times> quality" where
  "source_value sdu q = (let v = fld sdu ''valueAtSource'' in
     if nullish v \<or> is_nan v then (Num (num 0), q\<lparr>q_invalid := True\<rparr>) else (v, q))"

definition qualifier :: "quality \<Rightarrow> string" where
  "qualifier q = (if q_invalid q then ''[IV]'' else []) @ (if q_transient q then ''[TR]'' else []) @
     (if q_overflow q then ''[OV]'' else []) @ (if q_nottopical q then ''[NT]'' else []) @ (if q_carry q then ''[CR]'' else []) @
     (if q_substituted q then ''[SB]'' else []) @ (if q_blocked q then ''[BK]'' else [])"

text \<open>The variables of the handler that the branches share.\<close>

record point =
  pt_value :: jsval
  pt_q :: quality
  pt_txt :: string
  pt_alarmed :: jsval
  pt_string :: jsval
  pt_json :: string
  pt_range :: jsval

text \<open>Up to the branch on the type: value, quality and texts of the source.\<close>

definition source_point :: "doc \<Rightarrow> doc \<Rightarrow> point" where
  "source_point fd sdu =
     (let (v, q) = source_value sdu (source_quality sdu) in
      \<lparr>pt_value = v, pt_q = q, pt_txt = qualifier q, pt_alarmed = fld fd ''alarmed'',
       pt_string = js_or (fld sdu ''valueStringAtSource'') (Str []),
       pt_json = (case fld sdu ''valueJsonAtSource'' of Str s \<Rightarrow> s | _ \<Rightarrow> []),
       pt_range = Num (num 0)\<rparr>)"

text \<open>A digital change with a valid source time, or one of an analog event point, is a sequence
  of events record.\<close>

definition is_soe :: "(int \<Rightarrow> int) \<Rightarrow> doc \<Rightarrow> doc \<Rightarrow> js_error + bool" where
  "is_soe tz fd sdu =
     (if has_key ''timeTagAtSource'' sdu \<and> fld sdu ''timeTagAtSource'' \<noteq> Null \<and>
         (is_type fd ''digital'' \<or> is_type fd ''analog'' \<and> truthy (fld fd ''isEvent''))
      then map_sum id (\<lambda>t. num 1899 < full_year tz t) (get_time (fld sdu ''timeTagAtSource'')) else Inr False)"

section \<open>Digital points\<close>

text \<open>\<open>v.indexOf(p) === 0\<close> for a string or an array.\<close>

definition index_is_0 :: "string \<Rightarrow> jsval \<Rightarrow> js_error + bool" where
  "index_is_0 p v = (case v of Str s \<Rightarrow> Inr (index_of p s = 0)
     | Arr vs \<Rightarrow> Inr (case vs of [] \<Rightarrow> False | x # _ \<Rightarrow> strict_eq x (Str p)) | _ \<Rightarrow> Inl TypeError)"

text \<open>\<open>value & 1\<close>.\<close>

definition low_bit :: "jsval \<Rightarrow> int" where
  "low_bit v = (case num_trunc (to_number v) of Fin x \<Rightarrow> \<lfloor>x\<rfloor> mod 2 | _ \<Rightarrow> 0)"

definition add_mark :: "string \<Rightarrow> string \<Rightarrow> string" where
  "add_mark m txt = (if index_of m txt < 0 then txt @ m else txt)"

text \<open>A double point: 1 is off, 2 is on, 0 and 3 are transient and invalid.\<close>

definition double_point :: "point \<Rightarrow> point" where
  "double_point p =
     (let p1 = (if strict_eq (pt_value p) (Num (num 0)) \<or> strict_eq (pt_value p) (Num (num 3))
         then (let txt = add_mark ''[TR]'' (add_mark ''[IV]'' (pt_txt p)) in
               p\<lparr>pt_q := (pt_q p)\<lparr>q_transient := True, q_invalid := True\<rparr>, pt_txt := (if txt \<noteq> [] then CHR '' '' # txt else txt)\<rparr>)
         else p)
      in p1\<lparr>pt_value := Num (num (if low_bit (pt_value p1) = 0 then 1 else 0))\<rparr>)"

definition state_text :: "doc \<Rightarrow> point \<Rightarrow> jsval" where
  "state_text fd p =
     js_add (js_add (fld fd (if truthy (pt_value p) then ''stateTextTrue'' else ''stateTextFalse''))
       (if \<not> loose_eq (fld fd ''unit'') (Str []) then js_add (Str '' '') (fld fd ''unit'') else Str [])) (Str (pt_txt p))"

definition digital_branch :: "doc \<Rightarrow> doc \<Rightarrow> point \<Rightarrow> js_error + point" where
  "digital_branch fd sdu p0 =
     (case (if has_key ''asduAtSource'' sdu then index_is_0 ''M_DP_'' (fld sdu ''asduAtSource'') else Inr False) of
        Inl e \<Rightarrow> Inl e
      | Inr dp \<Rightarrow>
          (let p1 = (if dp then double_point p0 else p0);
               p2 = (if strict_eq (fld fd ''kconv1'') (Num (num (- 1)))
                     then p1\<lparr>pt_value := Num (num (if strict_eq (pt_value p1) (Num (num 0)) then 1 else 0))\<rparr> else p1);
               p3 = (if \<not> loose_eq (pt_value p2) (fld fd ''value'') \<and> \<not> truthy (fld fd ''alarmDisabled'')
                     then p2\<lparr>pt_alarmed := Bool True\<rparr> else p2)
           in Inr (p3\<lparr>pt_string := state_text fd p3\<rparr>)))"

section \<open>Analog points\<close>

text \<open>The conversion starts again from the value at the source.\<close>

definition analog_value :: "doc \<Rightarrow> doc \<Rightarrow> js_error + jsnum" where
  "analog_value fd sdu =
     (let v0 = js_add (Num (to_number (fld sdu ''valueAtSource'') * to_number (fld fd ''kconv1''))) (fld fd ''kconv2'');
          zd = fld fd ''zeroDeadband'';
          v1 = (if has_key ''zeroDeadband'' fd \<and> \<not> strict_eq zd (Num (num 0)) \<and> js_lt (Num (num_abs (to_number v0))) zd
                then Num (num 0) else v0)
      in case v1 of Num x \<Rightarrow> Inr x | _ \<Rightarrow> Inl TypeError)"

fun nat_bin :: "nat \<Rightarrow> string" where
  "nat_bin n = (if n < 2 then [digit_char (int n)] else nat_bin (n div 2) @ [digit_char (int (n mod 2))])"

declare nat_bin.simps [simp del]

definition to_binary :: "(rat \<Rightarrow> string) \<Rightarrow> jsnum \<Rightarrow> string" where
  "to_binary fracf x = (case x of
      Fin r \<Rightarrow> if r = of_int \<lfloor>r\<rfloor> then (if r < 0 then CHR ''-'' # nat_bin (nat (- \<lfloor>r\<rfloor>)) else nat_bin (nat \<lfloor>r\<rfloor>)) else fracf r
    | _ \<Rightarrow> num_to_string x)"

definition fixed_text :: "jsnum \<Rightarrow> nat \<Rightarrow> string" where
  "fixed_text x k = num_to_string (parse_float (to_fixed x k))"

definition analog_string :: "(rat \<Rightarrow> string) \<Rightarrow> doc \<Rightarrow> doc \<Rightarrow> jsnum \<Rightarrow> string \<Rightarrow> js_error + jsval" where
  "analog_string fracf fd sdu x txt =
     (let unit = to_string (fld fd ''unit'') in
      case (if has_key ''asduAtSource'' sdu then index_is_0 ''M_BO_'' (fld sdu ''asduAtSource'') else Inr False) of
        Inl e \<Rightarrow> Inl e
      | Inr bo \<Rightarrow> Inr (Str ((if bo then to_binary fracf x else fixed_text x 4) @ '' '' @ unit @ txt)))"

definition hysteresis_of :: "doc \<Rightarrow> jsnum" where
  "hysteresis_of fd = (if truthy (fld fd ''hysteresis'') then parse_float (to_string (fld fd ''hysteresis'')) else num 0)"

definition has_limits :: "doc \<Rightarrow> bool" where
  "has_limits fd \<longleftrightarrow> has_key ''hiLimit'' fd \<and> fld fd ''hiLimit'' \<noteq> Null \<and> has_key ''loLimit'' fd \<and> fld fd ''loLimit'' \<noteq> Null \<and>
     \<not> truthy (fld fd ''alarmDisabled'')"

text \<open>The range of the value, and the alarm flag, which returns to normal only inside the band.\<close>

definition limit_range :: "doc \<Rightarrow> jsnum \<Rightarrow> jsval \<Rightarrow> jsval \<times> jsval" where
  "limit_range fd x alarmed =
     (let h = hysteresis_of fd; hi = fld fd ''hiLimit''; lo = fld fd ''loLimit'' in
      if js_lt (js_add hi (Num h)) (Num x) then (Num (num 1), alarmed)
      else if js_lt (Num x) (Num (to_number lo - h)) then (Num (num (- 1)), alarmed)
      else if js_lt (Num x) (Num (to_number hi - h)) \<and> js_lt (js_add lo (Num h)) (Num x) then (Num (num 0), Bool False)
      else if truthy (fld fd ''alarmRange'') then (fld fd ''alarmRange'', alarmed) else (Num (num 0), alarmed))"

text \<open>UTF-8 of the marks of an event text.\<close>

definition mark_hi :: string where "mark_hi = [CHR '' '', CHR 0xE2, CHR 0xA4, CHR 0x89]"
definition mark_lo :: string where "mark_lo = [CHR '' '', CHR 0xE2, CHR 0xA4, CHR 0x88]"
definition mark_alarm :: string where "mark_alarm = [CHR '' '', CHR 0xF0, CHR 0x9F, CHR 0x9A, CHR 0xA9]"
definition mark_ok :: string where "mark_ok = [CHR '' '', CHR 0xF0, CHR 0x9F, CHR 0x86, CHR 0x97]"
definition mark_up :: string where "mark_up = [CHR '' '', CHR 0xE2, CHR 0x86, CHR 0x91]"
definition mark_down :: string where "mark_down = [CHR '' '', CHR 0xE2, CHR 0x86, CHR 0x93]"

definition trend :: "string \<Rightarrow> string \<Rightarrow> doc \<Rightarrow> jsnum \<Rightarrow> string" where
  "trend up down fd x = (let old = num_abs (to_number (fld fd ''value'')) in
     if old < num_abs x then up else if num_abs x < old then down else [])"

definition value_text :: "doc \<Rightarrow> jsnum \<Rightarrow> string" where
  "value_text fd x = fixed_text x 3 @ '' '' @ to_string (fld fd ''unit'')"

definition soe_doc :: "doc \<Rightarrow> jsval \<Rightarrow> jsval \<Rightarrow> jsval \<Rightarrow> jsval \<Rightarrow> jsval \<Rightarrow> jsval \<Rightarrow> doc" where
  "soe_doc fd eventText bad t tSource tOk ack =
     [(''tag'', fld fd ''tag''), (''pointKey'', fld fd ''_id''), (''group1'', fld fd ''group1''), (''description'', fld fd ''description''),
      (''eventText'', eventText), (''invalid'', bad), (''priority'', fld fd ''priority''), (''timeTag'', t),
      (''timeTagAtSource'', tSource), (''timeTagAtSourceOk'', tOk), (''ack'', ack)]"

definition insert_soe :: "doc \<Rightarrow> dproc \<Rightarrow> dproc" where
  "insert_soe d w = w\<lparr>p_soe := p_soe w @ [d]\<rparr>"

definition limit_check :: "int \<Rightarrow> doc \<Rightarrow> jsnum \<Rightarrow> point \<Rightarrow> dproc \<Rightarrow> (js_error + point) \<times> dproc" where
  "limit_check t fd x p =
     (if \<not> has_limits fd then returnE p
      else (let (range, alarmed) = limit_range fd x (pt_alarmed p); p1 = p\<lparr>pt_range := range, pt_alarmed := alarmed\<rparr> in
        if \<not> truthy (fld fd ''alarmDisabled'') \<and> \<not> loose_eq (fld fd ''alarmRange'') range then
          (let p2 = (if \<not> loose_eq range (Num (num 0)) then p1\<lparr>pt_alarmed := Bool True\<rparr> else p1) in
           seqE (modifyE (insert_soe (soe_doc fd
               (Str (value_text fd x @ trend mark_hi mark_lo fd x @ (if truthy (pt_alarmed p2) then mark_alarm else mark_ok)))
               (Bool False) (Date (num t)) (Date (num t)) (Bool True) (Num (num (if truthy (pt_alarmed p2) then 0 else 1))))))
             (returnE p2))
        else returnE p1))"

definition analog_event :: "int \<Rightarrow> doc \<Rightarrow> doc \<Rightarrow> bool \<Rightarrow> jsnum \<Rightarrow> point \<Rightarrow> dproc \<Rightarrow> dproc" where
  "analog_event t fd sdu soe x p w =
     (if \<not> truthy (fld fd ''alarmDisabled'') \<and>
         (strict_eq (fld fd ''isEvent'') (Bool True) \<and> \<not> q_invalid (pt_q p) \<and> \<not> strict_eq (Num x) (fld fd ''value'') \<or> soe)
      then insert_soe (soe_doc fd (Str (value_text fd x @ trend mark_up mark_down fd x)) (Bool False) (Date (num t))
             (if soe then fld sdu ''timeTagAtSource'' else Date (num t)) (if soe then fld sdu ''timeTagAtSourceOk'' else Bool False)
             (Num (num 1))) w
      else w)"

definition analog_branch :: "proc_env \<Rightarrow> doc \<Rightarrow> doc \<Rightarrow> bool \<Rightarrow> point \<Rightarrow> dproc \<Rightarrow> (js_error + point) \<times> dproc" where
  "analog_branch e fd sdu soe p0 =
     (let p1 = (if pt_txt p0 \<noteq> [] then p0\<lparr>pt_txt := CHR '' '' # pt_txt p0\<rparr> else p0) in
      bindE (askE (\<lambda>_. analog_value fd sdu)) (\<lambda>x.
      bindE (askE (\<lambda>_. analog_string (e_bin e) fd sdu x (pt_txt p1))) (\<lambda>vs.
      bindE (limit_check (e_now e) fd x (p1\<lparr>pt_value := Num x, pt_string := vs\<rparr>)) (\<lambda>p2.
      seqE (modifyE (analog_event (e_now e) fd sdu soe x p2)) (returnE p2)))))"

definition type_branch :: "proc_env \<Rightarrow> doc \<Rightarrow> doc \<Rightarrow> bool \<Rightarrow> point \<Rightarrow> dproc \<Rightarrow> (js_error + point) \<times> dproc" where
  "type_branch e fd sdu soe p =
     (if is_type fd ''digital'' then askE (\<lambda>_. digital_branch fd sdu p)
      else if is_type fd ''analog'' then analog_branch e fd sdu soe p else returnE p)"

section \<open>What is updated\<close>

definition alarm_time :: "int \<Rightarrow> doc \<Rightarrow> bool \<Rightarrow> point \<Rightarrow> jsnum option" where
  "alarm_time t fd soe p =
     (if \<not> truthy (fld fd ''alarmDisabled'') \<and> truthy (pt_alarmed p) \<and>
         (\<not> truthy (fld fd ''alarmed'') \<or> is_type fd ''digital'' \<and> \<not> strict_eq (pt_value p) (fld fd ''value'') \<or>
          is_type fd ''digital'' \<and> soe)
      then Some (num t) else None)"

text \<open>\<open>fullDocument?.timeTagAtSource?.getTime() !== sourceDataUpdate.timeTagAtSource.getTime()\<close>.\<close>

definition source_time_differs :: "doc \<Rightarrow> doc \<Rightarrow> js_error + bool" where
  "source_time_differs fd sdu =
     (let old = fld fd ''timeTagAtSource'' in
      case (if nullish old then Inr Undef else map_sum id Num (get_time old)) of Inl e \<Rightarrow> Inl e
      | Inr a \<Rightarrow> map_sum id (\<lambda>u. \<not> strict_eq a (Num u)) (get_time (fld sdu ''timeTagAtSource'')))"

definition must_update :: "doc \<Rightarrow> doc \<Rightarrow> bool \<Rightarrow> point \<Rightarrow> js_error + bool" where
  "must_update fd sdu soe p =
     (let v = pt_value p;
          now_changed = (soe \<or> truthy (fld sdu ''rangeCheck'') \<or>
            \<not> strict_eq v (fld fd ''value'') \<and>
              \<not> (\<not> soe \<and> is_type fd ''digital'' \<and> strict_eq (fld fd ''isEvent'') (Bool True)) \<or>
            is_type fd ''string'' \<and> \<not> strict_eq (pt_string p) (fld fd ''valueString'') \<or>
            is_type fd ''json'' \<and> \<not> strict_eq (Str (pt_json p)) (fld fd ''valueJson''));
          rest = (fld fd ''timeTag'' = Null \<or> \<not> strict_eq (Bool (q_invalid (pt_q p))) (fld fd ''invalid''))
      in map_sum id (\<lambda>b. b \<and> \<not> truthy (fld sdu ''isHistorical''))
           (if now_changed then Inr True
            else if truthy (fld sdu ''timeTagAtSource'')
            then map_sum id (\<lambda>d. d \<or> rest) (source_time_differs fd sdu) else Inr rest))"

definition beepPointKey :: jsval where "beepPointKey = Num (num (- 1))"
definition cntUpdatesPointKey :: jsval where "cntUpdatesPointKey = Num (num (- 2))"

definition beep_update :: "doc \<Rightarrow> int \<Rightarrow> bool \<Rightarrow> doc" where
  "beep_update fd t important = [(''_id'', beepPointKey)] @ (if important then [(''beepType'', Num (num 2))] else []) @
     [(''value'', Num (num 1)), (''valueString'', Str ''Beep Active''), (''timeTag'', Date (num t)),
      (''$addToSet'', Obj [(''beepGroup1List'', fld fd ''group1'')])]"

definition new_beep :: "doc \<Rightarrow> bool \<Rightarrow> point \<Rightarrow> bool" where
  "new_beep fd soe p \<longleftrightarrow> truthy (pt_alarmed p) \<and>
     (soe \<and> strict_eq (fld fd ''isEvent'') (Bool True) \<and> is_type fd ''digital'' \<and> \<not> loose_eq (pt_value p) (Num (num 0)) \<or>
      strict_eq (fld fd ''isEvent'') (Bool False) \<and> is_type fd ''digital'' \<or> strict_eq (fld fd ''alarmed'') (Bool False))"

definition beep_updates :: "int \<Rightarrow> doc \<Rightarrow> bool \<Rightarrow> point \<Rightarrow> jsnum option \<Rightarrow> dproc \<Rightarrow> dproc" where
  "beep_updates t fd soe p st w =
     (if truthy (fld fd ''alarmDisabled'') then w
      else (let w1 = (if \<not> new_beep fd soe p then w
                      else if strict_eq (fld fd ''priority'') (Num (num 0)) then queueRtUpdate t (beep_update fd t True) st w
                      else if js_le (fld fd ''priority'') (Num (num 1)) then queueRtUpdate t (beep_update fd t False) st w else w)
            in if \<not> is_type fd ''digital'' then w1
               else (let n = digitalUpdatesCount w1 + 1 in
                 queueRtUpdate t [(''_id'', cntUpdatesPointKey), (''value'', Num (num n)),
                   (''valueString'', Str (int_to_string n @ '' Updates'')), (''timeTag'', Date (num t))] st
                   (w1\<lparr>digitalUpdatesCount := n\<rparr>))))"

text \<open>Whether the value enters the historian: period, exclusion, and for analogs the dead band
  around the last value recorded.\<close>

definition within_dead_band :: "doc \<Rightarrow> jsval \<Rightarrow> bool" where
  "within_dead_band fd v \<longleftrightarrow> has_key ''historianLastValue'' fd \<and> fld fd ''historianLastValue'' \<noteq> Null \<and>
     js_lt (Num (num 0)) (fld fd ''historianDeadBand'') \<and>
     num_abs (to_number v - to_number (fld fd ''historianLastValue'')) < num_abs (to_number (fld fd ''historianDeadBand''))"

definition into_historian :: "doc \<Rightarrow> doc \<Rightarrow> jsval \<Rightarrow> bool" where
  "into_historian fd sdu v =
     (if has_key ''historianPeriod'' fd then
        \<not> (js_lt (fld fd ''historianPeriod'') (Num (num 0)) \<or> truthy (fld sdu ''isNotForHistorical'')) \<and>
        \<not> (is_type fd ''analog'' \<and> has_key ''historianDeadBand'' fd \<and> within_dead_band fd v)
      else True)"

text \<open>\<open>new Double(v)\<close>.\<close>

definition dbl_val :: "jsval \<Rightarrow> jsval" where
  "dbl_val v = Num (to_number v)"

definition source_time :: "doc \<Rightarrow> jsval \<times> jsval" where
  "source_time sdu = (if has_key ''timeTagAtSource'' sdu \<and> fld sdu ''timeTagAtSource'' \<noteq> Null
     then (fld sdu ''timeTagAtSource'', fld sdu ''timeTagAtSourceOk'') else (Null, Null))"

definition point_update :: "int \<Rightarrow> doc \<Rightarrow> doc \<Rightarrow> bool \<Rightarrow> jsnum option \<Rightarrow> point \<Rightarrow> doc" where
  "point_update t fd sdu hist alarmT p =
     (let q = pt_q p in
      [(''_id'', fld fd ''_id''), (''value'', dbl_val (pt_value p)), (''valueString'', pt_string p), (''valueJson'', Str (pt_json p))] @
      (if is_type fd ''analog'' \<and> hist then [(''historianLastValue'', dbl_val (pt_value p))] else []) @
      [(''timeTag'', Date (num t)), (''overflow'', Bool (q_overflow q)), (''invalid'', Bool (q_invalid q)),
       (''transient'', Bool (q_transient q)), (''frozen'', Bool False), (''timeTagAtSource'', fst (source_time sdu)),
       (''timeTagAtSourceOk'', snd (source_time sdu)), (''updatesCnt'', dbl_val (js_add (fld fd ''updatesCnt'') (Num (num 1)))),
       (''alarmRange'', dbl_val (pt_range p)),
       (''alarmed'', if strict_eq (fld fd ''alarmDisabled'') (Bool True) then Bool False else pt_alarmed p)] @
      (case alarmT of None \<Rightarrow> [] | Some a \<Rightarrow> [(''timeTagAlarm'', Date a)]))"

definition protection_event_off :: "doc \<Rightarrow> doc \<Rightarrow> point \<Rightarrow> bool" where
  "protection_event_off fd sdu p \<longleftrightarrow> truthy (fld fd ''isEvent'') \<and> is_type fd ''digital'' \<and>
     strict_eq (pt_value p) (Num (num 0)) \<and> \<not> truthy (fld sdu ''isHistorical'')"

section \<open>Historian entries\<close>

text \<open>The JSON text of a value inside the SQL literal, and the character trimmed around it.\<close>

definition hist_json :: "string \<Rightarrow> string \<times> string" where
  "hist_json json =
     (let vj = (if json = [] then [CHR 0x22, CHR 0x22] else sql_escape (trim json)) in
      case vj of [] \<Rightarrow> (vj, [])
      | c # _ \<Rightarrow> if c = CHR ''{'' \<or> c = CHR ''['' then (vj, [CHR 0x22])
          else if num_is_nan (str_to_num vj) \<and> c \<noteq> CHR 0x22 then (CHR 0x22 # vj @ [CHR 0x22], []) else (vj, []))"

definition hist_flags :: "doc \<Rightarrow> doc \<Rightarrow> point \<Rightarrow> string" where
  "hist_flags fd sdu p =
     [if q_invalid (pt_q p) then CHR ''1'' else CHR ''0'', if truthy (snd (source_time sdu)) then CHR ''0'' else CHR ''1'',
      if is_type fd ''analog'' then CHR ''1'' else CHR ''0'',
      if strict_eq (fld sdu ''causeOfTransmissionAtSource'') (Str ''20'') then CHR ''1'' else CHR ''0''] @ ''0000''"

definition hist_value_sql :: "string \<times> string \<Rightarrow> string \<Rightarrow> string" where
  "hist_value_sql vj vs =
     '',('' @ sql_quote (CHR 0x7B # CHR 0x22 # ''v'' @ [CHR 0x22, CHR '':'']) @ ''||trim('' @
     CHR 0x27 # snd vj @ CHR 0x27 # '' FROM to_json('' @ CHR 0x27 # fst vj @ CHR 0x27 # ''::text)::jsonb #>> '' @ sql_quote [CHR 0x7B, CHR 0x7D] @
     '')||'' @ sql_quote ('','' @ CHR 0x22 # ''s'' @ [CHR 0x22, CHR '':'']) @ ''||to_json('' @ CHR 0x27 # vs @ CHR 0x27 #
     ''::text)||'' @ sql_quote [CHR 0x7D] @ ''::text)::jsonb,''"

definition hist_sql :: "doc \<Rightarrow> doc \<Rightarrow> point \<Rightarrow> string \<times> string \<Rightarrow> string \<Rightarrow> js_error + string" where
  "hist_sql fd sdu p vj vs =
     (case as_str (fld fd ''tag'') of Inl e \<Rightarrow> Inl e | Inr tag \<Rightarrow>
     (case iso_string (fld sdu ''timeTag'') of Inl e \<Rightarrow> Inl e | Inr t \<Rightarrow>
     (case (if fst (source_time sdu) = Null then Inr ''null''
            else map_sum id (\<lambda>s. CHR 0x27 # s @ [CHR 0x27]) (iso_string (fld sdu ''timeTagAtSource''))) of Inl e \<Rightarrow> Inl e | Inr ts \<Rightarrow>
       Inr (sql_quote tag @ '','' @ CHR 0x27 # t @ CHR 0x27 # '','' @ to_string (pt_value p) @ hist_value_sql vj vs @ ts @ '','' @
            ''B'' @ CHR 0x27 # hist_flags fd sdu p @ [CHR 0x27]))))"

definition hist_obj :: "doc \<Rightarrow> doc \<Rightarrow> point \<Rightarrow> doc" where
  "hist_obj fd sdu p =
     [(''tag'', fld fd ''tag''), (''timeTag'', fld sdu ''timeTag''),
      (''value'', if is_type fd ''string'' then pt_string p else if is_type fd ''json'' then Str (pt_json p) else pt_value p),
      (''invalid'', Bool (q_invalid (pt_q p)))] @
     (if fst (source_time sdu) \<noteq> Null then [(''timeTagAtSource'', fst (source_time sdu))] else []) @
     (if snd (source_time sdu) \<noteq> Null then [(''timeTagAtSourceOk'', snd (source_time sdu))] else []) @
     (if truthy (fld sdu ''causeOfTransmissionAtSource'') then [(''cot'', fld sdu ''causeOfTransmissionAtSource'')] else [])"

definition queue_hist :: "doc \<Rightarrow> doc \<Rightarrow> point \<Rightarrow> dproc \<Rightarrow> (js_error + unit) \<times> dproc" where
  "queue_hist fd sdu p =
     bindE (askE (\<lambda>_. if pt_string p = Str [] then Inr [] else map_sum id sql_escape (as_str (pt_string p)))) (\<lambda>vs.
     seqE (modifyE (count ''histQueued'' 1))
     (bindE (askE (\<lambda>_. hist_sql fd sdu p (hist_json (pt_json p)) vs)) (\<lambda>sql.
       modifyE (\<lambda>w. w\<lparr>sqlHistQueue := q_enqueue \<lparr>he_sql = sql, he_obj = hist_obj fd sdu p\<rparr> (sqlHistQueue w)\<rparr>))))"

text \<open>The document with the new data, for the SQL copy of the realtime table.\<close>

definition new_document :: "int \<Rightarrow> doc \<Rightarrow> point \<Rightarrow> doc" where
  "new_document t fd p =
     aupd ''alarmed'' (pt_alarmed p) (aupd ''updatesCnt'' (js_add (fld fd ''updatesCnt'') (Num (num 1)))
     (aupd ''transient'' (Bool (q_transient (pt_q p))) (aupd ''invalid'' (Bool (q_invalid (pt_q p)))
     (aupd ''overflow'' (Bool (q_overflow (pt_q p))) (aupd ''timeTag'' (Date (num t)) (aupd ''valueJson'' (Str (pt_json p))
     (aupd ''valueString'' (pt_string p) (aupd ''value'' (pt_value p) fd))))))))"

definition queue_sql_rt :: "int \<Rightarrow> string \<Rightarrow> string \<Rightarrow> doc \<Rightarrow> dproc \<Rightarrow> (js_error + unit) \<times> dproc" where
  "queue_sql_rt t prefix1 suffix1 d =
     bindE (askE (\<lambda>_. as_str (fld d ''tag''))) (\<lambda>tag.
       modifyE (\<lambda>w. w\<lparr>sqlRtDataQueue := q_enqueue (sql_quote tag @ '','' @ CHR 0x27 # iso_text t @ CHR 0x27 # '','' @
         prefix1 @ sql_quote (json_val iso_of (Obj d)) @ suffix1) (sqlRtDataQueue w)\<rparr>))"

definition apply_update :: "proc_env \<Rightarrow> doc \<Rightarrow> doc \<Rightarrow> bool \<Rightarrow> jsnum \<Rightarrow> point \<Rightarrow> dproc \<Rightarrow> (js_error + unit) \<times> dproc" where
  "apply_update e fd sdu soe sduTime p =
     (let hist = into_historian fd sdu (pt_value p) in
      seqE (modifyE (beep_updates (e_now e) fd soe p (Some sduTime)))
      (seqE (modifyE (if protection_event_off fd sdu p then (\<lambda>w. w)
         else queueRtUpdate (e_now e) (point_update (e_now e) fd sdu hist (alarm_time (e_now e) fd soe p) p) (Some sduTime)))
      (seqE (if hist then queue_hist fd sdu p else returnE ())
        (queue_sql_rt (e_now e) [] [] (new_document (e_now e) fd p)))))"

definition digital_soe :: "int \<Rightarrow> doc \<Rightarrow> doc \<Rightarrow> bool \<Rightarrow> point \<Rightarrow> dproc \<Rightarrow> dproc" where
  "digital_soe t fd sdu soe p w =
     (if soe \<and> \<not> is_type fd ''analog'' \<and> \<not> truthy (fld fd ''alarmDisabled'') \<and> \<not> truthy (fld sdu ''isNotForHistorical'') \<and>
         \<not> (strict_eq (pt_value p) (Num (num 0)) \<and> truthy (fld fd ''isEvent''))
      then insert_soe (soe_doc fd (fld fd (if strict_eq (pt_value p) (Num (num 0)) then ''eventTextFalse'' else ''eventTextTrue''))
             (Bool (q_invalid (pt_q p))) (Date (num t)) (fld sdu ''timeTagAtSource'') (fld sdu ''timeTagAtSourceOk'') (Num (num 0))) w
      else w)"

section \<open>The handler\<close>

definition add_latency :: "jsnum \<Rightarrow> dproc \<Rightarrow> dproc" where
  "add_latency d w = (let l = p_latency w in w\<lparr>p_latency := \<lparr>latencyAccTotal = latencyAccTotal l + d, latencyTotalCnt = latencyTotalCnt l + 1,
     latencyAccMinute = latencyAccMinute l + d, latencyMinuteCnt = latencyMinuteCnt l + 1,
     latencyPeak = (if latencyPeak l < d then d else latencyPeak l)\<rparr>\<rparr>)"

definition process_update :: "proc_env \<Rightarrow> doc \<Rightarrow> doc \<Rightarrow> dproc \<Rightarrow> (js_error + unit) \<times> dproc" where
  "process_update e fd0 sdu =
     (let fd = (if has_key ''sourceDataUpdate'' fd0 then fd0 else aupd ''sourceDataUpdate'' (Obj sdu) fd0) in
      bindE (askE (\<lambda>_. get_time (fld sdu ''timeTag''))) (\<lambda>sduTime.
      seqE (modifyE (\<lambda>w. add_latency (num (e_now e) - sduTime) (observe_ms (e_log2 e) ''sourceToRecv'' (num (e_now e) - sduTime) w)))
      (bindE (askE (\<lambda>_. is_soe (e_tz e) fd sdu)) (\<lambda>soe.
       bindE (type_branch e fd sdu soe (source_point fd sdu)) (\<lambda>p.
       bindE (askE (\<lambda>_. must_update fd sdu soe p)) (\<lambda>upd.
         seqE (if upd then apply_update e fd sdu soe sduTime p else modifyE (count ''notChanged'' 1))
           (modifyE (digital_soe (e_now e) fd sdu soe p))))))))"

definition change_body :: "proc_env \<Rightarrow> change_event \<Rightarrow> dproc \<Rightarrow> (js_error + unit) \<times> dproc" where
  "change_body e c =
     seqE (modifyE (\<lambda>w. w\<lparr>resumeToken := e_token e\<rparr>))
     (if chg_type c = ''delete'' then returnE ()
      else if chg_type c = ''insert'' then
        bindE (askE (\<lambda>_. as_obj (chg_full c))) (\<lambda>fd.
          seqE (modifyE (count ''inserts'' 1)) (queue_sql_rt (e_now e) ''to_json('' ''::text)'' fd))
      else if \<not> e_active e then modifyE (count ''ignoredInactive'' 1)
      else bindE (askE (\<lambda>_. case as_obj (chg_desc c) of Inl err \<Rightarrow> Inl err | Inr ud \<Rightarrow> as_obj (fld ud ''updatedFields''))) (\<lambda>uf.
        if \<not> has_key ''sourceDataUpdate'' uf then returnE ()
        else bindE (askE (\<lambda>_. as_obj (chg_full c))) (\<lambda>fd.
          bindE (askE (\<lambda>_. as_obj (fld uf ''sourceDataUpdate''))) (\<lambda>sdu. process_update e fd sdu))))"

text \<open>With the counters before it, the \<open>catch\<close> and the \<open>finally\<close>.\<close>

definition on_change :: "proc_env \<Rightarrow> change_event \<Rightarrow> dproc \<Rightarrow> dproc" where
  "on_change e c w =
     (let w0 = on_metrics (stage_update ''queueWait'' (\<lambda>h. observe (e_log2 e) h (Some 0))) (count ''changesReceived'' 1 w);
          w1 = snd (tryE (change_body e c) (\<lambda>_. modifyE (count ''errors'' 1)) w0)
      in count ''changesProcessed'' 1 (observe_ns (e_log2 e) ''processing'' (e_ns e) w1))"

text \<open>The completion of an insertion into \<open>soeData\<close>.\<close>

definition soe_written :: "(int \<Rightarrow> int) \<Rightarrow> int \<Rightarrow> bool \<Rightarrow> dproc \<Rightarrow> dproc" where
  "soe_written log2f ns failed w =
     (if failed then count ''errors'' 1 w else count ''soeInserted'' 1 (observe_ns log2f ''soeWrite'' ns w))"

section \<open>Special tags\<close>

text \<open>The two system points, created when they are missing.\<close>

definition beep_tag :: doc where
  "beep_tag = [(''_id'', beepPointKey), (''alarmRange'', Num (num 0)), (''alarmDisabled'', Bool True), (''alarmState'', Num (num 1)),
     (''alarmed'', Bool False), (''annotation'', Str []), (''commandBlocked'', Bool False), (''commandOfSupervised'', Num (num 0)),
     (''description'', Str ''_System~Status~Alarm Beep''), (''eventTextFalse'', Str ''Beep Deactivated''),
     (''eventTextTrue'', Str ''Beep Activated''), (''formula'', Null), (''frozen'', Bool False),
     (''frozenDetectTimeout'', Num (num 300)), (''group1'', Str ''_System''), (''group2'', Str ''Status''), (''group3'', Str []),
     (''hiLimit'', Null), (''hihiLimit'', Null), (''hihihiLimit'', Null), (''historianDeadBand'', Num (num 0)),
     (''historianPeriod'', Num (num 0)), (''hysteresis'', Num (num 0)), (''invalid'', Bool True),
     (''invalidDetectTimeout'', Num (num 0)), (''isEvent'', Bool False), (''kconv1'', Num (num 1)), (''kconv2'', Num (num 0)),
     (''loLimit'', Null), (''location'', Null), (''loloLimit'', Null), (''lololoLimit'', Null), (''notes'', Str []),
     (''origin'', Str ''system''), (''overflow'', Bool False), (''parcels'', Null), (''priority'', Num (num 3)),
     (''protocolSourceASDU'', Num (num 0)), (''protocolSourceCommandDuration'', Null), (''protocolSourceCommandUseSBO'', Null),
     (''protocolSourceCommonAddress'', Num (num 0)), (''protocolSourceConnectionNumber'', Num (num 0)),
     (''protocolSourceObjectAddress'', Num (num 0)), (''sourceDataUpdate'', Null), (''stateTextFalse'', Str ''No Beep''),
     (''stateTextTrue'', Str ''Active Beep''), (''substituted'', Bool False), (''supervisedOfCommand'', Num (num 0)),
     (''tag'', Str ''_System.Status.AlarmBeep''), (''timeTag'', Date (num 946684800000)), (''transient'', Bool False),
     (''type'', Str ''analog''), (''ungroupedDescription'', Str ''Alarm Beep''), (''unit'', Str ''Enum''), (''updatesCnt'', Num (num 0)),
     (''value'', Num (num 0)), (''valueDefault'', Num (num 0)), (''valueString'', Str ''No Beep''), (''timeTagAtSource'', Null),
     (''timeTagAtSourceOk'', Null), (''beepType'', Num (num 0)), (''beepGroup1List'', Arr [])]"

definition updates_tag :: doc where
  "updates_tag = [(''_id'', cntUpdatesPointKey), (''alarmRange'', Num (num 0)), (''alarmDisabled'', Bool True), (''alarmState'', Num (num 1)),
     (''alarmed'', Bool False), (''annotation'', Str []), (''commandBlocked'', Bool False), (''commandOfSupervised'', Num (num 0)),
     (''description'', Str ''_System~Status~Digital Updates Count''), (''eventTextFalse'', Str []), (''eventTextTrue'', Str []),
     (''formula'', Null), (''frozen'', Bool False), (''frozenDetectTimeout'', Num (num 300)), (''group1'', Str ''_System''),
     (''group2'', Str ''Status''), (''group3'', Str []), (''hiLimit'', Null), (''hihiLimit'', Null), (''hihihiLimit'', Null),
     (''historianDeadBand'', Num (num 0)), (''historianPeriod'', Num (num 0)), (''hysteresis'', Num (num 0)), (''invalid'', Bool True),
     (''invalidDetectTimeout'', Num (num 0)), (''isEvent'', Bool False), (''kconv1'', Num (num 1)), (''kconv2'', Num (num 0)),
     (''loLimit'', Null), (''location'', Null), (''loloLimit'', Null), (''lololoLimit'', Null), (''notes'', Str []),
     (''origin'', Str ''system''), (''overflow'', Bool False), (''parcels'', Null), (''priority'', Num (num 3)),
     (''protocolSourceASDU'', Num (num 0)), (''protocolSourceCommandDuration'', Null), (''protocolSourceCommandUseSBO'', Null),
     (''protocolSourceCommonAddress'', Num (num 0)), (''protocolSourceConnectionNumber'', Num (num 0)),
     (''protocolSourceObjectAddress'', Num (num 0)), (''sourceDataUpdate'', Null), (''stateTextFalse'', Str []),
     (''stateTextTrue'', Str []), (''substituted'', Bool False), (''supervisedOfCommand'', Num (num 0)),
     (''tag'', Str ''_System.Status.DigitalUpdatesCnt''), (''timeTag'', Date (num 946684800000)), (''transient'', Bool False),
     (''type'', Str ''analog''), (''ungroupedDescription'', Str ''Digital Updates Count''), (''unit'', Str ''Updates''),
     (''updatesCnt'', Num (num 0)), (''value'', Num (num 0)), (''valueDefault'', Num (num 0)), (''valueString'', Str ''0 Updates''),
     (''timeTagAtSource'', Null), (''timeTagAtSourceOk'', Null)]"

datatype tag_op = InsertTag doc | SetBeepList

text \<open>\<open>createSpecialTags\<close>: \<open>beeps\<close> and \<open>cnts\<close> are what the two searches find. \<open>SetBeepList\<close> is the
  update of a beep point without a list of groups.\<close>

definition createSpecialTags :: "doc list \<Rightarrow> doc list \<Rightarrow> tag_op list" where
  "createSpecialTags beeps cnts =
     (if beeps = [] then [InsertTag beep_tag] else [SetBeepList]) @ (if cnts = [] then [InsertTag updates_tag] else [])"

text \<open>An insertion carries no description of an update: the pipeline lets none of them through.\<close>

lemma insertions_never_match: "chg_desc c = Undef \<Longrightarrow> \<not> pipeline_match dexp c"
  by (simp add: pipeline_match_def path_exists_def)

end
