(* ===== verification/ProcLaws.thy ===== *)
theory ProcLaws
  imports ProcChange
begin

text \<open>
  Properties of the change handler of \<open>cs_data_processor.js\<close>.
\<close>

lemmas proc_steps = handler_simps modifyE_def count_def observe_ms_def observe_ns_def

section \<open>Inactive nodes\<close>

lemma on_metrics_more [dproc_simps]:
  "resumeToken (w\<lparr>p_metrics := m\<rparr>) = resumeToken w" "p_metrics (on_metrics f w) = f (p_metrics w)"
  by (simp_all add: on_metrics_def)

text \<open>A standby node follows the stream and writes nothing: while the node is inactive, an
  event that is not an insertion moves the resume token and leaves the three queues, the
  sequence of events, the counter of digital changes and the flush as they were.\<close>

theorem inactive_node_only_follows:
  assumes "\<not> e_active e" "chg_type c \<noteq> ''insert''"
  shows "\<exists>g. on_change e c w = on_metrics g (w\<lparr>resumeToken := e_token e\<rparr>)"
proof -
  let ?g0 = "\<lambda>m. stage_update ''queueWait'' (\<lambda>h. observe (e_log2 e) h (Some 0)) (metrics_inc ''changesReceived'' 1 m)"
  let ?w1 = "on_metrics ?g0 (w\<lparr>resumeToken := e_token e\<rparr>)"
  have "\<exists>g1. snd (tryE (change_body e c) (\<lambda>_. modifyE (count ''errors'' 1)) (on_metrics ?g0 w)) = on_metrics g1 ?w1"
  proof (cases "chg_type c = ''delete''")
    case True
    then show ?thesis
      by (intro exI[of _ "\<lambda>m. m"]) (simp add: change_body_def tryE_def proc_steps on_metrics_def)
  next
    case False
    with assms show ?thesis
      by (intro exI[of _ "metrics_inc ''ignoredInactive'' 1"]) (simp add: change_body_def tryE_def proc_steps on_metrics_def)
  qed
  then obtain g1 where "snd (tryE (change_body e c) (\<lambda>_. modifyE (count ''errors'' 1)) (on_metrics ?g0 w)) = on_metrics g1 ?w1" by blast
  then show ?thesis
    unfolding on_change_def Let_def metrics_calls on_metrics_comp by (simp add: on_metrics_comp) (metis on_metrics_comp)
qed

section \<open>Quoting\<close>

text \<open>What an SQL reader makes of a text: a quote opens a literal, inside it two quotes stand for
  one, a single one ends it.\<close>

datatype sql_token = Plain char | Lit string | Unterminated string

fun sql_plain :: "string \<Rightarrow> sql_token list" and sql_lit :: "string \<Rightarrow> string \<Rightarrow> sql_token list" where
  "sql_plain [] = []"
| "sql_plain (c # s) = (if c = CHR 0x27 then sql_lit [] s else Plain c # sql_plain s)"
| "sql_lit acc [] = [Unterminated (rev acc)]"
| "sql_lit acc [c] = (if c = CHR 0x27 then [Lit (rev acc)] else [Unterminated (rev (c # acc))])"
| "sql_lit acc (c # d # s) =
     (if c \<noteq> CHR 0x27 then sql_lit (c # acc) (d # s)
      else if d = CHR 0x27 then sql_lit (CHR 0x27 # acc) s else Lit (rev acc) # sql_plain (d # s))"

lemma sql_plain_append: "CHR 0x27 \<notin> set s \<Longrightarrow> sql_plain (s @ t) = map Plain s @ sql_plain t"
  by (induction s) auto

lemma sql_escape_Cons: "sql_escape (c # s) = (if c = CHR 0x27 then [CHR 0x27, CHR 0x27] else [c]) @ sql_escape s"
  by (simp add: sql_escape_def replace_char_def)

lemma sql_lit_step: "c \<noteq> CHR 0x27 \<Longrightarrow> s \<noteq> [] \<Longrightarrow> sql_lit acc (c # s) = sql_lit (c # acc) s"
  by (cases s) auto

lemma sql_lit_escape:
  assumes "rest = [] \<or> hd rest \<noteq> CHR 0x27"
  shows "sql_lit acc (sql_escape s @ CHR 0x27 # rest) = Lit (rev acc @ s) # sql_plain rest"
proof (induction s arbitrary: acc)
  case Nil
  then show ?case using assms by (cases rest) (auto simp: sql_escape_def replace_char_def)
next
  case (Cons c s)
  show ?case
  proof (cases "c = CHR 0x27")
    case True then show ?thesis using Cons[of "CHR 0x27 # acc"] by (simp add: sql_escape_Cons)
  next
    case False then show ?thesis using Cons[of "c # acc"] by (simp add: sql_escape_Cons sql_lit_step)
  qed
qed

lemma sql_plain_quote:
  assumes "rest = [] \<or> hd rest \<noteq> CHR 0x27"
  shows "sql_plain (sql_quote s @ rest) = Lit s # sql_plain rest"
  using sql_lit_escape[OF assms, of "[]" s] by (simp add: sql_quote_def)

lemma sql_escape_id: "CHR 0x27 \<notin> set s \<Longrightarrow> sql_escape s = s"
  by (simp add: sql_escape_def replace_char_absent)

lemma sql_escape_append [simp]: "sql_escape (s @ t) = sql_escape s @ sql_escape t"
  by (simp add: sql_escape_def)

lemma sql_lit_quoted [simp]:
  "rest = [] \<or> hd rest \<noteq> CHR 0x27 \<Longrightarrow> sql_lit [] (sql_escape s @ CHR 0x27 # rest) = Lit s # sql_plain rest"
  using sql_lit_escape[of rest "[]" s] by simp

lemma sql_lit_raw:
  "CHR 0x27 \<notin> set s \<Longrightarrow> rest = [] \<or> hd rest \<noteq> CHR 0x27 \<Longrightarrow> sql_lit [] (s @ CHR 0x27 # rest) = Lit s # sql_plain rest"
  using sql_lit_quoted[of rest s] by (simp add: sql_escape_id)

text \<open>The text inside the JSON literal.\<close>

definition json_literal :: "string \<Rightarrow> string" where
  "json_literal json = (if json = [] then [CHR 0x22, CHR 0x22] else
     let t = trim json; vj = sql_escape t in
     case vj of [] \<Rightarrow> [] | c # _ \<Rightarrow>
       if c = CHR ''{'' \<or> c = CHR ''['' then t else if num_is_nan (str_to_num vj) \<and> c \<noteq> CHR 0x22 then CHR 0x22 # t @ [CHR 0x22] else t)"

lemma sql_escape_Nil [simp]: "sql_escape [] = []"
  by (simp add: sql_escape_def replace_char_def)

lemma sql_escape_eq_Nil [simp]: "sql_escape s = [] \<longleftrightarrow> s = []"
  by (cases s) (auto simp: sql_escape_Cons)

lemma hist_json_literal: "fst (hist_json json) = sql_escape (json_literal json) \<and> CHR 0x27 \<notin> set (snd (hist_json json))"
  by (auto simp: hist_json_def json_literal_def Let_def sql_escape_Cons split: list.splits)

lemma json_literal_cases: "json_literal json \<in> {[CHR 0x22, CHR 0x22], trim json, CHR 0x22 # trim json @ [CHR 0x22]}"
  by (auto simp: json_literal_def Let_def split: list.splits)

lemma hist_flags_no_quote: "CHR 0x27 \<notin> set (hist_flags fd sdu p)"
  by (simp add: hist_flags_def)

lemma to_iso_no_quote: "iso_string v = Inr s \<Longrightarrow> CHR 0x27 \<notin> set s"
  by (auto simp: iso_string_def to_iso_def split: jsval.splits jsnum.splits)

definition P :: "string \<Rightarrow> sql_token list" where "P s = map Plain s"

lemma hist_value_tokens:
  "sql_plain (hist_value_sql (hist_json json) (sql_escape vs) @ rest) =
    P '',('' @ [Lit [CHR 0x7B, CHR 0x22, CHR ''v'', CHR 0x22, CHR '':'']] @ P ''||trim('' @ [Lit (snd (hist_json json))] @
    P '' FROM to_json('' @ [Lit (json_literal json)] @ P ''::text)::jsonb #>> '' @ [Lit [CHR 0x7B, CHR 0x7D]] @ P '')||'' @
    [Lit ('','' @ CHR 0x22 # ''s'' @ [CHR 0x22, CHR '':''])] @ P ''||to_json('' @ [Lit vs] @ P ''::text)||'' @
    [Lit [CHR 0x7D]] @ P ''::text)::jsonb,'' @ sql_plain rest"
proof -
  have j: "fst (hist_json json) = sql_escape (json_literal json)" "CHR 0x27 \<notin> set (snd (hist_json json))"
    using hist_json_literal by auto
  show ?thesis
    unfolding hist_value_sql_def j(1) sql_quote_def
    by (simp add: sql_lit_raw j(2) P_def sql_escape_Cons)
qed


definition demo_point :: point where
  "demo_point = \<lparr>pt_value = Num (num 1), pt_q = source_quality [], pt_txt = [], pt_alarmed = Bool False, pt_string = Str [], pt_json = [],
     pt_range = Num (num 0)\<rparr>"

definition demo_tag :: string where "demo_tag = ''O'' @ [CHR 0x27] @ ''Neil''"


section \<open>Quality of a point\<close>

definition double_point_fault :: "doc \<Rightarrow> doc \<Rightarrow> bool" where
  "double_point_fault fd sdu \<longleftrightarrow> is_type fd ''digital'' \<and> has_key ''asduAtSource'' sdu \<and>
     index_is_0 ''M_DP_'' (fld sdu ''asduAtSource'') = Inr True \<and>
     (fld sdu ''valueAtSource'' = Num (num 0) \<or> fld sdu ''valueAtSource'' = Num (num 3) \<or>
      nullish (fld sdu ''valueAtSource'') \<or> is_nan (fld sdu ''valueAtSource''))"

definition bad_source_value :: "doc \<Rightarrow> bool" where
  "bad_source_value sdu \<longleftrightarrow> nullish (fld sdu ''valueAtSource'') \<or> is_nan (fld sdu ''valueAtSource'')"

lemma strict_eq_num: "strict_eq v (Num (num n)) \<longleftrightarrow> v = Num (num n)"
  by (cases v) (auto simp: num_eq_iff)

lemma double_point_q: "pt_q (double_point p) = (if pt_value p = Num (num 0) \<or> pt_value p = Num (num 3)
    then (pt_q p)\<lparr>q_transient := True, q_invalid := True\<rparr> else pt_q p)"
  by (simp add: double_point_def Let_def strict_eq_num)

lemma limit_check_keeps:
  assumes "limit_check t fd x p w = (Inr p', w')"
  shows "pt_q p' = pt_q p \<and> pt_value p' = pt_value p \<and> pt_string p' = pt_string p \<and> pt_json p' = pt_json p"
  using assms by (auto simp: limit_check_def Let_def handler_simps split: prod.splits if_splits)

lemma analog_branch_keeps:
  assumes "analog_branch e fd sdu soe p w = (Inr p', w')"
  shows "pt_q p' = pt_q p \<and> pt_json p' = pt_json p \<and> (\<exists>x. analog_value fd sdu = Inr x \<and> pt_value p' = Num x)"
proof -
  let ?p1 = "if pt_txt p \<noteq> [] then p\<lparr>pt_txt := CHR '' '' # pt_txt p\<rparr> else p"
  obtain x vs w1 where "analog_value fd sdu = Inr x"
    "limit_check (e_now e) fd x (?p1\<lparr>pt_value := Num x, pt_string := vs\<rparr>) w = (Inr p', w1)"
    using assms by (auto simp: analog_branch_def Let_def handler_simps bindE_def seqE_def split: sum.splits prod.splits)
  then show ?thesis using limit_check_keeps by fastforce
qed

lemma digital_branch_q:
  assumes "digital_branch fd sdu p = Inr p'"
  shows "pt_q p' = (if has_key ''asduAtSource'' sdu \<and> index_is_0 ''M_DP_'' (fld sdu ''asduAtSource'') = Inr True
     then pt_q (double_point p) else pt_q p)"
  using assms by (auto simp: digital_branch_def Let_def split: sum.splits if_splits)

lemma source_point_simps:
  "pt_value (source_point fd sdu) = (if bad_source_value sdu then Num (num 0) else fld sdu ''valueAtSource'')"
  "pt_q (source_point fd sdu) = (if bad_source_value sdu then (source_quality sdu)\<lparr>q_invalid := True\<rparr> else source_quality sdu)"
  by (auto simp: source_point_def source_value_def bad_source_value_def Let_def)

lemma type_branch_q:
  assumes "type_branch e fd sdu soe p0 w = (Inr p, w')"
  shows "pt_q p = (if is_type fd ''digital'' \<and> has_key ''asduAtSource'' sdu \<and>
      index_is_0 ''M_DP_'' (fld sdu ''asduAtSource'') = Inr True then pt_q (double_point p0) else pt_q p0)"
proof (cases "is_type fd ''digital''")
  case True
  then have "digital_branch fd sdu p0 = Inr p" using assms by (auto simp: type_branch_def askE_def)
  from digital_branch_q[OF this] True show ?thesis by simp
next
  case False
  then show ?thesis using assms analog_branch_keeps[of e fd sdu soe p0 w p w']
    by (auto simp: type_branch_def returnE_def split: if_splits)
qed

text \<open>C5. The quality written: when the branches of the handler end, the point is invalid exactly
  when the driver reported it invalid, not topical, overflowed or transient, when the value
  was missing or no number, or when a double point was in an intermediate or faulty position.\<close>

theorem point_quality_exact:
  assumes "type_branch e fd sdu soe (source_point fd sdu) w = (Inr p, w')"
  shows "(q_invalid (pt_q p) \<longleftrightarrow> src_flag sdu ''invalidAtSource'' \<or> src_flag sdu ''notTopicalAtSource'' \<or>
     src_flag sdu ''overflowAtSource'' \<or> src_flag sdu ''transientAtSource'' \<or> bad_source_value sdu \<or> double_point_fault fd sdu) \<and>
    (q_transient (pt_q p) \<longleftrightarrow> src_flag sdu ''transientAtSource'' \<or> double_point_fault fd sdu)"
  unfolding type_branch_q[OF assms] double_point_q source_point_simps
  by (auto simp: source_quality_def double_point_fault_def bad_source_value_def)

text \<open>A double point in the intermediate position.\<close>

definition demo_env :: "int \<Rightarrow> proc_env" where
  "demo_env t = \<lparr>e_now = t, e_ns = 0, e_log2 = (\<lambda>v. v), e_active = True, e_token = Some 9, e_tz = (\<lambda>_. 0), e_bin = (\<lambda>_. [])\<rparr>"

theorem inactive_node_only_follows_witness:
  "mongoRtDataQueue (on_change ((demo_env 3)\<lparr>e_active := False\<rparr>) \<lparr>chg_type = ''update'', chg_full = Null, chg_desc = Null\<rparr> demo_dproc) = [] \<and>
   resumeToken (on_change ((demo_env 3)\<lparr>e_active := False\<rparr>) \<lparr>chg_type = ''update'', chg_full = Null, chg_desc = Null\<rparr> demo_dproc) = Some 9"
proof -
  let ?e = "(demo_env 3)\<lparr>e_active := False\<rparr>"
  let ?c = "\<lparr>chg_type = ''update'', chg_full = Null, chg_desc = Null\<rparr>"
  obtain g where "on_change ?e ?c demo_dproc = on_metrics g (demo_dproc\<lparr>resumeToken := e_token ?e\<rparr>)"
    using inactive_node_only_follows[of ?e ?c demo_dproc] by (auto simp: demo_env_def)
  then show ?thesis by (simp add: on_metrics_def demo_dproc_def demo_env_def)
qed

theorem point_quality_exact_witness:
  "\<exists>p w'. type_branch (demo_env 0) [(''type'', Str ''digital'')] [(''valueAtSource'', Num (num 3)), (''asduAtSource'', Str ''M_DP_NA_1'')] False
     (source_point [(''type'', Str ''digital'')] [(''valueAtSource'', Num (num 3)), (''asduAtSource'', Str ''M_DP_NA_1'')]) demo_dproc = (Inr p, w') \<and>
     q_invalid (pt_q p) \<and> q_transient (pt_q p)"
proof -
  let ?fd = "[(''type'', Str ''digital'')]" and ?sdu = "[(''valueAtSource'', Num (num 3)), (''asduAtSource'', Str ''M_DP_NA_1'')]"
  have ix: "index_is_0 ''M_DP_'' (Str ''M_DP_NA_1'') = Inr True" by code_simp
  then obtain p where p: "digital_branch ?fd ?sdu (source_point ?fd ?sdu) = Inr p" by (simp add: digital_branch_def Let_def)
  then have r: "type_branch (demo_env 0) ?fd ?sdu False (source_point ?fd ?sdu) demo_dproc = (Inr p, demo_dproc)"
    by (simp add: type_branch_def is_type_def askE_def)
  have "double_point_fault ?fd ?sdu" using ix by (simp add: double_point_fault_def is_type_def)
  with point_quality_exact[OF r] r show ?thesis by blast
qed

section \<open>The value at the source read twice\<close>

lemma num_mul_NaN: "NaN * x = NaN" and num_add_NaN: "NaN + x = (NaN :: jsnum)"
  by (cases x; simp add: times_jsnum_def plus_jsnum_def)+

text \<open>The sanitised value is not the one used: for an analog point whose source value is
  missing or no number, the value set to an invalid zero is computed again from the source,
  so NaN is what is written to \<open>realtimeData\<close> and stands unquoted in the row of the SQL
  historian, where it is no literal.\<close>

theorem analog_writes_nan:
  assumes "type_branch e fd sdu soe (source_point fd sdu) w = (Inr p, w')" "is_type fd ''analog''"
    and "to_number (fld sdu ''valueAtSource'') = NaN" "fld fd ''kconv2'' = Num k" "fld fd ''zeroDeadband'' = Num z"
  shows "pt_value (source_point fd sdu) = Num (num 0) \<and> fld (point_update t fd sdu hist alarmT p) ''value'' = Num NaN \<and>
    to_string (pt_value p) = ''NaN''"
proof -
  have "analog_branch e fd sdu soe (source_point fd sdu) w = (Inr p, w')"
    using assms(1,2) by (cases "fld fd ''type''") (auto simp: type_branch_def is_type_def)
  then obtain x where x: "analog_value fd sdu = Inr x" "pt_value p = Num x" using analog_branch_keeps by blast
  have "x = NaN" using x(1) assms(3-5) by (cases z) (auto simp: analog_value_def num_mul_NaN num_add_NaN Let_def less_jsnum_def split: if_splits)
  moreover have "bad_source_value sdu" using assms(3) by (simp add: bad_source_value_def is_nan_def)
  ultimately show ?thesis using x(2)
    by (simp add: source_point_simps point_update_def dbl_val_def Let_def num_to_string_def)
qed

definition nan_fd :: doc where
  "nan_fd = [(''type'', Str ''analog''), (''kconv1'', Num (num 1)), (''kconv2'', Num (num 0)), (''zeroDeadband'', Num (num 0)), (''unit'', Str ''kV'')]"

theorem analog_writes_nan_witness:
  "\<exists>p w'. type_branch (demo_env 0) nan_fd [] False (source_point nan_fd []) demo_dproc = (Inr p, w') \<and>
     pt_value (source_point nan_fd []) = Num (num 0) \<and> fld (point_update 0 nan_fd [] True None p) ''value'' = Num NaN"
proof -
  have v: "analog_value nan_fd [] = Inr NaN" by (simp add: analog_value_def nan_fd_def Let_def num_mul_NaN num_add_NaN)
  have ty: "is_type nan_fd ''analog''" "\<not> is_type nan_fd ''digital''" by (simp_all add: is_type_def nan_fd_def)
  have l: "\<not> has_limits nan_fd" by (simp add: has_limits_def nan_fd_def)
  obtain p w' where r: "type_branch (demo_env 0) nan_fd [] False (source_point nan_fd []) demo_dproc = (Inr p, w')"
    using ty by (simp add: type_branch_def analog_branch_def Let_def handler_simps v analog_string_def limit_check_def l bindE_def seqE_def)
  have "is_type nan_fd ''analog''" "fld nan_fd ''kconv2'' = Num (num 0)" "fld nan_fd ''zeroDeadband'' = Num (num 0)"
    by (simp_all add: is_type_def nan_fd_def)
  from analog_writes_nan[OF r this(1) _ this(2,3), of 0 True None] r show ?thesis by simp
qed

section \<open>Limits with hysteresis\<close>

text \<open>The zone of a value: above, below, normal, or in one of the hysteresis bands.\<close>

definition limit_zone :: "doc \<Rightarrow> jsnum \<Rightarrow> int option" where
  "limit_zone fd x =
     (let h = hysteresis_of fd; hi = fld fd ''hiLimit''; lo = fld fd ''loLimit'' in
      if js_lt (js_add hi (Num h)) (Num x) then Some 1
      else if js_lt (Num x) (Num (to_number lo - h)) then Some (- 1)
      else if js_lt (Num x) (Num (to_number hi - h)) \<and> js_lt (js_add lo (Num h)) (Num x) then Some 0 else None)"

lemma limit_range_zone:
  assumes "fld fd ''alarmRange'' = Num (num r)"
  shows "fst (limit_range fd x a) = Num (num (case limit_zone fd x of Some z \<Rightarrow> z | None \<Rightarrow> r))"
  using assms by (auto simp: limit_range_def limit_zone_def Let_def num_def)

text \<open>A point and its successive values; \<open>alarmRange\<close> is written back after each.\<close>

fun limit_run :: "int \<Rightarrow> doc \<Rightarrow> point \<Rightarrow> jsnum list \<Rightarrow> dproc \<Rightarrow> doc \<times> dproc" where
  "limit_run t fd p [] w = (fd, w)"
| "limit_run t fd p (x # xs) w = (case limit_check t fd x p w of
      (Inr p', w') \<Rightarrow> limit_run t (aupd ''alarmRange'' (dbl_val (pt_range p')) fd) p xs w'
    | (Inl _, w') \<Rightarrow> (fd, w'))"

fun ranges :: "int \<Rightarrow> int option list \<Rightarrow> int list" where
  "ranges r [] = []"
| "ranges r (z # zs) = (case z of None \<Rightarrow> r | Some s \<Rightarrow> s) # ranges (case z of None \<Rightarrow> r | Some s \<Rightarrow> s) zs"

fun changes :: "int \<Rightarrow> int list \<Rightarrow> nat" where
  "changes r [] = 0"
| "changes r (a # as) = (if a = r then 0 else 1) + changes a as"

lemma limit_zone_aupd [simp]: "limit_zone (aupd ''alarmRange'' v fd) = limit_zone fd"
  by (simp add: fun_eq_iff limit_zone_def hysteresis_of_def)

lemma has_limits_aupd [simp]: "has_limits (aupd ''alarmRange'' v fd) = has_limits fd"
  by (simp add: has_limits_def)

lemma limit_check_step:
  assumes "has_limits fd" "fld fd ''alarmRange'' = Num (num r)"
    and "z = (case limit_zone fd x of Some s \<Rightarrow> s | None \<Rightarrow> r)"
  shows "\<exists>p' d. limit_check t fd x p w = (Inr p', if z = r then w else insert_soe d w) \<and> pt_range p' = Num (num z)"
proof -
  have "fst (limit_range fd x (pt_alarmed p)) = Num (num z)" using limit_range_zone[OF assms(2)] assms(3) by simp
  then obtain a where "limit_range fd x (pt_alarmed p) = (Num (num z), a)" by (metis prod.collapse)
  with assms(1,2) show ?thesis
    by (auto simp: limit_check_def Let_def handler_simps has_limits_def loose_eq_def nullish_def to_prim_def)
qed


definition limit_fd :: doc where
  "limit_fd = [(''hiLimit'', Num (num 10)), (''loLimit'', Num (num 0)), (''hysteresis'', Num (num 1)), (''alarmRange'', Num (num 1)),
     (''unit'', Str ''kV''), (''value'', Num (num 12))]"


section \<open>The dead band of the historian\<close>

text \<open>Successive values of an analog point with the decision for each; the last value recorded is
  written back. A reader holds the last value recorded.\<close>

fun hist_run :: "doc \<Rightarrow> doc \<Rightarrow> jsnum list \<Rightarrow> (jsnum \<times> bool) list" where
  "hist_run fd sdu [] = []"
| "hist_run fd sdu (v # vs) = (v, into_historian fd sdu (Num v)) #
     hist_run (if into_historian fd sdu (Num v) then aupd ''historianLastValue'' (dbl_val (Num v)) fd else fd) sdu vs"

fun held :: "jsnum \<Rightarrow> (jsnum \<times> bool) list \<Rightarrow> jsnum list" where
  "held l [] = []"
| "held l ((v, stored) # ps) = (if stored then v # held v ps else l # held l ps)"

text \<open>C7. The dead band bounds the error of the record: reading the historian back by holding the
  last value recorded, every value the point had is either the one read or less than the dead
  band away from it, over any sequence of values; a drift in small steps is recorded as soon
  as it adds up to the dead band.\<close>

theorem historian_dead_band_error:
  assumes "has_key ''historianPeriod'' fd" "\<not> js_lt (fld fd ''historianPeriod'') (Num (num 0))"
    and "\<not> truthy (fld sdu ''isNotForHistorical'')" "fld fd ''historianLastValue'' = Num l" "fld fd ''historianDeadBand'' = Num d"
  shows "list_all2 (\<lambda>h p. h = fst p \<or> num_abs (fst p - h) < num_abs d) (held l (hist_run fd sdu vs)) (hist_run fd sdu vs)"
  using assms
proof (induction vs arbitrary: fd l)
  case Nil then show ?case by simp
next
  case (Cons v vs)
  show ?case
  proof (cases "into_historian fd sdu (Num v)")
    case True
    let ?fd = "aupd ''historianLastValue'' (Num v) fd"
    have "list_all2 (\<lambda>h p. h = fst p \<or> num_abs (fst p - h) < num_abs d) (held v (hist_run ?fd sdu vs)) (hist_run ?fd sdu vs)"
      using Cons by (intro Cons(1)) auto
    with True show ?thesis by (simp add: dbl_val_def)
  next
    case False
    then have "num_abs (v - l) < num_abs d"
      using Cons(2-6) by (auto simp: into_historian_def within_dead_band_def)
    with False Cons show ?thesis by simp
  qed
qed

definition hist_fd :: doc where
  "hist_fd = [(''type'', Str ''analog''), (''historianPeriod'', Num (num 0)), (''historianLastValue'', Num (num 10)),
     (''historianDeadBand'', Num (num 3))]"

theorem historian_dead_band_error_witness:
  "hist_run hist_fd [] [num 11, num 13, num 14] = [(num 11, False), (num 13, True), (num 14, False)] \<and>
   list_all2 (\<lambda>h p. h = fst p \<or> num_abs (fst p - h) < num_abs (num 3))
     (held (num 10) (hist_run hist_fd [] [num 11, num 13, num 14])) (hist_run hist_fd [] [num 11, num 13, num 14])"
proof
  have abs: "num_abs (num i) = num \<bar>i\<bar>" for i by (simp add: num_def)
  show "hist_run hist_fd [] [num 11, num 13, num 14] = [(num 11, False), (num 13, True), (num 14, False)]"
    by (simp add: into_historian_def within_dead_band_def hist_fd_def is_type_def num_diff_int abs dbl_val_def)
  show "list_all2 (\<lambda>h p. h = fst p \<or> num_abs (fst p - h) < num_abs (num 3))
     (held (num 10) (hist_run hist_fd [] [num 11, num 13, num 14])) (hist_run hist_fd [] [num 11, num 13, num 14])"
    by (rule historian_dead_band_error) (simp_all add: hist_fd_def)
qed

section \<open>Points with the alarm disabled\<close>

lemma queueRtUpdate_keeps [dproc_simps]:
  "p_soe (queueRtUpdate t u st w) = p_soe w" "digitalUpdatesCount (queueRtUpdate t u st w) = digitalUpdatesCount w"
  "mongoRtDataQueue (queueRtUpdate t u st w) = mongoRtDataQueue w @ [\<lparr>q_upd = u, q_enqueuedAt = Some (num t), q_sourceTime = st\<rparr>]"
  by (simp_all add: queueRtUpdate_def scheduleRtDataFlush_def count_def on_metrics_def q_enqueue_def)

lemma queue_hist_keeps [dproc_simps]:
  "p_soe (snd (queue_hist fd sdu p w)) = p_soe w" "digitalUpdatesCount (snd (queue_hist fd sdu p w)) = digitalUpdatesCount w"
  "mongoRtDataQueue (snd (queue_hist fd sdu p w)) = mongoRtDataQueue w"
  by (simp_all add: queue_hist_def handler_simps count_def dproc_simps split: sum.splits)

lemma queue_sql_rt_keeps [dproc_simps]:
  "p_soe (snd (queue_sql_rt t a b d w)) = p_soe w" "digitalUpdatesCount (snd (queue_sql_rt t a b d w)) = digitalUpdatesCount w"
  "mongoRtDataQueue (snd (queue_sql_rt t a b d w)) = mongoRtDataQueue w"
  by (simp_all add: queue_sql_rt_def handler_simps split: sum.splits)

lemma seqE_keeps: "g (snd (m w)) = g w \<Longrightarrow> (\<And>v. g (snd (m' v)) = g v) \<Longrightarrow> g (snd (seqE m m' w)) = g w"
  by (auto simp: seqE_def bindE_def split: prod.split sum.split)

lemma disabled_type_branch:
  assumes "truthy (fld fd ''alarmDisabled'')"
  shows "snd (type_branch e fd sdu soe p w) = w"
  using assms by (auto simp: type_branch_def analog_branch_def limit_check_def has_limits_def analog_event_def Let_def handler_simps
      bindE_def seqE_def split: sum.splits prod.splits)

definition silent :: "doc \<Rightarrow> dproc \<Rightarrow> dproc \<Rightarrow> bool" where
  "silent fd w w' \<longleftrightarrow> p_soe w' = p_soe w \<and> digitalUpdatesCount w' = digitalUpdatesCount w \<and>
    (mongoRtDataQueue w' = mongoRtDataQueue w \<or>
     (\<exists>u. mongoRtDataQueue w' = mongoRtDataQueue w @ [u] \<and> fld (q_upd u) ''_id'' = fld fd ''_id'' \<and> fld (q_upd u) ''alarmed'' = Bool False))"

lemma point_update_fields:
  "fld (point_update t fd sdu hist alarmT p) ''_id'' = fld fd ''_id''"
  "fld fd ''alarmDisabled'' = Bool True \<Longrightarrow> fld (point_update t fd sdu hist alarmT p) ''alarmed'' = Bool False"
  by (simp_all add: point_update_def Let_def)

lemma silent_apply:
  assumes "fld fd ''alarmDisabled'' = Bool True"
  shows "silent fd w (snd (apply_update e fd sdu soe t p w))"
proof -
  define hist where "hist = into_historian fd sdu (pt_value p)"
  define v where "v = (if protection_event_off fd sdu p then w
     else queueRtUpdate (e_now e) (point_update (e_now e) fd sdu hist (alarm_time (e_now e) fd soe p) p) (Some t) w)"
  have v: "silent fd w v" by (auto simp: silent_def v_def dproc_simps point_update_fields assms)
  have b: "beep_updates (e_now e) fd soe p st w = w" for st using assms by (simp add: beep_updates_def)
  define m where "m = seqE (if hist then queue_hist fd sdu p else returnE ()) (queue_sql_rt (e_now e) [] [] (new_document (e_now e) fd p))"
  have "g (snd (m v)) = g v" if "\<And>x. g (snd (queue_hist fd sdu p x)) = g x" "\<And>a b d x. g (snd (queue_sql_rt (e_now e) a b d x)) = g x" for g :: "dproc \<Rightarrow> 'z"
    unfolding m_def by (rule seqE_keeps) (simp_all add: that returnE_def)
  note keep = this
  have "silent fd w (snd (m v))" using v keep[of p_soe] keep[of digitalUpdatesCount] keep[of mongoRtDataQueue]
    by (simp add: silent_def dproc_simps)
  moreover have "snd (apply_update e fd sdu soe t p w) = snd (m v)"
    by (simp add: apply_update_def Let_def handler_simps b m_def v_def hist_def)
  ultimately show ?thesis by simp
qed

text \<open>A point with its alarm disabled is silent: whatever a driver sends, no event is inserted,
  no beep and no count of digital changes is queued, and the update queued, when there is one,
  is of that point and not alarmed.\<close>

theorem disabled_alarm_is_silent:
  assumes "fld fd ''alarmDisabled'' = Bool True" "has_key ''sourceDataUpdate'' fd"
  shows "silent fd w (snd (process_update e fd sdu w))"
proof -
  have dis: "truthy (fld fd ''alarmDisabled'')" using assms(1) by simp
  define f where "f = (\<lambda>t w. add_latency (num (e_now e) - t) (observe_ms (e_log2 e) ''sourceToRecv'' (num (e_now e) - t) w))"
  have f: "p_soe (f t w) = p_soe w" "digitalUpdatesCount (f t w) = digitalUpdatesCount w" "mongoRtDataQueue (f t w) = mongoRtDataQueue w" for t
    by (simp_all add: f_def add_latency_def Let_def observe_ms_def on_metrics_def)
  have s0: "silent fd w w" and sf: "silent fd w (f t w)" for t by (simp_all add: silent_def f)
  have sc: "silent fd (f t w) v \<Longrightarrow> silent fd w v" for t v by (simp add: silent_def f)
  have dig: "digital_soe t fd sdu soe p = (\<lambda>v. v)" for t soe p using dis by (simp add: digital_soe_def fun_eq_iff)
  show ?thesis
  proof (cases "get_time (fld sdu ''timeTag'')")
    case (Inl x) then show ?thesis by (simp add: process_update_def assms(2) handler_simps s0)
  next
    case t: (Inr t)
    show ?thesis
    proof (cases "is_soe (e_tz e) fd sdu")
      case (Inl x) with t show ?thesis by (simp add: process_update_def assms(2) handler_simps sf[unfolded f_def])
    next
      case soe: (Inr soe)
      obtain r where tb: "type_branch e fd sdu soe (source_point fd sdu) (f t w) = (r, f t w)"
        using disabled_type_branch[OF dis, of e sdu soe "source_point fd sdu" "f t w"] by (metis prod.collapse)
      have eq: "process_update e fd sdu w = (case r of Inl x \<Rightarrow> (Inl x, f t w) | Inr p \<Rightarrow>
          (case must_update fd sdu soe p of Inl x \<Rightarrow> (Inl x, f t w) | Inr upd \<Rightarrow>
             seqE (if upd then apply_update e fd sdu soe t p else modifyE (count ''notChanged'' 1))
               (modifyE (\<lambda>v. v)) (f t w)))"
        by (simp add: process_update_def assms(2) handler_simps t soe dig bindE_def[of "type_branch e fd sdu soe (source_point fd sdu)"]
            tb[unfolded f_def] f_def split: sum.splits)
      have ap: "snd (seqE (apply_update e fd sdu soe t p) (modifyE (\<lambda>v. v)) x) = snd (apply_update e fd sdu soe t p x)" for p x
        by (simp add: seqE_def bindE_def modifyE_def split: prod.split sum.split)
      have nc: "silent fd w (snd (seqE (modifyE (count ''notChanged'' 1)) (modifyE (\<lambda>v. v)) (f t w)))"
        by (simp add: handler_simps count_def silent_def dproc_simps f)
      show ?thesis unfolding eq using sf nc sc[OF silent_apply[OF assms(1)]] by (simp add: ap split: sum.splits)
    qed
  qed
qed

definition silent_fd :: doc where
  "silent_fd = [(''_id'', Num (num 7)), (''tag'', Str ''KAW2''), (''type'', Str ''digital''), (''value'', Num (num 0)), (''alarmDisabled'', Bool True),
     (''alarmed'', Bool True), (''sourceDataUpdate'', Null)]"

theorem disabled_alarm_is_silent_witness:
  "p_soe (snd (process_update (demo_env 5) silent_fd [(''timeTag'', Date (num 4)), (''valueAtSource'', Num (num 1))] demo_dproc)) = []"
proof -
  have "fld silent_fd ''alarmDisabled'' = Bool True" "has_key ''sourceDataUpdate'' silent_fd" by (simp_all add: silent_fd_def)
  from disabled_alarm_is_silent[OF this, of demo_dproc "demo_env 5" "[(''timeTag'', Date (num 4)), (''valueAtSource'', Num (num 1))]"]
  show ?thesis by (simp add: silent_def demo_dproc_def)
qed

end
