(* ===== verification/Auth.thy ===== *)
theory Auth
  imports Handler JSText
begin

text \<open>
  Authentication and authorisation of \<open>server_realtime_auth\<close>: the token middleware
  (\<open>app/middlewares/authJwt.js\<close>), the roles and users (\<open>app/models\<close>) and the handlers of
  \<open>app/controllers/auth.controller.js\<close> that sign users in, merge the rights of their roles
  and change users, roles and passwords. Token signing, password hashing and the document
  store are fields of the record \<open>env\<close>.
\<close>

section \<open>Roles, users, tokens\<close>

text \<open>A document read through the Role schema has every property, with its default when
  missing, so the tests \<open>'p' in role\<close> of the sign-in code hold.\<close>

record rights =
  isAdmin :: bool
  changePassword :: bool
  sendCommands :: bool
  enterAnnotations :: bool
  enterNotes :: bool
  enterManuals :: bool
  enterLimits :: bool
  substituteValues :: bool
  ackEvents :: bool
  ackAlarms :: bool
  disableAlarms :: bool
  group1List :: "string list"
  group1CommandList :: "string list"
  displayList :: "string list"
  maxSessionDays :: jsnum

record role = rights +
  role_id :: string
  role_name :: string

text \<open>The defaults of the Role schema.\<close>

definition role_default :: "string \<Rightarrow> role" where
  "role_default i = \<lparr>isAdmin = False, changePassword = False, sendCommands = False, enterAnnotations = False,
     enterNotes = False, enterManuals = False, enterLimits = False, substituteValues = False,
     ackEvents = False, ackAlarms = False, disableAlarms = False, group1List = [], group1CommandList = [],
     displayList = [], maxSessionDays = num 3, role_id = i, role_name = ''new role''\<rparr>"

record user =
  uid :: string
  username :: string
  email :: string
  password :: string
  roles :: "string list"
  isLDAPUser :: bool
  ldapDN :: string
  lastLDAPSync :: "int option"

definition user_default :: "string \<Rightarrow> user" where
  "user_default i = \<lparr>uid = i, username = ''new user'', email = [], password = [], roles = [],
     isLDAPUser = False, ldapDN = [], lastLDAPSync = None\<rparr>"

record claims =
  c_id :: string
  c_username :: string
  c_rights :: rights

record action =
  a_username :: jsval
  a_properties :: doc
  a_action :: string
  a_timeTag :: int

record 's world =
  store :: 's
  queue :: "action list"

text \<open>
  What the handlers call: \<open>jsonwebtoken\<close> (a token that does not verify gives the printed error),
  \<open>bcryptjs\<close>, and the Mongoose models. A call that rejects is an \<open>Inl\<close>.
\<close>

record 's env =
  now :: int
  jwt_verify :: "jsval \<Rightarrow> string + claims"
  jwt_sign :: "claims \<Rightarrow> jsnum \<Rightarrow> js_error + string"
  bcrypt_hash :: "jsval \<Rightarrow> js_error + string"
  bcrypt_compare :: "jsval \<Rightarrow> string \<Rightarrow> js_error + bool"
  user_byName :: "jsval \<Rightarrow> 's \<Rightarrow> js_error + user option"
  user_byId :: "string \<Rightarrow> 's \<Rightarrow> js_error + user option"
  user_withRole :: "jsval \<Rightarrow> 's \<Rightarrow> js_error + user list"
  user_new :: "doc \<Rightarrow> 's \<Rightarrow> js_error + user"
  user_save :: "user \<Rightarrow> 's \<Rightarrow> js_error + 's"
  user_update :: "jsval \<Rightarrow> doc \<Rightarrow> 's \<Rightarrow> js_error + 's"
  user_delete :: "jsval \<Rightarrow> 's \<Rightarrow> js_error + 's"
  role_byIds :: "string list \<Rightarrow> 's \<Rightarrow> js_error + role list"
  role_populate :: "string list \<Rightarrow> 's \<Rightarrow> js_error + role list"
  role_byName :: "jsval \<Rightarrow> 's \<Rightarrow> js_error + role option"
  role_byNames :: "jsval \<Rightarrow> 's \<Rightarrow> js_error + role list"
  role_new :: "doc \<Rightarrow> 's \<Rightarrow> js_error + role"
  role_save :: "role \<Rightarrow> 's \<Rightarrow> js_error + 's"
  role_update :: "jsval \<Rightarrow> doc \<Rightarrow> 's \<Rightarrow> js_error + 's"
  role_delete :: "jsval \<Rightarrow> 's \<Rightarrow> js_error + 's"

section \<open>Tokens\<close>

definition request_token :: "request \<Rightarrow> jsval" where
  "request_token req = js_or (fld (headers req) ''x-access-token'') (fld (cookies req) ''x-access-token'')"

definition checkToken :: "'s env \<Rightarrow> request \<Rightarrow> claims option" where
  "checkToken e req = (if truthy (request_token req)
     then (case jwt_verify e (request_token req) of Inl _ \<Rightarrow> None | Inr decoded \<Rightarrow> Some decoded) else None)"

datatype verdict = Next string | OpcReply jsval "string list" int | PlainReply string

text \<open>The handle of an OPC request body, read with optional chaining.\<close>

definition opc_handle :: "request \<Rightarrow> jsval" where
  "opc_handle req = (if rmethod req = ''POST''
     then opt_get (opt_get (fld (rbody req) ''Body'') ''RequestHeader'') ''RequestHandle'' else Null)"

definition verifyToken :: "'s env \<Rightarrow> request \<Rightarrow> verdict" where
  "verifyToken e req =
     (let h = opc_handle req; token = request_token req in
      if \<not> truthy token then
        (if truthy h then OpcReply h [''BadIdentityTokenInvalid'', ''Access denied (absent access token)!''] 0x80200000
         else PlainReply ''Access not allowed. No token provided'')
      else (case jwt_verify e token of
          Inl err \<Rightarrow> (if truthy h
             then OpcReply h [''BadIdentityTokenRejected'', ''Access denied (access token rejected)!''] 0x80210000
             else PlainReply (''Access not allowed. '' @ err))
        | Inr c \<Rightarrow> Next (c_id c)))"

datatype admin_verdict = NoReply | AdminNext | Denied nat jsval

definition authJwt_isAdmin :: "'s env \<Rightarrow> request \<Rightarrow> 's \<Rightarrow> admin_verdict" where
  "authJwt_isAdmin e req s = (case checkToken e req of
      None \<Rightarrow> NoReply
    | Some tok \<Rightarrow> (case user_byName e (Str (c_username tok)) s of
        Inl err \<Rightarrow> Denied 500 (err_val err)
      | Inr None \<Rightarrow> Denied 403 (Str ''Require isAdmin rights!'')
      | Inr (Some u) \<Rightarrow> (case role_byIds e (roles u) s of
          Inl err \<Rightarrow> Denied 500 (err_val err)
        | Inr rs \<Rightarrow> if list_ex isAdmin rs then AdminNext else Denied 403 (Str ''Require isAdmin rights!''))))"

text \<open>The roles of the user of the token; \<open>None\<close> where the code returns false or catches.\<close>

definition token_roles :: "'s env \<Rightarrow> request \<Rightarrow> 's \<Rightarrow> role list option" where
  "token_roles e req s = (case checkToken e req of
      None \<Rightarrow> None
    | Some tok \<Rightarrow> (case user_byId e (c_id tok) s of
        Inr (Some u) \<Rightarrow> (case role_byIds e (roles u) s of
            Inr rs \<Rightarrow> if rs = [] then None else Some rs
          | Inl _ \<Rightarrow> None)
      | _ \<Rightarrow> None))"

definition canSendCommands :: "'s env \<Rightarrow> request \<Rightarrow> 's \<Rightarrow> bool" where
  "canSendCommands e req s = (case token_roles e req s of None \<Rightarrow> False | Some rs \<Rightarrow> list_ex sendCommands rs)"

text \<open>The loop of \<open>canSendCommandTo\<close>: a role that names the location returns at once, a role
  with a list and without the location withdraws the permission.\<close>

fun command_loop :: "string \<Rightarrow> bool \<Rightarrow> role list \<Rightarrow> bool" where
  "command_loop g canCmd [] = canCmd"
| "command_loop g canCmd (r # rs) =
     (let canCmd' = (if length (group1CommandList r) > 0 then False else canCmd)
      in if g \<in> set (group1CommandList r) then True else command_loop g canCmd' rs)"

definition canSendCommandTo :: "'s env \<Rightarrow> request \<Rightarrow> string \<Rightarrow> 's \<Rightarrow> bool" where
  "canSendCommandTo e req g s = (case token_roles e req s of None \<Rightarrow> False | Some rs \<Rightarrow> command_loop g True rs)"

section \<open>User actions\<close>

definition registerUserAction :: "'s env \<Rightarrow> request \<Rightarrow> string \<Rightarrow> ('s, 'z) world_scheme \<Rightarrow> ('s, 'z) world_scheme" where
  "registerUserAction e req name w = w\<lparr>queue := queue w @ [\<lparr>
     a_username = (case checkToken e req of Some ck \<Rightarrow> Str (c_username ck) | None \<Rightarrow> fld (rbody req) ''username''),
     a_properties = adel ''password'' (rbody req), a_action = name, a_timeTag = now e\<rparr>]\<rparr>"

text \<open>Reads and writes of the store inside a world.\<close>

definition readS :: "('s \<Rightarrow> js_error + 'a) \<Rightarrow> ('s, 'z) world_scheme \<Rightarrow> (js_error + 'a) \<times> ('s, 'z) world_scheme" where
  "readS f = askE (\<lambda>w. f (store w))"

definition writeS :: "('s \<Rightarrow> js_error + 's) \<Rightarrow> ('s, 'z) world_scheme \<Rightarrow> (js_error + unit) \<times> ('s, 'z) world_scheme" where
  "writeS f = putE (\<lambda>w. map_sum id (\<lambda>s. w\<lparr>store := s\<rparr>) (f (store w)))"

lemma readS_simps [handler_simps]:
  "bindE (readS f) k w = (case f (store w) of Inl e \<Rightarrow> (Inl e, w) | Inr x \<Rightarrow> k x w)"
  "seqE (writeS g) m w = (case g (store w) of Inl e \<Rightarrow> (Inl e, w) | Inr s \<Rightarrow> m (w\<lparr>store := s\<rparr>))"
  by (simp_all add: readS_def writeS_def handler_simps split: sum.splits)

text \<open>\<open>catch (err) { res.status(200).send({ error: err }) }\<close>.\<close>

definition catch200 :: "js_error \<Rightarrow> ('s, 'z) world_scheme \<Rightarrow> (js_error + reply) \<times> ('s, 'z) world_scheme" where
  "catch200 err = returnE (send_error (err_val err))"

section \<open>Command permissions\<close>

lemma command_loop_eq:
  "command_loop g c rs \<longleftrightarrow> (\<exists>r \<in> set rs. g \<in> set (group1CommandList r)) \<or> (c \<and> (\<forall>r \<in> set rs. group1CommandList r = []))"
  by (induction rs arbitrary: c) (auto simp: Let_def)

lemma token_roles_Some:
  "token_roles e req s = Some rs \<longleftrightarrow> rs \<noteq> [] \<and> (\<exists>tok u. checkToken e req = Some tok \<and>
     user_byId e (c_id tok) s = Inr (Some u) \<and> role_byIds e (roles u) s = Inr rs)"
  by (auto simp: token_roles_def split: option.splits sum.splits if_splits)

text \<open>C9. Commands are denied by default: \<open>canSendCommandTo\<close> grants exactly when the token
  verifies, its user is found with at least one role, and either one of the roles names the
  location or no role restricts locations. A rejected token, an absent user, a user without
  roles and any database error deny.\<close>

theorem command_permission_exact:
  "canSendCommandTo e req g s \<longleftrightarrow>
     (\<exists>tok u rs. checkToken e req = Some tok \<and> user_byId e (c_id tok) s = Inr (Some u) \<and>
        role_byIds e (roles u) s = Inr rs \<and> rs \<noteq> [] \<and>
        (list_ex (\<lambda>r. g \<in> set (group1CommandList r)) rs \<or> list_all (\<lambda>r. group1CommandList r = []) rs))"
  by (auto simp: canSendCommandTo_def token_roles_def command_loop_eq list_ex_iff list_all_iff
      split: option.splits sum.splits)

text \<open>The right to send commands at all, likewise.\<close>

lemma canSendCommands_iff:
  "canSendCommands e req s \<longleftrightarrow> (\<exists>tok u rs. checkToken e req = Some tok \<and>
     user_byId e (c_id tok) s = Inr (Some u) \<and> role_byIds e (roles u) s = Inr rs \<and> (\<exists>r \<in> set rs. sendCommands r))"
  by (auto simp: canSendCommands_def token_roles_def list_ex_iff split: option.splits sum.splits)

section \<open>A store in memory\<close>

text \<open>An instance of \<open>env\<close> on which the theorems are applied: collections as lists, the hash
  of a password its text with a prefix, tokens numbered by the user they were issued to.\<close>

record mem =
  m_users :: "user list"
  m_roles :: "role list"

definition is_str :: "string \<Rightarrow> jsval \<Rightarrow> bool" where
  "is_str s v = (v = Str s)"

definition user_set :: "doc \<Rightarrow> user \<Rightarrow> user" where
  "user_set d u = u\<lparr>username := (if has_key ''username'' d then to_string (fld d ''username'') else username u),
     email := (if has_key ''email'' d then to_string (fld d ''email'') else email u),
     password := (if has_key ''password'' d then to_string (fld d ''password'') else password u),
     isLDAPUser := (if has_key ''isLDAPUser'' d then truthy (fld d ''isLDAPUser'') else isLDAPUser u)\<rparr>"

definition mem_admin_role :: role where
  "mem_admin_role = (role_default ''r1'')\<lparr>role_name := ''admin'', isAdmin := True, changePassword := True, sendCommands := True\<rparr>"

definition mem_user_role :: role where
  "mem_user_role = (role_default ''r2'')\<lparr>role_name := ''user'', changePassword := True, group1List := [''KAW2''],
     group1CommandList := [''KAW2'']\<rparr>"

definition mem_store :: mem where
  "mem_store = \<lparr>m_users = [(user_default ''u1'')\<lparr>username := ''admin'', password := ''#root'', roles := [''r1'']\<rparr>,
     (user_default ''u2'')\<lparr>username := ''ana'', password := ''#pw'', roles := [''r2'']\<rparr>], m_roles = [mem_admin_role, mem_user_role]\<rparr>"

definition mem_world :: "mem world" where
  "mem_world = \<lparr>store = mem_store, queue = []\<rparr>"

definition mem_claims :: "user \<Rightarrow> role list \<Rightarrow> claims" where
  "mem_claims u rs = \<lparr>c_id = uid u, c_username = username u, c_rights = rights.truncate (hd rs)\<rparr>"

definition mem_env :: "int \<Rightarrow> mem env" where
  "mem_env t = \<lparr>now = t,
     jwt_verify = (\<lambda>v. if v = Str ''t1'' then Inr (mem_claims (m_users mem_store ! 0) [mem_admin_role])
       else if v = Str ''t2'' then Inr (mem_claims (m_users mem_store ! 1) [mem_user_role]) else Inl ''jwt malformed''),
     jwt_sign = (\<lambda>c x. Inr (''t'' @ drop 1 (c_id c))),
     bcrypt_hash = (\<lambda>v. case v of Str p \<Rightarrow> Inr (CHR ''#'' # p) | _ \<Rightarrow> Inl (Thrown ''Illegal arguments'')),
     bcrypt_compare = (\<lambda>v h. case v of Str p \<Rightarrow> Inr (CHR ''#'' # p = h) | _ \<Rightarrow> Inl (Thrown ''Illegal arguments'')),
     user_byName = (\<lambda>n s. Inr (List.find (\<lambda>u. is_str (username u) n) (m_users s))),
     user_byId = (\<lambda>i s. Inr (List.find (\<lambda>u. uid u = i) (m_users s))),
     user_withRole = (\<lambda>r s. Inr (filter (\<lambda>u. list_ex (\<lambda>i. is_str i r) (roles u)) (m_users s))),
     user_new = (\<lambda>d s. Inr (user_set d (user_default (''u'' @ nat_digits (length (m_users s) + 1))))),
     user_save = (\<lambda>u s. Inr (if list_ex (\<lambda>x. uid x = uid u) (m_users s)
        then s\<lparr>m_users := map (\<lambda>x. if uid x = uid u then u else x) (m_users s)\<rparr> else s\<lparr>m_users := m_users s @ [u]\<rparr>)),
     user_update = (\<lambda>i d s. Inr (s\<lparr>m_users := map (\<lambda>u. if is_str (uid u) i then user_set d u else u) (m_users s)\<rparr>)),
     user_delete = (\<lambda>i s. Inr (s\<lparr>m_users := filter (\<lambda>u. \<not> is_str (uid u) i) (m_users s)\<rparr>)),
     role_byIds = (\<lambda>is s. Inr (filter (\<lambda>r. role_id r \<in> set is) (m_roles s))),
     role_populate = (\<lambda>is s. Inr (concat (map (\<lambda>i. filter (\<lambda>r. role_id r = i) (m_roles s)) is))),
     role_byName = (\<lambda>n s. Inr (List.find (\<lambda>r. is_str (role_name r) n) (m_roles s))),
     role_byNames = (\<lambda>ns s. Inr (filter (\<lambda>r. case ns of Arr vs \<Rightarrow> Str (role_name r) \<in> set vs | _ \<Rightarrow> False) (m_roles s))),
     role_new = (\<lambda>d s. Inr (role_default (''r'' @ nat_digits (length (m_roles s) + 1)))),
     role_save = (\<lambda>r s. Inr (s\<lparr>m_roles := m_roles s @ [r]\<rparr>)),
     role_update = (\<lambda>i d s. Inr s),
     role_delete = (\<lambda>i s. Inr (s\<lparr>m_roles := filter (\<lambda>r. \<not> is_str (role_id r) i) (m_roles s)\<rparr>))\<rparr>"

definition mem_request :: "string \<Rightarrow> doc \<Rightarrow> request" where
  "mem_request tok b = \<lparr>rmethod = ''POST'', headers = [(''x-access-token'', Str tok)], cookies = [], rbody = b\<rparr>"

lemma mem_env_simps [simp]:
  "now (mem_env t) = t" "jwt_verify (mem_env t) (Str ''t1'') = Inr (mem_claims (m_users mem_store ! 0) [mem_admin_role])"
  "jwt_verify (mem_env t) (Str ''t2'') = Inr (mem_claims (m_users mem_store ! 1) [mem_user_role])"
  "bcrypt_hash (mem_env t) (Str p) = Inr (CHR ''#'' # p)"
  "bcrypt_compare (mem_env t) (Str p) h = Inr (CHR ''#'' # p = h)"
  "user_byName (mem_env t) n s = Inr (List.find (\<lambda>u. is_str (username u) n) (m_users s))"
  "user_byId (mem_env t) i s = Inr (List.find (\<lambda>u. uid u = i) (m_users s))"
  "user_save (mem_env t) u s = Inr (if list_ex (\<lambda>x. uid x = uid u) (m_users s)
        then s\<lparr>m_users := map (\<lambda>x. if uid x = uid u then u else x) (m_users s)\<rparr> else s\<lparr>m_users := m_users s @ [u]\<rparr>)"
  "role_byIds (mem_env t) is s = Inr (filter (\<lambda>r. role_id r \<in> set is) (m_roles s))"
  "role_populate (mem_env t) is s = Inr (concat (map (\<lambda>i. filter (\<lambda>r. role_id r = i) (m_roles s)) is))"
  "role_byName (mem_env t) n s = Inr (List.find (\<lambda>r. is_str (role_name r) n) (m_roles s))"
  "jwt_sign (mem_env t) c x = Inr (''t'' @ drop 1 (c_id c))"
  by (simp_all add: mem_env_def)

lemmas mem_defs = mem_world_def mem_store_def mem_admin_role_def mem_user_role_def mem_claims_def
  mem_request_def role_default_def user_default_def is_str_def user_set_def rights.truncate_def

end
