(* ===== verification/Ldap.thy ===== *)
theory Ldap
  imports Auth
begin

text \<open>
  LDAP sign-in (\<open>authenticateWithLDAP\<close> of \<open>auth.controller.js\<close>). The directory is the client
  library \<open>ldapts\<close>: its calls \<open>bind\<close> and \<open>search\<close> and its escaping functions are fields of
  the record \<open>ldap_client\<close>; what a search returns may depend on the binds made before, which
  the model records.
\<close>

record ldap_config =
  l_enabled :: bool
  l_bindDN :: string
  l_bindCredentials :: string
  l_searchBase :: string
  l_searchFilter :: string
  l_attr_username :: string
  l_attr_email :: string
  l_attr_displayName :: string
  l_groupSearchBase :: string
  l_groupMapping :: doc
  l_defaultRole :: jsval

record bind_try =
  b_dn :: string
  b_password :: string
  b_ok :: bool

record ldap_client =
  l_bind :: "string \<Rightarrow> string \<Rightarrow> bool"
  l_search :: "bind_try list \<Rightarrow> string \<Rightarrow> string \<Rightarrow> js_error + doc list"
  l_filterEscape :: "string \<Rightarrow> string"
  l_rdn :: "string \<Rightarrow> string \<Rightarrow> string"
  l_cast :: "jsval \<Rightarrow> string"

section \<open>Binding and searching\<close>

definition ldap_bind :: "ldap_client \<Rightarrow> string \<Rightarrow> string \<Rightarrow> bind_try list \<Rightarrow> bool \<times> bind_try list" where
  "ldap_bind c dn pw bs = (l_bind c dn pw, bs @ [\<lparr>b_dn = dn, b_password = pw, b_ok = l_bind c dn pw\<rparr>])"

definition userDNFor :: "ldap_client \<Rightarrow> ldap_config \<Rightarrow> string \<Rightarrow> string \<Rightarrow> string" where
  "userDNFor c cfg attribute name = l_rdn c attribute name @ '','' @ l_searchBase cfg"

definition user_filter :: "ldap_client \<Rightarrow> ldap_config \<Rightarrow> string \<Rightarrow> string" where
  "user_filter c cfg name = replace_all ''{{username}}'' (l_filterEscape c name) (l_searchFilter cfg)"

datatype 'a lookup = Rejected | Failed | Found 'a

text \<open>The search for the user entry: no entry or several reject the sign-in.\<close>

definition ldap_search_user :: "ldap_client \<Rightarrow> ldap_config \<Rightarrow> string \<Rightarrow> bind_try list \<Rightarrow> doc lookup" where
  "ldap_search_user c cfg name bs = (case l_search c bs (l_searchBase cfg) (user_filter c cfg name) of
      Inl _ \<Rightarrow> Failed | Inr [] \<Rightarrow> Rejected | Inr [x] \<Rightarrow> Found x | Inr (_ # _ # _) \<Rightarrow> Rejected)"

definition entry_dn :: "doc \<Rightarrow> string" where
  "entry_dn d = to_string (fld d ''dn'')"

text \<open>The search with the configured credentials; any error leaves no entry.\<close>

definition ldap_admin_search :: "ldap_client \<Rightarrow> ldap_config \<Rightarrow> string \<Rightarrow> doc lookup \<times> bind_try list" where
  "ldap_admin_search c cfg name =
     (let (ok, bs) = ldap_bind c (l_bindDN cfg) (l_bindCredentials cfg) []
      in if ok then (ldap_search_user c cfg name bs, bs) else (Failed, bs))"

text \<open>The bind that checks the password: with the DN found, else with the DN built from the
  display name.\<close>

definition ldap_check_password ::
  "ldap_client \<Rightarrow> ldap_config \<Rightarrow> string \<Rightarrow> string \<Rightarrow> string \<Rightarrow> bind_try list \<Rightarrow> (js_error + string) \<times> bind_try list" where
  "ldap_check_password c cfg dn name pw bs =
     (let (ok, bs1) = ldap_bind c dn pw bs in
      if ok then (Inr dn, bs1)
      else (let dn2 = userDNFor c cfg (l_attr_displayName cfg) name; (ok2, bs2) = ldap_bind c dn2 pw bs1 in
            if ok2 then (Inr dn2, bs2) else (Inl (Thrown ''bind''), bs2)))"

text \<open>Up to the entry of the authenticated user and its DN.\<close>

definition ldap_authenticate ::
  "ldap_client \<Rightarrow> ldap_config \<Rightarrow> string \<Rightarrow> string \<Rightarrow> (doc \<times> string) option \<times> bind_try list" where
  "ldap_authenticate c cfg name pw =
     (let (found, bs) = ldap_admin_search c cfg name in
      case found of
        Rejected \<Rightarrow> (None, bs)
      | _ \<Rightarrow>
        (let dn0 = (case found of Found x \<Rightarrow> entry_dn x | _ \<Rightarrow> []);
             dn = (if dn0 = [] then userDNFor c cfg (l_attr_username cfg) name else dn0);
             (r, bs') = ldap_check_password c cfg dn name pw bs in
         case r of
           Inl _ \<Rightarrow> (None, bs')
         | Inr bound \<Rightarrow> (case found of
             Found x \<Rightarrow> (Some (x, bound), bs')
           | _ \<Rightarrow> (case ldap_search_user c cfg name bs' of
               Found x \<Rightarrow> (Some (x, entry_dn x), bs') | _ \<Rightarrow> (None, bs')))))"

section \<open>The local user\<close>

text \<open>The e-mail attribute: missing is empty, an array gives its first value.\<close>

definition ldap_email :: "ldap_config \<Rightarrow> doc \<Rightarrow> js_error + jsval" where
  "ldap_email cfg entry =
     (let v = (if has_key (l_attr_email cfg) entry then fld entry (l_attr_email cfg) else Str []) in
      case v of Undef \<Rightarrow> Inl TypeError | Null \<Rightarrow> Inl TypeError
      | Arr xs \<Rightarrow> Inr (case xs of [] \<Rightarrow> Str [] | x # _ \<Rightarrow> x) | _ \<Rightarrow> Inr v)"

text \<open>Roles of the mapped groups; the group names are lower-cased before the look-up. A role
  pushed before an error stays on the user.\<close>

fun ldap_add_roles :: "'s env \<Rightarrow> ldap_config \<Rightarrow> 's \<Rightarrow> jsval list \<Rightarrow> user \<Rightarrow> js_error option \<times> user" where
  "ldap_add_roles e cfg s [] u = (None, u)"
| "ldap_add_roles e cfg s (g # gs) u = (case g of
      Str name \<Rightarrow>
        (let roleName = fld (l_groupMapping cfg) (to_lower name) in
         if truthy roleName then (case role_byName e roleName s of
             Inl err \<Rightarrow> (Some err, u)
           | Inr None \<Rightarrow> ldap_add_roles e cfg s gs u
           | Inr (Some r) \<Rightarrow> ldap_add_roles e cfg s gs
               (if role_id r \<in> set (roles u) then u else u\<lparr>roles := roles u @ [role_id r]\<rparr>))
         else ldap_add_roles e cfg s gs u)
    | _ \<Rightarrow> (Some TypeError, u))"

definition memberOf_of :: "doc \<Rightarrow> jsval" where
  "memberOf_of entry = (case fld entry ''memberOf'' of Str g \<Rightarrow> Arr [Str g] | v \<Rightarrow> v)"

definition group_filter :: "ldap_client \<Rightarrow> string \<Rightarrow> string" where
  "group_filter c dn = ''(&(|(objectClass=groupOfUniqueNames)(objectClass=groupOfNames)(objectClass=group))(|(uniqueMember=''
     @ l_filterEscape c dn @ '')(member='' @ l_filterEscape c dn @ '')))''"

definition ldap_roles ::
  "'s env \<Rightarrow> ldap_client \<Rightarrow> ldap_config \<Rightarrow> bind_try list \<Rightarrow> 's \<Rightarrow> doc \<Rightarrow> string \<Rightarrow> user \<Rightarrow> js_error + user" where
  "ldap_roles e c cfg bs s entry dn u =
     (let m = memberOf_of entry in
      if truthy m then (case m of
          Arr gs \<Rightarrow> (case ldap_add_roles e cfg s gs u of (None, u') \<Rightarrow> Inr u' | (Some err, _) \<Rightarrow> Inl err)
        | _ \<Rightarrow> Inl TypeError)
      else (case l_search c bs (l_groupSearchBase cfg) (group_filter c dn) of
          Inl _ \<Rightarrow> Inr u
        | Inr es \<Rightarrow> Inr (snd (ldap_add_roles e cfg s (map (\<lambda>x. fld x ''dn'') es) u))))"

text \<open>The user found or created, its default role, the mapped roles, and the save.\<close>

definition ldap_user ::
  "'s env \<Rightarrow> ldap_client \<Rightarrow> ldap_config \<Rightarrow> bind_try list \<Rightarrow> doc \<Rightarrow> string \<Rightarrow> 's world \<Rightarrow> (js_error + user) \<times> 's world" where
  "ldap_user e c cfg bs entry dn w = (case ldap_email cfg entry of Inl err \<Rightarrow> (Inl err, w) | Inr mail \<Rightarrow>
     (let name = fld entry (l_attr_username cfg);
          userData = [(''username'', name), (''email'', mail), (''isLDAPUser'', Bool True), (''ldapDN'', Str dn),
                      (''lastLDAPSync'', Date (num (now e)))] in
      bindE (readS (user_byName e name)) (\<lambda>found.
      bindE (readS (role_byName e (l_defaultRole cfg))) (\<lambda>defaultRole.
      bindE (case found of
          None \<Rightarrow> readS (user_new e userData)
        | Some u \<Rightarrow> returnE (u\<lparr>lastLDAPSync := Some (now e), email := l_cast c mail\<rparr>)) (\<lambda>u.
      bindE (readS (\<lambda>s. ldap_roles e c cfg bs s entry dn
          (case defaultRole of None \<Rightarrow> u | Some r \<Rightarrow> u\<lparr>roles := [role_id r]\<rparr>))) (\<lambda>u'.
      seqE (writeS (user_save e u')) (returnE u'))))) w))"

text \<open>\<open>authenticateWithLDAP\<close>: null is \<open>None\<close>. The binds made are returned beside the user.\<close>

definition authenticateWithLDAP ::
  "'s env \<Rightarrow> ldap_client \<Rightarrow> ldap_config \<Rightarrow> jsval \<Rightarrow> jsval \<Rightarrow> 's world \<Rightarrow> (user option \<times> bind_try list) \<times> 's world" where
  "authenticateWithLDAP e c cfg name pw w =
     (if \<not> l_enabled cfg then ((None, []), w)
      else (case (name, pw) of
        (Str nm, Str p) \<Rightarrow>
          (if trim nm = [] then ((None, []), w)
           else if length p = 0 then ((None, []), w)
           else (case ldap_authenticate c cfg nm p of
               (None, bs) \<Rightarrow> ((None, bs), w)
             | (Some (entry, dn), bs) \<Rightarrow> (case ldap_user e c cfg bs entry dn w of
                 (Inl _, w') \<Rightarrow> ((None, bs), w') | (Inr u, w') \<Rightarrow> ((Some u, bs), w'))))
      | _ \<Rightarrow> ((None, []), w)))"

section \<open>A small directory\<close>

definition demo_cfg :: ldap_config where
  "demo_cfg = \<lparr>l_enabled = True, l_bindDN = ''cn=ro'', l_bindCredentials = ''ro'', l_searchBase = ''dc=x'',
     l_searchFilter = ''(uid={{username}})'', l_attr_username = ''uid'', l_attr_email = ''mail'',
     l_attr_displayName = ''cn'', l_groupSearchBase = ''dc=x'',
     l_groupMapping = [(''ou=math,dc=x'', Str ''admin'')], l_defaultRole = Str ''user''\<rparr>"

text \<open>A directory where \<open>uid=bob\<close> is the entry with DN \<open>cn=Robert,dc=x\<close>, and another object has
  the DN \<open>cn=bob,dc=x\<close>.\<close>

definition demo_dir :: ldap_client where
  "demo_dir = \<lparr>l_bind = (\<lambda>dn pw. (dn, pw) \<in> set [(''cn=ro'', ''ro''), (''cn=Robert,dc=x'', ''secret''), (''cn=bob,dc=x'', ''mine'')]),
     l_search = (\<lambda>_ _ _. Inr [[(''dn'', Str ''cn=Robert,dc=x''), (''uid'', Str ''bob'')]]),
     l_filterEscape = id, l_rdn = (\<lambda>a n. a @ ''='' @ n), l_cast = to_string\<rparr>"

section \<open>What a sign-in proves to the directory\<close>

lemmas ldap_auth_defs = ldap_authenticate_def ldap_admin_search_def ldap_check_password_def ldap_bind_def

lemma ldap_authenticate_binds:
  assumes "ldap_authenticate c cfg name pw = (r, bs)" "b \<in> set bs"
  shows "(b_dn b = l_bindDN cfg \<and> b_password b = l_bindCredentials cfg) \<or> b_password b = pw"
  using assms by (auto simp: ldap_auth_defs Let_def split: if_splits lookup.splits prod.splits)

lemma ldap_authenticate_success:
  assumes "ldap_authenticate c cfg name pw = (Some (entry, dn), bs)"
  shows "\<exists>b \<in> set bs. b_ok b \<and> b_password b = pw \<and> l_bind c (b_dn b) pw"
  using assms by (auto simp: ldap_auth_defs Let_def split: if_splits lookup.splits)

lemma authenticateWithLDAP_cases:
  assumes "authenticateWithLDAP e c cfg name pw w = ((u, bs), w')"
  obtains "u = None" "bs = []" "w' = w"
  | nm p r where "name = Str nm" "pw = Str p" "trim nm \<noteq> []" "p \<noteq> []" "ldap_authenticate c cfg nm p = (r, bs)" "r = None \<Longrightarrow> u = None"
  using assms by (auto simp: authenticateWithLDAP_def split: if_splits jsval.splits prod.splits option.splits sum.splits)

text \<open>C10. No unauthenticated bind: whatever the request sends as credentials and whatever the
  directory answers, every bind the sign-in makes carries either the configured credentials
  or the password of the request, which is a non-empty string; and a user is returned only
  after the directory accepted a bind with that password.\<close>

theorem ldap_password_checked:
  assumes "authenticateWithLDAP e c cfg name pw w = ((u, bs), w')"
  shows "list_all (\<lambda>b. b_dn b = l_bindDN cfg \<and> b_password b = l_bindCredentials cfg
      \<or> b_password b \<noteq> [] \<and> pw = Str (b_password b)) bs \<and>
    (u \<noteq> None \<longrightarrow> list_ex (\<lambda>b. b_password b \<noteq> [] \<and> pw = Str (b_password b) \<and> l_bind c (b_dn b) (b_password b)) bs)"
  using assms
proof (cases rule: authenticateWithLDAP_cases)
  case 1 then show ?thesis by simp
next
  case (2 nm p r)
  have "b_dn b = l_bindDN cfg \<and> b_password b = l_bindCredentials cfg \<or> b_password b = p" if "b \<in> set bs" for b
    using ldap_authenticate_binds[OF 2(5) that] by blast
  moreover have "\<exists>b \<in> set bs. b_password b = p \<and> l_bind c (b_dn b) p" if "u \<noteq> None"
    using ldap_authenticate_success[of c cfg nm p _ _ bs] 2 that by (cases r) auto
  ultimately show ?thesis using 2(2,4) by (fastforce simp: list_all_iff list_ex_iff)
qed

theorem ldap_password_checked_witness:
  "\<exists>u bs w'. authenticateWithLDAP (mem_env 7) demo_dir demo_cfg (Str ''bob'') (Str ''x'') mem_world = ((u, bs), w') \<and>
     list_all (\<lambda>b. b_dn b = l_bindDN demo_cfg \<and> b_password b = l_bindCredentials demo_cfg
      \<or> b_password b \<noteq> [] \<and> Str ''x'' = Str (b_password b)) bs"
proof -
  obtain u bs w' where "authenticateWithLDAP (mem_env 7) demo_dir demo_cfg (Str ''bob'') (Str ''x'') mem_world = ((u, bs), w')"
    by (metis prod.exhaust)
  then show ?thesis using ldap_password_checked by blast
qed

text \<open>The fall-back bind: when the entry found refuses the password but the DN built from
  the display name accepts it, the sign-in continues with the entry found, so the password
  that was checked can be the one of a different directory object.\<close>

theorem ldap_fallback_bind_other_object:
  assumes "l_bind c (l_bindDN cfg) (l_bindCredentials cfg)"
    and "l_search c [\<lparr>b_dn = l_bindDN cfg, b_password = l_bindCredentials cfg, b_ok = True\<rparr>] (l_searchBase cfg)
           (user_filter c cfg name) = Inr [x]"
    and "entry_dn x \<noteq> []" "\<not> l_bind c (entry_dn x) pw"
    and "l_bind c (userDNFor c cfg (l_attr_displayName cfg) name) pw"
  shows "fst (ldap_authenticate c cfg name pw) = Some (x, userDNFor c cfg (l_attr_displayName cfg) name)"
  using assms by (simp add: ldap_auth_defs Let_def ldap_search_user_def)

theorem ldap_fallback_bind_other_object_witness:
  "fst (ldap_authenticate demo_dir demo_cfg ''bob'' ''mine'') = Some ([(''dn'', Str ''cn=Robert,dc=x''), (''uid'', Str ''bob'')], ''cn=bob,dc=x'')"
  using ldap_fallback_bind_other_object[of demo_dir demo_cfg "''bob''" "[(''dn'', Str ''cn=Robert,dc=x''), (''uid'', Str ''bob'')]" "''mine''"]
  by (simp add: demo_dir_def demo_cfg_def entry_dn_def userDNFor_def)

text \<open>The keys of the group mapping are compared with lower-cased group names: an entry of the
  mapping whose key is not lower-case is never used.\<close>

lemma to_lower_char_idem: "to_lower_char (to_lower_char c) = to_lower_char c"
proof (cases "65 \<le> (of_char c :: nat) \<and> (of_char c :: nat) \<le> 90")
  case True
  then have "(of_char (char_of ((of_char c :: nat) + 32)) :: nat) = of_char c + 32" by simp
  then show ?thesis using True by (simp add: to_lower_char_def)
qed (auto simp: to_lower_char_def)

lemma to_lower_idem [simp]: "to_lower (to_lower s) = to_lower s"
  by (simp add: to_lower_def to_lower_char_idem)

lemma fld_filter: "P k \<Longrightarrow> fld (filter (\<lambda>p. P (fst p)) d) k = fld d k"
  by (induction d) auto

lemma mixed_case_mapping_unused:
  "ldap_add_roles e (cfg\<lparr>l_groupMapping := filter (\<lambda>p. to_lower (fst p) = fst p) (l_groupMapping cfg)\<rparr>) s gs u =
   ldap_add_roles e cfg s gs u"
proof (induction gs arbitrary: u)
  case (Cons g gs)
  have "fld (filter (\<lambda>p. to_lower (fst p) = fst p) (l_groupMapping cfg)) (to_lower n) = fld (l_groupMapping cfg) (to_lower n)" for n
    using fld_filter[of "\<lambda>k. to_lower k = k" "to_lower n"] by simp
  then show ?case by (cases g) (simp_all add: Cons Let_def split: sum.split option.split)
qed simp

text \<open>Every role of the user after the group look-up was there before or is the role of a
  mapped group, and no role is added twice.\<close>

lemma ldap_add_roles_distinct:
  "distinct (roles u) \<Longrightarrow> distinct (roles (snd (ldap_add_roles e cfg s gs u)))"
proof (induction gs arbitrary: u)
  case (Cons g gs) then show ?case by (cases g) (auto simp: Let_def split: sum.split option.split)
qed simp

end
