(* ===== verification/Signin.thy ===== *)
theory Signin
  imports Ldap
begin

text \<open>
  Sign-in, sign-out and change of password (\<open>auth.controller.js\<close>), with the rights of a
  session merged from the roles of the user.
\<close>

section \<open>Merging the rights of the roles\<close>

definition rights_init :: rights where
  "rights_init = \<lparr>isAdmin = False, changePassword = False, sendCommands = False, enterAnnotations = False,
     enterNotes = False, enterManuals = False, enterLimits = False, substituteValues = False,
     ackEvents = False, ackAlarms = False, disableAlarms = False, group1List = [], group1CommandList = [],
     displayList = [], maxSessionDays = num 0\<rparr>"

text \<open>One pass of the loop, for the role of index \<open>i\<close>. A role that was not populated is a bare
  ObjectId, which has none of the properties.\<close>

definition merge_role :: "nat \<Rightarrow> rights \<Rightarrow> role option \<Rightarrow> rights" where
  "merge_role i a ro = (case ro of None \<Rightarrow> a | Some r \<Rightarrow>
     a\<lparr>isAdmin := isAdmin a \<or> isAdmin r, changePassword := changePassword a \<or> changePassword r,
       sendCommands := sendCommands a \<or> sendCommands r,
       enterAnnotations := enterAnnotations a \<or> enterAnnotations r, enterNotes := enterNotes a \<or> enterNotes r,
       enterManuals := enterManuals a \<or> enterManuals r, enterLimits := enterLimits a \<or> enterLimits r,
       substituteValues := substituteValues a \<or> substituteValues r, ackEvents := ackEvents a \<or> ackEvents r,
       ackAlarms := ackAlarms a \<or> ackAlarms r, disableAlarms := disableAlarms a \<or> disableAlarms r,
       group1List := (if i > 0 \<and> (length (group1List a) = 0 \<or> length (group1List r) = 0) then []
                      else group1List a @ group1List r),
       group1CommandList := group1CommandList a @ group1CommandList r,
       displayList := displayList a @ displayList r,
       maxSessionDays := (if maxSessionDays r > maxSessionDays a then maxSessionDays r else maxSessionDays a)\<rparr>)"

fun merge_roles :: "nat \<Rightarrow> rights \<Rightarrow> role option list \<Rightarrow> rights" where
  "merge_roles i a [] = a"
| "merge_roles i a (r # rs) = merge_roles (i + 1) (merge_role i a r) rs"

definition session_rights :: "role option list \<Rightarrow> rights" where
  "session_rights rs = merge_roles 0 rights_init rs"

definition authorities :: "role option list \<Rightarrow> jsval list" where
  "authorities rs = map (\<lambda>r. case r of None \<Rightarrow> Undef | Some r \<Rightarrow> Str (role_name r)) rs"

section \<open>Signing in and out\<close>

definition rights_val :: "rights \<Rightarrow> jsval" where
  "rights_val r = Obj [(''isAdmin'', Bool (isAdmin r)), (''changePassword'', Bool (changePassword r)),
     (''sendCommands'', Bool (sendCommands r)), (''enterAnnotations'', Bool (enterAnnotations r)),
     (''enterNotes'', Bool (enterNotes r)), (''enterManuals'', Bool (enterManuals r)),
     (''enterLimits'', Bool (enterLimits r)), (''substituteValues'', Bool (substituteValues r)),
     (''ackEvents'', Bool (ackEvents r)), (''ackAlarms'', Bool (ackAlarms r)), (''disableAlarms'', Bool (disableAlarms r)),
     (''group1List'', Arr (map Str (group1List r))), (''group1CommandList'', Arr (map Str (group1CommandList r))),
     (''displayList'', Arr (map Str (displayList r))), (''maxSessionDays'', Num (maxSessionDays r))]"

definition cookie_opts :: "bool \<Rightarrow> jsnum \<Rightarrow> doc" where
  "cookie_opts httpOnly maxAge = [(''httpOnly'', Bool httpOnly), (''secure'', Bool False), (''maxAge'', Num maxAge)]"

definition signin_reply :: "(jsnum \<Rightarrow> string) \<Rightarrow> user \<Rightarrow> role option list \<Rightarrow> rights \<Rightarrow> string \<Rightarrow> reply" where
  "signin_reply isof u rs r token = \<lparr>status = 200,
     setCookies = [
       (''x-access-token'', Str token, cookie_opts True ((num 1 + maxSessionDays r) * num 86400 * num 1000)),
       (''json-scada-user'', json_stringify isof (Obj [(''id'', Str (uid u)), (''username'', Str (username u)),
          (''email'', Str (email u)), (''isLDAPUser'', Bool (isLDAPUser u)), (''roles'', Arr (authorities rs)),
          (''rights'', rights_val r)]),
        cookie_opts False ((num 1 + num 2 * maxSessionDays r) * num 86400 * num 1000))],
     sent = Obj [(''ok'', Bool True), (''message'', Str ''Signed In'')]\<rparr>"

definition reply_no :: "jsval \<Rightarrow> reply" where
  "reply_no m = send 200 (Obj [(''ok'', Bool False), (''message'', m)])"

text \<open>The local branch: the user with populated roles, or the reply that refuses.\<close>

definition signin_local :: "'s env \<Rightarrow> request \<Rightarrow> 's \<Rightarrow> js_error + (reply + user \<times> role list)" where
  "signin_local e req s = (case user_byName e (fld (rbody req) ''username'') s of
      Inl err \<Rightarrow> Inl err
    | Inr None \<Rightarrow> Inr (Inl (reply_no (Str ''User Not found.'')))
    | Inr (Some u) \<Rightarrow> (case role_populate e (roles u) s of Inl err \<Rightarrow> Inl err | Inr rs \<Rightarrow>
        (case bcrypt_compare e (fld (rbody req) ''password'') (password u) of
           Inl err \<Rightarrow> Inl err
         | Inr False \<Rightarrow> Inr (Inl ((reply_no (Str ''Wrong Password!''))\<lparr>setCookies := [(''x-access-token'', Null, [])]\<rparr>))
         | Inr True \<Rightarrow> Inr (Inr (u, rs)))))"

text \<open>From the authenticated user on. \<open>user.isLDAPUser\<close> reads the user again with its roles
  populated; the user a local sign-in found has them populated already, the user an LDAP
  sign-in returned has bare identifiers.\<close>

definition signin_grant ::
  "'s env \<Rightarrow> (jsnum \<Rightarrow> string) \<Rightarrow> request \<Rightarrow> user \<Rightarrow> role option list \<Rightarrow> 's world \<Rightarrow> (js_error + reply) \<times> 's world" where
  "signin_grant e isof req u0 rs0 =
     bindE (if isLDAPUser u0 then
         bindE (readS (user_byId e (uid u0))) (\<lambda>r. case r of
             None \<Rightarrow> throwE TypeError
           | Some u \<Rightarrow> bindE (readS (role_populate e (roles u))) (\<lambda>rs. returnE (u, map Some rs)))
       else returnE (u0, rs0)) (\<lambda>(u, rs).
     bindE (askE (\<lambda>_. jwt_sign e \<lparr>c_id = uid u, c_username = username u, c_rights = session_rights rs\<rparr>
              (maxSessionDays (session_rights rs) * num 86400))) (\<lambda>token.
     seqE (modifyE (registerUserAction e req ''signin''))
       (returnE (signin_reply isof u rs (session_rights rs) token))))"

definition signin ::
  "'s env \<Rightarrow> ldap_client \<Rightarrow> ldap_config \<Rightarrow> (jsnum \<Rightarrow> string) \<Rightarrow> request \<Rightarrow> 's world \<Rightarrow> (js_error + reply) \<times> 's world" where
  "signin e c cfg isof req =
     tryE (\<lambda>w.
       (let (lu, w1) = (if l_enabled cfg
              then (case authenticateWithLDAP e c cfg (fld (rbody req) ''username'') (fld (rbody req) ''password'') w of
                      ((u, _), w1) \<Rightarrow> (u, w1))
              else (None, w))
        in case lu of
          Some u \<Rightarrow> signin_grant e isof req u (map (\<lambda>_. None) (roles u)) w1
        | None \<Rightarrow> bindE (readS (signin_local e req)) (\<lambda>r. case r of
              Inl rep \<Rightarrow> returnE rep
            | Inr (u, rs) \<Rightarrow> signin_grant e isof req u (map Some rs)) w1))
     (\<lambda>err. returnE (reply_no (err_val err)))"

definition signout :: "'s env \<Rightarrow> request \<Rightarrow> 's world \<Rightarrow> reply \<times> 's world" where
  "signout e req w = (\<lparr>status = 200, setCookies = [(''x-access-token'', Null, cookie_opts True (num 0))],
     sent = Obj [(''ok'', Bool True), (''message'', Str ''Signed Out!'')]\<rparr>, registerUserAction e req ''signout'' w)"

section \<open>Change of password\<close>

definition blank_field :: "string \<Rightarrow> doc \<Rightarrow> bool" where
  "blank_field k b \<longleftrightarrow> \<not> has_key k b \<or> fld b k = Str [] \<or> fld b k = Null"

definition may_change :: "'s env \<Rightarrow> request \<Rightarrow> bool" where
  "may_change e req = (case checkToken e req of None \<Rightarrow> False
     | Some ck \<Rightarrow> strict_eq (Str (c_username ck)) (fld (rbody req) ''username'') \<and> changePassword (c_rights ck))"

text \<open>The result is the reply; the body loses both passwords only after the first record of
  the action.\<close>

definition changePassword_handler :: "'s env \<Rightarrow> request \<Rightarrow> 's world \<Rightarrow> (js_error + reply) \<times> 's world" where
  "changePassword_handler e req =
     tryE (bindE (readS (user_byName e (fld (rbody req) ''username''))) (\<lambda>found. case found of
        None \<Rightarrow> returnE (send_error (Str ''User not found!''))
      | Some u \<Rightarrow>
          if isLDAPUser u then returnE (send_error (Str ''Cannot change password for LDAP users!''))
          else if \<not> may_change e req then returnE (send_error (Str ''Can't change password!''))
          else if blank_field ''currentPassword'' (rbody req) then returnE (send_error (Str ''Invalid current password!''))
          else bindE (askE (\<lambda>_. bcrypt_compare e (fld (rbody req) ''currentPassword'') (password u))) (\<lambda>valid.
            if \<not> valid then returnE (send_error (Str ''Wrong current password!''))
            else if blank_field ''newPassword'' (rbody req) then returnE (send_error (Str ''Invalid new password!''))
            else bindE (askE (\<lambda>_. bcrypt_hash e (fld (rbody req) ''newPassword''))) (\<lambda>hash.
              seqE (writeS (user_save e (u\<lparr>password := hash\<rparr>)))
              (seqE (modifyE (registerUserAction e req ''changePassword''))
              (seqE (modifyE (registerUserAction e
                  (req\<lparr>rbody := adel ''newPassword'' (adel ''currentPassword'' (rbody req))\<rparr>) ''restartProcesses''))
                (returnE (send 200 (Obj []))))))))) catch200"

lemma num_0: "num 0 = Fin 0" and num_3: "num 3 = Fin 3"
  by (simp_all add: num_def dbl_of_int)

section \<open>Properties of the merge\<close>

lemma merge_roles_flags:
  "isAdmin (merge_roles i a (map Some rs)) \<longleftrightarrow> isAdmin a \<or> list_ex isAdmin rs"
  "changePassword (merge_roles i a (map Some rs)) \<longleftrightarrow> changePassword a \<or> list_ex changePassword rs"
  "sendCommands (merge_roles i a (map Some rs)) \<longleftrightarrow> sendCommands a \<or> list_ex sendCommands rs"
  "enterAnnotations (merge_roles i a (map Some rs)) \<longleftrightarrow> enterAnnotations a \<or> list_ex enterAnnotations rs"
  "enterNotes (merge_roles i a (map Some rs)) \<longleftrightarrow> enterNotes a \<or> list_ex enterNotes rs"
  "enterManuals (merge_roles i a (map Some rs)) \<longleftrightarrow> enterManuals a \<or> list_ex enterManuals rs"
  "enterLimits (merge_roles i a (map Some rs)) \<longleftrightarrow> enterLimits a \<or> list_ex enterLimits rs"
  "substituteValues (merge_roles i a (map Some rs)) \<longleftrightarrow> substituteValues a \<or> list_ex substituteValues rs"
  "ackEvents (merge_roles i a (map Some rs)) \<longleftrightarrow> ackEvents a \<or> list_ex ackEvents rs"
  "ackAlarms (merge_roles i a (map Some rs)) \<longleftrightarrow> ackAlarms a \<or> list_ex ackAlarms rs"
  "disableAlarms (merge_roles i a (map Some rs)) \<longleftrightarrow> disableAlarms a \<or> list_ex disableAlarms rs"
  by (induction rs arbitrary: i a; simp add: merge_role_def; blast)+

lemma merge_roles_lists:
  "group1CommandList (merge_roles i a (map Some rs)) = group1CommandList a @ concat (map group1CommandList rs)"
  "displayList (merge_roles i a (map Some rs)) = displayList a @ concat (map displayList rs)"
  by (induction rs arbitrary: i a) (simp_all add: merge_role_def)

lemma merge_roles_group1:
  "0 < i \<Longrightarrow> group1List (merge_roles i a (map Some rs)) =
     (if rs = [] then group1List a else if group1List a = [] \<or> list_ex (\<lambda>r. group1List r = []) rs then []
      else group1List a @ concat (map group1List rs))"
  by (induction rs arbitrary: i a) (auto simp: merge_role_def)

lemma session_group1:
  "group1List (session_rights (map Some rs)) =
     (if list_ex (\<lambda>r. group1List r = []) rs then [] else concat (map group1List rs))"
  by (cases rs) (auto simp: session_rights_def rights_init_def merge_role_def merge_roles_group1)

lemma merge_roles_days:
  assumes "maxSessionDays a = Fin x" "map maxSessionDays rs = map Fin ds"
  shows "maxSessionDays (merge_roles i a (map Some rs)) = Fin (fold max ds x)"
  using assms
proof (induction rs arbitrary: i a x ds)
  case (Cons r rs)
  then obtain d ds' where ds: "ds = d # ds'" "maxSessionDays r = Fin d" "map maxSessionDays rs = map Fin ds'" by (cases ds) auto
  have "maxSessionDays (merge_role i a (Some r)) = Fin (max d x)"
    using Cons.prems(1) ds(2) by (auto simp: merge_role_def max_def num_lt_simps)
  from Cons.IH[OF this ds(3)] show ?case by (simp add: ds(1))
qed simp

text \<open>The rights of a session: each right is held when one of the roles of the user grants
  it; the locations visible are all (an empty list) as soon as one role sees all, else the
  locations of every role; and the session lasts as long as the longest of the roles allows.\<close>

theorem session_rights_merge:
  assumes "map maxSessionDays rs = map Fin ds"
  shows "isAdmin (session_rights (map Some rs)) = list_ex isAdmin rs \<and>
    changePassword (session_rights (map Some rs)) = list_ex changePassword rs \<and>
    sendCommands (session_rights (map Some rs)) = list_ex sendCommands rs \<and>
    ackEvents (session_rights (map Some rs)) = list_ex ackEvents rs \<and>
    ackAlarms (session_rights (map Some rs)) = list_ex ackAlarms rs \<and>
    disableAlarms (session_rights (map Some rs)) = list_ex disableAlarms rs \<and>
    group1List (session_rights (map Some rs)) =
      (if list_ex (\<lambda>r. group1List r = []) rs then [] else concat (map group1List rs)) \<and>
    maxSessionDays (session_rights (map Some rs)) = Fin (fold max ds 0)"
proof -
  have "maxSessionDays (session_rights (map Some rs)) = Fin (fold max ds 0)"
    unfolding session_rights_def by (rule merge_roles_days[OF _ assms]) (simp add: rights_init_def num_0)
  then show ?thesis by (simp add: session_group1) (simp add: session_rights_def merge_roles_flags rights_init_def)
qed

theorem session_rights_merge_witness:
  "group1List (session_rights (map Some [mem_user_role, mem_admin_role])) = [] \<and>
   isAdmin (session_rights (map Some [mem_user_role, mem_admin_role]))"
  using session_rights_merge[of "[mem_user_role, mem_admin_role]" "[3, 3]"]
  by (simp add: mem_user_role_def mem_admin_role_def role_default_def num_3)

text \<open>C12. The two authorisations agree: the command list put in the session token, read the way
  clients read it (empty means every location), allows a location exactly when the server
  grants it on the database, provided both reads of the roles return the same roles and
  there is at least one.\<close>

theorem token_commands_agree_with_server:
  assumes "checkToken e req = Some tok" "user_byId e (c_id tok) s = Inr (Some u)"
    and "role_populate e (roles u) s = Inr rs" "role_byIds e (roles u) s = Inr rs'" "set rs' = set rs" "rs \<noteq> []"
    and "c_rights tok = session_rights (map Some rs)"
  shows "canSendCommandTo e req g s \<longleftrightarrow>
    (group1CommandList (c_rights tok) = [] \<or> g \<in> set (group1CommandList (c_rights tok)))"
proof -
  have l: "group1CommandList (c_rights tok) = concat (map group1CommandList rs)"
    by (simp add: assms(7) session_rights_def merge_roles_lists rights_init_def)
  have "rs' \<noteq> []" using assms(5,6) by auto
  then have "token_roles e req s = Some rs'" using assms by (simp add: token_roles_def)
  then show ?thesis using assms(5) by (auto simp: canSendCommandTo_def command_loop_eq l)
qed

theorem token_commands_agree_with_server_witness:
  "canSendCommandTo (mem_env 5) (mem_request ''t2'' []) ''KAW2'' mem_store \<and>
   \<not> canSendCommandTo (mem_env 5) (mem_request ''t2'' []) ''KOR1'' mem_store"
proof -
  let ?u = "m_users mem_store ! 1" and ?c = "mem_claims (m_users mem_store ! 1) [mem_user_role]"
  have c: "checkToken (mem_env 5) (mem_request ''t2'' []) = Some ?c"
    by (simp add: checkToken_def request_token_def js_or_def mem_request_def)
  have r: "c_rights ?c = session_rights (map Some [mem_user_role])"
    by (simp add: mem_defs session_rights_def merge_role_def rights_init_def num_0 num_3 num_lt_simps)
  have u: "user_byId (mem_env 5) (c_id ?c) mem_store = Inr (Some ?u)" by (simp add: mem_defs)
  have p: "role_populate (mem_env 5) (roles ?u) mem_store = Inr [mem_user_role]"
    "role_byIds (mem_env 5) (roles ?u) mem_store = Inr [mem_user_role]" by (simp_all add: mem_defs)
  have l: "group1CommandList (c_rights ?c) = [''KAW2'']" by (simp add: mem_defs)
  show ?thesis
    using token_commands_agree_with_server[OF c u p refl _ r] by (simp add: l[simplified])
qed

section \<open>Who is signed in\<close>

definition grants_token :: "reply \<Rightarrow> string \<Rightarrow> bool" where
  "grants_token rep t \<longleftrightarrow> (\<exists>opts. (''x-access-token'', Str t, opts) \<in> set (setCookies rep))"

lemma signin_local_Inr:
  "signin_local e req s = Inr (Inr (u, rs)) \<longleftrightarrow> user_byName e (fld (rbody req) ''username'') s = Inr (Some u) \<and>
     role_populate e (roles u) s = Inr rs \<and> bcrypt_compare e (fld (rbody req) ''password'') (password u) = Inr True"
  by (auto simp: signin_local_def split: sum.splits option.splits bool.splits)

lemma signin_local_Inl:
  "signin_local e req s = Inr (Inl rep) \<Longrightarrow> \<not> grants_token rep t"
  by (auto simp: signin_local_def reply_no_def send_def grants_token_def split: sum.splits option.splits bool.splits)

lemma signin_local_only:
  assumes "\<not> l_enabled cfg"
  shows "signin e c cfg isof req w = tryE (bindE (readS (signin_local e req)) (\<lambda>r. case r of
      Inl rep \<Rightarrow> returnE rep | Inr (u, rs) \<Rightarrow> signin_grant e isof req u (map Some rs))) (\<lambda>err. returnE (reply_no (err_val err))) w"
  using assms by (simp add: signin_def tryE_def)

lemma reply_no_grants: "\<not> grants_token (reply_no m) t"
  by (simp add: reply_no_def send_def grants_token_def)

lemma signin_grant_token:
  assumes "signin_grant e isof req u rs w = (Inr rep, w')" "grants_token rep t" "\<not> isLDAPUser u"
  shows "jwt_sign e \<lparr>c_id = uid u, c_username = username u, c_rights = session_rights rs\<rparr>
      (maxSessionDays (session_rights rs) * num 86400) = Inr t \<and> w' = registerUserAction e req ''signin'' w"
  using assms by (auto simp: signin_grant_def handler_simps signin_reply_def grants_token_def split: sum.splits)

text \<open>C11. Sign-in without LDAP hands out a token only to the user the store finds under the name
  sent, after \<open>bcrypt\<close> accepted the password sent against the stored hash; the token is the
  one signed for that user with the rights merged from its populated roles, and the store is
  not changed.\<close>

theorem signin_token_sound:
  assumes "\<not> l_enabled cfg" "signin e c cfg isof req w = (Inr rep, w')" "grants_token rep t"
    and "\<And>u. user_byName e (fld (rbody req) ''username'') (store w) = Inr (Some u) \<Longrightarrow> \<not> isLDAPUser u"
  shows "\<exists>u rs. user_byName e (fld (rbody req) ''username'') (store w) = Inr (Some u) \<and>
     bcrypt_compare e (fld (rbody req) ''password'') (password u) = Inr True \<and>
     role_populate e (roles u) (store w) = Inr rs \<and>
     jwt_sign e \<lparr>c_id = uid u, c_username = username u, c_rights = session_rights (map Some rs)\<rparr>
       (maxSessionDays (session_rights (map Some rs)) * num 86400) = Inr t \<and> store w' = store w"
proof -
  have eq: "tryE (bindE (readS (signin_local e req)) (\<lambda>r. case r of
      Inl rep \<Rightarrow> returnE rep | Inr (u, rs) \<Rightarrow> signin_grant e isof req u (map Some rs))) (\<lambda>err. returnE (reply_no (err_val err))) w
      = (Inr rep, w')"
    using assms(1,2) by (simp add: signin_local_only)
  show ?thesis
  proof (cases "signin_local e req (store w)")
    case (Inl err)
    then show ?thesis using eq assms(3) reply_no_grants by (auto simp: tryE_def handler_simps)
  next
    case (Inr r)
    then show ?thesis
    proof (cases r)
      case (Inl rep')
      then show ?thesis using eq assms(3) signin_local_Inl[of e req "store w" rep' t] \<open>signin_local e req (store w) = Inr r\<close>
        by (auto simp: tryE_def handler_simps)
    next
      case (Inr ur)
      obtain u rs where ur: "ur = (u, rs)" by fastforce
      have loc: "signin_local e req (store w) = Inr (Inr (u, rs))" using \<open>signin_local e req (store w) = Inr r\<close> Inr ur by simp
      note f = loc[unfolded signin_local_Inr]
      show ?thesis
      proof (cases "fst (signin_grant e isof req u (map Some rs) w)")
        case (Inl err)
        then show ?thesis using eq loc assms(3) reply_no_grants
          by (auto simp: tryE_def handler_simps split: prod.splits)
      next
        case (Inr x)
        then have "signin_grant e isof req u (map Some rs) w = (Inr rep, w')"
          using eq loc by (auto simp: tryE_def handler_simps split: prod.splits)
        from signin_grant_token[OF this assms(3)] assms(4) f
        show ?thesis by (auto simp: registerUserAction_def)
      qed
    qed
  qed
qed

definition signin_req :: "string \<Rightarrow> string \<Rightarrow> request" where
  "signin_req u p = \<lparr>rmethod = ''POST'', headers = [], cookies = [], rbody = [(''username'', Str u), (''password'', Str p)]\<rparr>"

theorem signin_token_sound_witness:
  "\<exists>rep w'. signin (mem_env 5) demo_dir (demo_cfg\<lparr>l_enabled := False\<rparr>) num_to_string (signin_req ''ana'' ''pw'') mem_world = (Inr rep, w') \<and>
     grants_token rep ''t2'' \<and> store w' = mem_store"
proof -
  let ?u = "m_users mem_store ! 1" and ?cfg = "demo_cfg\<lparr>l_enabled := False\<rparr>"
  have loc: "signin_local (mem_env 5) (signin_req ''ana'' ''pw'') (store mem_world) = Inr (Inr (?u, [mem_user_role]))"
    unfolding signin_local_Inr by (simp add: signin_req_def) (simp add: mem_defs)
  let ?rep = "signin_reply num_to_string ?u [Some mem_user_role] (session_rights [Some mem_user_role]) ''t2''"
  let ?w = "registerUserAction (mem_env 5) (signin_req ''ana'' ''pw'') ''signin'' mem_world"
  have u: "\<not> isLDAPUser ?u" "uid ?u = ''u2''" by (simp_all add: mem_defs)
  have run: "signin (mem_env 5) demo_dir ?cfg num_to_string (signin_req ''ana'' ''pw'') mem_world = (Inr ?rep, ?w)"
    using loc u by (simp add: signin_local_only tryE_def handler_simps signin_grant_def)
  have g: "grants_token ?rep ''t2''" by (simp add: grants_token_def signin_reply_def)
  have nl: "user_byName (mem_env 5) (fld (rbody (signin_req ''ana'' ''pw'')) ''username'') (store mem_world) = Inr (Some v) \<Longrightarrow> \<not> isLDAPUser v" for v
    using loc[unfolded signin_local_Inr] u by auto
  have "store ?w = mem_store"
    using signin_token_sound[OF _ run g nl] by (auto simp: mem_world_def)
  then show ?thesis using run g by blast
qed

section \<open>Change of password\<close>

text \<open>Every outcome of the handler: a refusal leaves the world unchanged, and success passes
  every check.\<close>

lemma changePassword_outcomes:
  assumes "changePassword_handler e req w = (r, w')"
  obtains (refused) v where "r = Inr (send_error v)" "w' = w"
  | (changed) u h s where "r = Inr (send 200 (Obj []))" "user_byName e (fld (rbody req) ''username'') (store w) = Inr (Some u)"
      "\<not> isLDAPUser u" "may_change e req" "bcrypt_compare e (fld (rbody req) ''currentPassword'') (password u) = Inr True"
      "\<not> blank_field ''newPassword'' (rbody req)" "bcrypt_hash e (fld (rbody req) ''newPassword'') = Inr h"
      "user_save e (u\<lparr>password := h\<rparr>) (store w) = Inr s"
      "w' = registerUserAction e (req\<lparr>rbody := adel ''newPassword'' (adel ''currentPassword'' (rbody req))\<rparr>) ''restartProcesses''
         (registerUserAction e req ''changePassword'' (w\<lparr>store := s\<rparr>))"
proof -
  note D = changePassword_handler_def tryE_def handler_simps catch200_def
  let ?b = "rbody req"
  show thesis
  proof (cases "user_byName e (fld ?b ''username'') (store w)")
    case (Inl err) then show thesis using refused assms by (auto simp: D)
  next
    case U: (Inr fu)
    show thesis
    proof (cases fu)
      case None then show thesis using refused assms U by (auto simp: D)
    next
      case S: (Some u)
      show thesis
      proof (cases "isLDAPUser u \<or> \<not> may_change e req \<or> blank_field ''currentPassword'' ?b")
        case True then show thesis using refused assms U S by (auto simp: D split: if_splits)
      next
        case ok: False
        show thesis
        proof (cases "bcrypt_compare e (fld ?b ''currentPassword'') (password u)")
          case (Inl err) then show thesis using refused assms U S ok by (auto simp: D)
        next
          case C: (Inr b)
          show thesis
          proof (cases "b \<and> \<not> blank_field ''newPassword'' ?b")
            case False then show thesis using refused assms U S ok C by (auto simp: D split: if_splits)
          next
            case nb: True
            show thesis
            proof (cases "bcrypt_hash e (fld ?b ''newPassword'')")
              case (Inl err) then show thesis using refused assms U S ok C nb by (auto simp: D)
            next
              case H: (Inr h)
              show thesis
              proof (cases "user_save e (u\<lparr>password := h\<rparr>) (store w)")
                case (Inl err) then show thesis using refused assms U S ok C nb H by (auto simp: D)
              next
                case (Inr s) then show thesis using changed[of u h s] assms U S ok C nb H by (auto simp: D)
              qed
            qed
          qed
        qed
      qed
    qed
  qed
qed

text \<open>C13. A password is changed only by its owner: the handler changes the store only when the
  token of the request verifies, names the user of the body and holds the right, the user is
  not an LDAP user, the current password was accepted and the new one is neither empty nor
  null; what is saved is that user with the hash of the new password.\<close>

theorem password_change_guarded:
  assumes "changePassword_handler e req w = (r, w')" "store w' \<noteq> store w"
  shows "\<exists>tok u h. checkToken e req = Some tok \<and> fld (rbody req) ''username'' = Str (c_username tok) \<and>
     changePassword (c_rights tok) \<and> user_byName e (Str (c_username tok)) (store w) = Inr (Some u) \<and> \<not> isLDAPUser u \<and>
     bcrypt_compare e (fld (rbody req) ''currentPassword'') (password u) = Inr True \<and>
     \<not> blank_field ''newPassword'' (rbody req) \<and> bcrypt_hash e (fld (rbody req) ''newPassword'') = Inr h \<and>
     user_save e (u\<lparr>password := h\<rparr>) (store w) = Inr (store w')"
proof -
  show ?thesis using assms(1)
  proof (cases rule: changePassword_outcomes)
    case refused then show ?thesis using assms(2) by simp
  next
    case (changed u h s)
    then obtain tok where "checkToken e req = Some tok" "strict_eq (Str (c_username tok)) (fld (rbody req) ''username'')"
      "changePassword (c_rights tok)" by (auto simp: may_change_def split: option.splits)
    moreover from this(2) have "fld (rbody req) ''username'' = Str (c_username tok)"
      by (cases "fld (rbody req) ''username''") simp_all
    ultimately show ?thesis using changed by (auto simp: registerUserAction_def)
  qed
qed

definition change_req :: request where
  "change_req = mem_request ''t2'' [(''username'', Str ''ana''), (''currentPassword'', Str ''pw''), (''newPassword'', Str ''px'')]"

lemma change_run:
  "\<exists>w'. changePassword_handler (mem_env 5) change_req mem_world = (Inr (send 200 (Obj [])), w') \<and>
     password (m_users (store w') ! 1) = ''#px''"
proof -
  have t: "checkToken (mem_env 5) change_req = Some (mem_claims (m_users mem_store ! 1) [mem_user_role])"
    by (simp add: checkToken_def request_token_def js_or_def change_req_def mem_request_def)
  have m: "may_change (mem_env 5) change_req"
    unfolding may_change_def t by (simp add: change_req_def mem_defs)
  have b: "rbody change_req = [(''username'', Str ''ana''), (''currentPassword'', Str ''pw''), (''newPassword'', Str ''px'')]"
    by (simp add: change_req_def mem_request_def)
  show ?thesis
    unfolding changePassword_handler_def
    by (simp add: tryE_def handler_simps b m blank_field_def mem_defs registerUserAction_def)
qed

theorem password_change_guarded_witness:
  "\<exists>tok. checkToken (mem_env 5) change_req = Some tok \<and> fld (rbody change_req) ''username'' = Str (c_username tok)"
proof -
  obtain w' where w: "changePassword_handler (mem_env 5) change_req mem_world = (Inr (send 200 (Obj [])), w')"
    "password (m_users (store w') ! 1) = ''#px''" using change_run by blast
  have "store w' \<noteq> store mem_world" using w(2) by (auto simp: mem_defs)
  from password_change_guarded[OF w(1) this] show ?thesis by blast
qed



text \<open>What a successful change of password leaves in the audit queue: two records, the
  first of which (\<open>changePassword\<close>) still holds the current and the new password as they
  were sent, since the body is stripped only before the second, which is labelled
  \<open>restartProcesses\<close>.\<close>

theorem password_change_audit_record:
  assumes "changePassword_handler e req w = (Inr (send 200 (Obj [])), w')"
  shows "\<exists>a b. queue w' = queue w @ [a, b] \<and> a_action a = ''changePassword'' \<and>
     fld (a_properties a) ''newPassword'' = fld (rbody req) ''newPassword'' \<and>
     fld (a_properties a) ''currentPassword'' = fld (rbody req) ''currentPassword'' \<and>
     a_action b = ''restartProcesses'' \<and> fld (a_properties b) ''newPassword'' = Undef"
  using assms
proof (cases rule: changePassword_outcomes)
  case (refused v) then show ?thesis by (simp add: send_error_def send_def)
next
  case (changed u h s) then show ?thesis by (simp add: registerUserAction_def)
qed

theorem password_change_audit_record_witness:
  "\<exists>w' a. changePassword_handler (mem_env 5) change_req mem_world = (Inr (send 200 (Obj [])), w') \<and>
     a \<in> set (queue w') \<and> fld (a_properties a) ''newPassword'' = Str ''px''"
proof -
  obtain w' where w: "changePassword_handler (mem_env 5) change_req mem_world = (Inr (send 200 (Obj [])), w')"
    using change_run by blast
  have "fld (rbody change_req) ''newPassword'' = Str ''px''" by (simp add: change_req_def mem_request_def)
  then show ?thesis using password_change_audit_record[OF w] w by fastforce
qed

end
