(* ===== verification/Connections.thy ===== *)
theory Connections
  imports Signin
begin

text \<open>
  The defaults of a protocol connection (\<open>updateProtocolConnection\<close> of
  \<open>auth.controller.js\<close>): before the body of the request is stored, each driver's missing
  fields are filled in and its numeric fields are rounded or clamped. Every conditional
  block of the handler is a list of steps guarded by the list of drivers it names.
\<close>

section \<open>Steps\<close>

text \<open>\<open>Dflt c k v\<close>: \<open>if (!('c' in body)) body.k = v\<close>. \<open>Norm c k v f\<close>: the same, with
  \<open>else body.k = f(body.k)\<close>. The value and the function may read the body.\<close>

datatype step =
    Dflt string string "doc \<Rightarrow> jsval"
  | Norm string string "doc \<Rightarrow> jsval" "doc \<Rightarrow> jsval \<Rightarrow> jsval"

fun apply_step :: "step \<Rightarrow> doc \<Rightarrow> doc" where
  "apply_step (Dflt c k v) b = (if has_key c b then b else aupd k (v b) b)"
| "apply_step (Norm c k v f) b = (if has_key c b then aupd k (f b (fld b k)) b else aupd k (v b) b)"

definition run_steps :: "step list \<Rightarrow> doc \<Rightarrow> doc" where
  "run_steps ss b = fold apply_step ss b"

definition driver_of :: "doc \<Rightarrow> jsval" where
  "driver_of b = fld b ''protocolDriver''"

text \<open>\<open>[...].includes(req?.body?.protocolDriver)\<close>.\<close>

definition driver_in :: "string list \<Rightarrow> doc \<Rightarrow> bool" where
  "driver_in ds b = (case driver_of b of Str d \<Rightarrow> d \<in> set ds | _ \<Rightarrow> False)"

type_synonym block = "string list \<times> step list"

definition run_block :: "block \<Rightarrow> doc \<Rightarrow> doc" where
  "run_block p b = (if driver_in (fst p) b then run_steps (snd p) b else b)"

definition run_blocks :: "block list \<Rightarrow> doc \<Rightarrow> doc" where
  "run_blocks ps b = fold run_block ps b"

definition js_floor :: "jsval \<Rightarrow> jsval" where
  "js_floor v = Num (num_floor (to_number v))"

abbreviation dflt :: "string \<Rightarrow> jsval \<Rightarrow> step" where
  "dflt k v \<equiv> Dflt k k (\<lambda>_. v)"

abbreviation dflt_floor :: "string \<Rightarrow> jsval \<Rightarrow> step" where
  "dflt_floor k v \<equiv> Norm k k (\<lambda>_. v) (\<lambda>_. js_floor)"

definition js_clamp :: "int \<Rightarrow> int \<Rightarrow> jsval \<Rightarrow> jsval" where
  "js_clamp lo hi v = Num (num_min (num hi) (num_max (num lo) (num_floor (to_number v))))"

abbreviation jn :: "int \<Rightarrow> jsval" where
  "jn i \<equiv> Num (num i)"

section \<open>Blocks\<close>

definition default_bind :: "doc \<Rightarrow> jsval" where
  "default_bind b = (case driver_of b of Str d \<Rightarrow> Str (
     if d = ''OPC-UA_SERVER'' then ''0.0.0.0:4840''
     else if d = ''IEC60870-5-104_SERVER'' then ''0.0.0.0:2404''
     else if d = ''IEC61850_SERVER'' then ''0.0.0.0:102''
     else if d = ''DNP3_SERVER'' then ''0.0.0.0:20000''
     else if d = ''I104M'' then ''0.0.0.0:8099''
     else if d = ''TELEGRAF-LISTENER'' then ''0.0.0.0:51920''
     else if d = ''N8N'' then ''0.0.0.0:51930''
     else if d = ''ICCP_SERVER'' then ''0.0.0.0:102''
     else if d = ''ONVIF'' then ''127.0.0.1:9001''
     else if d = ''MODBUS_SERVER'' then ''0.0.0.0:502''
     else ''0.0.0.0'') | _ \<Rightarrow> Str ''0.0.0.0'')"

definition conn_bind :: "block list" where
  "conn_bind = [([''IEC60870-5-104_SERVER'', ''IEC61850_SERVER'', ''DNP3_SERVER'', ''I104M'', ''TELEGRAF-LISTENER'',
      ''N8N'', ''OPC-UA_SERVER'', ''ICCP_SERVER'', ''ONVIF'', ''MODBUS_SERVER''],
     [Norm ''ipAddressLocalBind'' ''ipAddressLocalBind'' default_bind
        (\<lambda>b v. if loose_eq v (Str []) then default_bind b else v)])]"

definition conn_common :: "block list" where
  "conn_common = [
     ([''IEC60870-5-104'', ''IEC60870-5-104_SERVER'', ''IEC61850'', ''IEC61850_SERVER'', ''DNP3'', ''DNP3_SERVER'',
       ''PLCTAG'', ''I104M'', ''TELEGRAF-LISTENER'', ''N8N'', ''OPC-UA_SERVER'', ''ICCP'', ''ICCP_SERVER'', ''MODBUS'',
       ''MODBUS_SERVER''], [dflt ''ipAddresses'' (Arr [])]),
     ([''OPC-UA'', ''TELEGRAF-LISTENER'', ''N8N'', ''MQTT-SPARKPLUG-B'', ''IEC61850'', ''PLC4X'', ''OPC-DA'', ''ICCP'',
       ''DNP3_SERVER'', ''DNP3'', ''ICCP'', ''IEC60870-5-104_SERVER'', ''IEC60870-5-104'', ''IEC60870-5-101_SERVER'',
       ''IEC60870-5-101'', ''MODBUS''], [dflt ''autoCreateTags'' (Bool True)]),
     ([''MQTT-SPARKPLUG-B'', ''N8N'', ''OPC-UA_SERVER'', ''IEC61850'', ''PLC4X'', ''OPC-UA'', ''OPC-DA'', ''OPC-DA_SERVER'',
       ''ICCP'', ''ICCP_SERVER'', ''DNP3_SERVER'', ''DNP3'', ''IEC60870-5-104_SERVER'', ''IEC60870-5-104'',
       ''IEC60870-5-101_SERVER'', ''IEC60870-5-101'', ''MODBUS''], [dflt ''topics'' (Arr [])]),
     ([''MQTT-SPARKPLUG-B'', ''OPC-UA_SERVER''], [dflt ''groupId'' (Str [])]),
     ([''MQTT-SPARKPLUG-B'', ''OPC-UA'', ''IEC60870-5-104_SERVER'', ''IEC60870-5-104'', ''IEC61850'', ''IEC61850_SERVER''],
       [dflt ''passphrase'' (Str [])]),
     ([''MQTT-SPARKPLUG-B'', ''OPC-DA'', ''OPC-UA'', ''ONVIF''], [dflt ''username'' (Str [])]),
     ([''MQTT-SPARKPLUG-B'', ''OPC-DA'', ''OPC-UA'', ''ONVIF'', ''ICCP'', ''ICCP_SERVER''], [dflt ''password'' (Str [])])]"

definition conn_mqtt :: "block list" where
  "conn_mqtt = [
     ([''MQTT-SPARKPLUG-B''],
       [dflt ''topicsAsFiles'' (Arr []), dflt ''topicsScripted'' (Arr []), dflt ''clientId'' (Str []),
        dflt ''edgeNodeId'' (Str []), dflt ''deviceId'' (Str []), dflt ''scadaHostId'' (Str []),
        dflt ''publishTopicRoot'' (Str [])]),
     ([''MQTT-SPARKPLUG-B'', ''OPC-UA''], [dflt ''pfxFilePath'' (Str [])]),
     ([''OPC-UA'', ''MQTT-SPARKPLUG-B'', ''OPC-UA_SERVER'', ''IEC61850'', ''IEC61850_SERVER'', ''OPC-DA'', ''ICCP'', ''ICCP_SERVER''],
       [dflt ''useSecurity'' (Bool False)]),
     ([''OPC-UA'', ''OPC-UA_SERVER'', ''OPC-DA'', ''ICCP'', ''ICCP_SERVER'', ''ONVIF''], [dflt ''timeoutMs'' (jn 10000)])]"

text \<open>The ICCP blocks test \<open>localAppTitle\<close> and \<open>remoteAppTitle\<close> and write \<open>localApTitle\<close> and
  \<open>remoteApTitle\<close>.\<close>

definition conn_iccp_onvif :: "block list" where
  "conn_iccp_onvif = [
     ([''ICCP'', ''ICCP_SERVER''],
       [dflt ''localAeQualifier'' (jn 12), Dflt ''localAppTitle'' ''localApTitle'' (\<lambda>_. Str ''1.1.998.1'')]),
     ([''ICCP'', ''ICCP_SERVER''],
       [dflt ''remoteAeQualifier'' (jn 12), Dflt ''remoteAppTitle'' ''remoteApTitle'' (\<lambda>_. Str ''1.1.999.2'')]),
     ([''ONVIF''], [dflt ''endpointURLs'' (Arr [])]),
     ([''ONVIF''], [dflt ''options'' (Str [])])]"

text \<open>\<open>generateClsid\<close>: each hexadecimal digit is drawn by \<open>Math.random()\<close>, a number below 1;
  \<open>rs\<close> are the draws in the order of the calls.\<close>

definition draw :: "nat \<Rightarrow> rat \<Rightarrow> char" where
  "draw k r = hex_char (nat \<lfloor>r * of_nat k\<rfloor>)"

definition generateHex :: "nat \<Rightarrow> rat list \<Rightarrow> string" where
  "generateHex len rs = map (draw 16) (take len rs)"

definition generateClsid :: "rat list \<Rightarrow> string" where
  "generateClsid rs = ''{'' @ generateHex 8 rs @ ''-'' @ generateHex 4 (drop 8 rs) @ ''-4'' @ generateHex 3 (drop 12 rs) @ ''-'' @
     [hex_char (nat (\<lfloor>(rs ! 15) * 4\<rfloor> + 8))] @ generateHex 3 (drop 16 rs) @ ''-'' @ generateHex 12 (drop 19 rs) @ ''}''"

definition conn_opc :: "string \<Rightarrow> string \<Rightarrow> block list" where
  "conn_opc clsid1 clsid2 = [
     ([''OPC-UA''], [dflt ''configFileName'' (Str [])]),
     ([''ICCP''], [dflt ''autoCreateTagPublishingInterval'' (Num (Fin (5/2)))]),
     ([''OPC-UA'', ''OPC-DA'', ''OPC-DA_SERVER''],
       [dflt ''autoCreateTagPublishingInterval'' (Num (Fin (5/2))), dflt ''autoCreateTagSamplingInterval'' (jn 0),
        dflt ''autoCreateTagQueueSize'' (jn 0)]),
     ([''OPC-UA'', ''OPC-DA'', ''OPC-DA_SERVER'', ''DNP3_SERVER'', ''ICCP'', ''ICCP_SERVER''], [dflt ''hoursShift'' (jn 0)]),
     ([''OPC-DA'', ''OPC-DA_SERVER''], [dflt ''deadBand'' (jn 0)]),
     ([''OPC-DA_SERVER''],
       [dflt ''clsIdApp'' (Str clsid1), dflt ''clsIdServer'' (Str clsid2), dflt ''prgIdServer'' (Str ''JsonScada.OpcDaServer''),
        Dflt ''prgIdCurrServer'' ''prgIdCurrServer''
          (\<lambda>b. js_add (js_add (fld b ''prgIdServer'') (Str ''.'')) (fld b ''protocolConnectionNumber''))])]"

definition is_104 :: "doc \<Rightarrow> bool" where
  "is_104 b = driver_in [''IEC60870-5-104'', ''IEC60870-5-104_SERVER''] b"

definition conn_iec :: "block list" where
  "conn_iec = [
     ([''IEC60870-5-101'', ''IEC60870-5-101_SERVER'', ''IEC60870-5-104'', ''IEC60870-5-104_SERVER'', ''DNP3'', ''DNP3_SERVER'', ''PLCTAG''],
       [dflt_floor ''localLinkAddress'' (jn 1), dflt_floor ''remoteLinkAddress'' (jn 1)]),
     ([''IEC60870-5-101'', ''IEC60870-5-104''], [dflt ''testCommandInterval'' (jn 0)]),
     ([''IEC60870-5-101'', ''IEC60870-5-104'', ''IEC60870-5-101_SERVER'', ''IEC60870-5-104_SERVER''],
       [Norm ''sizeOfCOT'' ''sizeOfCOT'' (\<lambda>b. if is_104 b then jn 2 else jn 1) (\<lambda>_. js_floor),
        dflt_floor ''sizeOfCA'' (jn 2),
        Norm ''sizeOfIOA'' ''sizeOfIOA'' (\<lambda>b. if is_104 b then jn 3 else jn 2) (\<lambda>_. js_floor)]),
     ([''IEC60870-5-101'', ''IEC60870-5-104'', ''DNP3'', ''PLCTAG'', ''IEC61850'', ''PLC4X'', ''OPC-UA'', ''OPC-DA'', ''ICCP'',
       ''ONVIF'', ''MODBUS''],
       [Dflt ''giInterval'' ''giInterval'' (\<lambda>b. if strict_eq (driver_of b) (Str ''ONVIF'') then jn 0 else jn 300)]),
     ([''IEC60870-5-101'', ''IEC60870-5-104'', ''DNP3'', ''PLCTAG'', ''IEC61850'', ''PLC4X'', ''OPC-DA''], [dflt ''timeSyncInterval'' (jn 0)]),
     ([''IEC60870-5-104_SERVER'', ''IEC61850_SERVER'', ''OPC-UA_SERVER''],
       [dflt ''serverModeMultiActive'' (Bool True), dflt_floor ''maxClientConnections'' (jn 1)])]"

definition conn_certs :: "block list" where
  "conn_certs = [
     ([''IEC60870-5-104'', ''IEC60870-5-104_SERVER'', ''IEC61850'', ''IEC61850_SERVER'', ''DNP3'', ''DNP3_SERVER'', ''MQTT-SPARKPLUG-B'',
       ''OPC-UA_SERVER'', ''OPC-UA'', ''OPC-DA'', ''MODBUS'', ''MODBUS_SERVER''], [dflt ''localCertFilePath'' (Str [])]),
     ([''IEC60870-5-104'', ''IEC60870-5-104_SERVER'', ''IEC61850'', ''IEC61850_SERVER'', ''DNP3'', ''DNP3_SERVER'', ''OPC-DA'',
       ''MODBUS'', ''MODBUS_SERVER''], [dflt ''peerCertFilePath'' (Str [])]),
     ([''IEC60870-5-104'', ''IEC60870-5-104_SERVER'', ''MQTT-SPARKPLUG-B'', ''IEC61850'', ''IEC61850_SERVER''],
       [dflt ''rootCertFilePath'' (Str []), dflt ''chainValidation'' (Bool False)]),
     ([''IEC60870-5-104'', ''IEC60870-5-104_SERVER'', ''MODBUS'', ''MODBUS_SERVER''],
       [dflt ''allowOnlySpecificCertificates'' (Bool False)]),
     ([''OPC-UA''],
       [dflt ''autoAcceptUntrustedCertificates'' (Bool True), dflt ''securityMode'' (Str ''None''), dflt ''securityPolicy'' (Str ''None'')]),
     ([''DNP3'', ''DNP3_SERVER'', ''MQTT-SPARKPLUG-B'', ''OPC-UA_SERVER'', ''IEC61850'', ''IEC61850_SERVER'', ''MODBUS'', ''MODBUS_SERVER''],
       [dflt ''privateKeyFilePath'' (Str [])]),
     ([''DNP3'', ''DNP3_SERVER'', ''MQTT-SPARKPLUG-B'', ''MODBUS'', ''MODBUS_SERVER''],
       [dflt ''allowTLSv10'' (Bool False), dflt ''allowTLSv11'' (Bool False), dflt ''allowTLSv12'' (Bool True),
        dflt ''allowTLSv13'' (Bool True), dflt ''cipherList'' (Str [])])]"

definition conn_dnp3 :: "block list" where
  "conn_dnp3 = [
     ([''OPC-UA'', ''OPC-DA'', ''DNP3_SERVER''], [dflt ''serverQueueSize'' (jn 5000)]),
     ([''DNP3_SERVER''], [dflt ''connectionMode'' (Str ''TCP Passive''), dflt ''enableUnsolicited'' (Bool True)]),
     ([''DNP3''],
       [dflt ''connectionMode'' (Str ''TCP Active''), dflt ''asyncOpenDelay'' (jn 0), dflt ''timeSyncMode'' (jn 0),
        dflt ''class0ScanInterval'' (jn 0), dflt ''class1ScanInterval'' (jn 0), dflt ''class2ScanInterval'' (jn 0),
        dflt ''class3ScanInterval'' (jn 0), dflt ''enableUnsolicited'' (Bool True), dflt ''rangeScans'' (Arr [])]),
     ([''IEC60870-5-101_SERVER'', ''IEC60870-5-104_SERVER'', ''IEC61850_SERVER''], [dflt_floor ''maxQueueSize'' (jn 5000)])]"

text \<open>The serial block tests the name \<open>'baudRate '\<close>, with a trailing space.\<close>

definition conn_serial :: "block list" where
  "conn_serial = [
     ([''IEC60870-5-101'', ''IEC60870-5-101_SERVER''],
       [dflt ''portName'' (Str []), Norm ''baudRate '' ''baudRate'' (\<lambda>_. jn 9600) (\<lambda>_. js_floor),
        dflt ''parity'' (Str ''Even''), dflt ''stopBits'' (Str []), dflt ''handshake'' (Str ''None''),
        dflt ''timeoutForACK'' (jn 1000), dflt ''timeoutRepeat'' (jn 1000), dflt ''useSingleCharACK'' (Bool True),
        dflt_floor ''sizeOfLinkAddress'' (jn 1)])]"

definition conn_modbus_shared :: "block list" where
  "conn_modbus_shared = [
     ([''MODBUS'', ''MODBUS_SERVER''],
       [dflt ''byteOrder16'' (Str ''AB''), dflt ''byteOrder32'' (Str ''ABCD''), dflt ''byteOrder64'' (Str ''ABCDEFGH''),
        dflt ''byteOrderStr'' (Str ''AB''), dflt ''stringEncoding'' (Str ''latin1''), dflt ''useModiconAddresses'' (Bool False),
        dflt ''interFrameDelayMs'' (jn 0), dflt ''privateKeyPassphrase'' (Str []), dflt ''chainValidation'' (Bool True),
        dflt ''portName'' (Str []), dflt_floor ''baudRate'' (jn 9600), dflt ''parity'' (Str ''Even''),
        dflt ''stopBits'' (Str ''One''), dflt ''handshake'' (Str ''None'')])]"

definition conn_modbus :: "block list" where
  "conn_modbus = [
     ([''MODBUS''],
       [dflt ''connectionMode'' (Str ''TCP Active''), dflt ''timeoutMs'' (jn 1000), dflt ''pollingInterval'' (jn 1000),
        dflt_floor ''maxRetries'' (jn 2), dflt ''interRequestDelayMs'' (jn 0),
        Norm ''maxReadRegisters'' ''maxReadRegisters'' (\<lambda>_. jn 125) (\<lambda>_. js_clamp 1 125),
        Norm ''maxReadCoils'' ''maxReadCoils'' (\<lambda>_. jn 2000) (\<lambda>_. js_clamp 1 2000),
        Norm ''maxAddressGap'' ''maxAddressGap'' (\<lambda>_. jn 8) (\<lambda>_ v. Num (num_max (num 0) (num_floor (to_number v)))),
        dflt ''useMaskWrite'' (Bool True)])]"

text \<open>Unit identifiers: not an array, or no valid identifier left, gives the identifier 1.\<close>

definition unit_ids :: "jsval \<Rightarrow> jsval" where
  "unit_ids v = (case v of Arr vs \<Rightarrow>
       (let ids = filter (\<lambda>x. case x of Fin q \<Rightarrow> 0 \<le> q \<and> q \<le> 255 | _ \<Rightarrow> False) (map (\<lambda>v. num_floor (to_number v)) vs)
        in if ids = [] then Arr [jn 1] else Arr (map Num ids))
     | _ \<Rightarrow> Arr [jn 1])"

definition conn_modbus_server :: "block list" where
  "conn_modbus_server = [
     ([''MODBUS_SERVER''],
       [dflt ''connectionMode'' (Str ''TCP Passive''), dflt_floor ''maxClientConnections'' (jn 8),
        dflt ''clientIdleTimeoutMs'' (jn 60000),
        Norm ''serverUnitIds'' ''serverUnitIds'' (\<lambda>_. Arr [jn 1]) (\<lambda>_. unit_ids),
        dflt ''strictUnitId'' (Bool False), dflt ''serveUnmappedAsZero'' (Bool False),
        dflt ''invalidValuePolicy'' (Str ''last''), dflt ''allowWritesToSupervised'' (Bool False)])]"

definition conn_blocks :: "string \<Rightarrow> string \<Rightarrow> block list" where
  "conn_blocks clsid1 clsid2 = conn_bind @ conn_common @ conn_mqtt @ conn_iccp_onvif @ conn_opc clsid1 clsid2 @ conn_iec @
     conn_certs @ conn_dnp3 @ conn_serial @ conn_modbus_shared @ conn_modbus @ conn_modbus_server"

text \<open>The body as it is stored.\<close>

definition conn_defaults :: "string \<Rightarrow> string \<Rightarrow> doc \<Rightarrow> doc" where
  "conn_defaults clsid1 clsid2 b =
     run_blocks (conn_blocks clsid1 clsid2)
       (aupd ''protocolConnectionNumber'' (js_floor (fld b ''protocolConnectionNumber''))
          (aupd ''protocolDriverInstanceNumber'' (js_floor (fld b ''protocolDriverInstanceNumber'')) b))"

end
