(* ===== verification/ConnLaws.thy ===== *)
theory ConnLaws
  imports Connections "HOL-Library.Sublist"
begin

text \<open>
  Laws of the defaults of a connection: the steps of one driver write distinct fields, each
  step is stable on what it wrote, and therefore the document stored is a fixed point of the
  handler, keeps what was configured and holds every field the driver requires.
\<close>

section \<open>General laws of the steps\<close>

fun step_chk :: "step \<Rightarrow> string" where
  "step_chk (Dflt c k v) = c" | "step_chk (Norm c k v f) = c"

fun step_key :: "step \<Rightarrow> string" where
  "step_key (Dflt c k v) = k" | "step_key (Norm c k v f) = k"

lemma fld_apply_other: "k \<noteq> step_key s \<Longrightarrow> fld (apply_step s b) k = fld b k"
  by (cases s) auto

lemma has_key_apply_other: "k \<noteq> step_key s \<Longrightarrow> has_key k (apply_step s b) = has_key k b"
  by (cases s) auto

lemma has_key_apply_mono: "has_key k b \<Longrightarrow> has_key k (apply_step s b)"
  by (cases s) auto

lemma fld_run_other: "k \<notin> set (map step_key ss) \<Longrightarrow> fld (run_steps ss b) k = fld b k"
  unfolding run_steps_def by (induction ss arbitrary: b) (auto simp: fld_apply_other)

lemma has_key_run_other: "k \<notin> set (map step_key ss) \<Longrightarrow> has_key k (run_steps ss b) = has_key k b"
  unfolding run_steps_def by (induction ss arbitrary: b) (auto simp: has_key_apply_other)

lemma has_key_run_mono: "has_key k b \<Longrightarrow> has_key k (run_steps ss b)"
  unfolding run_steps_def by (induction ss arbitrary: b) (auto simp: has_key_apply_mono)

lemma run_steps_Cons [simp]: "run_steps (s # ss) b = run_steps ss (apply_step s b)"
  and run_steps_Nil [simp]: "run_steps [] b = b"
  and run_steps_append: "run_steps (ss @ ts) b = run_steps ts (run_steps ss b)"
  by (simp_all add: run_steps_def)

lemma aupd_same: "has_key k b \<Longrightarrow> aupd k (fld b k) b = b"
  by (induction b) (auto simp: fld_def)

text \<open>The steps that run for a driver, in order, and their names.\<close>

definition active :: "jsval \<Rightarrow> block list \<Rightarrow> step list" where
  "active d ps = concat (map (\<lambda>p. case d of Str s \<Rightarrow> if s \<in> set (fst p) then snd p else [] | _ \<Rightarrow> []) ps)"

definition step_names :: "step \<Rightarrow> string \<times> string" where
  "step_names s = (step_chk s, step_key s)"

definition block_names :: "block list \<Rightarrow> (string list \<times> (string \<times> string) list) list" where
  "block_names ps = map (\<lambda>p. (fst p, map step_names (snd p))) ps"

definition active_names :: "string \<Rightarrow> (string list \<times> (string \<times> string) list) list \<Rightarrow> (string \<times> string) list" where
  "active_names d t = concat (map snd (filter (\<lambda>p. d \<in> set (fst p)) t))"

lemma active_names: "map step_names (active (Str d) ps) = active_names d (block_names ps)"
  by (induction ps) (auto simp: active_def active_names_def block_names_def)

lemma run_block_driver:
  "''protocolDriver'' \<notin> set (map step_key (snd p)) \<Longrightarrow> driver_of (run_block p b) = driver_of b"
  by (simp add: run_block_def driver_of_def fld_run_other)

lemma run_blocks_active:
  assumes "list_all (\<lambda>p. ''protocolDriver'' \<notin> set (map step_key (snd p))) ps"
  shows "run_blocks ps b = run_steps (active (driver_of b) ps) b"
  using assms
proof (induction ps arbitrary: b)
  case Nil show ?case by (simp add: run_blocks_def active_def)
next
  case (Cons p ps)
  have "run_blocks (p # ps) b = run_blocks ps (run_block p b)" by (simp add: run_blocks_def)
  also have "\<dots> = run_steps (active (driver_of b) ps) (run_block p b)"
    using Cons run_block_driver[of p b] by simp
  also have "\<dots> = run_steps (active (driver_of b) (p # ps)) b"
    by (simp add: active_def run_block_def driver_in_def run_steps_append split: jsval.split)
  finally show ?case .
qed

text \<open>A step whose effect is stable on documents of one driver: normalising twice is the same
  as once, and the default value is normal.\<close>

fun stable :: "step \<Rightarrow> bool" where
  "stable (Dflt c k v) = (c = k \<or> (\<forall>b b'. driver_of b = driver_of b' \<longrightarrow> v b = v b'))"
| "stable (Norm c k v f) = ((\<forall>b b'. driver_of b = driver_of b' \<longrightarrow> v b = v b') \<and>
     (\<forall>b b' x. driver_of b = driver_of b' \<longrightarrow> f b' (f b x) = f b x \<and> f b' (v b) = v b))"

definition settled :: "step \<Rightarrow> doc \<Rightarrow> bool" where
  "settled s b = (case s of
     Dflt c k v \<Rightarrow> has_key c b \<or> has_key k b \<and> fld b k = v b
   | Norm c k v f \<Rightarrow> has_key k b \<and> fld b k = (if has_key c b then f b (fld b k) else v b))"

lemma stable_Dflt: "stable (Dflt c k v) \<Longrightarrow> c \<noteq> k \<Longrightarrow> driver_of b = driver_of b' \<Longrightarrow> v b = v b'"
  unfolding stable.simps by blast

lemma stable_Norm: "stable (Norm c k v f) \<Longrightarrow> driver_of b = driver_of b' \<Longrightarrow> v b = v b'"
  unfolding stable.simps by blast

lemma stable_norm1: "stable (Norm c k v f) \<Longrightarrow> driver_of b = driver_of b' \<Longrightarrow> f b' (f b x) = f b x"
  unfolding stable.simps by blast

lemma stable_norm2: "stable (Norm c k v f) \<Longrightarrow> driver_of b = driver_of b' \<Longrightarrow> f b' (v b) = v b"
  unfolding stable.simps by blast

declare stable.simps [simp del]

lemma settled_apply: "settled s b \<Longrightarrow> apply_step s b = b"
proof (cases s)
  case (Norm c k v f)
  assume s: "settled s b"
  then have "has_key k b" "apply_step s b = aupd k (fld b k) b"
    using Norm by (auto simp: settled_def split: if_splits)
  then show ?thesis by (simp add: aupd_same)
next
  case (Dflt c k v)
  assume "settled s b"
  then show ?thesis using Dflt aupd_same[of k b] by (auto simp: settled_def)
qed

lemma apply_settled:
  assumes "stable s" "step_key s \<noteq> ''protocolDriver''"
  shows "settled s (apply_step s b)"
proof -
  have d: "driver_of (aupd (step_key s) v b) = driver_of b" for v using assms(2) by (simp add: driver_of_def)
  show ?thesis
  proof (cases s)
    case (Dflt c k v)
    show ?thesis
    proof (cases "c = k")
      case True then show ?thesis using Dflt by (simp add: settled_def)
    next
      case False
      then have "v (aupd k (v b) b) = v b" using assms(1) d[of "v b"] Dflt stable_Dflt by simp
      then show ?thesis using Dflt by (simp add: settled_def)
    qed
  next
    case (Norm c k v f)
    note st = assms(1)[unfolded Norm] and dr = d[unfolded Norm step_key.simps]
    have v: "v (aupd k x b) = v b" for x using stable_Norm[OF st dr] .
    have f: "f (aupd k x b) (f b y) = f b y" "f (aupd k x b) (v b) = v b" for x y
      using stable_norm1[OF st dr[symmetric]] stable_norm2[OF st dr[symmetric]] by blast+
    show ?thesis
    proof (cases "has_key c b")
      case True then show ?thesis by (simp add: Norm settled_def f)
    next
      case False then show ?thesis by (simp add: Norm settled_def f v)
    qed
  qed
qed

lemma settled_other:
  assumes "settled s b" "stable s" "step_key t \<noteq> step_key s" "step_key t \<noteq> step_chk s"
    and "step_key t \<noteq> ''protocolDriver''"
  shows "settled s (apply_step t b)"
proof -
  have d: "driver_of (apply_step t b) = driver_of b" using assms(5) by (simp add: driver_of_def fld_apply_other)
  show ?thesis
  proof (cases s)
    case (Dflt c k v)
    have eq: "has_key c (apply_step t b) = has_key c b" "has_key k (apply_step t b) = has_key k b"
      "fld (apply_step t b) k = fld b k"
      using assms(3,4) Dflt by (simp_all add: fld_apply_other has_key_apply_other)
    show ?thesis
    proof (cases "c = k")
      case True then show ?thesis using assms(1) eq Dflt by (auto simp: settled_def)
    next
      case False
      then have "v (apply_step t b) = v b" using assms(2) d Dflt stable_Dflt by simp
      then show ?thesis using assms(1) eq Dflt by (simp add: settled_def)
    qed
  next
    case (Norm c k v f)
    have eq: "has_key c (apply_step t b) = has_key c b" "has_key k (apply_step t b) = has_key k b"
      "fld (apply_step t b) k = fld b k"
      using assms(3,4) Norm by (simp_all add: fld_apply_other has_key_apply_other)
    note st = assms(2)[unfolded Norm]
    have v: "v (apply_step t b) = v b" using stable_Norm[OF st d] .
    have f: "f (apply_step t b) (f b x) = f b x" for x using stable_norm1[OF st d[symmetric]] .
    have s1: "has_key k b" "fld b k = (if has_key c b then f b (fld b k) else v b)"
      using assms(1) Norm by (simp_all add: settled_def)
    show ?thesis
    proof (cases "has_key c b")
      case True
      then have "fld b k = f b (fld b k)" using s1(2) by (simp only: if_True)
      then have "f (apply_step t b) (fld b k) = fld b k" using f[of "fld b k"] by metis
      then show ?thesis by (simp add: Norm settled_def eq s1(1) True)
    next
      case False
      then have "fld b k = v b" using s1(2) by (simp only: if_False)
      then show ?thesis by (simp add: Norm settled_def eq s1(1) False v)
    qed
  qed
qed

text \<open>No name is written twice, nor tested after it and written later, nor is the driver written.\<close>

fun names_ok :: "'a \<Rightarrow> ('a \<times> 'a) list \<Rightarrow> bool" where
  "names_ok d [] = True"
| "names_ok d (p # ps) = (list_all (\<lambda>q. fst p \<noteq> snd q \<and> snd p \<noteq> snd q) ps \<and> snd p \<noteq> d \<and> names_ok d ps)"

lemma names_ok_map: "names_ok (f d) (map (map_prod f f) ps) \<Longrightarrow> names_ok d ps"
  by (induction ps) (auto simp: list_all_iff)

lemma names_ok_subseq: "subseq xs ys \<Longrightarrow> names_ok d ys \<Longrightarrow> names_ok d xs"
proof (induction rule: list_emb.induct)
  case (list_emb_Cons2 x y xs ys)
  have "set xs \<subseteq> set ys" using list_emb_Cons2(2) by (auto dest: list_emb_set)
  then show ?case using list_emb_Cons2 by (auto simp: list_all_iff)
qed auto

lemma settled_run:
  assumes "settled s b" "stable s"
    and "step_key s \<notin> set (map step_key ts)" "step_chk s \<notin> set (map step_key ts)" "''protocolDriver'' \<notin> set (map step_key ts)"
  shows "settled s (run_steps ts b)"
  using assms
proof (induction ts arbitrary: b)
  case (Cons t ts)
  have "settled s (apply_step t b)" by (rule settled_other) (use Cons.prems in auto)
  then show ?case using Cons by simp
qed simp

lemma run_steps_settled:
  assumes "names_ok ''protocolDriver'' (map step_names ss)" "list_all stable ss"
  shows "list_all (\<lambda>s. settled s (run_steps ss b)) ss"
  using assms
proof (induction ss arbitrary: b)
  case (Cons s ss)
  have pd: "''protocolDriver'' \<notin> set (map step_key ss)"
    using Cons.prems(1) by (induction ss) (auto simp: step_names_def)
  have "settled s (run_steps ss (apply_step s b))"
    using Cons.prems pd by (intro settled_run apply_settled) (auto simp: step_names_def list_all_iff)
  then show ?case using Cons by simp
qed simp

lemma settled_run_steps: "list_all (\<lambda>s. settled s b) ss \<Longrightarrow> run_steps ss b = b"
  by (induction ss) (auto simp: settled_apply)

lemma run_steps_idem:
  assumes "names_ok ''protocolDriver'' (map step_names ss)" "list_all stable ss"
  shows "run_steps ss (run_steps ss b) = run_steps ss b"
  using settled_run_steps[OF run_steps_settled[OF assms]] .

section \<open>The table of the handler\<close>

lemmas conn_block_defs = conn_bind_def conn_common_def conn_mqtt_def conn_iccp_onvif_def conn_opc_def conn_iec_def
  conn_certs_def conn_dnp3_def conn_serial_def conn_modbus_shared_def conn_modbus_def conn_modbus_server_def

definition conn_names :: "(string list \<times> (string \<times> string) list) list" where
  "conn_names = block_names (conn_blocks [] [])"

lemma block_names_conn: "block_names (conn_blocks c1 c2) = conn_names"
  by (simp add: conn_names_def conn_blocks_def block_names_def conn_opc_def step_names_def)

text \<open>To compare the names quickly they are hashed to small numbers; equal names have equal
  hashes, which is all the argument needs.\<close>

definition name_hash :: "string \<Rightarrow> int" where
  "name_hash s = foldl (\<lambda>h c. h + h + h + of_char c) 7 s"

definition hash_table :: "(string list \<times> (string \<times> string) list) list \<Rightarrow> (int list \<times> (int \<times> int) list) list" where
  "hash_table t = map (\<lambda>p. (map name_hash (fst p), map (map_prod name_hash name_hash) (snd p))) t"

definition active_hashes :: "int \<Rightarrow> (int list \<times> (int \<times> int) list) list \<Rightarrow> (int \<times> int) list" where
  "active_hashes d t = concat (map snd (filter (\<lambda>p. List.member (fst p) d) t))"

definition table_ok :: "int \<Rightarrow> (int list \<times> (int \<times> int) list) list \<Rightarrow> bool" where
  "table_ok d t = list_all (\<lambda>x. names_ok d (active_hashes x t)) (remdups (concat (map fst t)))"

lemma conn_table_ok: "table_ok (name_hash ''protocolDriver'') (hash_table conn_names)"
  by code_simp

lemma table_ok_names:
  assumes "table_ok (name_hash d0) (hash_table t)" shows "names_ok d0 (active_names d t)"
proof -
  let ?h = "map_prod name_hash name_hash"
  have sub: "subseq (map ?h (active_names d t)) (active_hashes (name_hash d) (hash_table t))"
    by (induction t) (auto simp: active_names_def active_hashes_def hash_table_def List.member_iff
        intro: list_emb_append_mono subseq_drop_many)
  have "names_ok (name_hash d0) (active_hashes (name_hash d) (hash_table t))"
  proof (cases "name_hash d \<in> set (concat (map fst (hash_table t)))")
    case True then show ?thesis using assms by (auto simp: table_ok_def list_all_iff)
  next
    case False
    then have "filter (\<lambda>p. List.member (fst p) (name_hash d)) (hash_table t) = []"
      by (auto simp: filter_empty_conv List.member_iff)
    then show ?thesis by (simp add: active_hashes_def)
  qed
  then have "names_ok (name_hash d0) (map ?h (active_names d t))" by (rule names_ok_subseq[OF sub])
  then show ?thesis by (rule names_ok_map)
qed

lemma conn_names_ok: "names_ok ''protocolDriver'' (map step_names (active v (conn_blocks c1 c2)))"
proof (cases v)
  case (Str d)
  then show ?thesis using table_ok_names[OF conn_table_ok] by (simp add: active_names block_names_conn)
qed (simp_all add: active_def concat_eq_Nil_conv[THEN iffD2])

lemma names_ok_driver: "names_ok d ps \<Longrightarrow> d \<notin> set (map snd ps)"
  by (induction ps) auto

lemma conn_driver_kept: "list_all (\<lambda>p. ''protocolDriver'' \<notin> set (map step_key (snd p))) (conn_blocks c1 c2)"
  by (simp add: conn_blocks_def conn_block_defs)

lemma conn_run: "run_blocks (conn_blocks c1 c2) b = run_steps (active (driver_of b) (conn_blocks c1 c2)) b"
  using run_blocks_active[OF conn_driver_kept] .

section \<open>Stability of the steps\<close>

lemma num_floor_idem [simp]: "num_floor (num_floor x) = num_floor x"
  by (cases x) auto

lemma num_floor_num [simp]: "num_floor (num i) = num i"
  by (simp add: num_def)

lemma js_floor_idem: "js_floor (js_floor v) = js_floor v" and js_floor_num: "js_floor (Num (num i)) = Num (num i)"
  by (simp_all add: js_floor_def)

lemma stable_dflt: "stable (Dflt k k v)"
  by (simp add: stable.simps)

lemma stable_const: "stable (Dflt c k (\<lambda>_. v))"
  by (simp add: stable.simps)

lemma stable_floor: "stable (Norm c k (\<lambda>_. Num (num i)) (\<lambda>_. js_floor))"
  by (simp add: stable.simps js_floor_idem js_floor_num)

lemma stable_floor_104: "stable (Norm c k (\<lambda>b. if is_104 b then Num (num i) else Num (num j)) (\<lambda>_. js_floor))"
  by (auto simp: stable.simps js_floor_idem js_floor_num is_104_def driver_in_def)

lemma default_bind_driver: "driver_of b = driver_of b' \<Longrightarrow> default_bind b = default_bind b'"
  by (simp add: default_bind_def)

lemma default_bind_nonempty: "\<not> loose_eq (default_bind b) (Str [])"
proof -
  have e: "loose_eq (Str s) (Str []) \<longleftrightarrow> s = []" for s by (simp add: loose_eq_def nullish_def to_prim_def)
  show ?thesis
    by (cases "driver_of b") (simp_all add: default_bind_def e if_distrib[of "\<lambda>x. x = []"] del: if_cancel)
qed

lemma stable_bind:
  "stable (Norm c k default_bind (\<lambda>b v. if loose_eq v (Str []) then default_bind b else v))"
  unfolding stable.simps
proof (intro conjI allI impI)
  fix b b' x assume d: "driver_of b = driver_of b'"
  note e = default_bind_driver[OF d]
  show "default_bind b = default_bind b'" by (rule e)
  show "(if loose_eq (if loose_eq x (Str []) then default_bind b else x) (Str []) then default_bind b'
      else if loose_eq x (Str []) then default_bind b else x) = (if loose_eq x (Str []) then default_bind b else x)"
    by (cases "loose_eq x (Str [])") (simp_all add: e default_bind_nonempty)
  show "(if loose_eq (default_bind b) (Str []) then default_bind b' else default_bind b) = default_bind b"
    by (simp add: default_bind_nonempty)
qed

lemma clamp_cases:
  assumes "lo \<le> hi"
  shows "js_clamp lo hi v = Num NaN \<or> (\<exists>i. lo \<le> i \<and> i \<le> hi \<and> js_clamp lo hi v = Num (num i))"
proof (cases "num_floor (to_number v)")
  case NaN then show ?thesis by (simp add: js_clamp_def num_min_def num_max_def)
next
  case (Infty s)
  then show ?thesis using assms by (cases s) (auto simp: js_clamp_def num_min_def num_max_def num_def)
next
  case (Fin q)
  then obtain i where "num_floor (to_number v) = num i" by (cases "to_number v") (auto simp: num_def)
  then show ?thesis using assms by (auto simp: js_clamp_def num_min_def num_max_def)
qed

lemma js_clamp_num: "lo \<le> i \<Longrightarrow> i \<le> hi \<Longrightarrow> js_clamp lo hi (Num (num i)) = Num (num i)"
  by (auto simp: js_clamp_def num_min_def num_max_def)

lemma js_clamp_NaN: "js_clamp lo hi (Num NaN) = Num NaN"
  by (simp add: js_clamp_def num_min_def num_max_def)

lemma stable_clamp:
  assumes "lo \<le> i" "i \<le> hi"
  shows "stable (Norm c k (\<lambda>_. Num (num i)) (\<lambda>_. js_clamp lo hi))"
proof -
  have "js_clamp lo hi (js_clamp lo hi x) = js_clamp lo hi x" for x
    using clamp_cases[of lo hi x] assms by (auto simp: js_clamp_num js_clamp_NaN)
  then show ?thesis using assms by (simp add: stable.simps js_clamp_num)
qed

lemma stable_gap: "stable (Norm c k (\<lambda>_. Num (num 8)) (\<lambda>_ v. Num (num_max (num 0) (num_floor (to_number v)))))"
proof -
  have "num_max (num 0) (num_floor (num_max (num 0) (num_floor x))) = num_max (num 0) (num_floor x)" for x
    by (cases x) (auto simp: num_max_def num_def)
  then show ?thesis by (auto simp: stable.simps num_max_def)
qed

definition unit_id :: "jsnum \<Rightarrow> bool" where
  "unit_id x \<longleftrightarrow> (\<exists>i. 0 \<le> i \<and> i \<le> 255 \<and> x = num i)"

lemma unit_ids_form: "\<exists>ids. ids \<noteq> [] \<and> list_all unit_id ids \<and> unit_ids v = Arr (map Num ids)"
proof -
  have one: "\<exists>ids. ids \<noteq> [] \<and> list_all unit_id ids \<and> Arr [Num (num 1)] = Arr (map Num ids)"
    by (rule exI[of _ "[num 1]"]) (simp add: unit_id_def)
  show ?thesis
  proof (cases v)
    case (Arr vs)
    let ?ids = "filter (\<lambda>x. case x of Fin q \<Rightarrow> 0 \<le> q \<and> q \<le> 255 | _ \<Rightarrow> False) (map (\<lambda>v. num_floor (to_number v)) vs)"
    show ?thesis
    proof (cases "?ids = []")
      case True then show ?thesis using one Arr by (simp only: unit_ids_def jsval.case Let_def if_True simp_thms)
    next
      case False
      have "unit_id x" if "x \<in> set ?ids" for x
      proof -
        from that obtain w q where w: "x = num_floor (to_number w)" and q: "x = Fin q" "0 \<le> q" "q \<le> 255"
          by (auto split: jsnum.splits)
        obtain i where i: "x = num i" using w q(1) by (cases "to_number w") (auto simp: num_def)
        then have "0 \<le> i" "i \<le> 255" using q by (auto simp: num_def)
        then show ?thesis using i by (auto simp: unit_id_def)
      qed
      then show ?thesis using False Arr
        by (intro exI[of _ ?ids]) (simp only: unit_ids_def jsval.case Let_def if_False list_all_iff, blast)
    qed
  qed (use one in \<open>simp_all add: unit_ids_def\<close>)
qed

lemma unit_ids_id:
  assumes "ids \<noteq> []" "list_all unit_id ids" shows "unit_ids (Arr (map Num ids)) = Arr (map Num ids)"
proof -
  have "map ((\<lambda>v. num_floor (to_number v)) \<circ> Num) ids = ids"
    using assms(2) by (intro map_idI) (auto simp: list_all_iff unit_id_def)
  moreover have "filter (\<lambda>x. case x of Fin q \<Rightarrow> 0 \<le> q \<and> q \<le> 255 | _ \<Rightarrow> False) ids = ids"
    using assms(2) by (intro filter_True) (auto simp: list_all_iff unit_id_def num_def)
  ultimately show ?thesis using assms(1) by (simp add: unit_ids_def)
qed

lemma stable_units: "stable (Norm c k (\<lambda>_. Arr [Num (num 1)]) (\<lambda>_. unit_ids))"
proof -
  have "unit_ids (Arr [Num (num 1)]) = Arr [Num (num 1)]"
    using unit_ids_id[of "[num 1]"] by (simp add: unit_id_def)
  moreover have "unit_ids (unit_ids x) = unit_ids x" for x
    using unit_ids_form[of x] unit_ids_id by metis
  ultimately show ?thesis by (simp add: stable.simps)
qed

lemmas stable_steps = stable_dflt stable_const stable_floor stable_floor_104 stable_bind stable_gap stable_units

lemma conn_stable: "list_all (\<lambda>p. list_all stable (snd p)) (conn_blocks c1 c2)"
  by (simp add: conn_blocks_def conn_block_defs stable_steps stable_clamp)

lemma active_stable: "list_all stable (active d (conn_blocks c1 c2))"
  using conn_stable[of c1 c2] by (auto simp: active_def list_all_iff split: jsval.splits if_splits)

section \<open>What the handler stores\<close>

lemma conn_defaults_run:
  "conn_defaults c1 c2 b = run_steps (active (driver_of b) (conn_blocks c1 c2))
     (aupd ''protocolConnectionNumber'' (js_floor (fld b ''protocolConnectionNumber''))
       (aupd ''protocolDriverInstanceNumber'' (js_floor (fld b ''protocolDriverInstanceNumber'')) b))"
  by (simp add: conn_defaults_def conn_run driver_of_def)

lemma active_in: "s \<in> set (active v ps) \<longleftrightarrow> (\<exists>d p. v = Str d \<and> p \<in> set ps \<and> d \<in> set (fst p) \<and> s \<in> set (snd p))"
proof (cases v)
  case (Str d)
  have "s \<in> set (active (Str d) ps) \<longleftrightarrow> (\<exists>p \<in> set ps. d \<in> set (fst p) \<and> s \<in> set (snd p))"
    unfolding active_def by (auto split: if_splits)
  then show ?thesis unfolding Str by blast
qed (simp_all add: active_def)

lemma active_mem: "p \<in> set ps \<Longrightarrow> d \<in> set (fst p) \<Longrightarrow> s \<in> set (snd p) \<Longrightarrow> s \<in> set (active (Str d) ps)"
  unfolding active_in by blast

lemma active_key_free:
  assumes "list_all (\<lambda>p. k \<notin> set (map step_key (snd p))) ps" shows "k \<notin> set (map step_key (active v ps))"
proof
  assume "k \<in> set (map step_key (active v ps))"
  then obtain s where "s \<in> set (active v ps)" "k = step_key s" by auto
  then obtain d p where "p \<in> set ps" "s \<in> set (snd p)" unfolding active_in by blast
  then show False using assms \<open>k = step_key s\<close> unfolding list_all_iff by auto
qed

lemma conn_head_free:
  "''protocolConnectionNumber'' \<notin> set (map step_key (active v (conn_blocks c1 c2)))"
  "''protocolDriverInstanceNumber'' \<notin> set (map step_key (active v (conn_blocks c1 c2)))"
  "''protocolDriver'' \<notin> set (map step_key (active v (conn_blocks c1 c2)))"
  by (intro active_key_free; simp add: conn_blocks_def conn_block_defs)+

lemma conn_defaults_driver: "driver_of (conn_defaults c1 c2 b) = driver_of b"
  unfolding conn_defaults_run driver_of_def by (simp add: fld_run_other[OF conn_head_free(3)])

lemma conn_defaults_settled:
  "s \<in> set (active (driver_of b) (conn_blocks c1 c2)) \<Longrightarrow> settled s (conn_defaults c1 c2 b)"
  using run_steps_settled[OF conn_names_ok active_stable] by (auto simp: conn_defaults_run list_all_iff)

text \<open>The blocks for two draws of the identifiers differ in steps that keep what is there.\<close>

lemma conn_opc_fixed: "butlast (conn_opc c1 c2) = butlast (conn_opc c3 c4)"
  by (simp add: conn_opc_def)

lemma conn_opc_ne: "conn_opc c1 c2 \<noteq> []"
  by (simp add: conn_opc_def)

lemma set_butlast_last: "xs \<noteq> [] \<Longrightarrow> x \<in> set xs \<Longrightarrow> x \<in> set (butlast xs) \<or> x = last xs"
  by (induction xs) auto

lemma settled_other_draw:
  assumes "s \<in> set (active v (conn_blocks c1 c2))" "\<And>s. s \<in> set (active v (conn_blocks c3 c4)) \<Longrightarrow> settled s b"
  shows "settled s b"
proof -
  obtain d p where p: "v = Str d" "p \<in> set (conn_blocks c1 c2)" "d \<in> set (fst p)" "s \<in> set (snd p)"
    using assms(1) by (auto simp: active_in)
  show ?thesis
  proof (cases "p \<in> set (conn_blocks c3 c4)")
    case True then show ?thesis using assms(2) p active_mem by metis
  next
    case False
    have "p \<in> set (conn_opc c1 c2)" "p \<notin> set (butlast (conn_opc c3 c4))"
      using p(2) False in_set_butlastD[of p "conn_opc c3 c4"] by (auto simp: conn_blocks_def)
    then have "p = last (conn_opc c1 c2)"
      using conn_opc_fixed[of c1 c2 c3 c4] set_butlast_last[OF conn_opc_ne, of p c1 c2] by simp
    then have d: "d = ''OPC-DA_SERVER''" and s: "s \<in> set (snd (last (conn_opc c1 c2)))"
      using p by (simp_all add: conn_opc_def)
    have last_in: "last (conn_opc c3 c4) \<in> set (conn_blocks c3 c4)" "''OPC-DA_SERVER'' \<in> set (fst (last (conn_opc c3 c4)))"
      using last_in_set[OF conn_opc_ne[of c3 c4]] by (simp_all add: conn_blocks_def) (simp add: conn_opc_def)
    have "settled s' b" if "s' \<in> set (snd (last (conn_opc c3 c4)))" for s'
      using assms(2)[of s'] active_mem[OF last_in that] p(1) d by simp
    then have hk: "has_key k b" if "Dflt k k v' \<in> set (snd (last (conn_opc c3 c4)))" for k v'
      using that by (force simp: settled_def)
    obtain k v' where k: "s = Dflt k k v'" "k \<in> set (map step_key (snd (last (conn_opc c1 c2))))"
      using s by (auto simp: conn_opc_def)
    have "map step_key (snd (last (conn_opc c1 c2))) = map step_key (snd (last (conn_opc c3 c4)))"
      by (simp add: conn_opc_def)
    moreover have "\<exists>v'. Dflt k k v' \<in> set (snd (last (conn_opc c3 c4)))"
      if "k \<in> set (map step_key (snd (last (conn_opc c3 c4))))" for k
      using that by (auto simp: conn_opc_def)
    ultimately have "has_key k b" using k(2) hk by metis
    then show ?thesis by (simp add: k(1) settled_def)
  qed
qed

text \<open>Storing a connection is idempotent: the body that was stored is a fixed point, so
  editing a connection without changing it (and whatever identifiers are drawn the second
  time) stores the same document, for every driver.\<close>

theorem conn_defaults_idempotent:
  "conn_defaults c1 c2 (conn_defaults c3 c4 b) = conn_defaults c3 c4 b"
proof -
  let ?r = "conn_defaults c3 c4 b"
  have head: "fld ?r k = js_floor (fld b k)" "has_key k ?r"
    if "k = ''protocolConnectionNumber'' \<or> k = ''protocolDriverInstanceNumber''" for k
    using that conn_head_free
    by (auto simp: conn_defaults_run fld_run_other has_key_run_other)
  have up: "aupd k (js_floor (fld ?r k)) ?r = ?r" if "k = ''protocolConnectionNumber'' \<or> k = ''protocolDriverInstanceNumber''" for k
    using head[OF that] aupd_same[of k ?r] by (simp add: js_floor_idem)
  have "conn_defaults c1 c2 ?r = run_steps (active (driver_of ?r) (conn_blocks c1 c2)) ?r"
    unfolding conn_defaults_run[of c1 c2 ?r] by (simp add: up)
  moreover have "list_all (\<lambda>s. settled s ?r) (active (driver_of ?r) (conn_blocks c1 c2))"
    unfolding list_all_iff conn_defaults_driver
    using settled_other_draw[of _ "driver_of b" c1 c2 c3 c4 ?r] conn_defaults_settled by blast
  ultimately show ?thesis by (simp add: settled_run_steps)
qed

definition normalised_keys :: "string list" where
  "normalised_keys = [''protocolConnectionNumber'', ''protocolDriverInstanceNumber'', ''ipAddressLocalBind'', ''localApTitle'',
     ''remoteApTitle'', ''localLinkAddress'', ''remoteLinkAddress'', ''sizeOfCOT'', ''sizeOfCA'', ''sizeOfIOA'',
     ''maxClientConnections'', ''maxQueueSize'', ''baudRate'', ''sizeOfLinkAddress'', ''maxRetries'', ''maxReadRegisters'',
     ''maxReadCoils'', ''maxAddressGap'', ''serverUnitIds'']"

fun keeps :: "step \<Rightarrow> bool" where
  "keeps (Dflt c k v) = (c = k)" | "keeps (Norm c k v f) = False"

lemma fld_run_keeps:
  assumes "list_all (\<lambda>s. keeps s \<or> step_key s \<noteq> k) ss" "has_key k b"
  shows "fld (run_steps ss b) k = fld b k"
  using assms
proof (induction ss arbitrary: b)
  case (Cons s ss)
  have "fld (apply_step s b) k = fld b k" using Cons.prems by (cases s) auto
  then show ?case using Cons has_key_apply_mono[of k b s] by simp
qed simp

lemma conn_keeps: "list_all (\<lambda>p. list_all (\<lambda>s. if keeps s then True else step_key s \<in> set normalised_keys) (snd p)) (conn_blocks c1 c2)"
  by (simp add: conn_blocks_def conn_block_defs normalised_keys_def)

text \<open>What was configured is kept: a field present in the body, other than the nineteen that
  are rounded, clamped or rewritten, is stored as it was sent, and a field the driver
  requires is present in what is stored.\<close>

theorem conn_defaults_keep_and_complete:
  shows "(has_key k b \<and> k \<notin> set normalised_keys \<longrightarrow> fld (conn_defaults c1 c2 b) k = fld b k) \<and>
     (driver_of b = Str d \<and> (k, k) \<in> set (active_names d conn_names) \<longrightarrow> has_key k (conn_defaults c1 c2 b))"
proof (intro conjI impI; elim conjE)
  assume k: "has_key k b" "k \<notin> set normalised_keys"
  have "list_all (\<lambda>s. keeps s \<or> step_key s \<noteq> k) (active (driver_of b) (conn_blocks c1 c2))"
    unfolding list_all_iff
  proof
    fix s assume "s \<in> set (active (driver_of b) (conn_blocks c1 c2))"
    then obtain p where "p \<in> set (conn_blocks c1 c2)" "s \<in> set (snd p)" unfolding active_in by blast
    then show "keeps s \<or> step_key s \<noteq> k" using conn_keeps[of c1 c2] k(2) unfolding list_all_iff by metis
  qed
  from fld_run_keeps[OF this] k show "fld (conn_defaults c1 c2 b) k = fld b k"
    by (auto simp: conn_defaults_run normalised_keys_def)
next
  assume d: "driver_of b = Str d" and "(k, k) \<in> set (active_names d conn_names)"
  then have "(k, k) \<in> set (map step_names (active (Str d) (conn_blocks c1 c2)))" by (simp add: active_names block_names_conn)
  then obtain s where "s \<in> set (active (Str d) (conn_blocks c1 c2))" "step_chk s = k" "step_key s = k"
    by (auto simp: step_names_def)
  then have "settled s (conn_defaults c1 c2 b)" using conn_defaults_settled[of s b c1 c2] d by simp
  then show "has_key k (conn_defaults c1 c2 b)"
    using \<open>step_chk s = k\<close> \<open>step_key s = k\<close> by (cases s) (auto simp: settled_def)
qed

theorem conn_defaults_keep_and_complete_witness:
  "fld (conn_defaults [] [] [(''protocolDriver'', Str ''MODBUS''), (''timeoutMs'', Num (num 70))]) ''timeoutMs'' = Num (num 70) \<and>
   has_key ''byteOrder32'' (conn_defaults [] [] [(''protocolDriver'', Str ''MODBUS''), (''timeoutMs'', Num (num 70))])"
proof -
  let ?b = "[(''protocolDriver'', Str ''MODBUS''), (''timeoutMs'', Num (num 70))]"
  have "dflt ''byteOrder32'' (Str ''ABCD'') \<in> set (active (Str ''MODBUS'') (conn_blocks [] []))"
    by (rule active_mem[of "conn_modbus_shared ! 0"]) (simp_all add: conn_blocks_def conn_modbus_shared_def)
  then have "(''byteOrder32'', ''byteOrder32'') \<in> set (map step_names (active (Str ''MODBUS'') (conn_blocks [] [])))"
    by (force simp: step_names_def)
  then have m: "(''byteOrder32'', ''byteOrder32'') \<in> set (active_names ''MODBUS'' conn_names)"
    by (simp only: active_names block_names_conn)
  show ?thesis
    using conn_defaults_keep_and_complete[of "''timeoutMs''" ?b "[]" "[]" "''MODBUS''"]
      conn_defaults_keep_and_complete[of "''byteOrder32''" ?b "[]" "[]" "''MODBUS''"] m
    by (simp add: normalised_keys_def driver_of_def)
qed

lemma settled_norm:
  assumes "Norm k k v f \<in> set (active (driver_of b) (conn_blocks c1 c2))"
  shows "fld (conn_defaults c1 c2 b) k = f (conn_defaults c1 c2 b) (fld (conn_defaults c1 c2 b) k)"
proof -
  have s: "has_key k (conn_defaults c1 c2 b) \<and> fld (conn_defaults c1 c2 b) k =
      (if has_key k (conn_defaults c1 c2 b) then f (conn_defaults c1 c2 b) (fld (conn_defaults c1 c2 b) k)
       else v (conn_defaults c1 c2 b))"
    using conn_defaults_settled[OF assms] unfolding settled_def step.case .
  show ?thesis by (rule conjunct2[OF s, unfolded if_P[OF conjunct1[OF s]]])
qed

lemma clamp_form:
  assumes "v = js_clamp lo hi v" "lo \<le> hi"
  shows "\<exists>x. v = Num x \<and> (x = NaN \<or> num lo \<le> x \<and> x \<le> num hi)"
  using clamp_cases[OF assms(2), of v]
proof
  assume "js_clamp lo hi v = Num NaN"
  then have "v = Num NaN" by (rule trans[OF assms(1)])
  then show ?thesis by blast
next
  assume "\<exists>i. lo \<le> i \<and> i \<le> hi \<and> js_clamp lo hi v = Num (num i)"
  then obtain i where i: "lo \<le> i" "i \<le> hi" "js_clamp lo hi v = Num (num i)" by blast
  have "v = Num (num i)" by (rule trans[OF assms(1) i(3)])
  then show ?thesis using i by auto
qed

text \<open>Limits of a Modbus connection: the sizes stored for one read request are within the
  protocol's maximum (1 to 125 registers, 1 to 2000 coils) or not a number, which is what a
  text that is no number becomes; the gap is not negative.\<close>

theorem modbus_request_limits:
  assumes "driver_of b = Str ''MODBUS''"
  shows "(\<exists>x. fld (conn_defaults c1 c2 b) ''maxReadRegisters'' = Num x \<and> (x = NaN \<or> num 1 \<le> x \<and> x \<le> num 125)) \<and>
    (\<exists>x. fld (conn_defaults c1 c2 b) ''maxReadCoils'' = Num x \<and> (x = NaN \<or> num 1 \<le> x \<and> x \<le> num 2000)) \<and>
    (\<exists>x. fld (conn_defaults c1 c2 b) ''maxAddressGap'' = Num x \<and> \<not> x < num 0)"
proof -
  let ?r = "conn_defaults c1 c2 b"
  have blk: "conn_modbus ! 0 \<in> set (conn_blocks c1 c2)" "''MODBUS'' \<in> set (fst (conn_modbus ! 0))"
    by (simp_all add: conn_blocks_def conn_modbus_def)
  have regs: "fld ?r ''maxReadRegisters'' = js_clamp 1 125 (fld ?r ''maxReadRegisters'')"
    by (rule settled_norm[where v = "\<lambda>_. Num (num 125)" and f = "\<lambda>_. js_clamp 1 125"], unfold assms, rule active_mem[OF blk])
       (simp add: conn_modbus_def)
  have coils: "fld ?r ''maxReadCoils'' = js_clamp 1 2000 (fld ?r ''maxReadCoils'')"
    by (rule settled_norm[where v = "\<lambda>_. Num (num 2000)" and f = "\<lambda>_. js_clamp 1 2000"], unfold assms, rule active_mem[OF blk])
       (simp add: conn_modbus_def)
  have gap: "fld ?r ''maxAddressGap'' = Num (num_max (num 0) (num_floor (to_number (fld ?r ''maxAddressGap''))))"
    by (rule settled_norm[where v = "\<lambda>_. Num (num 8)" and f = "\<lambda>_ v. Num (num_max (num 0) (num_floor (to_number v)))"],
        unfold assms, rule active_mem[OF blk]) (simp add: conn_modbus_def)
  have g: "\<not> num_max (num 0) y < num 0" for y
    by (cases y) (auto simp: num_max_def num_def)
  show ?thesis
    using clamp_form[OF regs] clamp_form[OF coils] gap g by auto
qed

theorem modbus_request_limits_witness:
  "\<exists>x. fld (conn_defaults [] [] [(''protocolDriver'', Str ''MODBUS''), (''maxReadRegisters'', Num (num 900))]) ''maxReadRegisters'' = Num x \<and>
     (x = NaN \<or> num 1 \<le> x \<and> x \<le> num 125)"
  using modbus_request_limits[of "[(''protocolDriver'', Str ''MODBUS''), (''maxReadRegisters'', Num (num 900))]" "[]" "[]"]
  by (simp add: driver_of_def)

text \<open>C15. Unit identifiers of a Modbus server: whatever the request sends, what is stored is a
  non-empty array of integers from 0 to 255.\<close>

theorem modbus_server_units:
  assumes "driver_of b = Str ''MODBUS_SERVER''"
  shows "\<exists>ids. fld (conn_defaults c1 c2 b) ''serverUnitIds'' = Arr (map Num ids) \<and> ids \<noteq> [] \<and> list_all unit_id ids"
proof -
  let ?r = "conn_defaults c1 c2 b"
  have blk: "conn_modbus_server ! 0 \<in> set (conn_blocks c1 c2)" "''MODBUS_SERVER'' \<in> set (fst (conn_modbus_server ! 0))"
    by (simp_all add: conn_blocks_def conn_modbus_server_def)
  have "fld ?r ''serverUnitIds'' = unit_ids (fld ?r ''serverUnitIds'')"
    by (rule settled_norm[where v = "\<lambda>_. Arr [Num (num 1)]" and f = "\<lambda>_. unit_ids"], unfold assms, rule active_mem[OF blk])
       (simp add: conn_modbus_server_def)
  then show ?thesis using unit_ids_form[of "fld ?r ''serverUnitIds''"] by metis
qed

theorem modbus_server_units_witness:
  "\<exists>ids. fld (conn_defaults [] [] [(''protocolDriver'', Str ''MODBUS_SERVER''), (''serverUnitIds'', Arr [Num (num 300)])]) ''serverUnitIds'' = Arr (map Num ids) \<and>
     list_all unit_id ids"
  using modbus_server_units[of "[(''protocolDriver'', Str ''MODBUS_SERVER''), (''serverUnitIds'', Arr [Num (num 300)])]" "[]" "[]"]
  by (auto simp: driver_of_def)

text \<open>Two names that do not match: for the serial IEC drivers the baud rate stored is 9600 and
  for the ICCP drivers the application titles stored are the built-in ones, whatever the
  request configured, because the presence tests name other fields (\<open>'baudRate '\<close> with a
  space, \<open>localAppTitle\<close>, \<open>remoteAppTitle\<close>).\<close>

theorem mistyped_names_overwrite:
  shows "(driver_in [''IEC60870-5-101'', ''IEC60870-5-101_SERVER''] b \<and> \<not> has_key ''baudRate '' b \<longrightarrow>
      fld (conn_defaults c1 c2 b) ''baudRate'' = Num (num 9600)) \<and>
    (driver_in [''ICCP'', ''ICCP_SERVER''] b \<and> \<not> has_key ''localAppTitle'' b \<and> \<not> has_key ''remoteAppTitle'' b \<longrightarrow>
      fld (conn_defaults c1 c2 b) ''localApTitle'' = Str ''1.1.998.1'' \<and>
      fld (conn_defaults c1 c2 b) ''remoteApTitle'' = Str ''1.1.999.2'')"
proof -
  let ?r = "conn_defaults c1 c2 b"
  have free: "list_all (\<lambda>p. k \<notin> set (map step_key (snd p))) (conn_blocks c1 c2)"
    if "k = ''baudRate '' \<or> k = ''localAppTitle'' \<or> k = ''remoteAppTitle''" for k
    using that by (elim disjE) (simp_all add: conn_blocks_def conn_block_defs)
  have kept: "has_key k ?r = has_key k b"
    if "k = ''baudRate '' \<or> k = ''localAppTitle'' \<or> k = ''remoteAppTitle''" for k
    using has_key_run_other[OF active_key_free[OF free[OF that]]] that by (auto simp: conn_defaults_run)
  have mem: "s \<in> set (active (driver_of b) (conn_blocks c1 c2))"
    if "driver_in ds b" "p \<in> set (conn_blocks c1 c2)" "fst p = ds" "s \<in> set (snd p)" for ds s p
    using that active_mem by (auto simp: driver_in_def split: jsval.splits)
  show ?thesis
  proof (intro conjI impI; elim conjE)
    assume d: "driver_in [''IEC60870-5-101'', ''IEC60870-5-101_SERVER''] b" and k: "\<not> has_key ''baudRate '' b"
    have "Norm ''baudRate '' ''baudRate'' (\<lambda>_. Num (num 9600)) (\<lambda>_. js_floor) \<in> set (active (driver_of b) (conn_blocks c1 c2))"
      by (rule mem[OF d, of "conn_serial ! 0"]) (simp_all add: conn_blocks_def conn_serial_def)
    from conn_defaults_settled[OF this] show "fld ?r ''baudRate'' = Num (num 9600)"
      using k kept[of "''baudRate ''"] by (simp add: settled_def)
  next
    assume d: "driver_in [''ICCP'', ''ICCP_SERVER''] b" and k: "\<not> has_key ''localAppTitle'' b"
    have "Dflt ''localAppTitle'' ''localApTitle'' (\<lambda>_. Str ''1.1.998.1'') \<in> set (active (driver_of b) (conn_blocks c1 c2))"
      by (rule mem[OF d, of "conn_iccp_onvif ! 0"]) (simp_all add: conn_blocks_def conn_iccp_onvif_def)
    from conn_defaults_settled[OF this] show "fld ?r ''localApTitle'' = Str ''1.1.998.1''"
      using k kept[of "''localAppTitle''"] by (simp add: settled_def)
  next
    assume d: "driver_in [''ICCP'', ''ICCP_SERVER''] b" and k: "\<not> has_key ''remoteAppTitle'' b"
    have "Dflt ''remoteAppTitle'' ''remoteApTitle'' (\<lambda>_. Str ''1.1.999.2'') \<in> set (active (driver_of b) (conn_blocks c1 c2))"
      by (rule mem[OF d, of "conn_iccp_onvif ! 1"]) (simp_all add: conn_blocks_def conn_iccp_onvif_def)
    from conn_defaults_settled[OF this] show "fld ?r ''remoteApTitle'' = Str ''1.1.999.2''"
      using k kept[of "''remoteAppTitle''"] by (simp add: settled_def)
  qed
qed

theorem mistyped_names_overwrite_witness:
  "fld (conn_defaults [] [] [(''protocolDriver'', Str ''IEC60870-5-101''), (''baudRate'', Num (num 19200))]) ''baudRate'' = Num (num 9600)"
  using mistyped_names_overwrite[of "[(''protocolDriver'', Str ''IEC60870-5-101''), (''baudRate'', Num (num 19200))]" "[]" "[]"]
  by (simp add: driver_in_def driver_of_def)

end
