(* ===== verification/Process.thy ===== *)
theory Process
  imports Signin "HOL-Library.Sublist"
begin

text \<open>
  Management of the protocol drivers as services of the operating system
  (\<open>server_realtime_auth/app/services\<close>): the catalog of drivers and the launch
  specification of an instance, the facade that starts, stops and reconciles services, the
  debounced restart scheduler and the cached settings. The service managers (NSSM,
  supervisord) are behind the record \<open>backend\<close>.
\<close>

section \<open>Paths\<close>

record host =
  platform :: string
  installRoot :: string
  nodeBin :: string
  confEnv :: string
  specHash_of :: "string \<Rightarrow> string list \<Rightarrow> string \<Rightarrow> string \<Rightarrow> string"

definition is_win :: "host \<Rightarrow> bool" where
  "is_win h = (platform h = ''win32'')"

definition path_sep :: "host \<Rightarrow> char" where
  "path_sep h = (if is_win h then CHR 0x5C else CHR ''/'')"

definition binDir :: "host \<Rightarrow> string" where "binDir h = installRoot h @ [path_sep h] @ ''bin''"
definition logDir :: "host \<Rightarrow> string" where "logDir h = installRoot h @ [path_sep h] @ ''log''"
definition srcDir :: "host \<Rightarrow> string" where "srcDir h = installRoot h @ [path_sep h] @ ''src''"
definition confDir :: "host \<Rightarrow> string" where "confDir h = installRoot h @ [path_sep h] @ ''conf''"

definition confFile :: "host \<Rightarrow> string" where
  "confFile h = (if confEnv h \<noteq> [] then confEnv h else confDir h @ [path_sep h] @ ''json-scada.json'')"

definition expandPlaceholders :: "host \<Rightarrow> string \<Rightarrow> string" where
  "expandPlaceholders h s =
     replace_all ''{node}'' (nodeBin h) (replace_all ''{confFile}'' (confFile h) (replace_all ''{conf}'' (confDir h)
       (replace_all ''{src}'' (srcDir h) (replace_all ''{bin}'' (binDir h) (replace_all ''{root}'' (installRoot h) s)))))"

text \<open>\<open>path.normalize\<close> of an absolute path: separators of the platform, no empty, \<open>.\<close> or \<open>..\<close>
  segments.\<close>

fun norm_segs :: "string list \<Rightarrow> string list \<Rightarrow> string list" where
  "norm_segs acc [] = rev acc"
| "norm_segs acc (s # ss) = (if s = [] \<or> s = ''.'' then norm_segs acc ss
     else if s = ''..'' then norm_segs (drop 1 acc) ss else norm_segs (s # acc) ss)"

definition normPath :: "host \<Rightarrow> string \<Rightarrow> string" where
  "normPath h p =
     (let q = (if is_win h then map (\<lambda>c. if c = CHR 0x5C then CHR ''/'' else c) p else p);
          segs = norm_segs [] (split_char (CHR ''/'') q);
          body = (case segs of [] \<Rightarrow> [] | s # ss \<Rightarrow> s @ concat (map (\<lambda>t. path_sep h # t) ss))
      in if starts_with ''/'' q then path_sep h # body else body)"

section \<open>Catalog of drivers\<close>

datatype program = Exe string | NodeScript string

record catalog_entry =
  ce_key :: string
  ce_program :: program
  ce_passConfPath :: bool
  ce_platforms :: "string list option"
  ce_startMode :: string

definition entry :: "string \<Rightarrow> program \<Rightarrow> bool \<Rightarrow> string list option \<Rightarrow> string \<Rightarrow> catalog_entry" where
  "entry k p c ps m = \<lparr>ce_key = k, ce_program = p, ce_passConfPath = c, ce_platforms = ps, ce_startMode = m\<rparr>"

definition CATALOG :: "host \<Rightarrow> (string \<times> catalog_entry) list" where
  "CATALOG h = [
     (''IEC60870-5-104'', entry ''iec104client'' (Exe ''{bin}/iec104client'') False None ''auto''),
     (''IEC60870-5-104_SERVER'', entry ''iec104server'' (Exe ''{bin}/iec104server'') False None ''manual''),
     (''IEC60870-5-101'', entry ''iec101client'' (Exe ''{bin}/iec101client'') False None ''manual''),
     (''IEC60870-5-101_SERVER'', entry ''iec101server'' (Exe ''{bin}/iec101server'') False None ''manual''),
     (''DNP3'', entry ''dnp3client'' (Exe ''{bin}/dnp3-client'') False None ''manual''),
     (''DNP3_SERVER'', entry ''dnp3server'' (Exe ''{bin}/dnp3-server'') False None ''manual''),
     (''IEC61850'', entry ''iec61850client'' (Exe ''{bin}/iec61850_client'') False None ''manual''),
     (''IEC61850_SERVER'', entry ''iec61850server'' (Exe ''{bin}/iec61850_server'') False None ''manual''),
     (''ICCP'', entry ''iccpclient'' (Exe ''{bin}/iccp-client'') False None ''manual''),
     (''ICCP_SERVER'', entry ''iccpserver'' (Exe ''{bin}/iccp-server'') False None ''manual''),
     (''MQTT-SPARKPLUG-B'', entry ''mqttsparkplugclient'' (NodeScript ''{src}/mqtt-sparkplug/index.js'') False None ''auto''),
     (''OPC-UA'', entry ''opcuaclient'' (Exe ''{bin}/opcua-client'') False None ''auto''),
     (''OPC-UA_SERVER'', entry ''opcuaserver'' (NodeScript ''{src}/OPC-UA-Server/index.js'') True None ''auto''),
     (''OPC-DA'', entry ''opcdaclient'' (Exe ''{bin}/OPC-DA-Client'') False (Some [''win32'']) ''manual''),
     (''OPC-DA_SERVER'', entry ''opcdaserver'' (Exe ''{bin}/OPC-DA-Server'') False (Some [''win32'']) ''manual''),
     (''PLC4X'', entry ''plc4jclient'' (Exe (if is_win h then ''{bin}/plc4j-client.bat'' else ''{bin}/plc4j-client.sh'')) False None ''manual''),
     (''TELEGRAF-LISTENER'', entry ''telegraf_listener'' (NodeScript ''{src}/telegraf-listener/index.js'') False None ''auto''),
     (''NODE-RED'', entry ''nodered_driver'' (NodeScript ''{src}/node-red-driver/dist/main.js'') True None ''manual''),
     (''N8N'', entry ''n8nclient'' (NodeScript ''{src}/n8n-client/index.js'') True None ''manual''),
     (''I104M'', entry ''i104m'' (Exe ''{bin}/i104m'') False None ''manual''),
     (''ONVIF'', entry ''onvif'' (NodeScript ''{src}/camera-onvif/index.js'') True None ''manual''),
     (''MODBUS'', entry ''modbusclient'' (Exe ''{bin}/modbus-client'') True None ''manual''),
     (''MODBUS_SERVER'', entry ''modbusserver'' (Exe ''{bin}/modbus-server'') True None ''manual'')]"

definition NOT_MANAGEABLE :: "(string \<times> string) list" where
  "NOT_MANAGEABLE = [(''OPC-DA_SERVER'', ''COM registration based server (not a managed service)''),
     (''PI_DATA_ARCHIVE_INJECTOR'', ''not available as a managed service''),
     (''PI_DATA_ARCHIVE_CLIENT'', ''not available as a managed service'')]"

text \<open>The verdict is \<open>None\<close> when manageable, else the reason. The driver name of an instance
  document is a string.\<close>

definition manageability :: "host \<Rightarrow> string \<Rightarrow> string option" where
  "manageability h d = (case map_of NOT_MANAGEABLE d of Some r \<Rightarrow> Some r
    | None \<Rightarrow> (case map_of (CATALOG h) d of
        None \<Rightarrow> Some (''unknown protocol driver: '' @ d)
      | Some e \<Rightarrow> (case ce_platforms e of
          Some ps \<Rightarrow> if platform h \<in> set ps then None else Some (d @ '' is not supported on '' @ platform h)
        | None \<Rightarrow> None)))"

definition serviceBaseName :: "host \<Rightarrow> string \<Rightarrow> jsval \<Rightarrow> string option" where
  "serviceBaseName h d i = (case map_of (CATALOG h) d of None \<Rightarrow> None
    | Some e \<Rightarrow> (let n = num_trunc (to_number i) in
        Some (if n \<le> num 1 then ce_key e else ce_key e @ ''_'' @ num_to_string n)))"

definition winServiceName :: "host \<Rightarrow> string \<Rightarrow> jsval \<Rightarrow> string option" where
  "winServiceName h d i = map_option (\<lambda>b. ''JSON_SCADA_'' @ b) (serviceBaseName h d i)"

definition legacyWinServiceName :: "host \<Rightarrow> string \<Rightarrow> string option" where
  "legacyWinServiceName h d = map_option (\<lambda>e. ''JSON_SCADA_'' @ ce_key e) (map_of (CATALOG h) d)"

section \<open>Launch specification\<close>

record instance_doc =
  i_driver :: string
  i_number :: jsval
  i_logLevel :: jsval
  i_enabled :: jsval
  i_nodeNames :: jsval
  i_pm :: jsval

record spec =
  s_driver :: string
  s_key :: string
  s_instance :: jsnum
  s_logLevel :: jsnum
  s_serviceName :: string
  s_programName :: string
  s_winServiceName :: string
  s_cmd :: string
  s_args :: "string list"
  s_cwd :: string
  s_logFile :: string
  s_startMode :: string
  s_hash :: string

text \<open>\<open>Math.max(lo, Math.trunc(Number(v) || d))\<close>.\<close>

definition sane_int :: "int \<Rightarrow> int \<Rightarrow> jsval \<Rightarrow> jsnum" where
  "sane_int lo d v = (let x = to_number v in num_max (num lo) (num_trunc (if truthy (Num x) then x else num d)))"

definition ends_with :: "string \<Rightarrow> string \<Rightarrow> bool" where
  "ends_with p s = starts_with (rev p) (rev s)"

definition exe_path :: "host \<Rightarrow> string \<Rightarrow> string" where
  "exe_path h t = (let c = expandPlaceholders h t in
     normPath h (if is_win h \<and> \<not> ends_with ''.exe'' (to_lower c) \<and> \<not> ends_with ''.bat'' (to_lower c) then c @ ''.exe'' else c))"

definition buildServiceSpec :: "host \<Rightarrow> instance_doc \<Rightarrow> spec option" where
  "buildServiceSpec h d = (if manageability h (i_driver d) \<noteq> None then None
    else (case map_of (CATALOG h) (i_driver d) of None \<Rightarrow> None | Some e \<Rightarrow>
      (let inst = sane_int 1 1 (i_number d); lvl = sane_int 0 0 (i_logLevel d);
           (cmd, pre) = (case ce_program e of NodeScript s \<Rightarrow> (nodeBin h, [normPath h (expandPlaceholders h s)])
                         | Exe x \<Rightarrow> (exe_path h x, []));
           args = pre @ [num_to_string inst, num_to_string lvl] @ (if ce_passConfPath e then [normPath h (confFile h)] else []);
           base = the (serviceBaseName h (i_driver d) (Num inst)); win = the (winServiceName h (i_driver d) (Num inst));
           logFile = logDir h @ [path_sep h] @ base @ ''.log''
       in Some \<lparr>s_driver = i_driver d, s_key = ce_key e, s_instance = inst, s_logLevel = lvl,
            s_serviceName = (if is_win h then win else base), s_programName = base, s_winServiceName = win,
            s_cmd = cmd, s_args = args, s_cwd = binDir h, s_logFile = logFile, s_startMode = ce_startMode e,
            s_hash = specHash_of h cmd args (binDir h) logFile\<rparr>)))"

section \<open>Facade\<close>

record svc_status =
  st_installed :: bool
  st_state :: string
  st_startMode :: string

text \<open>A backend over the state of the operating system; every call may throw.\<close>

record 'o backend =
  b_status :: "spec \<Rightarrow> 'o \<Rightarrow> (js_error + svc_status) \<times> 'o"
  b_ensure :: "spec \<Rightarrow> string \<Rightarrow> 'o \<Rightarrow> (js_error + string) \<times> 'o"
  b_remove :: "spec \<Rightarrow> 'o \<Rightarrow> (js_error + string) \<times> 'o"
  b_start :: "spec \<Rightarrow> 'o \<Rightarrow> (js_error + string) \<times> 'o"
  b_stop :: "spec \<Rightarrow> 'o \<Rightarrow> (js_error + string) \<times> 'o"
  b_restart :: "spec \<Rightarrow> 'o \<Rightarrow> (js_error + string) \<times> 'o"
  b_setManual :: "spec \<Rightarrow> 'o \<Rightarrow> (js_error + unit) \<times> 'o"
  b_list :: "'o \<Rightarrow> (js_error + string list) \<times> 'o"

record 'o pm_config =
  pm_host :: host
  pm_disabledEnv :: bool
  pm_enabled :: jsval
  pm_nodeName :: string
  pm_backend :: "'o backend option"

text \<open>\<open>JS_PROCESS_MGMT_DISABLE\<close> or \<open>processManagement.enabled: false\<close> switch it off; the backend
  is the one the configuration or the platform selects.\<close>

definition pm_isEnabled :: "'o pm_config \<Rightarrow> bool" where
  "pm_isEnabled c = (\<not> pm_disabledEnv c \<and> pm_enabled c \<noteq> Bool False)"

definition the_backend :: "'o pm_config \<Rightarrow> 'o backend option" where
  "the_backend c = (if pm_isEnabled c then pm_backend c else None)"

definition nodes_of :: "instance_doc \<Rightarrow> jsval list" where
  "nodes_of d = (case i_nodeNames d of Arr ns \<Rightarrow> ns | _ \<Rightarrow> [])"

definition isManageable :: "'o pm_config \<Rightarrow> instance_doc \<Rightarrow> string option" where
  "isManageable c d =
     (if \<not> pm_isEnabled c then Some ''process management disabled''
      else if the_backend c = None then Some ''no process backend on this host''
      else (case manageability (pm_host c) (i_driver d) of Some r \<Rightarrow> Some r
        | None \<Rightarrow> if pm_nodeName c \<noteq> [] \<and> length (nodes_of d) > 0 \<and> Str (pm_nodeName c) \<notin> set (nodes_of d)
                 then Some (''instance runs on node(s) '' @ concat (map (\<lambda>v. (if nullish v then [] else to_string v) @ '', '') (nodes_of d)) @ ''not '' @ pm_nodeName c)
                 else None))"

definition startModeFor :: "instance_doc \<Rightarrow> spec \<Rightarrow> string" where
  "startModeFor d s = (case opt_get (i_pm d) ''startMode'' of
      Str m \<Rightarrow> if m = ''auto'' \<or> m = ''manual'' then m
               else if i_enabled d = Bool False then ''manual'' else s_startMode s
    | _ \<Rightarrow> if i_enabled d = Bool False then ''manual'' else s_startMode s)"

definition isManagedFlag :: "instance_doc \<Rightarrow> bool" where
  "isManagedFlag d = (opt_get (i_pm d) ''managed'' \<noteq> Bool False)"

datatype pm_result = Skipped string | Done string

definition pm_start :: "'o pm_config \<Rightarrow> instance_doc \<Rightarrow> 'o \<Rightarrow> (js_error + string) \<times> 'o" where
  "pm_start c d = (case isManageable c d of Some r \<Rightarrow> throwE (Thrown r) | None \<Rightarrow>
     (case (the_backend c, buildServiceSpec (pm_host c) d) of (Some b, Some s) \<Rightarrow>
        bindE (b_status b s) (\<lambda>st.
          if st_installed st then b_start b s else seqE (b_ensure b s (startModeFor d s)) (b_start b s))
      | _ \<Rightarrow> throwE TypeError))"

definition pm_stop :: "'o pm_config \<Rightarrow> instance_doc \<Rightarrow> 'o \<Rightarrow> (js_error + string) \<times> 'o" where
  "pm_stop c d = (case isManageable c d of Some r \<Rightarrow> throwE (Thrown r) | None \<Rightarrow>
     (case (the_backend c, buildServiceSpec (pm_host c) d) of (Some b, Some s) \<Rightarrow> b_stop b s | _ \<Rightarrow> throwE TypeError))"

definition pm_restart :: "'o pm_config \<Rightarrow> instance_doc \<Rightarrow> 'o \<Rightarrow> (js_error + string) \<times> 'o" where
  "pm_restart c d = (case isManageable c d of Some r \<Rightarrow> throwE (Thrown r) | None \<Rightarrow>
     (case (the_backend c, buildServiceSpec (pm_host c) d) of (Some b, Some s) \<Rightarrow>
        bindE (b_status b s) (\<lambda>st.
          if st_installed st then b_restart b s else seqE (b_ensure b s (startModeFor d s)) (b_start b s))
      | _ \<Rightarrow> throwE TypeError))"

text \<open>Status for the scheduler: not installed when not manageable; a backend error is unknown.\<close>

definition pm_status :: "'o pm_config \<Rightarrow> instance_doc \<Rightarrow> 'o \<Rightarrow> svc_status \<times> 'o" where
  "pm_status c d w =
     (let unknown = \<lparr>st_installed = False, st_state = ''UNKNOWN'', st_startMode = ''unknown''\<rparr> in
      case (isManageable c d, the_backend c, buildServiceSpec (pm_host c) d) of
        (None, Some b, Some s) \<Rightarrow> (case b_status b s w of (Inl _, w') \<Rightarrow> (unknown, w') | (Inr st, w') \<Rightarrow> (st, w'))
      | _ \<Rightarrow> (unknown, w))"

definition pm_ensureService :: "'o pm_config \<Rightarrow> instance_doc \<Rightarrow> 'o \<Rightarrow> (js_error + pm_result) \<times> 'o" where
  "pm_ensureService c d = (case isManageable c d of Some r \<Rightarrow> returnE (Skipped r) | None \<Rightarrow>
     if \<not> isManagedFlag d then returnE (Skipped ''instance marked not managed'')
     else (case (the_backend c, buildServiceSpec (pm_host c) d) of (Some b, Some s) \<Rightarrow>
        bindE (b_ensure b s (startModeFor d s)) (\<lambda>a. returnE (Done a)) | _ \<Rightarrow> throwE TypeError))"

definition pm_removeService :: "'o pm_config \<Rightarrow> instance_doc \<Rightarrow> 'o \<Rightarrow> (js_error + pm_result) \<times> 'o" where
  "pm_removeService c d = (case buildServiceSpec (pm_host c) d of None \<Rightarrow> returnE (Skipped ''not manageable'')
    | Some s \<Rightarrow> (case the_backend c of None \<Rightarrow> returnE (Skipped ''no backend'')
      | Some b \<Rightarrow> bindE (b_remove b s) (\<lambda>a. returnE (Done a))))"

definition pm_applyEnabledState :: "'o pm_config \<Rightarrow> instance_doc \<Rightarrow> 'o \<Rightarrow> (js_error + pm_result) \<times> 'o" where
  "pm_applyEnabledState c d = (case isManageable c d of Some r \<Rightarrow> returnE (Skipped r) | None \<Rightarrow>
     if \<not> isManagedFlag d then returnE (Skipped ''instance marked not managed'')
     else (case (the_backend c, buildServiceSpec (pm_host c) d) of (Some b, Some s) \<Rightarrow>
        if i_enabled d = Bool False then seqE (b_setManual b s) (bindE (b_stop b s) (\<lambda>a. returnE (Done a)))
        else seqE (b_ensure b s (startModeFor d s))
          (if startModeFor d s = ''auto'' then bindE (b_start b s) (\<lambda>a. returnE (Done a)) else returnE (Done ''ensured''))
      | _ \<Rightarrow> throwE TypeError))"

text \<open>The service of an edited instance. Removing the service of the former driver is best
  effort.\<close>

definition retire_old :: "'o pm_config \<Rightarrow> 'o backend \<Rightarrow> instance_doc option \<Rightarrow> instance_doc \<Rightarrow> 'o \<Rightarrow> 'o" where
  "retire_old c b oldDoc newDoc w = (case oldDoc of None \<Rightarrow> w | Some old \<Rightarrow>
     if i_driver old \<noteq> [] \<and> i_driver old \<noteq> i_driver newDoc
     then (case buildServiceSpec (pm_host c) old of None \<Rightarrow> w | Some s \<Rightarrow> snd (b_remove b s w)) else w)"

definition pm_applyInstanceUpdate ::
  "'o pm_config \<Rightarrow> instance_doc option \<Rightarrow> instance_doc \<Rightarrow> 'o \<Rightarrow> (js_error + pm_result) \<times> 'o" where
  "pm_applyInstanceUpdate c oldDoc newDoc w = (case the_backend c of
      None \<Rightarrow> (Inr (Skipped ''no backend on this host''), w)
    | Some b \<Rightarrow>
      (let w1 = retire_old c b oldDoc newDoc w in
       case isManageable c newDoc of Some r \<Rightarrow> (Inr (Skipped r), w1) | None \<Rightarrow>
       if \<not> isManagedFlag newDoc then (Inr (Skipped ''instance marked not managed''), w1)
       else (case buildServiceSpec (pm_host c) newDoc of None \<Rightarrow> (Inl TypeError, w1) | Some s \<Rightarrow>
         (let mode = startModeFor newDoc s;
              wasEnabled = (case oldDoc of None \<Rightarrow> False | Some old \<Rightarrow> i_enabled old \<noteq> Bool False)
          in bindE (b_status b s) (\<lambda>st.
               if i_enabled newDoc = Bool False then
                 seqE (b_ensure b s ''manual'') (seqE (b_setManual b s)
                   (if st_state st \<in> set [''RUNNING'', ''STARTING'', ''PAUSED'', ''STOPPING'']
                    then seqE (b_stop b s) (returnE (Done ''disabled'')) else returnE (Done ''disabled'')))
               else bindE (b_ensure b s mode) (\<lambda>ens.
                 if \<not> wasEnabled \<and> mode = ''auto'' then seqE (b_start b s) (returnE (Done ''enabled-started''))
                 else if ens = ''created'' \<and> mode = ''auto'' then seqE (b_start b s) (returnE (Done ''created-started''))
                 else if ens = ''updated'' \<and> st_state st = ''RUNNING'' then seqE (b_restart b s) (returnE (Done ''restarted''))
                 else returnE (Done ens))) w1))))"

text \<open>All instances: the services of this host are ensured, services without an instance are
  reported. The option \<open>removeOrphans\<close> of the request is accepted and not used.\<close>

record reconcile_result =
  rc_ensured :: "(string \<times> string) list"
  rc_errors :: "(string \<times> js_error) list"
  rc_orphans :: "string list"
  rc_removed :: "string list"

fun reconcile_loop ::
  "'o pm_config \<Rightarrow> 'o backend \<Rightarrow> instance_doc list \<Rightarrow> reconcile_result \<Rightarrow> string list \<Rightarrow> 'o \<Rightarrow> (reconcile_result \<times> string list) \<times> 'o" where
  "reconcile_loop c b [] r ex w = ((r, ex), w)"
| "reconcile_loop c b (d # ds) r ex w = (case (isManageable c d, buildServiceSpec (pm_host c) d) of
      (None, Some s) \<Rightarrow>
        (let ex' = ex @ [s_serviceName s] in
         if \<not> isManagedFlag d then reconcile_loop c b ds r ex' w
         else (case b_ensure b s (startModeFor d s) w of
             (Inr a, w') \<Rightarrow> reconcile_loop c b ds (r\<lparr>rc_ensured := rc_ensured r @ [(s_serviceName s, a)]\<rparr>) ex' w'
           | (Inl e, w') \<Rightarrow> reconcile_loop c b ds (r\<lparr>rc_errors := rc_errors r @ [(s_serviceName s, e)]\<rparr>) ex' w'))
    | _ \<Rightarrow> reconcile_loop c b ds r ex w)"

definition pm_reconcileAll :: "'o pm_config \<Rightarrow> instance_doc list \<Rightarrow> bool \<Rightarrow> 'o \<Rightarrow> reconcile_result option \<times> 'o" where
  "pm_reconcileAll c ds removeOrphans w = (case the_backend c of None \<Rightarrow> (None, w) | Some b \<Rightarrow>
     (let ((r, ex), w1) = reconcile_loop c b ds \<lparr>rc_ensured = [], rc_errors = [], rc_orphans = [], rc_removed = []\<rparr> [] w in
      case b_list b w1 of
        (Inr names, w2) \<Rightarrow> (Some (r\<lparr>rc_orphans := filter (\<lambda>nm. nm \<notin> set ex) names\<rparr>), w2)
      | (Inl _, w2) \<Rightarrow> (Some r, w2)))"

section \<open>Settings\<close>

record settings =
  autoManageServices :: jsval
  autoRestartOnConnectionChange :: jsval

definition settings_DEFAULTS :: settings where
  "settings_DEFAULTS = \<lparr>autoManageServices = Bool True, autoRestartOnConnectionChange = Bool True\<rparr>"

text \<open>\<open>{ ...DEFAULTS, ...doc }\<close> on the two settings.\<close>

definition settings_with :: "doc \<Rightarrow> settings" where
  "settings_with d = \<lparr>
     autoManageServices = (if has_key ''autoManageServices'' d then fld d ''autoManageServices'' else Bool True),
     autoRestartOnConnectionChange =
       (if has_key ''autoRestartOnConnectionChange'' d then fld d ''autoRestartOnConnectionChange'' else Bool True)\<rparr>"

record settings_cache =
  sc_value :: "settings option"
  sc_time :: int

definition SETTINGS_TTL_MS :: int where "SETTINGS_TTL_MS = 5000"

text \<open>\<open>found\<close> is what the read of the settings document gives.\<close>

definition getSettings :: "int \<Rightarrow> js_error + doc option \<Rightarrow> settings_cache \<Rightarrow> settings \<times> settings_cache" where
  "getSettings t found c = (case sc_value c of
      Some v \<Rightarrow> if t - sc_time c < SETTINGS_TTL_MS then (v, c)
        else (let v' = (case found of Inl _ \<Rightarrow> settings_DEFAULTS | Inr None \<Rightarrow> settings_with [] | Inr (Some d) \<Rightarrow> settings_with d)
              in (v', \<lparr>sc_value = Some v', sc_time = t\<rparr>))
    | None \<Rightarrow> (let v' = (case found of Inl _ \<Rightarrow> settings_DEFAULTS | Inr None \<Rightarrow> settings_with [] | Inr (Some d) \<Rightarrow> settings_with d)
              in (v', \<lparr>sc_value = Some v', sc_time = t\<rparr>)))"

text \<open>Only booleans of the two known names are written.\<close>

definition settings_patch :: "doc \<Rightarrow> doc" where
  "settings_patch p = (case fld p ''autoManageServices'' of Bool b \<Rightarrow> [(''autoManageServices'', Bool b)] | _ \<Rightarrow> []) @
     (case fld p ''autoRestartOnConnectionChange'' of Bool b \<Rightarrow> [(''autoRestartOnConnectionChange'', Bool b)] | _ \<Rightarrow> [])"

definition updateSettings :: "int \<Rightarrow> (doc \<Rightarrow> js_error + doc) \<Rightarrow> doc \<Rightarrow> settings_cache \<Rightarrow> js_error + settings \<times> settings_cache" where
  "updateSettings t write p c = (case write (settings_patch p) of Inl e \<Rightarrow> Inl e
     | Inr d \<Rightarrow> Inr (settings_with d, \<lparr>sc_value = Some (settings_with d), sc_time = t\<rparr>))"

section \<open>Restart scheduler\<close>

definition DEBOUNCE_MS :: int where "DEBOUNCE_MS = 5000"

record timer =
  t_due :: int
  t_driver :: string
  t_instance :: jsval

record sched =
  timers :: "(string \<times> timer) list"
  pending :: "string list"

definition keyOf :: "string \<Rightarrow> jsval \<Rightarrow> string" where
  "keyOf driver i = driver @ ''#'' @ num_to_string (num_trunc (to_number i))"

datatype sched_reply = SkippedBecause string | PendingRestart | ScheduledRestart

definition set_insert :: "string \<Rightarrow> string list \<Rightarrow> string list" where
  "set_insert k ks = (if k \<in> set ks then ks else ks @ [k])"

definition auto_restart :: "instance_doc \<Rightarrow> jsval \<Rightarrow> bool" where
  "auto_restart inst autoRestart = (opt_get (i_pm inst) ''autoRestartOnConfigChange'' \<noteq> Bool False \<and> truthy autoRestart)"

text \<open>\<open>scheduleRestart\<close> at time \<open>t\<close>; \<open>found\<close> is what the read of the instance gives.\<close>

definition scheduleRestart ::
  "'o pm_config \<Rightarrow> int \<Rightarrow> js_error + instance_doc option \<Rightarrow> string \<Rightarrow> jsval \<Rightarrow> jsval \<Rightarrow> sched \<Rightarrow> (js_error + sched_reply) \<times> sched" where
  "scheduleRestart c t found driver i autoRestart s =
     (if driver = [] \<or> driver = ''UNDEFINED'' then (Inr (SkippedBecause []), s)
      else (case found of Inl e \<Rightarrow> (Inl e, s)
        | Inr None \<Rightarrow> (Inr (SkippedBecause ''instance not found''), s)
        | Inr (Some inst) \<Rightarrow> (case isManageable c inst of Some r \<Rightarrow> (Inr (SkippedBecause r), s) | None \<Rightarrow>
            if i_enabled inst = Bool False then (Inr (SkippedBecause ''instance disabled''), s)
            else if \<not> auto_restart inst autoRestart then (Inr PendingRestart, s\<lparr>pending := set_insert (keyOf driver i) (pending s)\<rparr>)
            else (Inr ScheduledRestart, s\<lparr>timers := aupd (keyOf driver i)
                \<lparr>t_due = t + DEBOUNCE_MS, t_driver = driver, t_instance = i\<rparr> (timers s)\<rparr>))))"

text \<open>The timer of a key runs out: it is removed with the pending flag, and the restart fires.\<close>

definition fire_timer :: "string \<Rightarrow> sched \<Rightarrow> sched" where
  "fire_timer k s = s\<lparr>timers := adel k (timers s), pending := removeAll k (pending s)\<rparr>"

definition fireRestart :: "'o pm_config \<Rightarrow> js_error + instance_doc option \<Rightarrow> 'o \<Rightarrow> 'o" where
  "fireRestart c found w = (case found of
      Inr (Some inst) \<Rightarrow> (let (st, w1) = pm_status c inst w in
        if \<not> st_installed st \<or> st_state st \<noteq> ''RUNNING'' then w1 else snd (pm_restart c inst w1))
    | _ \<Rightarrow> w)"

definition isPending :: "string \<Rightarrow> jsval \<Rightarrow> sched \<Rightarrow> bool" where
  "isPending driver i s = (keyOf driver i \<in> set (pending s))"

definition clearPending :: "string \<Rightarrow> jsval \<Rightarrow> sched \<Rightarrow> sched" where
  "clearPending driver i s = s\<lparr>pending := removeAll (keyOf driver i) (pending s)\<rparr>"

section \<open>The scheduler as a transition system\<close>

datatype sched_event = Sched string sched_reply | Fired string | Cleared string

text \<open>A timer may fire at any time from its due time on.\<close>

inductive sched_step :: "'o pm_config \<Rightarrow> sched \<Rightarrow> int \<Rightarrow> sched_event \<Rightarrow> sched \<Rightarrow> bool" for c where
  schedule: "scheduleRestart c t found driver i auto s = (Inr r, s') \<Longrightarrow> sched_step c s t (Sched (keyOf driver i) r) s'"
| fire: "map_of (timers s) k = Some tm \<Longrightarrow> t_due tm \<le> t \<Longrightarrow> sched_step c s t (Fired k) (fire_timer k s)"
| clear: "sched_step c s t (Cleared (keyOf driver i)) (clearPending driver i s)"

inductive_cases sched_step_FiredE: "sched_step c s t (Fired k) s'"
inductive_cases sched_step_SchedE: "sched_step c s t (Sched k r) s'"
inductive_cases sched_step_ClearedE: "sched_step c s t (Cleared k) s'"

inductive sched_reach :: "'o pm_config \<Rightarrow> (int \<times> sched_event) list \<Rightarrow> sched \<Rightarrow> bool" for c where
  init: "sched_reach c [] \<lparr>timers = [], pending = []\<rparr>"
| step: "sched_reach c tr s \<Longrightarrow> sched_step c s t ev s' \<Longrightarrow> sched_reach c (tr @ [(t, ev)]) s'"

lemma scheduleRestart_timers:
  assumes "scheduleRestart c t found driver i auto s = (Inr r, s')"
  shows "map_of (timers s') k = (if r = ScheduledRestart \<and> k = keyOf driver i
     then Some \<lparr>t_due = t + DEBOUNCE_MS, t_driver = driver, t_instance = i\<rparr> else map_of (timers s) k)"
  using assms by (auto simp: scheduleRestart_def split: if_splits sum.splits option.splits)

text \<open>The last event of a key's timer in a trace: its scheduling or its firing.\<close>

definition about_timer :: "string \<Rightarrow> sched_event \<Rightarrow> bool" where
  "about_timer k ev = (ev = Sched k ScheduledRestart \<or> ev = Fired k)"

definition armed :: "(int \<times> sched_event) list \<Rightarrow> string \<Rightarrow> int option" where
  "armed tr k = (case filter (\<lambda>p. about_timer k (snd p)) (rev tr) of
      (t, Sched _ _) # _ \<Rightarrow> Some (t + DEBOUNCE_MS) | _ \<Rightarrow> None)"

lemma armed_snoc: "armed (tr @ [(t, ev)]) k =
    (if ev = Sched k ScheduledRestart then Some (t + DEBOUNCE_MS) else if ev = Fired k then None else armed tr k)"
  by (simp add: armed_def about_timer_def)

text \<open>Invariant: the timers are the ones the trace armed.\<close>

lemma sched_invariant:
  assumes "sched_reach c tr s" shows "map_option t_due (map_of (timers s) k) = armed tr k"
  using assms
proof (induction rule: sched_reach.induct)
  case init then show ?case by (simp add: armed_def)
next
  case (step tr s t ev s')
  from step(2) show ?case
  proof cases
    case (schedule found driver i auto r)
    then show ?thesis using step(3) scheduleRestart_timers[OF schedule(2), of k] by (auto simp: armed_snoc)
  next
    case (fire k' tm) then show ?thesis using step(3) by (simp add: armed_snoc fire_timer_def)
  next
    case (clear driver i) then show ?thesis using step(3) by (simp add: armed_snoc clearPending_def)
  qed
qed

lemma sched_reach_prefix:
  assumes "sched_reach c tr s" "tr = tr1 @ [(t, ev)] @ tr2"
  shows "\<exists>s1 s2. sched_reach c tr1 s1 \<and> sched_step c s1 t ev s2"
  using assms
proof (induction arbitrary: tr2 rule: sched_reach.induct)
  case init then show ?case by simp
next
  case (step tr s t' ev' s')
  show ?case
  proof (cases tr2 rule: rev_cases)
    case Nil then show ?thesis using step by auto
  next
    case (snoc ys y) then show ?thesis using step by auto
  qed
qed

lemma armed_Some:
  assumes "armed tr k = Some d"
  shows "\<exists>tr0 t0 mid. tr = tr0 @ [(t0, Sched k ScheduledRestart)] @ mid \<and> d = t0 + DEBOUNCE_MS \<and> list_all (\<lambda>p. \<not> about_timer k (snd p)) mid"
  using assms
proof (induction tr rule: rev_induct)
  case Nil then show ?case by (simp add: armed_def)
next
  case (snoc p tr)
  obtain t ev where p: "p = (t, ev)" by fastforce
  show ?case
  proof (cases "ev = Sched k ScheduledRestart")
    case True
    then show ?thesis using snoc(2) p by (intro exI[of _ tr] exI[of _ t] exI[of _ "[]"]) (simp add: armed_snoc)
  next
    case False
    then have "armed tr k = Some d" "\<not> about_timer k ev" using snoc(2) p by (auto simp: armed_snoc about_timer_def split: if_splits)
    then obtain tr0 t0 mid where "tr = tr0 @ [(t0, Sched k ScheduledRestart)] @ mid" "d = t0 + DEBOUNCE_MS"
      "list_all (\<lambda>p. \<not> about_timer k (snd p)) mid" using snoc(1) by blast
    then show ?thesis using p \<open>\<not> about_timer k ev\<close>
      by (intro exI[of _ tr0] exI[of _ t0] exI[of _ "mid @ [p]"]) simp
  qed
qed

text \<open>C16. Debounced restarts: in every run of the scheduler, whenever a restart fires for an
  instance, its latest scheduling came at least five seconds before, and no other restart of
  that instance fired or was scheduled in between: a burst of edits gives one restart, after
  the last of them.\<close>

theorem restart_debounced:
  assumes "sched_reach c (tr1 @ [(t, Fired k)] @ tr2) s"
  shows "\<exists>tr0 t0 mid. tr1 = tr0 @ [(t0, Sched k ScheduledRestart)] @ mid \<and> t0 + 5000 \<le> t \<and>
     list_all (\<lambda>p. snd p \<noteq> Sched k ScheduledRestart \<and> snd p \<noteq> Fired k) mid"
proof -
  obtain s1 s2 where r: "sched_reach c tr1 s1" "sched_step c s1 t (Fired k) s2"
    using sched_reach_prefix[OF assms refl] by blast
  then obtain tm where tm: "map_of (timers s1) k = Some tm" "t_due tm \<le> t" by (auto elim: sched_step_FiredE)
  then have "armed tr1 k = Some (t_due tm)" using sched_invariant[OF r(1), of k] by simp
  from armed_Some[OF this] obtain tr0 t0 mid where m: "tr1 = tr0 @ [(t0, Sched k ScheduledRestart)] @ mid"
    "t_due tm = t0 + DEBOUNCE_MS" "list_all (\<lambda>p. \<not> about_timer k (snd p)) mid" by blast
  have "list_all (\<lambda>p. snd p \<noteq> Sched k ScheduledRestart \<and> snd p \<noteq> Fired k) mid"
    using m(3) by (simp add: about_timer_def)
  moreover have "t0 + 5000 \<le> t" using m(2) tm(2) by (simp add: DEBOUNCE_MS_def)
  ultimately show ?thesis using m(1) by blast
qed

definition demo_pm :: "unit pm_config" where
  "demo_pm = \<lparr>pm_host = \<lparr>platform = ''linux'', installRoot = ''/r'', nodeBin = ''node'', confEnv = [], specHash_of = (\<lambda>_ _ _ _. [])\<rparr>,
     pm_disabledEnv = False, pm_enabled = Undef, pm_nodeName = [],
     pm_backend = Some \<lparr>b_status = (\<lambda>_ w. (Inl TypeError, w)), b_ensure = (\<lambda>_ _ w. (Inl TypeError, w)),
       b_remove = (\<lambda>_ w. (Inl TypeError, w)), b_start = (\<lambda>_ w. (Inl TypeError, w)), b_stop = (\<lambda>_ w. (Inl TypeError, w)),
       b_restart = (\<lambda>_ w. (Inl TypeError, w)), b_setManual = (\<lambda>_ w. (Inl TypeError, w)), b_list = (\<lambda>w. (Inl TypeError, w))\<rparr>\<rparr>"

definition demo_inst :: instance_doc where
  "demo_inst = \<lparr>i_driver = ''DNP3'', i_number = Num (num 2), i_logLevel = Undef, i_enabled = Bool True, i_nodeNames = Arr [], i_pm = Undef\<rparr>"

lemma demo_manageable: "isManageable demo_pm demo_inst = None"
  by (simp add: isManageable_def pm_isEnabled_def the_backend_def demo_pm_def demo_inst_def manageability_def
      NOT_MANAGEABLE_def CATALOG_def entry_def nodes_of_def)

lemma demo_burst:
  "\<exists>s. sched_reach demo_pm ([(0, Sched (keyOf ''DNP3'' (Num (num 2))) ScheduledRestart), (900, Sched (keyOf ''DNP3'' (Num (num 2))) ScheduledRestart)] @
      [(5900, Fired (keyOf ''DNP3'' (Num (num 2))))] @ []) s"
proof -
  let ?k = "keyOf ''DNP3'' (Num (num 2))" and ?tm = "\<lambda>t. \<lparr>t_due = t + DEBOUNCE_MS, t_driver = ''DNP3'', t_instance = Num (num 2)\<rparr>"
  let ?s = "\<lambda>t. \<lparr>timers = [(?k, ?tm t)], pending = []\<rparr>"
  have a: "auto_restart demo_inst (Bool True)" "i_enabled demo_inst \<noteq> Bool False"
    by (simp_all add: auto_restart_def demo_inst_def)
  have s1: "scheduleRestart demo_pm 0 (Inr (Some demo_inst)) ''DNP3'' (Num (num 2)) (Bool True) \<lparr>timers = [], pending = []\<rparr> = (Inr ScheduledRestart, ?s 0)"
    by (simp add: scheduleRestart_def demo_manageable a)
  have s2: "scheduleRestart demo_pm 900 (Inr (Some demo_inst)) ''DNP3'' (Num (num 2)) (Bool True) (?s 0) = (Inr ScheduledRestart, ?s 900)"
    by (simp add: scheduleRestart_def demo_manageable a)
  have r1: "sched_reach demo_pm ([] @ [(0, Sched ?k ScheduledRestart)]) (?s 0)"
    by (rule sched_reach.step[OF sched_reach.init sched_step.schedule[OF s1]])
  have r2: "sched_reach demo_pm (([] @ [(0, Sched ?k ScheduledRestart)]) @ [(900, Sched ?k ScheduledRestart)]) (?s 900)"
    by (rule sched_reach.step[OF r1 sched_step.schedule[OF s2]])
  have "sched_step demo_pm (?s 900) 5900 (Fired ?k) (fire_timer ?k (?s 900))"
    by (rule sched_step.fire[of _ _ "?tm 900"]) (simp_all add: DEBOUNCE_MS_def)
  from sched_reach.step[OF r2 this] show ?thesis by auto
qed

theorem restart_debounced_witness:
  "\<exists>tr0 t0 mid. [(0 :: int, Sched (keyOf ''DNP3'' (Num (num 2))) ScheduledRestart), (900, Sched (keyOf ''DNP3'' (Num (num 2))) ScheduledRestart)] =
     tr0 @ [(t0, Sched (keyOf ''DNP3'' (Num (num 2))) ScheduledRestart)] @ mid \<and> t0 + 5000 \<le> 5900"
proof -
  obtain s where "sched_reach demo_pm ([(0, Sched (keyOf ''DNP3'' (Num (num 2))) ScheduledRestart), (900, Sched (keyOf ''DNP3'' (Num (num 2))) ScheduledRestart)] @
      [(5900, Fired (keyOf ''DNP3'' (Num (num 2))))] @ []) s" using demo_burst by blast
  from restart_debounced[OF this] show ?thesis by blast
qed

section \<open>The command line\<close>

definition launch_of :: "host \<Rightarrow> catalog_entry \<Rightarrow> string \<times> string list \<times> string list" where
  "launch_of h e = (case ce_program e of NodeScript s \<Rightarrow> (nodeBin h, [normPath h (expandPlaceholders h s)], if ce_passConfPath e then [normPath h (confFile h)] else [])
     | Exe x \<Rightarrow> (exe_path h x, [], if ce_passConfPath e then [normPath h (confFile h)] else []))"

lemma sane_int_bounds:
  assumes "d \<ge> lo" shows "\<not> sane_int lo d v < num lo" "num_trunc (sane_int lo d v) = sane_int lo d v" "sane_int lo d v \<noteq> NaN"
proof -
  have t: "num_trunc (num i) = num i" for i by (simp add: num_def)
  have tt: "num_trunc (num_trunc y) = num_trunc y" for y
  proof (cases y)
    case (Fin q)
    have "num_trunc (num i) = num i" for i by (rule t)
    then show ?thesis using Fin by (simp add: num_def)
  qed simp_all
  define x where "x = num_trunc (if truthy (Num (to_number v)) then to_number v else num d)"
  have nn: "x \<noteq> NaN" by (cases "to_number v") (auto simp: x_def num_def)
  have s: "sane_int lo d v = (if num lo < x then x else num lo)"
    using nn by (simp add: sane_int_def x_def num_max_def Let_def)
  show "\<not> sane_int lo d v < num lo" using num_lt_asym by (auto simp: s)
  show "num_trunc (sane_int lo d v) = sane_int lo d v" by (auto simp: s t) (simp add: x_def tt)
  show "sane_int lo d v \<noteq> NaN" using nn by (simp add: s)
qed

text \<open>Nothing of a request reaches a command line: the program, its directory and every
  argument of the specification of an instance are determined by the catalog entry of the
  driver and the installation, except two arguments, which are the decimal texts of whole
  numbers (or of Infinity) not below 1 and 0.\<close>

theorem spec_from_catalog:
  assumes "buildServiceSpec h d = Some s"
  shows "\<exists>e pre post x y. map_of (CATALOG h) (i_driver d) = Some e \<and> launch_of h e = (s_cmd s, pre, post) \<and>
     s_args s = pre @ [num_to_string x, num_to_string y] @ post \<and> s_cwd s = binDir h \<and>
     num_trunc x = x \<and> num_trunc y = y \<and> x \<noteq> NaN \<and> y \<noteq> NaN \<and> \<not> x < num 1 \<and> \<not> y < num 0"
proof -
  obtain e where e: "map_of (CATALOG h) (i_driver d) = Some e" "manageability h (i_driver d) = None"
    using assms by (auto simp: buildServiceSpec_def split: if_splits option.splits)
  obtain cmd pre post where l: "launch_of h e = (cmd, pre, post)" by (metis prod_cases3)
  have "s_cmd s = cmd \<and> s_args s = pre @ [num_to_string (sane_int 1 1 (i_number d)), num_to_string (sane_int 0 0 (i_logLevel d))] @ post
      \<and> s_cwd s = binDir h"
    using assms e l by (cases "ce_program e") (auto simp: buildServiceSpec_def launch_of_def Let_def)
  then show ?thesis
    using e(1) l sane_int_bounds[of 1 1 "i_number d"] sane_int_bounds[of 0 0 "i_logLevel d"]
    by (intro exI[of _ e] exI[of _ pre] exI[of _ post] exI[of _ "sane_int 1 1 (i_number d)"]
        exI[of _ "sane_int 0 0 (i_logLevel d)"]) auto
qed

definition demo_host :: host where
  "demo_host = \<lparr>platform = ''linux'', installRoot = ''/r'', nodeBin = ''node'', confEnv = [], specHash_of = (\<lambda>_ _ _ _. [])\<rparr>"

theorem spec_from_catalog_witness:
  "\<exists>s x y. buildServiceSpec demo_host demo_inst = Some s \<and> s_args s = [num_to_string x, num_to_string y] \<and> \<not> x < num 1"
proof -
  have m: "map_of (CATALOG demo_host) (i_driver demo_inst) = Some (entry ''dnp3client'' (Exe ''{bin}/dnp3-client'') False None ''manual'')"
    by (simp add: CATALOG_def demo_inst_def)
  have "manageability demo_host (i_driver demo_inst) = None"
    by (simp add: manageability_def NOT_MANAGEABLE_def m) (simp add: demo_inst_def entry_def)
  then obtain s where s: "buildServiceSpec demo_host demo_inst = Some s"
    by (simp add: buildServiceSpec_def m Let_def entry_def)
  from spec_from_catalog[OF s] m show ?thesis
    using s by (auto simp: launch_of_def entry_def)
qed

section \<open>Service names\<close>

definition catalog_keys :: "string list" where
  "catalog_keys = map (\<lambda>p. ce_key (snd p)) (CATALOG demo_host)"

lemma catalog_keys_any: "map (\<lambda>p. ce_key (snd p)) (CATALOG h) = catalog_keys"
  by (simp add: catalog_keys_def CATALOG_def entry_def)

lemma catalog_keys_distinct: "distinct catalog_keys"
  by (simp add: catalog_keys_def CATALOG_def entry_def)

text \<open>No key ends like a numbered one: after its last underscore there is a character that is no
  digit.\<close>

definition tail_of :: "string \<Rightarrow> string" where
  "tail_of s = takeWhile (\<lambda>c. c \<noteq> CHR ''_'') (rev s)"

lemma catalog_keys_tail: "list_all (\<lambda>k. list_ex (\<lambda>c. \<not> is_digit c) (tail_of k)) catalog_keys"
  by (simp add: catalog_keys_def CATALOG_def entry_def tail_of_def is_digit_def)

lemma base_name_inj:
  assumes "k1 \<in> set catalog_keys" "k2 \<in> set catalog_keys" "1 \<le> i" "1 \<le> j"
    and "(if i \<le> 1 then k1 else k1 @ ''_'' @ int_to_string i) = (if j \<le> 1 then k2 else k2 @ ''_'' @ int_to_string j)"
  shows "k1 = k2 \<and> i = (j::int)"
proof -
  have tail: "tail_of (k @ ''_'' @ int_to_string i) = rev (int_to_string i)" if "0 \<le> i" for k i
  proof -
    have "c \<noteq> CHR ''_''" if "c \<in> set (rev (int_to_string i))" for c
      using int_to_string_digits[OF \<open>0 \<le> i\<close>] that by (auto simp: list_all_iff is_digit_def)
    then have "takeWhile (\<lambda>c. c \<noteq> CHR ''_'') (rev (int_to_string i) @ CHR ''_'' # rev k) = rev (int_to_string i)"
      by (subst takeWhile_append2) simp_all
    then show ?thesis by (simp add: tail_of_def)
  qed
  have no: "k \<noteq> k' @ ''_'' @ int_to_string i" if "k \<in> set catalog_keys" "0 \<le> i" for k k' i
    using catalog_keys_tail that tail[OF that(2), of k'] int_to_string_digits[OF that(2)]
    by (auto simp: list_all_iff list_ex_iff)
  consider "i \<le> 1" "j \<le> 1" | "i \<le> 1" "1 < j" | "1 < i" "j \<le> 1" | "1 < i" "1 < j" by linarith
  then show ?thesis
  proof cases
    case 1 then show ?thesis using assms by simp
  next
    case 2 then show ?thesis using assms(5) no[OF assms(1), of j k2] by simp
  next
    case 3 then show ?thesis using assms(5) no[OF assms(2), of i k1] by simp
  next
    case 4
    then have eq: "k1 @ ''_'' @ int_to_string i = k2 @ ''_'' @ int_to_string j" using assms(5) by simp
    then have "rev (int_to_string i) = rev (int_to_string j)" using tail[of i k1] tail[of j k2] 4 by simp
    then have "int_to_string i = int_to_string j" by simp
    then show ?thesis using eq int_to_string_inj[of i j] 4 by simp
  qed
qed

text \<open>Service names are unique: two instances with the same service name are instances of
  the same driver with the same number, so one service never runs two instances.\<close>

theorem service_name_unique:
  assumes "buildServiceSpec h d1 = Some s1" "buildServiceSpec h d2 = Some s2" "s_programName s1 = s_programName s2"
    and "s_instance s1 = num i" "s_instance s2 = num j" "i \<le> 2 ^ 53" "j \<le> 2 ^ 53"
  shows "i_driver d1 = i_driver d2 \<and> i = j"
proof -
  have form: "\<exists>e. map_of (CATALOG h) (i_driver d) = Some e \<and> ce_key e \<in> set catalog_keys \<and> 1 \<le> i \<and>
      s_programName s = (if i \<le> 1 then ce_key e else ce_key e @ ''_'' @ int_to_string i)"
    if b: "buildServiceSpec h d = Some s" and n: "s_instance s = num i" "i \<le> 2 ^ 53" for d s i
  proof -
    obtain e where e: "map_of (CATALOG h) (i_driver d) = Some e"
      using b by (auto simp: buildServiceSpec_def split: if_splits option.splits)
    then have k: "ce_key e \<in> set catalog_keys"
      using map_of_SomeD[OF e] unfolding catalog_keys_any[of h, symmetric] by force
    have inst: "sane_int 1 1 (i_number d) = num i" and nm: "s_programName s = the (serviceBaseName h (i_driver d) (Num (num i)))"
      using b e n by (auto simp: buildServiceSpec_def Let_def split: if_splits prod.splits)
    have i1: "1 \<le> i" using sane_int_bounds(1)[of 1 1 "i_number d"] inst by simp
    have "num_trunc (num i) = num i" by (simp add: num_def)
    moreover have "num_to_string (num i) = int_to_string i"
      using num_to_string_int[of i] i1 n(2) by simp
    ultimately show ?thesis using e k i1 nm by (auto simp: serviceBaseName_def Let_def)
  qed
  obtain e1 where e1: "map_of (CATALOG h) (i_driver d1) = Some e1" "ce_key e1 \<in> set catalog_keys" "1 \<le> i"
    "s_programName s1 = (if i \<le> 1 then ce_key e1 else ce_key e1 @ ''_'' @ int_to_string i)" using form[OF assms(1,4,6)] by blast
  obtain e2 where e2: "map_of (CATALOG h) (i_driver d2) = Some e2" "ce_key e2 \<in> set catalog_keys" "1 \<le> j"
    "s_programName s2 = (if j \<le> 1 then ce_key e2 else ce_key e2 @ ''_'' @ int_to_string j)" using form[OF assms(2,5,7)] by blast
  have kj: "ce_key e1 = ce_key e2 \<and> i = j" using base_name_inj[OF e1(2) e2(2) e1(3) e2(3)] e1(4) e2(4) assms(3) by simp
  have "inj_on (\<lambda>p. ce_key (snd p)) (set (CATALOG h))"
    using catalog_keys_distinct unfolding catalog_keys_any[of h, symmetric] by (simp add: distinct_map)
  then have "i_driver d1 = i_driver d2"
    using inj_onD[of _ _ "(i_driver d1, e1)" "(i_driver d2, e2)"] map_of_SomeD[OF e1(1)] map_of_SomeD[OF e2(1)] kj by fastforce
  then show ?thesis using kj by simp
qed

theorem service_name_unique_witness:
  "\<exists>s. buildServiceSpec demo_host demo_inst = Some s \<and> s_instance s = num 2 \<and>
     (buildServiceSpec demo_host demo_inst = Some s \<longrightarrow> i_driver demo_inst = ''DNP3'')"
proof -
  have m: "map_of (CATALOG demo_host) (i_driver demo_inst) = Some (entry ''dnp3client'' (Exe ''{bin}/dnp3-client'') False None ''manual'')"
    by (simp add: CATALOG_def demo_inst_def)
  have "manageability demo_host (i_driver demo_inst) = None"
    by (simp add: manageability_def NOT_MANAGEABLE_def m) (simp add: demo_inst_def entry_def)
  then obtain s where s: "buildServiceSpec demo_host demo_inst = Some s"
    by (simp add: buildServiceSpec_def m Let_def entry_def)
  have n: "s_instance s = num 2"
  proof -
    have "sane_int 1 1 (i_number demo_inst) = num 2" by (simp add: sane_int_def demo_inst_def num_def num_max_def)
    then show ?thesis using s by (auto simp: buildServiceSpec_def m Let_def entry_def split: if_splits)
  qed
  have "i_driver demo_inst = i_driver demo_inst \<and> (2::int) = 2"
    by (rule service_name_unique[OF s s refl n n]) simp_all
  then show ?thesis using s n by (auto simp: demo_inst_def)
qed

section \<open>What the facade does to the operating system\<close>

definition with_backend :: "'o backend \<Rightarrow> 'o pm_config \<Rightarrow> 'o pm_config" where
  "with_backend b c = c\<lparr>pm_backend := Some b\<rparr>"

lemma with_backend_simps [simp]:
  "pm_host (with_backend b c) = pm_host c" "pm_isEnabled (with_backend b c) = pm_isEnabled c"
  "the_backend (with_backend b c) = (if pm_isEnabled c then Some b else None)"
  "pm_nodeName (with_backend b c) = pm_nodeName c"
  by (simp_all add: with_backend_def pm_isEnabled_def the_backend_def)

lemma isManageable_with_backend: "isManageable (with_backend b c) d = isManageable (with_backend b' c) d"
  by (simp add: isManageable_def split: option.split)

text \<open>A disabled instance is never started: updating the service of an instance that is
  disabled, with either entry point, does the same whatever the backend's \<open>start\<close> and
  \<open>restart\<close> are, so it calls neither.\<close>

theorem disabled_instance_not_started:
  assumes "i_enabled d = Bool False"
  shows "pm_applyInstanceUpdate (with_backend b c) old d w =
      pm_applyInstanceUpdate (with_backend (b\<lparr>b_start := start', b_restart := restart'\<rparr>) c) old d w \<and>
    pm_applyEnabledState (with_backend b c) d w =
      pm_applyEnabledState (with_backend (b\<lparr>b_start := start', b_restart := restart'\<rparr>) c) d w"
proof -
  let ?b = "b\<lparr>b_start := start', b_restart := restart'\<rparr>"
  have m: "isManageable (with_backend b c) x = isManageable (with_backend ?b c) x" for x
    by (rule isManageable_with_backend)
  have r: "retire_old (with_backend b c) b old d w = retire_old (with_backend ?b c) ?b old d w"
    by (simp add: retire_old_def split: option.split)
  show ?thesis
    using assms by (simp add: pm_applyInstanceUpdate_def pm_applyEnabledState_def m r Let_def split: option.split cong: if_cong)
qed

theorem disabled_instance_not_started_witness:
  "pm_applyEnabledState (with_backend (the (pm_backend demo_pm)) demo_pm) (demo_inst\<lparr>i_enabled := Bool False\<rparr>) () =
   pm_applyEnabledState (with_backend ((the (pm_backend demo_pm))\<lparr>b_start := (\<lambda>_ w. (Inr ''x'', w)), b_restart := (\<lambda>_ w. (Inr ''y'', w))\<rparr>) demo_pm)
     (demo_inst\<lparr>i_enabled := Bool False\<rparr>) ()"
  using disabled_instance_not_started[where d = "demo_inst\<lparr>i_enabled := Bool False\<rparr>" and b = "the (pm_backend demo_pm)" and c = demo_pm
      and w = "()" and start' = "\<lambda>_ w. (Inr ''x'', w)" and restart' = "\<lambda>_ w. (Inr ''y'', w)"] by simp

definition foreign :: "'o pm_config \<Rightarrow> instance_doc \<Rightarrow> bool" where
  "foreign c d \<longleftrightarrow> pm_nodeName c \<noteq> [] \<and> nodes_of d \<noteq> [] \<and> Str (pm_nodeName c) \<notin> set (nodes_of d)"

lemma foreign_not_manageable: "foreign c d \<Longrightarrow> isManageable c d \<noteq> None"
  by (auto simp: foreign_def isManageable_def split: option.splits)

text \<open>Node ownership: for an instance assigned to other nodes only, starting, stopping,
  restarting, ensuring, enabling and reconciling leave the services of this host as they
  are; removing is the exception: it calls the backend without looking at the nodes.\<close>

theorem foreign_instance_untouched:
  assumes "foreign c d"
  shows "snd (pm_start c d w) = w \<and> snd (pm_stop c d w) = w \<and> snd (pm_restart c d w) = w \<and>
    snd (pm_ensureService c d w) = w \<and> snd (pm_applyEnabledState c d w) = w \<and> snd (pm_status c d w) = w \<and>
    reconcile_loop c b [d] r ex w = ((r, ex), w) \<and>
    (the_backend c = Some b \<and> buildServiceSpec (pm_host c) d = Some s \<longrightarrow> snd (pm_removeService c d w) = snd (b_remove b s w))"
proof -
  obtain why where m: "isManageable c d = Some why" using foreign_not_manageable[OF assms] by auto
  have "snd (pm_removeService c d w) = snd (b_remove b s w)"
    if "the_backend c = Some b" "buildServiceSpec (pm_host c) d = Some s"
    using that by (simp add: pm_removeService_def bindE_def returnE_def split: prod.split sum.split)
  then show ?thesis
    by (simp add: m pm_start_def pm_stop_def pm_restart_def pm_ensureService_def pm_applyEnabledState_def pm_status_def
        throwE_def returnE_def)
qed

theorem foreign_instance_untouched_witness:
  "snd (pm_stop (demo_pm\<lparr>pm_nodeName := ''A''\<rparr>) (demo_inst\<lparr>i_nodeNames := Arr [Str ''B'']\<rparr>) ()) = ()"
  using foreign_instance_untouched[of "demo_pm\<lparr>pm_nodeName := ''A''\<rparr>" "demo_inst\<lparr>i_nodeNames := Arr [Str ''B'']\<rparr>" "()"
      "the (pm_backend demo_pm)"] by (simp add: foreign_def nodes_of_def)

end
