(* ===== verification/Admin.thy ===== *)
theory Admin
  imports ConnLaws Process
begin

text \<open>
  The administration handlers of \<open>auth.controller.js\<close> and
  \<open>processManagement.controller.js\<close>: tags, users, roles, protocol connections and driver
  instances. The calls to the document store are fields of the record \<open>admin_env\<close>, which
  extends the environment of the authentication handlers.
\<close>

record 's admin_env = "'s env" +
  tag_byId :: "jsval \<Rightarrow> 's \<Rightarrow> js_error + doc option"
  tag_biggest :: "'s \<Rightarrow> js_error + doc list"
  tag_save :: "doc \<Rightarrow> 's \<Rightarrow> js_error + 's"
  tag_update :: "jsval \<Rightarrow> doc \<Rightarrow> 's \<Rightarrow> js_error + 's"
  tag_delete :: "jsval \<Rightarrow> 's \<Rightarrow> js_error + 's"
  tag_deleteOfConnection :: "jsval \<Rightarrow> 's \<Rightarrow> js_error + 's"
  conn_all :: "'s \<Rightarrow> js_error + doc list"
  conn_save :: "doc \<Rightarrow> 's \<Rightarrow> js_error + jsval \<times> 's"
  conn_update :: "jsval \<Rightarrow> doc \<Rightarrow> 's \<Rightarrow> js_error + doc option \<times> 's"
  conn_delete :: "jsval \<Rightarrow> 's \<Rightarrow> js_error + doc option \<times> 's"
  inst_all :: "'s \<Rightarrow> js_error + doc list"
  inst_of :: "string \<Rightarrow> jsnum \<Rightarrow> 's \<Rightarrow> js_error + instance_doc option"
  settings_found :: "'s \<Rightarrow> js_error + doc option"

text \<open>A write that also returns something.\<close>

definition writeRet :: "('s \<Rightarrow> js_error + 'a \<times> 's) \<Rightarrow> ('s, 'z) world_scheme \<Rightarrow> (js_error + 'a) \<times> ('s, 'z) world_scheme" where
  "writeRet f w = (case f (store w) of Inl e \<Rightarrow> (Inl e, w) | Inr (x, s) \<Rightarrow> (Inr x, w\<lparr>store := s\<rparr>))"

section \<open>Tags\<close>

text \<open>\<open>Math.trunc(parseFloat(v))\<close>.\<close>

definition trunc_float :: "jsval \<Rightarrow> jsval" where
  "trunc_float v = Num (num_trunc (parse_float (to_string v)))"

definition blank_str :: "jsval \<Rightarrow> js_error + bool" where
  "blank_str v = (if \<not> truthy v then Inr True else (case v of Str s \<Rightarrow> Inr (trim s = []) | _ \<Rightarrow> Inl TypeError))"

text \<open>The name of a new tag: the given one trimmed, else built from the identifier.\<close>

definition name_tag :: "doc \<Rightarrow> js_error + doc" where
  "name_tag b = (case blank_str (fld b ''tag'') of Inl e \<Rightarrow> Inl e
    | Inr blank \<Rightarrow> (let v = (if blank then js_add (Str ''new_tag_'') (fld b ''_id'') else fld b ''tag'') in
        case v of Str s \<Rightarrow> Inr (aupd ''tag'' (Str (trim s)) b) | _ \<Rightarrow> Inl TypeError))"

definition next_tag_id :: "doc list \<Rightarrow> jsval" where
  "next_tag_id found =
     (let big = (case found of d # _ \<Rightarrow> if has_key ''_id'' d then trunc_float (fld d ''_id'') else Num (num 0) | [] \<Rightarrow> Num (num 0));
          big' = (if js_lt big (Num (num 0)) then Num (num 0) else big)
      in trunc_float (js_add big' (Num (num 1))))"

definition createTag :: "'s admin_env \<Rightarrow> request \<Rightarrow> 's world \<Rightarrow> (js_error + reply) \<times> 's world" where
  "createTag e req =
     tryE (if truthy (fld (rbody req) ''_id'') \<and> \<not> loose_eq (fld (rbody req) ''_id'') (Num (num 0)) then
         (let b1 = aupd ''_id'' (trunc_float (fld (rbody req) ''_id'')) (rbody req) in
          bindE (readS (tag_byId e (fld b1 ''_id''))) (\<lambda>existing.
            if existing \<noteq> None then returnE (send_error (Str ''Tag already exists''))
            else bindE (askE (\<lambda>_. name_tag b1)) (\<lambda>b2.
              seqE (writeS (tag_save e b2))
              (seqE (modifyE (registerUserAction (env.truncate e) (req\<lparr>rbody := [(''_id'', fld b2 ''_id'')]\<rparr>) ''createTag''))
                (returnE (send 200 (Obj b2)))))))
       else bindE (readS (tag_biggest e)) (\<lambda>found.
          bindE (askE (\<lambda>_. name_tag (aupd ''_id'' (next_tag_id found) (rbody req)))) (\<lambda>b2.
            seqE (writeS (tag_save e b2))
            (seqE (modifyE (registerUserAction (env.truncate e) (req\<lparr>rbody := b2\<rparr>) ''createTag''))
              (returnE (send 200 (Obj b2))))))) catch200"

text \<open>\<open>/^(\-|\+)?([0-9]+(\.[0-9]+)?)$/\<close> on the text of a value.\<close>

definition IsNumberVal :: "jsval \<Rightarrow> bool" where
  "IsNumberVal v =
     (let s = to_string v; u = (case s of c # t \<Rightarrow> if c = CHR ''-'' \<or> c = CHR ''+'' then t else s | [] \<Rightarrow> []);
          ip = takeWhile is_digit u; r = dropWhile is_digit u
      in ip \<noteq> [] \<and> (r = [] \<or> (hd r = CHR ''.'' \<and> tl r \<noteq> [] \<and> list_all is_digit (tl r))))"

definition number_field :: "string \<Rightarrow> doc \<Rightarrow> doc" where
  "number_field k b = (if IsNumberVal (fld b k) then aupd k (Num (parse_float (to_string (fld b k)))) b else b)"

definition updateTag :: "'s admin_env \<Rightarrow> request \<Rightarrow> 's world \<Rightarrow> (js_error + reply) \<times> 's world" where
  "updateTag e req =
     tryE (seqE (modifyE (registerUserAction (env.truncate e) req ''updateTag''))
       (if has_key ''_id'' (rbody req) then
          (let b = number_field ''protocolSourceASDU'' (number_field ''protocolSourceObjectAddress''
                     (number_field ''protocolSourceCommonAddress'' (adel ''_id'' (rbody req))))
           in seqE (writeS (tag_update e (fld (rbody req) ''_id'') b)) (returnE send_ok))
        else returnE (send_error (Str ''No _id in update request.'')))) catch200"

definition deleteTag :: "'s admin_env \<Rightarrow> request \<Rightarrow> 's world \<Rightarrow> (js_error + reply) \<times> 's world" where
  "deleteTag e req =
     tryE (seqE (modifyE (registerUserAction (env.truncate e) req ''deleteTag''))
       (if has_key ''_id'' (rbody req) then seqE (writeS (tag_delete e (fld (rbody req) ''_id''))) (returnE send_ok)
        else returnE (send_error (Str ''No _id in delete request.'')))) catch200"

section \<open>Users and roles\<close>

definition userAddRole :: "'s env \<Rightarrow> request \<Rightarrow> 's world \<Rightarrow> (js_error + reply) \<times> 's world" where
  "userAddRole e req =
     tryE (seqE (modifyE (registerUserAction e req ''userAddRole''))
       (bindE (readS (role_byName e (fld (rbody req) ''role''))) (\<lambda>ro. case ro of
           None \<Rightarrow> returnE (send_error (Str ''Role not found!''))
         | Some r \<Rightarrow> bindE (readS (user_byName e (fld (rbody req) ''username''))) (\<lambda>uo. case uo of
             None \<Rightarrow> returnE (send_error (Str ''User not found!''))
           | Some u \<Rightarrow> seqE (writeS (user_save e (u\<lparr>roles := roles u @ [role_id r]\<rparr>))) (returnE send_ok))))) catch200"

definition userRemoveRole :: "'s env \<Rightarrow> request \<Rightarrow> 's world \<Rightarrow> (js_error + reply) \<times> 's world" where
  "userRemoveRole e req =
     tryE (if strict_eq (fld (rbody req) ''username'') (Str ''admin'') \<and> strict_eq (fld (rbody req) ''role'') (Str ''admin'')
       then returnE (send_error (Str ''Cannot remove admin role from admin user!''))
       else seqE (modifyE (registerUserAction e req ''userRemoveRole''))
       (bindE (readS (role_byName e (fld (rbody req) ''role''))) (\<lambda>ro. case ro of
           None \<Rightarrow> returnE (send_error (Str ''Role not found!''))
         | Some r \<Rightarrow> bindE (readS (user_byName e (fld (rbody req) ''username''))) (\<lambda>uo. case uo of
             None \<Rightarrow> returnE (send_error (Str ''User not found!''))
           | Some u \<Rightarrow> seqE (writeS (user_save e (u\<lparr>roles := removeAll (role_id r) (roles u)\<rparr>))) (returnE send_ok))))) catch200"

definition updateRole :: "'s env \<Rightarrow> request \<Rightarrow> 's world \<Rightarrow> (js_error + reply) \<times> 's world" where
  "updateRole e req =
     tryE (seqE (modifyE (registerUserAction e req ''updateRole''))
       (seqE (writeS (role_update e (fld (rbody req) ''_id'') (rbody req))) (returnE send_ok))) catch200"

text \<open>The body that is stored: a given password hashed, any other removed, never the roles.\<close>

definition user_patch :: "'s env \<Rightarrow> doc \<Rightarrow> js_error + doc" where
  "user_patch e b =
     (if has_key ''password'' b \<and> fld b ''password'' \<noteq> Str [] \<and> fld b ''password'' \<noteq> Null
      then map_sum id (\<lambda>h. adel ''roles'' (aupd ''password'' (Str h) b)) (bcrypt_hash e (fld b ''password''))
      else Inr (adel ''roles'' (adel ''password'' b)))"

definition updateUser :: "'s env \<Rightarrow> request \<Rightarrow> 's world \<Rightarrow> (js_error + reply) \<times> 's world" where
  "updateUser e req =
     tryE (seqE (modifyE (registerUserAction e req ''updateUser''))
       (bindE (askE (\<lambda>_. user_patch e (rbody req))) (\<lambda>b.
          seqE (writeS (user_update e (fld b ''_id'') b)) (returnE send_ok)))) catch200"

definition createRole :: "'s env \<Rightarrow> request \<Rightarrow> 's world \<Rightarrow> (js_error + reply) \<times> 's world" where
  "createRole e req =
     tryE (bindE (readS (role_new e (rbody req))) (\<lambda>r.
       seqE (writeS (role_save e r))
       (seqE (modifyE (registerUserAction e (req\<lparr>rbody := aupd ''_id'' (Str (role_id r)) (rbody req)\<rparr>) ''createRole''))
         (returnE send_ok)))) catch200"

definition createUser :: "'s env \<Rightarrow> request \<Rightarrow> 's world \<Rightarrow> (js_error + reply) \<times> 's world" where
  "createUser e req =
     tryE (bindE (askE (\<lambda>_. if truthy (fld (rbody req) ''password'')
           then map_sum id (\<lambda>h. aupd ''password'' (Str h) (rbody req)) (bcrypt_hash e (fld (rbody req) ''password''))
           else Inr (rbody req))) (\<lambda>b.
       bindE (readS (user_new e b)) (\<lambda>u.
         seqE (writeS (user_save e u))
         (seqE (modifyE (registerUserAction e (req\<lparr>rbody := aupd ''_id'' (Str (uid u)) b\<rparr>) ''createUser''))
           (returnE send_ok))))) catch200"

text \<open>The first read is outside the \<open>try\<close>: its error rejects the handler.\<close>

definition deleteRole :: "'s env \<Rightarrow> request \<Rightarrow> 's world \<Rightarrow> (js_error + reply) \<times> 's world" where
  "deleteRole e req = bindE (readS (user_withRole e (fld (rbody req) ''_id''))) (\<lambda>us.
     if length us > 0 then returnE (send_error (Str ''Cannot delete role that is attributed to a user!''))
     else seqE (modifyE (registerUserAction e req ''deleteRole''))
       (tryE (seqE (writeS (role_delete e (fld (rbody req) ''_id''))) (returnE send_ok)) catch200))"

definition deleteUser :: "'s env \<Rightarrow> request \<Rightarrow> 's world \<Rightarrow> (js_error + reply) \<times> 's world" where
  "deleteUser e req =
     (if strict_eq (fld (rbody req) ''username'') (Str ''admin'') then returnE (send_error (Str ''Cannot delete admin user!''))
      else seqE (modifyE (registerUserAction e req ''deleteUser''))
        (tryE (seqE (writeS (user_delete e (fld (rbody req) ''_id''))) (returnE send_ok)) catch200))"

definition send_message :: "nat \<Rightarrow> jsval \<Rightarrow> reply" where
  "send_message s m = send s (Obj [(''message'', m)])"

definition signup :: "'s env \<Rightarrow> request \<Rightarrow> 's world \<Rightarrow> (js_error + reply) \<times> 's world" where
  "signup e req =
     bindE (askE (\<lambda>w. case bcrypt_hash e (fld (rbody req) ''password'') of Inl err \<Rightarrow> Inl err
        | Inr h \<Rightarrow> user_new e [(''username'', fld (rbody req) ''username''), (''email'', fld (rbody req) ''email''), (''password'', Str h)] (store w))) (\<lambda>u.
     seqE (modifyE (registerUserAction e req ''signup''))
     (tryE (seqE (writeS (user_save e u))
        (if truthy (fld (rbody req) ''roles'') then
           bindE (readS (role_byNames e (fld (rbody req) ''roles''))) (\<lambda>rs.
             seqE (writeS (user_save e (u\<lparr>roles := map role_id rs\<rparr>)))
               (returnE (send_message 200 (Str ''User was registered successfully!''))))
         else bindE (readS (role_byName e (Str ''user''))) (\<lambda>ro. case ro of
             None \<Rightarrow> throwE TypeError
           | Some r \<Rightarrow> seqE (writeS (user_save e (u\<lparr>roles := [role_id r]\<rparr>)))
               (returnE (send_message 200 (Str ''User was registered successfully!''))))))
      (\<lambda>err. returnE (send_message 500 (err_val err)))))"

section \<open>Protocol connections\<close>

definition max_connection :: "doc list \<Rightarrow> jsval" where
  "max_connection cs = foldl (\<lambda>m c. if js_lt m (fld c ''protocolConnectionNumber'') then fld c ''protocolConnectionNumber'' else m) (Num (num 0)) cs"

text \<open>\<open>getProtocolConnectionModel\<close> returns the same document without storing it.\<close>

definition new_connection :: "doc list \<Rightarrow> doc" where
  "new_connection cs = [(''protocolConnectionNumber'', js_add (max_connection cs) (Num (num 1))), (''DriverInstanceNumber'', Num (num 1))]"

definition createProtocolConnection :: "'s admin_env \<Rightarrow> request \<Rightarrow> 's world \<Rightarrow> (js_error + reply) \<times> 's world" where
  "createProtocolConnection e req =
     tryE (bindE (readS (conn_all e)) (\<lambda>cs.
       bindE (writeRet (conn_save e (new_connection cs))) (\<lambda>i.
       seqE (modifyE (registerUserAction (env.truncate e) (req\<lparr>rbody := [(''_id'', i)]\<rparr>) ''createProtocolConnection''))
         (returnE (send 200 (Obj [(''_id'', i), (''error'', Bool False)])))))) catch200"

text \<open>The scheduler and the settings cache are kept beside the store.\<close>

record ('s, 'o) node_world = "'s world" +
  scheduler :: sched
  settingsCache :: settings_cache

definition restart_info :: "sched_reply \<Rightarrow> doc" where
  "restart_info r = [(''restartScheduled'', Bool (r = ScheduledRestart)), (''restartPending'', Bool (r = PendingRestart))]"

definition doc_driver :: "doc \<Rightarrow> string \<Rightarrow> string" where
  "doc_driver d k = (if truthy (fld d k) then to_string (fld d k) else [])"

text \<open>\<open>scheduleConnectionRestart\<close>: the driver's instance, and when the connection moved from
  another instance, the former one too.\<close>

definition moved :: "doc \<Rightarrow> string \<Rightarrow> jsval \<Rightarrow> bool" where
  "moved old driver i = (\<not> strict_eq (fld old ''protocolDriver'') (Str driver) \<or>
     \<not> num_eq (num_trunc (to_number (fld old ''protocolDriverInstanceNumber''))) (num_trunc (to_number i)))"

definition scheduleConnectionRestart ::
  "'s admin_env \<Rightarrow> 'o pm_config \<Rightarrow> string \<Rightarrow> jsval \<Rightarrow> doc option \<Rightarrow> ('s, 'o) node_world \<Rightarrow> doc \<times> ('s, 'o) node_world" where
  "scheduleConnectionRestart e c driver i oldConn w =
     (let (st, cache) = getSettings (now e) (settings_found e (store w)) (settingsCache w);
          w1 = w\<lparr>settingsCache := cache\<rparr>; auto = autoRestartOnConnectionChange st;
          find = (\<lambda>d j. inst_of e d (num_trunc (to_number j)) (store w1))
      in case scheduleRestart c (now e) (find driver i) driver i auto (scheduler w1) of
           (Inl _, s1) \<Rightarrow> ([], w1\<lparr>scheduler := s1\<rparr>)
         | (Inr r, s1) \<Rightarrow> (case oldConn of
             Some old \<Rightarrow> if moved old driver i then
                 (let d = doc_driver old ''protocolDriver''; j = fld old ''protocolDriverInstanceNumber'' in
                  case scheduleRestart c (now e) (find d j) d j auto s1 of
                    (Inl _, s2) \<Rightarrow> ([], w1\<lparr>scheduler := s2\<rparr>)
                  | (Inr _, s2) \<Rightarrow> (restart_info r, w1\<lparr>scheduler := s2\<rparr>))
               else (restart_info r, w1\<lparr>scheduler := s1\<rparr>)
           | None \<Rightarrow> (restart_info r, w1\<lparr>scheduler := s1\<rparr>)))"

definition updateProtocolConnection ::
  "'s admin_env \<Rightarrow> 'o pm_config \<Rightarrow> string \<Rightarrow> string \<Rightarrow> request \<Rightarrow> ('s, 'o) node_world \<Rightarrow> (js_error + reply) \<times> ('s, 'o) node_world" where
  "updateProtocolConnection e c clsid1 clsid2 req w =
     (let w0 = registerUserAction (env.truncate e) req ''updateProtocolConnection'' w; b = conn_defaults clsid1 clsid2 (rbody req) in
      case conn_update e (fld b ''_id'') b (store w0) of
        Inl err \<Rightarrow> (Inr (send_error (err_val err)), w0)
      | Inr (old, s) \<Rightarrow>
          (let (info, w1) = scheduleConnectionRestart e c (doc_driver b ''protocolDriver'') (fld b ''protocolDriverInstanceNumber'') old
                 (w0\<lparr>store := s\<rparr>)
           in (Inr (send 200 (Obj info)), w1)))"

definition deleteProtocolConnection ::
  "'s admin_env \<Rightarrow> 'o pm_config \<Rightarrow> request \<Rightarrow> ('s, 'o) node_world \<Rightarrow> (js_error + reply) \<times> ('s, 'o) node_world" where
  "deleteProtocolConnection e c req w =
     (let w0 = registerUserAction (env.truncate e) req ''deleteProtocolConnection'' w;
          r1 = (if fld (rbody req) ''deleteTags'' = Bool True
                then tag_deleteOfConnection e (fld (rbody req) ''protocolConnectionNumber'') (store w0) else Inr (store w0))
      in case r1 of Inl err \<Rightarrow> (Inr (send_error (err_val err)), w0)
       | Inr s1 \<Rightarrow> (case conn_delete e (fld (rbody req) ''_id'') s1 of
           Inl err \<Rightarrow> (Inr (send_error (err_val err)), w0\<lparr>store := s1\<rparr>)
         | Inr (None, s2) \<Rightarrow> (Inr send_ok, w0\<lparr>store := s2\<rparr>)
         | Inr (Some d, s2) \<Rightarrow>
             (let (info, w1) = scheduleConnectionRestart e c (doc_driver d ''protocolDriver'') (fld d ''protocolDriverInstanceNumber'') None
                    (w0\<lparr>store := s2\<rparr>)
              in (Inr (send 200 (Obj ([(''error'', Bool False)] @ info))), w1))))"

text \<open>The nodes: this node, then the node names of all instances, without repetitions.\<close>

fun dedup :: "jsval list \<Rightarrow> jsval list \<Rightarrow> jsval list" where
  "dedup seen [] = rev seen"
| "dedup seen (x # xs) = (if x \<in> set seen then dedup seen xs else dedup (x # seen) xs)"

definition listNodes :: "'s admin_env \<Rightarrow> string \<Rightarrow> 's \<Rightarrow> reply" where
  "listNodes e nodeName s = (case inst_all e s of Inl err \<Rightarrow> send_error (err_val err)
     | Inr ds \<Rightarrow> send 200 (Arr (dedup [] ((if nodeName \<noteq> [] then [Str nodeName] else []) @
         concat (map (\<lambda>d. case fld d ''nodeNames'' of Arr vs \<Rightarrow> vs | v \<Rightarrow> [v]) ds)))))"

lemma writeRet_simps [handler_simps]:
  "bindE (writeRet f) k w = (case f (store w) of Inl e \<Rightarrow> (Inl e, w) | Inr p \<Rightarrow> k (fst p) (w\<lparr>store := snd p\<rparr>))"
  by (simp add: writeRet_def bindE_def split: sum.splits prod.splits)

section \<open>What the administration handlers keep\<close>

lemma user_patch_stored:
  assumes "user_patch e b = Inr b'"
  shows "\<not> has_key ''roles'' b' \<and> (fld b' ''password'' = Undef \<or>
     (\<exists>h. bcrypt_hash e (fld b ''password'') = Inr h \<and> fld b' ''password'' = Str h))"
  using assms by (auto simp: user_patch_def split: if_splits sum.splits) (auto simp: map_sum_def split: sum.splits)

text \<open>An update of a user stores neither roles nor a plain password: the handler either leaves
  the store as it was or makes one \<open>findOneAndUpdate\<close>, with a document that has no \<open>roles\<close>
  field and whose password, when it has one, is a hash of the password sent.\<close>

theorem user_update_is_clean:
  "store (snd (updateUser e req w)) = store w \<or>
   (\<exists>i d h. user_update e i d (store w) = Inr (store (snd (updateUser e req w))) \<and> \<not> has_key ''roles'' d \<and>
      (fld d ''password'' = Undef \<or>
       bcrypt_hash e (fld (rbody req) ''password'') = Inr h \<and> fld d ''password'' = Str h))"
proof (cases "user_patch e (rbody req)")
  case (Inl err)
  then show ?thesis by (simp add: updateUser_def tryE_def handler_simps readS_def writeS_def catch200_def registerUserAction_def)
next
  case (Inr b)
  note clean = user_patch_stored[OF Inr]
  show ?thesis
  proof (cases "user_update e (fld b ''_id'') b (store w)")
    case (Inl err)
    with Inr show ?thesis
      by (simp add: updateUser_def tryE_def handler_simps catch200_def registerUserAction_def)
  next
    case (Inr s)
    with \<open>user_patch e (rbody req) = Inr b\<close> have "store (snd (updateUser e req w)) = s"
      by (simp add: updateUser_def tryE_def handler_simps catch200_def registerUserAction_def)
    with Inr clean show ?thesis by metis
  qed
qed

section \<open>Numbers of new connections\<close>

definition numbered :: "doc list \<Rightarrow> bool" where
  "numbered cs = list_all (\<lambda>c. \<exists>q. fld c ''protocolConnectionNumber'' = Num (num q) \<and> q < 2 ^ 53) cs"

lemma max_connection_bound:
  assumes "numbered cs"
  shows "\<exists>m. max_connection cs = Num (num m) \<and> 0 \<le> m \<and> m < 2 ^ 53 \<and>
     list_all (\<lambda>c. \<exists>q. fld c ''protocolConnectionNumber'' = Num (num q) \<and> q \<le> m) cs"
  using assms
proof (induction cs rule: rev_induct)
  case Nil then show ?case by (simp add: max_connection_def)
next
  case (snoc c cs)
  then obtain m q where m: "max_connection cs = Num (num m)" "0 \<le> m" "m < 2 ^ 53"
    "list_all (\<lambda>c. \<exists>q. fld c ''protocolConnectionNumber'' = Num (num q) \<and> q \<le> m) cs"
    and q: "fld c ''protocolConnectionNumber'' = Num (num q)" "q < 2 ^ 53" by (auto simp: numbered_def)
  have step: "max_connection (cs @ [c]) = Num (num (max m q))"
    using m(1) q by (simp add: max_connection_def max_def)
  show ?case unfolding step using m q by (intro exI[of _ "max m q"]) (fastforce simp: list_all_iff intro: le_max_iff_disj[THEN iffD2])
qed

text \<open>A new connection gets a number of its own: when the numbers stored are integers below
  \<open>2^53\<close>, \<open>createProtocolConnection\<close> saves one document, whose number is at least 1 and
  greater than the number of every connection found, and replies with the identifier of that
  document.\<close>

theorem new_connection_number_fresh:
  assumes "conn_all e (store w) = Inr cs" "numbered cs" "conn_save e (new_connection cs) (store w) = Inr (i, s)"
  shows "store (snd (createProtocolConnection e req w)) = s \<and>
    fst (createProtocolConnection e req w) = Inr (send 200 (Obj [(''_id'', i), (''error'', Bool False)])) \<and>
    (\<exists>m\<ge>1. fld (new_connection cs) ''protocolConnectionNumber'' = Num (num m) \<and>
       list_all (\<lambda>c. \<exists>q<m. fld c ''protocolConnectionNumber'' = Num (num q)) cs)"
proof -
  obtain m where m: "max_connection cs = Num (num m)" "0 \<le> m" "m < 2 ^ 53"
    "list_all (\<lambda>c. \<exists>q. fld c ''protocolConnectionNumber'' = Num (num q) \<and> q \<le> m) cs"
    using max_connection_bound[OF assms(2)] by blast
  have "num m + num 1 = num (m + 1)" using m by (intro num_add_int) simp
  then have n: "fld (new_connection cs) ''protocolConnectionNumber'' = Num (num (m + 1))"
    using m(1) by (simp add: new_connection_def fld_def)
  have "list_all (\<lambda>c. \<exists>q<m + 1. fld c ''protocolConnectionNumber'' = Num (num q)) cs"
    using m(4) by (fastforce simp: list_all_iff)
  with n m(2) have "\<exists>m\<ge>1. fld (new_connection cs) ''protocolConnectionNumber'' = Num (num m) \<and>
       list_all (\<lambda>c. \<exists>q<m. fld c ''protocolConnectionNumber'' = Num (num q)) cs" by (intro exI[of _ "m + 1"]) simp
  with assms show ?thesis
    by (simp add: createProtocolConnection_def tryE_def handler_simps registerUserAction_def)
qed

definition mem_admin_env :: "doc list \<Rightarrow> mem admin_env" where
  "mem_admin_env cs = env.extend (mem_env 0) (admin_env.fields (\<lambda>_ _. Inr None) (\<lambda>_. Inr []) (\<lambda>_ s. Inr s)
     (\<lambda>_ _ s. Inr s) (\<lambda>_ s. Inr s) (\<lambda>_ s. Inr s) (\<lambda>_. Inr cs) (\<lambda>d s. Inr (fld d ''protocolConnectionNumber'', s))
     (\<lambda>_ _ s. Inr (None, s)) (\<lambda>_ s. Inr (None, s)) (\<lambda>_. Inr []) (\<lambda>_ _ _. Inr None) (\<lambda>_. Inr None))"

theorem new_connection_number_fresh_witness:
  "let cs = [[(''protocolConnectionNumber'', Num (num 7))], [(''protocolConnectionNumber'', Num (num 3))]] in
   \<exists>m\<ge>1. fld (new_connection cs) ''protocolConnectionNumber'' = Num (num m) \<and>
       list_all (\<lambda>c. \<exists>q<m. fld c ''protocolConnectionNumber'' = Num (num q)) cs"
proof -
  let ?cs = "[[(''protocolConnectionNumber'', Num (num 7))], [(''protocolConnectionNumber'', Num (num 3))]]"
  have "numbered ?cs" by (auto simp: numbered_def fld_def)
  then show ?thesis
    using new_connection_number_fresh[of "mem_admin_env ?cs" mem_world ?cs]
    by (simp add: mem_admin_env_def env.defs admin_env.defs)
qed

text \<open>The guard of \<open>deleteUser\<close> reads the name, the deletion the identifier: a request that
  names no user, or another one, and carries the identifier of \<open>admin\<close> deletes it.\<close>

theorem deleteUser_guard_by_name:
  assumes "\<not> strict_eq (fld (rbody req) ''username'') (Str ''admin'')"
    and "user_delete e (fld (rbody req) ''_id'') (store w) = Inr s"
  shows "fst (deleteUser e req w) = Inr send_ok \<and> store (snd (deleteUser e req w)) = s"
  using assms by (simp_all add: deleteUser_def tryE_def handler_simps registerUserAction_def)

theorem deleteUser_guard_by_name_witness:
  "List.find (\<lambda>u. username u = ''admin'') (m_users (store (snd (deleteUser (mem_env 0)
      (mem_request ''t1'' [(''username'', Str ''ana''), (''_id'', Str ''u1'')]) mem_world)))) = None"
proof -
  let ?req = "mem_request ''t1'' [(''username'', Str ''ana''), (''_id'', Str ''u1'')]"
  have "store (snd (deleteUser (mem_env 0) ?req mem_world)) =
     mem_store\<lparr>m_users := filter (\<lambda>u. \<not> is_str (uid u) (Str ''u1'')) (m_users mem_store)\<rparr>"
    by (rule deleteUser_guard_by_name[THEN conjunct2]) (simp_all add: mem_env_def mem_defs fld_def)
  then show ?thesis by (simp add: mem_defs)
qed

end
