(* ===== verification/JSInt.thy ===== *)
theory JSInt
  imports JSDate "HOL-Library.Word"
begin

text \<open>
  Operators on values of any type that the services apply to requests and payloads: \<open>in\<close> and the
  conversions to integers of 32 bits.
\<close>

text \<open>\<open>k in v\<close>; only the own properties that requests carry matter here.\<close>

definition js_in :: "string \<Rightarrow> jsval \<Rightarrow> js_error + bool" where
  "js_in k v = (case v of Obj d \<Rightarrow> Inr (has_key k d) | Arr _ \<Rightarrow> Inr False | Date _ \<Rightarrow> Inr False | _ \<Rightarrow> Inl TypeError)"

text \<open>\<open>ToInt32\<close>, and what an \<open>Int32Array\<close> or a \<open>Uint32Array\<close> gives back of a number.\<close>

definition to_int32 :: "jsnum \<Rightarrow> 32 word" where
  "to_int32 x = (case x of Fin q \<Rightarrow> word_of_int (if 0 \<le> q then \<lfloor>q\<rfloor> else - \<lfloor>- q\<rfloor>) | _ \<Rightarrow> 0)"

definition int32_of :: "jsval \<Rightarrow> jsnum" where
  "int32_of v = num (sint (to_int32 (to_number v)))"

definition uint32_of :: "jsval \<Rightarrow> jsnum" where
  "uint32_of v = num (uint (to_int32 (to_number v)))"

text \<open>Values that may be an exception, one after the other.\<close>

definition bindS :: "js_error + 'a \<Rightarrow> ('a \<Rightarrow> js_error + 'b) \<Rightarrow> js_error + 'b" where
  "bindS x f = (case x of Inl err \<Rightarrow> Inl err | Inr v \<Rightarrow> f v)"

lemma bindS_simps [simp]: "bindS (Inl err) f = Inl err" "bindS (Inr v) f = f v"
  by (simp_all add: bindS_def)

lemma bindS_Inr: "bindS x f = Inr y \<longleftrightarrow> (\<exists>v. x = Inr v \<and> f v = Inr y)"
  by (cases x) simp_all

end
