(* ===== verification/OpcWrite.thy ===== *)
theory OpcWrite
  imports OpcCodes Auth JSInt
begin

text \<open>
  The OPC web API of \<open>server_realtime_auth/index.js\<close> (\<open>opcApi\<close>): the request envelope and the
  write service, which acknowledges alarms and events, queues commands and changes the
  properties of points. The database driver, the clock and the token library are the
  fields of \<open>opc_env\<close>; one reading of the clock stands for those of one request.
\<close>

section \<open>Calls, effects, the environment\<close>

text \<open>A write issued to the database: collection, filter, update; a document inserted.\<close>

datatype db_call = UpdateMany string jsval jsval | UpdateOne string jsval jsval | InsertOne string doc

record call_result =
  acknowledged :: bool
  insertedId :: string

text \<open>What a request does besides its reply, in order: database writes and user actions queued.\<close>

datatype opc_effect = Call db_call | UserAction doc

record 's opc_world =
  ostore :: 's
  effects :: "opc_effect list"

record 's opc_env =
  o_auth :: "'s env"
  o_tini :: int
  o_now :: int
  o_connected :: bool
  o_remote :: jsval
  o_exec :: "db_call \<Rightarrow> 's \<Rightarrow> js_error + call_result \<times> 's"
  o_findOne :: "string \<Rightarrow> jsval \<Rightarrow> 's \<Rightarrow> js_error + doc option"
  o_objectId :: "jsval \<Rightarrow> js_error + jsval"
  o_toFixed :: "jsnum \<Rightarrow> js_error + string"

definition COLL_REALTIME :: string where "COLL_REALTIME = ''realtimeData''"
definition COLL_SOE :: string where "COLL_SOE = ''soeData''"
definition COLL_COMMANDS :: string where "COLL_COMMANDS = ''commandsQueue''"
definition opcIdTypeNumber :: int where "opcIdTypeNumber = 0"
definition opcIdTypeString :: int where "opcIdTypeString = 1"
definition beepPoint :: int where "beepPoint = -1"
definition EventsRemoveGuardSeconds :: int where "EventsRemoveGuardSeconds = 20"

definition CommandSentAsSOESymbol :: string where
  "CommandSentAsSOESymbol = [CHR 0xE2, CHR 0x9A, CHR 0x99, CHR 0xEF, CHR 0xB8, CHR 0x8F,
     CHR 0xE2, CHR 0x9E, CHR 0xA1, CHR 0xEF, CHR 0xB8, CHR 0x8F]"

text \<open>An awaited write: a failure throws. A write that is not awaited is issued and its outcome
  does not reach the handler.\<close>

type_synonym ('s, 'a) opc_step = "'s opc_world \<Rightarrow> (js_error + 'a) \<times> 's opc_world"

definition run_call :: "'s opc_env \<Rightarrow> db_call \<Rightarrow> 's \<Rightarrow> 's" where
  "run_call e c s = (case o_exec e c s of Inl _ \<Rightarrow> s | Inr (_, s') \<Rightarrow> s')"

definition callE :: "'s opc_env \<Rightarrow> db_call \<Rightarrow> ('s, call_result) opc_step" where
  "callE e c w = (map_sum id fst (o_exec e c (ostore w)),
     w\<lparr>ostore := run_call e c (ostore w), effects := effects w @ [Call c]\<rparr>)"

definition fireE :: "'s opc_env \<Rightarrow> db_call \<Rightarrow> ('s, unit) opc_step" where
  "fireE e c w = (Inr (), snd (callE e c w))"

definition enqueueE :: "doc \<Rightarrow> ('s, unit) opc_step" where
  "enqueueE d w = (Inr (), w\<lparr>effects := effects w @ [UserAction d]\<rparr>)"

section \<open>Values of a request\<close>

text \<open>The elements a loop from 0 to \<open>v.length\<close> visits; in an object that only claims to be an array
  the first missing index stops the loop with an error.\<close>

definition items_of :: "jsval \<Rightarrow> js_error + jsval list" where
  "items_of v = (case v of Undef \<Rightarrow> Inl TypeError | Null \<Rightarrow> Inl TypeError | Arr vs \<Rightarrow> Inr vs
     | Str s \<Rightarrow> Inr (map (\<lambda>c. Str [c]) s)
     | Obj d \<Rightarrow> Inr (map (\<lambda>i. fld d (int_to_string (int i)))
         (takeWhile (\<lambda>i. js_lt (Num (num (int i))) (fld d ''length'')) [0..<Suc (length d)]))
     | _ \<Rightarrow> Inr [])"

definition of_code :: "(string \<times> int) list \<Rightarrow> string \<Rightarrow> jsval" where
  "of_code t n = Num (num (opc_code t n))"

text \<open>\<open>x & Acknowledge.n\<close>, on 32 bit integers.\<close>

definition ack_bit :: "jsval \<Rightarrow> string \<Rightarrow> bool" where
  "ack_bit body n = (and (to_int32 (to_number body)) (word_of_int (opc_code Acknowledge n)) \<noteq> 0)"

section \<open>Replies\<close>

record opc_reply =
  r_ServiceId :: jsval
  r_RequestHandle :: jsval
  r_Timestamp :: jsval
  r_ServiceResult :: int
  r_StringTable :: "jsval list"
  r_Results :: "jsval list"
  r_CommandHandles :: "jsval list"
  r_MonitoredItems :: "jsval list"

definition SC :: "string \<Rightarrow> int" where "SC n = opc_code StatusCode n"

definition with_result :: "string \<Rightarrow> string \<Rightarrow> opc_reply \<Rightarrow> opc_reply" where
  "with_result n msg r = r\<lparr>r_ServiceResult := SC n,
     r_StringTable := [Str (getStatusCodeName (SC n)), Str (getStatusCodeText (SC n)), Str msg]\<rparr>"

definition service_fault :: "string \<Rightarrow> string \<Rightarrow> opc_reply \<Rightarrow> opc_reply" where
  "service_fault n msg r = with_result n msg (r\<lparr>r_ServiceId := of_code ServiceCode ''ServiceFault''\<rparr>)"

definition query_time :: "'s opc_env \<Rightarrow> string \<Rightarrow> string" where
  "query_time e p = p @ ''Query time: '' @ int_to_string (o_now e - o_tini e) @ '' ms''"

text \<open>The reply a request starts with; \<open>ServiceId\<close> and \<open>RequestHandle\<close> are undefined when the body
  does not hold them.\<close>

definition request_handle :: "doc \<Rightarrow> js_error + jsval" where
  "request_handle b =
     (if has_key ''ServiceId'' b \<and> has_key ''Body'' b then
        (case js_in ''RequestHeader'' (fld b ''Body'') of
           Inl err \<Rightarrow> Inl err
         | Inr False \<Rightarrow> Inr Undef
         | Inr True \<Rightarrow> (let h = opt_get (fld b ''Body'') ''RequestHeader'' in
             map_sum id (\<lambda>x. if x then opt_get h ''RequestHandle'' else Undef) (js_in ''RequestHandle'' h)))
      else Inr Undef)"

definition reply_init :: "'s opc_env \<Rightarrow> doc \<Rightarrow> jsval \<Rightarrow> opc_reply" where
  "reply_init e b h = \<lparr>r_ServiceId = fld b ''ServiceId'', r_RequestHandle = h,
     r_Timestamp = Str (iso_text (o_tini e)), r_ServiceResult = 0, r_StringTable = [], r_Results = [],
     r_CommandHandles = [], r_MonitoredItems = []\<rparr>"

section \<open>The request envelope\<close>

text \<open>Every guard before the services: a reply that ends the request, or the user, his rights and the
  reply to continue with.\<close>

definition opc_envelope :: "'s opc_env \<Rightarrow> request \<Rightarrow> js_error + (opc_reply + string \<times> rights \<times> opc_reply)" where
  "opc_envelope e req = (case request_handle (rbody req) of Inl err \<Rightarrow> Inl err | Inr h \<Rightarrow>
     (let r = reply_init e (rbody req) h in
      case checkToken (o_auth e) req of
        None \<Rightarrow> Inr (Inl (service_fault ''BadIdentityTokenRejected'' ''Access denied (absent or invalid access token)!'' r))
      | Some c \<Rightarrow>
          if \<not> o_connected e then Inr (Inl (service_fault ''BadServerNotConnected'' ''Database disconnected!'' r))
          else if fld (rbody req) ''ServiceId'' = Undef then Inr (Inl (service_fault ''BadRequestHeaderInvalid'' ''No ServiceID'' r))
          else if h = Undef then Inr (Inl (service_fault ''BadRequestHeaderInvalid'' ''No RequestHandle'' r))
          else Inr (Inr (c_username c, c_rights c, r))))"

section \<open>Acknowledgement of events and alarms\<close>

definition group_filter :: "rights \<Rightarrow> doc" where
  "group_filter u = (if group1List u = [] then [] else [(''group1'', Obj [(''$in'', Arr (map Str (group1List u)))])])"

definition set_doc :: "doc \<Rightarrow> jsval" where
  "set_doc d = Obj [(''$set'', Obj d)]"

definition jnum :: "int \<Rightarrow> jsval" where
  "jnum n = Num (num n)"

definition removal_date :: "'s opc_env \<Rightarrow> jsval" where
  "removal_date e = Date (num (o_now e - EventsRemoveGuardSeconds * 1000))"

definition not_recent :: "'s opc_env \<Rightarrow> doc" where
  "not_recent e = [(''$or'', Arr [
     Obj [(''timeTag'', Obj [(''$gte'', Date (num (o_now e + EventsRemoveGuardSeconds * 1000)))])],
     Obj [(''timeTag'', Obj [(''$lte'', removal_date e)])]])]"

text \<open>The filter of one point: by key, by tag, or none.\<close>

definition find_point :: "jsval \<Rightarrow> jsval \<Rightarrow> doc \<Rightarrow> jsval" where
  "find_point idtype i extra =
     (if strict_eq idtype (jnum opcIdTypeNumber) then Obj ((''_id'', Num (parse_int (to_string i))) # extra)
      else if strict_eq idtype (jnum opcIdTypeString) then Obj ((''tag'', i) # extra)
      else Null)"

definition ack_le_1 :: "string \<times> jsval" where
  "ack_le_1 = (''ack'', Obj [(''$lte'', jnum 1)])"

definition user_act :: "string \<Rightarrow> string \<Rightarrow> doc \<Rightarrow> jsval \<Rightarrow> doc" where
  "user_act user act extra t = [(''username'', Str user), (''action'', Str act)] @ extra @ [(''timeTag'', t)]"

definition update_soe :: "'s opc_env \<Rightarrow> doc \<Rightarrow> int \<Rightarrow> doc \<Rightarrow> ('s, unit) opc_step" where
  "update_soe e flt ack act = seqE (callE e (UpdateMany COLL_SOE (Obj flt) (set_doc [(''ack'', jnum ack)]))) (enqueueE act)"

definition event_id :: "'s opc_env \<Rightarrow> jsval \<Rightarrow> js_error + jsval" where
  "event_id e node = (case get (opt_get node ''_Properties'') ''event_id'' of Inl err \<Rightarrow> Inl err | Inr v \<Rightarrow> o_objectId e v)"

definition ack_events_step :: "'s opc_env \<Rightarrow> rights \<Rightarrow> string \<Rightarrow> jsval \<Rightarrow> jsval \<Rightarrow> jsval \<Rightarrow> ('s, unit) opc_step" where
  "ack_events_step e u user node i body =
     (let g = group_filter u; now = Date (num (o_now e)); tag = (''tag'', i) in
      if ack_bit body ''RemoveAllEvents'' then
        update_soe e ([ack_le_1] @ not_recent e @ g) 2 (user_act user ''Remove All Events'' [] (removal_date e))
      else if ack_bit body ''AckAllEvents'' then
        update_soe e ([(''ack'', jnum 0)] @ g) 1 (user_act user ''Ack All Events'' [] now)
      else if ack_bit body ''RemovePointEvents'' then
        update_soe e ([tag, ack_le_1] @ not_recent e @ g) 2 (user_act user ''Remove Point Events'' [tag] (removal_date e))
      else if ack_bit body ''AckPointEvents'' then
        update_soe e ([tag, (''ack'', jnum 0)] @ g) 1 (user_act user ''Ack Point Events'' [tag] now)
      else if ack_bit body ''RemoveOneEvent'' then
        bindE (askE (\<lambda>_. event_id e node)) (\<lambda>k.
          update_soe e ([(''_id'', k), ack_le_1] @ g) 2 (user_act user ''Remove One Event'' [tag, (''eventId'', k)] now))
      else if ack_bit body ''AckOneEvent'' then
        bindE (askE (\<lambda>_. event_id e node)) (\<lambda>k.
          update_soe e ([(''_id'', k), (''ack'', jnum 0)] @ g) 1 (user_act user ''Ack One Event'' [tag, (''eventId'', k)] now))
      else returnE ())"

text \<open>The update that returns digital event points to zero.\<close>

definition to_rest :: jsval where
  "to_rest = Arr [Obj [(''$set'', Obj [(''value'', jnum 0), (''valueString'', Str ''$stateTextFalse''),
     (''timeTagAtSource'', Null), (''TimeTagAtSourceOk'', Null)])]]"

definition digital_events :: "jsval \<Rightarrow> jsval list \<Rightarrow> jsval" where
  "digital_events flt extra = Obj [(''$and'', Arr ([flt, Obj [(''type'', Str ''digital'')], Obj [(''isEvent'', Bool True)]] @ extra @
     [Obj [(''$or'', Arr [Obj [(''origin'', Str ''supervised'')], Obj [(''origin'', Str ''calculated'')]])]]))]"

definition ack_alarms_step :: "'s opc_env \<Rightarrow> rights \<Rightarrow> string \<Rightarrow> jsval \<Rightarrow> jsval \<Rightarrow> jsval \<Rightarrow> ('s, unit) opc_step" where
  "ack_alarms_step e u user point i body =
     (let now = Date (num (o_now e)); off = set_doc [(''alarmed'', Bool False)] in
      if ack_bit body ''AckAllAlarms'' then
        seqE (callE e (UpdateMany COLL_REALTIME (Obj (group_filter u)) off))
       (seqE (callE e (UpdateMany COLL_REALTIME (digital_events (Obj (group_filter u)) [Obj [(''value'', jnum 1)]]) to_rest))
             (enqueueE (user_act user ''Ack All Alarms'' [] now)))
      else if ack_bit body ''AckOneAlarm'' then
        seqE (callE e (UpdateOne COLL_REALTIME point off))
       (seqE (callE e (UpdateOne COLL_REALTIME (digital_events point []) to_rest))
             (enqueueE (user_act user ''Ack Point Alarm'' [(''pointKey'', i)] now)))
      else returnE ())"

definition beep_off :: doc where
  "beep_off = [(''value'', jnum 0), (''valueString'', Str ''0''), (''beepType'', jnum 0)]"

definition silence_step :: "'s opc_env \<Rightarrow> rights \<Rightarrow> string \<Rightarrow> jsval \<Rightarrow> ('s, unit) opc_step" where
  "silence_step e u user body =
     (let beep = (''_id'', jnum beepPoint); act = enqueueE (user_act user ''Silence Beep'' [] (Date (num (o_now e)))) in
      if \<not> ack_bit body ''SilenceBeep'' then returnE ()
      else if group1List u \<noteq> [] then
        seqE (callE e (UpdateOne COLL_REALTIME (Obj [beep]) (Obj [(''$pullAll'', Obj [(''beepGroup1List'', Arr (map Str (group1List u)))])])))
       (seqE (callE e (UpdateOne COLL_REALTIME (Obj [beep, (''beepGroup1List'', Obj [(''$eq'', Arr [])])]) (set_doc beep_off))) act)
      else seqE (callE e (UpdateOne COLL_REALTIME (Obj [beep]) (set_doc (beep_off @ [(''beepGroup1List'', Arr [])])))) act)"

definition event_bits :: "string list" where
  "event_bits = [''RemoveAllEvents'', ''RemoveOneEvent'', ''RemovePointEvents'', ''AckAllEvents'', ''AckOneEvent'', ''AckPointEvents'']"

definition alarm_bits :: "string list" where
  "alarm_bits = [''AckOneAlarm'', ''AckAllAlarms'', ''SilenceBeep'']"

text \<open>One acknowledgement: always ends the request.\<close>

definition ack_node :: "'s opc_env \<Rightarrow> rights \<Rightarrow> string \<Rightarrow> jsval \<Rightarrow> opc_reply \<Rightarrow> ('s, opc_reply) opc_step" where
  "ack_node e u user node r =
     bindE (askE (\<lambda>_. get (opt_get node ''Value'') ''Body'')) (\<lambda>body.
       if \<not> ackEvents u \<and> list_ex (ack_bit body) event_bits then
         returnE (with_result ''BadUserAccessDenied'' ''User has no right to ack/remove events!'' r)
       else if \<not> ackAlarms u \<and> list_ex (ack_bit body) alarm_bits then
         returnE (with_result ''BadUserAccessDenied'' ''User has no right to ack or silence alarms!'' r)
       else bindE (askE (\<lambda>_. get (opt_get node ''NodeId'') ''IdType'')) (\<lambda>idtype.
         let i = opt_get (opt_get node ''NodeId'') ''Id'' in
         seqE (ack_events_step e u user node i body)
        (seqE (ack_alarms_step e u user (find_point idtype i (group_filter u)) i body)
        (seqE (silence_step e u user body)
              (returnE (with_result ''GoodNoData'' (query_time e ''Ok, no data returned. '')
                 (r\<lparr>r_ServiceId := of_code ServiceCode ''WriteResponse''\<rparr>)))))))"

section \<open>Commands\<close>

datatype flow = Sent opc_reply | Go opc_reply

text \<open>The value of a command as sent: a number or a string, typed Double or String.\<close>

definition command_value_ok :: "jsval \<Rightarrow> js_error + bool" where
  "command_value_ok v =
     (if typeof v \<noteq> ''object'' then Inr False
      else (case get v ''Type'' of Inl err \<Rightarrow> Inl err
       | Inr t \<Rightarrow> Inr (typeof t = ''number'' \<and>
           (strict_eq t (of_code DataType ''Double'') \<or> strict_eq t (of_code DataType ''String'')) \<and>
           typeof (opt_get v ''Body'') \<in> {''number'', ''string''})))"

definition cmd_val :: "jsval \<Rightarrow> jsval" where
  "cmd_val v = (if strict_eq (opt_get v ''Type'') (of_code DataType ''Double'') then opt_get v ''Body'' else jnum 0)"

definition cmd_val_str :: "jsval \<Rightarrow> jsval" where
  "cmd_val_str v = (if strict_eq (opt_get v ''Type'') (of_code DataType ''String'') then opt_get v ''Body''
     else Str (num_to_string (parse_float (to_string (cmd_val v)))))"

text \<open>\<open>new Double(x)\<close>.\<close>

definition double :: "jsval \<Rightarrow> jsval" where
  "double v = Num (to_number v)"

definition originator :: "'s opc_env \<Rightarrow> request \<Rightarrow> string \<Rightarrow> doc" where
  "originator e req user = [(''originatorUserName'', Str user),
     (''originatorIpAddress'', js_or (js_or (fld (headers req) ''x-real-ip'') (fld (headers req) ''x-forwarded-for'')) (o_remote e))]"

definition special_command :: "'s opc_env \<Rightarrow> request \<Rightarrow> string \<Rightarrow> string \<Rightarrow> jsval \<Rightarrow> doc" where
  "special_command e req user tag v = [(''protocolSourceConnectionNumber'', jnum (-1)), (''protocolSourceCommonAddress'', jnum (-1)),
     (''protocolSourceObjectAddress'', jnum (-1)), (''protocolSourceASDU'', jnum (-1)), (''protocolSourceCommandDuration'', jnum 0),
     (''protocolSourceCommandUseSBO'', Bool False), (''pointKey'', jnum 0), (''tag'', Str tag), (''timeTag'', Date (num (o_now e))),
     (''value'', double (cmd_val v)), (''valueString'', cmd_val_str v)] @ originator e req user"

text \<open>Addresses that are numbers are stored as doubles, others as they are.\<close>

definition addressing :: "doc \<Rightarrow> doc" where
  "addressing d =
     (let ca = fld d ''protocolSourceCommonAddress''; oa = fld d ''protocolSourceObjectAddress''; asdu = fld d ''protocolSourceASDU'';
          conv = (if (\<not> loose_eq ca (Str []) \<and> is_nan ca) \<or> is_nan oa \<or> is_nan asdu then (\<lambda>x. x) else double)
      in [(''protocolSourceCommonAddress'', conv ca), (''protocolSourceObjectAddress'', conv oa), (''protocolSourceASDU'', conv asdu)])"

definition point_command :: "'s opc_env \<Rightarrow> request \<Rightarrow> string \<Rightarrow> doc \<Rightarrow> jsval \<Rightarrow> doc" where
  "point_command e req user d v = [(''protocolSourceConnectionNumber'', double (fld d ''protocolSourceConnectionNumber''))] @ addressing d @
     [(''protocolSourceCommandDuration'', double (fld d ''protocolSourceCommandDuration'')),
      (''protocolSourceCommandUseSBO'', fld d ''protocolSourceCommandUseSBO''), (''pointKey'', double (fld d ''_id'')),
      (''tag'', fld d ''tag''), (''timeTag'', Date (num (o_now e))), (''value'', double (cmd_val v)),
      (''valueString'', cmd_val_str v)] @ originator e req user"

definition command_event :: "'s opc_env \<Rightarrow> doc \<Rightarrow> jsval \<Rightarrow> doc" where
  "command_event e d v =
     (let txt = (if strict_eq (fld d ''type'') (Str ''digital'')
                 then (if truthy (cmd_val v) then fld d ''eventTextTrue'' else fld d ''eventTextFalse'') else cmd_val_str v);
          now = Date (num (o_now e))
      in [(''tag'', fld d ''tag''), (''pointKey'', fld d ''_id''), (''description'', fld d ''description''), (''group1'', fld d ''group1''),
          (''eventText'', js_add txt (Str CommandSentAsSOESymbol)), (''invalid'', Bool False), (''priority'', fld d ''priority''),
          (''timeTag'', now), (''timeTagAtSource'', now), (''timeTagAtSourceOk'', Bool True), (''ack'', jnum 1)])"

text \<open>The location of a point may be no string, in which case no role names it.\<close>

definition can_command_to :: "'s opc_env \<Rightarrow> request \<Rightarrow> jsval \<Rightarrow> 's \<Rightarrow> bool" where
  "can_command_to e req g s = (case g of Str l \<Rightarrow> canSendCommandTo (o_auth e) req l s
     | _ \<Rightarrow> (case token_roles (o_auth e) req s of None \<Rightarrow> False | Some rs \<Rightarrow> list_all (\<lambda>r. group1CommandList r = []) rs))"

definition queue_failed :: "opc_reply \<Rightarrow> flow" where
  "queue_failed r = Sent (with_result ''BadUnexpectedError'' ''Could not queue command!'' r)"

definition command_to_point :: "'s opc_env \<Rightarrow> request \<Rightarrow> string \<Rightarrow> jsval \<Rightarrow> jsval \<Rightarrow> jsval \<Rightarrow> opc_reply \<Rightarrow> ('s, flow) opc_step" where
  "command_to_point e req user query i v r =
     bindE (askE (\<lambda>w. o_findOne e COLL_REALTIME query (ostore w))) (\<lambda>found.
       case found of
         None \<Rightarrow> returnE (Sent (with_result ''BadNodeIdUnknown'' ''Command point not found!'' r))
       | Some d \<Rightarrow>
           if typeof (fld d ''_id'') \<noteq> ''number'' then
             returnE (Sent (with_result ''BadNodeIdUnknown'' ''Command point not found!'' r))
           else bindE (askE (\<lambda>w. Inr (can_command_to e req (fld d ''group1'') (ostore w)))) (\<lambda>ok.
             if \<not> ok then
               returnE (Sent (with_result ''BadUserAccessDenied''
                 ''User has no right to issue commands to the group1 destination!'' r))
             else bindE (callE e (InsertOne COLL_COMMANDS (point_command e req user d v))) (\<lambda>res.
               if \<not> acknowledged res then returnE (queue_failed r)
               else seqE (fireE e (InsertOne COLL_SOE (command_event e d v)))
                   (seqE (enqueueE [(''username'', Str user), (''pointKey'', i), (''tag'', fld d ''tag''), (''action'', Str ''Command''),
                           (''properties'', Obj [(''value'', double (cmd_val v)), (''valueString'', cmd_val_str v)]),
                           (''timeTag'', Date (num (o_now e)))])
                     (returnE (Go (r\<lparr>r_Results := r_Results r @ [Num (num (SC ''Good''))],
                        r_CommandHandles := r_CommandHandles r @ [Str (insertedId res)]\<rparr>)))))))"

definition write_value :: "'s opc_env \<Rightarrow> request \<Rightarrow> string \<Rightarrow> jsval \<Rightarrow> opc_reply \<Rightarrow> ('s, flow) opc_step" where
  "write_value e req user node r =
     bindE (askE (\<lambda>w. Inr (canSendCommands (o_auth e) req (ostore w)))) (\<lambda>may.
       if \<not> may then returnE (Sent (with_result ''BadUserAccessDenied'' ''User has no right to issue commands!'' r))
       else bindE (askE (\<lambda>_. js_in ''NodeId'' node)) (\<lambda>has. if \<not> has then returnE (Go r)
       else bindE (askE (\<lambda>_. js_in ''Id'' (opt_get node ''NodeId''))) (\<lambda>hasId. if \<not> hasId then returnE (Go r)
       else let v = opt_get node ''Value''; i = opt_get (opt_get node ''NodeId'') ''Id'' in
         bindE (askE (\<lambda>_. command_value_ok v)) (\<lambda>ok.
           if \<not> ok then returnE (Sent (with_result ''BadNodeAttributesInvalid''
             ''Invalid command type, malformed or missing information!'' r))
           else if \<not> num_is_nan (parse_int (to_string i)) then
             command_to_point e req user (Obj [(''_id'', Num (parse_int (to_string i)))]) i v r
           else (case i of
               Str tag \<Rightarrow>
                 if starts_with ''$$'' tag then
                   bindE (callE e (InsertOne COLL_COMMANDS (special_command e req user tag v))) (\<lambda>res.
                     if \<not> acknowledged res then returnE (queue_failed r)
                     else returnE (Sent (r\<lparr>r_ServiceResult := SC ''Good''\<rparr>)))
                 else command_to_point e req user (Obj [(''tag'', i)]) i v r
             | _ \<Rightarrow> throwE TypeError)))))"

section \<open>Properties of points\<close>

text \<open>A property that the request changes and the user may change, as the fields of the update.\<close>

definition changed :: "bool \<Rightarrow> jsval \<Rightarrow> jsval \<Rightarrow> string \<Rightarrow> (jsval \<Rightarrow> jsval) \<Rightarrow> doc" where
  "changed may prev p k conv = (if may \<and> \<not> strict_eq (opt_get prev k) (opt_get p k) then [(k, conv (opt_get p k))] else [])"

definition substituted :: "rights \<Rightarrow> jsval \<Rightarrow> jsval \<Rightarrow> js_error + doc" where
  "substituted u prev p = (case js_in ''substituted'' p of Inl err \<Rightarrow> Inl err
     | Inr s \<Rightarrow> Inr (if s \<and> js_in ''newValue'' p = Inr True \<and> substituteValues u \<and>
                      \<not> strict_eq (opt_get prev ''value'') (opt_get p ''newValue'')
                   then [(''value'', double (opt_get p ''newValue''))] else []))"

definition property_changes :: "rights \<Rightarrow> jsval \<Rightarrow> jsval \<Rightarrow> js_error + doc" where
  "property_changes u prev p = map_sum id (\<lambda>valueNew.
       changed (disableAlarms u) prev p ''alarmDisabled'' id @ changed (enterAnnotations u) prev p ''annotation'' id @
       changed (enterLimits u) prev p ''loLimit'' double @ changed (enterLimits u) prev p ''hiLimit'' double @
       changed (enterLimits u) prev p ''hysteresis'' double @ changed (enterNotes u) prev p ''notes'' id @ valueNew)
     (substituted u prev p)"

text \<open>\<open>...v\<close> in an object literal.\<close>

definition spread_of :: "jsval \<Rightarrow> doc" where
  "spread_of v = (let idx = (\<lambda>vs. map (\<lambda>i. (int_to_string (int i), vs ! i)) [0..<length vs]) in
     case v of Obj d \<Rightarrow> d | Arr vs \<Rightarrow> idx vs | Str s \<Rightarrow> idx (map (\<lambda>c. Str [c]) s) | _ \<Rightarrow> [])"

definition range_check :: "'s opc_env \<Rightarrow> jsval \<Rightarrow> jsval \<Rightarrow> db_call" where
  "range_check e point prev = UpdateOne COLL_REALTIME point
     (set_doc [(''sourceDataUpdate'', Obj (aupd ''rangeCheck'' (jnum (o_now e)) (spread_of (opt_get prev ''sourceDataUpdate''))))])"

definition annotation_text :: "string \<Rightarrow> string" where
  "annotation_text a = [CHR 0xF0, CHR 0x9F, CHR 0x8F, CHR 0xB7, CHR 0xEF, CHR 0xB8, CHR 0x8F] @
     (if trim a = [] then [CHR 0xF0, CHR 0x9F, CHR 0x97, CHR 0x91, CHR 0xEF, CHR 0xB8, CHR 0x8F] else [CHR 0xF0, CHR 0x9F, CHR 0x94, CHR 0x92])"

definition property_event :: "'s opc_env \<Rightarrow> jsval \<Rightarrow> jsval \<Rightarrow> doc" where
  "property_event e prev txt = (let now = Date (num (o_now e)) in
     [(''tag'', opt_get prev ''tag''), (''pointKey'', opt_get prev ''_id''), (''group1'', opt_get prev ''group1''),
      (''description'', opt_get prev ''description''), (''eventText'', txt), (''invalid'', Bool False),
      (''priority'', opt_get prev ''priority''), (''timeTag'', now), (''timeTagAtSource'', now),
      (''timeTagAtSourceOk'', Bool True), (''ack'', jnum 1)])"

text \<open>The text of the event of a substituted value; the method \<open>toFixed\<close> is called on the driver's
  \<open>Double\<close> object.\<close>

definition value_event_text :: "'s opc_env \<Rightarrow> jsval \<Rightarrow> jsval \<Rightarrow> js_error + jsval" where
  "value_event_text e prev v =
     (if strict_eq (opt_get prev ''type'') (Str ''digital'')
      then Inr (if loose_eq v (jnum 0) then opt_get prev ''eventTextFalse'' else opt_get prev ''eventTextTrue'')
      else map_sum id (\<lambda>s. js_add (Str (s @ '' '')) (opt_get prev ''unit'')) (o_toFixed e (to_number v)))"

text \<open>What follows an acknowledged update.\<close>

definition after_update :: "'s opc_env \<Rightarrow> jsval \<Rightarrow> jsval \<Rightarrow> doc \<Rightarrow> ('s, unit) opc_step" where
  "after_update e point prev ch =
     bindE (askE (\<lambda>_. get prev ''type'')) (\<lambda>ty.
       seqE (if strict_eq ty (Str ''analog'') \<and> list_ex (\<lambda>k. has_key k ch) [''alarmDisabled'', ''hiLimit'', ''loLimit'', ''hysteresis'']
             then fireE e (range_check e point prev) else returnE ())
      (seqE (if \<not> has_key ''annotation'' ch then returnE ()
             else (case fld ch ''annotation'' of
                 Str a \<Rightarrow> fireE e (InsertOne COLL_SOE (property_event e prev (Str (annotation_text a))))
               | _ \<Rightarrow> throwE TypeError))
            (if \<not> has_key ''value'' ch then returnE ()
             else bindE (askE (\<lambda>_. value_event_text e prev (fld ch ''value''))) (\<lambda>txt.
               fireE e (InsertOne COLL_SOE (property_event e prev txt))))))"

definition write_properties :: "'s opc_env \<Rightarrow> rights \<Rightarrow> string \<Rightarrow> jsval \<Rightarrow> opc_reply \<Rightarrow> ('s, flow) opc_step" where
  "write_properties e u user node r =
     bindE (askE (\<lambda>_. js_in ''NodeId'' node)) (\<lambda>has. if \<not> has then returnE (Go r)
     else bindE (askE (\<lambda>_. js_in ''Id'' (opt_get node ''NodeId''))) (\<lambda>hasId.
       if \<not> hasId then returnE (Go (r\<lparr>r_Results := r_Results r @ [Num (num (SC ''BadNodeIdInvalid''))]\<rparr>))
       else let i = opt_get (opt_get node ''NodeId'') ''Id'';
                point = find_point (opt_get (opt_get node ''NodeId'') ''IdType'') i [] in
         if point = Null then returnE (Sent (with_result ''BadNodeIdInvalid'' ''Invalid IdType!'' r))
         else bindE (askE (\<lambda>w. o_findOne e COLL_REALTIME point (ostore w))) (\<lambda>found.
           let prev = (case found of None \<Rightarrow> Null | Some d \<Rightarrow> Obj d) in
           bindE (askE (\<lambda>_. get (opt_get node ''Value'') ''_Properties'')) (\<lambda>p.
           bindE (askE (\<lambda>_. property_changes u prev p)) (\<lambda>ch.
           bindE (callE e (UpdateOne COLL_REALTIME point (set_doc ch))) (\<lambda>res.
             if \<not> acknowledged res then returnE (Go (r\<lparr>r_Results := r_Results r @ [Num (num (SC ''BadNodeIdUnknown''))]\<rparr>))
             else seqE (enqueueE [(''username'', Str user), (''pointKey'', i), (''action'', Str ''Update Properties''),
                         (''properties'', Obj ch), (''timeTag'', Date (num (o_now e)))])
                 (seqE (after_update e point prev ch)
                   (returnE (Go (r\<lparr>r_Results := r_Results r @ [Num (num (SC ''Good''))]\<rparr>))))))))))"

section \<open>The write service\<close>

definition write_node :: "'s opc_env \<Rightarrow> request \<Rightarrow> rights \<Rightarrow> string \<Rightarrow> jsval \<Rightarrow> opc_reply \<Rightarrow> ('s, flow) opc_step" where
  "write_node e req u user node r =
     bindE (askE (\<lambda>_. js_in ''AttributeId'' node)) (\<lambda>has. let a = opt_get node ''AttributeId'' in
       if \<not> has then returnE (Go r)
       else if loose_eq a (of_code AttributeId ''ExtendedAlarmEventsAck'') then
         bindE (ack_node e u user node r) (\<lambda>r'. returnE (Sent r'))
       else if loose_eq a (of_code AttributeId ''Value'') then write_value e req user node r
       else if loose_eq a (of_code AttributeId ''Description'') then write_properties e u user node r
       else returnE (Go r))"

fun write_nodes :: "'s opc_env \<Rightarrow> request \<Rightarrow> rights \<Rightarrow> string \<Rightarrow> jsval list \<Rightarrow> opc_reply \<Rightarrow> ('s, opc_reply) opc_step" where
  "write_nodes e req u user [] r = returnE (r\<lparr>r_ServiceResult := SC ''Good''\<rparr>)"
| "write_nodes e req u user (node # nodes) r =
     bindE (write_node e req u user node r) (\<lambda>f. case f of Sent r' \<Rightarrow> returnE r' | Go r' \<Rightarrow> write_nodes e req u user nodes r')"

definition write_service :: "'s opc_env \<Rightarrow> request \<Rightarrow> rights \<Rightarrow> string \<Rightarrow> opc_reply \<Rightarrow> ('s, opc_reply) opc_step" where
  "write_service e req u user r0 =
     (let body = fld (rbody req) ''Body''; r = r0\<lparr>r_ServiceId := of_code ServiceCode ''WriteResponse''\<rparr> in
      bindE (askE (\<lambda>_. js_in ''NodesToWrite'' body)) (\<lambda>has.
        if \<not> has then returnE (with_result ''GoodNoData'' ''No NodesToWrite'' r)
        else bindE (askE (\<lambda>_. items_of (opt_get body ''NodesToWrite''))) (\<lambda>nodes.
          write_nodes e req u user nodes (r\<lparr>r_ServiceResult := SC ''Good''\<rparr>))))"

end
