(* ===== verification/OpcRead.thy ===== *)
theory OpcRead
  imports OpcWrite
begin

text \<open>
  The reading services of the OPC web API (\<open>server_realtime_auth/index.js\<close>, \<open>opcApi\<close>): values of
  points, the outcome of a command, history from the event list and from the historian, and the
  list of locations. They change nothing, so a service is a function of the store. Queries are
  the documents the code builds; what the database answers is a field of \<open>read_env\<close>.
\<close>

section \<open>The environment and errors\<close>

text \<open>\<open>o_find\<close> takes collection, query, options, sort order and limit, \<open>o_aggregate\<close> collection,
  pipeline, sort order and limit, \<open>o_pg\<close> the text of an SQL query and its parameters. \<open>o_parse\<close> is
  \<open>Date.parse\<close>, \<open>o_hourBack\<close> the time at which the local clock showed one hour less.\<close>

record 's read_env = "'s opc_env" +
  o_find :: "string \<Rightarrow> jsval \<Rightarrow> jsval \<Rightarrow> doc \<Rightarrow> jsval \<Rightarrow> 's \<Rightarrow> js_error + doc list"
  o_aggregate :: "string \<Rightarrow> jsval list \<Rightarrow> doc \<Rightarrow> jsval \<Rightarrow> 's \<Rightarrow> js_error + doc list"
  o_pool :: bool
  o_pg :: "string \<Rightarrow> jsval list \<Rightarrow> js_error + doc list"
  o_parse :: "string \<Rightarrow> jsnum"
  o_hourBack :: "int \<Rightarrow> int"

fun foldS :: "('a \<Rightarrow> 'b \<Rightarrow> js_error + 'b) \<Rightarrow> 'a list \<Rightarrow> 'b \<Rightarrow> js_error + 'b" where
  "foldS f [] b = Inr b"
| "foldS f (x # xs) b = bindS (f x b) (foldS f xs)"

fun mapS :: "('a \<Rightarrow> js_error + 'b) \<Rightarrow> 'a list \<Rightarrow> js_error + 'b list" where
  "mapS f [] = Inr []"
| "mapS f (x # xs) = bindS (f x) (\<lambda>y. bindS (mapS f xs) (\<lambda>ys. Inr (y # ys)))"

lemma mapS_Inr: "mapS f xs = Inr ys \<Longrightarrow> list_all2 (\<lambda>x y. f x = Inr y) xs ys"
  by (induction xs arbitrary: ys) (auto simp: bindS_Inr)

text \<open>\<open>v.map(...)\<close>: only arrays have the method. \<open>v[i]\<close> throws on null and undefined.\<close>

definition array_of :: "jsval \<Rightarrow> js_error + jsval list" where
  "array_of v = (case v of Arr vs \<Rightarrow> Inr vs | _ \<Rightarrow> Inl TypeError)"

definition index_at :: "jsval \<Rightarrow> nat \<Rightarrow> js_error + jsval" where
  "index_at v i = (case v of Undef \<Rightarrow> Inl TypeError | Null \<Rightarrow> Inl TypeError
     | Arr vs \<Rightarrow> Inr (if i < length vs then vs ! i else Undef)
     | Str s \<Rightarrow> Inr (if i < length s then Str [s ! i] else Undef)
     | Obj d \<Rightarrow> Inr (fld d (int_to_string (int i))) | _ \<Rightarrow> Inr Undef)"

section \<open>The nodes of a read request\<close>

record scan =
  sc_points :: "jsval list"
  sc_handles :: "jsval list"
  sc_info :: bool
  sc_ack :: bool

definition scan_node :: "jsval \<Rightarrow> scan \<Rightarrow> js_error + scan" where
  "scan_node node s =
     bindS (js_in ''AttributeId'' node) (\<lambda>hasA.
       let a = opt_get node ''AttributeId'';
           s1 = (if hasA \<and> loose_eq a (of_code AttributeId ''EventNotifier'') \<and> js_in ''ClientHandle'' node = Inr True
                 then s\<lparr>sc_ack := True, sc_handles := sc_handles s @ [opt_get node ''ClientHandle'']\<rparr> else s);
           s2 = (if hasA \<and> loose_eq a (of_code AttributeId ''Description'') then s1\<lparr>sc_info := True\<rparr> else s1) in
       bindS (js_in ''NodeId'' node) (\<lambda>hasN. if \<not> hasN then Inr s2
       else bindS (js_in ''Id'' (opt_get node ''NodeId'')) (\<lambda>hasI.
         Inr (if hasI then s2\<lparr>sc_points := sc_points s2 @ [opt_get (opt_get node ''NodeId'') ''Id'']\<rparr> else s2))))"

definition scan_nodes :: "jsval list \<Rightarrow> js_error + scan" where
  "scan_nodes nodes = foldS scan_node nodes \<lparr>sc_points = [], sc_handles = [], sc_info = False, sc_ack = False\<rparr>"

section \<open>The outcome of a command\<close>

definition command_status :: "'s opc_env \<Rightarrow> doc \<Rightarrow> int \<times> jsval \<times> jsval" where
  "command_status e d =
     (if typeof (fld d ''ack'') = ''boolean'' \<or> typeof (fld d ''cancelReason'') = ''string''
      then (if strict_eq (fld d ''ack'') (Bool True) then SC ''Good'' else SC ''Bad'',
            js_or (fld d ''timeTag'') (Date (num (o_now e))), js_or (fld d ''ackTimeTag'') (Date (num (o_now e))))
      else (SC ''BadWaitingForResponse'', Undef, Undef))"

definition command_item :: "'s opc_env \<Rightarrow> jsval \<Rightarrow> doc \<Rightarrow> jsval" where
  "command_item e h d = (let (status, cmdTime, ackTime) = command_status e d in
     Obj [(''ClientHandle'', h),
          (''Value'', Obj [(''Value'', fld d ''value''), (''StatusCode'', jnum status), (''SourceTimestamp'', cmdTime), (''ServerTimestamp'', ackTime)]),
          (''NodeId'', Obj [(''IdType'', jnum opcIdTypeString), (''Id'', fld d ''tag''), (''Namespace'', jnum NamespaceMongodb)])])"

text \<open>A handle nobody knows makes the answer throw.\<close>

definition read_command :: "('s, 'z) opc_env_scheme \<Rightarrow> jsval \<Rightarrow> 's \<Rightarrow> opc_reply \<Rightarrow> js_error + opc_reply" where
  "read_command e h s r =
     (case h of Str t \<Rightarrow>
        if length t < 24 then Inr (with_result ''BadRequestNotAllowed'' ''Missing or invalid ClientHandle.'' r)
        else bindS (o_objectId e h) (\<lambda>k. bindS (o_findOne e COLL_COMMANDS (Obj [(''_id'', k)]) s) (\<lambda>found.
          case found of None \<Rightarrow> Inl TypeError
          | Some d \<Rightarrow> Inr (r\<lparr>r_ServiceId := of_code ServiceCode ''DataChangeNotification'',
               r_MonitoredItems := [command_item (opc_env.truncate e) h d], r_ServiceResult := SC ''Good'',
               r_StringTable := (case fld d ''cancelReason'' of Str c \<Rightarrow> [Str c] | _ \<Rightarrow> r_StringTable r)\<rparr>)))
      | _ \<Rightarrow> Inr (with_result ''BadRequestNotAllowed'' ''Missing or invalid ClientHandle.'' r))"

section \<open>Queries of points\<close>

definition point_keys :: "jsval list \<Rightarrow> jsval list" where
  "point_keys ps = map (\<lambda>p. Num (parse_int (to_string p))) (filter (\<lambda>p. \<not> num_is_nan (parse_int (to_string p))) ps)"

definition point_tags :: "jsval list \<Rightarrow> jsval list" where
  "point_tags ps = filter (\<lambda>p. num_is_nan (parse_int (to_string p))) ps"

definition nodes_query :: "jsval list \<Rightarrow> jsval" where
  "nodes_query ps =
     (let findTags = Obj [(''tag'', Obj [(''$in'', Arr (point_tags ps))])]; findKeys = Obj [(''_id'', Obj [(''$in'', Arr (point_keys ps))])]
      in if point_keys ps \<noteq> [] \<and> point_tags ps \<noteq> [] then Obj [(''$or'', Arr [findKeys, findTags])]
         else if point_keys ps \<noteq> [] then findKeys else findTags)"

definition projection_doc :: jsval where
  "projection_doc = Obj [(''projection'', Obj (map (\<lambda>k. (k, jnum 1)) [''_id'', ''tag'', ''value'', ''valueString'', ''invalid'', ''timeTag'',
     ''loLimit'', ''hiLimit'', ''hysteresis'', ''alarmed'', ''alarmRange'', ''alarmDisabled'', ''frozen'', ''type'', ''annotation'',
     ''origin'', ''group1'', ''beepType'', ''beepGroup1List'']))]"

text \<open>The content filter: the query, the order and the two locations read so far.\<close>

record content =
  ct_query :: doc
  ct_sort :: doc
  ct_grp1 :: doc
  ct_grp2 :: doc

definition persistent_query :: "content \<Rightarrow> doc" where
  "persistent_query c =
     (let tail = [Obj [(''invalid'', Bool False)], Obj (ct_grp1 c), Obj (ct_grp2 c)];
          on = (\<lambda>ty. [Obj [(''type'', Str ty)], Obj [(''alarmDisabled'', Bool False)]]);
          alt = (\<lambda>xs. Obj [(''$and'', Arr xs)])
      in [(''$or'', Arr [
        alt (on ''analog'' @ [Obj [(''alarmed'', Bool True)]] @ tail),
        alt (on ''analog'' @ [Obj [(''alarmRange'', Obj [(''$exists'', Bool True), (''$ne'', jnum 0)])]] @ tail),
        alt (on ''digital'' @ [Obj [(''alarmState'', jnum 0)], Obj [(''value'', jnum 0)]] @ tail),
        alt (on ''digital'' @ [Obj [(''alarmState'', jnum 1)], Obj [(''value'', jnum 1)]] @ tail),
        Obj (ct_query c)])])"

definition apply_filter :: "jsval \<Rightarrow> jsval \<Rightarrow> content \<Rightarrow> content" where
  "apply_filter name v c =
     (let c1 = (if loose_eq name (Str ''group1'') then c\<lparr>ct_grp1 := [(''group1'', v)]\<rparr> else c);
          c2 = (if loose_eq name (Str ''group2'') then c1\<lparr>ct_grp2 := [(''group2'', v)]\<rparr> else c1)
      in if loose_eq name (Str ''persistentAlarms'')
         then c2\<lparr>ct_sort := [(''alarmed'', jnum (-1)), (''timeTagAlarm'', jnum (-1))], ct_query := persistent_query c2\<rparr>
         else c2\<lparr>ct_query := aupd (to_string name) v (ct_query c2)\<rparr>)"

definition content_step :: "jsval \<Rightarrow> content \<Rightarrow> js_error + content" where
  "content_step flt c =
     bindS (get flt ''FilterOperator'') (\<lambda>op.
       if \<not> strict_eq op (of_code FilterOperator ''Equals'') then Inr c
       else bindS (index_at (opt_get flt ''FilterOperands'') 0) (\<lambda>o0. bindS (get o0 ''FilterOperand'') (\<lambda>k0.
         if \<not> strict_eq k0 (of_code Operand ''Attribute'') then Inr c
         else bindS (index_at (opt_get flt ''FilterOperands'') 1) (\<lambda>o1. bindS (get o1 ''FilterOperand'') (\<lambda>k1.
           if \<not> strict_eq k1 (of_code Operand ''Literal'') then Inr c
           else Inr (apply_filter (opt_get o0 ''Value'') (opt_get o1 ''Value'') c))))))"

definition content_filter :: "jsval list \<Rightarrow> js_error + content" where
  "content_filter fs = foldS content_step fs \<lparr>ct_query = [], ct_sort = [(''group1'', jnum 1), (''group2'', jnum 1)], ct_grp1 = [], ct_grp2 = []\<rparr>"

section \<open>Values of points\<close>

text \<open>The user sees a point when no role restricts his groups or its group is one of his; the two
  system points are shown to everyone who reads nodes.\<close>

definition group_visible :: "rights \<Rightarrow> doc \<Rightarrow> bool" where
  "group_visible u d = (group1List u = [] \<or> (\<exists>g \<in> set (group1List u). fld d ''group1'' = Str g))"

definition system_point :: "doc \<Rightarrow> bool" where
  "system_point d = (strict_eq (fld d ''_id'') (jnum (-1)) \<or> strict_eq (fld d ''_id'') (jnum (-2)))"

definition fields_of :: "doc \<Rightarrow> string list \<Rightarrow> doc" where
  "fields_of d ks = map (\<lambda>k. (k, fld d k)) ks"

definition analog_fields :: "doc \<Rightarrow> doc" where
  "analog_fields d = (if strict_eq (fld d ''type'') (Str ''analog'') then fields_of d [''alarmRange'', ''frozen''] else [])"

definition point_properties :: "doc \<Rightarrow> jsval" where
  "point_properties d = Obj (fields_of d [''_id'', ''valueString'', ''alarmed''] @ analog_fields d @
     fields_of d [''alarmDisabled'', ''transit'', ''annotation'', ''notes'', ''origin'', ''type''])"

definition point_info :: "doc \<Rightarrow> jsval" where
  "point_info d = Obj (fields_of d [''_id'', ''valueString'', ''valueDefault'', ''alarmed''] @ analog_fields d @
     fields_of d [''alarmDisabled'', ''transit'', ''group1'', ''group2'', ''group3'', ''description'', ''ungroupedDescription'',
       ''hiLimit'', ''loLimit'', ''hysteresis'', ''stateTextTrue'', ''stateTextFalse'', ''unit'', ''annotation'', ''notes'',
       ''commandOfSupervised'', ''supervisedOfCommand'', ''origin'', ''beepType'', ''beepGroup1List'', ''type''])"

definition quality_code :: "doc \<Rightarrow> jsval" where
  "quality_code d = jnum (if truthy (fld d ''invalid'') then SC ''Bad'' else SC ''Good'')"

text \<open>The value of a point; \<open>conv\<close> is what the two readers do with the number of an analog.\<close>

definition point_value :: "(jsval \<Rightarrow> jsval) \<Rightarrow> doc \<Rightarrow> jsval" where
  "point_value conv d =
     (let digital = strict_eq (fld d ''type'') (Str ''digital'') in
      if strict_eq (fld d ''type'') (Str ''string'') \<or> strict_eq (fld d ''type'') (Str ''json'')
      then Obj [(''Type'', of_code DataType ''String''), (''Body'', fld d ''valueString''), (''Quality'', quality_code d)]
      else Obj [(''Type'', of_code DataType (if digital then ''Boolean'' else ''Double'')),
                (''Body'', if digital then Bool (\<not> strict_eq (fld d ''value'') (jnum 0)) else conv (fld d ''value'')),
                (''Quality'', quality_code d)])"

definition js_parseFloat :: "jsval \<Rightarrow> jsval" where
  "js_parseFloat v = Num (parse_float (to_string v))"

definition tag_node :: "doc \<Rightarrow> (string \<times> jsval) list \<Rightarrow> jsval" where
  "tag_node d extra = Obj ([(''IdType'', jnum opcIdTypeString), (''Id'', fld d ''tag'')] @ extra)"

text \<open>The answer for one node: the first point found with that tag or key.\<close>

definition no_result :: "string \<Rightarrow> jsval \<Rightarrow> jsval" where
  "no_result c nid = Obj [(''StatusCode'', jnum (SC c)), (''NodeId'', nid), (''Value'', Null), (''_Properties'', Null)]"

definition point_result :: "rights \<Rightarrow> bool \<Rightarrow> jsval \<Rightarrow> doc \<Rightarrow> jsval" where
  "point_result u info nid d =
     (if group1List u \<noteq> [] \<and> \<not> system_point d \<and> \<not> group_visible u d then no_result ''BadUserAccessDenied'' nid
      else Obj [(''StatusCode'', jnum (SC ''Good'')), (''NodeId'', tag_node d [(''Namespace'', jnum NamespaceMongodb)]),
             (''Value'', point_value js_parseFloat d), (''_Properties'', if info then point_info d else point_properties d),
             (''SourceTimestamp'', fld d ''timeTag'')])"

definition node_result :: "rights \<Rightarrow> bool \<Rightarrow> doc list \<Rightarrow> jsval \<Rightarrow> js_error + jsval" where
  "node_result u info pts node =
     bindS (get node ''NodeId'') (\<lambda>nid.
       if pts = [] then Inr (no_result ''BadNotFound'' nid)
       else bindS (get nid ''Id'') (\<lambda>i.
         Inr (case List.find (\<lambda>d. strict_eq i (fld d ''tag'') \<or> strict_eq i (fld d ''_id'')) pts of
             None \<Rightarrow> no_result ''BadNotFound'' nid
           | Some d \<Rightarrow> point_result u info nid d)))"

text \<open>The answer of a filtered query for one point.\<close>

definition filtered_properties :: "doc \<Rightarrow> jsval" where
  "filtered_properties d = Obj (fields_of d [''_id'', ''valueString'', ''valueDefault'', ''alarmed''] @ analog_fields d @
     fields_of d [''alarmDisabled'', ''alarmState'', ''isEvent'', ''transit'', ''group1'', ''group2'', ''group3'', ''description'',
       ''ungroupedDescription'', ''hiLimit'', ''loLimit'', ''hysteresis'', ''stateTextTrue'', ''stateTextFalse'', ''unit'', ''annotation'',
       ''notes'', ''commandOfSupervised'', ''supervisedOfCommand'', ''origin'', ''timeTagAlarm'', ''priority''] @
     [(''timeTagAtSourceOk'', if has_key ''timeTagAtSourceOk'' d then fld d ''TimeTagAtSourceOk'' else Null), (''type'', fld d ''type'')])"

definition filtered_result :: "doc \<Rightarrow> jsval" where
  "filtered_result d = Obj [(''StatusCode'', jnum (SC ''Good'')), (''NodeId'', tag_node d []), (''Value'', point_value id d),
     (''_Properties'', filtered_properties d), (''ServerTimestamp'', fld d ''timeTag''),
     (''SourceTimestamp'', if has_key ''timeTagAtSource'' d \<and> fld d ''timeTagAtSource'' \<noteq> Null then fld d ''timeTagAtSource'' else Null)]"

section \<open>The read service\<close>

definition good_results :: "('s, 'z) opc_env_scheme \<Rightarrow> jsval list \<Rightarrow> opc_reply \<Rightarrow> opc_reply" where
  "good_results e rs r = (with_result ''Good'' (query_time (opc_env.truncate e) []) r)\<lparr>r_Results := rs\<rparr>"

definition answer_points :: "'s read_env \<Rightarrow> rights \<Rightarrow> jsval \<Rightarrow> bool \<Rightarrow> doc list \<Rightarrow> opc_reply \<Rightarrow> js_error + opc_reply" where
  "answer_points e u body info pts r =
     (if pts = [] then Inr (with_result ''GoodNoData'' ''No NodeId.Id requested found on realtimeDatabase'' r)
      else bindS (js_in ''NodesToRead'' body) (\<lambda>has.
        if has then bindS (array_of (opt_get body ''NodesToRead'')) (\<lambda>nodes.
          bindS (mapS (node_result u info pts) nodes) (\<lambda>rs. Inr (good_results e rs r)))
        else Inr (good_results e (map filtered_result (filter (group_visible u) pts)) r)))"

definition query_points :: "'s read_env \<Rightarrow> rights \<Rightarrow> jsval \<Rightarrow> scan \<Rightarrow> 's \<Rightarrow> opc_reply \<Rightarrow> js_error + opc_reply" where
  "query_points e u body sc s r =
     bindS (js_in ''ContentFilter'' body) (\<lambda>filtered.
     bindS (if filtered then bindS (array_of (opt_get body ''ContentFilter'')) (\<lambda>fs. bindS (content_filter fs) (\<lambda>c.
              Inr (Obj (ct_query c), Null, ct_sort c)))
            else Inr (nodes_query (sc_points sc), if sc_info sc then Null else projection_doc, [])) (\<lambda>(q, opts, sort).
       case bindS (o_find e COLL_REALTIME q opts sort Undef s) (\<lambda>pts. answer_points e u body (sc_info sc) pts r) of
         Inl _ \<Rightarrow> Inr (with_result ''BadInvalidState'' ''Error reading realtimeDatabase'' r)
       | Inr r' \<Rightarrow> Inr r'))"

definition read_service :: "'s read_env \<Rightarrow> request \<Rightarrow> rights \<Rightarrow> opc_reply \<Rightarrow> 's \<Rightarrow> js_error + opc_reply" where
  "read_service e req u r0 s =
     (let body = fld (rbody req) ''Body''; r = r0\<lparr>r_ServiceId := of_code ServiceCode ''ReadResponse''\<rparr> in
      bindS (js_in ''NodesToRead'' body) (\<lambda>hasNodes. bindS (js_in ''ContentFilter'' body) (\<lambda>hasFilter.
        if \<not> hasNodes \<and> \<not> hasFilter then Inr (with_result ''GoodNoData'' ''No NodesToRead nor Content Filter'' r)
        else bindS (if hasNodes then bindS (array_of (opt_get body ''NodesToRead'')) scan_nodes else scan_nodes []) (\<lambda>sc.
          if sc_points sc = [] \<and> \<not> hasFilter then Inr (with_result ''GoodNoData'' ''No NodeId.Id found'' r)
          else if sc_ack sc then read_command e (hd (sc_handles sc)) s r
          else query_points e u body sc s r))))"

section \<open>Locations\<close>

definition unique_values :: "'s read_env \<Rightarrow> request \<Rightarrow> rights \<Rightarrow> opc_reply \<Rightarrow> 's \<Rightarrow> js_error + opc_reply" where
  "unique_values e req u r0 s =
     (let r = r0\<lparr>r_ServiceId := of_code ServiceCode ''Extended_ResponseUniqueAttributeValues''\<rparr> in
      bindS (get (fld (rbody req) ''Body'') ''AttributeId'') (\<lambda>a.
        if \<not> strict_eq a (of_code AttributeId ''ExtendedGroup1'') then Inr (with_result ''BadAttributeIdInvalid'' ''Requested attribute not supported!'' r)
        else (let pipeline = [Obj [(''$group'', Obj [(''_id'', Str ''$group1''), (''group1'', Obj [(''$last'', Str ''$group1'')]),
                    (''count'', Obj [(''$sum'', jnum 1)])])]];
                  found = (case o_aggregate e COLL_REALTIME pipeline [(''group1'', jnum 1)] Undef s of Inl _ \<Rightarrow> [] | Inr ds \<Rightarrow> ds)
              in Inr (good_results e (map (\<lambda>d. Obj [(''Value'', Obj [(''Type'', of_code DataType ''String''), (''Body'', fld d ''group1''),
                       (''Count'', fld d ''count'')])]) (filter (group_visible u) found)) r))))"

end
