(* ===== verification/OpcHistory.thy ===== *)
theory OpcHistory
  imports OpcRead
begin

text \<open>
  The history service of the OPC web API and the dispatch of \<open>opcApi\<close>: events are read from the
  event list of the document database, values from the historian, whose rows are kept by
  \<open>cs_data_processor\<close>.
\<close>

section \<open>The request\<close>

text \<open>The tag a node asks the history of; only string tags of the attribute Value count.\<close>

definition value_node :: "jsval \<Rightarrow> js_error + jsval option" where
  "value_node node =
     bindS (js_in ''AttributeId'' node) (\<lambda>hasA.
       if \<not> hasA \<or> \<not> loose_eq (opt_get node ''AttributeId'') (of_code AttributeId ''Value'') then Inr None
       else bindS (js_in ''NodeId'' node) (\<lambda>hasN. if \<not> hasN then Inr None
       else let nid = opt_get node ''NodeId'' in
         bindS (js_in ''IdType'' nid) (\<lambda>hasT.
           if \<not> hasT \<or> \<not> strict_eq (opt_get nid ''IdType'') (jnum opcIdTypeString) then Inr None
           else bindS (js_in ''Id'' nid) (\<lambda>hasI. Inr (if hasI then Some nid else None)))))"

definition string_id :: "jsval option \<Rightarrow> string list" where
  "string_id n = (case n of None \<Rightarrow> [] | Some nid \<Rightarrow> (case opt_get nid ''Id'' of Str t \<Rightarrow> [t] | _ \<Rightarrow> []))"

definition hist_tags :: "jsval list \<Rightarrow> js_error + string list" where
  "hist_tags nodes = map_sum id (\<lambda>ns. concat (map string_id ns)) (mapS value_node nodes)"

text \<open>Which time stamps are asked for: server, source.\<close>

definition stamps :: "jsval \<Rightarrow> bool \<times> bool" where
  "stamps body = (let v = opt_get body ''TimestampsToReturn'' in
     if strict_eq v (of_code TimestampsToReturn ''Source'') then (False, True)
     else if strict_eq v (of_code TimestampsToReturn ''Server'') then (True, False)
     else if strict_eq v (of_code TimestampsToReturn ''Neither'') then (False, False) else (True, True))"

record hist_range =
  hr_start :: jsval
  hr_end :: jsval
  hr_limit :: jsval

definition default_range :: "'s read_env \<Rightarrow> hist_range" where
  "default_range e = \<lparr>hr_start = Str (iso_text (o_hourBack e (o_now e))), hr_end = Str (iso_text (o_now e)), hr_limit = jnum 10000\<rparr>"

text \<open>\<open>new Date(v)\<close>.\<close>

definition date_of :: "'s read_env \<Rightarrow> jsval \<Rightarrow> jsnum" where
  "date_of e v = js_date (o_parse e) v"

section \<open>Events\<close>

record event_filter =
  ef_groups :: "jsval list"
  ef_priority :: doc

definition event_operand :: "jsval \<Rightarrow> event_filter \<Rightarrow> js_error + event_filter" where
  "event_operand el c = bindS (get el ''FilterOperand'') (\<lambda>k.
     Inr (if strict_eq k (of_code Operand ''Literal'') \<and> typeof (opt_get el ''Value'') = ''string''
          then c\<lparr>ef_groups := ef_groups c @ [opt_get el ''Value'']\<rparr> else c))"

definition event_filter_step :: "jsval \<Rightarrow> event_filter \<Rightarrow> js_error + event_filter" where
  "event_filter_step flt c =
     bindS (get flt ''FilterOperator'') (\<lambda>op.
     bindS (if strict_eq op (of_code FilterOperator ''LessThanOrEqual'')
            then bindS (index_at (opt_get flt ''FilterOperands'') 0) (\<lambda>v.
              Inr (c\<lparr>ef_priority := [(''priority'', Obj [(''$lte'', v)])]\<rparr>)) else Inr c) (\<lambda>c1.
       if strict_eq op (of_code FilterOperator ''InList'')
       then bindS (array_of (opt_get flt ''FilterOperands'')) (\<lambda>els. foldS event_operand els c1) else Inr c1))"

definition event_filters :: "jsval \<Rightarrow> js_error + event_filter" where
  "event_filters body =
     (let c0 = \<lparr>ef_groups = [], ef_priority = []\<rparr>; v = opt_get body ''ContentFilter'' in
      bindS (js_in ''ContentFilter'' body) (\<lambda>has. if \<not> has then Inr c0
      else (case v of Arr fs \<Rightarrow> foldS event_filter_step fs c0
              | Str t \<Rightarrow> (if t = [] then Inr c0 else Inl TypeError)
              | Obj d \<Rightarrow> (if js_lt (jnum 0) (fld d ''length'') then Inl TypeError else Inr c0)
              | Null \<Rightarrow> Inl TypeError | Undef \<Rightarrow> Inl TypeError | _ \<Rightarrow> Inr c0)))"

definition event_conditions :: "'s read_env \<Rightarrow> bool \<Rightarrow> hist_range \<Rightarrow> event_filter \<Rightarrow> string list \<Rightarrow> jsval list" where
  "event_conditions e server h c tags =
     (let key = (if server then ''timeTag'' else ''timeTagAtSource'');
          bound = (\<lambda>v op. Obj (if v = Null then [] else [(key, Obj [(op, Date (date_of e v))])]))
      in [bound (hr_start h) ''$gte'', bound (hr_end h) ''$lte'',
          Obj (if ef_groups c = [] then [] else [(''$or'', Arr [Obj [(''group1'', Obj [(''$in'', Arr (ef_groups c))])],
             Obj [(''tag'', Obj [(''$in'', Arr (map Str tags))])]])]),
          Obj (ef_priority c)])"

definition event_sort :: "bool \<Rightarrow> hist_range \<Rightarrow> doc" where
  "event_sort server h =
     (let dir = jnum (if hr_end h \<noteq> Null \<and> hr_start h \<noteq> Null then 1 else -1)
      in map (\<lambda>k. (k, dir)) (if server then [''timeTag'', ''timeTagAtSource'', ''tag''] else [''timeTagAtSource'', ''timeTag'', ''tag'']))"

definition count_stage :: jsval where
  "count_stage = Obj [(''$group'', Obj ([(''_id'', Str ''$tag'')] @
     map (\<lambda>k. (k, Obj [(''$last'', Str (CHR ''$'' # k))])) [''tag'', ''pointKey'', ''group1'', ''description'', ''eventText'', ''invalid'',
       ''priority'', ''timeTag'', ''timeTagAtSource'', ''timeTagAtSourceOk'', ''ack''] @
     [(''count'', Obj [(''$sum'', jnum 1)]), (''event_id'', Obj [(''$last'', Str ''$_id'')])]))]"

definition wants_count :: "jsval \<Rightarrow> js_error + bool" where
  "wants_count body = bindS (js_in ''AggregateFilter'' body) (\<lambda>has. let f = opt_get body ''AggregateFilter'' in
     if \<not> has \<or> f = Null then Inr False
     else bindS (js_in ''AggregateType'' f) (\<lambda>t. Inr (t \<and> strict_eq (opt_get f ''AggregateType'') (Str ''Count''))))"

definition event_query :: "'s read_env \<Rightarrow> bool \<Rightarrow> bool \<Rightarrow> hist_range \<Rightarrow> event_filter \<Rightarrow> string list \<Rightarrow> 's \<Rightarrow> js_error + doc list" where
  "event_query e counted server h c tags s =
     (let cond = (\<lambda>n. Obj [(''$and'', Arr (event_conditions e server h c tags @ [Obj [(''ack'', Obj [(''$lte'', jnum n)])]]))]) in
      if counted then o_aggregate e COLL_SOE [Obj [(''$match'', cond 1)], count_stage] (event_sort server h) (hr_limit h) s
      else o_find e COLL_SOE (cond (if hr_end h = Null then 1 else 2)) (Obj []) (event_sort server h) (hr_limit h) s)"

definition event_result :: "doc \<Rightarrow> jsval" where
  "event_result d = Obj [(''StatusCode'', jnum (SC ''Good'')),
     (''HistoryData'', Arr [Obj [
        (''Value'', Obj [(''Type'', of_code DataType ''String''), (''Body'', fld d ''eventText''), (''Quality'', quality_code d),
           (''Count'', if typeof (fld d ''count'') = ''number'' then fld d ''count'' else jnum 1)]),
        (''ServerTimestamp'', fld d ''timeTag''), (''SourceTimestamp'', fld d ''timeTagAtSource''),
        (''SourceTimestampOk'', fld d ''timeTagAtSourceOk''), (''Acknowledge'', fld d ''ack'')]]),
     (''NodeId'', tag_node d [(''Namespace'', jnum NamespaceMongodb)]),
     (''_Properties'', Obj (fields_of d [''group1'', ''description'', ''priority'', ''pointKey''] @
        [(''event_id'', if strict_eq (fld d ''_id'') (fld d ''tag'') then fld d ''event_id'' else fld d ''_id'')]))]"

definition read_events :: "'s read_env \<Rightarrow> rights \<Rightarrow> jsval \<Rightarrow> bool \<Rightarrow> hist_range \<Rightarrow> string list \<Rightarrow> 's \<Rightarrow> opc_reply \<Rightarrow> js_error + opc_reply" where
  "read_events e u body server h tags s r =
     bindS (event_filters body) (\<lambda>c. bindS (wants_count body) (\<lambda>counted.
       let found = (case event_query e counted server h c tags s of Inl _ \<Rightarrow> [] | Inr ds \<Rightarrow> ds) in
       Inr (if found = [] then with_result ''GoodNoData'' ''No NodeId.Id requested found on soeData'' r
            else good_results e (map event_result (filter (group_visible u) found)) r)))"

section \<open>The historian\<close>

definition MaxHistoryRowsPerNode :: int where "MaxHistoryRowsPerNode = 10000"

text \<open>The requested tags the user may see.\<close>

definition allowed_tags :: "'s read_env \<Rightarrow> rights \<Rightarrow> string list \<Rightarrow> 's \<Rightarrow> string list" where
  "allowed_tags e u tags s =
     (if group1List u = [] then tags
      else (case o_find e COLL_REALTIME (Obj ([(''tag'', Obj [(''$in'', Arr (map Str tags))])] @ group_filter u))
                (Obj [(''projection'', Obj [(''tag'', jnum 1)])]) [] Undef s of
          Inl _ \<Rightarrow> []
        | Inr ds \<Rightarrow> filter (\<lambda>t. list_ex (\<lambda>d. fld d ''tag'' = Str t) ds) tags))"

text \<open>\<open>parseInt(s, 10)\<close>.\<close>

definition parse_dec :: "string \<Rightarrow> jsnum" where
  "parse_dec str = (let (neg, s) = split_sign (trim_start str); ds = takeWhile is_digit s
     in if ds = [] then NaN else dbl (of_int (if neg then - digits_val ds else digits_val ds)))"

definition row_limit :: "jsval \<Rightarrow> nat \<Rightarrow> jsnum" where
  "row_limit v n = (let p = parse_dec (to_string v); m = num MaxHistoryRowsPerNode;
       q = (if num_is_nan p \<or> p < num 1 then m else p)
     in (if q < m then q else m) * num (int n))"

definition range_sql :: string where
  "range_sql = ''SELECT tag, value, flags, time_tag, time_tag_at_source FROM hist WHERE time_tag>=$1 AND time_tag<=$2 AND '' @
     ''tag = ANY($3) ORDER BY tag asc, time_tag ASC LIMIT $4''"

definition last_sql :: string where
  "last_sql = ''SELECT tag as tag, last(value, time_tag) as value, last(flags, time_tag) as flags, last(time_tag, time_tag) as time_tag, '' @
     ''last(time_tag_at_source, time_tag) as time_tag_at_source from hist where time_tag<=$1 and time_tag> ($1::timestamptz - INTERVAL '' @
     [CHR 0x27] @ ''0.5 day'' @ [CHR 0x27] @ '') and tag = ANY($2) group by tag''"

definition hist_query :: "jsnum \<Rightarrow> jsnum \<Rightarrow> string list \<Rightarrow> jsval \<Rightarrow> string \<times> jsval list" where
  "hist_query startTs endTs tags limit =
     (let ts = Arr (map Str tags) in
      if num_eq startTs endTs then (last_sql, [Date startTs, ts])
      else (range_sql, [Date startTs, Date endTs, ts, Num (row_limit limit (length tags))]))"

definition char_at :: "jsval \<Rightarrow> nat \<Rightarrow> js_error + string" where
  "char_at v i = (case v of Str s \<Rightarrow> Inr (if i < length s then [s ! i] else []) | _ \<Rightarrow> Inl TypeError)"

text \<open>One row of the historian in an answer: the third flag tells digital from analog.\<close>

definition row_value :: "bool \<times> bool \<Rightarrow> doc \<Rightarrow> js_error + jsval" where
  "row_value st d =
     bindS (char_at (fld d ''flags'') 2) (\<lambda>kind. bindS (char_at (fld d ''flags'') 0) (\<lambda>bad.
       let digital = (kind = ''0'') in
       Inr (Obj [(''Value'', Obj [(''Type'', of_code DataType (if digital then ''Boolean'' else ''Double'')),
              (''Body'', if digital then Bool (\<not> strict_eq (fld d ''value'') (jnum 0)) else fld d ''value''),
              (''Quality'', jnum (SC (if bad = ''0'' then ''Good'' else ''Bad'')))]),
            (''SourceTimestamp'', if snd st then fld d ''time_tag_at_source'' else Undef),
            (''ServerTimestamp'', if fst st then fld d ''time_tag'' else Undef)])))"

definition history_of_node :: "bool \<times> bool \<Rightarrow> doc list \<Rightarrow> jsval \<Rightarrow> js_error + jsval list" where
  "history_of_node st rows node =
     bindS (value_node node) (\<lambda>n.
       let answer = (\<lambda>c hd nid. Obj [(''StatusCode'', jnum (SC c)), (''HistoryData'', Arr hd), (''ContinuationPoint'', Null), (''NodeId'', nid)]) in
       case n of
         None \<Rightarrow> Inr (if js_in ''AttributeId'' node = Inr True then [answer ''BadNotFound'' [] Null] else [])
       | Some nid \<Rightarrow> (let mine = filter (\<lambda>d. strict_eq (fld d ''tag'') (opt_get nid ''Id'')) rows in
           bindS (mapS (row_value st) mine) (\<lambda>hd. Inr [answer (if mine = [] then ''BadNotFound'' else ''Good'') hd nid])))"

definition read_historian :: "'s read_env \<Rightarrow> rights \<Rightarrow> jsval \<Rightarrow> bool \<times> bool \<Rightarrow> hist_range \<Rightarrow> string list \<Rightarrow> 's \<Rightarrow> opc_reply \<Rightarrow> js_error + opc_reply" where
  "read_historian e u body st h tags s r =
     (let startTs = date_of e (hr_start h); endTs = date_of e (hr_end h); allowed = allowed_tags e u tags s in
      if typeof (hr_start h) \<noteq> ''string'' \<or> typeof (hr_end h) \<noteq> ''string'' \<or> num_is_nan startTs \<or> num_is_nan endTs
      then Inr (with_result ''BadHistoryOperationInvalid'' ''Invalid StartTime/EndTime'' r)
      else if allowed = [] then Inr (with_result ''GoodNoData'' ''No accessible NodeId.Ids requested'' r)
      else if \<not> o_pool e then Inr (service_fault ''BadServerNotConnected'' ''Database not connected!'' r)
      else (case hist_query startTs endTs allowed (hr_limit h) of (sql, params) \<Rightarrow>
        (case o_pg e sql params of
          Inl _ \<Rightarrow> Inr (service_fault ''BadServerNotConnected'' ''Database error!'' r)
        | Inr rows \<Rightarrow> bindS (array_of (opt_get body ''NodesToRead'')) (\<lambda>nodes.
            bindS (mapS (history_of_node st rows) nodes) (\<lambda>rs. Inr (good_results e (concat rs) r))))))"

section \<open>The history service\<close>

definition history_range :: "'s read_env \<Rightarrow> jsval \<Rightarrow> js_error + hist_range \<times> bool" where
  "history_range e details =
     bindS (js_in ''ParameterData'' details) (\<lambda>has.
       if \<not> has then Inr (default_range e, False)
       else let v = opt_get details ''ParameterData''; d = default_range e; g = (\<lambda>k x. if js_in k v = Inr True then opt_get v k else x) in
         bindS (js_in ''StartTime'' v) (\<lambda>_. Inr (
           \<lparr>hr_start = g ''StartTime'' (hr_start d), hr_end = g ''EndTime'' (hr_end d), hr_limit = g ''NumValuesPerNode'' (hr_limit d)\<rparr>,
           strict_eq (g ''IsReadModified'' Undef) (Bool True))))"

definition history_service :: "'s read_env \<Rightarrow> request \<Rightarrow> rights \<Rightarrow> opc_reply \<Rightarrow> 's \<Rightarrow> js_error + opc_reply" where
  "history_service e req u r0 s =
     (let body = fld (rbody req) ''Body''; r = r0\<lparr>r_ServiceId := of_code ServiceCode ''HistoryReadResponse''\<rparr>;
          details = opt_get body ''HistoryReadDetails'' in
      bindS (js_in ''HistoryReadDetails'' body) (\<lambda>hasD.
      bindS (if hasD then js_in ''ParameterTypeId'' details else Inr False) (\<lambda>hasT.
        if \<not> hasT \<or> \<not> strict_eq (opt_get details ''ParameterTypeId'') (of_code ServiceCode ''ReadRawModifiedDetails'')
        then Inr (with_result ''BadHistoryOperationInvalid'' ''Invalid HistoryReadDetails option'' r)
        else bindS (js_in ''NodesToRead'' body) (\<lambda>hasNodes. bindS (js_in ''ContentFilter'' body) (\<lambda>hasFilter.
          if \<not> hasNodes \<and> \<not> hasFilter then Inr (with_result ''GoodNoData'' ''No NodesToRead'' r)
          else bindS (if hasNodes then bindS (array_of (opt_get body ''NodesToRead'')) hist_tags else Inr []) (\<lambda>tags.
            if hasNodes \<and> tags = [] then Inr (with_result ''GoodNoData'' ''No valid NodeId.Ids/Attribute request found'' r)
            else bindS (history_range e details) (\<lambda>(h, modified).
              if modified then Inr (with_result ''BadHistoryOperationUnsupported''
                ''Invalid ReadRawModifiedDetails/isReadModified option (must be false)'' r)
              else if strict_eq (opt_get body ''Namespace'') (jnum NamespaceMongodb)
              then read_events e u body (fst (stamps body)) h tags s r
              else read_historian e u body (stamps body) h tags s r)))))))"

section \<open>The API\<close>

definition opcApi :: "'s read_env \<Rightarrow> request \<Rightarrow> ('s, opc_reply) opc_step" where
  "opcApi e req w = (case opc_envelope (opc_env.truncate e) req of
      Inl err \<Rightarrow> (Inl err, w)
    | Inr (Inl r) \<Rightarrow> (Inr r, w)
    | Inr (Inr (user, u, r)) \<Rightarrow>
        (let is = (\<lambda>n. strict_eq (fld (rbody req) ''ServiceId'') (of_code ServiceCode n)) in
         if is ''WriteRequest'' then write_service (opc_env.truncate e) req u user r w
         else if is ''ReadRequest'' then (read_service e req u r (ostore w), w)
         else if is ''HistoryReadRequest'' then (history_service e req u r (ostore w), w)
         else if is ''Extended_RequestUniqueAttributeValues'' then (unique_values e req u r (ostore w), w)
         else (Inr (service_fault ''BadServiceUnsupported''
           ''Existing services: 629=ReadRequest, 671=WriteRequest, 100000001=Extended_RequestListUniqueAttributeValues'' r), w)))"

end
