(* ===== verification/OpcLaws.thy ===== *)
theory OpcLaws
  imports OpcWrite
begin

text \<open>
  Properties of the write service: what each effect of a request needs, stated on the store
  as it is when the effect is issued.
\<close>

section \<open>Effects and the states they are issued in\<close>

definition effect_step :: "'s opc_env \<Rightarrow> opc_effect \<Rightarrow> 's \<Rightarrow> 's" where
  "effect_step e f s = (case f of Call c \<Rightarrow> run_call e c s | UserAction _ \<Rightarrow> s)"

primrec replay :: "'s opc_env \<Rightarrow> 's \<Rightarrow> opc_effect list \<Rightarrow> 's" where
  "replay e s [] = s"
| "replay e s (f # fs) = replay e (effect_step e f s) fs"

text \<open>From the world \<open>w\<close>, the step issues effects that each satisfy \<open>P\<close> in the state they meet, and
  leaves the store those effects make.\<close>

primrec each_meets :: "'s opc_env \<Rightarrow> ('s \<Rightarrow> opc_effect \<Rightarrow> bool) \<Rightarrow> 's \<Rightarrow> opc_effect list \<Rightarrow> bool" where
  "each_meets e P s [] = True"
| "each_meets e P s (f # fs) = (P s f \<and> each_meets e P (effect_step e f s) fs)"

lemma replay_append: "replay e s (fs @ gs) = replay e (replay e s fs) gs"
  by (induction fs arbitrary: s) simp_all

lemma each_meets_append: "each_meets e P s (fs @ gs) \<longleftrightarrow> each_meets e P s fs \<and> each_meets e P (replay e s fs) gs"
  by (induction fs arbitrary: s) simp_all

definition emits :: "'s opc_env \<Rightarrow> ('s \<Rightarrow> opc_effect \<Rightarrow> bool) \<Rightarrow> ('s, 'a) opc_step \<Rightarrow> 's opc_world \<Rightarrow> bool" where
  "emits e P m w \<longleftrightarrow> (\<exists>new. effects (snd (m w)) = effects w @ new \<and> ostore (snd (m w)) = replay e (ostore w) new \<and>
     each_meets e P (ostore w) new)"

lemma emits_none: "snd (m w) = w \<Longrightarrow> emits e P m w"
  by (auto simp: emits_def)

lemma emits_one:
  "effects (snd (m w)) = effects w @ [f] \<Longrightarrow> ostore (snd (m w)) = replay e (ostore w) [f] \<Longrightarrow> P (ostore w) f \<Longrightarrow> emits e P m w"
  unfolding emits_def by (intro exI[of _ "[f]"]) simp

lemma emits_seq:
  assumes "emits e P m w" "emits e P m' (snd (m w))"
    and "effects (snd (m'' w)) = effects (snd (m' (snd (m w))))" "ostore (snd (m'' w)) = ostore (snd (m' (snd (m w))))"
  shows "emits e P m'' w"
  using assms unfolding emits_def
  by (metis append.assoc each_meets_append replay_append)

lemma emits_bindE:
  assumes "emits e P m w" "\<And>x w'. m w = (Inr x, w') \<Longrightarrow> emits e P (f x) w'"
  shows "emits e P (bindE m f) w"
proof (cases "m w")
  case (Pair r w')
  show ?thesis
  proof (cases r)
    case (Inl err)
    with Pair assms(1) show ?thesis by (simp add: emits_def bindE_def)
  next
    case (Inr x)
    have mw: "m w = (Inr x, w')" by (simp add: Pair Inr)
    show ?thesis
    proof (rule emits_seq[of e P m w "f x"])
      show "emits e P (f x) (snd (m w))" unfolding mw snd_conv by (rule assms(2)[OF mw])
    qed (use assms(1) in \<open>simp_all add: bindE_def mw\<close>)
  qed
qed

lemma emits_seqE: "emits e P m w \<Longrightarrow> (\<And>x w'. m w = (Inr x, w') \<Longrightarrow> emits e P m' w') \<Longrightarrow> emits e P (seqE m m') w"
  unfolding seqE_def by (rule emits_bindE)

text \<open>A read keeps the world.\<close>

lemma emits_askE: "(\<And>x. g w = Inr x \<Longrightarrow> emits e P (f x) w) \<Longrightarrow> emits e P (bindE (askE g) f) w"
  by (rule emits_bindE) (auto simp: askE_def intro: emits_none)

lemma emits_returnE: "emits e P (returnE x) w"
  by (rule emits_none) (simp add: returnE_def)

lemma emits_throwE: "emits e P (throwE x) w"
  by (rule emits_none) (simp add: throwE_def)

lemma emits_callE: "P (ostore w) (Call c) \<Longrightarrow> emits e P (callE e c) w"
  by (rule emits_one[of _ _ "Call c"]) (simp_all add: callE_def effect_step_def)

lemma emits_fireE: "P (ostore w) (Call c) \<Longrightarrow> emits e P (fireE e c) w"
  by (rule emits_one[of _ _ "Call c"]) (simp_all add: callE_def fireE_def effect_step_def)

lemma emits_enqueueE: "P (ostore w) (UserAction d) \<Longrightarrow> emits e P (enqueueE d) w"
  by (rule emits_one[of _ _ "UserAction d"]) (simp_all add: enqueueE_def effect_step_def)

lemma emits_if: "(b \<Longrightarrow> emits e P m w) \<Longrightarrow> (\<not> b \<Longrightarrow> emits e P m' w) \<Longrightarrow> emits e P (if b then m else m') w"
  by simp

lemma emits_option: "(x = None \<Longrightarrow> emits e P a w) \<Longrightarrow> (\<And>y. x = Some y \<Longrightarrow> emits e P (b y) w) \<Longrightarrow>
    emits e P (case x of None \<Rightarrow> a | Some y \<Rightarrow> b y) w"
  by (cases x) simp_all

lemma emits_str: "(\<And>s. v = Str s \<Longrightarrow> emits e P (b s) w) \<Longrightarrow> emits e P a w \<Longrightarrow> emits e P (case v of Str s \<Rightarrow> b s | _ \<Rightarrow> a) w"
  by (cases v) simp_all

lemma emits_flow: "(\<And>r. f = Sent r \<Longrightarrow> emits e P (a r) w) \<Longrightarrow> (\<And>r. f = Go r \<Longrightarrow> emits e P (b r) w) \<Longrightarrow>
    emits e P (case f of Sent r \<Rightarrow> a r | Go r \<Rightarrow> b r) w"
  by (cases f) simp_all

lemmas emits_intros = emits_if emits_option emits_str emits_flow emits_returnE emits_throwE emits_callE emits_fireE emits_enqueueE emits_askE emits_seqE emits_bindE

lemma emitsD:
  assumes "emits e P m \<lparr>ostore = s, effects = []\<rparr>" "effects (snd (m \<lparr>ostore = s, effects = []\<rparr>)) = pre @ f # post"
  shows "P (replay e s pre) f"
  using assms by (auto simp: emits_def each_meets_append)

section \<open>Commands\<close>

text \<open>What a command put in the queue needs, in the state in which it is inserted.\<close>

definition authorised :: "'s opc_env \<Rightarrow> request \<Rightarrow> 's \<Rightarrow> opc_effect \<Rightarrow> bool" where
  "authorised e req s f = (case f of Call (InsertOne coll d) \<Rightarrow> coll = COLL_COMMANDS \<longrightarrow>
       canSendCommands (o_auth e) req s \<and>
       ((\<exists>t. fld d ''tag'' = Str (''$$'' @ t)) \<or>
        (\<exists>q p. o_findOne e COLL_REALTIME q s = Inr (Some p) \<and> can_command_to e req (fld p ''group1'') s \<and>
           fld d ''tag'' = fld p ''tag'' \<and> fld d ''pointKey'' = double (fld p ''_id'')))
     | _ \<Rightarrow> True)"

lemma colls [simp]:
  "COLL_SOE \<noteq> COLL_COMMANDS" "COLL_COMMANDS \<noteq> COLL_SOE" "COLL_SOE \<noteq> COLL_REALTIME"
  "COLL_REALTIME \<noteq> COLL_SOE" "COLL_REALTIME \<noteq> COLL_COMMANDS" "COLL_COMMANDS \<noteq> COLL_REALTIME"
  by (simp_all add: COLL_SOE_def COLL_COMMANDS_def COLL_REALTIME_def)

lemma authorised_other [simp]:
  "authorised e req s (UserAction d)" "authorised e req s (Call (UpdateMany c f x))"
  "authorised e req s (Call (UpdateOne c f x))" "authorised e req s (Call (InsertOne COLL_SOE d))"
  by (simp_all add: authorised_def)

lemma fld_point_command:
  "fld (point_command e req user d v) ''tag'' = fld d ''tag''"
  "fld (point_command e req user d v) ''pointKey'' = double (fld d ''_id'')"
  by (simp_all add: point_command_def addressing_def Let_def)

lemma fld_special_command: "fld (special_command e req user t v) ''tag'' = Str t"
  by (simp add: special_command_def)

lemma command_to_point_authorised:
  assumes "canSendCommands (o_auth e) req (ostore w)"
  shows "emits e (authorised e req) (command_to_point e req user q i v r) w"
  unfolding command_to_point_def queue_failed_def
  by (rule emits_intros | use assms in \<open>auto simp: authorised_def fld_point_command\<close>)+

lemma starts_with_split: "starts_with p s \<Longrightarrow> s = p @ drop (length p) s"
  by (metis append_take_drop_id starts_with_def)

lemma write_value_authorised: "emits e (authorised e req) (write_value e req user node r) w"
proof -
  have special: "authorised e req (ostore w) (Call (InsertOne COLL_COMMANDS (special_command e req user t v)))"
    if "canSendCommands (o_auth e) req (ostore w)" "starts_with ''$$'' t" for t v
    using that starts_with_split[of "''$$''" t] by (simp add: authorised_def fld_special_command) blast
  show ?thesis unfolding write_value_def Let_def queue_failed_def
    by (rule emits_intros command_to_point_authorised | use special in simp)+
qed

lemma ack_node_authorised: "emits e (authorised e req) (ack_node e u user node r) w"
  unfolding ack_node_def ack_events_step_def ack_alarms_step_def silence_step_def update_soe_def Let_def
  by (rule emits_intros | simp)+

lemma write_properties_authorised: "emits e (authorised e req) (write_properties e u user node r) w"
  unfolding write_properties_def after_update_def range_check_def Let_def
  by (rule emits_intros | simp)+

lemma write_service_emits:
  assumes "\<And>node r w. emits e P (ack_node e u user node r) w" "\<And>node r w. emits e P (write_value e req user node r) w"
    "\<And>node r w. emits e P (write_properties e u user node r) w"
  shows "emits e P (write_service e req u user r) w"
proof -
  have "emits e P (write_node e req u user node r) w" for node r w
    unfolding write_node_def Let_def by (rule emits_intros assms | simp)+
  then have "emits e P (write_nodes e req u user nodes r) w" for nodes r w
    by (induction nodes arbitrary: r w) (auto intro!: emits_returnE emits_bindE emits_flow)
  then show ?thesis unfolding write_service_def Let_def by (auto intro!: emits_if emits_askE emits_returnE)
qed

text \<open>C21. No command is queued without permission. Whenever a write request puts a command in the
  queue, at that moment the database grants the user of the token the right to send
  commands, and either the tag is one of the special ones that start with two dollar signs or
  the command carries the key and the tag of a point found in the database whose location the
  same user may command.\<close>

theorem queued_commands_are_authorised:
  assumes "effects (snd (write_service e req u user r \<lparr>ostore = s, effects = []\<rparr>)) = pre @ Call (InsertOne COLL_COMMANDS d) # post"
  shows "canSendCommands (o_auth e) req (replay e s pre) \<and>
    ((\<exists>t. fld d ''tag'' = Str (''$$'' @ t)) \<or>
     (\<exists>q p. o_findOne e COLL_REALTIME q (replay e s pre) = Inr (Some p) \<and> can_command_to e req (fld p ''group1'') (replay e s pre) \<and>
        fld d ''tag'' = fld p ''tag'' \<and> fld d ''pointKey'' = double (fld p ''_id'')))"
proof -
  have "emits e (authorised e req) (write_service e req u user r) \<lparr>ostore = s, effects = []\<rparr>"
    by (rule write_service_emits ack_node_authorised write_value_authorised write_properties_authorised)+
  from emitsD[OF this assms] show ?thesis by (simp add: authorised_def)
qed

section \<open>Acknowledgements\<close>

text \<open>A filter that only matches points or events of the groups \<open>gs\<close>; an empty list does not restrict.\<close>

definition in_groups :: "string list \<Rightarrow> jsval \<Rightarrow> bool" where
  "in_groups gs f = (opt_get f ''group1'' = Obj [(''$in'', Arr (map Str gs))])"

definition confined :: "string list \<Rightarrow> jsval \<Rightarrow> bool" where
  "confined gs f = (gs = [] \<or> in_groups gs f \<or> (case opt_get f ''$and'' of Arr fs \<Rightarrow> list_ex (in_groups gs) fs | _ \<Rightarrow> False))"

lemma confined_group [simp]:
  "confined (group1List u) (Obj (group_filter u))" "confined (group1List u) (Obj ((''tag'', v) # group_filter u))"
  "confined (group1List u) (digital_events (Obj (group_filter u)) xs)"
  by (simp_all add: confined_def in_groups_def group_filter_def digital_events_def)

text \<open>What an update of many documents needs.\<close>

definition mass_update_ok :: "rights \<Rightarrow> opc_effect \<Rightarrow> bool" where
  "mass_update_ok u f = (case f of Call (UpdateMany coll flt x) \<Rightarrow> confined (group1List u) flt \<and>
       (if coll = COLL_SOE then ackEvents u else coll = COLL_REALTIME \<and> ackAlarms u) | _ \<Rightarrow> True)"

lemma mass_update_other [simp]:
  "mass_update_ok u (UserAction d)" "mass_update_ok u (Call (UpdateOne c f x))" "mass_update_ok u (Call (InsertOne c d))"
  by (simp_all add: mass_update_ok_def)

lemma soe_filters [simp]:
  "confined (group1List u) (Obj (ack_le_1 # not_recent e @ group_filter u))"
  "confined (group1List u) (Obj ((''ack'', v) # group_filter u))"
  "confined (group1List u) (Obj ((''tag'', v) # ack_le_1 # not_recent e @ group_filter u))"
  "confined (group1List u) (Obj ((''tag'', v) # (''ack'', v') # group_filter u))"
  "confined (group1List u) (Obj ((''_id'', v) # ack_le_1 # group_filter u))"
  "confined (group1List u) (Obj ((''_id'', v) # (''ack'', v') # group_filter u))"
  by (simp_all add: confined_def in_groups_def group_filter_def ack_le_1_def not_recent_def)

lemma event_bits_iff: "list_ex (ack_bit b) event_bits \<longleftrightarrow> ack_bit b ''RemoveAllEvents'' \<or> ack_bit b ''RemoveOneEvent'' \<or>
    ack_bit b ''RemovePointEvents'' \<or> ack_bit b ''AckAllEvents'' \<or> ack_bit b ''AckOneEvent'' \<or> ack_bit b ''AckPointEvents''"
  by (simp add: event_bits_def)

lemma alarm_bits_iff: "list_ex (ack_bit b) alarm_bits \<longleftrightarrow> ack_bit b ''AckOneAlarm'' \<or> ack_bit b ''AckAllAlarms'' \<or> ack_bit b ''SilenceBeep''"
  by (simp add: alarm_bits_def)

lemma ack_node_mass: "emits e (\<lambda>_. mass_update_ok u) (ack_node e u user node r) w"
  unfolding ack_node_def ack_events_step_def ack_alarms_step_def silence_step_def update_soe_def Let_def event_bits_iff alarm_bits_iff
  by (rule emits_intros | simp add: mass_update_ok_def)+

lemma write_value_mass: "emits e (\<lambda>_. mass_update_ok u) (write_value e req user node r) w"
  unfolding write_value_def command_to_point_def queue_failed_def Let_def
  by (rule emits_intros | simp)+

lemma write_properties_mass: "emits e (\<lambda>_. mass_update_ok u) (write_properties e u' user node r) w"
  unfolding write_properties_def after_update_def range_check_def Let_def
  by (rule emits_intros | simp)+

text \<open>C22. Updates of many documents are acknowledgements and stay in the user's groups: every one
  a write request issues goes to the events, and the user may acknowledge events, or to the
  points, and the user may acknowledge alarms; when his roles restrict groups, its filter
  demands one of those groups.\<close>

theorem mass_updates_confined:
  assumes "effects (snd (write_service e req u user r \<lparr>ostore = s, effects = []\<rparr>)) = pre @ Call (UpdateMany coll flt x) # post"
  shows "confined (group1List u) flt \<and> (coll = COLL_SOE \<and> ackEvents u \<or> coll = COLL_REALTIME \<and> ackAlarms u)"
proof -
  have "emits e (\<lambda>_. mass_update_ok u) (write_service e req u user r) \<lparr>ostore = s, effects = []\<rparr>"
    by (rule write_service_emits ack_node_mass write_value_mass write_properties_mass)+
  from emitsD[OF this assms] show ?thesis by (auto simp: mass_update_ok_def split: if_splits)
qed

section \<open>Updates of one point\<close>

text \<open>The right a field of an update of one point needs.\<close>

definition beep_filter :: "jsval \<Rightarrow> bool" where
  "beep_filter flt = (opt_get flt ''_id'' = jnum beepPoint)"

definition field_right :: "rights \<Rightarrow> jsval \<Rightarrow> string \<Rightarrow> bool" where
  "field_right u flt k \<longleftrightarrow>
     k = ''alarmDisabled'' \<and> disableAlarms u \<or> k = ''annotation'' \<and> enterAnnotations u \<or>
     k \<in> {''loLimit'', ''hiLimit'', ''hysteresis''} \<and> enterLimits u \<or> k = ''notes'' \<and> enterNotes u \<or>
     k = ''value'' \<and> substituteValues u \<or> k = ''sourceDataUpdate'' \<and> (disableAlarms u \<or> enterLimits u) \<or>
     k = ''alarmed'' \<and> ackAlarms u \<and> (flt = Null \<or> confined (group1List u) flt) \<or>
     k \<in> {''value'', ''valueString'', ''beepType'', ''beepGroup1List''} \<and> ackAlarms u \<and> beep_filter flt"

definition point_update_ok :: "rights \<Rightarrow> opc_effect \<Rightarrow> bool" where
  "point_update_ok u f = (case f of Call (UpdateOne coll flt x) \<Rightarrow> coll = COLL_REALTIME \<and>
       (case x of Arr _ \<Rightarrow> x = to_rest \<and> ackAlarms u \<and> (confined (group1List u) flt \<or> (\<exists>xs. flt = digital_events Null xs))
         | Obj [(op, Obj d)] \<Rightarrow> if op = ''$set'' then \<forall>k. has_key k d \<longrightarrow> field_right u flt k
              else op = ''$pullAll'' \<and> ackAlarms u \<and> beep_filter flt \<and> fld d ''beepGroup1List'' = Arr (map Str (group1List u))
         | _ \<Rightarrow> False)
     | _ \<Rightarrow> True)"

lemma point_update_other [simp]:
  "point_update_ok u (UserAction d)" "point_update_ok u (Call (UpdateMany c f x))" "point_update_ok u (Call (InsertOne c d))"
  by (simp_all add: point_update_ok_def)

lemma point_update_set: "point_update_ok u (Call (UpdateOne COLL_REALTIME flt (set_doc d))) \<longleftrightarrow> (\<forall>k. has_key k d \<longrightarrow> field_right u flt k)"
  by (simp add: point_update_ok_def set_doc_def)

lemma find_point_cases: "find_point t i (group_filter u) = Null \<or> confined (group1List u) (find_point t i (group_filter u))"
  by (simp add: find_point_def confined_def in_groups_def group_filter_def)

lemma digital_find_point: "confined (group1List u) (digital_events (find_point t i (group_filter u)) xs) \<or>
    digital_events (find_point t i (group_filter u)) xs = digital_events Null xs"
  by (simp add: find_point_def confined_def in_groups_def group_filter_def digital_events_def)

lemma beep_filters [simp]: "beep_filter (Obj ((''_id'', jnum beepPoint) # d))"
  by (simp add: beep_filter_def)

lemma point_update_rest:
  "ackAlarms u \<Longrightarrow> point_update_ok u (Call (UpdateOne COLL_REALTIME (digital_events (find_point t i (group_filter u)) xs) to_rest))"
  using digital_find_point[of u t i xs] unfolding point_update_ok_def by (auto simp: to_rest_def)

lemma point_update_off:
  "ackAlarms u \<Longrightarrow> point_update_ok u (Call (UpdateOne COLL_REALTIME (find_point t i (group_filter u)) (set_doc [(''alarmed'', v)])))"
  using find_point_cases[of t i u] by (auto simp: point_update_set field_right_def)

lemma point_update_pull:
  "ackAlarms u \<Longrightarrow> beep_filter flt \<Longrightarrow>
   point_update_ok u (Call (UpdateOne COLL_REALTIME flt (Obj [(''$pullAll'', Obj [(''beepGroup1List'', Arr (map Str (group1List u)))])])))"
  by (simp add: point_update_ok_def)

lemma point_update_beep:
  "ackAlarms u \<Longrightarrow> beep_filter flt \<Longrightarrow> set (map fst d) \<subseteq> {''value'', ''valueString'', ''beepType'', ''beepGroup1List''} \<Longrightarrow>
   point_update_ok u (Call (UpdateOne COLL_REALTIME flt (set_doc d)))"
  by (auto simp: point_update_set field_right_def has_key_iff)

lemmas point_update_intros = point_update_rest point_update_off point_update_pull point_update_beep

lemma ack_node_point: "emits e (\<lambda>_. point_update_ok u) (ack_node e u user node r) w"
  unfolding ack_node_def ack_events_step_def ack_alarms_step_def silence_step_def update_soe_def Let_def event_bits_iff alarm_bits_iff beep_off_def
  by (rule emits_intros point_update_intros | simp)+

lemma write_value_point: "emits e (\<lambda>_. point_update_ok u) (write_value e req user node r) w"
  unfolding write_value_def command_to_point_def queue_failed_def Let_def
  by (rule emits_intros | simp)+

lemma has_key_changed [simp]: "has_key k (changed may prev p k' c) \<longleftrightarrow> k = k' \<and> may \<and> \<not> strict_eq (opt_get prev k') (opt_get p k')"
  by (auto simp: changed_def)

lemma property_changes_keys:
  assumes "property_changes u prev p = Inr ch" "has_key k ch"
  shows "k = ''alarmDisabled'' \<and> disableAlarms u \<or> k = ''annotation'' \<and> enterAnnotations u \<or> k = ''loLimit'' \<and> enterLimits u \<or>
    k = ''hiLimit'' \<and> enterLimits u \<or> k = ''hysteresis'' \<and> enterLimits u \<or> k = ''notes'' \<and> enterNotes u \<or>
    k = ''value'' \<and> substituteValues u"
proof -
  obtain vn where v: "substituted u prev p = Inr vn" and ch: "ch = changed (disableAlarms u) prev p ''alarmDisabled'' id @
      changed (enterAnnotations u) prev p ''annotation'' id @ changed (enterLimits u) prev p ''loLimit'' double @
      changed (enterLimits u) prev p ''hiLimit'' double @ changed (enterLimits u) prev p ''hysteresis'' double @
      changed (enterNotes u) prev p ''notes'' id @ vn"
    using assms(1) unfolding property_changes_def by (cases "substituted u prev p") simp_all
  have vk: "k = ''value'' \<and> substituteValues u" if "has_key k vn"
    using v that unfolding substituted_def by (cases "js_in ''substituted'' p") (auto split: if_splits)
  from assms(2)[unfolded ch has_key_append has_key_changed] show ?thesis
  proof (elim disjE conjE)
    assume "has_key k vn"
    from vk[OF this] show ?thesis by simp
  qed simp_all
qed

lemma property_changes_right:
  assumes "property_changes u prev p = Inr ch" "has_key k ch"
  shows "field_right u flt k"
  using property_changes_keys[OF assms] by (elim disjE conjE) (simp_all add: field_right_def)

lemma range_check_right:
  assumes ch: "property_changes u prev p = Inr ch"
    and any: "list_ex (\<lambda>k. has_key k ch) [''alarmDisabled'', ''hiLimit'', ''loLimit'', ''hysteresis'']"
  shows "point_update_ok u (Call (range_check e point prev))"
proof -
  from any obtain k where k: "has_key k ch" "k \<in> set [''alarmDisabled'', ''hiLimit'', ''loLimit'', ''hysteresis'']"
    unfolding list_ex_iff by blast
  have "disableAlarms u \<or> enterLimits u" using property_changes_keys[OF ch k(1)] k(2) by (elim disjE conjE) simp_all
  then show ?thesis by (simp add: range_check_def point_update_set field_right_def)
qed

lemma after_update_point:
  assumes "property_changes u prev p = Inr ch"
  shows "emits e (\<lambda>_. point_update_ok u) (after_update e point prev ch) w"
  unfolding after_update_def Let_def
  by (rule emits_intros range_check_right[OF assms] | simp)+

lemma write_properties_point: "emits e (\<lambda>_. point_update_ok u) (write_properties e u user node r) w"
proof -
  have upd: "point_update_ok u (Call (UpdateOne COLL_REALTIME point (set_doc ch)))"
    if "property_changes u prev p = Inr ch" for point prev p ch
    unfolding point_update_set using property_changes_right[OF that] by blast
  show ?thesis unfolding write_properties_def Let_def
    by (rule emits_intros after_update_point upd | assumption | simp)+
qed


section \<open>Errors\<close>

text \<open>A property write to a point that does not exist is never answered: the update and the
  user action are made, then the handler reads the type of the missing point and throws.\<close>

theorem unknown_point_not_answered:
  assumes "fld nid ''Id'' \<noteq> Undef" "fld nid ''IdType'' = jnum opcIdTypeString"
    and "o_findOne e COLL_REALTIME (Obj [(''tag'', fld nid ''Id'')]) s = Inr None"
    and "property_changes u Null (Obj p) = Inr ch"
    and "o_exec e (UpdateOne COLL_REALTIME (Obj [(''tag'', fld nid ''Id'')]) (set_doc ch)) s = Inr (res, s')" "acknowledged res"
  shows "\<exists>act. write_properties e u user (Obj [(''NodeId'', Obj nid), (''Value'', Obj [(''_Properties'', Obj p)])]) r \<lparr>ostore = s, effects = []\<rparr> =
    (Inl TypeError, \<lparr>ostore = s', effects = [Call (UpdateOne COLL_REALTIME (Obj [(''tag'', fld nid ''Id'')]) (set_doc ch)), UserAction act]\<rparr>)"
proof -
  have k: "has_key ''Id'' nid" using assms(1) fld_absent by blast
  have f: "find_point (jnum opcIdTypeString) (fld nid ''Id'') [] = Obj [(''tag'', fld nid ''Id'')]"
    by (simp add: find_point_def jnum_def opcIdTypeNumber_def opcIdTypeString_def num_inj)
  show ?thesis using assms k
    by (simp add: write_properties_def Let_def handler_simps js_in_def f get_def bindE_def callE_def run_call_def seqE_def enqueueE_def after_update_def)
qed

text \<open>The number a name starts with decides: a command addressed to a tag whose text starts with
  digits goes to the point with that number as its key, whatever its tag is.\<close>

theorem digits_of_a_tag_are_a_key:
  assumes "canSendCommands (o_auth e) req s" "\<not> num_is_nan (parse_int t)" "command_value_ok v = Inr True"
    and "o_findOne e COLL_REALTIME (Obj [(''_id'', Num (parse_int t))]) s = Inr (Some p)" "typeof (fld p ''_id'') = ''number''"
    and "can_command_to e req (fld p ''group1'') s"
  shows "\<exists>post. effects (snd (write_value e req user (Obj [(''NodeId'', Obj [(''Id'', Str t)]), (''Value'', v)]) r \<lparr>ostore = s, effects = []\<rparr>)) =
    Call (InsertOne COLL_COMMANDS (point_command e req user p v)) # post"
proof (cases "o_exec e (InsertOne COLL_COMMANDS (point_command e req user p v)) s")
  case (Inl err)
  with assms show ?thesis
    by (simp add: write_value_def command_to_point_def Let_def handler_simps js_in_def callE_def bindE_def)
next
  case (Inr q)
  with assms show ?thesis
    by (simp add: write_value_def command_to_point_def Let_def handler_simps js_in_def callE_def bindE_def fireE_def seqE_def enqueueE_def)
qed

section \<open>A request on a store in memory\<close>

text \<open>One point, found by its key 7 and by its tag; every write succeeds and keeps the store.\<close>

definition demo_point :: doc where
  "demo_point = [(''_id'', jnum 7), (''tag'', Str ''KAW2KPR21GX'')]"

definition demo_opc :: "mem opc_env" where
  "demo_opc = \<lparr>o_auth = mem_env 0, o_tini = 0, o_now = 50000, o_connected = True, o_remote = Str ''127.0.0.1'',
     o_exec = (\<lambda>c s. Inr (\<lparr>acknowledged = True, insertedId = ''65a''\<rparr>, s)),
     o_findOne = (\<lambda>c q s. Inr (if q \<in> {Obj [(''_id'', jnum 7)], Obj [(''tag'', Str ''KAW2KPR21GX'')]} then Some demo_point else None)),
     o_objectId = (\<lambda>v. Inr v), o_toFixed = (\<lambda>x. Inr (to_fixed x 2))\<rparr>"

definition demo_rights :: rights where
  "demo_rights = (rights.truncate mem_admin_role)\<lparr>ackEvents := True, enterNotes := True, group1List := [''KAW2'']\<rparr>"

definition demo_write :: "doc \<Rightarrow> request" where
  "demo_write node = mem_request ''t1'' [(''Body'', Obj [(''NodesToWrite'', Arr [Obj node])])]"

definition demo_reply :: opc_reply where
  "demo_reply = reply_init demo_opc [] (jnum 1)"

definition demo_world :: "mem opc_world" where
  "demo_world = \<lparr>ostore = mem_store, effects = []\<rparr>"

lemma of_code_simps:
  "of_code AttributeId ''Value'' = jnum 13" "of_code AttributeId ''Description'' = jnum 5"
  "of_code AttributeId ''ExtendedAlarmEventsAck'' = jnum 100000004" "of_code DataType ''Double'' = jnum 11" "of_code DataType ''String'' = jnum 12"
  by (simp_all add: of_code_def attribute_codes jnum_def)

lemma jnum_eq [simp]:
  "loose_eq (jnum a) (jnum b) \<longleftrightarrow> a = b" "strict_eq (jnum a) (jnum b) \<longleftrightarrow> a = b" "typeof (jnum a) = ''number''" "jnum a = jnum b \<longleftrightarrow> a = b"
  by (auto simp: jnum_def loose_eq_def to_prim_def nullish_def num_eq_iff num_def)

lemma demo_may_command: "canSendCommands (o_auth demo_opc) (demo_write n) mem_store"
  by (simp add: canSendCommands_def token_roles_def checkToken_def request_token_def demo_write_def demo_opc_def mem_defs truthy.simps js_or_def)

lemmas demo_defs = demo_opc_def demo_write_def demo_world_def mem_request_def items_of_def js_in_def get_def
lemmas write_steps = write_service_def write_node_def Let_def handler_simps bindE_def seqE_def callE_def fireE_def enqueueE_def
  run_call_def of_code_simps

definition special_node :: doc where
  "special_node = [(''AttributeId'', jnum 13), (''NodeId'', Obj [(''Id'', Str ''$$stop'')]),
     (''Value'', Obj [(''Type'', jnum 12), (''Body'', Str ''now'')])]"

lemma parse_special: "num_is_nan (parse_int ''$$stop'')"
  by code_simp

theorem queued_commands_are_authorised_witness:
  "\<exists>d. effects (snd (write_service demo_opc (demo_write special_node) demo_rights ''admin'' demo_reply demo_world)) =
      [Call (InsertOne COLL_COMMANDS d)] \<and> canSendCommands (o_auth demo_opc) (demo_write special_node) mem_store"
proof -
  let ?d = "special_command demo_opc (demo_write special_node) ''admin'' ''$$stop'' (Obj [(''Type'', jnum 12), (''Body'', Str ''now'')])"
  have r: "effects (snd (write_service demo_opc (demo_write special_node) demo_rights ''admin'' demo_reply \<lparr>ostore = mem_store, effects = []\<rparr>)) =
      [] @ Call (InsertOne COLL_COMMANDS ?d) # []"
    using demo_may_command[of special_node] parse_special
    by (simp add: write_steps write_value_def command_value_ok_def special_node_def demo_defs starts_with_def)
  show ?thesis using r queued_commands_are_authorised[OF r] by (simp add: demo_world_def)
qed

definition ack_all_node :: doc where
  "ack_all_node = [(''AttributeId'', jnum 100000004), (''NodeId'', Obj [(''Id'', Str ''x''), (''IdType'', jnum 1)]),
     (''Value'', Obj [(''Type'', jnum 7), (''Body'', jnum 0x40)])]"

lemma ack_bit_num: "ack_bit (jnum k) n \<longleftrightarrow> and (word_of_int k) (word_of_int (opc_code Acknowledge n) :: 32 word) \<noteq> 0"
  by (simp add: ack_bit_def jnum_def to_int32_def num_def)

theorem mass_updates_confined_witness:
  "\<exists>flt x. effects (snd (write_service demo_opc (demo_write ack_all_node) demo_rights ''admin'' demo_reply demo_world)) =
      Call (UpdateMany COLL_SOE flt x) # [UserAction (user_act ''admin'' ''Ack All Events'' [] (Date (num 50000)))] \<and> confined [''KAW2''] flt"
proof -
  let ?f = "Obj ((''ack'', jnum 0) # group_filter demo_rights)"
  have g: "group1List demo_rights = [''KAW2'']" "ackEvents demo_rights" by (simp_all add: demo_rights_def)
  have b: "list_ex (ack_bit (jnum 64)) alarm_bits = False" "ack_bit (jnum 64) ''RemoveAllEvents'' = False"
    "ack_bit (jnum 64) ''AckAllEvents'' = True" "ack_bit (jnum 64) ''AckAllAlarms'' = False" "ack_bit (jnum 64) ''AckOneAlarm'' = False"
    "ack_bit (jnum 64) ''SilenceBeep'' = False"
    by (simp_all add: ack_bit_num ack_codes alarm_bits_iff)
  have r: "effects (snd (write_service demo_opc (demo_write ack_all_node) demo_rights ''admin'' demo_reply \<lparr>ostore = mem_store, effects = []\<rparr>)) =
      [] @ Call (UpdateMany COLL_SOE ?f (set_doc [(''ack'', jnum 1)])) # [UserAction (user_act ''admin'' ''Ack All Events'' [] (Date (num 50000)))]"
    by (simp add: write_steps ack_node_def ack_events_step_def ack_alarms_step_def silence_step_def update_soe_def ack_all_node_def demo_defs g b)
  show ?thesis using r mass_updates_confined[OF r] by (simp add: demo_world_def g)
qed

definition notes_node :: doc where
  "notes_node = [(''AttributeId'', jnum 5), (''NodeId'', Obj [(''Id'', Str ''KAW2KPR21GX''), (''IdType'', jnum 1)]),
     (''Value'', Obj [(''_Properties'', Obj [(''notes'', Str ''under test'')])])]"

lemma find_tag: "find_point (jnum 1) i [] = Obj [(''tag'', i)]"
  by (simp add: find_point_def opcIdTypeNumber_def opcIdTypeString_def)

lemma demo_property_rights [simp]:
  "disableAlarms demo_rights = False" "enterAnnotations demo_rights = False" "enterLimits demo_rights = False"
  "substituteValues demo_rights = False" "enterNotes demo_rights = True"
  by (simp_all add: demo_rights_def mem_defs)

lemma notes_only: "property_changes demo_rights prev (Obj [(''notes'', Str n)]) =
    Inr (if strict_eq (opt_get prev ''notes'') (Str n) then [] else [(''notes'', Str n)])"
  by (simp add: property_changes_def substituted_def js_in_def changed_def)


theorem unknown_point_not_answered_witness:
  "\<exists>act. write_properties demo_opc demo_rights ''admin'' (Obj [(''NodeId'', Obj [(''Id'', Str ''none''), (''IdType'', jnum 1)]),
       (''Value'', Obj [(''_Properties'', Obj [(''notes'', Str ''x'')])])]) demo_reply \<lparr>ostore = mem_store, effects = []\<rparr> =
     (Inl TypeError, \<lparr>ostore = mem_store, effects =
        [Call (UpdateOne COLL_REALTIME (Obj [(''tag'', Str ''none'')]) (set_doc [(''notes'', Str ''x'')])), UserAction act]\<rparr>)"
proof -
  have "o_findOne demo_opc COLL_REALTIME (Obj [(''tag'', Str ''none'')]) mem_store = Inr None"
    "o_exec demo_opc c mem_store = Inr (\<lparr>acknowledged = True, insertedId = ''65a''\<rparr>, mem_store)" for c
    by (simp_all add: demo_opc_def)
  then show ?thesis
    using unknown_point_not_answered[of "[(''Id'', Str ''none''), (''IdType'', jnum 1)]" demo_opc mem_store demo_rights
        "[(''notes'', Str ''x'')]" "[(''notes'', Str ''x'')]" "\<lparr>acknowledged = True, insertedId = ''65a''\<rparr>" mem_store "''admin''" demo_reply]
    by (simp add: opcIdTypeString_def notes_only)
qed

theorem digits_of_a_tag_are_a_key_witness:
  "\<exists>d post. effects (snd (write_value demo_opc (demo_write []) ''admin'' (Obj [(''NodeId'', Obj [(''Id'', Str ''7BUS_CMD'')]),
        (''Value'', Obj [(''Type'', jnum 12), (''Body'', Str ''1'')])]) demo_reply demo_world)) = Call (InsertOne COLL_COMMANDS d) # post \<and>
     fld d ''tag'' = Str ''KAW2KPR21GX''"
proof -
  have v: "radix_digit 10 (CHR ''7'')" "\<not> radix_digit 10 (CHR ''B'')" "radix_val 10 ''7'' = 7" "to_lower ''7BUS_CMD'' = ''7bus_cmd''"
    "trim_start ''7BUS_CMD'' = ''7BUS_CMD''" "split_sign ''7BUS_CMD'' = (False, ''7BUS_CMD'')"
    by code_simp+
  have p: "parse_int ''7BUS_CMD'' = num 7"
    using dbl_of_int[of 7] by (simp add: parse_int_def v starts_with_def)
  have c: "command_value_ok (Obj [(''Type'', jnum 12), (''Body'', Str ''1'')]) = Inr True"
    by (simp add: command_value_ok_def get_def of_code_simps)
  have f: "o_findOne demo_opc COLL_REALTIME (Obj [(''_id'', Num (num 7))]) mem_store = Inr (Some demo_point)"
    by (simp add: demo_opc_def jnum_def)
  have t: "can_command_to demo_opc (demo_write []) (fld demo_point ''group1'') mem_store"
    by (simp add: can_command_to_def demo_point_def token_roles_def checkToken_def request_token_def demo_write_def demo_opc_def mem_defs js_or_def)
  have k: "typeof (fld demo_point ''_id'') = ''number''" by (simp add: demo_point_def)
  have n: "\<not> num_is_nan (parse_int ''7BUS_CMD'')" by (simp add: p num_def)
  let ?v = "Obj [(''Type'', jnum 12), (''Body'', Str ''1'')]"
  obtain post where "effects (snd (write_value demo_opc (demo_write []) ''admin'' (Obj [(''NodeId'', Obj [(''Id'', Str ''7BUS_CMD'')]), (''Value'', ?v)])
      demo_reply \<lparr>ostore = mem_store, effects = []\<rparr>)) = Call (InsertOne COLL_COMMANDS (point_command demo_opc (demo_write []) ''admin'' demo_point ?v)) # post"
    using digits_of_a_tag_are_a_key[OF demo_may_command n c f[folded p] k t] by blast
  moreover have "fld (point_command demo_opc (demo_write []) ''admin'' demo_point ?v) ''tag'' = Str ''KAW2KPR21GX''"
    unfolding fld_point_command by (simp add: demo_point_def)
  ultimately show ?thesis unfolding demo_world_def by blast
qed

end
