(* ===== verification/OpcReadLaws.thy ===== *)
theory OpcReadLaws
  imports OpcHistory OpcLaws
begin

text \<open>
  Properties of the reading services and of the dispatch: what a request without a token can do,
  which points and events an answer shows, and the bounds of a historian query.
\<close>

section \<open>The dispatch\<close>

lemma truncate_simps [simp]:
  "o_auth (opc_env.truncate e) = o_auth e" "o_connected (opc_env.truncate e) = o_connected e"
  "o_exec (opc_env.truncate e) = o_exec e" "o_now (opc_env.truncate e) = o_now e"
  by (simp_all add: opc_env.truncate_def)

lemma opc_envelope_accepts:
  "opc_envelope e req = Inr (Inr (user, u, r)) \<longleftrightarrow> (\<exists>c h. checkToken (o_auth e) req = Some c \<and> user = c_username c \<and> u = c_rights c \<and>
     o_connected e \<and> request_handle (rbody req) = Inr h \<and> h \<noteq> Undef \<and> fld (rbody req) ''ServiceId'' \<noteq> Undef \<and> r = reply_init e (rbody req) h)"
  by (auto simp: opc_envelope_def Let_def split: sum.splits option.splits)

text \<open>C24. Only a write request of an authenticated user changes anything: a request that issues a
  database write or queues a user action, or leaves the store changed, carries a token that
  verifies, reaches the server while it is connected to the database, names the write service
  and has a request handle.\<close>

theorem changes_need_a_token:
  assumes "opcApi e req w = (res, w')" "w' \<noteq> w"
  shows "\<exists>c h. checkToken (o_auth e) req = Some c \<and> o_connected e \<and> request_handle (rbody req) = Inr h \<and> h \<noteq> Undef \<and>
    strict_eq (fld (rbody req) ''ServiceId'') (of_code ServiceCode ''WriteRequest'') \<and>
    (res, w') = write_service (opc_env.truncate e) req (c_rights c) (c_username c) (reply_init (opc_env.truncate e) (rbody req) h) w"
proof (cases "opc_envelope (opc_env.truncate e) req")
  case (Inl err)
  with assms show ?thesis by (simp add: opcApi_def)
next
  case (Inr v)
  show ?thesis
  proof (cases v)
    case (Inl r)
    with Inr assms show ?thesis by (simp add: opcApi_def)
  next
    case (Inr p)
    obtain user u r where p: "p = (user, u, r)" by (cases p)
    from \<open>opc_envelope _ _ = Inr v\<close> Inr p have env: "opc_envelope (opc_env.truncate e) req = Inr (Inr (user, u, r))" by simp
    have wr: "strict_eq (fld (rbody req) ''ServiceId'') (of_code ServiceCode ''WriteRequest'')"
      using assms env by (auto simp: opcApi_def Let_def split: if_splits)
    with assms env have "(res, w') = write_service (opc_env.truncate e) req u user r w" by (simp add: opcApi_def Let_def)
    with wr env[unfolded opc_envelope_accepts truncate_simps] show ?thesis by auto
  qed
qed

section \<open>Points\<close>

definition shown :: "doc \<Rightarrow> jsval \<Rightarrow> bool" where
  "shown d res = (opt_get (opt_get res ''_Properties'') ''_id'' = fld d ''_id'' \<and> opt_get (opt_get res ''NodeId'') ''Id'' = fld d ''tag'')"

lemma shown_found: "shown d (Obj [(''StatusCode'', c), (''NodeId'', tag_node d x), (''Value'', v),
    (''_Properties'', if info then point_info d else point_properties d), (''SourceTimestamp'', t)])"
  by (simp add: shown_def tag_node_def point_info_def point_properties_def fields_of_def)

lemma find_mem: "List.find P xs = Some x \<Longrightarrow> x \<in> set xs"
  by (auto simp: find_Some_iff)

lemma no_result_value [simp]: "opt_get (no_result c nid) ''Value'' = Null"
  by (simp add: no_result_def)

lemma point_result_shows:
  assumes "opt_get (point_result u info nid d) ''Value'' \<noteq> Null"
  shows "(group_visible u d \<or> system_point d) \<and> shown d (point_result u info nid d)"
proof -
  have v: "\<not> (group1List u \<noteq> [] \<and> \<not> system_point d \<and> \<not> group_visible u d)"
  proof
    assume "group1List u \<noteq> [] \<and> \<not> system_point d \<and> \<not> group_visible u d"
    with assms show False by (simp add: point_result_def)
  qed
  then have "shown d (point_result u info nid d)" unfolding point_result_def by (simp only: if_False shown_found)
  with v show ?thesis by (simp add: group_visible_def) blast
qed

lemma node_result_shows:
  assumes "node_result u info pts node = Inr res" "opt_get res ''Value'' \<noteq> Null"
  shows "\<exists>d \<in> set pts. (group_visible u d \<or> system_point d) \<and> shown d res"
proof -
  from assms obtain nid i where "res = (case List.find (\<lambda>d. strict_eq i (fld d ''tag'') \<or> strict_eq i (fld d ''_id'')) pts of
      None \<Rightarrow> no_result ''BadNotFound'' nid | Some d \<Rightarrow> point_result u info nid d)"
    by (auto simp: node_result_def bindS_Inr split: if_splits)
  with assms(2) obtain d where "res = point_result u info nid d" "d \<in> set pts"
    by (auto split: option.splits dest: find_mem)
  with assms(2) point_result_shows show ?thesis by blast
qed

lemma filtered_result_shows:
  "shown d (filtered_result d)"
  by (simp add: shown_def filtered_result_def filtered_properties_def tag_node_def fields_of_def)

lemma mapS_set: "mapS f xs = Inr ys \<Longrightarrow> y \<in> set ys \<Longrightarrow> \<exists>x \<in> set xs. f x = Inr y"
  by (induction xs arbitrary: ys) (auto simp: bindS_Inr)

lemma good_results_Results [simp]: "r_Results (good_results e rs r) = rs"
  by (simp add: good_results_def)

lemma with_result_Results [simp]: "r_Results (with_result n m r) = r_Results r" "r_Results (service_fault n m r) = r_Results r"
  by (simp_all add: with_result_def service_fault_def)

lemma answer_points_shows:
  assumes "answer_points e u body info pts r = Inr r'" "res \<in> set (r_Results r')" "opt_get res ''Value'' \<noteq> Null" "r_Results r = []"
  shows "\<exists>d \<in> set pts. (group_visible u d \<or> system_point d) \<and> shown d res"
proof (cases "js_in ''NodesToRead'' body = Inr True")
  case True
  with assms obtain nodes rs where "mapS (node_result u info pts) nodes = Inr rs" "res \<in> set rs"
    by (auto simp: answer_points_def bindS_Inr split: if_splits)
  with mapS_set node_result_shows assms(3) show ?thesis by metis
next
  case False
  with assms obtain d where "res = filtered_result d" "d \<in> set pts" "group_visible u d"
    by (auto simp: answer_points_def bindS_Inr split: if_splits)
  then show ?thesis using filtered_result_shows[of d] by auto
qed

lemma read_command_Results: "read_command e h s r = Inr r' \<Longrightarrow> r_Results r' = r_Results r"
  by (cases h) (auto simp: read_command_def bindS_Inr split: if_splits option.splits)

lemma read_service_cases:
  assumes "read_service e req u r s = Inr r'"
  shows "r_Results r' = r_Results r \<or>
    (\<exists>sc. query_points e u (fld (rbody req) ''Body'') sc s (r\<lparr>r_ServiceId := of_code ServiceCode ''ReadResponse''\<rparr>) = Inr r')"
proof -
  let ?r = "r\<lparr>r_ServiceId := of_code ServiceCode ''ReadResponse''\<rparr>"
  from assms obtain a b where rest: "(if \<not> a \<and> \<not> b then Inr (with_result ''GoodNoData'' ''No NodesToRead nor Content Filter'' ?r)
      else bindS (if a then bindS (array_of (opt_get (fld (rbody req) ''Body'') ''NodesToRead'')) scan_nodes else scan_nodes []) (\<lambda>sc.
        if sc_points sc = [] \<and> \<not> b then Inr (with_result ''GoodNoData'' ''No NodeId.Id found'' ?r)
        else if sc_ack sc then read_command e (hd (sc_handles sc)) s ?r
        else query_points e u (fld (rbody req) ''Body'') sc s ?r)) = Inr r'"
    unfolding read_service_def Let_def bindS_Inr by blast
  show ?thesis
  proof (cases "\<not> a \<and> \<not> b")
    case True
    with rest have "r' = with_result ''GoodNoData'' ''No NodesToRead nor Content Filter'' ?r" by simp
    then show ?thesis by simp
  next
    case False
    then obtain sc where sc: "(if sc_points sc = [] \<and> \<not> b then Inr (with_result ''GoodNoData'' ''No NodeId.Id found'' ?r)
        else if sc_ack sc then read_command e (hd (sc_handles sc)) s ?r
        else query_points e u (fld (rbody req) ''Body'') sc s ?r) = Inr r'"
      using rest by (simp only: if_False bindS_Inr) blast
    show ?thesis
    proof (cases "sc_points sc = [] \<and> \<not> b")
      case True
      with sc have "r' = with_result ''GoodNoData'' ''No NodeId.Id found'' ?r" by simp
      then show ?thesis by simp
    next
      case F: False
      show ?thesis
      proof (cases "sc_ack sc")
        case True
        with sc F have "read_command e (hd (sc_handles sc)) s ?r = Inr r'" by simp
        from read_command_Results[OF this] show ?thesis by simp
      next
        case False
        with sc F have "query_points e u (fld (rbody req) ''Body'') sc s ?r = Inr r'" by simp
        then show ?thesis by blast
      qed
    qed
  qed
qed

lemma query_points_cases:
  assumes "query_points e u body sc s r = Inr r'"
  shows "r_Results r' = r_Results r \<or>
    (\<exists>q opts sort pts. o_find e COLL_REALTIME q opts sort Undef s = Inr pts \<and> answer_points e u body (sc_info sc) pts r = Inr r')"
proof -
  from assms obtain q opts sort where r: "(case bindS (o_find e COLL_REALTIME q opts sort Undef s) (\<lambda>pts. answer_points e u body (sc_info sc) pts r) of
         Inl _ \<Rightarrow> Inr (with_result ''BadInvalidState'' ''Error reading realtimeDatabase'' r) | Inr r' \<Rightarrow> Inr r') = (Inr r' :: js_error + opc_reply)"
    unfolding query_points_def bindS_Inr by (auto split: prod.splits)
  show ?thesis
  proof (cases "bindS (o_find e COLL_REALTIME q opts sort Undef s) (\<lambda>pts. answer_points e u body (sc_info sc) pts r)")
    case (Inl err)
    with r show ?thesis by auto
  next
    case (Inr x)
    with r have "x = r'" by simp
    with Inr show ?thesis unfolding bindS_Inr by blast
  qed
qed


section \<open>Events and locations\<close>

lemma group_visible_iff: "group_visible u d \<longleftrightarrow> group1List u = [] \<or> fld d ''group1'' \<in> Str ` set (group1List u)"
  by (auto simp: group_visible_def)

lemma event_result_group: "opt_get (opt_get (event_result d) ''_Properties'') ''group1'' = fld d ''group1''"
  by (simp add: event_result_def fields_of_def)

text \<open>Events and locations are listed within the user's groups: when his roles restrict groups,
  every event answered shows one of them as its group, and every entry of the list of locations
  is one of them.\<close>

theorem lists_stay_in_groups:
  assumes "group1List u \<noteq> []" "r_Results r = []" "res \<in> set (r_Results r')"
    and "read_events e u body server h tags s r = Inr r' \<or> unique_values e req u r s = Inr r'"
  shows "opt_get (opt_get res ''_Properties'') ''group1'' \<in> Str ` set (group1List u) \<or>
    opt_get (opt_get res ''Value'') ''Body'' \<in> Str ` set (group1List u)"
  using assms(4)
proof
  assume "read_events e u body server h tags s r = Inr r'"
  with assms(2,3) obtain d where "res = event_result d" "group_visible u d"
    by (auto simp: read_events_def bindS_Inr Let_def split: if_splits)
  with assms(1) show ?thesis by (simp add: event_result_group group_visible_iff)
next
  assume "unique_values e req u r s = Inr r'"
  with assms(2,3) obtain d where "opt_get (opt_get res ''Value'') ''Body'' = fld d ''group1''" "group_visible u d"
    by (auto simp: unique_values_def bindS_Inr Let_def split: if_splits)
  with assms(1) show ?thesis by (simp add: group_visible_iff)
qed

section \<open>The historian\<close>

lemma dbl_between:
  assumes "\<not> dbl (of_int n) < num 1" "dbl (of_int n) < num m" "1 \<le> m" "m \<le> 2 ^ 53"
  shows "1 \<le> n \<and> n < m \<and> dbl (of_int n) = num n"
proof -
  have pos: "0 < dbl_limit" using dbl_limit_large by (rule less_trans[rotated]) simp
  have "1 \<le> n"
  proof (rule ccontr)
    assume "\<not> 1 \<le> n"
    then have "(of_int n :: rat) \<le> of_int 0" by (simp only: of_int_le_iff)
    from rnd_mono[OF this] have "rnd (of_int n) \<le> 0" by simp
    with pos assms(1) show False by (auto simp: dbl_def Let_def num_def split: if_splits)
  qed
  moreover have "n < m"
  proof (rule ccontr)
    assume "\<not> n < m"
    then have "(of_int m :: rat) \<le> of_int n" by (simp only: of_int_le_iff)
    from rnd_mono[OF this] rnd_of_int[of m] assms(3,4) have "of_int m \<le> rnd (of_int n)" by simp
    moreover have "(1::rat) \<le> of_int m" using assms(3) by simp
    ultimately show False using pos assms(2) by (auto simp: dbl_def Let_def num_def split: if_splits)
  qed
  ultimately show ?thesis using dbl_of_int[of n] assms(4) by simp
qed

lemma row_limit_bounds:
  assumes "int n \<le> 2 ^ 39"
  shows "\<exists>k. row_limit v n = num (k * int n) \<and> 1 \<le> k \<and> k \<le> MaxHistoryRowsPerNode"
proof -
  let ?p = "parse_dec (to_string v)" and ?m = "num MaxHistoryRowsPerNode"
  let ?q = "if num_is_nan ?p \<or> ?p < num 1 then ?m else ?p"
  have k: "\<exists>k. (if ?q < ?m then ?q else ?m) = num k \<and> 1 \<le> k \<and> k \<le> MaxHistoryRowsPerNode"
  proof (cases "?q < ?m")
    case True
    then have p: "\<not> num_is_nan ?p" "\<not> ?p < num 1" "?p < ?m" by (auto split: if_splits)
    then obtain j where "?p = dbl (of_int j)"
      unfolding parse_dec_def Let_def by (auto split: prod.splits if_splits)
    with p dbl_between[of j MaxHistoryRowsPerNode] show ?thesis
      using True by (intro exI[of _ j]) (auto simp: MaxHistoryRowsPerNode_def)
  qed (auto simp: MaxHistoryRowsPerNode_def)
  then obtain k where q: "(if ?q < ?m then ?q else ?m) = num k" and b: "1 \<le> k" "k \<le> MaxHistoryRowsPerNode" by blast
  have "\<bar>k * int n\<bar> \<le> 2 ^ 53"
    using mult_mono[of k 10000 "int n" "2 ^ 39"] b assms by (simp add: MaxHistoryRowsPerNode_def abs_mult)
  from num_mul_int[OF this] have "row_limit v n = num (k * int n)" unfolding row_limit_def Let_def q .
  with b show ?thesis by blast
qed

lemma allowed_tags_sub: "set (allowed_tags e u tags s) \<subseteq> set tags" "length (allowed_tags e u tags s) \<le> length tags"
  by (auto simp: allowed_tags_def length_filter_le split: sum.splits)

text \<open>The query of the historian is bounded and holds no text of the request: its SQL is one of two
  fixed texts; the tags it is given are among those requested; and the query over a range asks for
  at least one and at most 10000 rows for each of these tags, whatever number the request names.\<close>

theorem historian_query_bounded:
  assumes "hist_query t1 t2 (allowed_tags e u tags s) lmt = (sql, ps)" "int (length tags) \<le> 2 ^ 39"
  shows "set (allowed_tags e u tags s) \<subseteq> set tags \<and>
    (sql = last_sql \<and> ps = [Date t1, Arr (map Str (allowed_tags e u tags s))] \<or>
     sql = range_sql \<and> (\<exists>k. 1 \<le> k \<and> k \<le> 10000 \<and>
       ps = [Date t1, Date t2, Arr (map Str (allowed_tags e u tags s)), Num (num (k * int (length (allowed_tags e u tags s))))]))"
proof -
  let ?n = "length (allowed_tags e u tags s)"
  have "int ?n \<le> 2 ^ 39" using allowed_tags_sub(2)[of e u tags s] assms(2) by linarith
  from row_limit_bounds[OF this, of lmt] obtain k where
    "row_limit lmt ?n = num (k * int ?n)" "1 \<le> k" "k \<le> 10000" by (auto simp: MaxHistoryRowsPerNode_def)
  with assms(1) allowed_tags_sub(1)[of e u tags s] show ?thesis
    by (cases "num_eq t1 t2") (auto simp: hist_query_def Let_def)
qed

section \<open>Reading a store in memory\<close>

definition demo_points :: "doc list" where
  "demo_points = [[(''_id'', jnum 7), (''tag'', Str ''KAW2KPR21GX''), (''group1'', Str ''KAW2''), (''type'', Str ''string''), (''valueString'', Str ''ok'')],
     [(''_id'', jnum 8), (''tag'', Str ''SPB1AL''), (''group1'', Str ''SPB1''), (''type'', Str ''string''), (''valueString'', Str ''secret'')]]"

definition demo_read :: "mem read_env" where
  "demo_read = opc_env.extend demo_opc (read_env.fields (\<lambda>c q o' st l s. Inr demo_points) (\<lambda>c p st l s. Inr demo_points)
     True (\<lambda>q ps. Inr []) (\<lambda>s. num 0) (\<lambda>t. t - 3600000))"

lemma demo_read_simps [simp]:
  "opc_env.truncate demo_read = demo_opc" "o_auth demo_read = mem_env 0" "o_connected demo_read = True"
  "o_find demo_read c q opt st l s = Inr demo_points" "o_aggregate demo_read c p st l s = Inr demo_points"
  by (simp_all add: demo_read_def demo_opc_def opc_env.extend_def opc_env.truncate_def read_env.fields_def)

definition demo_request :: "int \<Rightarrow> doc \<Rightarrow> request" where
  "demo_request svc d = mem_request ''t1'' [(''ServiceId'', jnum svc),
     (''Body'', Obj ((''RequestHeader'', Obj [(''RequestHandle'', jnum 5)]) # d))]"

lemma service_code_simps:
  "of_code ServiceCode ''WriteRequest'' = jnum 671" "of_code ServiceCode ''ReadRequest'' = jnum 629"
  by (simp_all add: of_code_def service_codes jnum_def)

lemma demo_token: "checkToken (mem_env 0) (demo_request svc d) = Some (mem_claims (m_users mem_store ! 0) [mem_admin_role])"
  by (simp add: checkToken_def request_token_def demo_request_def mem_request_def js_or_def)

theorem changes_need_a_token_witness:
  "\<exists>c. checkToken (mem_env 0) (demo_request 671 [(''NodesToWrite'', Arr [Obj special_node])]) = Some c \<and>
     snd (opcApi demo_read (demo_request 671 [(''NodesToWrite'', Arr [Obj special_node])]) demo_world) \<noteq> demo_world"
proof -
  let ?req = "demo_request 671 [(''NodesToWrite'', Arr [Obj special_node])]"
  have may: "canSendCommands (o_auth demo_opc) ?req mem_store"
    using demo_token[of 671 "[(''NodesToWrite'', Arr [Obj special_node])]"]
    by (simp add: canSendCommands_def token_roles_def demo_opc_def mem_defs)
  have h: "request_handle (rbody ?req) = Inr (jnum 5)"
    by (simp add: request_handle_def demo_request_def mem_request_def js_in_def)
  have env: "opc_envelope demo_opc ?req = Inr (Inr (''admin'', c_rights (mem_claims (m_users mem_store ! 0) [mem_admin_role]),
      reply_init demo_opc (rbody ?req) (jnum 5)))"
    using demo_token by (simp add: opc_envelope_accepts h demo_opc_def) (simp add: demo_request_def mem_defs jnum_def)
  have sid: "fld (rbody ?req) ''ServiceId'' = jnum 671" by (simp add: demo_request_def mem_request_def)
  have run: "opcApi demo_read ?req demo_world = write_service demo_opc ?req (c_rights (mem_claims (m_users mem_store ! 0) [mem_admin_role]))
      ''admin'' (reply_init demo_opc (rbody ?req) (jnum 5)) demo_world"
    by (simp add: opcApi_def env sid service_code_simps)
  have "effects (snd (write_service demo_opc ?req u user r demo_world)) \<noteq> []" for u user r
    using may parse_special
    by (simp add: write_steps write_value_def command_value_ok_def special_node_def demo_request_def demo_defs starts_with_def)
  then have "effects (snd (opcApi demo_read ?req demo_world)) \<noteq> []" unfolding run .
  then have ne: "snd (opcApi demo_read ?req demo_world) \<noteq> demo_world" by (auto simp: demo_world_def)
  obtain res w' where r: "opcApi demo_read ?req demo_world = (res, w')" by fastforce
  from changes_need_a_token[OF r] ne r show ?thesis by auto
qed

text \<open>One of two points asked for is in the user's group.\<close>

definition demo_nodes :: doc where
  "demo_nodes = [(''NodesToRead'', Arr [Obj [(''NodeId'', Obj [(''Id'', Str ''KAW2KPR21GX'')])], Obj [(''NodeId'', Obj [(''Id'', Str ''SPB1AL'')])]])]"

lemma demo_visible: "group_visible demo_rights (demo_points ! 0)" "\<not> group_visible demo_rights (demo_points ! 1)"
  "\<not> system_point (demo_points ! 1)" "group1List demo_rights = [''KAW2'']"
  by (simp_all add: group_visible_def demo_rights_def demo_points_def system_point_def)

lemma demo_parse: "num_is_nan (parse_int ''KAW2KPR21GX'')" "num_is_nan (parse_int ''SPB1AL'')"
  by code_simp+


theorem lists_stay_in_groups_witness:
  "\<exists>r' res. unique_values demo_read (demo_request 100000001 [(''AttributeId'', jnum 100000001)]) demo_rights demo_reply mem_store = Inr r' \<and>
     r_Results r' = [res] \<and> opt_get (opt_get res ''Value'') ''Body'' \<in> Str ` {''KAW2''}"
proof -
  let ?res = "Obj [(''Value'', Obj [(''Type'', of_code DataType ''String''), (''Body'', Str ''KAW2''), (''Count'', Undef)])]"
  have f: "filter (group_visible demo_rights) demo_points = [demo_points ! 0]"
    by (simp add: demo_points_def group_visible_def demo_rights_def)
  have p: "fld (demo_points ! 0) ''group1'' = Str ''KAW2''" "fld (demo_points ! 0) ''count'' = Undef" by (simp_all add: demo_points_def)
  have a: "of_code AttributeId ''ExtendedGroup1'' = jnum 100000001" by (simp add: of_code_def attribute_codes jnum_def)
  obtain r' where r: "unique_values demo_read (demo_request 100000001 [(''AttributeId'', jnum 100000001)]) demo_rights demo_reply mem_store = Inr r'"
    "r_Results r' = [?res]"
    by (simp add: unique_values_def Let_def demo_request_def mem_request_def get_def a f p)
  have e: "r_Results demo_reply = []" by (simp add: demo_reply_def reply_init_def)
  have "opt_get (opt_get ?res ''_Properties'') ''group1'' \<in> Str ` set (group1List demo_rights) \<or>
      opt_get (opt_get ?res ''Value'') ''Body'' \<in> Str ` set (group1List demo_rights)"
    by (rule lists_stay_in_groups[OF _ e _ disjI2[OF r(1)]]) (simp_all add: r(2) demo_visible)
  with r show ?thesis by (simp add: demo_visible)
qed

theorem historian_query_bounded_witness:
  "\<exists>sql ps. hist_query (num 1) (num 2) (allowed_tags demo_read demo_rights [''KAW2KPR21GX''] mem_store) Null = (sql, ps) \<and>
     (sql = last_sql \<or> (\<exists>k. k \<le> 10000 \<and> last ps = Num (num k)))"
proof -
  let ?a = "allowed_tags demo_read demo_rights [''KAW2KPR21GX''] mem_store"
  have a: "?a = [''KAW2KPR21GX'']" by (simp add: allowed_tags_def demo_points_def)
  obtain sql ps where r: "hist_query (num 1) (num 2) ?a Null = (sql, ps)" by fastforce
  have "int (length [''KAW2KPR21GX'']) \<le> 2 ^ 39" by simp
  from historian_query_bounded[OF r this] have "sql = last_sql \<or> (\<exists>k. k \<le> 10000 \<and> last ps = Num (num (k * int (length ?a))))" by auto
  with r show ?thesis by (auto simp: a)
qed

end
