(* ===== verification/JSParse.thy ===== *)
theory JSParse
  imports JSDate
begin

text \<open>
  \<open>JSON.parse\<close>, and its law: reading back what \<open>JSON.stringify\<close> printed gives the value
  with its undefined properties left out, its dates as texts and its infinities as null.
  A position in the text is the suffix still to be read; the depth of nesting is bounded
  by the length of the text, which is the fuel of the descent.
\<close>

section \<open>Reading\<close>

definition json_space :: "char \<Rightarrow> bool" where
  "json_space c = (c = CHR '' '' \<or> c = CHR 0x09 \<or> c = CHR 0x0A \<or> c = CHR 0x0D)"

definition skip_ws :: "string \<Rightarrow> string" where
  "skip_ws s = dropWhile json_space s"

text \<open>A code point as UTF-8. The two halves of a surrogate pair are joined; a lone half is
  encoded like any other code point.\<close>

definition utf8 :: "nat \<Rightarrow> string" where
  "utf8 n =
     (if n < 0x80 then [char_of n]
      else if n < 0x800 then [char_of (0xC0 + n div 64), char_of (0x80 + n mod 64)]
      else if n < 0x10000 then [char_of (0xE0 + n div 4096), char_of (0x80 + n div 64 mod 64), char_of (0x80 + n mod 64)]
      else [char_of (0xF0 + n div 262144), char_of (0x80 + n div 4096 mod 64), char_of (0x80 + n div 64 mod 64), char_of (0x80 + n mod 64)])"

definition hex4 :: "string \<Rightarrow> (nat \<times> string) option" where
  "hex4 s = (if 4 \<le> length s \<and> list_all (radix_digit 16) (take 4 s)
     then Some (nat (radix_val 16 (take 4 s)), drop 4 s) else None)"

definition unescape_u :: "string \<Rightarrow> (string \<times> string) option" where
  "unescape_u s = (case hex4 s of None \<Rightarrow> None
     | Some (n, r) \<Rightarrow>
         (if 0xD800 \<le> n \<and> n < 0xDC00 \<and> take 2 r = [CHR 0x5C, CHR ''u'']
          then (case hex4 (drop 2 r) of None \<Rightarrow> None
             | Some (m, r') \<Rightarrow> if 0xDC00 \<le> m \<and> m < 0xE000
                 then Some (utf8 (0x10000 + (n - 0xD800) * 1024 + (m - 0xDC00)), r') else Some (utf8 n, r))
          else Some (utf8 n, r)))"

definition simple_escape :: "char \<Rightarrow> char option" where
  "simple_escape c = (if c = CHR 0x22 \<or> c = CHR 0x5C \<or> c = CHR ''/'' then Some c
     else if c = CHR ''b'' then Some (CHR 8) else if c = CHR ''t'' then Some (CHR 9) else if c = CHR ''n'' then Some (CHR 10)
     else if c = CHR ''f'' then Some (CHR 12) else if c = CHR ''r'' then Some (CHR 13) else None)"

text \<open>The rest of a string literal after its opening quote.\<close>

fun parse_chars :: "nat \<Rightarrow> string \<Rightarrow> (string \<times> string) option" where
  "parse_chars 0 s = None"
| "parse_chars (Suc f) [] = None"
| "parse_chars (Suc f) (c # s) =
     (if c = CHR 0x22 then Some ([], s)
      else if (of_char c :: nat) < 32 then None
      else if c \<noteq> CHR 0x5C then map_option (\<lambda>(t, r). (c # t, r)) (parse_chars f s)
      else (case s of [] \<Rightarrow> None
        | e # s' \<Rightarrow>
            if e = CHR ''u'' then (case unescape_u s' of None \<Rightarrow> None
               | Some (u, r) \<Rightarrow> map_option (\<lambda>(t, r'). (u @ t, r')) (parse_chars f r))
            else (case simple_escape e of None \<Rightarrow> None
               | Some x \<Rightarrow> map_option (\<lambda>(t, r). (x # t, r)) (parse_chars f s'))))"

text \<open>The literal of a number: the grammar of JSON is narrower than that of \<open>Number\<close>.\<close>

definition num_char :: "char \<Rightarrow> bool" where
  "num_char c = (is_digit c \<or> c = CHR ''+'' \<or> c = CHR ''-'' \<or> c = CHR ''.'' \<or> c = CHR ''e'' \<or> c = CHR ''E'')"

definition exp_ok :: "string \<Rightarrow> bool" where
  "exp_ok s = (case s of [] \<Rightarrow> True
     | c # t \<Rightarrow> (c = CHR ''e'' \<or> c = CHR ''E'') \<and>
         (let u = (case t of [] \<Rightarrow> [] | d # t' \<Rightarrow> if d = CHR ''+'' \<or> d = CHR ''-'' then t' else t)
          in u \<noteq> [] \<and> list_all is_digit u))"

definition frac_ok :: "string \<Rightarrow> bool" where
  "frac_ok s = (case s of [] \<Rightarrow> True
     | c # t \<Rightarrow> if c = CHR ''.'' then takeWhile is_digit t \<noteq> [] \<and> exp_ok (dropWhile is_digit t) else exp_ok s)"

definition num_literal :: "string \<Rightarrow> bool" where
  "num_literal s = (let u = (case s of [] \<Rightarrow> [] | c # t \<Rightarrow> if c = CHR ''-'' then t else s); ds = takeWhile is_digit u in
     ds \<noteq> [] \<and> (hd ds = CHR ''0'' \<longrightarrow> tl ds = []) \<and> frac_ok (dropWhile is_digit u))"

definition parse_num :: "string \<Rightarrow> (jsval \<times> string) option" where
  "parse_num s = (let t = takeWhile num_char s in
     if num_literal t then Some (Num (str_to_num t), dropWhile num_char s) else None)"

text \<open>The text after a literal word.\<close>

definition json_word :: "string \<Rightarrow> jsval \<Rightarrow> string \<Rightarrow> (jsval \<times> string) option" where
  "json_word w v s = (if starts_with w s then Some (v, drop (length w) s) else None)"

text \<open>A value (leading space skipped), the elements of an array and the members of an object after
  the first bracket or a comma. A repeated key overwrites the earlier value in its place.\<close>

fun parse_val :: "nat \<Rightarrow> string \<Rightarrow> (jsval \<times> string) option"
and parse_elems :: "nat \<Rightarrow> string \<Rightarrow> (jsval list \<times> string) option"
and parse_members :: "nat \<Rightarrow> doc \<Rightarrow> string \<Rightarrow> (doc \<times> string) option" where
  "parse_val 0 s = None"
| "parse_val (Suc f) s = (case skip_ws s of [] \<Rightarrow> None
     | c # r \<Rightarrow>
         if c = CHR 0x22 then map_option (\<lambda>(t, r'). (Str t, r')) (parse_chars (length r) r)
         else if c = CHR ''['' then
           (case skip_ws r of d # r' \<Rightarrow> if d = CHR '']'' then Some (Arr [], r')
               else map_option (\<lambda>(vs, r''). (Arr vs, r'')) (parse_elems f r) | [] \<Rightarrow> None)
         else if c = CHR ''{'' then
           (case skip_ws r of d # r' \<Rightarrow> if d = CHR ''}'' then Some (Obj [], r')
               else map_option (\<lambda>(d, r''). (Obj d, r'')) (parse_members f [] r) | [] \<Rightarrow> None)
         else if c = CHR ''n'' then json_word ''null'' Null (c # r)
         else if c = CHR ''t'' then json_word ''true'' (Bool True) (c # r)
         else if c = CHR ''f'' then json_word ''false'' (Bool False) (c # r)
         else parse_num (c # r))"
| "parse_elems 0 s = None"
| "parse_elems (Suc f) s = (case parse_val f s of None \<Rightarrow> None
     | Some (v, r) \<Rightarrow> (case skip_ws r of [] \<Rightarrow> None
         | c # r' \<Rightarrow> if c = CHR '']'' then Some ([v], r')
             else if c = CHR '','' then map_option (\<lambda>(vs, r''). (v # vs, r'')) (parse_elems f r') else None))"
| "parse_members 0 d s = None"
| "parse_members (Suc f) d s = (case skip_ws s of [] \<Rightarrow> None
     | q # s' \<Rightarrow> if q \<noteq> CHR 0x22 then None else
         (case parse_chars (length s') s' of None \<Rightarrow> None
          | Some (k, r) \<Rightarrow> (case skip_ws r of [] \<Rightarrow> None
              | c # r' \<Rightarrow> if c \<noteq> CHR '':'' then None else
                  (case parse_val f r' of None \<Rightarrow> None
                   | Some (v, t) \<Rightarrow> (case skip_ws t of [] \<Rightarrow> None
                       | e # t' \<Rightarrow> if e = CHR ''}'' then Some (aupd k v d, t')
                           else if e = CHR '','' then parse_members f (aupd k v d) t' else None)))))"

text \<open>The descent spends at most two units of fuel for a character.\<close>

definition json_parse :: "string \<Rightarrow> js_error + jsval" where
  "json_parse s = (case parse_val (2 * length s + 2) s of
     Some (v, r) \<Rightarrow> if skip_ws r = [] then Inr v else Inl SyntaxError | None \<Rightarrow> Inl SyntaxError)"


section \<open>What survives the round trip\<close>

text \<open>A number survives when its text is a literal that reads back as the number; the integers of
  magnitude up to two to the 53rd do.\<close>

definition num_roundtrips :: "jsnum \<Rightarrow> bool" where
  "num_roundtrips x = (case x of Fin _ \<Rightarrow>
     list_all num_char (num_to_string x) \<and> num_literal (num_to_string x) \<and> str_to_num (num_to_string x) = x | _ \<Rightarrow> True)"

fun json_wf :: "jsval \<Rightarrow> bool" where
  "json_wf (Num x) = num_roundtrips x"
| "json_wf (Arr vs) = list_all json_wf vs"
| "json_wf (Obj d) = (distinct (map fst d) \<and> list_all (\<lambda>(k, v). json_wf v) d)"
| "json_wf _ = True"

fun json_norm :: "(jsnum \<Rightarrow> string) \<Rightarrow> jsval \<Rightarrow> jsval" where
  "json_norm isof Undef = Null"
| "json_norm isof (Num x) = (case x of Fin _ \<Rightarrow> Num x | _ \<Rightarrow> Null)"
| "json_norm isof (Date t) = (case t of Fin _ \<Rightarrow> Str (isof t) | _ \<Rightarrow> Null)"
| "json_norm isof (Arr vs) = Arr (map (json_norm isof) vs)"
| "json_norm isof (Obj d) = Obj (concat (map (\<lambda>(k, v). if v = Undef then [] else [(k, json_norm isof v)]) d))"
| "json_norm isof v = v"

definition no_num :: "string \<Rightarrow> bool" where
  "no_num r = (r = [] \<or> \<not> num_char (hd r))"

lemma int_of_char_of: "(of_char (char_of (m :: nat)) :: int) = int (m mod 256)"
  by (metis char_of_nat of_char_of of_nat_of_char)

lemma hex_val_hex_char: "d < 16 \<Longrightarrow> hex_val (hex_char d) = Some (int d)"
  by (auto simp: hex_val_def hex_char_def to_lower_char_def Let_def int_of_char_of)

lemma hex4_of_control: "n < 32 \<Longrightarrow> hex4 (CHR ''0'' # CHR ''0'' # hex_char (n div 16) # hex_char (n mod 16) # r) = Some (n, r)"
proof -
  assume n: "n < 32"
  have z: "hex_val (CHR ''0'') = Some 0" by code_simp
  have h: "hex_val (hex_char (n div 16)) = Some (int (n div 16))" "hex_val (hex_char (n mod 16)) = Some (int (n mod 16))"
    using n by (auto intro: hex_val_hex_char)
  have "16 * int (n div 16) + int (n mod 16) = int n" by (metis mult_div_mod_eq of_nat_add of_nat_mult of_nat_numeral)
  then show ?thesis using n z h by (simp add: hex4_def radix_digit_def radix_val_def)
qed

lemma parse_chars_json:
  "length s < f \<Longrightarrow> parse_chars f (concat (map json_char s) @ CHR 0x22 # r) = Some (s, r)"
proof (induction s arbitrary: f)
  case Nil then show ?case by (cases f) simp_all
next
  case (Cons c s)
  then obtain g where f: "f = Suc g" "length s < g" by (cases f) auto
  note IH = Cons.IH[OF f(2)]
  define n where "n = (of_char c :: nat)"
  have c: "c = char_of n" by (simp add: n_def)
  consider (special) "n \<in> {0x22, 0x5C, 8, 9, 10, 12, 13}" | (ctl) "n < 32" "n \<notin> {8, 9, 10, 12, 13}"
    | (plain) "32 \<le> n" "n \<notin> {0x22, 0x5C}" by force
  then show ?case
  proof cases
    case ctl
    then show ?thesis using IH hex4_of_control[OF ctl(1)]
      by (simp add: f json_char_def Let_def unescape_u_def utf8_def c flip: n_def)
  next
    case plain
    then have "c \<noteq> CHR 0x22" "c \<noteq> CHR 0x5C" by (auto simp: n_def)
    then show ?thesis using IH plain by (simp add: f json_char_def Let_def flip: n_def)
  next
    case special
    have chars: "char_of (0x22::nat) = CHR 0x22" "char_of (0x5C::nat) = CHR 0x5C" "char_of (8::nat) = CHR 8"
      "char_of (9::nat) = CHR 9" "char_of (10::nat) = CHR 10" "char_of (12::nat) = CHR 12" "char_of (13::nat) = CHR 13"
      by code_simp+
    from special show ?thesis unfolding c
      by (elim insertE emptyE; simp only: chars) (use IH in \<open>simp_all add: f json_char_def simple_escape_def Let_def\<close>)
  qed
qed


section \<open>The round trip\<close>

lemma aupd_fresh: "\<not> has_key k d \<Longrightarrow> aupd k v d = d @ [(k, v)]"
  by (induction d) auto

lemma skip_ws_head [simp]: "\<not> json_space c \<Longrightarrow> skip_ws (c # s) = c # s"
  by (simp add: skip_ws_def)

lemma json_space_simps [simp]:
  "\<not> json_space (CHR 0x22)" "\<not> json_space (CHR '']'')" "\<not> json_space (CHR ''}'')" "\<not> json_space (CHR ''['')"
  "\<not> json_space (CHR ''{'')" "\<not> json_space (CHR '','')" "\<not> json_space (CHR '':'')" "\<not> json_space (CHR ''n'')"
  "\<not> json_space (CHR ''t'')" "\<not> json_space (CHR ''f'')"
  by (simp_all add: json_space_def)

lemma num_char_head:
  assumes "num_char c"
  shows "\<not> json_space c" "c \<noteq> CHR 0x22" "c \<noteq> CHR ''[''" "c \<noteq> CHR '']''" "c \<noteq> CHR ''{''" "c \<noteq> CHR ''}''" "c \<noteq> CHR ''n''"
    "c \<noteq> CHR ''t''" "c \<noteq> CHR ''f''"
  using assms by (auto simp: num_char_def is_digit_def json_space_def)

lemma num_literal_ne: "num_literal t \<Longrightarrow> t \<noteq> []"
  by (auto simp: num_literal_def)

lemma takeWhile_num_char:
  assumes "list_all num_char t" "no_num r"
  shows "takeWhile num_char (t @ r) = t" "dropWhile num_char (t @ r) = r"
proof -
  have "takeWhile num_char r = []" "dropWhile num_char r = r" using assms(2) by (cases r; simp add: no_num_def)+
  then show "takeWhile num_char (t @ r) = t" "dropWhile num_char (t @ r) = r"
    using assms(1) by (simp_all add: list_all_iff)
qed

lemma parse_num_json:
  assumes "num_roundtrips x" "x = Fin q" "no_num r" "0 < f"
  shows "parse_val f (num_to_string x @ r) = Some (Num x, r)"
proof -
  let ?t = "num_to_string x"
  have t: "list_all num_char ?t" "num_literal ?t" "str_to_num ?t = x" using assms by (auto simp: num_roundtrips_def)
  from t(1,2) obtain c u where cu: "?t = c # u" "num_char c" by (cases ?t) (auto dest: num_literal_ne)
  have "parse_num (?t @ r) = Some (Num x, r)"
    using t takeWhile_num_char[OF t(1) assms(3)] by (simp add: parse_num_def)
  then show ?thesis using num_char_head[OF cu(2)] assms(4) by (cases f) (simp_all add: cu(1))
qed

lemma parse_str_json: "0 < f \<Longrightarrow> parse_val f (json_quote s @ r) = Some (Str s, r)"
proof -
  assume "0 < f"
  have "length s \<le> length (concat (map json_char s))"
    by (induction s) (auto simp: json_char_def Let_def)
  then show ?thesis using \<open>0 < f\<close> by (cases f) (simp_all add: json_quote_def parse_chars_json)
qed

lemma parse_words [simp]:
  "0 < f \<Longrightarrow> parse_val f (CHR ''n'' # CHR ''u'' # CHR ''l'' # CHR ''l'' # r) = Some (Null, r)"
  "0 < f \<Longrightarrow> parse_val f (CHR ''t'' # CHR ''r'' # CHR ''u'' # CHR ''e'' # r) = Some (Bool True, r)"
  "0 < f \<Longrightarrow> parse_val f (CHR ''f'' # CHR ''a'' # CHR ''l'' # CHR ''s'' # CHR ''e'' # r) = Some (Bool False, r)"
  by (cases f; simp add: json_word_def starts_with_def)+

lemma json_val_head:
  assumes "json_wf v"
  obtains c t where "json_val isof v = c # t" "\<not> json_space c" "c \<noteq> CHR '']''"
proof (cases v)
  case (Num x)
  show ?thesis
  proof (cases x)
    case (Fin q)
    then have "list_all num_char (num_to_string x)" "num_to_string x \<noteq> []"
      using assms Num by (auto simp: num_roundtrips_def dest: num_literal_ne)
    then obtain c u where "num_to_string x = c # u" "num_char c" by (cases "num_to_string x") auto
    then show ?thesis using num_char_head[of c] Num Fin by (intro that[of c u]) auto
  qed (use Num in \<open>auto intro: that\<close>)
next
  case (Bool b) then show ?thesis by (cases b) (auto intro: that)
next
  case (Date t) then show ?thesis by (cases t) (auto simp: json_quote_def intro: that)
qed (auto simp: json_quote_def intro: that)

definition json_member :: "(jsnum \<Rightarrow> string) \<Rightarrow> string \<times> jsval \<Rightarrow> string" where
  "json_member isof p = json_quote (fst p) @ '':'' @ json_val isof (snd p)"

lemma json_member_pair: "json_member isof (k, v) = CHR 0x22 # concat (map json_char k) @ CHR 0x22 # CHR '':'' # json_val isof v"
  by (simp add: json_member_def json_quote_def)

lemma json_val_Obj:
  "json_val isof (Obj d) = ''{'' @ sep_concat (map (json_member isof) (filter (\<lambda>p. snd p \<noteq> Undef) d)) @ ''}''"
proof -
  have "concat (map (\<lambda>(k, v). if v = Undef then [] else [json_quote k @ '':'' @ json_val isof v]) d)
      = map (json_member isof) (filter (\<lambda>p. snd p \<noteq> Undef) d)"
    by (induction d) (auto simp: json_member_def)
  then show ?thesis by simp
qed

lemma json_norm_Obj:
  "json_norm isof (Obj d) = Obj (map (\<lambda>p. (fst p, json_norm isof (snd p))) (filter (\<lambda>p. snd p \<noteq> Undef) d))"
proof -
  have "concat (map (\<lambda>(k, v). if v = Undef then [] else [(k, json_norm isof v)]) d)
      = map (\<lambda>p. (fst p, json_norm isof (snd p))) (filter (\<lambda>p. snd p \<noteq> Undef) d)"
    by (induction d) auto
  then show ?thesis by simp
qed

text \<open>The law of one value, at the head of any text that does not continue a number.\<close>

definition reads_back :: "(jsnum \<Rightarrow> string) \<Rightarrow> jsval \<Rightarrow> bool" where
  "reads_back isof v \<longleftrightarrow> (\<forall>f r. 2 * length (json_val isof v) < f \<longrightarrow> no_num r \<longrightarrow>
     parse_val f (json_val isof v @ r) = Some (json_norm isof v, r))"

lemma no_num_simps [simp]: "no_num []" "no_num (CHR '','' # r)" "no_num (CHR '']'' # r)" "no_num (CHR ''}'' # r)"
  by (simp_all add: no_num_def num_char_def is_digit_def)

lemma sep_concat_Cons: "sep_concat (x # xs) = x @ (if xs = [] then [] else CHR '','' # sep_concat xs)"
  by (cases xs) simp_all

lemma parse_elems_json:
  assumes "\<forall>v \<in> set vs. reads_back isof v" "vs \<noteq> []" "2 * length (sep_concat (map (json_val isof) vs)) + 1 < f"
  shows "parse_elems f (sep_concat (map (json_val isof) vs) @ CHR '']'' # r) = Some (map (json_norm isof) vs, r)"
  using assms
proof (induction vs arbitrary: f)
  case (Cons v vs)
  then obtain g where f: "f = Suc g" by (cases f) auto
  show ?case
  proof (cases "vs = []")
    case True
    then show ?thesis using Cons.prems f by (simp add: reads_back_def)
  next
    case False
    let ?r = "CHR '','' # sep_concat (map (json_val isof) vs) @ CHR '']'' # r"
    have "parse_val g (json_val isof v @ ?r) = Some (json_norm isof v, ?r)"
      using Cons.prems f False by (simp add: reads_back_def sep_concat_Cons)
    moreover have "parse_elems g (sep_concat (map (json_val isof) vs) @ CHR '']'' # r) = Some (map (json_norm isof) vs, r)"
      using Cons.prems f False by (intro Cons.IH) (simp_all add: sep_concat_Cons)
    ultimately show ?thesis using False f by (simp add: sep_concat_Cons)
  qed
qed simp

lemma parse_members_json:
  assumes "\<forall>p \<in> set d. reads_back isof (snd p)" "d \<noteq> []" "distinct (map fst (a @ d))"
    "2 * length (sep_concat (map (json_member isof) d)) + 1 < f"
  shows "parse_members f a (sep_concat (map (json_member isof) d) @ CHR ''}'' # r)
    = Some (a @ map (\<lambda>p. (fst p, json_norm isof (snd p))) d, r)"
  using assms
proof (induction d arbitrary: f a)
  case (Cons p d)
  then obtain g where f: "f = Suc g" by (cases f) auto
  obtain k v where p: "p = (k, v)" by (cases p)
  have fresh: "\<not> has_key k a" using Cons.prems(3) by (auto simp: p has_key_iff)
  have len: "length k \<le> length (concat (map json_char k))"
    by (induction k) (auto simp: json_char_def Let_def)
  show ?case
  proof (cases "d = []")
    case True
    let ?r = "CHR ''}'' # r"
    have "parse_val g (json_val isof v @ ?r) = Some (json_norm isof v, ?r)"
      using Cons.prems f True by (simp add: reads_back_def p json_member_def)
    then show ?thesis using len by (simp add: f True p json_member_def json_quote_def parse_chars_json aupd_fresh[OF fresh])
  next
    case False
    let ?r = "CHR '','' # sep_concat (map (json_member isof) d) @ CHR ''}'' # r"
    have v: "parse_val g (json_val isof v @ ?r) = Some (json_norm isof v, ?r)"
      using Cons.prems f False by (simp add: reads_back_def sep_concat_Cons p json_member_pair)
    have m: "parse_members g (a @ [(k, json_norm isof v)]) (sep_concat (map (json_member isof) d) @ CHR ''}'' # r)
        = Some ((a @ [(k, json_norm isof v)]) @ map (\<lambda>p. (fst p, json_norm isof (snd p))) d, r)"
      using Cons.prems f False by (intro Cons.IH) (auto simp: sep_concat_Cons p)
    show ?thesis using False f len v m
      by (simp add: sep_concat_Cons p json_member_pair parse_chars_json aupd_fresh[OF fresh])
  qed
qed simp

lemma reads_back_wf: "json_wf v \<Longrightarrow> reads_back isof v"
proof (induction isof v rule: json_val.induct)
  case (4 isof x)
  show ?case
  proof (cases x)
    case (Fin q)
    then show ?thesis using 4 parse_num_json[of x q] by (simp add: reads_back_def)
  qed (simp_all add: reads_back_def)
next
  case (7 isof vs)
  have all: "\<forall>v \<in> set vs. reads_back isof v" using 7 by (auto simp: list_all_iff)
  show ?case unfolding reads_back_def
  proof (intro allI impI)
    fix f r assume f: "2 * length (json_val isof (Arr vs)) < f" "no_num r"
    then obtain g where g: "f = Suc g" by (cases f) auto
    show "parse_val f (json_val isof (Arr vs) @ r) = Some (json_norm isof (Arr vs), r)"
    proof (cases vs)
      case (Cons v ws)
      then obtain c t where "json_val isof v = c # t" "\<not> json_space c" "c \<noteq> CHR '']''"
        using 7(2) json_val_head[of v isof] by (auto simp: list_all_iff)
      moreover have "parse_elems g (sep_concat (map (json_val isof) vs) @ CHR '']'' # r) = Some (map (json_norm isof) vs, r)"
        using f g Cons by (intro parse_elems_json all) simp_all
      ultimately show ?thesis by (simp add: Cons g sep_concat_Cons)
    qed (simp add: g)
  qed
next
  case (8 isof d)
  let ?d = "filter (\<lambda>p. snd p \<noteq> Undef) d"
  have all: "\<forall>p \<in> set ?d. reads_back isof (snd p)" using 8 by (fastforce simp: list_all_iff)
  have dist: "distinct (map fst ([] @ ?d))" using 8(2) by (simp add: distinct_map_filter)
  show ?case unfolding reads_back_def
  proof (intro allI impI)
    fix f r assume f: "2 * length (json_val isof (Obj d)) < f" "no_num r"
    then obtain g where g: "f = Suc g" by (cases f) auto
    show "parse_val f (json_val isof (Obj d) @ r) = Some (json_norm isof (Obj d), r)"
    proof (cases "?d = []")
      case True
      then show ?thesis unfolding json_val_Obj json_norm_Obj True g by simp
    next
      case False
      have "parse_members g [] (sep_concat (map (json_member isof) ?d) @ CHR ''}'' # r)
          = Some ([] @ map (\<lambda>p. (fst p, json_norm isof (snd p))) ?d, r)"
        using f(1) g by (intro parse_members_json all False dist) (simp add: json_val_Obj del: json_val.simps)
      moreover obtain q ds where "?d = q # ds" using False by (cases ?d) auto
      ultimately show ?thesis unfolding json_val_Obj json_norm_Obj g
        by (simp add: sep_concat_Cons json_member_def json_quote_def)
    qed
  qed
qed (simp_all add: reads_back_def parse_str_json split: jsnum.split)

theorem json_roundtrip:
  assumes "json_wf v"
  shows "json_parse (json_val isof v) = Inr (json_norm isof v)"
proof -
  have "parse_val (2 * length (json_val isof v) + 2) (json_val isof v @ []) = Some (json_norm isof v, [])"
    using reads_back_wf[OF assms, of isof] unfolding reads_back_def by (blast intro: no_num_simps less_add_same_cancel1[THEN iffD2] zero_less_numeral)
  then show ?thesis by (simp only: json_parse_def append_Nil2) (simp add: skip_ws_def)
qed


section \<open>Integers survive\<close>

lemma nat_digits_lead: "n \<noteq> 0 \<Longrightarrow> hd (nat_digits n) \<noteq> CHR ''0''"
proof (induction n rule: nat_digits.induct)
  case (1 n)
  show ?case
  proof (cases "n < 10")
    case True
    have "digit_val (digit_char (int n)) = int n" using True by (intro digit_char_props) auto
    moreover have "digit_val (CHR ''0'') = 0" by code_simp
    ultimately show ?thesis using True 1(2) by (subst nat_digits.simps) auto
  next
    case False
    then show ?thesis using 1 nat_digits_ne[of "n div 10"] by (subst nat_digits.simps) simp
  qed
qed

lemma nat_digits_literal:
  "takeWhile is_digit (nat_digits n) = nat_digits n" "dropWhile is_digit (nat_digits n) = []"
  "hd (nat_digits n) = CHR ''0'' \<longrightarrow> tl (nat_digits n) = []" "list_all num_char (nat_digits n)"
  "\<not> is_space (hd (nat_digits n))" "is_digit (hd (nat_digits n))"
proof -
  have all: "\<forall>c \<in> set (nat_digits n). is_digit c" using nat_digits_all[of n] by (simp add: list_all_iff)
  have hd: "hd (nat_digits n) \<in> set (nat_digits n)" using nat_digits_ne by simp
  show "takeWhile is_digit (nat_digits n) = nat_digits n" "dropWhile is_digit (nat_digits n) = []"
    using all by (auto simp: takeWhile_eq_all_conv dropWhile_eq_Nil_conv)
  show "list_all num_char (nat_digits n)" using all by (simp add: list_all_iff num_char_def)
  show "is_digit (hd (nat_digits n))" using all hd by blast
  then show "\<not> is_space (hd (nat_digits n))" by (auto simp: is_digit_def is_space_def)
  have "nat_digits 0 = [digit_char 0]" by (subst nat_digits.simps) simp
  then show "hd (nat_digits n) = CHR ''0'' \<longrightarrow> tl (nat_digits n) = []"
    using nat_digits_lead[of n] by (cases "n = 0") auto
qed

lemma scan_dec_digits: "ds \<noteq> [] \<Longrightarrow> list_all is_digit ds \<Longrightarrow> scan_dec ds = Some (of_int (digits_val ds), [])"
  by (simp add: scan_dec_def Let_def scan_exp_def list_all_iff takeWhile_eq_all_conv[THEN iffD2] dropWhile_eq_Nil_conv[THEN iffD2])

lemma no_space_trim:
  assumes "list_all (\<lambda>c. \<not> is_space c) s" shows "trim s = s"
proof -
  have d: "dropWhile is_space t = t" if "\<forall>c \<in> set t. \<not> is_space c" for t
    using that by (cases t) auto
  show ?thesis using assms by (simp add: trim_def d list_all_iff)
qed

lemma str_to_num_int:
  assumes "\<bar>i\<bar> \<le> 2 ^ 53" shows "str_to_num (int_to_string i) = num i"
proof -
  define ds where "ds = nat_digits (nat \<bar>i\<bar>)"
  have all: "list_all is_digit ds" "ds \<noteq> []" by (simp_all add: ds_def nat_digits_all nat_digits_ne)
  have its: "int_to_string i = (if i < 0 then CHR ''-'' # ds else ds)"
    by (simp add: int_to_string_def ds_def)
  have dig: "is_digit c \<Longrightarrow> \<not> is_space c \<and> c \<noteq> CHR ''x'' \<and> c \<noteq> CHR ''o'' \<and> c \<noteq> CHR ''b'' \<and> c \<noteq> CHR ''-'' \<and> c \<noteq> CHR ''+'' \<and> c \<noteq> CHR ''I''
      \<and> to_lower_char c = c" for c
    by (auto simp: is_digit_def is_space_def to_lower_char_def)
  obtain c u where cu: "ds = c # u" "is_digit c" "list_all is_digit u" using all by (cases ds) auto
  have "\<forall>c \<in> set ds. \<not> is_space c" "\<not> is_space (CHR ''-'')"
    using all(1) dig by (simp_all add: list_all_iff) (simp add: is_space_def)
  then have tr: "trim (int_to_string i) = int_to_string i"
    by (intro no_space_trim) (simp add: its list_all_iff)
  have "\<forall>c \<in> set (int_to_string i). to_lower_char c = c"
    using all(1) dig by (simp add: its list_all_iff to_lower_char_def[of "CHR ''-''"])
  then have "to_lower (int_to_string i) = int_to_string i" by (simp add: to_lower_def map_idI)
  then have "set (take 2 (to_lower (int_to_string i))) \<subseteq> insert (CHR ''-'') {c. is_digit c}"
    using all set_take_subset[of 2 "int_to_string i"] by (auto simp: its list_all_iff split: if_splits)
  then have pre: "take 2 (to_lower (int_to_string i)) \<noteq> ''0x''" "take 2 (to_lower (int_to_string i)) \<noteq> ''0o''"
      "take 2 (to_lower (int_to_string i)) \<noteq> ''0b''"
    by (auto simp: is_digit_def)
  have sg: "split_sign (int_to_string i) = (i < 0, ds)"
    using dig[OF cu(2)] by (simp add: its cu split_sign_def)
  have inf: "ds \<noteq> ''Infinity''" using cu dig by auto
  have val: "scan_dec ds = Some (of_int \<bar>i\<bar>, [])"
    using scan_dec_digits[OF all(2,1)] digits_val_nat_digits[of "nat \<bar>i\<bar>"] by (simp add: ds_def)
  have "int_to_string i \<noteq> []" by (simp add: its cu)
  then show ?thesis using pre inf assms val dbl_of_int[of i]
    by (auto simp: str_to_num_def Let_def tr sg)
qed

lemma num_roundtrips_int:
  assumes "\<bar>i\<bar> \<le> 2 ^ 53" shows "num_roundtrips (num i)"
proof -
  define ds where "ds = nat_digits (nat \<bar>i\<bar>)"
  note lit = nat_digits_literal[of "nat \<bar>i\<bar>", folded ds_def] nat_digits_ne[of "nat \<bar>i\<bar>", folded ds_def]
  have its: "int_to_string i = (if i < 0 then CHR ''-'' # ds else ds)" by (simp add: int_to_string_def ds_def)
  have u: "(case int_to_string i of [] \<Rightarrow> [] | c # t \<Rightarrow> if c = CHR ''-'' then t else int_to_string i) = ds"
    using lit
    by (cases ds) (auto simp: its is_digit_def)
  have "num_literal (int_to_string i)" unfolding num_literal_def Let_def u lit(1,2)
    using lit(3,7) by (simp add: frac_ok_def)
  moreover have "list_all num_char (int_to_string i)"
    using lit(4) by (simp add: its num_char_def)
  ultimately have "num_literal (int_to_string i)" "list_all num_char (int_to_string i)" .
  then show ?thesis using str_to_num_int[OF assms] num_to_string_int[OF assms]
    by (auto simp: num_roundtrips_def split: jsnum.split)
qed

end
