(* ===== verification/Mongofw.thy ===== *)
theory Mongofw
  imports JSParse ProcQueue
begin

text \<open>
  The sending side of the one way replication (\<open>mongofw/customized_module.js\<close>): changes of
  \<open>realtimeData\<close> are queued, numbered, packed into datagrams and sent; live changes are
  kept in the collection \<open>backfillData\<close> and replayed from there, marked as historical.
  The module state is the record \<open>fwd\<close>. Handlers run between the awaits of the sending
  loop, so a turn of that loop (one datagram) is one step. \<open>deflate\<close> is \<open>zlib.deflateSync\<close>
  on the UTF-8 text, \<open>f_sent\<close> the datagrams handed to the socket, \<open>f_inserted\<close> the
  rows handed to the database. The counters stay far below two to the 53rd.
\<close>

section \<open>Constants and paths\<close>

definition MAX_LENGTH_JSON :: nat where "MAX_LENGTH_JSON = 60000"
definition PACKET_SIZE_THRESHOLD :: nat where "PACKET_SIZE_THRESHOLD = 7000"
definition INTERVAL_AFTER_EMPTY_QUEUE :: int where "INTERVAL_AFTER_EMPTY_QUEUE = 250"
definition MAX_SEQUENCE_OF_UDPMSGS :: nat where "MAX_SEQUENCE_OF_UDPMSGS = 50"
definition INTERVAL_AFTER_UDPMSGS_SEQ :: int where "INTERVAL_AFTER_UDPMSGS_SEQ = 100"
definition PACKET_SIZE_BREAK_SEQ :: nat where "PACKET_SIZE_BREAK_SEQ = 6000"
definition BACKFILL_DOCS_PER_SEC :: nat where "BACKFILL_DOCS_PER_SEC = 500"

lemmas fw_consts = MAX_LENGTH_JSON_def PACKET_SIZE_THRESHOLD_def INTERVAL_AFTER_EMPTY_QUEUE_def
  MAX_SEQUENCE_OF_UDPMSGS_def INTERVAL_AFTER_UDPMSGS_SEQ_def PACKET_SIZE_BREAK_SEQ_def BACKFILL_DOCS_PER_SEC_def

text \<open>\<open>v?.a?.b\<close>, \<open>delete v.a.b\<close> and \<open>v.a.b = x\<close>; the last two are used where the path is known to exist.\<close>

definition opt_path :: "jsval \<Rightarrow> string list \<Rightarrow> jsval" where
  "opt_path v ks = foldl opt_get v ks"

fun del_path :: "string list \<Rightarrow> jsval \<Rightarrow> jsval" where
  "del_path [k] (Obj d) = Obj (adel k d)"
| "del_path (k # l # ks) (Obj d) = (if has_key k d then Obj (aupd k (del_path (l # ks) (fld d k)) d) else Obj d)"
| "del_path _ v = v"

fun set_path :: "string list \<Rightarrow> jsval \<Rightarrow> jsval \<Rightarrow> jsval" where
  "set_path [k] x (Obj d) = Obj (aupd k x d)"
| "set_path (k # l # ks) x (Obj d) = (if has_key k d then Obj (aupd k (set_path (l # ks) x (fld d k)) d) else Obj d)"
| "set_path _ x v = v"

abbreviation upd_desc :: string where "upd_desc \<equiv> ''updateDescription''"
abbreviation upd_fields :: string where "upd_fields \<equiv> ''updatedFields''"
abbreviation sdu :: string where "sdu \<equiv> ''sourceDataUpdate''"
abbreviation sdu_path :: "string list" where "sdu_path \<equiv> [upd_desc, upd_fields, sdu]"

section \<open>State\<close>

datatype sender = Waiting jsnum | Sending nat | Failed js_error

record fwd =
  chgQueue :: "jsval list"
  backfillQueue :: "jsval list list"
  maxSz :: nat
  cntChg :: int
  pktCnt :: nat
  f_sent :: "string list"
  f_inserted :: "doc list"
  f_run :: sender
  f_client :: bool

text \<open>The sending loop is started when the module is loaded.\<close>

definition fw_init :: fwd where
  "fw_init = \<lparr>chgQueue = [], backfillQueue = [], maxSz = 0, cntChg = 0, pktCnt = 0, f_sent = [], f_inserted = [], f_run = Sending 0, f_client = True\<rparr>"

section \<open>What enters the queue\<close>

text \<open>The listener of the change stream.\<close>

definition on_stream_change :: "bool \<Rightarrow> bool \<Rightarrow> jsval \<Rightarrow> fwd \<Rightarrow> fwd" where
  "on_stream_change active hint change w =
     (if \<not> active \<or> \<not> hint then w
      else if \<not> truthy (opt_path change sdu_path) then w
      else if \<not> truthy (opt_get change ''operationType'') then w
      else w\<lparr>chgQueue := q_enqueue change (chgQueue w)\<rparr>)"

text \<open>What the stream lets through, and the loss of the stream. The periodic calls (point list, backfill,
  replay) go on only while the client is there; the result says whether the timer is set again.\<close>

definition stream_match :: "doc \<Rightarrow> bool" where
  "stream_match change \<longleftrightarrow> (case opt_path (Obj change) [upd_desc, upd_fields] of Obj u \<Rightarrow> has_key sdu u | _ \<Rightarrow> False) \<and>
     fld change ''operationType'' = Str ''update''"

definition stream_lost :: "fwd \<Rightarrow> fwd" where
  "stream_lost w = w\<lparr>f_client := False\<rparr>"

definition periodic_call :: "(fwd \<Rightarrow> fwd) \<Rightarrow> fwd \<Rightarrow> fwd \<times> bool" where
  "periodic_call f w = (if \<not> f_client w then (w, False) else (f w, True))"

text \<open>One document of the point list, and the loop over all of them.\<close>

definition sync_change :: "doc \<Rightarrow> jsval" where
  "sync_change d = Obj [(''operationType'', Str ''integrity''), (''fullDocument'', Obj [(''tag'', fld d ''tag'')]),
     (''documentKey'', Obj [(''_id'', fld d ''_id'')]), (upd_desc, Obj [(upd_fields, Obj d)])]"

definition sync_trim :: "doc \<Rightarrow> doc" where
  "sync_trim d = (let d1 = (if truthy (fld d sdu) then adel sdu d else d) in
     if truthy (fld d1 ''protocolDestinations'') then adel ''protocolDestinations'' d1 else d1)"

definition sync_doc :: "doc \<Rightarrow> fwd \<Rightarrow> fwd" where
  "sync_doc d w = (let d' = sync_trim d in
     if MAX_LENGTH_JSON < js_length (json_val iso_of (Obj d')) then w
     else w\<lparr>chgQueue := q_enqueue (sync_change d') (chgQueue w)\<rparr>)"

definition enqueueDbSync :: "bool \<Rightarrow> bool \<Rightarrow> doc list \<Rightarrow> fwd \<Rightarrow> fwd" where
  "enqueueDbSync active hint docs w = (if \<not> active \<or> \<not> hint then w else fold sync_doc docs w)"

text \<open>A stored row is marked as historical and queued. Writing a property of a value that is not an
  object throws.\<close>

definition replay_mark :: "doc \<Rightarrow> (js_error + jsval) option" where
  "replay_mark row =
     (let v = opt_path (fld row ''data'') sdu_path in
      if \<not> truthy v then None
      else Some (if is_prim v then Inl TypeError else Inr (set_path (sdu_path @ [''isHistorical'']) (Bool True) (fld row ''data''))))"

text \<open>The rows of one query: those queued until one throws.\<close>

fun replay_rows :: "doc list \<Rightarrow> (js_error + unit) \<times> jsval list" where
  "replay_rows [] = (Inr (), [])"
| "replay_rows (row # rows) = (case replay_mark row of
     None \<Rightarrow> replay_rows rows
   | Some (Inl e) \<Rightarrow> (Inl e, [])
   | Some (Inr v) \<Rightarrow> (case replay_rows rows of (r, vs) \<Rightarrow> (r, v # vs)))"

section \<open>Sending\<close>

text \<open>Parts that may be too large are taken out of a change.\<close>

definition strip_json :: "jsval \<Rightarrow> jsval" where
  "strip_json c = (let v = opt_path c (sdu_path @ [''valueJsonAtSource'']); n = (if nullish v then Undef else length_of v) in
     if truthy v \<and> truthy n \<and> js_lt (Num (num (int (MAX_LENGTH_JSON div 2)))) n
     then del_path (sdu_path @ [''valueJsonAtSource'']) c else c)"

definition strip_key :: "string list \<Rightarrow> jsval \<Rightarrow> jsval" where
  "strip_key ks c = (if truthy (opt_path c ks) then del_path ks c else c)"

definition strip_change :: "jsval \<Rightarrow> jsval" where
  "strip_change c = strip_key [upd_desc, ''removedFields''] (strip_key [upd_desc, ''truncatedArrays'']
     (strip_key (sdu_path @ [''valueBsonAtSource'']) (strip_json c)))"

definition forward_obj :: "int \<Rightarrow> jsval \<Rightarrow> js_error + jsval" where
  "forward_obj n c = (if nullish c then Inl TypeError
     else Inr (Obj [(''cnt'', Num (num n)), (''tag'', opt_path c [''fullDocument'', ''tag'']), (''operationType'', opt_get c ''operationType''),
       (''documentKey'', opt_get c ''documentKey''), (upd_desc, opt_get c upd_desc)]))"

text \<open>Only live updates are kept for replay.\<close>

definition wants_backfill :: "jsval \<Rightarrow> js_error + bool" where
  "wants_backfill c = (if \<not> strict_eq (opt_get c ''operationType'') (Str ''update'') then Inr False
     else if nullish (opt_get c upd_desc) \<or> nullish (opt_path c [upd_desc, upd_fields]) then Inl TypeError
     else Inr (\<not> truthy (opt_path c (sdu_path @ [''isHistorical'']))))"

definition json_size :: "jsval \<Rightarrow> nat" where
  "json_size v = js_length (json_val iso_of v)"

text \<open>The inner loop: the objects of one datagram and those of them to keep, from the queue, the
  counter and the size so far. An exception leaves the queue and the counter as they are.\<close>

fun gather :: "jsval list \<Rightarrow> int \<Rightarrow> nat \<Rightarrow> (js_error + jsval list \<times> jsval list) \<times> jsval list \<times> int" where
  "gather [] c sz = (Inr ([], []), [], c)"
| "gather (x # q) c sz =
     (let x' = strip_change x in
      case forward_obj (c + 1) x' of Inl e \<Rightarrow> (Inl e, q, c + 1)
      | Inr obj \<Rightarrow>
          if MAX_LENGTH_JSON < json_size obj then gather q c sz
          else (case wants_backfill x' of Inl e \<Rightarrow> (Inl e, q, c + 1)
            | Inr b \<Rightarrow>
                (let sz' = sz + json_size obj; keep = (if b then [obj] else []) in
                 if PACKET_SIZE_THRESHOLD < sz' then (Inr ([obj], keep), q, c + 1)
                 else (case gather q (c + 1) sz' of (Inl e, r) \<Rightarrow> (Inl e, r)
                   | (Inr (fs, bs), r) \<Rightarrow> (Inr (obj # fs, keep @ bs), r)))))"

text \<open>One turn of the outer loop; the pause after a long run grows with the datagram.\<close>

definition packet_text :: "jsval list \<Rightarrow> string" where
  "packet_text fs = json_val iso_of (Arr fs)"

definition long_pause :: "nat \<Rightarrow> jsnum" where
  "long_pause n = num INTERVAL_AFTER_UDPMSGS_SEQ + num 100 * parse_int (num_to_string (num_div (num (int n)) (num 1500)))"

definition send_turn :: "(string \<Rightarrow> string) \<Rightarrow> nat \<Rightarrow> fwd \<Rightarrow> fwd" where
  "send_turn deflate k w =
     (if q_isEmpty (chgQueue w) then w\<lparr>f_run := Waiting (num INTERVAL_AFTER_EMPTY_QUEUE)\<rparr>
      else case gather (chgQueue w) (cntChg w) 0 of
        (Inl e, q, c) \<Rightarrow> w\<lparr>chgQueue := q, cntChg := c, f_run := Failed e\<rparr>
      | (Inr (fs, bs), q, c) \<Rightarrow>
          (let msg = deflate (packet_text fs); n = length msg in
           w\<lparr>chgQueue := q, cntChg := c,
             backfillQueue := (if bs \<noteq> [] then q_enqueue bs (backfillQueue w) else backfillQueue w),
             f_sent := f_sent w @ [msg], maxSz := max n (maxSz w), pktCnt := pktCnt w + 1,
             f_run := (if MAX_SEQUENCE_OF_UDPMSGS < k + 1 \<or> PACKET_SIZE_BREAK_SEQ < n then Waiting (long_pause n) else Sending (k + 1))\<rparr>))"

lemma send_turn_goes_on:
  "f_run (send_turn deflate k w) = Sending j \<Longrightarrow> j = k + 1 \<and> j \<le> MAX_SEQUENCE_OF_UDPMSGS"
  by (auto simp: send_turn_def Let_def split: if_splits sum.splits prod.splits)

text \<open>A whole run of \<open>dequeueChangesSend\<close>; \<open>arr k\<close> is what other handlers queue during the pause
  after the datagram \<open>k\<close>.\<close>

function send_loop :: "(string \<Rightarrow> string) \<Rightarrow> (nat \<Rightarrow> jsval list) \<Rightarrow> nat \<Rightarrow> fwd \<Rightarrow> fwd" where
  "send_loop deflate arr k w =
     (let w' = send_turn deflate k w in
      case f_run w' of Sending j \<Rightarrow> send_loop deflate arr j (w'\<lparr>chgQueue := chgQueue w' @ arr k\<rparr>) | _ \<Rightarrow> w')"
  by pat_completeness auto
termination
  by (relation "measure (\<lambda>(deflate, arr, k, w). MAX_SEQUENCE_OF_UDPMSGS - k)") (simp_all, drule sym, drule send_turn_goes_on, simp)

declare send_loop.simps [simp del]

definition dequeueChangesSend :: "(string \<Rightarrow> string) \<Rightarrow> (nat \<Rightarrow> jsval list) \<Rightarrow> fwd \<Rightarrow> fwd" where
  "dequeueChangesSend deflate arr w = send_loop deflate arr 0 w"

section \<open>The backfill collection\<close>

text \<open>One row for each object kept; \<open>now\<close> is the clock.\<close>

definition backfill_row :: "jsnum \<Rightarrow> jsval \<Rightarrow> js_error + doc" where
  "backfill_row now obj =
     (if nullish obj \<or> nullish (opt_get obj upd_desc) \<or> nullish (opt_path obj [upd_desc, upd_fields]) then Inl TypeError
      else Inr [(''timestamp'', js_or (opt_path obj [upd_desc, upd_fields, ''timestamp'']) (Date now)),
        (''metadata'', Obj [(''tag'', opt_get obj ''tag'')]), (''data'', obj)])"

fun backfill_rows :: "jsnum \<Rightarrow> jsval list \<Rightarrow> js_error + doc list" where
  "backfill_rows now [] = Inr []"
| "backfill_rows now (v # vs) = (case backfill_row now v of Inl e \<Rightarrow> Inl e
     | Inr r \<Rightarrow> (case backfill_rows now vs of Inl e \<Rightarrow> Inl e | Inr rs \<Rightarrow> Inr (r # rs)))"

text \<open>The loop over the queue: what was dequeued is gone when a row throws.\<close>

fun backfill_drain :: "jsnum \<Rightarrow> jsval list list \<Rightarrow> (js_error + doc list) \<times> jsval list list" where
  "backfill_drain now [] = (Inr [], [])"
| "backfill_drain now (b # q) = (case backfill_rows now b of Inl e \<Rightarrow> (Inl e, q)
     | Inr rs \<Rightarrow> (case backfill_drain now q of (Inl e, q') \<Rightarrow> (Inl e, q') | (Inr rs', q') \<Rightarrow> (Inr (rs @ rs'), q')))"

definition backfillDequeue :: "bool \<Rightarrow> bool \<Rightarrow> jsnum \<Rightarrow> fwd \<Rightarrow> (js_error + unit) \<times> fwd" where
  "backfillDequeue active hint now w =
     (if \<not> active \<or> \<not> hint then (Inr (), w)
      else case backfill_drain now (backfillQueue w) of
        (Inl e, q) \<Rightarrow> (Inl e, w\<lparr>backfillQueue := q\<rparr>)
      | (Inr rs, q) \<Rightarrow> (Inr (), w\<lparr>backfillQueue := q, f_inserted := f_inserted w @ rs\<rparr>))"

text \<open>A replay reads the rows of its time window (\<open>rows\<close>, in order) by \<open>limit\<close> and \<open>skip\<close>. \<open>others skip\<close> is
  what the rest of the module does in the second between two queries. The loop also returns
  what it has queued.\<close>

definition replay_limit :: "fwd \<Rightarrow> nat" where
  "replay_limit w = BACKFILL_DOCS_PER_SEC + (if q_isEmpty (chgQueue w) then BACKFILL_DOCS_PER_SEC else 0)"

function replay_loop :: "doc list \<Rightarrow> (nat \<Rightarrow> fwd \<Rightarrow> fwd) \<Rightarrow> nat \<Rightarrow> fwd \<Rightarrow> (js_error + unit) \<times> jsval list \<times> fwd" where
  "replay_loop rows others skip w =
     (let docs = take (replay_limit w) (drop skip rows) in
      if docs = [] then (Inr (), [], w)
      else (case replay_rows docs of (r, vs) \<Rightarrow>
        (let w' = w\<lparr>chgQueue := chgQueue w @ vs\<rparr> in
         case r of Inl e \<Rightarrow> (Inl e, vs, w')
         | Inr _ \<Rightarrow> (case replay_loop rows others (skip + length docs) (others skip w') of (r', vs', w'') \<Rightarrow> (r', vs @ vs', w'')))))"
  by pat_completeness auto
termination
  by (relation "measure (\<lambda>(rows, others, skip, w). length rows - skip)") (auto simp: neq_Nil_conv)

declare replay_loop.simps [simp del]

definition replayBackfill :: "doc list \<Rightarrow> (nat \<Rightarrow> fwd \<Rightarrow> fwd) \<Rightarrow> fwd \<Rightarrow> (js_error + unit) \<times> jsval list \<times> fwd" where
  "replayBackfill rows others w = replay_loop rows others 0 w"

section \<open>The module as a transition system\<close>

inductive fw_step :: "(string \<Rightarrow> string) \<Rightarrow> fwd \<Rightarrow> fwd \<Rightarrow> bool" for deflate where
  fw_change: "fw_step deflate w (on_stream_change active hint change w)"
| fw_sync: "fw_step deflate w (sync_doc d w)"
| fw_timer: "f_run w = Waiting t \<Longrightarrow> fw_step deflate w (w\<lparr>f_run := Sending 0\<rparr>)"
| fw_send: "f_run w = Sending k \<Longrightarrow> fw_step deflate w (send_turn deflate k w)"
| fw_backfill: "fw_step deflate w (snd (backfillDequeue active hint now w))"
| fw_lost: "fw_step deflate w (stream_lost w)"
| fw_replay: "replay_mark row = Some (Inr v) \<Longrightarrow> fw_step deflate w (w\<lparr>chgQueue := q_enqueue v (chgQueue w)\<rparr>)"

abbreviation fw_reaches :: "(string \<Rightarrow> string) \<Rightarrow> fwd \<Rightarrow> bool" where
  "fw_reaches deflate w \<equiv> (fw_step deflate)\<^sup>*\<^sup>* fw_init w"

end
