(* ===== verification/MongofwLaws.thy ===== *)
theory MongofwLaws
  imports Mongofw
begin

text \<open>
  Laws of the sender: what a datagram holds, that the loop ends and never fails, that the
  objects of all datagrams are numbered without a gap, and what is kept for replay.
\<close>

section \<open>Changes the sender can handle\<close>

text \<open>A change with an object of updated fields never makes the loop throw.\<close>

definition sendable :: "jsval \<Rightarrow> bool" where
  "sendable c \<longleftrightarrow> (\<exists>d e u. c = Obj d \<and> fld d upd_desc = Obj e \<and> fld e upd_fields = Obj u)"

lemma opt_path_simps [simp, js_simps]: "opt_path v [] = v" "opt_path v (k # ks) = opt_path (opt_get v k) ks"
  by (simp_all add: opt_path_def)

lemma fld_has_key: "fld d k \<noteq> Undef \<Longrightarrow> has_key k d"
  by (auto simp: fld_def has_key_def split: option.splits)

lemma opt_get_object: "truthy (opt_get v k) \<Longrightarrow> \<exists>d. v = Obj d"
  by (cases v) auto

lemma sendable_path:
  assumes "truthy (opt_path c sdu_path)" shows "sendable c"
proof -
  from assms obtain u where u: "opt_get (opt_get c upd_desc) upd_fields = Obj u" by (auto dest: opt_get_object)
  then obtain e where e: "opt_get c upd_desc = Obj e" using opt_get_object[of "opt_get c upd_desc" upd_fields] by auto
  then obtain d where "c = Obj d" using opt_get_object[of c upd_desc] by auto
  then show ?thesis using u e by (auto simp: sendable_def)
qed

lemma sendable_sync: "sendable (sync_change d)"
  by (simp add: sendable_def sync_change_def)

lemma sendable_strip_key:
  assumes "sendable c" "x \<noteq> upd_fields" "ks = [upd_desc, x] \<or> ks = sdu_path @ [y]"
  shows "sendable (strip_key ks c)"
  using assms by (auto simp: sendable_def strip_key_def fld_has_key)

lemma sendable_strip_json: "sendable c \<Longrightarrow> sendable (strip_json c)"
  by (auto simp: sendable_def strip_json_def Let_def fld_has_key)

lemma sendable_strip: "sendable c \<Longrightarrow> sendable (strip_change c)"
  unfolding strip_change_def
  by (intro sendable_strip_json sendable_strip_key[where x="''removedFields''"] sendable_strip_key[where x="''truncatedArrays''"]
      sendable_strip_key[where x="[]" and y="''valueBsonAtSource''"]) simp_all

lemma sendable_replay: "replay_mark row = Some (Inr v) \<Longrightarrow> sendable v"
proof -
  assume a: "replay_mark row = Some (Inr v)"
  then have "truthy (opt_path (fld row ''data'') sdu_path)" by (auto simp: replay_mark_def Let_def split: if_splits)
  then have "sendable (fld row ''data'')" by (rule sendable_path)
  then show ?thesis using a by (auto simp: sendable_def replay_mark_def Let_def fld_has_key split: if_splits)
qed

lemma sendable_forward:
  assumes "sendable c"
  obtains o' where "forward_obj n c = Inr (Obj o')" "wants_backfill c \<noteq> Inl e" "sendable (Obj o')"
  using assms that by (auto simp: sendable_def forward_obj_def wants_backfill_def nullish_def)

section \<open>One datagram\<close>

definition live_update :: "jsval \<Rightarrow> bool" where
  "live_update obj \<longleftrightarrow> strict_eq (opt_get obj ''operationType'') (Str ''update'') \<and>
     \<not> truthy (opt_path obj (sdu_path @ [''isHistorical'']))"

definition numbers :: "jsval list \<Rightarrow> jsval list" where
  "numbers objs = map (\<lambda>obj. opt_get obj ''cnt'') objs"

primrec count_up :: "int \<Rightarrow> nat \<Rightarrow> jsval list" where
  "count_up c 0 = []"
| "count_up c (Suc n) = Num (num (c + 1)) # count_up (c + 1) n"

lemma numbers_simps [simp]: "numbers [] = []" "numbers (x # xs) = opt_get x ''cnt'' # numbers xs" "numbers (xs @ ys) = numbers xs @ numbers ys"
  by (simp_all add: numbers_def)

lemma count_up_add: "count_up c (m + n) = count_up c m @ count_up (c + int m) n"
  by (induction m arbitrary: c) (simp_all add: add.assoc)


lemma length_count_up [simp]: "length (count_up c n) = n"
  by (induction n arbitrary: c) simp_all

lemma opt_get_del_path: "l \<noteq> k \<Longrightarrow> opt_get (del_path (k # ks) c) l = opt_get c l"
  by (cases c; cases ks) auto

lemma strip_keeps_paths:
  "l \<noteq> upd_desc \<Longrightarrow> opt_get (strip_change c) l = opt_get c l"
  by (simp add: strip_change_def strip_key_def strip_json_def opt_get_del_path Let_def)

text \<open>Sizes: a forwarded object has at least eight units, a list one unit for each comma.\<close>

lemma units_simps [simp]:
  "utf16_units (CHR 0x22) = 1" "utf16_units (CHR '':'') = 1" "utf16_units (CHR '','') = 1" "utf16_units (CHR ''{'') = 1"
  "utf16_units (CHR ''}'') = 1" "utf16_units (CHR ''['') = 1" "utf16_units (CHR '']'') = 1"
  "utf16_units (CHR ''c'') = 1" "utf16_units (CHR ''n'') = 1" "utf16_units (CHR ''t'') = 1"
  by (simp_all add: utf16_units_def)

lemma json_size_forward: "forward_obj n c = Inr v \<Longrightarrow> 8 \<le> json_size v"
proof -
  assume "forward_obj n c = Inr v"
  then obtain d where v: "v = Obj ((''cnt'', Num (num n)) # d)" by (auto simp: forward_obj_def split: if_splits)
  have q: "json_char (CHR ''c'') = ''c''" "json_char (CHR ''n'') = ''n''" "json_char (CHR ''t'') = ''t''"
    by (simp_all add: json_char_def Let_def)
  show ?thesis unfolding v json_size_def json_val_Obj by (simp add: sep_concat_Cons json_member_pair q)
qed

lemma js_length_sep: "js_length (sep_concat xs) = sum_list (map js_length xs) + (length xs - 1)"
  by (induction xs) (auto simp: sep_concat_Cons neq_Nil_conv)

lemma packet_size: "js_length (packet_text fs) = 2 + sum_list (map json_size fs) + (length fs - 1)"
  by (simp add: packet_text_def js_length_sep json_size_def[abs_def] comp_def)

lemma packet_bound:
  assumes "\<forall>x \<in> set fs. json_size x \<le> MAX_LENGTH_JSON \<and> 8 \<le> json_size x"
    "sum_list (map json_size (butlast fs)) \<le> PACKET_SIZE_THRESHOLD"
  shows "js_length (packet_text fs) \<le> 67877"
proof (cases fs rule: rev_cases)
  case (snoc gs x)
  have "length gs * 8 \<le> sum_list (map json_size gs)"
    using assms(1) snoc by (induction gs arbitrary: fs) auto
  then show ?thesis using assms snoc by (auto simp: packet_size fw_consts)
qed (simp add: packet_size)

text \<open>The objects of a datagram, from the inner loop.\<close>

lemma gather_sendable:
  assumes "\<forall>x \<in> set q. sendable x" "sz \<le> PACKET_SIZE_THRESHOLD"
  shows "\<exists>fs q'. gather q c sz = (Inr (fs, filter live_update fs), q', c + int (length fs)) \<and>
     (\<exists>p. q = p @ q' \<and> length fs \<le> length p \<and> (q \<noteq> [] \<longrightarrow> p \<noteq> [])) \<and> numbers fs = count_up c (length fs) \<and>
     (\<forall>x \<in> set fs. json_size x \<le> MAX_LENGTH_JSON \<and> sendable x \<and> 8 \<le> json_size x) \<and>
     sz + sum_list (map json_size (butlast fs)) \<le> PACKET_SIZE_THRESHOLD"
  using assms
proof (induction q arbitrary: c sz)
  case (Cons x q)
  let ?x = "strip_change x"
  have sx: "sendable ?x" using Cons.prems by (simp add: sendable_strip)
  then obtain ob where ob: "forward_obj (c + 1) ?x = Inr (Obj ob)" "\<And>e. wants_backfill ?x \<noteq> Inl e" "sendable (Obj ob)"
    using sendable_forward by metis
  obtain b where b: "wants_backfill ?x = Inr b" using ob(2) by (cases "wants_backfill ?x") auto
  have live: "b \<longleftrightarrow> live_update (Obj ob)" and cnt: "fld ob ''cnt'' = Num (num (c + 1))"
    using b ob(1) by (auto simp: wants_backfill_def live_update_def forward_obj_def split: if_splits)
  have sz8: "8 \<le> json_size (Obj ob)" using ob(1) by (rule json_size_forward)
  show ?case
  proof (cases "MAX_LENGTH_JSON < json_size (Obj ob)")
    case True
    obtain fs q' p where "gather q c sz = (Inr (fs, filter live_update fs), q', c + int (length fs))"
      "q = p @ q'" "length fs \<le> length p" "numbers fs = count_up c (length fs)"
      "\<forall>x \<in> set fs. json_size x \<le> MAX_LENGTH_JSON \<and> sendable x \<and> 8 \<le> json_size x"
      "sz + sum_list (map json_size (butlast fs)) \<le> PACKET_SIZE_THRESHOLD"
      using Cons.IH[of sz c] Cons.prems by (auto simp del: gather.simps)
    then show ?thesis using True ob(1) by (intro exI[of _ fs] exI[of _ q'] conjI exI[of _ "x # p"]) auto
  next
    case small: False
    show ?thesis
    proof (cases "PACKET_SIZE_THRESHOLD < sz + json_size (Obj ob)")
      case True
      then show ?thesis using small ob b live cnt sz8 Cons.prems(2)
        by (intro exI[of _ "[Obj ob]"] exI[of _ q] conjI exI[of _ "[x]"]) (auto simp: Let_def)
    next
      case False
      obtain fs q' p where g: "gather q (c + 1) (sz + json_size (Obj ob)) = (Inr (fs, filter live_update fs), q', c + 1 + int (length fs))"
        "q = p @ q'" "length fs \<le> length p" "numbers fs = count_up (c + 1) (length fs)"
        "\<forall>x \<in> set fs. json_size x \<le> MAX_LENGTH_JSON \<and> sendable x \<and> 8 \<le> json_size x"
        "sz + json_size (Obj ob) + sum_list (map json_size (butlast fs)) \<le> PACKET_SIZE_THRESHOLD"
        using False Cons.IH[of "sz + json_size (Obj ob)" "c + 1"] Cons.prems(1) by (auto simp del: gather.simps)
      then show ?thesis using small ob b live cnt sz8 False Cons.prems(2)
        by (intro exI[of _ "Obj ob # fs"] exI[of _ q'] conjI exI[of _ "x # p"]) (auto simp: Let_def)
    qed
  qed
qed simp


section \<open>The sender in every reachable state\<close>

text \<open>The batches of objects behind the datagrams: what was sent, kept and counted.\<close>

definition fw_history :: "(string \<Rightarrow> string) \<Rightarrow> fwd \<Rightarrow> jsval list list \<Rightarrow> bool" where
  "fw_history deflate w batches \<longleftrightarrow>
     f_sent w = map (\<lambda>b. deflate (packet_text b)) batches \<and> pktCnt w = length batches \<and>
     numbers (concat batches) = count_up 0 (length (concat batches)) \<and> cntChg w = int (length (concat batches)) \<and>
     (\<forall>b \<in> set batches. (\<forall>x \<in> set b. json_size x \<le> MAX_LENGTH_JSON) \<and> js_length (packet_text b) \<le> 67877) \<and>
     (\<forall>b \<in> set (backfillQueue w). \<forall>x \<in> set b. sendable x \<and> live_update x \<and> x \<in> set (concat batches)) \<and>
     (\<forall>e. f_run w \<noteq> Failed e) \<and> (\<forall>k. f_run w = Sending k \<longrightarrow> k \<le> MAX_SEQUENCE_OF_UDPMSGS)"

definition fw_inv :: "(string \<Rightarrow> string) \<Rightarrow> fwd \<Rightarrow> jsval list list \<Rightarrow> bool" where
  "fw_inv deflate w batches \<longleftrightarrow> (\<forall>x \<in> set (chgQueue w). sendable x) \<and> fw_history deflate w batches"

text \<open>The batch a step adds, when it sends.\<close>

definition next_batch :: "fwd \<Rightarrow> jsval list \<Rightarrow> bool" where
  "next_batch w fs \<longleftrightarrow> (\<exists>bs q c. chgQueue w \<noteq> [] \<and> gather (chgQueue w) (cntChg w) 0 = (Inr (fs, bs), q, c))"

lemma fw_inv_init: "fw_inv deflate fw_init []"
  by (simp add: fw_inv_def fw_history_def fw_init_def)

lemma fw_inv_enqueue:
  "fw_inv deflate w bs \<Longrightarrow> \<forall>x \<in> set vs. sendable x \<Longrightarrow> fw_inv deflate (w\<lparr>chgQueue := chgQueue w @ vs\<rparr>) bs"
  by (auto simp: fw_inv_def fw_history_def)

lemma backfill_drain_part: "set (snd (backfill_drain now q)) \<subseteq> set q"
  by (induction q rule: backfill_drain.induct) (auto split: sum.splits prod.splits)

lemma fw_inv_backfill: "fw_inv deflate w bs \<Longrightarrow> fw_inv deflate (snd (backfillDequeue active hint now w)) bs"
  using backfill_drain_part[of now "backfillQueue w"]
  by (fastforce simp: fw_inv_def fw_history_def backfillDequeue_def split: sum.splits prod.splits)

lemma send_turn_sends:
  assumes "chgQueue w \<noteq> []" "gather (chgQueue w) (cntChg w) 0 = (Inr (fs, bs), q, c)"
  shows "send_turn deflate k w = w\<lparr>chgQueue := q, cntChg := c,
     backfillQueue := backfillQueue w @ (if bs = [] then [] else [bs]),
     f_sent := f_sent w @ [deflate (packet_text fs)], maxSz := max (length (deflate (packet_text fs))) (maxSz w), pktCnt := Suc (pktCnt w),
     f_run := (if MAX_SEQUENCE_OF_UDPMSGS \<le> k \<or> PACKET_SIZE_BREAK_SEQ < length (deflate (packet_text fs))
       then Waiting (long_pause (length (deflate (packet_text fs)))) else Sending (Suc k))\<rparr>"
  using assms by (simp add: send_turn_def q_isEmpty_def q_enqueue_def Let_def less_Suc_eq_le)

lemma fw_inv_send:
  assumes "fw_inv deflate w bs"
  shows "fw_inv deflate (send_turn deflate k w) bs \<or> (\<exists>fs. next_batch w fs \<and> fw_inv deflate (send_turn deflate k w) (bs @ [fs]))"
proof (cases "chgQueue w = []")
  case True
  then show ?thesis using assms by (auto simp: send_turn_def q_isEmpty_def fw_inv_def fw_history_def)
next
  case False
  have q: "\<forall>x \<in> set (chgQueue w). sendable x" and h: "fw_history deflate w bs" using assms by (auto simp: fw_inv_def)
  obtain fs q' p where g: "gather (chgQueue w) (cntChg w) 0 = (Inr (fs, filter live_update fs), q', cntChg w + int (length fs))"
    "chgQueue w = p @ q'" "numbers fs = count_up (cntChg w) (length fs)"
    "\<forall>x \<in> set fs. json_size x \<le> MAX_LENGTH_JSON \<and> sendable x \<and> 8 \<le> json_size x"
    "sum_list (map json_size (butlast fs)) \<le> PACKET_SIZE_THRESHOLD"
    using gather_sendable[OF q, of 0 "cntChg w"] by auto
  have len: "js_length (packet_text fs) \<le> 67877" using g(4,5) by (intro packet_bound) auto
  have "fw_history deflate (send_turn deflate k w) (bs @ [fs])"
    using h g(3,4) len unfolding fw_history_def send_turn_sends[OF False g(1)]
    by (simp add: count_up_add)
  moreover have "chgQueue (send_turn deflate k w) = q'" by (simp add: send_turn_sends[OF False g(1)])
  ultimately have "fw_inv deflate (send_turn deflate k w) (bs @ [fs])" using q g(2) by (simp add: fw_inv_def)
  then show ?thesis using False g(1) unfolding next_batch_def by blast
qed

lemma fw_inv_step:
  "fw_step deflate w w' \<Longrightarrow> fw_inv deflate w bs \<Longrightarrow> fw_inv deflate w' bs \<or> (\<exists>fs. next_batch w fs \<and> fw_inv deflate w' (bs @ [fs]))"
proof (induction rule: fw_step.induct)
  case (fw_change w active hint change)
  then show ?case using fw_inv_enqueue[of deflate w bs "[change]"]
    by (simp add: on_stream_change_def q_enqueue_def sendable_path del: opt_path_simps)
next
  case (fw_sync w d)
  then show ?case using fw_inv_enqueue[of deflate w bs "[sync_change (sync_trim d)]"]
    by (simp add: sync_doc_def Let_def q_enqueue_def sendable_sync)
next
  case (fw_replay row v w)
  then show ?case using fw_inv_enqueue[of deflate w bs "[v]"] sendable_replay by (simp add: q_enqueue_def)
next
  case (fw_timer w t)
  then show ?case by (auto simp: fw_inv_def fw_history_def)
next
  case (fw_lost w)
  then show ?case by (auto simp: fw_inv_def fw_history_def stream_lost_def)
qed (simp_all add: fw_inv_send fw_inv_backfill)

lemma fw_reaches_inv: "fw_reaches deflate w \<Longrightarrow> \<exists>bs. fw_inv deflate w bs"
proof (induction rule: rtranclp_induct)
  case base show ?case using fw_inv_init by blast
next
  case (step v w) then show ?case using fw_inv_step by blast
qed

section \<open>The sending loop ends\<close>

lemma send_loop_eq:
  "f_run (send_turn deflate k w) = Sending j \<Longrightarrow>
     send_loop deflate arr k w = send_loop deflate arr j ((send_turn deflate k w)\<lparr>chgQueue := chgQueue (send_turn deflate k w) @ arr k\<rparr>)"
  "(\<And>j. f_run (send_turn deflate k w) \<noteq> Sending j) \<Longrightarrow> send_loop deflate arr k w = send_turn deflate k w"
  by (subst send_loop.simps, simp add: Let_def split: sender.split)+

lemma send_loop_packets:
  "(\<forall>j. f_run (send_loop deflate arr k w) \<noteq> Sending j) \<and>
   pktCnt (send_loop deflate arr k w) \<le> pktCnt w + (MAX_SEQUENCE_OF_UDPMSGS - k) + 1"
proof (induction deflate arr k w rule: send_loop.induct)
  case (1 deflate arr k w)
  let ?w = "send_turn deflate k w"
  have one: "pktCnt ?w \<le> pktCnt w + 1" by (auto simp: send_turn_def Let_def split: sum.splits prod.splits)
  show ?case
  proof (cases "f_run ?w")
    case (Sending j)
    have j: "j = k + 1" "j \<le> MAX_SEQUENCE_OF_UDPMSGS" using send_turn_goes_on[OF Sending] by auto
    show ?thesis using 1[OF refl Sending] one j by (simp add: send_loop_eq(1)[OF Sending]) arith
  qed (use one in \<open>simp_all add: send_loop_eq(2)\<close>)
qed

definition quiet_run :: "(string \<Rightarrow> string) \<Rightarrow> fwd \<Rightarrow> fwd" where
  "quiet_run deflate w = dequeueChangesSend deflate (\<lambda>_. []) w"

lemma send_turn_shrinks:
  assumes "\<forall>x \<in> set (chgQueue w). sendable x"
  shows "(\<forall>x \<in> set (chgQueue (send_turn deflate k w)). sendable x) \<and>
     length (chgQueue (send_turn deflate k w)) \<le> length (chgQueue w) - 1"
proof (cases "chgQueue w = []")
  case False
  obtain fs q' p where g: "gather (chgQueue w) (cntChg w) 0 = (Inr (fs, filter live_update fs), q', cntChg w + int (length fs))"
    "chgQueue w = p @ q'" "p \<noteq> []"
    using gather_sendable[OF assms, of 0 "cntChg w"] False by auto
  then show ?thesis using assms by (cases p) (auto simp: send_turn_sends[OF False g(1)])
qed (simp add: send_turn_def q_isEmpty_def)

lemma send_loop_shrinks:
  "arr = (\<lambda>_. []) \<Longrightarrow> \<forall>x \<in> set (chgQueue w). sendable x \<Longrightarrow>
   (\<forall>x \<in> set (chgQueue (send_loop deflate arr k w)). sendable x) \<and>
   length (chgQueue (send_loop deflate arr k w)) \<le> length (chgQueue w) - 1"
proof (induction deflate arr k w rule: send_loop.induct)
  case (1 deflate arr k w)
  let ?w = "send_turn deflate k w"
  have one: "(\<forall>x \<in> set (chgQueue ?w). sendable x) \<and> length (chgQueue ?w) \<le> length (chgQueue w) - 1"
    using 1(3) by (rule send_turn_shrinks)
  show ?case
  proof (cases "f_run ?w")
    case (Sending j)
    show ?thesis using 1(1)[OF refl Sending 1(2)] one 1(2) by (auto simp: send_loop_eq(1)[OF Sending])
  qed (use one in \<open>simp_all add: send_loop_eq(2)\<close>)
qed

lemma quiet_runs_empty:
  "\<forall>x \<in> set (chgQueue w). sendable x \<Longrightarrow> length (chgQueue w) \<le> n \<Longrightarrow> chgQueue ((quiet_run deflate ^^ n) w) = []"
proof (induction n arbitrary: w)
  case (Suc n)
  have "(\<forall>x \<in> set (chgQueue (quiet_run deflate w)). sendable x) \<and> length (chgQueue (quiet_run deflate w)) \<le> length (chgQueue w) - 1"
    unfolding quiet_run_def dequeueChangesSend_def using Suc.prems(1) by (rule send_loop_shrinks[OF refl])
  then show ?case using Suc.IH[of "quiet_run deflate w"] Suc.prems(2) unfolding funpow_Suc_right comp_def by linarith
qed simp

section \<open>Replay\<close>

definition replayable :: "doc \<Rightarrow> jsval option" where
  "replayable row = (case replay_mark row of Some (Inr v) \<Rightarrow> Some v | _ \<Rightarrow> None)"

lemma replay_rows_ok:
  "\<forall>row \<in> set rows. \<forall>e. replay_mark row \<noteq> Some (Inl e) \<Longrightarrow>
   replay_rows rows = (Inr (), List.map_filter replayable rows)"
  by (induction rows) (auto simp: replayable_def List.map_filter_def split: option.splits sum.splits)

lemma map_filter_take_drop:
  "List.map_filter f (take n (drop k xs)) @ List.map_filter f (drop (k + length (take n (drop k xs))) xs) = List.map_filter f (drop k xs)"
proof -
  have "take n (drop k xs) @ drop (k + length (take n (drop k xs))) xs = drop k xs"
  proof (cases "n \<le> length xs - k")
    case True
    have "drop (k + n) xs = drop n (drop k xs)" by (simp add: add.commute)
    then show ?thesis using True by (simp del: drop_drop)
  qed simp
  then show ?thesis by (metis (no_types) List.map_filter_def filter_append map_append)
qed

lemma replay_loop_covers:
  assumes "\<forall>row \<in> set rows. \<forall>e. replay_mark row \<noteq> Some (Inl e)"
  shows "fst (replay_loop rows others skip w) = Inr () \<and> fst (snd (replay_loop rows others skip w)) =
     List.map_filter replayable (drop skip rows)"
  using assms
proof (induction rows others skip w rule: replay_loop.induct)
  case (1 rows others skip w)
  define docs where "docs = take (replay_limit w) (drop skip rows)"
  show ?case
  proof (cases "docs = []")
    case True
    then have "drop skip rows = []" by (auto simp: docs_def replay_limit_def BACKFILL_DOCS_PER_SEC_def)
    then show ?thesis by (subst (1 2) replay_loop.simps) (simp add: Let_def List.map_filter_def)
  next
    case False
    have ok: "\<forall>row \<in> set docs. \<forall>e. replay_mark row \<noteq> Some (Inl e)"
      using 1(2) by (auto simp: docs_def dest!: in_set_takeD in_set_dropD)
    let ?w = "w\<lparr>chgQueue := chgQueue w @ List.map_filter replayable docs\<rparr>"
    have step: "replay_loop rows others skip w = (case replay_loop rows others (skip + length docs) (others skip ?w) of
        (r', vs', w'') \<Rightarrow> (r', List.map_filter replayable docs @ vs', w''))"
      using False replay_rows_ok[OF ok] by (subst replay_loop.simps) (simp add: Let_def flip: docs_def)
    have "fst (replay_loop rows others (skip + length docs) (others skip ?w)) = Inr () \<and>
        fst (snd (replay_loop rows others (skip + length docs) (others skip ?w))) = List.map_filter replayable (drop (skip + length docs) rows)"
      using False replay_rows_ok[OF ok] 1(2)
      by (intro 1(1)[OF docs_def False replay_rows_ok[OF ok, symmetric] refl]) auto
    then show ?thesis using map_filter_take_drop[of replayable "replay_limit w" skip rows]
      unfolding step docs_def[symmetric]
      by (cases "replay_loop rows others (skip + length docs) (others skip ?w)") simp
  qed
qed

end
