(* ===== verification/Mongowr.thy ===== *)
theory Mongowr
  imports JSParse ProcQueue
begin

text \<open>
  The receiving side of the one way replication (\<open>mongowr/customized_module.js\<close>): datagrams are
  queued and, in runs of at most fifty, inflated, parsed and turned into one bulk write. Gaps in
  the numbers of the objects are counted as losses. The module state is the record \<open>rcv\<close>;
  \<open>inflate\<close> is \<open>zlib.inflateSync\<close> followed by the decoding of UTF-8, \<open>parse\<close> is \<open>Date.parse\<close>. A
  datagram is one turn of the loop, as the loop waits after each.
\<close>

section \<open>State\<close>

definition MAX_QUEUE :: nat where "MAX_QUEUE = 5000"
definition MAX_MSG_SEQ :: nat where "MAX_MSG_SEQ = 50"

text \<open>An \<open>updateOne\<close> with the filter \<open>{tag}\<close>: with \<open>upsert\<close> and \<open>$setOnInsert: {_id}\<close>, or plain.\<close>

datatype bulk_op = Upsert jsval doc jsnum | Update jsval doc

record counts =
  c_chg :: jsval
  c_lost :: jsnum
  c_ops :: "bulk_op list"

record rcv =
  msgQueue :: "string list"
  r_pktCnt :: nat
  r_cntChg :: jsval
  r_cntLost :: jsnum
  r_run :: "(nat \<times> bulk_op list) option"
  r_writes :: "bulk_op list list"

definition rcv_init :: rcv where
  "rcv_init = \<lparr>msgQueue = [], r_pktCnt = 0, r_cntChg = Num (num (- 1)), r_cntLost = Fin 0, r_run = None, r_writes = []\<rparr>"

section \<open>One object\<close>

text \<open>Dates arrive as texts.\<close>

definition revive :: "(string \<Rightarrow> jsnum) \<Rightarrow> string \<Rightarrow> doc \<Rightarrow> doc" where
  "revive parse k u = (if truthy (fld u k) then aupd k (Date (js_date parse (fld u k))) u else u)"

definition count_loss :: "jsval \<Rightarrow> counts \<Rightarrow> counts" where
  "count_loss n s = (let gap = to_number n - to_number (c_chg s) in
     s\<lparr>c_lost := (if num 1 < gap \<and> \<not> loose_eq (c_chg s) (Num (num (- 1))) then c_lost s + gap else c_lost s), c_chg := n\<rparr>)"

definition integrity_op :: "(string \<Rightarrow> jsnum) \<Rightarrow> jsval \<Rightarrow> doc \<Rightarrow> bulk_op" where
  "integrity_op parse tag u =
     (let u' = revive parse ''timeTagAlarm'' (revive parse ''timeTagAtSource'' (revive parse ''timeTag'' u))
      in Upsert tag (adel ''_id'' u') (to_number (fld u' ''_id'')))"

definition update_op :: "(string \<Rightarrow> jsnum) \<Rightarrow> jsval \<Rightarrow> doc \<Rightarrow> bulk_op" where
  "update_op parse tag u =
     Update tag (case fld u ''sourceDataUpdate'' of
       Obj s \<Rightarrow> aupd ''sourceDataUpdate'' (Obj (revive parse ''timeTagAtSource'' (revive parse ''timeTag'' s))) u | _ \<Rightarrow> u)"

definition updated_fields :: "doc \<Rightarrow> jsval" where
  "updated_fields d = opt_get (fld d ''updateDescription'') ''updatedFields''"

definition item_op :: "(string \<Rightarrow> jsnum) \<Rightarrow> doc \<Rightarrow> bulk_op option" where
  "item_op parse d =
     (case updated_fields d of
        Obj u \<Rightarrow>
          if strict_eq (fld d ''operationType'') (Str ''integrity'') \<and> truthy (fld u ''_id'') \<and> truthy (fld d ''tag'')
          then Some (integrity_op parse (fld d ''tag'') u)
          else if strict_eq (fld d ''operationType'') (Str ''update'') \<and> truthy (fld u ''sourceDataUpdate'')
          then Some (update_op parse (fld d ''tag'') u)
          else None
      | _ \<Rightarrow> None)"

text \<open>\<open>'cnt' in v\<close> throws on a value that is not an object; an array has none of the names.\<close>

definition take_item :: "(string \<Rightarrow> jsnum) \<Rightarrow> jsval \<Rightarrow> counts \<Rightarrow> (js_error + unit) \<times> counts" where
  "take_item parse v s = (case v of
       Obj d \<Rightarrow>
         if \<not> has_key ''cnt'' d \<or> \<not> has_key ''operationType'' d \<or> \<not> has_key ''updateDescription'' d then (Inr (), s)
         else (let s' = count_loss (fld d ''cnt'') s in
           (Inr (), s'\<lparr>c_ops := c_ops s' @ (case item_op parse d of None \<Rightarrow> [] | Some x \<Rightarrow> [x])\<rparr>))
     | Arr _ \<Rightarrow> (Inr (), s) | Date _ \<Rightarrow> (Inr (), s)
     | _ \<Rightarrow> (Inl TypeError, s))"

fun take_items :: "(string \<Rightarrow> jsnum) \<Rightarrow> jsval list \<Rightarrow> counts \<Rightarrow> (js_error + unit) \<times> counts" where
  "take_items parse [] s = (Inr (), s)"
| "take_items parse (v # vs) s = (case take_item parse v s of (Inl e, s') \<Rightarrow> (Inl e, s') | (Inr _, s') \<Rightarrow> take_items parse vs s')"

section \<open>One datagram\<close>

text \<open>The values the loop visits; the text of a datagram need not be an array.\<close>

definition visited :: "jsval \<Rightarrow> js_error + jsval list" where
  "visited v = js_elements v"

definition take_datagram :: "(string \<Rightarrow> js_error + string) \<Rightarrow> (string \<Rightarrow> jsnum) \<Rightarrow> string \<Rightarrow> counts \<Rightarrow> (js_error + unit) \<times> counts" where
  "take_datagram inflate parse msg s =
     (case inflate msg of Inl e \<Rightarrow> (Inl e, s)
      | Inr text \<Rightarrow> (case json_parse text of Inl e \<Rightarrow> (Inl e, s)
        | Inr v \<Rightarrow> (case visited v of Inl e \<Rightarrow> (Inl e, s) | Inr vs \<Rightarrow> take_items parse vs s)))"

section \<open>The loops\<close>

definition on_message :: "bool \<Rightarrow> bool \<Rightarrow> string \<Rightarrow> rcv \<Rightarrow> rcv" where
  "on_message active hint msg w =
     (if \<not> active \<or> \<not> hint then w else w\<lparr>msgQueue := q_enqueue msg (msgQueue w), r_pktCnt := r_pktCnt w + 1\<rparr>)"

definition proc_start :: "rcv \<Rightarrow> rcv" where
  "proc_start w = w\<lparr>msgQueue := (if MAX_QUEUE < length (msgQueue w) then [] else msgQueue w), r_run := Some (0, [])\<rparr>"

text \<open>A turn: the next datagram, whose errors are caught, or the end with the bulk write.\<close>

definition proc_turn :: "(string \<Rightarrow> js_error + string) \<Rightarrow> (string \<Rightarrow> jsnum) \<Rightarrow> nat \<Rightarrow> bulk_op list \<Rightarrow> rcv \<Rightarrow> rcv" where
  "proc_turn inflate parse cntPr ops w =
     (if q_isEmpty (msgQueue w) \<or> MAX_MSG_SEQ < cntPr + 1
      then w\<lparr>r_run := None, r_writes := (if ops \<noteq> [] then r_writes w @ [ops] else r_writes w)\<rparr>
      else (case take_datagram inflate parse (q_peek (msgQueue w)) \<lparr>c_chg = r_cntChg w, c_lost = r_cntLost w, c_ops = ops\<rparr> of
        (_, s) \<Rightarrow> w\<lparr>msgQueue := q_dequeue (msgQueue w), r_cntChg := c_chg s, r_cntLost := c_lost s, r_run := Some (cntPr + 1, c_ops s)\<rparr>))"

lemma proc_turn_goes_on:
  "r_run (proc_turn inflate parse k ops w) = Some (j, ops') \<Longrightarrow> j = k + 1 \<and> j \<le> MAX_MSG_SEQ"
  by (auto simp: proc_turn_def split: if_splits prod.splits)

text \<open>A whole run of \<open>procQueue\<close>; \<open>arr k\<close> are the datagrams that arrive after the turn \<open>k\<close>.\<close>

function proc_loop :: "(string \<Rightarrow> js_error + string) \<Rightarrow> (string \<Rightarrow> jsnum) \<Rightarrow> (nat \<Rightarrow> string list) \<Rightarrow> nat \<Rightarrow> bulk_op list \<Rightarrow> rcv \<Rightarrow> rcv" where
  "proc_loop inflate parse arr k ops w =
     (let w' = proc_turn inflate parse k ops w in
      case r_run w' of Some (j, ops') \<Rightarrow>
          proc_loop inflate parse arr j ops' (fold (on_message True True) (arr k) w')
        | None \<Rightarrow> w')"
  by pat_completeness auto
termination
  by (relation "measure (\<lambda>(inflate, parse, arr, k, ops, w). MAX_MSG_SEQ - k)") (simp, clarsimp, drule proc_turn_goes_on, simp)

declare proc_loop.simps [simp del]

definition procQueue :: "(string \<Rightarrow> js_error + string) \<Rightarrow> (string \<Rightarrow> jsnum) \<Rightarrow> (nat \<Rightarrow> string list) \<Rightarrow> rcv \<Rightarrow> rcv" where
  "procQueue inflate parse arr w = proc_loop inflate parse arr 0 [] (proc_start w)"

end
