(* ===== verification/Wire.thy ===== *)
theory Wire
  imports MongofwLaws Mongowr
begin

text \<open>
  What goes over the wire between the two replication modules: the objects of a batch print
  and parse back, and the receiver turns a datagram into the operations of its objects.
\<close>

section \<open>Objects on the wire\<close>

text \<open>Changes whose numbers print exactly, without repeated keys, and with a type of operation.\<close>

definition clean_change :: "jsval \<Rightarrow> bool" where
  "clean_change c \<longleftrightarrow> json_wf c \<and> opt_get c ''operationType'' \<noteq> Undef"

definition wire_ok :: "int \<Rightarrow> jsval \<Rightarrow> bool" where
  "wire_ok n x \<longleftrightarrow> json_wf x \<and> (\<exists>d. x = Obj d \<and> fld d ''cnt'' = Num (num n) \<and> fld d ''operationType'' \<noteq> Undef \<and> fld d upd_desc \<noteq> Undef)"

lemma json_wf_fld: "json_wf (Obj d) \<Longrightarrow> json_wf (fld d k)"
  by (auto simp: fld_def list_all_iff dest!: map_of_SomeD split: option.splits)

lemma json_wf_opt_get: "json_wf v \<Longrightarrow> json_wf (opt_get v k)"
  by (cases v) (simp_all add: json_wf_fld del: json_wf.simps(3))

lemma json_wf_opt_path: "json_wf v \<Longrightarrow> json_wf (opt_path v ks)"
  by (induction ks arbitrary: v) (simp_all add: json_wf_opt_get)

lemma list_all_adel: "list_all P d \<Longrightarrow> list_all P (adel k d)"
  by (simp add: adel_def list_all_iff)

lemma list_all_aupd: "list_all P d \<Longrightarrow> P (k, v) \<Longrightarrow> list_all P (aupd k v d)"
  by (induction d) auto

lemma distinct_adel: "distinct (map fst d) \<Longrightarrow> distinct (map fst (adel k d))"
  by (simp add: adel_def distinct_map_filter)

lemma json_wf_del_path: "json_wf v \<Longrightarrow> json_wf (del_path ks v)"
proof (induction ks v rule: del_path.induct)
  case (2 k l ks d)
  then show ?case using json_wf_fld[of d k] by (auto simp: distinct_aupd list_all_aupd)
qed (simp_all add: list_all_adel distinct_adel)

lemma json_wf_strip: "json_wf c \<Longrightarrow> json_wf (strip_change c)"
  by (simp add: strip_change_def strip_key_def strip_json_def Let_def json_wf_del_path)

lemma wire_ok_forward:
  assumes "clean_change c" "sendable c" "\<bar>n\<bar> \<le> 2 ^ 53" "forward_obj n (strip_change c) = Inr x"
  shows "wire_ok n x"
proof -
  note s = sendable_strip[OF assms(2)] strip_keeps_paths[of "''operationType''" c, simplified]
  have wf: "json_wf (strip_change c)" using assms(1) by (simp add: clean_change_def json_wf_strip)
  show ?thesis using assms(1,3,4) s wf
    by (auto simp: forward_obj_def wire_ok_def clean_change_def nullish_def sendable_def num_roundtrips_int json_wf_opt_get
        json_wf_fld simp del: json_wf.simps(3) simp add: json_wf.simps(3)[of "_ # _"] split: if_splits)
      (metis json_wf_fld)
qed

lemma gather_from:
  "gather q c sz = (Inr (fs, bs), q', c') \<Longrightarrow> i < length fs \<Longrightarrow>
   \<exists>y \<in> set q. forward_obj (c + 1 + int i) (strip_change y) = Inr (fs ! i)"
proof (induction q arbitrary: c sz fs bs i)
  case (Cons y q)
  let ?y = "strip_change y"
  obtain ob where ob: "forward_obj (c + 1) ?y = Inr ob" using Cons.prems(1) by (auto simp: Let_def split: sum.splits)
  show ?case
  proof (cases "MAX_LENGTH_JSON < json_size ob")
    case True
    then show ?thesis using Cons.IH[of c sz fs bs i] Cons.prems ob by (auto simp: Let_def)
  next
    case False
    then obtain b where b: "wants_backfill ?y = Inr b" using Cons.prems(1) ob by (auto simp: Let_def split: sum.splits)
    show ?thesis
    proof (cases "PACKET_SIZE_THRESHOLD < sz + json_size ob")
      case True
      then show ?thesis using False b ob Cons.prems by (auto simp: Let_def)
    next
      case small: False
      then obtain gs cs where g: "gather q (c + 1) (sz + json_size ob) = (Inr (gs, cs), q', c')" "fs = ob # gs"
        using False b ob Cons.prems(1) by (auto simp: Let_def split: sum.splits prod.splits)
      show ?thesis using Cons.IH[OF g(1), of "i - 1"] Cons.prems(2) g(2) ob by (cases i) (auto simp: algebra_simps)
    qed
  qed
qed simp


section \<open>The receiver on one datagram\<close>

text \<open>The operation the receiver makes of an object, and the number it has last seen after \<open>n\<close> of them.\<close>

definition op_of :: "(string \<Rightarrow> jsnum) \<Rightarrow> jsval \<Rightarrow> bulk_op list" where
  "op_of parse x = (case json_norm iso_of x of Obj d \<Rightarrow> (case item_op parse d of None \<Rightarrow> [] | Some y \<Rightarrow> [y]) | _ \<Rightarrow> [])"

definition seen :: "nat \<Rightarrow> jsval" where
  "seen n = Num (num (if n = 0 then - 1 else int n))"

lemma has_key_norm: "has_key k (map (\<lambda>p. (fst p, json_norm isof (snd p))) (filter (\<lambda>p. snd p \<noteq> Undef) d)) \<longleftrightarrow>
    (\<exists>v. (k, v) \<in> set d \<and> v \<noteq> Undef)"
  by (force simp: has_key_iff)

lemma fld_norm:
  assumes "distinct (map fst d)"
  shows "fld (map (\<lambda>p. (fst p, json_norm isof (snd p))) (filter (\<lambda>p. snd p \<noteq> Undef) d)) k
    = (if fld d k = Undef then Undef else json_norm isof (fld d k))"
  using assms
proof (induction d)
  case (Cons p d)
  have "fst p = k \<Longrightarrow> \<not> has_key k d" using Cons.prems by (auto simp: has_key_iff)
  then show ?case using Cons by (auto simp: fld_absent)
qed simp

lemma count_loss_next:
  assumes "int n < 2 ^ 53" "c_chg s = seen n"
  shows "count_loss (Num (num (int n + 1))) s = s\<lparr>c_chg := seen (n + 1)\<rparr>"
proof (cases "n = 0")
  case True
  then show ?thesis using assms by (simp add: count_loss_def seen_def loose_eq_def nullish_def to_prim_def num_def)
next
  case False
  have "num (int n + 1) - num (int n) = num 1" by (simp add: num_diff_int)
  then show ?thesis using assms False by (simp add: count_loss_def seen_def Let_def add.commute)
qed

lemma take_item_wire:
  assumes "wire_ok (int n + 1) x" "c_chg s = seen n" "int n < 2 ^ 53"
  shows "take_item parse (json_norm iso_of x) s = (Inr (), s\<lparr>c_chg := seen (n + 1), c_ops := c_ops s @ op_of parse x\<rparr>)"
proof -
  obtain d where d: "x = Obj d" "fld d ''cnt'' = Num (num (int n + 1))" "fld d ''operationType'' \<noteq> Undef" "fld d upd_desc \<noteq> Undef"
    and dist: "distinct (map fst d)"
    using assms(1) by (auto simp: wire_ok_def)
  let ?d = "map (\<lambda>p. (fst p, json_norm iso_of (snd p))) (filter (\<lambda>p. snd p \<noteq> Undef) d)"
  have norm: "json_norm iso_of x = Obj ?d" unfolding d(1) by (rule json_norm_Obj)
  have key: "fld d k \<noteq> Undef \<Longrightarrow> has_key k ?d" for k
    unfolding has_key_norm by (auto simp: fld_def dest: map_of_SomeD split: option.splits)
  have cnt: "fld ?d ''cnt'' = Num (num (int n + 1))" unfolding fld_norm[OF dist] d(2) by (simp add: num_def)
  have keys: "has_key ''cnt'' ?d" "has_key ''operationType'' ?d" "has_key ''updateDescription'' ?d"
    using key[of "''cnt''"] key[of "''operationType''"] key[of upd_desc] d by simp_all
  have ops: "op_of parse x = (case item_op parse ?d of None \<Rightarrow> [] | Some y \<Rightarrow> [y])" unfolding op_of_def norm by simp
  show ?thesis unfolding norm ops
    using keys count_loss_next[OF assms(3,2)] by (simp add: take_item_def cnt Let_def del: map_map)
qed

lemma take_items_wire:
  "\<forall>i < length b. wire_ok (int n + 1 + int i) (b ! i) \<Longrightarrow> c_chg s = seen n \<Longrightarrow> int (n + length b) \<le> 2 ^ 53 \<Longrightarrow>
   take_items parse (map (json_norm iso_of) b) s =
     (Inr (), s\<lparr>c_chg := seen (n + length b), c_ops := c_ops s @ concat (map (op_of parse) b)\<rparr>)"
proof (induction b arbitrary: n s)
  case (Cons x b)
  have x: "wire_ok (int n + 1) x" using Cons.prems(1) by force
  have r: "\<forall>i < length b. wire_ok (int (n + 1) + 1 + int i) (b ! i)"
    using Cons.prems(1) by (auto simp: algebra_simps dest: spec[of _ "Suc _"])
  show ?case using take_item_wire[OF x Cons.prems(2)] Cons.IH[OF r] Cons.prems(3) by simp
qed simp

lemma take_datagram_wire:
  assumes "\<And>t. inflate (deflate t) = Inr t"
    "\<forall>i < length b. wire_ok (int n + 1 + int i) (b ! i)" "c_chg s = seen n" "int (n + length b) \<le> 2 ^ 53"
  shows "take_datagram inflate parse (deflate (packet_text b)) s =
     (Inr (), s\<lparr>c_chg := seen (n + length b), c_ops := c_ops s @ concat (map (op_of parse) b)\<rparr>)"
proof -
  have "json_wf (Arr b)" using assms(2) by (auto simp: list_all_iff in_set_conv_nth wire_ok_def)
  then have "json_parse (packet_text b) = Inr (Arr (map (json_norm iso_of) b))"
    unfolding packet_text_def by (subst json_roundtrip) simp_all
  then show ?thesis using take_items_wire[OF assms(2-4)] by (simp add: take_datagram_def assms(1) visited_def js_elements_def)
qed

end
