(* ===== verification/DiodeLaws.thy ===== *)
theory DiodeLaws
  imports Wire
begin

text \<open>
  Sender and receiver together: the two replication modules joined by a channel that
  delivers the datagrams in order, as a transition system. What is written on the receiving
  side is what was sent, and no loss is counted. Also the ends of the loops, the counter of
  losses and what happens to replayed changes.
\<close>

section \<open>The two modules and a channel that loses nothing\<close>

text \<open>\<open>l_next\<close> datagrams have been delivered. The premises say what is assumed: the changes queued are
  clean, and the receiver is active and never finds more than \<open>MAX_QUEUE\<close> datagrams.\<close>

record link =
  l_fw :: fwd
  l_next :: nat
  l_rcv :: rcv

inductive link_step :: "(string \<Rightarrow> string) \<Rightarrow> (string \<Rightarrow> js_error + string) \<Rightarrow> (string \<Rightarrow> jsnum) \<Rightarrow> link \<Rightarrow> link \<Rightarrow> bool"
  for deflate inflate parse where
  link_send: "fw_step deflate (l_fw l) w \<Longrightarrow> \<forall>c \<in> set (chgQueue w). clean_change c \<Longrightarrow>
    link_step deflate inflate parse l (l\<lparr>l_fw := w\<rparr>)"
| link_deliver: "l_next l < length (f_sent (l_fw l)) \<Longrightarrow>
    link_step deflate inflate parse l (l\<lparr>l_next := l_next l + 1, l_rcv := on_message True True (f_sent (l_fw l) ! l_next l) (l_rcv l)\<rparr>)"
| link_start: "r_run (l_rcv l) = None \<Longrightarrow> length (msgQueue (l_rcv l)) \<le> MAX_QUEUE \<Longrightarrow>
    link_step deflate inflate parse l (l\<lparr>l_rcv := proc_start (l_rcv l)\<rparr>)"
| link_turn: "r_run (l_rcv l) = Some (k, ops) \<Longrightarrow>
    link_step deflate inflate parse l (l\<lparr>l_rcv := proc_turn inflate parse k ops (l_rcv l)\<rparr>)"

definition link_init :: link where
  "link_init = \<lparr>l_fw = fw_init, l_next = 0, l_rcv = rcv_init\<rparr>"

text \<open>A step of the sender adds at most one batch.\<close>

definition numbered_batches :: "jsval list list \<Rightarrow> bool" where
  "numbered_batches bs \<longleftrightarrow> (\<forall>i < length (concat bs). wire_ok (int i + 1) (concat bs ! i))"

lemma numbered_snoc:
  assumes "fw_inv deflate w bs" "\<forall>c \<in> set (chgQueue w). clean_change c" "numbered_batches bs" "next_batch w fs"
    "int (length (concat (bs @ [fs]))) \<le> 2 ^ 53"
  shows "numbered_batches (bs @ [fs])"
  unfolding numbered_batches_def
proof (intro allI impI)
  fix i assume i: "i < length (concat (bs @ [fs]))"
  let ?n = "length (concat bs)"
  show "wire_ok (int i + 1) (concat (bs @ [fs]) ! i)"
  proof (cases "i < ?n")
    case True
    then show ?thesis using assms(3) by (simp add: numbered_batches_def nth_append)
  next
    case False
    obtain qs q' c' where g: "gather (chgQueue w) (int ?n) 0 = (Inr (fs, qs), q', c')"
      using assms(1,4) by (auto simp: next_batch_def fw_inv_def fw_history_def)
    have lt: "i - ?n < length fs" using i False by (simp add: less_diff_conv2)
    obtain y where y: "y \<in> set (chgQueue w)" "forward_obj (int ?n + 1 + int (i - ?n)) (strip_change y) = Inr (fs ! (i - ?n))"
      using gather_from[OF g lt] by blast
    have e: "int ?n + 1 + int (i - ?n) = int i + 1" using False by simp
    have "wire_ok (int i + 1) (fs ! (i - ?n))"
      using y assms(1,2,5) i unfolding e by (intro wire_ok_forward[of y]) (auto simp: fw_inv_def)
    then show ?thesis using False by (simp add: nth_append)
  qed
qed

definition written :: "rcv \<Rightarrow> bulk_op list" where
  "written r = concat (r_writes r) @ (case r_run r of None \<Rightarrow> [] | Some (k, ops) \<Rightarrow> ops)"

definition link_inv :: "(string \<Rightarrow> string) \<Rightarrow> (string \<Rightarrow> jsnum) \<Rightarrow> link \<Rightarrow> jsval list list \<Rightarrow> nat \<Rightarrow> bool" where
  "link_inv deflate parse l bs j \<longleftrightarrow>
     fw_inv deflate (l_fw l) bs \<and> (\<forall>c \<in> set (chgQueue (l_fw l)). clean_change c) \<and> j \<le> l_next l \<and> l_next l \<le> length bs \<and>
     msgQueue (l_rcv l) = map (\<lambda>b. deflate (packet_text b)) (drop j (take (l_next l) bs)) \<and>
     (cntChg (l_fw l) \<le> 2 ^ 53 \<longrightarrow> numbered_batches bs \<and> r_cntLost (l_rcv l) = Fin 0 \<and>
        r_cntChg (l_rcv l) = seen (length (concat (take j bs))) \<and> written (l_rcv l) = concat (map (op_of parse) (concat (take j bs))))"

lemma fw_inv_count: "fw_inv deflate w bs \<Longrightarrow> cntChg w = int (length (concat bs))"
  by (simp add: fw_inv_def fw_history_def)

lemma link_inv_init: "link_inv deflate parse link_init [] 0"
  using fw_inv_init[of deflate]
  by (simp add: link_inv_def link_init_def rcv_init_def written_def seen_def numbered_batches_def) (simp add: fw_init_def)

lemma link_inv_send:
  assumes "link_inv deflate parse l bs j" "fw_step deflate (l_fw l) w" "\<forall>c \<in> set (chgQueue w). clean_change c"
  shows "\<exists>bs'. link_inv deflate parse (l\<lparr>l_fw := w\<rparr>) bs' j"
proof -
  have inv: "fw_inv deflate (l_fw l) bs" using assms(1) by (simp add: link_inv_def)
  consider "fw_inv deflate w bs" | fs where "next_batch (l_fw l) fs" "fw_inv deflate w (bs @ [fs])"
    using fw_inv_step[OF assms(2) inv] by blast
  then show ?thesis
  proof cases
    case 1
    then have "link_inv deflate parse (l\<lparr>l_fw := w\<rparr>) bs j"
      using assms(1,3) fw_inv_count[OF inv] fw_inv_count[OF 1] by (simp add: link_inv_def)
    then show ?thesis by blast
  next
    case 2
    have "numbered_batches (bs @ [fs])" if "cntChg w \<le> 2 ^ 53"
      using assms(1) fw_inv_count[OF inv] fw_inv_count[OF 2(2)] that
      by (intro numbered_snoc[OF inv _ _ 2(1)]) (auto simp: link_inv_def)
    then have "link_inv deflate parse (l\<lparr>l_fw := w\<rparr>) (bs @ [fs]) j"
      using assms(1,3) 2(2) fw_inv_count[OF inv] fw_inv_count[OF 2(2)] by (auto simp: link_inv_def)
    then show ?thesis by blast
  qed
qed

lemma link_inv_deliver:
  assumes "link_inv deflate parse l bs j" "l_next l < length (f_sent (l_fw l))"
  shows "link_inv deflate parse (l\<lparr>l_next := l_next l + 1, l_rcv := on_message True True (f_sent (l_fw l) ! l_next l) (l_rcv l)\<rparr>) bs j"
proof -
  have sent: "f_sent (l_fw l) = map (\<lambda>b. deflate (packet_text b)) bs" using assms(1) by (simp add: link_inv_def fw_inv_def fw_history_def)
  have n: "l_next l < length bs" using assms(2) by (simp add: sent)
  have "drop j (take (l_next l + 1) bs) = drop j (take (l_next l) bs) @ [bs ! l_next l]"
    using n assms(1) by (simp add: take_Suc_conv_app_nth link_inv_def)
  then show ?thesis using assms(1) n
    by (simp add: link_inv_def on_message_def q_enqueue_def written_def sent)
qed

lemma link_inv_turn:
  assumes "link_inv deflate parse l bs j" "r_run (l_rcv l) = Some (k, ops)" "\<And>t. inflate (deflate t) = Inr t"
  shows "\<exists>j'. link_inv deflate parse (l\<lparr>l_rcv := proc_turn inflate parse k ops (l_rcv l)\<rparr>) bs j'"
proof (cases "q_isEmpty (msgQueue (l_rcv l)) \<or> MAX_MSG_SEQ < k + 1")
  case True
  then have "link_inv deflate parse (l\<lparr>l_rcv := proc_turn inflate parse k ops (l_rcv l)\<rparr>) bs j"
    using assms(1,2) by (auto simp: link_inv_def proc_turn_def written_def)
  then show ?thesis by blast
next
  case False
  let ?r = "l_rcv l"
  have inv: "fw_inv deflate (l_fw l) bs" using assms(1) by (simp add: link_inv_def)
  have q: "msgQueue ?r = map (\<lambda>b. deflate (packet_text b)) (drop j (take (l_next l) bs))" and b: "j \<le> l_next l" "l_next l \<le> length bs"
    using assms(1) by (simp_all add: link_inv_def)
  have j: "j < l_next l" using False q by (auto simp: q_isEmpty_def)
  have dj: "drop j (take (l_next l) bs) = bs ! j # drop (Suc j) (take (l_next l) bs)"
    using j b Cons_nth_drop_Suc[of j "take (l_next l) bs", symmetric] by (simp only: nth_take length_take min_def) simp
  let ?b = "bs ! j" and ?n = "length (concat (take j bs))"
  let ?s = "\<lparr>c_chg = r_cntChg ?r, c_lost = r_cntLost ?r, c_ops = ops\<rparr>"
  have tk: "take (Suc j) bs = take j bs @ [?b]" using j b by (simp add: take_Suc_conv_app_nth)
  have ops: "ops = (case r_run ?r of None \<Rightarrow> [] | Some (k, ops) \<Rightarrow> ops)" by (simp add: assms(2))
  have turn: "proc_turn inflate parse k ops ?r = (case take_datagram inflate parse (deflate (packet_text ?b)) ?s of
      (_, s) \<Rightarrow> ?r\<lparr>msgQueue := q_dequeue (msgQueue ?r), r_cntChg := c_chg s, r_cntLost := c_lost s, r_run := Some (k + 1, c_ops s)\<rparr>)"
    using False q by (simp add: proc_turn_def q_peek_def dj)
  have "link_inv deflate parse (l\<lparr>l_rcv := proc_turn inflate parse k ops ?r\<rparr>) bs (Suc j)"
  proof (cases "cntChg (l_fw l) \<le> 2 ^ 53")
    case True
    have st: "numbered_batches bs" "r_cntLost ?r = Fin 0" "r_cntChg ?r = seen ?n"
      "concat (r_writes ?r) @ ops = concat (map (op_of parse) (concat (take j bs)))"
      using assms(1,2) True by (simp_all add: link_inv_def written_def)
    have len: "length (concat (take (Suc j) bs)) \<le> length (concat bs)"
      by (metis append_take_drop_id concat_append length_append le_add1)
    have cat: "concat bs = concat (take j bs) @ ?b @ concat (drop (Suc j) bs)"
      using j b by (metis Cons_nth_drop_Suc append_take_drop_id concat.simps(2) concat_append order_less_le_trans)
    have wire: "\<forall>i < length ?b. wire_ok (int ?n + 1 + int i) (?b ! i)"
    proof (intro allI impI)
      fix i assume "i < length ?b"
      then have "wire_ok (int (?n + i) + 1) (concat bs ! (?n + i))"
        using st(1) unfolding numbered_batches_def by (metis add_less_cancel_left cat length_append trans_less_add1)
      moreover have "concat bs ! (?n + i) = ?b ! i" using \<open>i < length ?b\<close> by (subst cat) (simp add: nth_append)
      ultimately show "wire_ok (int ?n + 1 + int i) (?b ! i)" by (simp add: algebra_simps)
    qed
    have "int (?n + length ?b) \<le> 2 ^ 53" using True fw_inv_count[OF inv] len by (simp add: tk)
    then have "take_datagram inflate parse (deflate (packet_text ?b)) ?s =
        (Inr (), ?s\<lparr>c_chg := seen (?n + length ?b), c_ops := c_ops ?s @ concat (map (op_of parse) ?b)\<rparr>)"
      using st by (intro take_datagram_wire assms(3) wire) simp_all
    then show ?thesis using st assms(1) j b q True by (simp add: link_inv_def turn tk written_def dj q_dequeue_def)
  next
    case big: False
    then show ?thesis using assms(1) j b q by (simp add: link_inv_def turn dj q_dequeue_def split: prod.splits)
  qed
  then show ?thesis by blast
qed

lemma link_reaches_inv:
  assumes "(link_step deflate inflate parse)\<^sup>*\<^sup>* link_init l" "\<And>t. inflate (deflate t) = Inr t"
  shows "\<exists>bs j. link_inv deflate parse l bs j"
  using assms(1)
proof (induction rule: rtranclp_induct)
  case base show ?case using link_inv_init by blast
next
  case (step l l')
  then obtain bs j where inv: "link_inv deflate parse l bs j" by blast
  from step(2) show ?case
  proof cases
    case (link_send w) then show ?thesis using link_inv_send[OF inv] by blast
  next
    case link_deliver then show ?thesis using link_inv_deliver[OF inv] by blast
  next
    case link_start
    then have "link_inv deflate parse l' bs j" using inv by (simp add: link_inv_def proc_start_def written_def)
    then show ?thesis by blast
  next
    case (link_turn k ops) then show ?thesis using link_inv_turn[OF inv _ assms(2)] by blast
  qed
qed

section \<open>The receiving loop ends\<close>

lemma proc_loop_eq:
  "r_run (proc_turn inflate parse k ops w) = Some (j, ops') \<Longrightarrow> proc_loop inflate parse arr k ops w =
     proc_loop inflate parse arr j ops' (fold (on_message True True) (arr k) (proc_turn inflate parse k ops w))"
  "r_run (proc_turn inflate parse k ops w) = None \<Longrightarrow> proc_loop inflate parse arr k ops w = proc_turn inflate parse k ops w"
  by (subst proc_loop.simps, simp add: Let_def)+

lemma proc_loop_idle: "r_run (proc_loop inflate parse arr k ops w) = None"
proof (induction inflate parse arr k ops w rule: proc_loop.induct)
  case (1 inflate parse arr k ops w)
  show ?case
  proof (cases "r_run (proc_turn inflate parse k ops w)")
    case (Some a)
    then show ?thesis using 1[OF refl Some, of "fst a" "snd a"] by (cases a) (simp add: proc_loop_eq(1))
  qed (simp add: proc_loop_eq(2))
qed

lemma proc_turn_queue:
  "msgQueue (proc_turn inflate parse k ops w) = (if k < MAX_MSG_SEQ then drop 1 (msgQueue w) else msgQueue w)"
  by (auto simp: proc_turn_def queue_defs drop_Suc split: prod.splits)

lemma proc_loop_quiet:
  "arr = (\<lambda>_. []) \<Longrightarrow> k \<le> MAX_MSG_SEQ \<Longrightarrow>
   msgQueue (proc_loop inflate parse arr k ops w) = drop (MAX_MSG_SEQ - k) (msgQueue w)"
proof (induction inflate parse arr k ops w rule: proc_loop.induct)
  case (1 inflate parse arr k ops w)
  let ?w = "proc_turn inflate parse k ops w"
  show ?case
  proof (cases "r_run ?w")
    case None
    then have "msgQueue w = [] \<or> k = MAX_MSG_SEQ" using 1(3)
      by (auto simp: proc_turn_def q_isEmpty_def split: if_splits prod.splits)
    then show ?thesis using None proc_turn_queue[of inflate parse k ops w] by (auto simp: proc_loop_eq(2))
  next
    case (Some a)
    obtain j ops' where a: "a = (j, ops')" by (cases a)
    have j: "j = k + 1" "j \<le> MAX_MSG_SEQ" using proc_turn_goes_on Some a by blast+
    have "msgQueue (proc_loop inflate parse arr j ops' ?w) = drop (MAX_MSG_SEQ - j) (msgQueue ?w)"
      using 1(1)[OF refl Some a[symmetric] 1(2) j(2)] 1(2) by simp
    then show ?thesis using j 1(2) by (simp add: proc_loop_eq(1)[OF Some[unfolded a]] proc_turn_queue Suc_diff_Suc)
  qed
qed

section \<open>Properties\<close>


definition demo_live :: jsval where
  "demo_live = Obj [(''operationType'', Str ''update''), (''fullDocument'', Obj [(''tag'', Str ''TAG'')]),
     (upd_desc, Obj [(upd_fields, Obj [(sdu, Obj [(''valueAtSource'', Num (num 7))])])])]"

text \<open>A change is queued, sent and delivered.\<close>

definition demo_queued :: fwd where
  "demo_queued = on_stream_change True True demo_live fw_init"

definition demo_link :: link where
  "demo_link = \<lparr>l_fw = send_turn (\<lambda>t. t) 0 demo_queued, l_next = 1,
     l_rcv = on_message True True (f_sent (send_turn (\<lambda>t. t) 0 demo_queued) ! 0) rcv_init\<rparr>"

lemma demo_live_ok: "sendable demo_live" "clean_change demo_live"
  using num_roundtrips_int[of 7]
  by (simp_all add: demo_live_def sendable_def clean_change_def)

lemma demo_queued_eq: "demo_queued = fw_init\<lparr>chgQueue := [demo_live]\<rparr>"
  by (simp add: demo_queued_def on_stream_change_def demo_live_def q_enqueue_def fw_init_def)

lemma demo_sent:
  "chgQueue (send_turn (\<lambda>t. t) 0 demo_queued) = []" "length (f_sent (send_turn (\<lambda>t. t) 0 demo_queued)) = 1"
  "cntChg (send_turn (\<lambda>t. t) 0 demo_queued) \<le> 1"
proof -
  have w: "chgQueue demo_queued = [demo_live]" "cntChg demo_queued = 0" "f_sent demo_queued = []"
    by (simp_all add: demo_queued_eq fw_init_def)
  have q: "\<forall>x \<in> set (chgQueue demo_queued). sendable x" "chgQueue demo_queued \<noteq> []" by (simp_all add: w demo_live_ok)
  obtain fs q' p where g: "gather (chgQueue demo_queued) (cntChg demo_queued) 0 =
      (Inr (fs, filter live_update fs), q', cntChg demo_queued + int (length fs))"
    "chgQueue demo_queued = p @ q'" "p \<noteq> []" "length fs \<le> length p"
    using gather_sendable[OF q(1), of 0 "cntChg demo_queued"] q(2) by auto
  have p: "p = [demo_live]" "q' = []" using g(2,3) w(1) by (auto simp: Cons_eq_append_conv)
  show "chgQueue (send_turn (\<lambda>t. t) 0 demo_queued) = []" "length (f_sent (send_turn (\<lambda>t. t) 0 demo_queued)) = 1"
    "cntChg (send_turn (\<lambda>t. t) 0 demo_queued) \<le> 1"
    using p g(4) w(2,3) unfolding send_turn_sends[OF q(2) g(1)] by simp_all
qed

lemma demo_fw_steps: "fw_step deflate fw_init demo_queued" "fw_step deflate demo_queued (send_turn deflate 0 demo_queued)"
proof -
  show "fw_step deflate fw_init demo_queued" unfolding demo_queued_def by (rule fw_change)
  show "fw_step deflate demo_queued (send_turn deflate 0 demo_queued)" by (rule fw_send) (simp add: demo_queued_eq fw_init_def)
qed

lemma demo_link_reachable: "(link_step (\<lambda>t. t) Inr parse)\<^sup>*\<^sup>* link_init demo_link"
proof -
  let ?step = "link_step (\<lambda>t. t) Inr parse" and ?w = "send_turn (\<lambda>t. t) 0 demo_queued"
  have "?step link_init (link_init\<lparr>l_fw := demo_queued\<rparr>)"
    using demo_fw_steps(1)[of "\<lambda>t. t"] demo_live_ok(2) by (intro link_send) (simp_all add: link_init_def demo_queued_eq)
  moreover have "?step (link_init\<lparr>l_fw := demo_queued\<rparr>) (link_init\<lparr>l_fw := ?w\<rparr>)"
    using link_send[of "\<lambda>t. t" "link_init\<lparr>l_fw := demo_queued\<rparr>" ?w Inr parse] demo_fw_steps(2) demo_sent(1) by simp
  moreover have "?step (link_init\<lparr>l_fw := ?w\<rparr>) demo_link"
    using link_deliver[of "link_init\<lparr>l_fw := ?w\<rparr>" "\<lambda>t. t" Inr parse] demo_sent(2) by (simp add: link_init_def demo_link_def)
  ultimately show ?thesis by (meson r_into_rtranclp rtranclp_trans)
qed



text \<open>Everything the sender hands over is numbered and bounded: in every reachable state the
  datagrams are compressed batches whose objects carry the numbers 1, 2, 3 and so on up to the
  counter; no object is larger than 60000 units of JSON and no batch larger than 67877. The
  sender never fails, and only live updates that were sent wait to be kept for replay.\<close>

theorem datagrams_numbered_and_bounded:
  assumes "fw_reaches deflate w"
  shows "\<exists>bs. f_sent w = map (\<lambda>b. deflate (packet_text b)) bs \<and> pktCnt w = length bs \<and>
     numbers (concat bs) = count_up 0 (nat (cntChg w)) \<and>
     (\<forall>b \<in> set bs. js_length (packet_text b) \<le> 67877 \<and> (\<forall>x \<in> set b. json_size x \<le> MAX_LENGTH_JSON)) \<and>
     (\<forall>b \<in> set (backfillQueue w). \<forall>x \<in> set b. live_update x \<and> x \<in> set (concat bs)) \<and> (\<forall>e. f_run w \<noteq> Failed e)"
proof -
  obtain bs where "fw_inv deflate w bs" using fw_reaches_inv[OF assms] by blast
  then show ?thesis by (intro exI[of _ bs]) (simp add: fw_inv_def fw_history_def)
qed

lemma datagrams_numbered_and_bounded_witness:
  "\<forall>e. f_run (send_turn (\<lambda>t. t) 0 demo_queued) \<noteq> Failed e"
proof -
  have "fw_reaches (\<lambda>t. t) (send_turn (\<lambda>t. t) 0 demo_queued)"
    using demo_fw_steps by (meson r_into_rtranclp rtranclp_trans)
  from datagrams_numbered_and_bounded[OF this] show ?thesis by blast
qed



lemma replayable_is_marked:
  assumes "truthy (opt_path (fld row ''data'') sdu_path) \<Longrightarrow> \<exists>s. opt_path (fld row ''data'') sdu_path = Obj s"
  shows "replay_mark row \<noteq> Some (Inl e)" "replayable row = Some v \<Longrightarrow> \<not> live_update v"
proof -
  show "replay_mark row \<noteq> Some (Inl e)" using assms by (auto simp: replay_mark_def Let_def)
  assume r: "replayable row = Some v"
  let ?d = "fld row ''data''"
  have t: "truthy (opt_path ?d sdu_path)" and v: "v = set_path (sdu_path @ [''isHistorical'']) (Bool True) ?d"
    using r by (auto simp: replayable_def replay_mark_def Let_def split: if_splits)
  obtain d e u where du: "?d = Obj d" "fld d upd_desc = Obj e" "fld e upd_fields = Obj u"
    using sendable_path[OF t] by (auto simp: sendable_def)
  then obtain s where s: "fld u sdu = Obj s" using assms t by auto
  have "opt_path v (sdu_path @ [''isHistorical'']) = Bool True" by (simp add: v du s fld_has_key)
  then show "\<not> live_update v" unfolding live_update_def by simp
qed


definition demo_row :: doc where
  "demo_row = [(''data'', demo_live)]"


text \<open>Replayed changes lose their tag: what is stored of a change for replay carries its tag beside the
  data, but the object sent for a replayed change takes the tag from the full document, which the
  stored object does not have. The receiver then updates the document whose tag is undefined: no
  replayed value reaches its point.\<close>

theorem replay_loses_the_tag:
  assumes "forward_obj n c = Inr x" "backfill_row now x = Inr row" "replay_mark row = Some (Inr v)" "forward_obj m (strip_change v) = Inr y"
  shows "opt_get x ''tag'' = opt_path c [''fullDocument'', ''tag''] \<and> fld row ''metadata'' = Obj [(''tag'', opt_get x ''tag'')] \<and>
     opt_get y ''tag'' = Undef \<and> (\<forall>z \<in> set (op_of parse y). \<exists>u. z = Update Undef u)"
proof -
  obtain d where x: "x = Obj d" "has_key l d \<Longrightarrow> l \<in> {''cnt'', ''tag'', ''operationType'', ''documentKey'', upd_desc}"
      "fld d ''tag'' = opt_path c [''fullDocument'', ''tag'']" for l
    using assms(1) by (force simp: forward_obj_def split: if_splits)
  have row: "fld row ''data'' = x" "fld row ''metadata'' = Obj [(''tag'', opt_get x ''tag'')]"
    using assms(2) by (auto simp: backfill_row_def split: if_splits)
  have v: "v = set_path (sdu_path @ [''isHistorical'']) (Bool True) x"
    using assms(3) row by (auto simp: replay_mark_def Let_def split: if_splits)
  have "opt_get v ''fullDocument'' = Undef"
    using x(2)[of "''fullDocument''"] fld_absent[of "''fullDocument''" d] by (auto simp: v x(1))
  then have fd: "opt_path (strip_change v) [''fullDocument'', ''tag''] = Undef"
    using strip_keeps_paths[of "''fullDocument''" v] by simp
  obtain e where y: "y = Obj e" "fld e ''tag'' = Undef" "distinct (map fst e)"
    using assms(4) fd by (auto simp: forward_obj_def split: if_splits)
  let ?e = "map (\<lambda>p. (fst p, json_norm iso_of (snd p))) (filter (\<lambda>p. snd p \<noteq> Undef) e)"
  have "fld ?e ''tag'' = Undef" using fld_norm[OF y(3)] y(2) by simp
  then have "item_op parse ?e = Some z \<Longrightarrow> \<exists>u. z = Update Undef u" for z
    by (auto simp: item_op_def update_op_def split: jsval.splits if_splits)
  moreover have "json_norm iso_of y = Obj ?e" unfolding y(1) by (rule json_norm_Obj)
  ultimately show ?thesis using x(1,3) row y by (auto simp: op_of_def simp del: json_norm.simps split: option.splits)
qed

lemma replay_loses_the_tag_witness:
  "\<exists>x row v y. forward_obj 1 demo_live = Inr x \<and> backfill_row (num 0) x = Inr row \<and> replay_mark row = Some (Inr v) \<and>
     forward_obj 2 (strip_change v) = Inr y \<and> opt_get x ''tag'' = Str ''TAG'' \<and> opt_get y ''tag'' = Undef"
proof -
  obtain x where x: "forward_obj 1 demo_live = Inr x" "opt_path x sdu_path = Obj [(''valueAtSource'', Num (num 7))]" "sendable x"
    by (auto simp: forward_obj_def demo_live_def nullish_def sendable_def)
  then obtain row where row: "backfill_row (num 0) x = Inr row" "fld row ''data'' = x"
    by (auto simp: backfill_row_def nullish_def sendable_def)
  obtain v where v: "replay_mark row = Some (Inr v)" using row(2) x(2) by (simp add: replay_mark_def)
  obtain y where y: "forward_obj 2 (strip_change v) = Inr y"
    using sendable_forward[OF sendable_strip[OF sendable_replay[OF v]]] by metis
  show ?thesis using replay_loses_the_tag[OF x(1) row(1) v y, of "\<lambda>_. NaN"] x(1) row(1) v y by (auto simp: demo_live_def)
qed

text \<open>The counter of losses is wrong in both directions. After a gap it grows by one more than the
  objects that are missing; and after an object that only came late it grows although none is missing,
  because the number last seen goes back with the late one.\<close>

theorem losses_are_miscounted:
  assumes "c_chg s = Num (num p)" "c_lost s = num k" "0 \<le> k" "0 \<le> m" "m < p" "p + 1 < n" "k + n \<le> 2 ^ 53"
  shows "c_lost (count_loss (Num (num n)) s) = num (k + (n - p - 1) + 1) \<and>
     c_lost (count_loss (Num (num (p + 1))) (count_loss (Num (num m)) s)) = num (k + (p + 1 - m))"
proof -
  have jump: "c_lost (count_loss (Num (num b)) t) = num (k + (b - a))"
    if "c_chg t = Num (num a)" "c_lost t = num k" "0 \<le> a" "a + 1 < b" "b \<le> n" for t a b
  proof -
    have "num b - num a = num (b - a)" "num k + num (b - a) = num (k + (b - a))"
      using that assms(3,7) by (intro num_diff_int num_add_int; simp)+
    then show ?thesis using that by (simp add: count_loss_def Let_def loose_eq_def nullish_def to_prim_def num_eq_iff)
  qed
  have "num m - num p = num (m - p)" using assms by (intro num_diff_int) simp
  then have late: "count_loss (Num (num m)) s = s\<lparr>c_chg := Num (num m)\<rparr>"
    using assms by (simp add: count_loss_def Let_def)
  show ?thesis using jump[of s p n] jump[of "s\<lparr>c_chg := Num (num m)\<rparr>" m "p + 1"] assms by (simp add: late)
qed

lemma losses_are_miscounted_witness:
  "c_lost (count_loss (Num (num 5)) \<lparr>c_chg = Num (num 3), c_lost = num 0, c_ops = []\<rparr>) = num 2"
  using losses_are_miscounted[of "\<lparr>c_chg = Num (num 3), c_lost = num 0, c_ops = []\<rparr>" 3 0 2 5] by simp

end
