(* ===== verification/Projects.thy ===== *)
theory Projects
  imports Admin
begin

text \<open>
  The handlers of \<open>auth.controller.js\<close> that touch files and run the maintenance scripts:
  displays, export and import of a project, restart of the processes. Paths are POSIX
  (\<open>node:path\<close> of the Linux installation); a resolved path is its list of segments. What the
  file system, the archive library and the operating system answer are fields of
  \<open>plat_env\<close>; every call that touches a file or starts a script is an effect of the world
  (\<open>fx\<close>), \<open>runningScripts\<close> is \<open>scriptsInProgress\<close>.
\<close>

section \<open>Paths\<close>

definition abs_path :: "string \<Rightarrow> string list" where
  "abs_path p = norm_segs [] (split_char (CHR ''/'') p)"

text \<open>\<open>path.resolve(base, p)\<close> for a resolved base.\<close>

definition resolve :: "string list \<Rightarrow> string \<Rightarrow> string list" where
  "resolve base p = (if starts_with ''/'' p then abs_path p else norm_segs (rev base) (split_char (CHR ''/'') p))"

definition path_text :: "string list \<Rightarrow> string" where
  "path_text segs = (if segs = [] then ''/'' else concat (map (\<lambda>s. CHR ''/'' # s) segs))"

text \<open>\<open>path.basename\<close>: the last segment, trailing separators aside.\<close>

definition base_name :: "string \<Rightarrow> string" where
  "base_name p = (case dropWhile (\<lambda>s. s = []) (rev (split_char (CHR ''/'') p)) of [] \<Rightarrow> [] | s # _ \<Rightarrow> s)"

text \<open>\<open>path.extname(f).toLowerCase() === '.svg'\<close>: the last dot that does not start the last segment.\<close>

definition ext_name :: "string \<Rightarrow> string" where
  "ext_name p = (let b = base_name p; e = takeWhile (\<lambda>c. c \<noteq> CHR ''.'') (rev b) in
     if length e + 1 < length b \<and> b \<noteq> ''..'' then CHR ''.'' # rev e else [])"

section \<open>World\<close>

datatype fs_effect =
    ReadFile string | WriteFile string jsval
  | MakeDir string | MoveUpload string | Extract string "string list" | Download string
  | Spawn string "string list"

record 's plat_world = "'s world" +
  runningScripts :: "string list"
  fx :: "fs_effect list"

record upload =
  up_truncated :: bool
  up_size :: nat

record 's plat_env = "'s env" +
  p_windows :: bool
  p_comspec :: string
  p_root :: "string list"
  p_svg :: "string list"
  p_dir :: "js_error + string list"
  p_read :: "string \<Rightarrow> js_error + jsval"
  p_write :: "string \<Rightarrow> jsval \<Rightarrow> js_error + unit"
  p_isFile :: "string \<Rightarrow> bool"
  p_exists :: "string \<Rightarrow> bool"
  p_mkdir :: "string \<Rightarrow> js_error + unit"
  p_move :: "string \<Rightarrow> js_error + unit"
  p_entries :: "string \<Rightarrow> js_error + string list"
  p_extract :: "string \<Rightarrow> js_error + unit"
  p_spawn :: "string \<Rightarrow> string list \<Rightarrow> js_error + unit"

definition emit :: "fs_effect \<Rightarrow> 's plat_world \<Rightarrow> (js_error + unit) \<times> 's plat_world" where
  "emit f w = (Inr (), w\<lparr>fx := fx w @ [f]\<rparr>)"

text \<open>A call with an effect, which may reject after it was issued.\<close>

definition act :: "fs_effect \<Rightarrow> js_error + 'a \<Rightarrow> 's plat_world \<Rightarrow> (js_error + 'a) \<times> 's plat_world" where
  "act f r w = (r, w\<lparr>fx := fx w @ [f]\<rparr>)"

section \<open>Displays\<close>

definition listDisplays :: "'s plat_env \<Rightarrow> reply" where
  "listDisplays e = (case p_dir e of Inl err \<Rightarrow> send_error (err_val err)
     | Inr fs \<Rightarrow> send 200 (Arr (map Str (filter (\<lambda>f. to_lower (ext_name f) = ''.svg'') fs))))"

text \<open>The path of a display named in a request, and the test on its text.\<close>

definition display_path :: "'s plat_env \<Rightarrow> jsval \<Rightarrow> js_error + string list" where
  "display_path e v = (case js_or v (Str []) of Str f \<Rightarrow> Inr (resolve (p_svg e) (base_name f)) | _ \<Rightarrow> Inl TypeError)"

definition in_svg :: "'s plat_env \<Rightarrow> string list \<Rightarrow> bool" where
  "in_svg e p = starts_with (path_text (p_svg e)) (path_text p)"

definition invalid_path :: reply where
  "invalid_path = send 400 (Obj [(''error'', Str ''Invalid file path'')])"

text \<open>\<open>openDisplay\<close> reads \<open>req.query.file\<close>, the argument \<open>v\<close>.\<close>

definition openDisplay :: "'s plat_env \<Rightarrow> jsval \<Rightarrow> 's plat_world \<Rightarrow> (js_error + reply) \<times> 's plat_world" where
  "openDisplay e v = bindE (askE (\<lambda>_. display_path e v)) (\<lambda>p.
     if \<not> in_svg e p then returnE invalid_path
     else tryE (bindE (act (ReadFile (path_text p)) (p_read e (path_text p))) (\<lambda>d. returnE (send 200 d)))
       (\<lambda>err. returnE (send_error (err_val err))))"

definition saveDisplay :: "'s plat_env \<Rightarrow> request \<Rightarrow> 's plat_world \<Rightarrow> (js_error + reply) \<times> 's plat_world" where
  "saveDisplay e req = bindE (askE (\<lambda>_. display_path e (fld (rbody req) ''file''))) (\<lambda>p.
     if \<not> in_svg e p then returnE invalid_path
     else tryE (seqE (act (WriteFile (path_text p) (fld (rbody req) ''content'')) (p_write e (path_text p) (fld (rbody req) ''content'')))
            (returnE send_ok))
       (\<lambda>err. returnE (send_error (err_val err))))"

section \<open>Maintenance scripts\<close>

definition PLATFORM_SCRIPTS :: "bool \<Rightarrow> (string \<times> string) list" where
  "PLATFORM_SCRIPTS win = [(''exportProject'', if win then ''export_project.bat'' else ''export_project.sh''),
     (''importProject'', if win then ''import_project.bat'' else ''import_project.sh''),
     (''restartProtocols'', if win then ''restart_protocols.bat'' else ''restart_protocols.sh''),
     (''restartProcesses'', if win then ''restart_services.bat'' else ''restart_processes.sh'')]"

definition PLATFORM_SCRIPTS_DIR :: "'s plat_env \<Rightarrow> string list" where
  "PLATFORM_SCRIPTS_DIR e = p_root e @ [if p_windows e then ''platform-windows'' else ''platform-linux'']"

definition PROJECT_TMP_DIR :: "'s plat_env \<Rightarrow> string list" where
  "PROJECT_TMP_DIR e = p_root e @ [''tmp'']"

definition script_path :: "'s plat_env \<Rightarrow> string \<Rightarrow> string" where
  "script_path e name = path_text (PLATFORM_SCRIPTS_DIR e @ [name])"

definition script_command :: "'s plat_env \<Rightarrow> string \<Rightarrow> string list \<Rightarrow> string \<times> string list" where
  "script_command e path args = (if p_windows e
     then ((if p_comspec e \<noteq> [] then p_comspec e else ''cmd.exe''), [''/c'', path] @ args)
     else (''/bin/sh'', path # args))"

definition spawnPlatformScript :: "'s plat_env \<Rightarrow> string \<Rightarrow> string list \<Rightarrow> 's plat_world \<Rightarrow> (js_error + unit) \<times> 's plat_world" where
  "spawnPlatformScript e action args w = (case map_of (PLATFORM_SCRIPTS (p_windows e)) action of
       None \<Rightarrow> (Inl (Thrown (''Unknown maintenance script: '' @ action)), w)
     | Some name \<Rightarrow>
         (let path = script_path e name; (prog, argv) = script_command e path args in
          if \<not> p_isFile e path then (Inl (Thrown (''Maintenance script not found: '' @ path)), w)
          else if action \<in> set (runningScripts w) then (Inl (Thrown (name @ '' is already running!'')), w)
          else (case p_spawn e prog argv of Inl err \<Rightarrow> (Inl err, w)
             | Inr _ \<Rightarrow> (Inr (), w\<lparr>runningScripts := set_insert action (runningScripts w), fx := fx w @ [Spawn prog argv]\<rparr>))))"

text \<open>The \<open>close\<close> event of a child.\<close>

definition script_closed :: "string \<Rightarrow> 's plat_world \<Rightarrow> 's plat_world" where
  "script_closed action w = w\<lparr>runningScripts := removeAll action (runningScripts w)\<rparr>"

section \<open>Projects\<close>

text \<open>\<open>/^[a-zA-Z0-9][a-zA-Z0-9._-]{0,250}\.zip$/\<close>.\<close>

definition alnum :: "char \<Rightarrow> bool" where
  "alnum c = (is_digit c \<or> (let n = of_char (to_lower_char c) :: nat in 97 \<le> n \<and> n \<le> 122))"

definition safeFileName :: "string \<Rightarrow> bool" where
  "safeFileName s = (5 \<le> length s \<and> length s \<le> 255 \<and> drop (length s - 4) s = ''.zip'' \<and> alnum (hd s) \<and>
     list_all (\<lambda>c. alnum c \<or> c = CHR ''.'' \<or> c = CHR ''_'' \<or> c = CHR ''-'') (take (length s - 5) (tl s)))"

definition invalid_name :: reply where
  "invalid_name = send 400 (Obj [(''error'', Str ''Invalid project file name!'')])"

text \<open>\<open>err.message || String(err)\<close>.\<close>

definition catchMessage :: "js_error \<Rightarrow> 's plat_world \<Rightarrow> (js_error + reply) \<times> 's plat_world" where
  "catchMessage err = returnE (send_error (err_val err))"

text \<open>The name of the project, trimmed; one made of the time when there is none.\<close>

definition project_name :: "'s plat_env \<Rightarrow> jsval \<Rightarrow> js_error + string" where
  "project_name e p = (if nullish p then Inl TypeError
     else (let v = opt_get p ''fileName'' in
       case (if truthy v then (case v of Str s \<Rightarrow> Inr (trim s = [], s) | _ \<Rightarrow> Inl TypeError) else Inr (True, [])) of
         Inl err \<Rightarrow> Inl err
       | Inr (blank, s) \<Rightarrow>
           if is_prim p then Inl TypeError
           else Inr (trim (if blank then ''new_project_'' @ num_to_string (num_div (num (now e)) (num 1000)) @ ''.zip'' else s))))"

definition named_project :: "jsval \<Rightarrow> string \<Rightarrow> doc \<Rightarrow> doc" where
  "named_project p name b = (case p of Obj d \<Rightarrow> aupd ''project'' (Obj (aupd ''fileName'' (Str name) d)) b | _ \<Rightarrow> b)"

text \<open>The request answers at once when something is wrong (\<open>Some\<close>), else when the child closes.\<close>

definition exportProject :: "'s plat_env \<Rightarrow> request \<Rightarrow> 's plat_world \<Rightarrow> (js_error + reply option) \<times> 's plat_world" where
  "exportProject e req =
     tryE (bindE (askE (\<lambda>_. project_name e (fld (rbody req) ''project''))) (\<lambda>name.
        if \<not> safeFileName name then returnE (Some invalid_name)
        else seqE (spawnPlatformScript e ''exportProject'' [name]) (returnE None)))
       (\<lambda>err. bindE (catchMessage err) (\<lambda>r. returnE (Some r)))"

text \<open>\<open>None\<close> is \<open>res.download\<close>, an effect.\<close>

definition exportProject_closed :: "'s plat_env \<Rightarrow> request \<Rightarrow> string \<Rightarrow> jsval \<Rightarrow> 's plat_world \<Rightarrow> reply option \<times> 's plat_world" where
  "exportProject_closed e req name code w =
     (let file = path_text (PROJECT_TMP_DIR e @ [base_name name]); w0 = script_closed ''exportProject'' w in
      if \<not> p_exists e file \<or> \<not> loose_eq code (Num (num 0)) then (Some (send_error (Str (''Project file not found! '' @ file))), w0)
      else (let w1 = registerUserAction (env.truncate e) (req\<lparr>rbody := named_project (fld (rbody req) ''project'') name (rbody req)\<rparr>) ''exportProject'' w0
            in (None, w1\<lparr>fx := fx w1 @ [Download file]\<rparr>)))"

text \<open>The check of an entry of an archive.\<close>

definition entry_parts :: "string \<Rightarrow> string list" where
  "entry_parts n = split_char (CHR ''/'') (rev (dropWhile (\<lambda>c. c = CHR ''/'') (rev n)))"

definition drive_letter :: "string \<Rightarrow> bool" where
  "drive_letter n = (case n of c # d # _ \<Rightarrow> (let k = of_char (to_lower_char c) :: nat in 97 \<le> k \<and> k \<le> 122) \<and> d = CHR '':'' | _ \<Rightarrow> False)"

definition bad_entry :: "string list \<Rightarrow> string \<Rightarrow> string option" where
  "bad_entry base n =
     (if CHR 0x5C \<in> set n \<or> starts_with ''/'' n \<or> drive_letter n \<or> list_ex (\<lambda>p. p = ''..'' \<or> p = ''.'' \<or> trim p = []) (entry_parts n)
      then Some (''Invalid ZIP entry name: '' @ n)
      else (let t = path_text (resolve base n) in
        if t \<noteq> path_text base \<and> \<not> starts_with (path_text base @ ''/'') t
        then Some (''ZIP entry attempts to write outside target directory: '' @ n) else None))"

fun check_entries :: "string list \<Rightarrow> string list \<Rightarrow> js_error + unit" where
  "check_entries base [] = Inr ()"
| "check_entries base (n # ns) = (case bad_entry base n of Some m \<Rightarrow> Inl (Thrown m) | None \<Rightarrow> check_entries base ns)"

definition upload_name :: "request \<Rightarrow> js_error + string" where
  "upload_name req = (case js_or (fld (rbody req) ''projectFileName'') (Str []) of Str s \<Rightarrow> Inr (base_name (trim s)) | _ \<Rightarrow> Inl TypeError)"

definition unpack :: "'s plat_env \<Rightarrow> string \<Rightarrow> 's plat_world \<Rightarrow> (js_error + unit) \<times> 's plat_world" where
  "unpack e name =
     (let dir = PROJECT_TMP_DIR e; zip = path_text (dir @ [name]) in
      seqE (if p_exists e (path_text dir) then returnE () else act (MakeDir (path_text dir)) (p_mkdir e (path_text dir)))
      (seqE (act (MoveUpload zip) (p_move e zip))
      (bindE (askE (\<lambda>_. p_entries e zip)) (\<lambda>ns.
       seqE (askE (\<lambda>_. check_entries dir ns))
         (act (Extract (path_text dir) ns) (p_extract e zip))))))"

definition importProject :: "'s plat_env \<Rightarrow> upload option \<Rightarrow> request \<Rightarrow> 's plat_world \<Rightarrow> (js_error + reply option) \<times> 's plat_world" where
  "importProject e files req =
     tryE (case files of None \<Rightarrow> throwE (Thrown ''No project file uploaded!'')
       | Some up \<Rightarrow> bindE (askE (\<lambda>_. upload_name req)) (\<lambda>name.
           if \<not> safeFileName name then returnE (Some invalid_name)
           else if up_truncated up then returnE (Some (send 413 (Obj [(''error'', Str ''Project file too large!'')])))
           else if up_size up = 0 then returnE (Some (send 400 (Obj [(''error'', Str ''Empty project file!'')])))
           else seqE (unpack e name) (seqE (spawnPlatformScript e ''importProject'' []) (returnE None))))
       (\<lambda>err. bindE (catchMessage err) (\<lambda>r. returnE (Some r)))"

definition importProject_closed :: "'s plat_env \<Rightarrow> request \<Rightarrow> 's plat_world \<Rightarrow> reply \<times> 's plat_world" where
  "importProject_closed e req w = (send_ok, registerUserAction (env.truncate e) req ''importProject'' (script_closed ''importProject'' w))"

section \<open>Restarts\<close>

definition run_script :: "'s plat_env \<Rightarrow> string \<Rightarrow> request \<Rightarrow> 's plat_world \<Rightarrow> (js_error + reply) \<times> 's plat_world" where
  "run_script e action req =
     tryE (seqE (spawnPlatformScript e action [])
       (seqE (modifyE (registerUserAction (env.truncate e) req action)) (returnE send_ok))) catchMessage"

definition restartProtocols :: "'s plat_env \<Rightarrow> request \<Rightarrow> 's plat_world \<Rightarrow> (js_error + reply) \<times> 's plat_world" where
  "restartProtocols e req = run_script e ''restartProtocols'' req"

definition restartProcesses :: "'s plat_env \<Rightarrow> request \<Rightarrow> 's plat_world \<Rightarrow> (js_error + reply) \<times> 's plat_world" where
  "restartProcesses e req = run_script e ''restartProcesses'' req"

end
