(* ===== verification/ProjectLaws.thy ===== *)
theory ProjectLaws
  imports Projects
begin

text \<open>
  Laws of the file and script handlers: where a name of a request can lead to, which
  entries of an archive pass, and that a maintenance script never runs twice at a time.
\<close>

section \<open>Segments\<close>

definition plain :: "string \<Rightarrow> bool" where
  "plain s \<longleftrightarrow> s \<noteq> [] \<and> s \<noteq> ''.'' \<and> s \<noteq> ''..'' \<and> CHR ''/'' \<notin> set s"

lemma split_char_no_sep: "s \<in> set (split_char c p) \<Longrightarrow> c \<notin> set s"
  by (induction c p arbitrary: s rule: split_char.induct) (auto split: list.splits if_splits)

lemma split_char_id: "c \<notin> set p \<Longrightarrow> split_char c p = [p]"
  by (induction c p rule: split_char.induct) auto

lemma split_char_ne: "split_char c p \<noteq> []"
  by (induction c p rule: split_char.induct) (auto split: list.splits)

lemma split_char_snoc: "split_char c (p @ [c]) = split_char c p @ [[]]"
  by (induction c p rule: split_char.induct) (use split_char_ne in \<open>auto split: list.splits\<close>)

lemma split_char_trailing: "split_char c (p @ replicate k c) = split_char c p @ replicate k []"
proof (induction k)
  case (Suc k)
  then show ?case using split_char_snoc[of c "p @ replicate k c"] by (simp add: replicate_append_same flip: replicate_Suc)
qed simp

lemma norm_segs_plain: "list_all plain ps \<Longrightarrow> norm_segs acc (ps @ replicate k []) = rev acc @ ps"
proof (induction ps arbitrary: acc)
  case Nil then show ?case by (induction k) auto
qed (auto simp: plain_def)

lemma base_name_no_sep: "CHR ''/'' \<notin> set (base_name p)"
proof (cases "dropWhile (\<lambda>s. s = []) (rev (split_char (CHR ''/'') p))")
  case (Cons s ss)
  then have "s \<in> set (split_char (CHR ''/'') p)"
    using set_dropWhileD[of s "\<lambda>s. s = []" "rev (split_char (CHR ''/'') p)"] by simp
  then show ?thesis using Cons by (simp add: base_name_def split_char_no_sep)
next
  case Nil
  show ?thesis unfolding base_name_def Nil by simp
qed

lemma not_starts_sep: "CHR ''/'' \<notin> set p \<Longrightarrow> \<not> starts_with ''/'' p"
  by (cases p) (auto simp: starts_with_def)

lemma resolve_segment:
  assumes "CHR ''/'' \<notin> set b"
  shows "resolve base b = (if b = [] \<or> b = ''.'' then base else if b = ''..'' then butlast base else base @ [b])"
proof -
  have "rev (drop 1 (rev base)) = butlast base" by (cases base rule: rev_cases) simp_all
  then show ?thesis using assms by (simp add: resolve_def not_starts_sep split_char_id)
qed

lemma path_text_butlast:
  assumes "list_all plain base" "base \<noteq> []" shows "\<not> starts_with (path_text base) (path_text (butlast base))"
proof -
  obtain bs b where b: "base = bs @ [b]" using assms(2) by (cases base rule: rev_cases) auto
  have "b \<noteq> []" using assms(1) b by (simp add: plain_def)
  then have "length (path_text (butlast base)) < length (path_text base)"
    by (cases b) (auto simp: b path_text_def)
  then show ?thesis by (auto simp: starts_with_def dest: arg_cong[of _ _ length])
qed

text \<open>What passes the test on a display path is the directory or a file directly in it.\<close>

lemma display_in_svg:
  assumes "list_all plain (p_svg e)" "p_svg e \<noteq> []" "display_path e v = Inr p" "in_svg e p"
  shows "p = p_svg e \<or> (\<exists>n. plain n \<and> p = p_svg e @ [n])"
proof -
  obtain f where p: "p = resolve (p_svg e) (base_name f)" using assms(3) by (auto simp: display_path_def split: jsval.splits)
  define b where "b = base_name f"
  have sep: "CHR ''/'' \<notin> set b" unfolding b_def by (rule base_name_no_sep)
  have r: "p = (if b = [] \<or> b = ''.'' then p_svg e else if b = ''..'' then butlast (p_svg e) else p_svg e @ [b])"
    unfolding p b_def by (rule resolve_segment[OF base_name_no_sep])
  consider "p = p_svg e" | "p = butlast (p_svg e)" | "plain b" "p = p_svg e @ [b]"
    using r sep unfolding plain_def by metis
  then show ?thesis
  proof cases
    case 2
    then show ?thesis using assms(4) path_text_butlast[OF assms(1,2)] by (simp add: in_svg_def)
  qed auto
qed

text \<open>What passes the check of an archive lies strictly below the directory.\<close>

lemma entry_below:
  assumes "bad_entry base n = None"
  shows "\<exists>ps. ps \<noteq> [] \<and> list_all plain ps \<and> resolve base n = base @ ps"
proof -
  let ?m = "rev (dropWhile (\<lambda>c. c = CHR ''/'') (rev n))" and ?k = "length (takeWhile (\<lambda>c. c = CHR ''/'') (rev n))"
  have "takeWhile (\<lambda>c. c = CHR ''/'') (rev n) = replicate ?k (CHR ''/'')"
    by (rule replicate_eqI) (auto dest: set_takeWhileD)
  then have "rev (takeWhile (\<lambda>c. c = CHR ''/'') (rev n)) = replicate ?k (CHR ''/'')" by (metis rev_replicate)
  then have n: "n = ?m @ replicate ?k (CHR ''/'')"
    using arg_cong[OF takeWhile_dropWhile_id[of "\<lambda>c. c = CHR ''/''" "rev n"], of rev] by (simp only: rev_append rev_rev_ident)
  have parts: "\<not> list_ex (\<lambda>p. p = ''..'' \<or> p = ''.'' \<or> trim p = []) (entry_parts n)" and s: "\<not> starts_with ''/'' n"
    using assms by (auto simp: bad_entry_def split: if_splits)
  have "list_all plain (entry_parts n)" unfolding list_all_iff plain_def
  proof (intro ballI conjI)
    fix p assume p: "p \<in> set (entry_parts n)"
    then show "p \<noteq> ''.''" "p \<noteq> ''..''" "CHR ''/'' \<notin> set p" using parts split_char_no_sep
      by (auto simp: list_ex_iff entry_parts_def)
    have "trim [] = []" by (simp add: trim_def)
    then show "p \<noteq> []" using parts p by (auto simp: list_ex_iff)
  qed
  moreover have "split_char (CHR ''/'') n = entry_parts n @ replicate ?k []"
    by (subst n) (simp only: split_char_trailing entry_parts_def)
  ultimately have "resolve base n = base @ entry_parts n" using s by (simp add: resolve_def norm_segs_plain)
  then show ?thesis using \<open>list_all plain (entry_parts n)\<close> split_char_ne[of "CHR ''/''" ?m] by (auto simp: entry_parts_def)
qed

lemma check_entries_below:
  "check_entries base ns = Inr () \<Longrightarrow> n \<in> set ns \<Longrightarrow> \<exists>ps. ps \<noteq> [] \<and> list_all plain ps \<and> resolve base n = base @ ps"
  by (induction base ns rule: check_entries.induct) (auto dest: entry_below split: option.splits)

lemma safe_name_plain: "safeFileName s \<Longrightarrow> plain s"
proof -
  assume a: "safeFileName s"
  have ok: "alnum c \<Longrightarrow> c \<noteq> CHR ''/''" for c by (auto simp: alnum_def is_digit_def to_lower_char_def)
  have len: "5 \<le> length s" and h: "alnum (hd s)" and m: "\<forall>c \<in> set (take (length s - 5) (tl s)). c \<noteq> CHR ''/''"
    and t: "drop (length s - 4) s = ''.zip''" using a ok by (auto simp: safeFileName_def list_all_iff)
  obtain c u where s: "s = c # u" using len by (cases s) auto
  have u: "u = take (length s - 5) u @ drop (length s - 5) u" by simp
  have "drop (length s - 5) u = ''.zip''" using t len unfolding s by (auto simp: drop_Cons' numeral_eq_Suc split: if_splits)
  then have "CHR ''/'' \<notin> set u" using m s by (subst u) (auto simp del: append_take_drop_id)
  then show ?thesis using h ok[of c] len s by (auto simp: plain_def)
qed


section \<open>Requests and the end of scripts as a transition system\<close>

datatype plat_request =
    ReqOpen jsval | ReqSave request | ReqExport request | ReqImport "upload option" request
  | ReqProtocols request | ReqProcesses request

datatype plat_close = ExportClosed request string jsval | ImportClosed request | OtherClosed string

fun run_request :: "'s plat_env \<Rightarrow> plat_request \<Rightarrow> 's plat_world \<Rightarrow> 's plat_world" where
  "run_request e (ReqOpen v) w = snd (openDisplay e v w)"
| "run_request e (ReqSave r) w = snd (saveDisplay e r w)"
| "run_request e (ReqExport r) w = snd (exportProject e r w)"
| "run_request e (ReqImport u r) w = snd (importProject e u r w)"
| "run_request e (ReqProtocols r) w = snd (restartProtocols e r w)"
| "run_request e (ReqProcesses r) w = snd (restartProcesses e r w)"

fun run_close :: "'s plat_env \<Rightarrow> plat_close \<Rightarrow> 's plat_world \<Rightarrow> 's plat_world" where
  "run_close e (ExportClosed r n c) w = snd (exportProject_closed e r n c w)"
| "run_close e (ImportClosed r) w = snd (importProject_closed e r w)"
| "run_close e (OtherClosed a) w = script_closed a w"

fun closed_action :: "plat_close \<Rightarrow> string" where
  "closed_action (ExportClosed r n c) = ''exportProject''"
| "closed_action (ImportClosed r) = ''importProject''"
| "closed_action (OtherClosed a) = a"

text \<open>The script a child runs, by its path; the children started between two worlds.\<close>

definition script_of :: "'s plat_env \<Rightarrow> string \<Rightarrow> string" where
  "script_of e action = script_path e (the (map_of (PLATFORM_SCRIPTS (p_windows e)) action))"

definition started :: "'s plat_env \<Rightarrow> 's plat_world \<Rightarrow> 's plat_world \<Rightarrow> string list" where
  "started e w w' = List.map_filter (\<lambda>f. case f of Spawn prog argv \<Rightarrow> Some (argv ! (if p_windows e then 1 else 0)) | _ \<Rightarrow> None)
     (drop (length (fx w)) (fx w'))"

text \<open>The state: the paths of the scripts of the children that run, and the world.\<close>

inductive plat_step :: "'s plat_env \<Rightarrow> string list \<times> 's plat_world \<Rightarrow> string list \<times> 's plat_world \<Rightarrow> bool" for e where
  plat_request: "plat_step e (cs, w) (cs @ started e w (run_request e r w), run_request e r w)"
| plat_close: "has_key (closed_action c) (PLATFORM_SCRIPTS (p_windows e)) \<Longrightarrow> script_of e (closed_action c) \<in> set cs \<Longrightarrow>
    plat_step e (cs, w) (remove1 (script_of e (closed_action c)) cs, run_close e c w)"

section \<open>What a request does\<close>

text \<open>The effects a request may have, and that it starts at most one script, not one already running.\<close>

definition confined :: "'s plat_env \<Rightarrow> fs_effect \<Rightarrow> bool" where
  "confined e f = (case f of
       ReadFile t \<Rightarrow> \<exists>p. (p = p_svg e \<or> (\<exists>n. plain n \<and> p = p_svg e @ [n])) \<and> t = path_text p
     | WriteFile t v \<Rightarrow> \<exists>p. (p = p_svg e \<or> (\<exists>n. plain n \<and> p = p_svg e @ [n])) \<and> t = path_text p
     | MakeDir t \<Rightarrow> t = path_text (PROJECT_TMP_DIR e)
     | MoveUpload t \<Rightarrow> \<exists>n. safeFileName n \<and> plain n \<and> t = path_text (PROJECT_TMP_DIR e @ [n])
     | Extract t ns \<Rightarrow> t = path_text (PROJECT_TMP_DIR e) \<and>
         (\<forall>n \<in> set ns. \<exists>ps. ps \<noteq> [] \<and> list_all plain ps \<and> resolve (PROJECT_TMP_DIR e) n = PROJECT_TMP_DIR e @ ps)
     | Download t \<Rightarrow> \<exists>n. CHR ''/'' \<notin> set n \<and> t = path_text (PROJECT_TMP_DIR e @ [n])
     | Spawn prog argv \<Rightarrow> \<exists>a args. has_key a (PLATFORM_SCRIPTS (p_windows e)) \<and> (prog, argv) = script_command e (script_of e a) args \<and>
         (args = [] \<or> (\<exists>n. safeFileName n \<and> args = [n])))"

definition req_ok :: "'s plat_env \<Rightarrow> 's plat_world \<Rightarrow> 's plat_world \<Rightarrow> bool" where
  "req_ok e w w' \<longleftrightarrow> (\<exists>new. fx w' = fx w @ new \<and> (\<forall>f \<in> set new. confined e f)) \<and>
     (started e w w' = [] \<and> runningScripts w' = runningScripts w \<or>
      (\<exists>a. has_key a (PLATFORM_SCRIPTS (p_windows e)) \<and> a \<notin> set (runningScripts w) \<and> started e w w' = [script_of e a] \<and>
         runningScripts w' = runningScripts w @ [a]))"

lemma started_same [simp]: "fx w' = fx w \<Longrightarrow> started e w w' = []"
  by (simp add: started_def List.map_filter_def)

lemma req_ok_refl: "fx w' = fx w \<Longrightarrow> runningScripts w' = runningScripts w \<Longrightarrow> req_ok e w w'"
  by (simp add: req_ok_def)

text \<open>An effect that is not a spawn, and then the rest.\<close>

lemma req_ok_effect:
  assumes "confined e f" "\<And>prog argv. f \<noteq> Spawn prog argv" "req_ok e (w\<lparr>fx := fx w @ [f]\<rparr>) w'"
  shows "req_ok e w w'"
proof -
  obtain new where new: "fx w' = fx w @ f # new" "\<forall>g \<in> set new. confined e g" using assms(3) by (auto simp: req_ok_def)
  have "started e w w' = started e (w\<lparr>fx := fx w @ [f]\<rparr>) w'"
    using assms(2) new(1) by (cases f) (auto simp: started_def List.map_filter_def)
  then show ?thesis using assms(1,3) new by (auto simp: req_ok_def)
qed

lemma spawn_cases:
  assumes "\<exists>n. args = [] \<or> safeFileName n \<and> args = [n]"
  shows "req_ok e w (snd (spawnPlatformScript e a args w))"
proof (cases "map_of (PLATFORM_SCRIPTS (p_windows e)) a")
  case None then show ?thesis by (simp add: spawnPlatformScript_def req_ok_refl)
next
  case (Some name)
  obtain prog argv where c: "script_command e (script_path e name) args = (prog, argv)" by fastforce
  have p: "argv ! (if p_windows e then 1 else 0) = script_path e name" using c by (auto simp: script_command_def split: if_splits)
  have s: "script_of e a = script_path e name" by (simp add: script_of_def Some)
  have k: "has_key a (PLATFORM_SCRIPTS (p_windows e))" by (simp add: has_key_def Some)
  have conf: "confined e (Spawn prog argv)" unfolding confined_def fs_effect.case
    using assms c k by (intro exI[of _ a] exI[of _ args]) (auto simp: s)
  show ?thesis
  proof (cases "\<not> p_isFile e (script_path e name) \<or> a \<in> set (runningScripts w) \<or> (\<exists>err. p_spawn e prog argv = Inl err)")
    case True
    then show ?thesis by (auto simp: spawnPlatformScript_def Some c Let_def intro!: req_ok_refl)
  next
    case False
    then have "snd (spawnPlatformScript e a args w) =
        w\<lparr>runningScripts := runningScripts w @ [a], fx := fx w @ [Spawn prog argv]\<rparr>"
      by (auto simp: spawnPlatformScript_def Some c Let_def set_insert_def split: sum.splits)
    then show ?thesis using conf k s p False
      by (auto simp: req_ok_def started_def List.map_filter_def intro!: exI[of _ a])
  qed
qed


text \<open>Steps that start nothing, and steps that may; the rules follow the sequencing of the handlers.\<close>

named_theorems ok_intros \<open>confinement of composed handlers\<close>

definition inert :: "('s plat_world \<Rightarrow> (js_error + 'a) \<times> 's plat_world) \<Rightarrow> bool" where
  "inert m \<longleftrightarrow> (\<forall>w. fx (snd (m w)) = fx w \<and> runningScripts (snd (m w)) = runningScripts w)"

definition ok :: "'s plat_env \<Rightarrow> ('s plat_world \<Rightarrow> (js_error + 'a) \<times> 's plat_world) \<Rightarrow> bool" where
  "ok e m \<longleftrightarrow> (\<forall>w. req_ok e w (snd (m w)))"

lemma inert_steps [ok_intros]:
  "inert (returnE x)" "inert (throwE err)" "inert (askE g)" "inert (modifyE (registerUserAction e' r n))" "inert (catchMessage err)"
  by (simp_all add: inert_def handler_simps registerUserAction_def catchMessage_def)

lemma inert_bind [ok_intros]: "inert m \<Longrightarrow> (\<And>x. inert (f x)) \<Longrightarrow> inert (bindE m f)"
  unfolding inert_def bindE_def by (simp split: prod.split sum.split) (metis snd_conv)

lemma inert_seq [ok_intros]: "inert m \<Longrightarrow> inert m' \<Longrightarrow> inert (seqE m m')"
  unfolding seqE_def by (rule inert_bind)

lemma ok_inert: "inert m \<Longrightarrow> ok e m"
  by (simp add: inert_def ok_def req_ok_refl)

lemma req_ok_inert_left: "fx w1 = fx w \<Longrightarrow> runningScripts w1 = runningScripts w \<Longrightarrow> req_ok e w1 w' \<Longrightarrow> req_ok e w w'"
  by (simp add: req_ok_def started_def)

lemma req_ok_inert_right: "req_ok e w w1 \<Longrightarrow> fx w' = fx w1 \<Longrightarrow> runningScripts w' = runningScripts w1 \<Longrightarrow> req_ok e w w'"
  by (simp add: req_ok_def started_def)

lemma ok_ask [ok_intros]: "(\<And>w x. g w = Inr x \<Longrightarrow> ok e (f x)) \<Longrightarrow> ok e (bindE (askE g) f)"
  by (simp add: ok_def handler_simps req_ok_refl split: sum.split)

lemma ok_seq_ask [ok_intros]: "(\<And>w x. g w = Inr x \<Longrightarrow> ok e m) \<Longrightarrow> ok e (seqE (askE g) m)"
  unfolding seqE_def by (rule ok_ask)

lemma ok_act [ok_intros]:
  "confined e f \<Longrightarrow> (\<And>prog argv. f \<noteq> Spawn prog argv) \<Longrightarrow> (\<And>x. ok e (k x)) \<Longrightarrow> ok e (bindE (act f r) k)"
  unfolding ok_def
proof
  fix w assume a: "confined e f" "\<And>prog argv. f \<noteq> Spawn prog argv" "\<And>x. \<forall>w. req_ok e w (snd (k x w))"
  show "req_ok e w (snd (bindE (act f r) k w))"
    by (rule req_ok_effect[OF a(1,2)]) (use a(3) in \<open>simp_all add: bindE_def act_def req_ok_refl split: sum.split\<close>)
qed

lemma ok_seq_act [ok_intros]:
  "confined e f \<Longrightarrow> (\<And>prog argv. f \<noteq> Spawn prog argv) \<Longrightarrow> ok e m \<Longrightarrow> ok e (seqE (act f r) m)"
  unfolding seqE_def by (rule ok_act)

lemma ok_then: "ok e m \<Longrightarrow> (\<And>x. inert (f x)) \<Longrightarrow> ok e (bindE m f)"
  unfolding ok_def inert_def bindE_def by (auto split: prod.split sum.split) (metis snd_conv req_ok_inert_right)+

lemma ok_seq_then: "ok e m \<Longrightarrow> inert m' \<Longrightarrow> ok e (seqE m m')"
  unfolding seqE_def by (rule ok_then)

lemma ok_try [ok_intros]: "ok e m \<Longrightarrow> (\<And>err. inert (h err)) \<Longrightarrow> ok e (tryE m h)"
  unfolding ok_def inert_def tryE_def by (auto split: prod.split sum.split) (metis snd_conv req_ok_inert_right)+

lemma ok_spawn [ok_intros]: "args = [] \<or> (\<exists>n. safeFileName n \<and> args = [n]) \<Longrightarrow> ok e (spawnPlatformScript e a args)"
  unfolding ok_def using spawn_cases by blast

lemma seqE_assoc: "seqE (seqE a b) c = seqE a (seqE b c)" "seqE (bindE a f) c = bindE a (\<lambda>x. seqE (f x) c)"
  by (auto simp: fun_eq_iff seqE_def bindE_def split: prod.split sum.split)

lemma ok_if [ok_intros]: "(b \<Longrightarrow> ok e m) \<Longrightarrow> (\<not> b \<Longrightarrow> ok e m') \<Longrightarrow> ok e (if b then m else m')"
  by simp

lemma ok_seq_if [ok_intros]: "(b \<Longrightarrow> ok e (seqE m k)) \<Longrightarrow> (\<not> b \<Longrightarrow> ok e (seqE m' k)) \<Longrightarrow> ok e (seqE (if b then m else m') k)"
  by simp

lemma ok_seq_return [ok_intros]: "ok e m \<Longrightarrow> ok e (seqE (returnE x) m)"
  by (simp add: seqE_def bindE_def returnE_def ok_def)


text \<open>Tried when nothing else fits.\<close>

lemmas ok_last = ok_seq_then ok_inert

section \<open>The handlers\<close>

lemma confined_display:
  assumes "list_all plain (p_svg e)" "p_svg e \<noteq> []" "display_path e v = Inr p" "in_svg e p"
  shows "confined e (ReadFile (path_text p))" "confined e (WriteFile (path_text p) c)"
  using display_in_svg[OF assms] by (auto simp: confined_def)

lemma ok_displays:
  assumes "list_all plain (p_svg e)" "p_svg e \<noteq> []"
  shows "ok e (openDisplay e v)" "ok e (saveDisplay e req)"
  unfolding openDisplay_def saveDisplay_def
  by (rule ok_intros confined_display[OF assms] | rule ok_last | simp)+

lemma ok_project:
  "ok e (exportProject e req)" "ok e (restartProtocols e req)" "ok e (restartProcesses e req)"
  unfolding exportProject_def restartProtocols_def restartProcesses_def run_script_def
  by (rule ok_intros | rule ok_last | simp)+

lemma ok_unpack_then:
  assumes "safeFileName name" "ok e m" shows "ok e (seqE (unpack e name) m)"
proof -
  let ?dir = "PROJECT_TMP_DIR e"
  have zip: "confined e (Extract (path_text ?dir) ns)" if "check_entries ?dir ns = Inr x" for ns x
    using check_entries_below[of ?dir ns] that by (simp add: confined_def)
  have move: "confined e (MoveUpload (path_text (?dir @ [name])))"
    using assms(1) safe_name_plain by (auto simp: confined_def)
  have dir: "confined e (MakeDir (path_text ?dir))" by (simp add: confined_def)
  show ?thesis unfolding unpack_def Let_def seqE_assoc
    by (intro ok_seq_if ok_seq_return ok_seq_act ok_ask ok_seq_ask move dir assms(2)) (auto intro: zip)
qed

lemma ok_import: "ok e (importProject e files req)"
proof (cases files)
  case (Some up)
  show ?thesis unfolding importProject_def Some option.case
    by (intro ok_try ok_ask ok_if ok_unpack_then ok_seq_then[OF ok_spawn]) (auto intro: ok_inert inert_steps inert_bind)
qed (auto simp: importProject_def intro: ok_try ok_inert inert_steps inert_bind)

lemma request_ok:
  assumes "list_all plain (p_svg e)" "p_svg e \<noteq> []"
  shows "req_ok e w (run_request e r w)"
  by (cases r) (simp_all add: ok_displays[OF assms, unfolded ok_def, rule_format] ok_project[unfolded ok_def, rule_format]
      ok_import[unfolded ok_def, rule_format])

lemma close_keeps:
  "runningScripts (run_close e c w) = removeAll (closed_action c) (runningScripts w)"
  by (cases c) (simp_all add: exportProject_closed_def importProject_closed_def script_closed_def registerUserAction_def Let_def)

lemma close_confined: "\<exists>new. fx (run_close e c w) = fx w @ new \<and> (\<forall>f \<in> set new. confined e f)"
proof (cases c)
  case (ExportClosed r n code)
  have "confined e (Download (path_text (PROJECT_TMP_DIR e @ [base_name n])))"
    unfolding confined_def fs_effect.case using base_name_no_sep by blast
  then show ?thesis by (simp add: ExportClosed exportProject_closed_def script_closed_def registerUserAction_def Let_def)
qed (simp_all add: importProject_closed_def script_closed_def registerUserAction_def)

section \<open>Properties\<close>

lemma script_of_inj:
  assumes "has_key a (PLATFORM_SCRIPTS (p_windows e))" "has_key b (PLATFORM_SCRIPTS (p_windows e))" "script_of e a = script_of e b"
  shows "a = b"
proof -
  have "path_text (ps @ [x]) = path_text (ps @ [y]) \<Longrightarrow> x = y" for ps x y by (simp add: path_text_def)
  then have "the (map_of (PLATFORM_SCRIPTS (p_windows e)) a) = the (map_of (PLATFORM_SCRIPTS (p_windows e)) b)"
    using assms(3) unfolding script_of_def script_path_def by blast
  then show ?thesis using assms(1,2) by (cases "p_windows e") (auto simp: PLATFORM_SCRIPTS_def split: if_splits)
qed

definition plat_inv :: "'s plat_env \<Rightarrow> fs_effect list \<Rightarrow> string list \<times> 's plat_world \<Rightarrow> bool" where
  "plat_inv e before s \<longleftrightarrow> (\<exists>new. fx (snd s) = before @ new \<and> (\<forall>f \<in> set new. confined e f)) \<and>
     distinct (runningScripts (snd s)) \<and> (\<forall>a \<in> set (runningScripts (snd s)). has_key a (PLATFORM_SCRIPTS (p_windows e))) \<and>
     distinct (fst s) \<and> set (fst s) = script_of e ` set (runningScripts (snd s))"

lemma image_minus_point: "(\<And>b. b \<in> A \<Longrightarrow> f b = f c \<Longrightarrow> b = c) \<Longrightarrow> f ` (A - {c}) = f ` A - {f c}"
  by auto

lemma plat_inv_step:
  assumes "plat_step e s s'" "plat_inv e before s" "list_all plain (p_svg e)" "p_svg e \<noteq> []"
  shows "plat_inv e before s'"
  using assms(1)
proof cases
  case (plat_request cs w r)
  let ?w = "run_request e r w"
  have "req_ok e w ?w" by (rule request_ok[OF assms(3,4)])
  then obtain new where new: "fx ?w = fx w @ new" "\<forall>f \<in> set new. confined e f"
    and run: "started e w ?w = [] \<and> runningScripts ?w = runningScripts w \<or>
      (\<exists>a. has_key a (PLATFORM_SCRIPTS (p_windows e)) \<and> a \<notin> set (runningScripts w) \<and> started e w ?w = [script_of e a] \<and>
         runningScripts ?w = runningScripts w @ [a])" by (auto simp: req_ok_def)
  have fx: "\<exists>new. fx ?w = before @ new \<and> (\<forall>f \<in> set new. confined e f)"
    using assms(2) new by (auto simp: plat_inv_def plat_request(1))
  from run show ?thesis
  proof (elim disjE exE conjE)
    fix a assume a: "has_key a (PLATFORM_SCRIPTS (p_windows e))" "a \<notin> set (runningScripts w)" "started e w ?w = [script_of e a]"
      "runningScripts ?w = runningScripts w @ [a]"
    have cs: "set cs = script_of e ` set (runningScripts w)" "\<forall>b \<in> set (runningScripts w). has_key b (PLATFORM_SCRIPTS (p_windows e))"
      "distinct cs" "distinct (runningScripts w)"
      using assms(2) by (simp_all add: plat_inv_def plat_request(1))
    have "script_of e a \<notin> set cs"
    proof
      assume "script_of e a \<in> set cs"
      then obtain b where b: "b \<in> set (runningScripts w)" "script_of e a = script_of e b" using cs(1) by auto
      then have "a = b" using cs(2) a(1) by (intro script_of_inj[of a e b]) auto
      then show False using a(2) b(1) by simp
    qed
    then show ?thesis using cs a fx unfolding plat_inv_def plat_request(2) by (simp add: insert_commute)
  qed (use assms(2) fx in \<open>simp add: plat_inv_def plat_request\<close>)
next
  case (plat_close c cs w)
  have fx: "\<exists>new. fx (run_close e c w) = before @ new \<and> (\<forall>f \<in> set new. confined e f)"
    using assms(2) close_confined[of e c w] by (auto simp: plat_inv_def plat_close(1))
  have cs: "set cs = script_of e ` set (runningScripts w)" "\<forall>b \<in> set (runningScripts w). has_key b (PLATFORM_SCRIPTS (p_windows e))"
    "distinct cs" "distinct (runningScripts w)"
    using assms(2) by (simp_all add: plat_inv_def plat_close(1))
  have "b = closed_action c" if "b \<in> set (runningScripts w)" "script_of e b = script_of e (closed_action c)" for b
    by (rule script_of_inj[OF _ _ that(2)]) (use that(1) cs(2) plat_close(3) in blast)+
  then have "script_of e ` (set (runningScripts w) - {closed_action c}) = set cs - {script_of e (closed_action c)}"
    unfolding cs(1) by (rule image_minus_point)
  then show ?thesis using cs(2-4) fx unfolding plat_inv_def plat_close(2) by (simp add: close_keeps distinct_removeAll)
qed

text \<open>C17. Requests reach files only where they may, and start only the scripts of the installation, never one
  twice at a time. From any world in which no script runs, through any requests for displays, export,
  import and restarts and any ends of scripts: every file read or written for a display is the display
  directory or directly in it; what is uploaded is stored directly in the temporary directory under a
  plain \<open>.zip\<close> name; an archive is extracted only when every entry leads strictly below that directory;
  every program started is the interpreter on one of the four scripts, with no argument or a plain
  \<open>.zip\<close> name. The scripts that run are distinct and are those noted as running.\<close>

theorem platform_requests_confined:
  assumes "(plat_step e)\<^sup>*\<^sup>* ([], w) (cs, w')" "runningScripts w = []" "list_all plain (p_svg e)" "p_svg e \<noteq> []"
  shows "(\<exists>new. fx w' = fx w @ new \<and> (\<forall>f \<in> set new. confined e f)) \<and>
     distinct cs \<and> set cs = script_of e ` set (runningScripts w') \<and>
     (\<forall>a \<in> set (runningScripts w'). has_key a (PLATFORM_SCRIPTS (p_windows e)))"
proof -
  have "plat_inv e (fx w) ([], w)" using assms(2) by (simp add: plat_inv_def)
  with assms(1) have "plat_inv e (fx w) (cs, w')"
    by (induction rule: rtranclp_induct) (auto intro: plat_inv_step[OF _ _ assms(3,4)])
  then show ?thesis by (simp add: plat_inv_def)
qed

section \<open>An installation\<close>

definition demo_plat :: "mem plat_env" where
  "demo_plat = env.extend (mem_env 0) (plat_env.fields False [] [''srv''] [''srv'', ''svg''] (Inr [''a.svg'', ''b.txt'']) (\<lambda>_. Inr (Str []))
     (\<lambda>_ _. Inr ()) (\<lambda>_. True) (\<lambda>_. True) (\<lambda>_. Inr ()) (\<lambda>_. Inr ()) (\<lambda>_. Inr [''svg/a.svg'']) (\<lambda>_. Inr ()) (\<lambda>_ _. Inr ()))"

definition demo_plat_world :: "mem plat_world" where
  "demo_plat_world = \<lparr>store = mem_store, queue = [], runningScripts = [], fx = []\<rparr>"

lemma demo_entries: "check_entries [''srv'', ''tmp''] [''svg/a.svg'', ''conf/''] = Inr ()"
  "check_entries [''srv'', ''tmp''] [''svg/a.svg'', ''../x''] = Inl (Thrown ''Invalid ZIP entry name: ../x'')"
  by code_simp+

theorem platform_requests_confined_witness:
  "let w' = run_request demo_plat (ReqProtocols (mem_request ''t1'' [])) demo_plat_world in
     runningScripts w' = [''restartProtocols''] \<and>
     (\<exists>new. fx w' = fx demo_plat_world @ new \<and> (\<forall>f \<in> set new. confined demo_plat f))"
proof -
  let ?r = "ReqProtocols (mem_request ''t1'' [])"
  have svg: "list_all plain (p_svg demo_plat)" "p_svg demo_plat \<noteq> []" by (simp_all add: demo_plat_def plat_env.defs env.defs plain_def)
  have "(plat_step demo_plat)\<^sup>*\<^sup>* ([], demo_plat_world)
      ([] @ started demo_plat demo_plat_world (run_request demo_plat ?r demo_plat_world), run_request demo_plat ?r demo_plat_world)"
    by (rule r_into_rtranclp, rule plat_request)
  from platform_requests_confined[OF this _ svg] have
    "\<exists>new. fx (run_request demo_plat ?r demo_plat_world) = fx demo_plat_world @ new \<and> (\<forall>f \<in> set new. confined demo_plat f)"
    by (simp add: demo_plat_world_def)
  moreover have "runningScripts (run_request demo_plat ?r demo_plat_world) = [''restartProtocols'']"
    by (simp add: restartProtocols_def run_script_def spawnPlatformScript_def PLATFORM_SCRIPTS_def demo_plat_def demo_plat_world_def
        plat_env.defs env.defs script_command_def set_insert_def handler_simps tryE_def seqE_def bindE_def modifyE_def registerUserAction_def Let_def)
  ultimately show ?thesis by (simp add: Let_def)
qed

end
