(* ===== verification/Instances.thy ===== *)
theory Instances
  imports Admin
begin

text \<open>
  Driver instances and their services: the handlers of \<open>auth.controller.js\<close> that create, change
  and delete instances, all of \<open>processManagement.controller.js\<close>, and the listings of the
  administration. The state of the operating system (\<open>os_state\<close>) is that of the service backend.
\<close>

section \<open>World\<close>

record ('s, 'o) svc_world = "('s, 'o) node_world" +
  os_state :: 'o
  statusCache :: "jsval option"
  statusCacheTime :: int

record 's inst_env = "'s admin_env" +
  di_new :: "'s \<Rightarrow> js_error + jsval \<times> 's"
  di_find :: "doc \<Rightarrow> 's \<Rightarrow> js_error + doc option"
  di_update :: "jsval \<Rightarrow> doc \<Rightarrow> 's \<Rightarrow> js_error + 's"
  di_delete :: "jsval \<Rightarrow> 's \<Rightarrow> js_error + 's"
  settings_write :: "doc \<Rightarrow> 's \<Rightarrow> js_error + doc \<times> 's"
  ls_count :: "string \<Rightarrow> jsval \<Rightarrow> 's \<Rightarrow> js_error + jsval"
  ls_find :: "string \<Rightarrow> jsval \<Rightarrow> jsval \<Rightarrow> jsval \<Rightarrow> doc \<Rightarrow> 's \<Rightarrow> js_error + doc list"
  ls_users :: "'s \<Rightarrow> js_error + doc list"
  ls_roles :: "'s \<Rightarrow> js_error + doc list"
  ls_groups :: "'s \<Rightarrow> js_error + jsval list"

definition inst_view :: "doc \<Rightarrow> instance_doc" where
  "inst_view d = \<lparr>i_driver = (case fld d ''protocolDriver'' of Str s \<Rightarrow> s | _ \<Rightarrow> []), i_number = fld d ''protocolDriverInstanceNumber'',
     i_logLevel = fld d ''logLevel'', i_enabled = fld d ''enabled'', i_nodeNames = fld d ''nodeNames'', i_pm = fld d ''processManagement''\<rparr>"

abbreviation audit :: "'s inst_env \<Rightarrow> request \<Rightarrow> string \<Rightarrow> ('s, 'o, 'z) svc_world_scheme \<Rightarrow> ('s, 'o, 'z) svc_world_scheme" where
  "audit e \<equiv> registerUserAction (env.truncate e)"

section \<open>Driver instances\<close>

text \<open>The best effort part: with the setting on, an operation on the services whose exception becomes a
  warning. The results of the operations have no field \<open>error\<close>.\<close>

definition service_hook :: "'s inst_env \<Rightarrow> ('o \<Rightarrow> (js_error + 'r) \<times> 'o) option \<Rightarrow> ('s, 'o) svc_world \<Rightarrow> jsval \<times> ('s, 'o) svc_world" where
  "service_hook e operation w =
     (let (st, cache) = getSettings (now e) (settings_found e (store w)) (settingsCache w); w1 = w\<lparr>settingsCache := cache\<rparr> in
      if \<not> truthy (autoManageServices st) then (Undef, w1)
      else (case operation of None \<Rightarrow> (Undef, w1)
        | Some f \<Rightarrow> (case f (os_state w1) of
            (Inl err, os) \<Rightarrow> (err_val err, w1\<lparr>os_state := os\<rparr>)
          | (Inr _, os) \<Rightarrow> (Undef, w1\<lparr>os_state := os\<rparr>))))"

definition hook_reply :: "jsval \<Rightarrow> reply" where
  "hook_reply warning = send 200 (Obj [(''error'', Bool False), (''processWarning'', warning)])"

definition deleteProtocolDriverInstance ::
  "'s inst_env \<Rightarrow> 'o pm_config \<Rightarrow> request \<Rightarrow> ('s, 'o) svc_world \<Rightarrow> reply \<times> ('s, 'o) svc_world" where
  "deleteProtocolDriverInstance e c req w =
     (let w0 = audit e req ''deleteProtocolDriverInstance'' w; i = fld (rbody req) ''_id'' in
      case di_find e [(''_id'', i)] (store w0) of Inl err \<Rightarrow> (send_error (err_val err), w0)
      | Inr d \<Rightarrow> (case di_delete e i (store w0) of Inl err \<Rightarrow> (send_error (err_val err), w0)
        | Inr s \<Rightarrow> (case service_hook e (map_option (\<lambda>x. pm_removeService c (inst_view x)) d) (w0\<lparr>store := s\<rparr>) of
            (warning, w1) \<Rightarrow> (hook_reply warning, w1))))"

definition createProtocolDriverInstance :: "'s inst_env \<Rightarrow> request \<Rightarrow> ('s, 'o) svc_world \<Rightarrow> reply \<times> ('s, 'o) svc_world" where
  "createProtocolDriverInstance e req w = (case di_new e (store w) of Inl err \<Rightarrow> (send_error (err_val err), w)
     | Inr (i, s) \<Rightarrow> (send 200 (Obj [(''_id'', i), (''error'', Bool False)]),
         audit e (req\<lparr>rbody := [(''_id'', i)]\<rparr>) ''createProtocolDriverInstance'' (w\<lparr>store := s\<rparr>)))"

definition floor_field :: "string \<Rightarrow> doc \<Rightarrow> doc" where
  "floor_field k b = aupd k (Num (num_floor (to_number (fld b k)))) b"

text \<open>\<open>applyInstanceUpdate(oldDoc, newDoc)\<close>; reading a property of a document that is gone throws.\<close>

definition apply_update_of :: "'o pm_config \<Rightarrow> doc option \<Rightarrow> js_error + doc option \<Rightarrow> 'o \<Rightarrow> (js_error + pm_result) \<times> 'o" where
  "apply_update_of c old found = (case found of
       Inl err \<Rightarrow> throwE err
     | Inr None \<Rightarrow> if the_backend c = None then returnE (Skipped ''no backend on this host'') else throwE TypeError
     | Inr (Some d) \<Rightarrow> pm_applyInstanceUpdate c (map_option inst_view old) (inst_view d))"

definition updateProtocolDriverInstance ::
  "'s inst_env \<Rightarrow> 'o pm_config \<Rightarrow> request \<Rightarrow> ('s, 'o) svc_world \<Rightarrow> reply \<times> ('s, 'o) svc_world" where
  "updateProtocolDriverInstance e c req w =
     (let b = floor_field ''logLevel'' (floor_field ''protocolDriverInstanceNumber'' (rbody req)); i = fld b ''_id'' in
      case di_find e [(''_id'', i)] (store w) of Inl err \<Rightarrow> (send_error (err_val err), w)
      | Inr old \<Rightarrow> (case di_update e i b (store w) of Inl err \<Rightarrow> (send_error (err_val err), w)
        | Inr s \<Rightarrow>
            (let w0 = audit e (req\<lparr>rbody := b\<rparr>) ''updateProtocolDriverInstance'' (w\<lparr>store := s\<rparr>) in
             case service_hook e (Some (apply_update_of c old (di_find e [(''_id'', i)] s))) w0 of
               (warning, w1) \<Rightarrow> (hook_reply warning, w1))))"

section \<open>Control of the services\<close>

definition instance_filter :: "request \<Rightarrow> doc" where
  "instance_filter req = (if truthy (fld (rbody req) ''_id'') then [(''_id'', fld (rbody req) ''_id'')]
     else [(''protocolDriver'', fld (rbody req) ''protocolDriver''),
       (''protocolDriverInstanceNumber'', Num (num_trunc (to_number (fld (rbody req) ''protocolDriverInstanceNumber''))))])"

definition actionHandler ::
  "'s inst_env \<Rightarrow> string \<Rightarrow> (instance_doc \<Rightarrow> 'o \<Rightarrow> (js_error + string) \<times> 'o) \<Rightarrow> request \<Rightarrow> ('s, 'o) svc_world \<Rightarrow> reply \<times> ('s, 'o) svc_world" where
  "actionHandler e name operation req w = (case di_find e (instance_filter req) (store w) of
       Inl err \<Rightarrow> (send_error (err_val err), w)
     | Inr None \<Rightarrow> (send_error (Str ''Instance not found''), w)
     | Inr (Some d) \<Rightarrow>
         (let w0 = audit e req name w in
          case operation (inst_view d) (os_state w0) of
            (Inl err, os) \<Rightarrow> (send_error (err_val err), w0\<lparr>os_state := os\<rparr>)
          | (Inr r, os) \<Rightarrow>
              (send 200 (Obj [(''error'', Bool False), (''result'', Obj [(''action'', Str r)])]),
               w0\<lparr>os_state := os, scheduler := clearPending (i_driver (inst_view d)) (i_number (inst_view d)) (scheduler w0)\<rparr>)))"

definition startProtocolDriverInstance :: "'s inst_env \<Rightarrow> 'o pm_config \<Rightarrow> request \<Rightarrow> ('s, 'o) svc_world \<Rightarrow> reply \<times> ('s, 'o) svc_world" where
  "startProtocolDriverInstance e c = actionHandler e ''startProtocolDriverInstance'' (pm_start c)"

definition stopProtocolDriverInstance :: "'s inst_env \<Rightarrow> 'o pm_config \<Rightarrow> request \<Rightarrow> ('s, 'o) svc_world \<Rightarrow> reply \<times> ('s, 'o) svc_world" where
  "stopProtocolDriverInstance e c = actionHandler e ''stopProtocolDriverInstance'' (pm_stop c)"

definition restartProtocolDriverInstance :: "'s inst_env \<Rightarrow> 'o pm_config \<Rightarrow> request \<Rightarrow> ('s, 'o) svc_world \<Rightarrow> reply \<times> ('s, 'o) svc_world" where
  "restartProtocolDriverInstance e c = actionHandler e ''restartProtocolDriverInstance'' (pm_restart c)"

text \<open>The status of one instance as listed.\<close>

definition status_name :: "'o pm_config \<Rightarrow> instance_doc \<Rightarrow> string" where
  "status_name c d = (case (isManageable c d, buildServiceSpec (pm_host c) d) of
       (None, Some s) \<Rightarrow> s_serviceName s
     | _ \<Rightarrow> (case serviceBaseName (pm_host c) (i_driver d) (i_number d) of None \<Rightarrow> []
         | Some b \<Rightarrow> if is_win (pm_host c) \<and> b \<noteq> [] then ''JSON_SCADA_'' @ b else b))"

definition status_item :: "'o pm_config \<Rightarrow> sched \<Rightarrow> doc \<Rightarrow> 'o \<Rightarrow> jsval \<times> 'o" where
  "status_item c sc d os = (let i = inst_view d; (st, os') = pm_status c i os in
     (Obj [(''protocolDriver'', fld d ''protocolDriver''), (''protocolDriverInstanceNumber'', fld d ''protocolDriverInstanceNumber''),
        (''serviceName'', Str (status_name c i)), (''manageable'', Bool (isManageable c i = None \<and> buildServiceSpec (pm_host c) i \<noteq> None)),
        (''reason'', Str (case isManageable c i of None \<Rightarrow> [] | Some r \<Rightarrow> r)), (''installed'', Bool (st_installed st)),
        (''state'', Str (st_state st)), (''startMode'', Str (st_startMode st)), (''node'', Str (pm_nodeName c)),
        (''restartPending'', Bool (isPending (i_driver i) (i_number i) sc))], os'))"

fun status_items :: "'o pm_config \<Rightarrow> sched \<Rightarrow> doc list \<Rightarrow> 'o \<Rightarrow> jsval list \<times> 'o" where
  "status_items c sc [] os = ([], os)"
| "status_items c sc (d # ds) os = (case status_item c sc d os of (v, os1) \<Rightarrow> (case status_items c sc ds os1 of (vs, os2) \<Rightarrow> (v # vs, os2)))"

definition STATUS_TTL_MS :: int where "STATUS_TTL_MS = 3000"

definition listDriverProcessStatus :: "'s inst_env \<Rightarrow> 'o pm_config \<Rightarrow> ('s, 'o) svc_world \<Rightarrow> reply \<times> ('s, 'o) svc_world" where
  "listDriverProcessStatus e c w = (case (if now e - statusCacheTime w < STATUS_TTL_MS then statusCache w else None) of
       Some v \<Rightarrow> (send 200 v, w)
     | None \<Rightarrow> (case inst_all e (store w) of Inl err \<Rightarrow> (send_error (err_val err), w)
         | Inr ds \<Rightarrow> (case status_items c (scheduler w) ds (os_state w) of (vs, os) \<Rightarrow>
             (let payload = Obj [(''enabled'', Bool (pm_isEnabled c)), (''localNode'', Str (pm_nodeName c)), (''statuses'', Arr vs)] in
              (send 200 payload, w\<lparr>os_state := os, statusCache := Some payload, statusCacheTime := now e\<rparr>)))))"

definition reconcile_val :: "reconcile_result option \<Rightarrow> jsval" where
  "reconcile_val ro = (case ro of
       None \<Rightarrow> Obj [(''skipped'', Bool True), (''reason'', Str ''no backend on this host'')]
     | Some r \<Rightarrow> Obj [
         (''ensured'', Arr (map (\<lambda>(n, a). Obj [(''serviceName'', Str n), (''action'', Str a)]) (rc_ensured r))),
         (''errors'', Arr (map (\<lambda>(n, x). Obj [(''serviceName'', Str n), (''error'', err_val x)]) (rc_errors r))),
         (''orphans'', Arr (map Str (rc_orphans r))), (''removed'', Arr (map Str (rc_removed r)))])"

definition syncDriverServices :: "'s inst_env \<Rightarrow> 'o pm_config \<Rightarrow> request \<Rightarrow> ('s, 'o) svc_world \<Rightarrow> reply \<times> ('s, 'o) svc_world" where
  "syncDriverServices e c req w =
     (let w0 = audit e req ''syncDriverServices'' w in
      case inst_all e (store w0) of Inl err \<Rightarrow> (send_error (err_val err), w0)
      | Inr ds \<Rightarrow> (case pm_reconcileAll c (map inst_view ds) (fld (rbody req) ''removeOrphans'' = Bool True) (os_state w0) of
          (r, os) \<Rightarrow> (send 200 (Obj [(''error'', Bool False), (''result'', reconcile_val r)]), w0\<lparr>os_state := os, statusCache := None\<rparr>)))"

definition settings_val :: "settings \<Rightarrow> jsval" where
  "settings_val st = Obj [(''autoManageServices'', autoManageServices st), (''autoRestartOnConnectionChange'', autoRestartOnConnectionChange st)]"

definition getSystemSettings :: "'s inst_env \<Rightarrow> 'o pm_config \<Rightarrow> ('s, 'o) svc_world \<Rightarrow> reply \<times> ('s, 'o) svc_world" where
  "getSystemSettings e c w = (case getSettings (now e) (settings_found e (store w)) (settingsCache w) of (st, cache) \<Rightarrow>
     (send 200 (Obj [(''error'', Bool False), (''settings'', settings_val st),
        (''processManagementEnabled'', Bool (pm_isEnabled c)), (''localNode'', Str (pm_nodeName c))]), w\<lparr>settingsCache := cache\<rparr>))"

definition updateSystemSettings :: "'s inst_env \<Rightarrow> request \<Rightarrow> ('s, 'o) svc_world \<Rightarrow> reply \<times> ('s, 'o) svc_world" where
  "updateSystemSettings e req w =
     (let w0 = audit e req ''updateSystemSettings'' w in
      case settings_write e (settings_patch (rbody req)) (store w0) of Inl err \<Rightarrow> (send_error (err_val err), w0)
      | Inr (d, s) \<Rightarrow> (case updateSettings (now e) (\<lambda>_. Inr d) (rbody req) (settingsCache w0) of
            Inl err \<Rightarrow> (send_error (err_val err), w0\<lparr>store := s\<rparr>)
          | Inr (st, cache) \<Rightarrow> (send 200 (Obj [(''error'', Bool False), (''settings'', settings_val st)]), w0\<lparr>store := s, settingsCache := cache\<rparr>)))"

section \<open>Listings\<close>

text \<open>The page, and the order of a listing: by the given keys, by \<open>byKey\<close> when none is asked for.\<close>

definition list_skip :: "doc \<Rightarrow> jsval" where
  "list_skip b = Num (if has_key ''page'' b \<and> has_key ''itemsPerPage'' b
     then to_number (fld b ''itemsPerPage'') * (to_number (fld b ''page'') - num 1) else num 0)"

fun sort_keys :: "jsval list \<Rightarrow> doc \<Rightarrow> js_error + doc" where
  "sort_keys [] ord = Inr ord"
| "sort_keys (v # vs) ord = (if nullish v then Inl TypeError
     else sort_keys vs (aupd (to_string (opt_get v ''key'')) (Num (num (if opt_get v ''order'' = Str ''desc'' then - 1 else 1))) ord))"

definition list_order :: "string \<Rightarrow> doc \<Rightarrow> js_error + doc" where
  "list_order byKey b = (if \<not> has_key ''sortBy'' b then Inr [(byKey, Num (num 1))]
     else (case js_elements (fld b ''sortBy'') of Inl err \<Rightarrow> Inl err
       | Inr vs \<Rightarrow> (case sort_keys vs [] of Inl err \<Rightarrow> Inl err
           | Inr ord \<Rightarrow> Inr (if strict_eq (length_of (fld b ''sortBy'')) (Num (num 0)) then [(byKey, Num (num 1))] else ord))))"

text \<open>One page of a collection and the count; an exception before the \<open>try\<close> rejects the handler.\<close>

definition list_page :: "'s inst_env \<Rightarrow> string \<Rightarrow> string \<Rightarrow> string \<Rightarrow> jsval \<Rightarrow> doc \<Rightarrow> 's \<Rightarrow> js_error + reply" where
  "list_page e coll name byKey filtr b s = (case list_order byKey b of Inl err \<Rightarrow> Inl err
     | Inr ord \<Rightarrow> (case ls_count e coll filtr s of Inl err \<Rightarrow> Inr (send_error (err_val err))
         | Inr n \<Rightarrow> (case ls_find e coll filtr (list_skip b) (js_or (fld b ''itemsPerPage'') (Num (num 10))) ord s of
               Inl err \<Rightarrow> Inr (send_error (err_val err))
             | Inr ds \<Rightarrow> Inr (send 200 (Obj [(name, Arr (map Obj ds)), (''countTotal'', n)])))))"

definition listUserActions :: "'s inst_env \<Rightarrow> request \<Rightarrow> 's \<Rightarrow> js_error + reply" where
  "listUserActions e req = list_page e ''userActions'' ''userActions'' ''timeTag''
     (if has_key ''filter'' (rbody req) then fld (rbody req) ''filter'' else Obj []) (rbody req)"

text \<open>The filter of a request leaves out the two internal points; without a filter the handler throws.\<close>

definition tags_filter :: "doc \<Rightarrow> js_error + jsval" where
  "tags_filter b = (case fld b ''filter'' of
       Obj f \<Rightarrow> Inr (Obj (aupd ''_id'' (Obj [(''$nin'', Arr [Num (num (- 1)), Num (num (- 2))])]) f))
     | Arr vs \<Rightarrow> Inr (Arr vs) | Date t \<Rightarrow> Inr (Date t) | _ \<Rightarrow> Inl TypeError)"

definition listTags :: "'s inst_env \<Rightarrow> request \<Rightarrow> 's \<Rightarrow> js_error + reply" where
  "listTags e req s = (case tags_filter (rbody req) of Inl err \<Rightarrow> Inl err | Inr f \<Rightarrow> list_page e ''realtimeData'' ''tags'' ''tag'' f (rbody req) s)"

definition send_list :: "js_error + jsval list \<Rightarrow> reply" where
  "send_list r = (case r of Inl err \<Rightarrow> send_error (err_val err) | Inr vs \<Rightarrow> send 200 (Arr vs))"

definition listUsers :: "'s inst_env \<Rightarrow> 's \<Rightarrow> reply" where
  "listUsers e s = send_list (map_sum id (map (\<lambda>u. Obj (aupd ''password'' Null u))) (ls_users e s))"

definition listRoles :: "'s inst_env \<Rightarrow> 's \<Rightarrow> reply" where
  "listRoles e s = send_list (map_sum id (map Obj) (ls_roles e s))"

definition listGroup1 :: "'s inst_env \<Rightarrow> 's \<Rightarrow> reply" where
  "listGroup1 e s = send_list (ls_groups e s)"

definition listProtocolConnections :: "'s inst_env \<Rightarrow> 's \<Rightarrow> reply" where
  "listProtocolConnections e s = send_list (map_sum id (map Obj) (conn_all e s))"

definition listProtocolDriverInstances :: "'s inst_env \<Rightarrow> 's \<Rightarrow> reply" where
  "listProtocolDriverInstances e s = send_list (map_sum id (map Obj) (inst_all e s))"

definition getProtocolConnectionModel :: "'s inst_env \<Rightarrow> 's \<Rightarrow> reply" where
  "getProtocolConnectionModel e s = (case conn_all e s of Inl err \<Rightarrow> send_error (err_val err)
     | Inr cs \<Rightarrow> send 200 (Obj [(''error'', Bool False), (''protocolConnection'', Obj (new_connection cs))]))"

definition addXWebAuthUser :: "'s env \<Rightarrow> request \<Rightarrow> request" where
  "addXWebAuthUser e req = (case checkToken e req of None \<Rightarrow> req
     | Some ck \<Rightarrow> req\<lparr>headers := aupd ''X-WEBAUTH-USER'' (Str (c_username ck)) (headers req)\<rparr>)"

end
