(* ===== verification/InstanceLaws.thy ===== *)
theory InstanceLaws
  imports Instances
begin

text \<open>
  Laws of the driver instances: a change of an instance is stored whatever its service does, and
  which services a change reaches.
\<close>

section \<open>The best effort part\<close>

lemma service_hook_store:
  "store (snd (service_hook e f w)) = store w" "queue (snd (service_hook e f w)) = queue w"
  by (simp_all add: service_hook_def Let_def split: prod.split option.split sum.split)

lemma floored_id: "fld (floor_field ''logLevel'' (floor_field ''protocolDriverInstanceNumber'' b)) ''_id'' = fld b ''_id''"
  by (simp add: floor_field_def)

lemma hook_world:
  assumes "service_hook e f w0 = (x, v)" "store w0 = s" "map a_action (queue w0) = as"
  shows "store v = s \<and> map a_action (queue v) = as"
  using service_hook_store[of e f w0] assms by simp

lemma update_with_warning:
  assumes "di_find e [(''_id'', fld (rbody req) ''_id'')] (store w) = Inr old"
    "di_update e (fld (rbody req) ''_id'') (floor_field ''logLevel'' (floor_field ''protocolDriverInstanceNumber'' (rbody req))) (store w) = Inr s"
  obtains x v where "updateProtocolDriverInstance e c req w = (hook_reply x, v)" "store v = s"
    "map a_action (queue v) = map a_action (queue w) @ [''updateProtocolDriverInstance'']"
proof -
  let ?w = "audit e (req\<lparr>rbody := floor_field ''logLevel'' (floor_field ''protocolDriverInstanceNumber'' (rbody req))\<rparr>)
      ''updateProtocolDriverInstance'' (w\<lparr>store := s\<rparr>)"
  obtain x v where h: "service_hook e (Some (apply_update_of c old (di_find e [(''_id'', fld (rbody req) ''_id'')] s))) ?w = (x, v)" by fastforce
  have "updateProtocolDriverInstance e c req w = (hook_reply x, v)"
    using assms h by (simp add: updateProtocolDriverInstance_def floored_id Let_def)
  moreover from hook_world[OF h refl refl] have "store v = s" "map a_action (queue v) = map a_action (queue w) @ [''updateProtocolDriverInstance'']"
    by (simp_all add: registerUserAction_def)
  ultimately show ?thesis by (rule that)
qed

lemma delete_with_warning:
  assumes "di_find e [(''_id'', fld (rbody req) ''_id'')] (store w) = Inr old" "di_delete e (fld (rbody req) ''_id'') (store w) = Inr s"
  obtains x v where "deleteProtocolDriverInstance e c req w = (hook_reply x, v)" "store v = s"
    "map a_action (queue v) = map a_action (queue w) @ [''deleteProtocolDriverInstance'']"
proof -
  let ?w = "(audit e req ''deleteProtocolDriverInstance'' w)\<lparr>store := s\<rparr>"
  obtain x v where h: "service_hook e (map_option (\<lambda>x. pm_removeService c (inst_view x)) old) ?w = (x, v)" by fastforce
  have "deleteProtocolDriverInstance e c req w = (hook_reply x, v)"
    using assms h by (simp add: deleteProtocolDriverInstance_def registerUserAction_def Let_def)
  moreover from hook_world[OF h refl refl] have "store v = s" "map a_action (queue v) = map a_action (queue w) @ [''deleteProtocolDriverInstance'']"
    by (simp_all add: registerUserAction_def)
  ultimately show ?thesis by (rule that)
qed

text \<open>C18. A change of an instance never fails because of its service: once the documents are read and
  written, updating and deleting an instance reply without an error whatever the service backend
  answers or throws (at most with a warning), the store is the one with the change and the action is
  recorded.\<close>

theorem service_failure_is_a_warning:
  assumes "di_find e [(''_id'', fld (rbody req) ''_id'')] (store w) = Inr old"
    "di_update e (fld (rbody req) ''_id'') (floor_field ''logLevel'' (floor_field ''protocolDriverInstanceNumber'' (rbody req))) (store w) = Inr s"
    "di_delete e (fld (rbody req) ''_id'') (store w) = Inr s'"
  shows "(\<exists>warning w'. updateProtocolDriverInstance e c req w = (hook_reply warning, w') \<and> store w' = s \<and>
        map a_action (queue w') = map a_action (queue w) @ [''updateProtocolDriverInstance'']) \<and>
      (\<exists>warning w'. deleteProtocolDriverInstance e c req w = (hook_reply warning, w') \<and> store w' = s' \<and>
        map a_action (queue w') = map a_action (queue w) @ [''deleteProtocolDriverInstance''])"
  using update_with_warning[OF assms(1,2)] delete_with_warning[OF assms(1,3)] by metis

section \<open>The services a change reaches\<close>

text \<open>A backend that works for one service only.\<close>

definition only_for :: "spec \<Rightarrow> 'o backend \<Rightarrow> 'o backend" where
  "only_for s b = \<lparr>b_status = (\<lambda>x. if x = s then b_status b x else throwE TypeError), b_ensure = (\<lambda>x. if x = s then b_ensure b x else (\<lambda>_. throwE TypeError)),
     b_remove = (\<lambda>x. if x = s then b_remove b x else throwE TypeError), b_start = (\<lambda>x. if x = s then b_start b x else throwE TypeError),
     b_stop = (\<lambda>x. if x = s then b_stop b x else throwE TypeError), b_restart = (\<lambda>x. if x = s then b_restart b x else throwE TypeError),
     b_setManual = (\<lambda>x. if x = s then b_setManual b x else throwE TypeError), b_list = b_list b\<rparr>"

lemma only_for_simps [simp]:
  "b_status (only_for s b) s = b_status b s" "b_ensure (only_for s b) s = b_ensure b s" "b_remove (only_for s b) s = b_remove b s"
  "b_start (only_for s b) s = b_start b s" "b_stop (only_for s b) s = b_stop b s" "b_restart (only_for s b) s = b_restart b s"
  "b_setManual (only_for s b) s = b_setManual b s"
  by (simp_all add: only_for_def)

lemma applyInstanceUpdate_only_new:
  assumes "i_driver old = i_driver d" "buildServiceSpec (pm_host c) d = Some s"
  shows "pm_applyInstanceUpdate (with_backend b c) (Some old) d = pm_applyInstanceUpdate (with_backend (only_for s b) c) (Some old) d"
proof
  fix w
  have m: "isManageable (with_backend b c) d = isManageable (with_backend (only_for s b) c) d" by (rule isManageable_with_backend)
  have r: "retire_old (with_backend b' c) b' (Some old) d w = w" for b' using assms(1) by (simp add: retire_old_def)
  show "pm_applyInstanceUpdate (with_backend b c) (Some old) d w = pm_applyInstanceUpdate (with_backend (only_for s b) c) (Some old) d w"
  proof (cases "pm_isEnabled c")
    case True
    then show ?thesis
      by (simp only: pm_applyInstanceUpdate_def m with_backend_simps assms(2) Let_def True if_True option.case only_for_simps r
          cong: if_cong option.case_cong)
  next
    case False
    then show ?thesis by (simp add: pm_applyInstanceUpdate_def)
  qed
qed

text \<open>Renumbering leaves the former service behind: an update of an instance that keeps its driver does
  the same whatever the backend does for any service but that of the new document. So the
  service of the former number is neither stopped nor removed.\<close>

theorem renumbered_instance_keeps_its_service:
  assumes "di_find e [(''_id'', fld (rbody req) ''_id'')] (store w) = Inr (Some old)"
    "di_update e (fld (rbody req) ''_id'') (floor_field ''logLevel'' (floor_field ''protocolDriverInstanceNumber'' (rbody req))) (store w) = Inr s"
    "di_find e [(''_id'', fld (rbody req) ''_id'')] s = Inr (Some new)"
    "i_driver (inst_view old) = i_driver (inst_view new)" "buildServiceSpec (pm_host c) (inst_view new) = Some sp"
  shows "updateProtocolDriverInstance e (with_backend b c) req w = updateProtocolDriverInstance e (with_backend (only_for sp b) c) req w"
proof -
  have "apply_update_of (with_backend b c) (Some old) (Inr (Some new)) = apply_update_of (with_backend (only_for sp b) c) (Some old) (Inr (Some new))"
    using applyInstanceUpdate_only_new[OF assms(4,5)] by (simp add: apply_update_of_def)
  moreover have "fld (floor_field ''logLevel'' (floor_field ''protocolDriverInstanceNumber'' b)) ''_id'' = fld b ''_id''" for b
    by (simp add: floor_field_def)
  ultimately show ?thesis using assms(1-3) by (simp add: updateProtocolDriverInstance_def Let_def)
qed

section \<open>An installation\<close>

text \<open>One instance of a driver in the collection; updates and deletions of it succeed. A backend that always throws.\<close>

definition demo_doc :: "jsval \<Rightarrow> doc" where
  "demo_doc n = [(''_id'', Str ''i1''), (''protocolDriver'', Str ''DNP3''), (''protocolDriverInstanceNumber'', n), (''enabled'', Bool True)]"

definition demo_inst_env :: "doc list inst_env" where
  "demo_inst_env = \<lparr>now = 0, jwt_verify = (\<lambda>_. Inl ''none''), jwt_sign = (\<lambda>_ _. Inl TypeError), bcrypt_hash = (\<lambda>_. Inl TypeError),
     bcrypt_compare = (\<lambda>_ _. Inl TypeError), user_byName = (\<lambda>_ _. Inr None), user_byId = (\<lambda>_ _. Inr None), user_withRole = (\<lambda>_ _. Inr []),
     user_new = (\<lambda>_ _. Inl TypeError), user_save = (\<lambda>_ s. Inr s), user_update = (\<lambda>_ _ s. Inr s), user_delete = (\<lambda>_ s. Inr s),
     role_byIds = (\<lambda>_ _. Inr []), role_populate = (\<lambda>_ _. Inr []), role_byName = (\<lambda>_ _. Inr None), role_byNames = (\<lambda>_ _. Inr []),
     role_new = (\<lambda>_ _. Inl TypeError), role_save = (\<lambda>_ s. Inr s), role_update = (\<lambda>_ _ s. Inr s), role_delete = (\<lambda>_ s. Inr s),
     tag_byId = (\<lambda>_ _. Inr None), tag_biggest = (\<lambda>_. Inr []), tag_save = (\<lambda>_ s. Inr s), tag_update = (\<lambda>_ _ s. Inr s), tag_delete = (\<lambda>_ s. Inr s),
     tag_deleteOfConnection = (\<lambda>_ s. Inr s), conn_all = (\<lambda>_. Inr []), conn_save = (\<lambda>_ s. Inr (Undef, s)), conn_update = (\<lambda>_ _ s. Inr (None, s)),
     conn_delete = (\<lambda>_ s. Inr (None, s)), inst_all = (\<lambda>s. Inr s), inst_of = (\<lambda>_ _ _. Inr None), settings_found = (\<lambda>_. Inr None),
     di_new = (\<lambda>s. Inl TypeError), di_find = (\<lambda>q s. Inr (List.find (\<lambda>d. fld d ''_id'' = fld q ''_id'') s)),
     di_update = (\<lambda>i b s. Inr (map (\<lambda>d. if fld d ''_id'' = i then b else d) s)), di_delete = (\<lambda>i s. Inr (filter (\<lambda>d. fld d ''_id'' \<noteq> i) s)),
     settings_write = (\<lambda>d s. Inr (d, s)), ls_count = (\<lambda>_ _ _. Inl TypeError), ls_find = (\<lambda>_ _ _ _ _ _. Inl TypeError),
     ls_users = (\<lambda>_. Inr []), ls_roles = (\<lambda>_. Inr []), ls_groups = (\<lambda>_. Inr [])\<rparr>"

definition demo_svc_world :: "(doc list, unit) svc_world" where
  "demo_svc_world = \<lparr>store = [demo_doc (Num (num 2))], queue = [], scheduler = \<lparr>timers = [], pending = []\<rparr>, settingsCache = \<lparr>sc_value = None, sc_time = 0\<rparr>,
     os_state = (), statusCache = None, statusCacheTime = 0\<rparr>"

lemma demo_fields:
  "fld (demo_doc n) ''_id'' = Str ''i1''" "fld (rbody (mem_request t (demo_doc n))) ''_id'' = Str ''i1''" "rbody (mem_request t b) = b"
  by (simp_all add: demo_doc_def mem_request_def fld_def)

lemma demo_reads:
  "di_find demo_inst_env [(''_id'', Str ''i1'')] (store demo_svc_world) = Inr (Some (demo_doc (Num (num 2))))"
  "di_update demo_inst_env (Str ''i1'') b (store demo_svc_world) = Inr [b]"
  "di_delete demo_inst_env (Str ''i1'') (store demo_svc_world) = Inr []"
  "fld b ''_id'' = Str ''i1'' \<Longrightarrow> di_find demo_inst_env [(''_id'', Str ''i1'')] [b] = Inr (Some b)"
  by (simp_all add: demo_inst_env_def demo_svc_world_def demo_fields(1))

theorem service_failure_is_a_warning_witness:
  "\<exists>x w'. deleteProtocolDriverInstance demo_inst_env demo_pm (mem_request ''t1'' (demo_doc (Num (num 2)))) demo_svc_world = (hook_reply x, w') \<and> store w' = []"
proof -
  let ?q = "mem_request ''t1'' (demo_doc (Num (num 2)))"
  have "di_find demo_inst_env [(''_id'', fld (rbody ?q) ''_id'')] (store demo_svc_world) = Inr (Some (demo_doc (Num (num 2))))"
    "di_delete demo_inst_env (fld (rbody ?q) ''_id'') (store demo_svc_world) = Inr []"
    by (simp_all only: demo_fields(2) demo_reads)
  from service_failure_is_a_warning[OF this(1) _ this(2), unfolded demo_fields(2), OF demo_reads(2)]
  show ?thesis by blast
qed

theorem renumbered_instance_keeps_its_service_witness:
  "\<exists>sp. s_driver sp = ''DNP3'' \<and>
     updateProtocolDriverInstance demo_inst_env (with_backend (the (pm_backend demo_pm)) demo_pm) (mem_request ''t1'' (demo_doc (Num (num 3)))) demo_svc_world =
     updateProtocolDriverInstance demo_inst_env (with_backend (only_for sp (the (pm_backend demo_pm))) demo_pm) (mem_request ''t1'' (demo_doc (Num (num 3)))) demo_svc_world"
proof -
  let ?q = "mem_request ''t1'' (demo_doc (Num (num 3)))"
  define new where "new = floor_field ''logLevel'' (floor_field ''protocolDriverInstanceNumber'' (rbody ?q))"
  have i: "fld new ''_id'' = Str ''i1''" by (simp add: new_def floored_id demo_fields(2))
  have d: "i_driver (inst_view new) = ''DNP3''" "i_driver (inst_view (demo_doc (Num (num 2)))) = ''DNP3''"
    by (simp_all add: new_def inst_view_def floor_field_def mem_request_def) (simp_all add: demo_doc_def fld_def)
  have m: "map_of (CATALOG (pm_host demo_pm)) ''DNP3'' = Some (entry ''dnp3client'' (Exe ''{bin}/dnp3-client'') False None ''manual'')"
    by (simp add: CATALOG_def)
  have "manageability (pm_host demo_pm) ''DNP3'' = None" by (simp add: manageability_def NOT_MANAGEABLE_def m) (simp add: entry_def)
  then obtain sp where sp: "buildServiceSpec (pm_host demo_pm) (inst_view new) = Some sp" "s_driver sp = ''DNP3''"
    by (simp add: buildServiceSpec_def d m Let_def entry_def)
  have r: "di_find demo_inst_env [(''_id'', fld (rbody ?q) ''_id'')] (store demo_svc_world) = Inr (Some (demo_doc (Num (num 2))))"
    "di_update demo_inst_env (fld (rbody ?q) ''_id'') (floor_field ''logLevel'' (floor_field ''protocolDriverInstanceNumber'' (rbody ?q)))
       (store demo_svc_world) = Inr [new]"
    "di_find demo_inst_env [(''_id'', fld (rbody ?q) ''_id'')] [new] = Inr (Some new)"
    unfolding demo_fields(2) new_def[symmetric] using demo_reads i by simp_all
  have "i_driver (inst_view (demo_doc (Num (num 2)))) = i_driver (inst_view new)" by (simp only: d)
  from renumbered_instance_keeps_its_service[OF r this sp(1)] sp(2) show ?thesis by blast
qed

end
