(* ===== verification/Backends.thy ===== *)
theory Backends
  imports Projects
begin

text \<open>
  The two service backends of the process manager: \<open>supervisor.js\<close> (supervisord, with a
  configuration file per program) and \<open>nssm.js\<close> (the Windows services), as values of the record
  \<open>backend\<close>. What the tools answer is a parameter; the commands issued (\<open>cmds\<close>) and the
  files of the managed directory are the state.
\<close>

section \<open>Searching in texts\<close>

text \<open>\<open>s.match(re)\<close>: the first position at which the expression, as a function of the rest, matches.\<close>

fun first_match :: "(string \<Rightarrow> 'a option) \<Rightarrow> string \<Rightarrow> 'a option" where
  "first_match f [] = f []"
| "first_match f (c # s) = (case f (c # s) of Some x \<Rightarrow> Some x | None \<Rightarrow> first_match f s)"

text \<open>A literal, also without regard to case; it is written in lower case.\<close>

definition eat :: "string \<Rightarrow> string \<Rightarrow> string option" where
  "eat p s = (if starts_with p s then Some (drop (length p) s) else None)"

definition eat_i :: "string \<Rightarrow> string \<Rightarrow> string option" where
  "eat_i p s = (if starts_with p (to_lower s) then Some (drop (length p) s) else None)"

definition matches_i :: "string \<Rightarrow> string \<Rightarrow> bool" where
  "matches_i p s = (first_match (eat_i p) s \<noteq> None)"

definition word_char :: "char \<Rightarrow> bool" where
  "word_char c = (alnum c \<or> c = CHR ''_'')"

definition hex_digit :: "char \<Rightarrow> bool" where
  "hex_digit c = (is_digit c \<or> to_lower_char c \<in> set ''abcdef'')"

text \<open>A maximal run, not empty.\<close>

definition run_of :: "(char \<Rightarrow> bool) \<Rightarrow> string \<Rightarrow> string option" where
  "run_of p s = (let r = takeWhile p s in if r = [] then None else Some r)"

definition to_upper :: "string \<Rightarrow> string" where
  "to_upper s = map (\<lambda>c. let n = of_char c :: nat in if 97 \<le> n \<and> n \<le> 122 then char_of (n - 32) else c) s"

text \<open>\<open>s.replace(/\s+/g, ' ')\<close>; the flag says whether the last character was a space.\<close>

fun squeeze :: "bool \<Rightarrow> string \<Rightarrow> string" where
  "squeeze b [] = []"
| "squeeze b (c # s) = (if is_space c then (if b then squeeze True s else CHR '' '' # squeeze True s) else c # squeeze False s)"

section \<open>Running a tool\<close>

text \<open>The result of \<open>run\<close>: the exit code (null when the process was killed) and what was printed.\<close>

record run_result =
  r_code :: jsval
  r_out :: string
  r_err :: string

definition exit_ok :: "run_result \<Rightarrow> bool" where
  "exit_ok r = strict_eq (r_code r) (Num (num 0))"

definition errText :: "run_result \<Rightarrow> string" where
  "errText r = (let t = trim (squeeze False (if r_err r \<noteq> [] then r_err r else r_out r)) in
     if t \<noteq> [] then t else ''exit '' @ to_string (r_code r))"

definition printed :: "run_result \<Rightarrow> string" where
  "printed r = r_out r @ r_err r"

record 'x tools =
  cmds :: "(string \<times> string list) list"
  files :: "(string \<times> string) list"
  ext :: 'x

text \<open>A tool sees the files and its own state; starting it may fail.\<close>

type_synonym 'x tool = "string \<Rightarrow> string list \<Rightarrow> (string \<times> string) list \<Rightarrow> 'x \<Rightarrow> (js_error + run_result) \<times> 'x"

definition run_tool :: "'x tool \<Rightarrow> string \<Rightarrow> string list \<Rightarrow> 'x tools \<Rightarrow> (js_error + run_result) \<times> 'x tools" where
  "run_tool t cmd args w = (case t cmd args (files w) (ext w) of (r, x) \<Rightarrow> (r, w\<lparr>cmds := cmds w @ [(cmd, args)], ext := x\<rparr>))"

definition failed_unless :: "bool \<Rightarrow> string \<Rightarrow> 'x tools \<Rightarrow> (js_error + unit) \<times> 'x tools" where
  "failed_unless ok msg = (if ok then returnE () else throwE (Thrown msg))"

section \<open>Supervisor\<close>

record 'x sup_env =
  su_host :: host
  su_cwd :: "string list"
  su_managedDir :: jsval
  su_url :: string
  su_user :: string
  su_pass :: string
  su_envUrl :: string
  su_envUser :: string
  su_envPass :: string
  su_tool :: "'x tool"
  su_mkdir :: "js_error + unit"
  su_write :: "string \<Rightarrow> js_error + unit"
  su_unlink :: "string \<Rightarrow> js_error + unit"
  su_read :: "string \<Rightarrow> js_error + unit"

text \<open>\<open>a || b\<close> on texts.\<close>

definition str_or :: "string \<Rightarrow> string \<Rightarrow> string" where
  "str_or a b = (if a \<noteq> [] then a else b)"

definition ctlBaseArgs :: "'x sup_env \<Rightarrow> string list" where
  "ctlBaseArgs e = [''-s'', str_or (su_url e) (str_or (su_envUrl e) ''http://127.0.0.1:9000''),
     ''-u'', str_or (su_user e) (str_or (su_envUser e) ''admin''), ''-p'', str_or (su_pass e) (str_or (su_envPass e) ''jsonscada'')]"

definition ctl :: "'x sup_env \<Rightarrow> string list \<Rightarrow> 'x tools \<Rightarrow> (js_error + run_result) \<times> 'x tools" where
  "ctl e args = run_tool (su_tool e) ''supervisorctl'' (ctlBaseArgs e @ args)"

definition managedSupervisorDir :: "'x sup_env \<Rightarrow> string" where
  "managedSupervisorDir e = (case su_managedDir e of
       Str d \<Rightarrow> if trim d \<noteq> [] then path_text (resolve (su_cwd e) (trim d)) else confDir (su_host e) @ ''/supervisor.d''
     | _ \<Rightarrow> confDir (su_host e) @ ''/supervisor.d'')"

definition iniPath :: "'x sup_env \<Rightarrow> spec \<Rightarrow> string" where
  "iniPath e s = normPath (su_host e) (managedSupervisorDir e @ ''/'' @ s_programName s @ ''.ini'')"

definition isManaged :: "'x sup_env \<Rightarrow> spec \<Rightarrow> 'x tools \<Rightarrow> bool" where
  "isManaged e s w = has_key (iniPath e s) (files w)"

definition quoteArg :: "string \<Rightarrow> string" where
  "quoteArg a = (if list_ex is_space a then CHR 0x22 # a @ [CHR 0x22] else a)"

text \<open>The lines of a configuration file; the specification has no environment, no driver of the
  catalog declares one.\<close>

definition cmd_line :: "spec \<Rightarrow> string" where
  "cmd_line s = concat (map (\<lambda>a. quoteArg a @ '' '') (butlast (s_cmd s # s_args s))) @ quoteArg (last (s_cmd s # s_args s))"

definition ini_lines :: "spec \<Rightarrow> string \<Rightarrow> string list" where
  "ini_lines s mode =
     [''; managed by json-scada process manager - do not edit by hand'',
      ''; js-spec-hash: '' @ s_hash s,
      ''[program:'' @ s_programName s @ '']'',
      ''command='' @ cmd_line s,
      ''directory='' @ s_cwd s,
      ''autostart='' @ (if mode = ''auto'' then ''true'' else ''false''),
      ''autorestart=true'',
      ''startretries=1000'',
      ''redirect_stderr=true'',
      ''stdout_logfile='' @ s_logFile s,
      ''stdout_logfile_maxbytes=10MB'',
      ''stdout_logfile_backups=10'']"

definition renderIni :: "spec \<Rightarrow> string \<Rightarrow> string" where
  "renderIni s mode = concat (map (\<lambda>l. l @ [CHR 0x0A]) (ini_lines s mode))"

text \<open>\<open>/autostart\s*=\s*true/i\<close>.\<close>

definition autostart_at :: "string \<Rightarrow> string option" where
  "autostart_at s = (case eat_i ''autostart'' s of None \<Rightarrow> None
     | Some r \<Rightarrow> (case dropWhile is_space r of c # r' \<Rightarrow> if c = CHR ''='' then eat_i ''true'' (dropWhile is_space r') else None | [] \<Rightarrow> None))"

definition hash_at :: "string \<Rightarrow> string option" where
  "hash_at s = (case eat_i ''js-spec-hash:'' s of None \<Rightarrow> None | Some r \<Rightarrow> run_of hex_digit (dropWhile is_space r))"

definition ini_mode :: "string \<Rightarrow> string" where
  "ini_mode t = (if first_match autostart_at t \<noteq> None then ''auto'' else ''manual'')"

text \<open>The text of the file, when there is one and it can be read.\<close>

definition ini_text :: "'x sup_env \<Rightarrow> spec \<Rightarrow> 'x tools \<Rightarrow> string option" where
  "ini_text e s w = (case su_read e (iniPath e s) of Inl _ \<Rightarrow> None | Inr _ \<Rightarrow> map_of (files w) (iniPath e s))"

definition readIniStartMode :: "'x sup_env \<Rightarrow> spec \<Rightarrow> 'x tools \<Rightarrow> string" where
  "readIniStartMode e s w = (case ini_text e s w of None \<Rightarrow> ''unknown'' | Some t \<Rightarrow> ini_mode t)"

definition readIniHash :: "'x sup_env \<Rightarrow> spec \<Rightarrow> 'x tools \<Rightarrow> string option" where
  "readIniHash e s w = (case ini_text e s w of None \<Rightarrow> None | Some t \<Rightarrow> first_match hash_at t)"

text \<open>\<open>/^\S+\s+(\w+)/\<close>, the second word of a line.\<close>

definition second_word :: "string \<Rightarrow> string option" where
  "second_word l = (case run_of (\<lambda>c. \<not> is_space c) l of None \<Rightarrow> None
     | Some a \<Rightarrow> (let r = drop (length a) l; sp = takeWhile is_space r in if sp = [] then None else run_of word_char (drop (length sp) r)))"

definition parseStatus :: "run_result \<Rightarrow> string \<Rightarrow> bool \<times> string" where
  "parseStatus r prog =
     (let t = printed r in
      if matches_i ''no such process'' t then (False, ''UNKNOWN'')
      else (let line = (case List.find (\<lambda>l. starts_with prog (trim l)) (split_char (CHR 0x0A) t) of None \<Rightarrow> [] | Some l \<Rightarrow> l) in
        case second_word line of None \<Rightarrow> (False, ''UNKNOWN'')
        | Some m \<Rightarrow> (True, case map_of [(''RUNNING'', ''RUNNING''), (''STOPPED'', ''STOPPED''), (''STARTING'', ''STARTING''), (''STOPPING'', ''STOPPING''),
             (''BACKOFF'', ''BACKOFF''), (''FATAL'', ''FATAL''), (''EXITED'', ''STOPPED''), (''UNKNOWN'', ''UNKNOWN'')] (to_upper m) of
             None \<Rightarrow> ''UNKNOWN'' | Some x \<Rightarrow> x)))"

definition sup_status :: "'x sup_env \<Rightarrow> spec \<Rightarrow> 'x tools \<Rightarrow> (js_error + svc_status) \<times> 'x tools" where
  "sup_status e s = bindE (ctl e [''status'', s_programName s]) (\<lambda>r w. case parseStatus r (s_programName s) of (inst, st) \<Rightarrow>
     (Inr \<lparr>st_installed = inst, st_state = st, st_startMode = (if inst \<and> isManaged e s w then readIniStartMode e s w else ''unknown'')\<rparr>, w))"

definition legacy_program :: "spec \<Rightarrow> string \<Rightarrow> js_error" where
  "legacy_program s rest = Thrown (''program '' @ s_programName s @ '' is defined by a legacy supervisor config; '' @ rest)"

text \<open>Writing and removing the file of a program.\<close>

definition write_ini :: "'x sup_env \<Rightarrow> spec \<Rightarrow> string \<Rightarrow> 'x tools \<Rightarrow> (js_error + unit) \<times> 'x tools" where
  "write_ini e s t w = (case su_write e (iniPath e s) of Inl err \<Rightarrow> (Inl err, w) | Inr _ \<Rightarrow> (Inr (), w\<lparr>files := aupd (iniPath e s) t (files w)\<rparr>))"

definition unlink_ini :: "'x sup_env \<Rightarrow> spec \<Rightarrow> 'x tools \<Rightarrow> (js_error + unit) \<times> 'x tools" where
  "unlink_ini e s w = (case su_unlink e (iniPath e s) of Inl err \<Rightarrow> (Inl err, w) | Inr _ \<Rightarrow> (Inr (), w\<lparr>files := adel (iniPath e s) (files w)\<rparr>))"

definition ctl_checked :: "'x sup_env \<Rightarrow> string list \<Rightarrow> 'x tools \<Rightarrow> (js_error + unit) \<times> 'x tools" where
  "ctl_checked e args = bindE (ctl e args) (\<lambda>r. failed_unless (exit_ok r) (''supervisorctl '' @ hd args @ '' failed: '' @ errText r))"

definition sup_ensure :: "'x sup_env \<Rightarrow> spec \<Rightarrow> string \<Rightarrow> 'x tools \<Rightarrow> (js_error + string) \<times> 'x tools" where
  "sup_ensure e s mode0 = (let mode = str_or mode0 (s_startMode s) in
     bindE (sup_status e s) (\<lambda>st w.
       if st_installed st \<and> \<not> isManaged e s w
       then (Inl (legacy_program s ''run platform-linux/migrate_supervisor_inis.sh to manage it here''), w)
       else if st_installed st \<and> readIniHash e s w = Some (s_hash s) \<and> st_startMode st = mode then (Inr ''unchanged'', w)
       else seqE (askE (\<lambda>_. su_mkdir e)) (seqE (write_ini e s (renderIni s mode)) (seqE (ctl_checked e [''reread''])
         (seqE (ctl_checked e [''update'', s_programName s]) (returnE (if st_installed st then ''updated'' else ''created''))))) w))"

definition sup_remove :: "'x sup_env \<Rightarrow> spec \<Rightarrow> 'x tools \<Rightarrow> (js_error + string) \<times> 'x tools" where
  "sup_remove e s = bindE (sup_status e s) (\<lambda>st w.
     if \<not> st_installed st
     then (if isManaged e s w then seqE (unlink_ini e s) (seqE (ctl e [''reread'']) (seqE (ctl e [''update'']) (returnE ''absent''))) w
           else (Inr ''absent'', w))
     else if \<not> isManaged e s w then (Inl (legacy_program s ''remove it manually or run the migration script''), w)
     else seqE (ctl e [''stop'', s_programName s]) (seqE (unlink_ini e s) (seqE (ctl_checked e [''reread''])
       (seqE (ctl_checked e [''update'']) (returnE ''removed'')))) w)"

text \<open>A command that may fail when it has nothing to do: the message is looked for.\<close>

definition sup_start :: "'x sup_env \<Rightarrow> spec \<Rightarrow> 'x tools \<Rightarrow> (js_error + string) \<times> 'x tools" where
  "sup_start e s = bindE (ctl e [''start'', s_programName s]) (\<lambda>r.
     seqE (failed_unless (exit_ok r \<or> matches_i ''already started'' (printed r)) (''supervisorctl start failed: '' @ errText r)) (returnE ''started''))"

definition sup_stop :: "'x sup_env \<Rightarrow> spec \<Rightarrow> 'x tools \<Rightarrow> (js_error + string) \<times> 'x tools" where
  "sup_stop e s = bindE (ctl e [''stop'', s_programName s]) (\<lambda>r.
     seqE (failed_unless (exit_ok r \<or> matches_i ''not running'' (printed r)) (''supervisorctl stop failed: '' @ errText r)) (returnE ''stopped''))"

definition sup_restart :: "'x sup_env \<Rightarrow> spec \<Rightarrow> 'x tools \<Rightarrow> (js_error + string) \<times> 'x tools" where
  "sup_restart e s = seqE (ctl_checked e [''restart'', s_programName s]) (returnE ''restarted'')"

text \<open>\<open>replace\<close> of the first match: the rest after it is what \<open>f\<close> gives.\<close>

fun replace_first :: "(string \<Rightarrow> string option) \<Rightarrow> string \<Rightarrow> string \<Rightarrow> string" where
  "replace_first f r [] = (case f [] of Some t \<Rightarrow> r @ t | None \<Rightarrow> [])"
| "replace_first f r (c # s) = (case f (c # s) of Some t \<Rightarrow> r @ t | None \<Rightarrow> c # replace_first f r s)"

definition sup_setManual :: "'x sup_env \<Rightarrow> spec \<Rightarrow> 'x tools \<Rightarrow> (js_error + unit) \<times> 'x tools" where
  "sup_setManual e s w = (if \<not> isManaged e s w then (Inr (), w)
     else seqE (askE (\<lambda>_. su_read e (iniPath e s)))
       (seqE (write_ini e s (replace_first autostart_at ''autostart=false'' (the (map_of (files w) (iniPath e s)))))
       (seqE (ctl e [''reread'']) (seqE (ctl e [''update'', s_programName s]) (returnE ())))) w)"

text \<open>The first word of every line, but for the messages of an error.\<close>

definition sup_names :: "string \<Rightarrow> string list" where
  "sup_names t = filter (\<lambda>n. n \<noteq> [] \<and> eat_i ''error'' n = None)
     (map (\<lambda>l. takeWhile (\<lambda>c. \<not> is_space c) (trim l)) (split_char (CHR 0x0A) t))"

definition sup_list :: "'x sup_env \<Rightarrow> 'x tools \<Rightarrow> (js_error + string list) \<times> 'x tools" where
  "sup_list e = bindE (ctl e [''status'']) (\<lambda>r. returnE (sup_names (printed r)))"

definition supervisor :: "'x sup_env \<Rightarrow> 'x tools backend" where
  "supervisor e = \<lparr>b_status = sup_status e, b_ensure = sup_ensure e, b_remove = sup_remove e, b_start = sup_start e, b_stop = sup_stop e,
     b_restart = sup_restart e, b_setManual = sup_setManual e, b_list = sup_list e\<rparr>"

section \<open>NSSM\<close>

record 'x win_env =
  wi_host :: host
  wi_nssmEnv :: string
  wi_exists :: "string \<Rightarrow> bool"
  wi_tool :: "'x tool"

definition nssmPath :: "'x win_env \<Rightarrow> string" where
  "nssmPath e = (if trim (wi_nssmEnv e) \<noteq> [] then trim (wi_nssmEnv e)
     else (case List.find (wi_exists e) (map (normPath (wi_host e)) [installRoot (wi_host e) @ [path_sep (wi_host e)] @ ''platform-windows'' @ [path_sep (wi_host e)] @ ''nssm.exe'',
         binDir (wi_host e) @ [path_sep (wi_host e)] @ ''nssm.exe'']) of Some p \<Rightarrow> p | None \<Rightarrow> ''nssm''))"

definition nssmRun :: "'x win_env \<Rightarrow> string list \<Rightarrow> 'x tools \<Rightarrow> (js_error + run_result) \<times> 'x tools" where
  "nssmRun e args = run_tool (wi_tool e) (nssmPath e) args"

definition scRun :: "'x win_env \<Rightarrow> string list \<Rightarrow> 'x tools \<Rightarrow> (js_error + run_result) \<times> 'x tools" where
  "scRun e args = run_tool (wi_tool e) ''sc'' args"

text \<open>\<open>/NAME\s*:\s*\d+\s+(\w+)/\<close>.\<close>

definition numbered_word :: "string \<Rightarrow> string \<Rightarrow> string option" where
  "numbered_word name s = (case eat name s of None \<Rightarrow> None
     | Some r \<Rightarrow> (case dropWhile is_space r of [] \<Rightarrow> None
         | c # r' \<Rightarrow> if c \<noteq> CHR '':'' then None
             else (case run_of is_digit (dropWhile is_space r') of None \<Rightarrow> None
               | Some ds \<Rightarrow> (let t = drop (length ds) (dropWhile is_space r'); sp = takeWhile is_space t in
                   if sp = [] then None else run_of word_char (drop (length sp) t)))))"

definition parseScState :: "run_result \<Rightarrow> bool \<times> string" where
  "parseScState r = (if strict_eq (r_code r) (Num (num 1060)) \<or> str_includes ''1060'' (printed r) then (False, ''UNKNOWN'')
     else (let raw = (case first_match (numbered_word ''STATE'') (printed r) of None \<Rightarrow> ''UNKNOWN'' | Some m \<Rightarrow> to_upper m) in
       (True, case map_of [(''RUNNING'', ''RUNNING''), (''STOPPED'', ''STOPPED''), (''START_PENDING'', ''STARTING''), (''STOP_PENDING'', ''STOPPING''), (''PAUSED'', ''PAUSED'')] raw of
          None \<Rightarrow> ''UNKNOWN'' | Some x \<Rightarrow> x)))"

definition parseScStartType :: "run_result \<Rightarrow> string" where
  "parseScStartType r = (let raw = (case first_match (numbered_word ''START_TYPE'') (printed r) of None \<Rightarrow> [] | Some m \<Rightarrow> to_upper m) in
     if str_includes ''DISABLED'' raw then ''disabled'' else if str_includes ''DEMAND'' raw then ''manual''
     else if str_includes ''AUTO'' raw then ''auto'' else ''unknown'')"

definition win_status :: "'x win_env \<Rightarrow> spec \<Rightarrow> 'x tools \<Rightarrow> (js_error + svc_status) \<times> 'x tools" where
  "win_status e s = bindE (scRun e [''query'', s_winServiceName s]) (\<lambda>q. case parseScState q of (inst, st) \<Rightarrow>
     if \<not> inst then returnE \<lparr>st_installed = False, st_state = st, st_startMode = ''unknown''\<rparr>
     else bindE (scRun e [''qc'', s_winServiceName s]) (\<lambda>qc. returnE \<lparr>st_installed = True, st_state = st, st_startMode = parseScStartType qc\<rparr>))"

definition set_calls :: "spec \<Rightarrow> string \<Rightarrow> string list list" where
  "set_calls s mode = map (\<lambda>c. [''set'', s_winServiceName s] @ c)
     [[''Application'', s_cmd s], ''AppParameters'' # s_args s, [''AppDirectory'', s_cwd s], [''AppStdout'', s_logFile s], [''AppStderr'', s_logFile s],
      [''AppRotateOnline'', ''1''], [''AppRotateBytes'', ''10000000''], [''AppRestartDelay'', ''2000''],
      [''Start'', if mode = ''auto'' then ''SERVICE_AUTO_START'' else ''SERVICE_DEMAND_START''], [''AppEnvironmentExtra'', ''JS_SPEC_HASH='' @ s_hash s]]"

definition nssm_checked :: "'x win_env \<Rightarrow> string list \<Rightarrow> string \<Rightarrow> 'x tools \<Rightarrow> (js_error + unit) \<times> 'x tools" where
  "nssm_checked e args what = bindE (nssmRun e args) (\<lambda>r. failed_unless (exit_ok r) (''nssm '' @ what @ '' failed: '' @ errText r))"

fun run_calls :: "'x win_env \<Rightarrow> string list list \<Rightarrow> 'x tools \<Rightarrow> (js_error + unit) \<times> 'x tools" where
  "run_calls e [] = returnE ()"
| "run_calls e (c # cs) = seqE (nssm_checked e c (c ! 0 @ '' '' @ c ! 1 @ '' '' @ c ! 2)) (run_calls e cs)"

definition applyParams :: "'x win_env \<Rightarrow> spec \<Rightarrow> string \<Rightarrow> 'x tools \<Rightarrow> (js_error + unit) \<times> 'x tools" where
  "applyParams e s mode = run_calls e (set_calls s mode)"

definition env_hash_at :: "string \<Rightarrow> string option" where
  "env_hash_at s = (case eat_i ''js_spec_hash='' s of None \<Rightarrow> None | Some r \<Rightarrow> run_of hex_digit r)"

definition installedSpecHash :: "'x win_env \<Rightarrow> spec \<Rightarrow> 'x tools \<Rightarrow> (js_error + string option) \<times> 'x tools" where
  "installedSpecHash e s = bindE (nssmRun e [''get'', s_winServiceName s, ''AppEnvironmentExtra'']) (\<lambda>r.
     returnE (if exit_ok r then first_match env_hash_at (r_out r) else None))"

definition win_ensure :: "'x win_env \<Rightarrow> spec \<Rightarrow> string \<Rightarrow> 'x tools \<Rightarrow> (js_error + string) \<times> 'x tools" where
  "win_ensure e s mode0 = (let mode = str_or mode0 (s_startMode s) in
     bindE (win_status e s) (\<lambda>st.
       if \<not> st_installed st
       then seqE (nssm_checked e ([''install'', s_winServiceName s, s_cmd s] @ s_args s) ''install'') (seqE (applyParams e s mode) (returnE ''created''))
       else bindE (installedSpecHash e s) (\<lambda>h.
         if h = Some (s_hash s) \<and> st_startMode st = mode then returnE ''unchanged''
         else seqE (applyParams e s mode) (returnE ''updated''))))"

definition win_remove :: "'x win_env \<Rightarrow> spec \<Rightarrow> 'x tools \<Rightarrow> (js_error + string) \<times> 'x tools" where
  "win_remove e s = bindE (win_status e s) (\<lambda>st.
     if \<not> st_installed st then returnE ''absent''
     else seqE (if st_state st \<in> set [''RUNNING'', ''STARTING'', ''PAUSED'', ''STOPPING'']
                then seqE (nssmRun e [''stop'', s_winServiceName s]) (returnE ()) else returnE ())
       (seqE (nssm_checked e [''remove'', s_winServiceName s, ''confirm''] ''remove'') (returnE ''removed'')))"

definition win_start :: "'x win_env \<Rightarrow> spec \<Rightarrow> 'x tools \<Rightarrow> (js_error + string) \<times> 'x tools" where
  "win_start e s = bindE (nssmRun e [''start'', s_winServiceName s]) (\<lambda>r.
     if exit_ok r then returnE ''started''
     else bindE (win_status e s) (\<lambda>st. if st_state st = ''RUNNING'' then returnE ''already-running'' else throwE (Thrown (''nssm start failed: '' @ errText r))))"

definition win_stop :: "'x win_env \<Rightarrow> spec \<Rightarrow> 'x tools \<Rightarrow> (js_error + string) \<times> 'x tools" where
  "win_stop e s = bindE (nssmRun e [''stop'', s_winServiceName s]) (\<lambda>r.
     if exit_ok r then returnE ''stopped''
     else bindE (win_status e s) (\<lambda>st. if st_state st = ''STOPPED'' then returnE ''already-stopped'' else throwE (Thrown (''nssm stop failed: '' @ errText r))))"

definition win_restart :: "'x win_env \<Rightarrow> spec \<Rightarrow> 'x tools \<Rightarrow> (js_error + string) \<times> 'x tools" where
  "win_restart e s = seqE (nssm_checked e [''restart'', s_winServiceName s] ''restart'') (returnE ''restarted'')"

definition win_setManual :: "'x win_env \<Rightarrow> spec \<Rightarrow> 'x tools \<Rightarrow> (js_error + unit) \<times> 'x tools" where
  "win_setManual e s = seqE (nssmRun e [''set'', s_winServiceName s, ''Start'', ''SERVICE_DEMAND_START'']) (returnE ())"

text \<open>\<open>/SERVICE_NAME:\s*(JSON_SCADA_\S+)/g\<close>, with what is left after the match.\<close>

definition service_name_at :: "string \<Rightarrow> (string \<times> string) option" where
  "service_name_at s = (case eat ''SERVICE_NAME:'' s of None \<Rightarrow> None
     | Some r \<Rightarrow> (case eat ''JSON_SCADA_'' (dropWhile is_space r) of None \<Rightarrow> None
         | Some t \<Rightarrow> map_option (\<lambda>n. (''JSON_SCADA_'' @ n, drop (length n) t)) (run_of (\<lambda>c. \<not> is_space c) t)))"

lemma eat_length: "eat p s = Some r \<Longrightarrow> length r + length p = length s"
  by (auto simp: eat_def starts_with_def dest: arg_cong[where f = length] split: if_splits)

lemma service_name_shorter:
  assumes "service_name_at s = Some (n, t)" shows "length t < length s"
proof -
  obtain r u m where e: "eat ''SERVICE_NAME:'' s = Some r" "eat ''JSON_SCADA_'' (dropWhile is_space r) = Some u" "t = drop m u"
    using assms by (auto simp: service_name_at_def split: option.splits)
  then show ?thesis using eat_length[OF e(1)] eat_length[OF e(2)] length_dropWhile_le[of is_space r] by simp
qed

function all_names :: "string \<Rightarrow> string list" where
  "all_names [] = []"
| "all_names (c # s) = (case service_name_at (c # s) of Some (n, t) \<Rightarrow> n # all_names t | None \<Rightarrow> all_names s)"
  by pat_completeness auto
termination
  by (relation "measure length") (simp_all, metis service_name_shorter length_Cons)

definition win_list :: "'x win_env \<Rightarrow> 'x tools \<Rightarrow> (js_error + string list) \<times> 'x tools" where
  "win_list e = bindE (scRun e [''query'', ''type='', ''service'', ''state='', ''all'']) (\<lambda>r. returnE (all_names (printed r)))"

definition nssm :: "'x win_env \<Rightarrow> 'x tools backend" where
  "nssm e = \<lparr>b_status = win_status e, b_ensure = win_ensure e, b_remove = win_remove e, b_start = win_start e, b_stop = win_stop e,
     b_restart = win_restart e, b_setManual = win_setManual e, b_list = win_list e\<rparr>"

section \<open>Choice of the backend\<close>

text \<open>\<open>backend()\<close>: the configuration names one, or the platform decides.\<close>

definition chosen_backend :: "jsval \<Rightarrow> 'x sup_env \<Rightarrow> 'x win_env \<Rightarrow> 'x tools backend option" where
  "chosen_backend conf e we = (let v = js_or conf (Str ''auto'') in
     if v = Str ''none'' then None else if v = Str ''nssm'' then Some (nssm we) else if v = Str ''supervisor'' then Some (supervisor e)
     else if is_win (su_host e) then Some (nssm we) else Some (supervisor e))"

end
