(* ===== verification/BackendLaws.thy ===== *)
theory BackendLaws
  imports Backends
begin

text \<open>
  The contract of a service backend and what the facade makes of it: a locale whose laws say that an
  operation stays within the service it is called for, the operations of the facade inside it, and
  its interpretation by the two backends.
\<close>

section \<open>The contract\<close>

named_theorems stay_intros \<open>composed operations that stay within the services\<close>

definition stays :: "(spec set \<Rightarrow> 'o \<Rightarrow> 'o \<Rightarrow> bool) \<Rightarrow> spec set \<Rightarrow> ('o \<Rightarrow> 'r \<times> 'o) \<Rightarrow> bool" where
  "stays R S m \<longleftrightarrow> (\<forall>w. R S w (snd (m w)))"

text \<open>The specifications of some instances.\<close>

definition specs_of :: "'o pm_config \<Rightarrow> instance_doc set \<Rightarrow> spec set" where
  "specs_of c ds = {s. \<exists>d \<in> ds. buildServiceSpec (pm_host c) d = Some s}"

text \<open>Every operation of the facade stays within the services of the instances it is called with.\<close>

definition facade_within :: "(spec set \<Rightarrow> 'o \<Rightarrow> 'o \<Rightarrow> bool) \<Rightarrow> 'o pm_config \<Rightarrow> bool" where
  "facade_within R c \<longleftrightarrow>
     (\<forall>d. stays R (specs_of c {d}) (pm_status c d) \<and> stays R (specs_of c {d}) (pm_start c d) \<and> stays R (specs_of c {d}) (pm_stop c d) \<and>
        stays R (specs_of c {d}) (pm_restart c d) \<and> stays R (specs_of c {d}) (pm_ensureService c d) \<and>
        stays R (specs_of c {d}) (pm_removeService c d) \<and> stays R (specs_of c {d}) (pm_applyEnabledState c d)) \<and>
     (\<forall>old new. stays R (specs_of c (insert new (set_option old))) (pm_applyInstanceUpdate c old new)) \<and>
     (\<forall>ds orphans. stays R (specs_of c (set ds)) (pm_reconcileAll c ds orphans))"

locale frame =
  fixes R :: "spec set \<Rightarrow> 'o \<Rightarrow> 'o \<Rightarrow> bool"
  assumes within_refl: "R S w w"
    and within_trans: "R S w1 w2 \<Longrightarrow> R S w2 w3 \<Longrightarrow> R S w1 w3"
begin

lemma stays_return: "stays R S (returnE x)" "stays R S (throwE err)" "stays R S (askE g)"
  by (simp_all add: stays_def returnE_def throwE_def askE_def within_refl)

lemma stays_bind: "stays R S m \<Longrightarrow> (\<And>x. stays R S (f x)) \<Longrightarrow> stays R S (bindE m f)"
  unfolding stays_def bindE_def by (simp split: prod.split sum.split) (metis snd_conv within_trans)

lemma stays_seq: "stays R S m \<Longrightarrow> stays R S m' \<Longrightarrow> stays R S (seqE m m')"
  unfolding seqE_def by (rule stays_bind)

lemma stays_if: "(t \<Longrightarrow> stays R S m) \<Longrightarrow> (\<not> t \<Longrightarrow> stays R S m') \<Longrightarrow> stays R S (if t then m else m')"
  by simp

text \<open>Steps that look at the state.\<close>

lemma stays_test: "stays R S m \<Longrightarrow> stays R S m' \<Longrightarrow> stays R S (\<lambda>w. if t w then m w else m' w)"
  by (simp add: stays_def)

lemma stays_read: "stays R S (\<lambda>w. (f w, w))"
  by (simp add: stays_def within_refl)

lemmas frame_rules = stays_return stays_bind stays_seq stays_if stays_read stays_test

end

locale service_backend = frame R
  for R :: "spec set \<Rightarrow> 'o \<Rightarrow> 'o \<Rightarrow> bool" +
  fixes b :: "'o backend"
  assumes within_more: "R S w w' \<Longrightarrow> S \<subseteq> T \<Longrightarrow> R T w w'"
    and within_status: "s \<in> S \<Longrightarrow> stays R S (b_status b s)"
    and within_ensure: "s \<in> S \<Longrightarrow> stays R S (b_ensure b s mode)"
    and within_remove: "s \<in> S \<Longrightarrow> stays R S (b_remove b s)"
    and within_start: "s \<in> S \<Longrightarrow> stays R S (b_start b s)"
    and within_stop: "s \<in> S \<Longrightarrow> stays R S (b_stop b s)"
    and within_restart: "s \<in> S \<Longrightarrow> stays R S (b_restart b s)"
    and within_manual: "s \<in> S \<Longrightarrow> stays R S (b_setManual b s)"
    and within_list: "stays R S (b_list b)"
begin

lemmas within_ops = within_status within_ensure within_remove within_start within_stop within_restart within_manual within_list

lemmas stay_rules = within_ops frame_rules

lemma spec_here:
  assumes "pm_backend c = Some b"
  obtains "the_backend c = None" | "the_backend c = Some b"
  using assms by (cases "pm_isEnabled c") (simp_all add: the_backend_def)

lemma in_specs: "buildServiceSpec (pm_host c) d = Some s \<Longrightarrow> s \<in> specs_of c {d}"
  by (simp add: specs_of_def)

lemma stays_option: "stays R S m \<Longrightarrow> (\<And>x. stays R S (f x)) \<Longrightarrow> stays R S (case x of None \<Rightarrow> m | Some x \<Rightarrow> f x)"
  by (simp split: option.split)

lemma stays_both:
  assumes "pm_backend c = Some b" "\<And>s. s \<in> specs_of c {d} \<Longrightarrow> stays R (specs_of c {d}) (F b s)"
  shows "stays R (specs_of c {d}) (case (the_backend c, buildServiceSpec (pm_host c) d) of (Some b, Some s) \<Rightarrow> F b s | _ \<Rightarrow> throwE TypeError)"
  using assms(2)[OF in_specs] by (auto intro: spec_here[OF assms(1)] simp: stays_return split: option.split)

lemma stays_removal:
  assumes "pm_backend c = Some b" "\<And>s. s \<in> specs_of c {d} \<Longrightarrow> stays R (specs_of c {d}) (F b s)"
  shows "stays R (specs_of c {d}) (case buildServiceSpec (pm_host c) d of None \<Rightarrow> returnE x
     | Some s \<Rightarrow> (case the_backend c of None \<Rightarrow> returnE y | Some b \<Rightarrow> F b s))"
  using assms(2)[OF in_specs] by (auto intro: spec_here[OF assms(1)] simp: stays_return split: option.split)

lemma facade_stays:
  assumes "pm_backend c = Some b"
  shows "stays R (specs_of c {d}) (pm_start c d)" "stays R (specs_of c {d}) (pm_stop c d)" "stays R (specs_of c {d}) (pm_restart c d)"
    "stays R (specs_of c {d}) (pm_ensureService c d)" "stays R (specs_of c {d}) (pm_removeService c d)"
    "stays R (specs_of c {d}) (pm_applyEnabledState c d)"
  unfolding pm_start_def pm_stop_def pm_restart_def pm_ensureService_def pm_removeService_def pm_applyEnabledState_def
  by (assumption | rule stays_both[OF assms] stays_removal[OF assms] stays_option stay_rules)+

lemma status_stays:
  assumes "pm_backend c = Some b" shows "stays R (specs_of c {d}) (pm_status c d)"
proof -
  have "s \<in> specs_of c {d} \<Longrightarrow> R (specs_of c {d}) w (snd (b_status b s w))" for s w
    using within_status by (simp add: stays_def)
  then show ?thesis using spec_here[OF assms] in_specs[of c d]
    unfolding stays_def pm_status_def Let_def
    by (auto split: option.split prod.split sum.split simp: within_refl) (metis snd_conv)+
qed

lemma retire_stays:
  assumes "pm_backend c = Some b" shows "R (specs_of c (set_option old)) w (retire_old c b old new w)"
  using within_remove unfolding retire_old_def stays_def
  by (auto split: option.split simp: within_refl specs_of_def)

lemma update_stays:
  assumes "pm_backend c = Some b"
  shows "stays R (specs_of c (insert new (set_option old))) (pm_applyInstanceUpdate c old new)"
proof -
  let ?S = "specs_of c (insert new (set_option old))"
  have r: "R ?S w (retire_old c b old new w)" for w
    by (rule within_more[OF retire_stays[OF assms]]) (auto simp: specs_of_def)
  have i: "buildServiceSpec (pm_host c) new = Some s \<Longrightarrow> s \<in> ?S" for s by (auto simp: specs_of_def)
  have t: "R ?S w (snd (bindE (b_status b s) f (retire_old c b old new w)))" if "stays R ?S (bindE (b_status b s) f)"
    for w s and f :: "svc_status \<Rightarrow> 'o \<Rightarrow> (js_error + pm_result) \<times> 'o"
    using that within_trans[OF r] by (simp add: stays_def)
  have m: "stays R ?S (bindE (b_status b s) f)" if "buildServiceSpec (pm_host c) new = Some s" "\<And>st. stays R ?S (f st)" for s f
    using that i by (intro stay_rules) auto
  show ?thesis
  proof (rule spec_here[OF assms])
    assume "the_backend c = None"
    then show ?thesis by (simp add: stays_def pm_applyInstanceUpdate_def within_refl)
  next
    assume h: "the_backend c = Some b"
    show ?thesis
    proof (cases "isManageable c new = None \<and> isManagedFlag new \<and> buildServiceSpec (pm_host c) new \<noteq> None")
      case True
      then obtain s where s: "buildServiceSpec (pm_host c) new = Some s" by auto
      have "\<And>w. R ?S w (snd (pm_applyInstanceUpdate c old new w))"
        unfolding pm_applyInstanceUpdate_def h option.case Let_def using True s
        by simp (rule t, (assumption | rule m[OF s] i[OF s] stay_rules)+)
      then show ?thesis by (simp add: stays_def)
    next
      case False
      then show ?thesis using h
        by (cases "isManageable c new"; cases "isManagedFlag new"; simp add: stays_def pm_applyInstanceUpdate_def Let_def r)
    qed
  qed
qed

lemma reconcile_loop_stays:
  "specs_of c (set ds) \<subseteq> S \<Longrightarrow> R S w (snd (reconcile_loop c b ds r ex w))"
proof (induction ds arbitrary: r ex w)
  case (Cons d ds)
  have s: "s \<in> S" if "buildServiceSpec (pm_host c) d = Some s" for s using Cons.prems that by (auto simp: specs_of_def)
  have ih: "R S w (snd (reconcile_loop c b ds r ex w))" for r ex w
    by (rule Cons.IH) (use Cons.prems in \<open>auto simp: specs_of_def\<close>)
  have e: "R S w (snd (reconcile_loop c b ds r ex w'))" if "s \<in> S" "b_ensure b s m w = (q, w')" for s m q w' r ex
    using within_ensure[OF that(1), of m] that(2) within_trans[OF _ ih[of w' r ex], of w] unfolding stays_def by (metis snd_conv)
  show ?case by (auto simp: Let_def ih intro: e s split: option.split prod.split sum.split)
qed (simp add: within_refl)

lemma reconcile_stays:
  assumes "pm_backend c = Some b" shows "stays R (specs_of c (set ds)) (pm_reconcileAll c ds orphans)"
proof (rule spec_here[OF assms])
  assume "the_backend c = Some b"
  then show ?thesis
    using reconcile_loop_stays[OF subset_refl, of c ds] within_list[of "specs_of c (set ds)"] within_trans[of "specs_of c (set ds)"]
    by (simp add: stays_def pm_reconcileAll_def Let_def split: prod.split sum.split) (metis snd_conv)
qed (simp add: stays_def pm_reconcileAll_def within_refl)

lemma facade: "pm_backend c = Some b \<Longrightarrow> facade_within R c"
  by (simp add: facade_within_def facade_stays status_stays update_stays reconcile_stays)

end

text \<open>What the backend of supervisord may do for some services: write or remove their files, and the
  commands that name their programs or none.\<close>

definition sup_command :: "'x sup_env \<Rightarrow> spec set \<Rightarrow> string \<times> string list \<Rightarrow> bool" where
  "sup_command e S c \<longleftrightarrow> fst c = ''supervisorctl'' \<and> (\<exists>rest. snd c = ctlBaseArgs e @ rest \<and>
     (rest \<in> {[''status''], [''reread''], [''update'']} \<or>
      (\<exists>s \<in> S. \<exists>verb \<in> {''status'', ''update'', ''start'', ''stop'', ''restart''}. rest = [verb, s_programName s])))"

definition sup_within :: "'x sup_env \<Rightarrow> spec set \<Rightarrow> 'x tools \<Rightarrow> 'x tools \<Rightarrow> bool" where
  "sup_within e S w w' \<longleftrightarrow> (\<forall>p. p \<notin> iniPath e ` S \<longrightarrow> map_of (files w') p = map_of (files w) p) \<and>
     (\<exists>new. cmds w' = cmds w @ new \<and> (\<forall>c \<in> set new. sup_command e S c))"

interpretation sup_frame: frame "sup_within e" for e :: "'x sup_env"
  by unfold_locales (fastforce simp: sup_within_def)+

lemma ctl_within: "sup_command e S (''supervisorctl'', ctlBaseArgs e @ rest) \<Longrightarrow> stays (sup_within e) S (ctl e rest)"
  by (simp add: stays_def ctl_def run_tool_def sup_within_def split: prod.split)

lemma ctl_verbs:
  "sup_command e S (''supervisorctl'', ctlBaseArgs e @ [''status''])" "sup_command e S (''supervisorctl'', ctlBaseArgs e @ [''reread''])"
  "sup_command e S (''supervisorctl'', ctlBaseArgs e @ [''update''])"
  "s \<in> S \<Longrightarrow> sup_command e S (''supervisorctl'', ctlBaseArgs e @ [''status'', s_programName s])"
  "s \<in> S \<Longrightarrow> sup_command e S (''supervisorctl'', ctlBaseArgs e @ [''update'', s_programName s])"
  "s \<in> S \<Longrightarrow> sup_command e S (''supervisorctl'', ctlBaseArgs e @ [''start'', s_programName s])"
  "s \<in> S \<Longrightarrow> sup_command e S (''supervisorctl'', ctlBaseArgs e @ [''stop'', s_programName s])"
  "s \<in> S \<Longrightarrow> sup_command e S (''supervisorctl'', ctlBaseArgs e @ [''restart'', s_programName s])"
  by (auto simp: sup_command_def)

lemma write_within: "s \<in> S \<Longrightarrow> stays (sup_within e) S (write_ini e s t)" "s \<in> S \<Longrightarrow> stays (sup_within e) S (unlink_ini e s)"
  by (auto simp: stays_def write_ini_def unlink_ini_def sup_within_def map_of_aupd map_of_adel split: sum.split)

lemma checked_within: "sup_command e S (''supervisorctl'', ctlBaseArgs e @ rest) \<Longrightarrow> stays (sup_within e) S (ctl_checked e rest)"
  unfolding ctl_checked_def failed_unless_def by (intro sup_frame.frame_rules ctl_within)

lemmas sup_rules = ctl_within[OF ctl_verbs(1)] ctl_within[OF ctl_verbs(2)] ctl_within[OF ctl_verbs(3)] ctl_within[OF ctl_verbs(4)]
  ctl_within[OF ctl_verbs(5)] ctl_within[OF ctl_verbs(6)] ctl_within[OF ctl_verbs(7)]
  checked_within[OF ctl_verbs(2)] checked_within[OF ctl_verbs(3)] checked_within[OF ctl_verbs(5)] checked_within[OF ctl_verbs(8)]
  write_within sup_frame.frame_rules

lemma sup_status_within: "s \<in> S \<Longrightarrow> stays (sup_within e) S (sup_status e s)"
  unfolding sup_status_def case_prod_beta by (assumption | rule sup_rules)+

lemma sup_ensure_within: "s \<in> S \<Longrightarrow> stays (sup_within e) S (sup_ensure e s mode)"
  unfolding sup_ensure_def Let_def by (assumption | rule sup_status_within sup_rules)+

lemma sup_remove_within: "s \<in> S \<Longrightarrow> stays (sup_within e) S (sup_remove e s)"
  unfolding sup_remove_def by (assumption | rule sup_status_within sup_rules)+

lemma sup_control_within:
  "s \<in> S \<Longrightarrow> stays (sup_within e) S (sup_start e s)" "s \<in> S \<Longrightarrow> stays (sup_within e) S (sup_stop e s)"
  "s \<in> S \<Longrightarrow> stays (sup_within e) S (sup_restart e s)"
  unfolding sup_start_def sup_stop_def sup_restart_def failed_unless_def by (assumption | rule sup_rules)+

lemma sup_list_within: "stays (sup_within e) S (sup_list e)"
  unfolding sup_list_def by (rule sup_rules)+

lemma sup_manual_within: "s \<in> S \<Longrightarrow> stays (sup_within e) S (sup_setManual e s)"
proof -
  assume "s \<in> S"
  then have "stays (sup_within e) S (seqE (askE (\<lambda>_. su_read e (iniPath e s))) (seqE (write_ini e s t)
      (seqE (ctl e [''reread'']) (seqE (ctl e [''update'', s_programName s]) (returnE ())))))" for t
    by - (assumption | rule sup_rules)+
  then show ?thesis by (simp add: stays_def sup_setManual_def sup_frame.within_refl)
qed

interpretation sup: service_backend "sup_within e" "supervisor e" for e :: "'x sup_env"
  by unfold_locales (simp_all add: supervisor_def sup_status_within sup_ensure_within sup_remove_within sup_control_within
    sup_manual_within sup_list_within, fastforce simp: sup_within_def sup_command_def)

text \<open>What the backend of Windows may do: no file, and commands whose second argument is the name of a
  service, but for the listing.\<close>

definition win_command :: "'x win_env \<Rightarrow> spec set \<Rightarrow> string \<times> string list \<Rightarrow> bool" where
  "win_command e S c \<longleftrightarrow> c = (''sc'', [''query'', ''type='', ''service'', ''state='', ''all'']) \<or>
     (\<exists>s \<in> S. (fst c = ''sc'' \<and> snd c \<in> {[''query'', s_winServiceName s], [''qc'', s_winServiceName s]}) \<or>
        (fst c = nssmPath e \<and> (\<exists>verb rest. snd c = verb # s_winServiceName s # rest)))"

definition win_within :: "'x win_env \<Rightarrow> spec set \<Rightarrow> 'x tools \<Rightarrow> 'x tools \<Rightarrow> bool" where
  "win_within e S w w' \<longleftrightarrow> files w' = files w \<and> (\<exists>new. cmds w' = cmds w @ new \<and> (\<forall>c \<in> set new. win_command e S c))"

interpretation win_frame: frame "win_within e" for e :: "'x win_env"
  by unfold_locales (fastforce simp: win_within_def)+

lemma sc_within: "win_command e S (''sc'', args) \<Longrightarrow> stays (win_within e) S (scRun e args)"
  by (simp add: stays_def scRun_def run_tool_def win_within_def split: prod.split)

lemma sc_queries:
  "s \<in> S \<Longrightarrow> win_command e S (''sc'', [''query'', s_winServiceName s])" "s \<in> S \<Longrightarrow> win_command e S (''sc'', [''qc'', s_winServiceName s])"
  "win_command e S (''sc'', [''query'', ''type='', ''service'', ''state='', ''all''])"
  by (auto simp: win_command_def)

lemma nssm_within: "s \<in> S \<Longrightarrow> stays (win_within e) S (nssmRun e (verb # s_winServiceName s # rest))"
  by (auto simp: stays_def nssmRun_def run_tool_def win_within_def win_command_def split: prod.split)

lemma nssm_checked_within: "s \<in> S \<Longrightarrow> stays (win_within e) S (nssm_checked e (verb # s_winServiceName s # rest) what)"
  unfolding nssm_checked_def failed_unless_def by (intro win_frame.frame_rules nssm_within)

lemma run_calls_within:
  "s \<in> S \<Longrightarrow> \<forall>c \<in> set cs. \<exists>verb rest. c = verb # s_winServiceName s # rest \<Longrightarrow> stays (win_within e) S (run_calls e cs)"
  by (induction cs) (auto intro!: win_frame.frame_rules nssm_checked_within)

lemma applyParams_within: "s \<in> S \<Longrightarrow> stays (win_within e) S (applyParams e s mode)"
  unfolding applyParams_def by (rule run_calls_within) (auto simp: set_calls_def)

lemmas win_rules = sc_within[OF sc_queries(1)] sc_within[OF sc_queries(2)] sc_within[OF sc_queries(3)] nssm_within nssm_checked_within
  applyParams_within win_frame.frame_rules

lemma win_status_within: "s \<in> S \<Longrightarrow> stays (win_within e) S (win_status e s)"
  unfolding win_status_def case_prod_beta by (assumption | rule win_rules)+

lemma win_ensure_within: "s \<in> S \<Longrightarrow> stays (win_within e) S (win_ensure e s mode)"
  unfolding win_ensure_def installedSpecHash_def Let_def append.simps by (assumption | rule win_status_within win_rules)+

lemma win_remove_within: "s \<in> S \<Longrightarrow> stays (win_within e) S (win_remove e s)"
  unfolding win_remove_def by (assumption | rule win_status_within win_rules)+

lemma win_control_within:
  "s \<in> S \<Longrightarrow> stays (win_within e) S (win_start e s)" "s \<in> S \<Longrightarrow> stays (win_within e) S (win_stop e s)"
  "s \<in> S \<Longrightarrow> stays (win_within e) S (win_restart e s)" "s \<in> S \<Longrightarrow> stays (win_within e) S (win_setManual e s)"
  unfolding win_start_def win_stop_def win_restart_def win_setManual_def by (assumption | rule win_status_within win_rules)+

lemma win_list_within: "stays (win_within e) S (win_list e)"
  unfolding win_list_def by (rule win_rules)+

interpretation win: service_backend "win_within e" "nssm e" for e :: "'x win_env"
  by unfold_locales (simp_all add: nssm_def win_status_within win_ensure_within win_remove_within win_control_within
    win_list_within, fastforce simp: win_within_def win_command_def)

section \<open>Configuration files\<close>

lemma eat_i_starts: "eat_i p s = Some r \<Longrightarrow> starts_with p (to_lower s)"
  by (simp add: eat_i_def split: if_splits)

lemma matches_i_Cons: "matches_i p (c # s) \<longleftrightarrow> starts_with p (to_lower (c # s)) \<or> matches_i p s"
  by (simp add: matches_i_def eat_i_def)

lemma starts_with_shorter: "starts_with p (s @ t) \<Longrightarrow> length p \<le> length s \<Longrightarrow> starts_with p s"
  by (simp add: starts_with_def)

lemma starts_with_longer:
  assumes "starts_with p (s @ c # t)" "length s < length p" shows "c \<in> set p"
proof -
  have "p ! length s = c" using assms nth_take[of "length s" "length p" "s @ c # t"] by (simp add: starts_with_def)
  then show ?thesis using assms(2) nth_mem by blast
qed

text \<open>An expression that starts with a literal does not match across a character the literal lacks.\<close>

lemma first_match_skip:
  assumes "\<And>u x. f u = Some x \<Longrightarrow> starts_with p (to_lower u)" "to_lower_char c \<notin> set p" "\<not> matches_i p s"
  shows "first_match f (s @ c # t) = first_match f t"
  using assms(3)
proof (induction s)
  case Nil
  then have "p \<noteq> []" by (auto simp: matches_i_def eat_i_def starts_with_def)
  then have "\<not> starts_with p (to_lower (c # t))" using assms(2) by (cases p) (auto simp: starts_with_def to_lower_def)
  then have "f (c # t) = None" using assms(1) by (cases "f (c # t)") auto
  then show ?case by simp
next
  case (Cons a s)
  have "\<not> starts_with p (to_lower (a # s @ c # t))"
  proof
    assume h: "starts_with p (to_lower (a # s @ c # t))"
    show False
    proof (cases "length p \<le> length (a # s)")
      case True
      then have "starts_with p (to_lower (a # s))"
        using h starts_with_shorter[of p "to_lower (a # s)" "to_lower (c # t)"] by (simp add: to_lower_def)
      then show False using Cons.prems by (simp add: matches_i_Cons)
    next
      case False
      then show False
        using h assms(2) starts_with_longer[of p "to_lower (a # s)" "to_lower_char c" "to_lower t"] by (simp add: to_lower_def)
    qed
  qed
  then have "f (a # s @ c # t) = None" using assms(1) by (cases "f (a # s @ c # t)") auto
  then show ?case using Cons by (simp add: matches_i_Cons)
qed

lemma matches_i_sep:
  "to_lower_char c \<notin> set p \<Longrightarrow> \<not> matches_i p s \<Longrightarrow> matches_i p (s @ c # t) = matches_i p t"
  unfolding matches_i_def by (subst first_match_skip) (auto simp: matches_i_def dest: eat_i_starts)

lemma first_match_lines:
  assumes "\<And>u x. f u = Some x \<Longrightarrow> starts_with p (to_lower u)" "to_lower_char c \<notin> set p" "\<forall>l \<in> set ls. \<not> matches_i p l"
  shows "first_match f (concat (map (\<lambda>l. l @ [c]) ls) @ t) = first_match f t"
  using assms(3) by (induction ls) (simp_all add: first_match_skip[where f = f and p = p, OF assms(1,2)])

lemma hash_at_starts: "hash_at u = Some x \<Longrightarrow> starts_with ''js-spec-hash:'' (to_lower u)"
  by (auto simp: hash_at_def dest: eat_i_starts split: option.splits)

lemma autostart_at_starts: "autostart_at u = Some x \<Longrightarrow> starts_with ''autostart'' (to_lower u)"
  by (auto simp: autostart_at_def dest: eat_i_starts split: option.splits)

lemma hash_skip: "to_lower_char c \<notin> set ''js-spec-hash:'' \<Longrightarrow> \<not> matches_i ''js-spec-hash:'' s \<Longrightarrow> first_match hash_at (s @ c # t) = first_match hash_at t"
  by (rule first_match_skip[OF hash_at_starts])

lemma autostart_skip: "to_lower_char c \<notin> set ''autostart'' \<Longrightarrow> \<not> matches_i ''autostart'' s \<Longrightarrow> first_match autostart_at (s @ c # t) = first_match autostart_at t"
  by (rule first_match_skip[OF autostart_at_starts])

lemma autostart_lines: "to_lower_char c \<notin> set ''autostart'' \<Longrightarrow> \<forall>l \<in> set ls. \<not> matches_i ''autostart'' l \<Longrightarrow>
    first_match autostart_at (concat (map (\<lambda>l. l @ [c]) ls) @ t) = first_match autostart_at t"
  by (rule first_match_lines[OF autostart_at_starts])

text \<open>Texts without the word.\<close>

definition quiet_spec :: "spec \<Rightarrow> bool" where
  "quiet_spec s \<longleftrightarrow> (\<forall>t \<in> {s_programName s, cmd_line s, s_cwd s, s_logFile s}. \<not> matches_i ''autostart'' t) \<and>
     s_hash s \<noteq> [] \<and> list_all hex_digit (s_hash s)"

lemma starts_with_prefix: "starts_with p s \<longleftrightarrow> prefix p s"
  by (auto simp: starts_with_def prefix_def) (metis append_take_drop_id)

lemma matches_i_sublist: "matches_i p s \<longleftrightarrow> sublist p (to_lower s)"
proof (induction s)
  case (Cons c s)
  then show ?case by (simp add: matches_i_Cons starts_with_prefix sublist_Cons_right to_lower_def)
qed (simp add: matches_i_def eat_i_def starts_with_prefix to_lower_def)

lemma no_word: "\<not> matches_i ''autostart'' ''; managed by json-scada process manager - do not edit by hand''"
  "\<not> matches_i ''js-spec-hash:'' ''; managed by json-scada process manager - do not edit by hand''"
  "\<not> matches_i ''autostart'' ''; js-spec-hash''" "\<not> matches_i ''autostart'' ''[program''"  "\<not> matches_i ''autostart'' ''command''"
  "\<not> matches_i ''autostart'' ''directory''" "\<not> matches_i ''autostart'' ''autorestart=true''"  "\<not> matches_i ''autostart'' ''startretries=1000''"
  "\<not> matches_i ''autostart'' ''redirect_stderr=true''" "\<not> matches_i ''autostart'' ''stdout_logfile''"
  "\<not> matches_i ''autostart'' ''stdout_logfile_maxbytes=10MB''" "\<not> matches_i ''autostart'' ''stdout_logfile_backups=10''"
  by (simp_all add: matches_i_sublist to_lower_def to_lower_char_def sublist_Cons_right)

lemma quiet_lines:
  assumes "quiet_spec s"
  shows "\<not> matches_i ''autostart'' (''; js-spec-hash: '' @ s_hash s)" "\<not> matches_i ''autostart'' (''[program:'' @ s_programName s @ '']'')"
    "\<not> matches_i ''autostart'' (''command='' @ cmd_line s)" "\<not> matches_i ''autostart'' (''directory='' @ s_cwd s)"
    "\<not> matches_i ''autostart'' (''stdout_logfile='' @ s_logFile s)"
proof -
  have h: "\<not> matches_i ''autostart'' (s_hash s)"
  proof
    assume "matches_i ''autostart'' (s_hash s)"
    then have "CHR ''u'' \<in> set (to_lower (s_hash s))" using set_mono_sublist[of "''autostart''" "to_lower (s_hash s)"] by (simp add: matches_i_sublist)
    then obtain c where "c \<in> set (s_hash s)" "to_lower_char c = CHR ''u''" by (auto simp: to_lower_def)
    then show False using assms by (auto simp: quiet_spec_def list_all_iff hex_digit_def is_digit_def to_lower_char_def)
  qed
  have c: "to_lower_char (CHR '':'') \<notin> set ''autostart''" "to_lower_char (CHR ''='') \<notin> set ''autostart''" "to_lower_char (CHR '' '') \<notin> set ''autostart''"
      "to_lower_char (CHR '']'') \<notin> set ''autostart''" by (simp_all add: to_lower_char_def)
  have n: "\<not> matches_i ''autostart'' []" by (simp add: matches_i_sublist to_lower_def)
  show "\<not> matches_i ''autostart'' (''; js-spec-hash: '' @ s_hash s)"
    using matches_i_sep[OF c(1) no_word(3), of "'' '' @ s_hash s"] matches_i_sep[OF c(3) n, of "s_hash s"] h by simp
  show "\<not> matches_i ''autostart'' (''[program:'' @ s_programName s @ '']'')"
    using matches_i_sep[OF c(1) no_word(4), of "s_programName s @ '']''"] matches_i_sep[OF c(4), of "s_programName s" "[]"] n assms
    by (simp add: quiet_spec_def)
  show "\<not> matches_i ''autostart'' (''command='' @ cmd_line s)" "\<not> matches_i ''autostart'' (''directory='' @ s_cwd s)"
    "\<not> matches_i ''autostart'' (''stdout_logfile='' @ s_logFile s)"
    using matches_i_sep[OF c(2) no_word(5), of "cmd_line s"] matches_i_sep[OF c(2) no_word(6), of "s_cwd s"]
      matches_i_sep[OF c(2) no_word(10), of "s_logFile s"] assms by (simp_all add: quiet_spec_def)
qed

lemma hash_read_back:
  assumes "quiet_spec s"
  shows "first_match hash_at (renderIni s mode) = Some (s_hash s)"
proof -
  have nl: "to_lower_char (CHR 0x0A) \<notin> set ''js-spec-hash:''" "\<not> hex_digit (CHR 0x0A)" "\<not> is_space (hd (s_hash s))" "is_space (CHR '' '')"
    using assms by (auto simp: to_lower_char_def hex_digit_def is_digit_def quiet_spec_def is_space_def list_all_iff dest!: hd_in_set)
  obtain t where "renderIni s mode = (''; managed by json-scada process manager - do not edit by hand'') @ CHR 0x0A # (''; js-spec-hash: '' @ s_hash s @ CHR 0x0A # t)"
    by (simp add: renderIni_def ini_lines_def)
  then have "first_match hash_at (renderIni s mode) = first_match hash_at (''; js-spec-hash: '' @ s_hash s @ CHR 0x0A # t)"
    by (simp only: hash_skip[OF nl(1) no_word(2)])
  moreover have "dropWhile is_space (s_hash s @ CHR 0x0A # t) = s_hash s @ CHR 0x0A # t" "s_hash s \<noteq> []"
    using nl(3) assms by (cases "s_hash s"; simp add: quiet_spec_def)+
  moreover have "takeWhile hex_digit (s_hash s @ CHR 0x0A # t) = s_hash s"
    using nl(2) assms by (simp add: quiet_spec_def list_all_iff takeWhile_append2)
  ultimately show ?thesis using nl(4)
    by (simp add: hash_at_def eat_i_def starts_with_def to_lower_def to_lower_char_def run_of_def Let_def)
qed

lemma mode_read_back:
  assumes "quiet_spec s"
  shows "ini_mode (renderIni s mode) = (if mode = ''auto'' then ''auto'' else ''manual'')"
proof -
  let ?v = "''autostart='' @ (if mode = ''auto'' then ''true'' else ''false'')"
  let ?tail = "[''autorestart=true'', ''startretries=1000'', ''redirect_stderr=true'', ''stdout_logfile='' @ s_logFile s,
      ''stdout_logfile_maxbytes=10MB'', ''stdout_logfile_backups=10'']"
  let ?cat = "\<lambda>ls. concat (map (\<lambda>l. l @ [CHR 0x0A]) ls)"
  have nl: "to_lower_char (CHR 0x0A) \<notin> set ''autostart''" "to_lower_char (CHR ''='') \<notin> set ''autostart''" by (simp_all add: to_lower_char_def)
  note skip = autostart_skip and ls = autostart_lines
  have pre: "\<forall>l \<in> set [''; managed by json-scada process manager - do not edit by hand'', ''; js-spec-hash: '' @ s_hash s,
      ''[program:'' @ s_programName s @ '']'', ''command='' @ cmd_line s, ''directory='' @ s_cwd s]. \<not> matches_i ''autostart'' l"
    unfolding list.set ball_simps using quiet_lines[OF assms] no_word by blast
  have post: "\<forall>l \<in> set ?tail. \<not> matches_i ''autostart'' l"
    unfolding list.set ball_simps using quiet_lines[OF assms] no_word by blast
  have "renderIni s mode = ?cat [''; managed by json-scada process manager - do not edit by hand'', ''; js-spec-hash: '' @ s_hash s,
      ''[program:'' @ s_programName s @ '']'', ''command='' @ cmd_line s, ''directory='' @ s_cwd s] @ (?v @ CHR 0x0A # ?cat ?tail)"
    by (simp add: renderIni_def ini_lines_def)
  then have a: "first_match autostart_at (renderIni s mode) = first_match autostart_at (?v @ CHR 0x0A # ?cat ?tail)"
    by (simp only: ls[OF nl(1) pre])
  have tail: "first_match autostart_at (?cat ?tail) = None"
    using ls[OF nl(1) post, of "[]"] by (simp only: append_Nil2 first_match.simps) (simp add: autostart_at_def eat_i_def starts_with_def to_lower_def)
  show ?thesis
  proof (cases "mode = ''auto''")
    case True
    then show ?thesis unfolding ini_mode_def a
      by (simp add: autostart_at_def eat_i_def starts_with_def to_lower_def to_lower_char_def is_space_def)
  next
    case False
    have "\<not> matches_i ''autostart'' ''utostart''" "\<not> matches_i ''autostart'' ''false''"
      by (simp_all add: matches_i_sublist to_lower_def to_lower_char_def sublist_Cons_right)
    with skip[OF nl(2), of "''utostart''" "''false'' @ CHR 0x0A # ?cat ?tail"] skip[OF nl(1), of "''false''" "?cat ?tail"] tail
    have "first_match autostart_at (''utostart=false'' @ CHR 0x0A # ?cat ?tail) = None" by simp
    moreover have "autostart_at (''autostart=false'' @ CHR 0x0A # ?cat ?tail) = None"
      by (simp add: autostart_at_def eat_i_def starts_with_def to_lower_def to_lower_char_def is_space_def)
    ultimately show ?thesis using False by (simp add: ini_mode_def a)
  qed
qed

section \<open>Ensuring a service\<close>

lemma ctl_files: "files (snd (ctl e rest w)) = files w"
  by (simp add: ctl_def run_tool_def split: prod.split)

lemma sup_status_files: "files (snd (sup_status e s w)) = files w"
  using ctl_files[of e "[''status'', s_programName s]" w]
  by (auto simp: sup_status_def bindE_def split: prod.split sum.split)

lemma sup_status_mode:
  "sup_status e s w = (Inr st, w') \<Longrightarrow> st_installed st \<Longrightarrow> isManaged e s w' \<Longrightarrow> st_startMode st = readIniStartMode e s w'"
  by (auto simp: sup_status_def bindE_def split: prod.splits sum.splits)

lemma ctl_checked_files: "files (snd (ctl_checked e rest w)) = files w"
  using ctl_files[of e rest w]
  by (auto simp: ctl_checked_def bindE_def failed_unless_def returnE_def throwE_def split: prod.split sum.split)

text \<open>What a successful call leaves in the file: the hash and the start mode asked for.\<close>

definition ensured :: "'x sup_env \<Rightarrow> spec \<Rightarrow> string \<Rightarrow> 'x tools \<Rightarrow> bool" where
  "ensured e s mode w \<longleftrightarrow> (\<exists>t. map_of (files w) (iniPath e s) = Some t \<and> first_match hash_at t = Some (s_hash s) \<and> ini_mode t = mode)"

lemma ensure_leaves:
  assumes "sup_ensure e s mode w = (Inr a, w1)" "str_or mode (s_startMode s) = m" "m \<in> {''auto'', ''manual''}" "quiet_spec s"
  shows "ensured e s m w1"
proof -
  obtain st w' where st: "sup_status e s w = (Inr st, w')" using assms(1)
    by (cases "sup_status e s w") (auto simp: sup_ensure_def Let_def bindE_def split: sum.splits)
  show ?thesis
  proof (cases "st_installed st \<and> readIniHash e s w' = Some (s_hash s) \<and> st_startMode st = m")
    case True
    then have "isManaged e s w'" "w1 = w'" using assms(1,2) st by (auto simp: sup_ensure_def Let_def bindE_def split: if_splits)
    then show ?thesis using True sup_status_mode[OF st] assms(3)
      by (auto simp: ensured_def readIniHash_def readIniStartMode_def ini_text_def split: sum.splits option.splits)
  next
    case False
    let ?w = "w'\<lparr>files := aupd (iniPath e s) (renderIni s m) (files w')\<rparr>"
    have "seqE (askE (\<lambda>_. su_mkdir e)) (seqE (write_ini e s (renderIni s m)) (seqE (ctl_checked e [''reread''])
         (seqE (ctl_checked e [''update'', s_programName s]) (returnE (if st_installed st then ''updated'' else ''created''))))) w' = (Inr a, w1)"
      using assms(1,2) st False by (auto simp: sup_ensure_def Let_def bindE_def split: if_splits)
    then have "seqE (ctl_checked e [''reread'']) (seqE (ctl_checked e [''update'', s_programName s])
        (returnE (if st_installed st then ''updated'' else ''created''))) ?w = (Inr a, w1)"
      by (auto simp: handler_simps seqE_def bindE_def[of "write_ini e s t" for t] write_ini_def split: sum.splits)
    then have "files w1 = files ?w"
      using ctl_checked_files[of e "[''reread'']" ?w] ctl_checked_files[of e "[''update'', s_programName s]" "snd (ctl_checked e [''reread''] ?w)"]
      by (auto simp: seqE_def bindE_def returnE_def split: prod.splits sum.splits)
    then show ?thesis using hash_read_back[OF assms(4), of m] mode_read_back[OF assms(4), of m] assms(3)
      by (auto simp: ensured_def map_of_aupd)
  qed
qed

text \<open>C19. The services an operation touches. Whatever the tools answer, and whichever error they raise, each
  operation of the process manager on an instance (status, start, stop, restart, ensure, remove,
  enable, the update after an edit, the reconciliation of all) stays within the services of the
  instances it is called with. With supervisord every other configuration file is as before, and
  every command is a listing, a reread, an update or names a program of these instances; with NSSM
  no file changes and every command names a service of these instances or lists them.\<close>

theorem services_confined:
  "facade_within (sup_within e) (with_backend (supervisor e) c) \<and> facade_within (win_within e') (with_backend (nssm e') c')"
  by (intro conjI sup.facade win.facade) (simp_all add: with_backend_def)


section \<open>A host\<close>

text \<open>A supervisord that accepts every command and knows the programs that have a file, all stopped.\<close>

definition demo_tool :: "unit tool" where
  "demo_tool cmd args fs x = (Inr \<lparr>r_code = Num (num 0),
     r_out = (if list_ex (\<lambda>(p, t). p = ''/r/conf/supervisor.d/p.ini'') fs then ''p STOPPED'' else ''p: ERROR (no such process)''), r_err = []\<rparr>, x)"

definition demo_sup :: "unit sup_env" where
  "demo_sup = \<lparr>su_host = demo_host, su_cwd = [], su_managedDir = Undef, su_url = [], su_user = [], su_pass = [], su_envUrl = [], su_envUser = [],
     su_envPass = [], su_tool = demo_tool, su_mkdir = Inr (), su_write = (\<lambda>_. Inr ()), su_unlink = (\<lambda>_. Inr ()), su_read = (\<lambda>_. Inr ())\<rparr>"

definition demo_spec :: spec where
  "demo_spec = \<lparr>s_driver = ''DNP3'', s_key = ''p'', s_instance = num 1, s_logLevel = num 1, s_serviceName = ''p'', s_programName = ''p'',
     s_winServiceName = ''w'', s_cmd = ''/r/bin/p'', s_args = [''1'', ''1''], s_cwd = ''/r/bin'', s_logFile = ''/r/log/p.log'', s_startMode = ''manual'',
     s_hash = ''0a''\<rparr>"

definition demo_os :: "unit tools" where "demo_os = \<lparr>cmds = [], files = [], ext = ()\<rparr>"

lemma demo_path: "iniPath demo_sup demo_spec = ''/r/conf/supervisor.d/p.ini''"
  by (simp add: iniPath_def managedSupervisorDir_def demo_sup_def demo_spec_def demo_host_def confDir_def path_sep_def is_win_def normPath_def
      starts_with_def)

lemma demo_quiet: "quiet_spec demo_spec"
  by (simp add: quiet_spec_def demo_spec_def cmd_line_def quoteArg_def is_space_def hex_digit_def is_digit_def matches_i_sublist to_lower_def
      to_lower_char_def sublist_Cons_right)

lemma demo_status:
  "su_tool demo_sup ''supervisorctl'' args fs x = (Inr \<lparr>r_code = Num (num 0),
     r_out = (if list_ex (\<lambda>(p, t). p = ''/r/conf/supervisor.d/p.ini'') fs then ''p STOPPED'' else ''p: ERROR (no such process)''), r_err = []\<rparr>, x)"
  by (simp add: demo_sup_def demo_tool_def)

lemma demo_sup_fields: "su_mkdir demo_sup = Inr ()" "su_write demo_sup q = Inr ()" "s_programName demo_spec = ''p''"
  by (simp_all add: demo_sup_def demo_spec_def)

lemma demo_parsed: "fst (parseStatus \<lparr>r_code = Num (num 0), r_out = ''p STOPPED'', r_err = []\<rparr> ''p'')"
  "parseStatus \<lparr>r_code = Num (num 0), r_out = ''p: ERROR (no such process)'', r_err = []\<rparr> ''p'' = (False, ''UNKNOWN'')"
  by (simp_all add: parseStatus_def printed_def matches_i_sublist to_lower_def to_lower_char_def sublist_Cons_right second_word_def run_of_def
      is_space_def starts_with_def trim_def trim_start_def word_char_def alnum_def is_digit_def)


end
