(* ===== verification/Sparkplug.thy ===== *)
theory Sparkplug
  imports JSInt JSParse Handler "HOL-Library.Sublist"
begin

text \<open>
  Acquisition from Sparkplug B in the MQTT driver (\<open>mqtt-sparkplug\<close>): the parts of
  \<open>sparkplug-client.js\<close> that classify a message by its topic, the handler of messages of other
  nodes and devices (births, data, deaths) and \<open>queueMetric\<close>, which turns a metric into an
  update of a tag. \<open>DevicesList\<close> and \<open>ValuesQueue\<close> are the state. The decoder of the binary payload and
  the library of 64 bit integers are parameters, as are the clock and the texts of dates.
\<close>

section \<open>State\<close>

record device =
  d_birthed :: bool
  d_lastReq :: "int option"
  d_aliases :: "(string \<times> string) list option"

datatype sp_effect = RequestRebirth string string | InvalidatePath string

record spb =
  devices :: "(string \<times> device) list"
  valuesQueue :: "doc list"
  sp_effects :: "sp_effect list"

text \<open>\<open>long_number u v\<close> is \<open>Long.fromValue(v, u)\<close>, made signed or unsigned, as a number; \<open>obj_text\<close> is
  \<open>toString\<close> of an object (the digits of a \<open>Long\<close>).\<close>

record sp_env =
  sp_now :: int
  long_number :: "bool \<Rightarrow> jsval \<Rightarrow> js_error + jsnum"
  obj_text :: "doc \<Rightarrow> string"
  date_text :: "jsnum \<Rightarrow> string"
  sp_handle :: bool
  sp_mongo :: bool

definition SparkplugNS :: string where "SparkplugNS = ''spBv1.0''"
definition SECONDS_BETWEEN_NODE_REQUESTS :: int where "SECONDS_BETWEEN_NODE_REQUESTS = 300"

text \<open>\<open>v.toString()\<close>.\<close>

definition js_text :: "sp_env \<Rightarrow> jsval \<Rightarrow> js_error + string" where
  "js_text e v = (case v of Undef \<Rightarrow> Inl TypeError | Null \<Rightarrow> Inl TypeError | Obj d \<Rightarrow> Inr (obj_text e d) | Date t \<Rightarrow> Inr (date_text e t)
     | _ \<Rightarrow> Inr (to_string v))"

definition json_of :: "jsval \<Rightarrow> jsval" where
  "json_of = json_stringify iso_of"

section \<open>Topics\<close>

text \<open>The characters that separate levels or are wild cards.\<close>

definition topicStr :: "jsval \<Rightarrow> string" where
  "topicStr v = (case v of Str s \<Rightarrow> replace_char (CHR ''#'') ''@'' (replace_char (CHR ''+'') ''^'' (replace_char (CHR ''/'') ''|'' (trim s))) | _ \<Rightarrow> [])"

text \<open>The topic and the path of a subscription \<open>topic/$.path\<close>.\<close>

definition JsonPathTopic :: "string \<Rightarrow> string \<times> string" where
  "JsonPathTopic jp = (let t = trim jp; pos = index_of ''/$.'' t in
     if pos \<noteq> -1 then (take (nat pos) t, drop (nat pos + 1) t) else (t, []))"

fun join_levels :: "string list \<Rightarrow> string" where
  "join_levels [] = []"
| "join_levels [l] = l"
| "join_levels (l # ls) = l @ ''/'' @ join_levels ls"

definition msg_types :: "string list" where
  "msg_types = [''NBIRTH'', ''NDEATH'', ''NDATA'', ''NCMD'', ''DBIRTH'', ''DDEATH'', ''DDATA'', ''DCMD'']"

record topic_info =
  ti_namespace :: string
  ti_groupId :: string
  ti_msgType :: string
  ti_edgeNodeId :: string
  ti_deviceId :: "string option"

text \<open>The first level from the third on that is a message type splits the topic.\<close>

definition parseSparkplugTopic :: "string list \<Rightarrow> topic_info option" where
  "parseSparkplugTopic ls =
     (if take 1 ls \<noteq> [SparkplugNS] \<or> length ls < 4 then None
      else (case dropWhile (\<lambda>l. l \<notin> set msg_types) (drop 2 ls) of
          [] \<Rightarrow> None
        | mt # rest \<Rightarrow>
            (let group = join_levels (tl (take (length ls - length (mt # rest)) ls)) in
             case rest of [] \<Rightarrow> None
             | edge # dev \<Rightarrow>
                 if hd mt = CHR ''D'' then
                   (if dev = [] then None
                    else Some \<lparr>ti_namespace = SparkplugNS, ti_groupId = group, ti_msgType = mt, ti_edgeNodeId = edge, ti_deviceId = Some (join_levels dev)\<rparr>)
                 else Some \<lparr>ti_namespace = SparkplugNS, ti_groupId = group, ti_msgType = mt, ti_edgeNodeId = edge, ti_deviceId = None\<rparr>)))"

text \<open>A payload that is no valid Sparkplug buffer may be JSON.\<close>

definition decodeJsonPayload :: "sp_env \<Rightarrow> string \<Rightarrow> doc option" where
  "decodeJsonPayload e message = (let t = trim message in
     if t = [] \<or> (hd t \<noteq> CHR 0x7B \<and> hd t \<noteq> CHR ''['') then None
     else (case json_parse t of Inl _ \<Rightarrow> None
       | Inr (Arr ms) \<Rightarrow> Some [(''timestamp'', Num (num (sp_now e))), (''metrics'', Arr ms)]
       | Inr (Obj d) \<Rightarrow> if (case fld d ''metrics'' of Arr _ \<Rightarrow> True | _ \<Rightarrow> False) \<or> has_key ''timestamp'' d \<or> has_key ''seq'' d then Some d else None
       | Inr _ \<Rightarrow> None))"

datatype mqtt_event = NotSparkplug | Discard | Ncmd doc | Dcmd string doc | SpMessage doc topic_info | OwnMessage

text \<open>The \<open>message\<close> handler of the client: \<open>decode\<close> is \<open>maybeDecompressPayload(decodePayload(message))\<close>.\<close>

definition classify :: "sp_env \<Rightarrow> (string \<Rightarrow> doc option) \<Rightarrow> string \<Rightarrow> string \<Rightarrow> string \<Rightarrow> string \<Rightarrow> mqtt_event" where
  "classify e decode groupId edgeNode topic message =
     (let ls = split_char (CHR ''/'') topic in
      case parseSparkplugTopic ls of
        None \<Rightarrow> if take 1 ls = [SparkplugNS] \<and> take 1 (drop 1 ls) \<noteq> [''STATE''] then Discard else NotSparkplug
      | Some ti \<Rightarrow> (case (case decode message of Some p \<Rightarrow> Some p | None \<Rightarrow> decodeJsonPayload e message) of
            None \<Rightarrow> Discard
          | Some p \<Rightarrow>
              if ti_groupId ti = groupId \<and> ti_msgType ti = ''NCMD'' \<and> ti_edgeNodeId ti = edgeNode then Ncmd p
              else if ti_groupId ti = groupId \<and> ti_msgType ti = ''DCMD'' \<and> ti_edgeNodeId ti = edgeNode
              then Dcmd (case ti_deviceId ti of Some d \<Rightarrow> d | None \<Rightarrow> []) p
              else if ti_groupId ti \<noteq> groupId \<or> ti_edgeNodeId ti \<noteq> edgeNode then SpMessage p ti else OwnMessage))"

section \<open>Values\<close>

text \<open>\<open>castSparkplugValue\<close>: a 64 bit integer is the number its \<open>toNumber\<close> gives.\<close>

datatype cast = LongOf jsnum | Plain jsval

definition castSparkplugValue :: "sp_env \<Rightarrow> string \<Rightarrow> jsval \<Rightarrow> js_error + cast" where
  "castSparkplugValue e type v = (let t = to_lower type in
     if t \<in> set [''int8'', ''int16'', ''int32''] then Inr (Plain (Num (int32_of v)))
     else if t = ''int64'' then map_sum id LongOf (long_number e False v)
     else if t \<in> set [''uint8'', ''uint16'', ''uint32''] then Inr (Plain (Num (uint32_of v)))
     else if t = ''uint64'' then map_sum id LongOf (long_number e True v)
     else if t = ''datetime'' then map_sum id (\<lambda>n. Plain (Date (time_clip n))) (long_number e True v)
     else if t = ''boolean'' then Inr (Plain (Bool (truthy v)))
     else Inr (Plain v))"

record mval =
  m_value :: jsval
  m_string :: jsval
  m_json :: jsval
  m_type :: string

definition mval :: "jsval \<Rightarrow> jsval \<Rightarrow> jsval \<Rightarrow> string \<Rightarrow> mval" where
  "mval v s j t = \<lparr>m_value = v, m_string = s, m_json = j, m_type = t\<rparr>"

text \<open>\<open>v[i]\<close>.\<close>

definition js_index :: "jsval \<Rightarrow> nat \<Rightarrow> js_error + jsval" where
  "js_index v i = (case v of Undef \<Rightarrow> Inl TypeError | Null \<Rightarrow> Inl TypeError | Arr vs \<Rightarrow> Inr (if i < length vs then vs ! i else Undef)
     | Obj d \<Rightarrow> Inr (fld d (int_to_string (int i))) | Str s \<Rightarrow> Inr (if i < length s then Str [s ! i] else Undef) | _ \<Rightarrow> Inr Undef)"

text \<open>One row of a data set as an object, its columns from \<open>i\<close> on; the type of a missing column throws.\<close>

fun dataset_row :: "sp_env \<Rightarrow> jsval \<Rightarrow> jsval \<Rightarrow> nat list \<Rightarrow> doc \<Rightarrow> js_error + doc" where
  "dataset_row e ds row [] r = Inr r"
| "dataset_row e ds row (i # is) r = (case js_index (opt_get ds ''types'') i of Inl err \<Rightarrow> Inl err
     | Inr (Str t) \<Rightarrow> (case js_index row i of Inl err \<Rightarrow> Inl err
         | Inr x \<Rightarrow> (case castSparkplugValue e t x of Inl err \<Rightarrow> Inl err
             | Inr c \<Rightarrow> (case js_index (opt_get ds ''columns'') i of Inl err \<Rightarrow> Inl err
                 | Inr k \<Rightarrow> dataset_row e ds row is (aupd (to_string k) (case c of LongOf n \<Rightarrow> Num n | Plain y \<Rightarrow> y) r))))
     | Inr _ \<Rightarrow> Inl TypeError)"

definition dataset_columns :: "jsval \<Rightarrow> nat list" where
  "dataset_columns ds = takeWhile (\<lambda>i. js_lt (Num (num (int i))) (opt_get ds ''numOfColumns''))
     [0..<Suc (case opt_get ds ''types'' of Arr ts \<Rightarrow> length ts | Str s \<Rightarrow> length s | Obj d \<Rightarrow> length d | _ \<Rightarrow> 0)]"

fun dataset_rows :: "sp_env \<Rightarrow> jsval \<Rightarrow> jsval list \<Rightarrow> js_error + jsval list" where
  "dataset_rows e ds [] = Inr []"
| "dataset_rows e ds (row # rows) = (case dataset_row e ds row (dataset_columns ds) [] of Inl err \<Rightarrow> Inl err
     | Inr r \<Rightarrow> map_sum id (\<lambda>rs. Obj r # rs) (dataset_rows e ds rows))"

text \<open>\<open>value\<close> is there and not null.\<close>

definition has_value :: "doc \<Rightarrow> bool" where
  "has_value m = (has_key ''value'' m \<and> fld m ''value'' \<noteq> Null)"

definition dataset_value :: "sp_env \<Rightarrow> doc \<Rightarrow> js_error + mval" where
  "dataset_value e m = (let v = fld m ''value'' in
     if \<not> has_key ''value'' m then Inr (mval (Num (num 0)) (Str []) (Str []) ''json'')
     else (case v of Obj d \<Rightarrow>
         if has_key ''numOfColumns'' d
         then (case js_elements (fld d ''rows'') of Inl err \<Rightarrow> Inl err
           | Inr rows \<Rightarrow> map_sum id (\<lambda>rs. mval (Num (num 0)) (json_of (Arr rs)) (json_of (Obj m)) ''json'') (dataset_rows e v rows))
         else Inr (mval (Num (num 0)) (json_of v) (json_of (Obj m)) ''json'')
       | _ \<Rightarrow> Inr (mval (Num (num 0)) (json_of v) (json_of (Obj m)) ''json'')))"

text \<open>The value by the type of the metric; templates are expanded by \<open>queueMetric\<close> when they hold
  metrics.\<close>

definition metric_value :: "sp_env \<Rightarrow> string \<Rightarrow> doc \<Rightarrow> js_error + mval" where
  "metric_value e type m = (let v = fld m ''value''; zero = Num (num 0); j = json_of (Obj m); t = to_lower type in
     if t = ''template'' then Inr (if has_key ''value'' m then mval zero (json_of v) j ''json'' else mval zero (Str []) (Str []) ''json'')
     else if t = ''dataset'' then dataset_value e m
     else if t = ''boolean'' then
       (if \<not> has_value m then Inr (mval zero (Str ''false'') (Bool False) ''digital'')
        else map_sum id (\<lambda>s. mval (if v = Bool False then zero else Num (num 1)) (Str s) j ''digital'') (js_text e v))
     else if t \<in> set [''uuid'', ''text'', ''string''] then
       (if \<not> has_value m then Inr (mval zero (Str []) (Str []) ''string'')
        else Inr (mval (let x = parse_float (to_string v) in Num (if num_is_nan x then num 0 else x)) v j ''string''))
     else if t \<in> set [''int8'', ''uint8'', ''int16'', ''uint16'', ''int32'', ''uint32'', ''float'', ''double'', ''int64'', ''uint64'', ''datetime''] then
       (if \<not> has_value m then Inr (mval zero (Str ''0'') j ''analog'')
        else (case castSparkplugValue e type v of Inl err \<Rightarrow> Inl err
          | Inr (LongOf n) \<Rightarrow> Inr (mval (Num n) (Str (num_to_string n)) j ''analog'')
          | Inr (Plain x) \<Rightarrow> map_sum id (\<lambda>s. mval (case x of Date d \<Rightarrow> Num d | _ \<Rightarrow> x) (Str s) j ''analog'') (js_text e x)))
     else Inr (mval zero (Str []) (Str []) ''digital''))"

section \<open>Metrics\<close>

definition alias_key :: "sp_env \<Rightarrow> doc \<Rightarrow> js_error + string" where
  "alias_key e m = map_sum id (\<lambda>s. ''a'' @ s) (js_text e (fld m ''alias''))"

definition set_alias :: "string \<Rightarrow> string \<Rightarrow> string \<Rightarrow> spb \<Rightarrow> spb" where
  "set_alias loc k addr w = (case map_of (devices w) loc of None \<Rightarrow> w
     | Some d \<Rightarrow> w\<lparr>devices := aupd loc (d\<lparr>d_aliases := map_option (aupd k addr) (d_aliases d)\<rparr>) (devices w)\<rparr>)"

text \<open>The object address of a metric: by its name, which is noted for its alias, or by its alias.
  \<open>None\<close> when the metric is dropped.\<close>

definition named_address :: "string \<Rightarrow> jsval \<Rightarrow> string \<Rightarrow> js_error + string" where
  "named_address loc templ n = (if \<not> truthy templ then Inr (loc @ ''/'' @ topicStr (Str n))
     else (case templ of Str t \<Rightarrow> Inr (if trim t \<noteq> [] then loc @ ''/'' @ topicStr templ @ ''/'' @ n else loc @ ''/'' @ topicStr (Str n))
       | _ \<Rightarrow> Inl TypeError))"

definition metric_address :: "sp_env \<Rightarrow> string \<Rightarrow> jsval \<Rightarrow> doc \<Rightarrow> spb \<Rightarrow> (js_error + string option) \<times> spb" where
  "metric_address e loc templ m w =
     (case (case fld m ''name'' of Str n \<Rightarrow> if trim n \<noteq> [] then Some n else None | _ \<Rightarrow> None) of
        Some n \<Rightarrow> (case named_address loc templ n of Inl err \<Rightarrow> (Inl err, w)
          | Inr addr \<Rightarrow>
              if \<not> has_key ''alias'' m then (Inr (Some addr), w)
              else (case map_of (devices w) loc of None \<Rightarrow> (Inr None, w)
                | Some d \<Rightarrow> (case (d_aliases d, alias_key e m) of
                      (Some _, Inr k) \<Rightarrow> (Inr (Some addr), set_alias loc k addr w)
                    | _ \<Rightarrow> (Inl TypeError, w))))
      | None \<Rightarrow>
          if \<not> has_key ''alias'' m then (Inr None, w)
          else (case alias_key e m of Inl err \<Rightarrow> (Inl err, w)
            | Inr k \<Rightarrow> (case map_of (devices w) loc of None \<Rightarrow> (Inr None, w)
                | Some d \<Rightarrow> (case d_aliases d of None \<Rightarrow> (Inl TypeError, w)
                    | Some as \<Rightarrow> (Inr (case map_of as k of Some a \<Rightarrow> if a = [] then None else Some a | None \<Rightarrow> None), w)))))"

definition flag :: "jsval \<Rightarrow> jsval \<Rightarrow> jsval" where
  "flag a b = (if truthy a \<or> truthy b then Bool True else Null)"

definition metric_time :: "sp_env \<Rightarrow> doc \<Rightarrow> js_error + jsnum \<times> bool" where
  "metric_time e m = (if has_key ''timestamp'' m then map_sum id (\<lambda>n. (time_clip n, True)) (long_number e True (fld m ''timestamp''))
     else Inr (num (sp_now e), False))"

definition is_null_metric :: "doc \<Rightarrow> bool" where
  "is_null_metric m = (fld m ''value'' = Null \<or> fld m ''is_null'' = Bool True \<or> fld m ''isNull'' = Bool True \<or> \<not> has_key ''value'' m)"

text \<open>\<open>metric.properties.k.value\<close>.\<close>

definition prop_value :: "jsval \<Rightarrow> string \<Rightarrow> js_error + jsval" where
  "prop_value p k = (case get p k of Inl err \<Rightarrow> Inl err | Inr x \<Rightarrow> get x ''value'')"

text \<open>The quality and the validity of the time from the properties.\<close>

definition prop_flag :: "jsval \<Rightarrow> string \<Rightarrow> (jsval \<Rightarrow> bool) \<Rightarrow> bool \<Rightarrow> js_error + bool" where
  "prop_flag p k f old = (case js_in k p of Inl err \<Rightarrow> Inl err | Inr False \<Rightarrow> Inr old | Inr True \<Rightarrow> map_sum id f (prop_value p k))"

definition metric_quality :: "doc \<Rightarrow> bool \<Rightarrow> bool \<Rightarrow> js_error + bool \<times> bool" where
  "metric_quality m bad0 good = (if \<not> has_key ''properties'' m then Inr (bad0, good)
     else (let p = fld m ''properties''; bad = (\<lambda>v. \<not> strict_eq v (Num (num 192))) in
       case prop_flag p ''good'' (\<lambda>v. \<not> truthy v) bad0 of Inl err \<Rightarrow> Inl err
       | Inr i1 \<Rightarrow> (case prop_flag p ''quality'' bad i1 of Inl err \<Rightarrow> Inl err
         | Inr i2 \<Rightarrow> (case prop_flag p ''Quality'' bad i2 of Inl err \<Rightarrow> Inl err
           | Inr i3 \<Rightarrow> map_sum id (\<lambda>g. (i3, g)) (prop_flag p ''timestampGood'' truthy good)))))"

text \<open>What a birth tells of the point.\<close>

definition catalog :: "sp_env \<Rightarrow> doc \<Rightarrow> string \<Rightarrow> js_error + doc" where
  "catalog e m type =
     (let p = fld m ''properties''; opt = (\<lambda>k. js_or (opt_get (opt_get p k) ''value'') (Str []));
          remarks = (''commissioningRemarks'', Str (''Auto created by Sparkplug B driver - '' @ iso_of (num (sp_now e)))) in
      case (if has_key ''metadata'' m
            then (case js_in ''description'' (fld m ''metadata'') of Inl err \<Rightarrow> Inl err
              | Inr b \<Rightarrow> Inr (if b then opt_get (fld m ''metadata'') ''description'' else Str []))
            else Inr (Str [])) of
        Inl err \<Rightarrow> Inl err
      | Inr descr \<Rightarrow>
          if \<not> has_key ''properties'' m
          then Inr ([(''description'', descr), (''ungroupedDescription'', Str []), (''group1'', Str []), (''group2'', Str []), (''group3'', Str []), (''type'', Str type), remarks])
          else (case js_in ''description'' p of Inl err \<Rightarrow> Inl err
            | Inr b \<Rightarrow> (case (if b then prop_value p ''description'' else Inr descr) of Inl err \<Rightarrow> Inl err
                | Inr descr' \<Rightarrow> Inr ([(''description'', descr'), (''ungroupedDescription'', opt ''ungroupedDescription''), (''group1'', opt ''group1''),
                      (''group2'', opt ''group2''), (''group3'', opt ''group3''), (''type'', Str type)] @
                    (if js_in ''engUnit'' p = Inr True then [(''unit'', js_or (opt_get (opt_get p ''engUnit'') ''value'') (Str ''units''))] else []) @ [remarks]))))"

text \<open>The element queued for a metric whose address is known.\<close>

definition metric_fields :: "bool \<Rightarrow> string \<Rightarrow> string \<Rightarrow> string \<Rightarrow> doc \<Rightarrow> mval \<Rightarrow> jsnum \<Rightarrow> bool \<Rightarrow> bool \<Rightarrow> doc" where
  "metric_fields isBirth msgType addr type m v t invd good =
     [(''protocolSourceObjectAddress'', Str addr), (''value'', m_value v), (''valueString'', m_string v), (''valueJson'', m_json v),
      (''invalid'', Bool invd), (''causeOfTransmissionAtSource'', Str (if isBirth then ''20'' else ''3'')),
      (''timeTagAtSource'', Date (time_clip t)), (''timeTagAtSourceOk'', Bool good), (''asduAtSource'', Str (m_type v)),
      (''metricType'', Str (to_lower type)), (''msgType'', Str msgType), (''isNull'', Bool (is_null_metric m)),
      (''isHistorical'', flag (fld m ''is_historical'') (fld m ''isHistorical'')),
      (''isNotForHistorical'', flag (fld m ''is_transient'') (fld m ''isTransient''))]"

definition metric_update :: "sp_env \<Rightarrow> bool \<Rightarrow> string \<Rightarrow> string \<Rightarrow> string \<Rightarrow> doc \<Rightarrow> mval \<Rightarrow> jsnum \<times> bool \<Rightarrow> js_error + doc" where
  "metric_update e isBirth msgType addr type m v tm =
     (case metric_quality m (is_null_metric m) (snd tm) of Inl err \<Rightarrow> Inl err
      | Inr (invd, good) \<Rightarrow> (case (if isBirth then catalog e m (m_type v) else Inr []) of Inl err \<Rightarrow> Inl err
          | Inr cat \<Rightarrow> Inr (aspread (metric_fields isBirth msgType addr type m v (fst tm) invd good) cat)))"

definition enqueue_value :: "doc \<Rightarrow> spb \<Rightarrow> spb" where
  "enqueue_value d w = w\<lparr>valuesQueue := valuesQueue w @ [d]\<rparr>"

text \<open>The metrics inside a template value.\<close>

definition template_metrics :: "string \<Rightarrow> doc \<Rightarrow> jsval option" where
  "template_metrics type m = (if to_lower type = ''template'' then (case fld m ''value'' of Obj d \<Rightarrow> if has_key ''metrics'' d then Some (fld d ''metrics'') else None | _ \<Rightarrow> None) else None)"

lemma size_fld: "size (fld d k) \<le> size_list (size_prod (\<lambda>_. 0) size) d"
  by (induction d) (auto simp: fld_def)

lemma template_smaller:
  assumes "template_metrics t m = Some (Arr ms)" shows "size_list size ms < size (Obj m)"
proof -
  obtain d where d: "fld m ''value'' = Obj d" "fld d ''metrics'' = Arr ms"
    using assms by (auto simp: template_metrics_def split: if_splits jsval.splits)
  show ?thesis using size_fld[of m "''value''"] size_fld[of d "''metrics''"] d by simp
qed

text \<open>A metric is dropped without a type in text or without an address; the metrics of a template are
  queued in its place, under its name. An exception leaves what was queued before it.\<close>

function queueMetric :: "sp_env \<Rightarrow> string \<Rightarrow> bool \<Rightarrow> string \<Rightarrow> jsval \<Rightarrow> jsval \<Rightarrow> spb \<Rightarrow> (js_error + unit) \<times> spb"
  and queueMetrics :: "sp_env \<Rightarrow> string \<Rightarrow> bool \<Rightarrow> string \<Rightarrow> jsval \<Rightarrow> jsval list \<Rightarrow> spb \<Rightarrow> (js_error + unit) \<times> spb" where
  "queueMetric e loc birth mt templ metric w = (case metric of
      Obj m \<Rightarrow> (case fld m ''type'' of
          Str type \<Rightarrow> (case metric_address e loc templ m w of
              (Inl err, w1) \<Rightarrow> (Inl err, w1)
            | (Inr None, w1) \<Rightarrow> (Inr (), w1)
            | (Inr (Some addr), w1) \<Rightarrow> (case metric_time e m of
                  Inl err \<Rightarrow> (Inl err, w1)
                | Inr tm \<Rightarrow> (case template_metrics type m of
                      Some (Arr ms) \<Rightarrow> queueMetrics e loc birth mt (fld m ''name'') ms w1
                    | Some _ \<Rightarrow> (Inl TypeError, w1)
                    | None \<Rightarrow> (case metric_value e type m of
                          Inl err \<Rightarrow> (Inl err, w1)
                        | Inr v \<Rightarrow> (case metric_update e birth mt addr type m v tm of
                              Inl err \<Rightarrow> (Inl err, w1)
                            | Inr d \<Rightarrow> (Inr (), enqueue_value d w1))))))
        | _ \<Rightarrow> (Inr (), w))
    | _ \<Rightarrow> (Inr (), w))"
| "queueMetrics e loc birth mt templ [] w = (Inr (), w)"
| "queueMetrics e loc birth mt templ (m # ms) w = (case queueMetric e loc birth mt templ m w of
      (Inl err, w1) \<Rightarrow> (Inl err, w1) | (Inr _, w1) \<Rightarrow> queueMetrics e loc birth mt templ ms w1)"
  by pat_completeness auto
termination
  by (relation "measure (\<lambda>x. case x of Inl (_, _, _, _, _, m, _) \<Rightarrow> size m | Inr (_, _, _, _, _, ms, _) \<Rightarrow> size_list size ms)")
    (auto dest: template_smaller)

section \<open>Messages of other nodes and devices\<close>

text \<open>A birth starts the list of aliases of the node or device afresh.\<close>

definition birth_entry :: device where
  "birth_entry = \<lparr>d_birthed = True, d_lastReq = None, d_aliases = Some []\<rparr>"

definition ProcessBirthOrData :: "sp_env \<Rightarrow> string \<Rightarrow> jsval list \<Rightarrow> bool \<Rightarrow> string \<Rightarrow> spb \<Rightarrow> (js_error + unit) \<times> spb" where
  "ProcessBirthOrData e loc ms isBirth mt w =
     queueMetrics e loc isBirth mt (Str []) ms (if isBirth then w\<lparr>devices := aupd loc birth_entry (devices w)\<rparr> else w)"

definition kept_metrics :: "doc \<Rightarrow> jsval list" where
  "kept_metrics payload = (case fld payload ''metrics'' of
      Arr ms \<Rightarrow> filter (\<lambda>m. opt_get m ''type'' \<noteq> Undef \<and> opt_get m ''type'' \<noteq> Null) ms | _ \<Rightarrow> [])"

definition node_locator :: "topic_info \<Rightarrow> string" where
  "node_locator ti = ti_namespace ti @ ''/'' @ ti_groupId ti @ ''/'' @ ti_edgeNodeId ti"

definition has_device :: "topic_info \<Rightarrow> bool" where
  "has_device ti = (case ti_deviceId ti of None \<Rightarrow> False | Some d \<Rightarrow> d \<noteq> [])"

definition device_locator :: "topic_info \<Rightarrow> string" where
  "device_locator ti = (if has_device ti then node_locator ti @ ''/'' @ the (ti_deviceId ti) else node_locator ti)"

definition valid_topic :: "topic_info \<Rightarrow> bool" where
  "valid_topic ti = (ti_namespace ti \<noteq> [] \<and> ti_groupId ti \<noteq> [] \<and> ti_msgType ti \<noteq> [] \<and> ti_edgeNodeId ti \<noteq> [] \<and>
     (ti_msgType ti \<in> set [''DDATA'', ''DBIRTH'', ''DDEATH''] \<longrightarrow> has_device ti))"

definition is_birthed :: "spb \<Rightarrow> string \<Rightarrow> bool" where
  "is_birthed w loc = (case map_of (devices w) loc of None \<Rightarrow> False | Some d \<Rightarrow> d_birthed d)"

definition asked_lately :: "sp_env \<Rightarrow> string \<Rightarrow> spb \<Rightarrow> bool" where
  "asked_lately e node w = (case map_of (devices w) node of
      Some d \<Rightarrow> (case d_lastReq d of Some t \<Rightarrow> sp_now e < t + SECONDS_BETWEEN_NODE_REQUESTS * 1000 | None \<Rightarrow> False)
    | None \<Rightarrow> False)"

definition sp_emit :: "sp_effect \<Rightarrow> spb \<Rightarrow> spb" where
  "sp_emit x w = w\<lparr>sp_effects := sp_effects w @ [x]\<rparr>"

text \<open>The node of data that no birth announced is asked for a new birth, at most once in
  \<open>SECONDS_BETWEEN_NODE_REQUESTS\<close>; both clock readings are one here.\<close>

definition request_rebirth :: "sp_env \<Rightarrow> topic_info \<Rightarrow> spb \<Rightarrow> spb" where
  "request_rebirth e ti w = (let node = node_locator ti in
     if asked_lately e node w then w
     else (let w1 = w\<lparr>devices := aupd node \<lparr>d_birthed = False, d_lastReq = Some (sp_now e), d_aliases = None\<rparr> (devices w)\<rparr> in
       if sp_handle e then sp_emit (RequestRebirth (ti_groupId ti) (ti_edgeNodeId ti)) w1 else w1))"

definition invalidate :: "sp_env \<Rightarrow> string \<Rightarrow> spb \<Rightarrow> spb" where
  "invalidate e path w = (if sp_mongo e then sp_emit (InvalidatePath path) w else w)"

definition bury :: "(string \<Rightarrow> bool) \<Rightarrow> spb \<Rightarrow> spb" where
  "bury P w = w\<lparr>devices := map (\<lambda>(k, d). (k, if P k then d\<lparr>d_birthed := False\<rparr> else d)) (devices w)\<rparr>"

definition sp_message :: "sp_env \<Rightarrow> topic_info \<Rightarrow> doc \<Rightarrow> spb \<Rightarrow> (js_error + unit) \<times> spb" where
  "sp_message e ti payload w =
     (let ms = kept_metrics payload; node = node_locator ti; dev = device_locator ti; mt = ti_msgType ti in
      if \<not> valid_topic ti then (Inr (), w)
      else if mt = ''NDATA'' then
        (if \<not> is_birthed w node then (Inr (), request_rebirth e ti w) else ProcessBirthOrData e node ms False mt w)
      else if mt = ''DDATA'' then
        (if \<not> is_birthed w dev then (Inr (), request_rebirth e ti w) else ProcessBirthOrData e dev ms False mt w)
      else if mt = ''NBIRTH'' then
        (case ProcessBirthOrData e node ms True mt w of (Inl err, w1) \<Rightarrow> (Inl err, w1) | (Inr _, w1) \<Rightarrow> (Inr (), invalidate e node w1))
      else if mt = ''DBIRTH'' then ProcessBirthOrData e dev ms True mt w
      else if mt = ''NDEATH'' then (Inr (), invalidate e node (bury (prefix node) w))
      else if mt = ''DDEATH'' then (Inr (), invalidate e dev (bury ((=) dev) w))
      else (Inr (), w))"

text \<open>What \<open>InvalidatePathTags\<close> asks of the database: every tag of the connection whose address begins
  with the path is marked.\<close>

definition InvalidatePathTags :: "jsval \<Rightarrow> string \<Rightarrow> doc list \<Rightarrow> doc list" where
  "InvalidatePathTags conn path tags = map (\<lambda>d.
     if fld d ''protocolSourceConnectionNumber'' = conn \<and> (case fld d ''protocolSourceObjectAddress'' of Str a \<Rightarrow> prefix path a | _ \<Rightarrow> False)
     then aupd ''invalid'' (Bool True) d else d) tags"

end
