(* ===== verification/JSDigits.thy ===== *)
theory JSDigits
  imports JSInt
begin

text \<open>
  Integers read back from their text by \<open>parseInt\<close>, which stops at the first character that is no digit,
  and fields a spread leaves alone.
\<close>

lemma map_sum_Inr_iff [simp]: "map_sum f g x = Inr y \<longleftrightarrow> (\<exists>z. x = Inr z \<and> y = g z)"
  by (cases x) auto

lemma map_of_aspread_other: "\<not> has_key k c \<Longrightarrow> map_of (aspread base c) k = map_of base k"
  by (induction c arbitrary: base) auto

lemma fld_aspread_other: "\<not> has_key k c \<Longrightarrow> fld (aspread base c) k = fld base k"
  by (simp add: fld_def map_of_aspread_other)

lemma digit_cases: "is_digit c \<Longrightarrow> c \<in> set ''0123456789''"
proof -
  assume "is_digit c"
  then have "(of_char c :: nat) \<in> set [48..<58]" by (simp add: is_digit_def del: upt_conv_Cons upt_Suc upt_rec_numeral)
  then have "char_of (of_char c :: nat) \<in> char_of ` set [48..<(58::nat)]" by blast
  moreover have "map char_of [48..<(58::nat)] = ''0123456789''" by code_simp
  ultimately show ?thesis by (metis char_of_char list.set_map)
qed

lemma digit_facts:
  assumes "c \<in> set ''0123456789''"
  shows "hex_val c = Some (digit_val c)" "digit_val c < 10" "\<not> is_space c" "c \<noteq> CHR ''-'' \<and> c \<noteq> CHR ''+''" "to_lower_char c \<noteq> CHR ''x''"
  using assms by (auto simp: hex_val_def to_lower_char_def digit_val_def is_space_def Let_def)

lemma scan_digits:
  assumes "list_all is_digit (d # ds)" "r \<noteq> [] \<Longrightarrow> \<not> radix_digit 10 (hd r) \<and> to_lower_char (hd r) \<noteq> CHR ''x''"
  shows "takeWhile (radix_digit 10) (d # ds @ r) = d # ds" "radix_val 10 (d # ds) = digits_val (d # ds)" "\<not> starts_with ''0x'' (to_lower (d # ds @ r))"
proof -
  note dg = digit_facts[OF digit_cases]
  have "list_all (radix_digit 10) (d # ds)" using assms(1) dg by (auto simp: list_all_iff radix_digit_def)
  then show "takeWhile (radix_digit 10) (d # ds @ r) = d # ds"
    using assms(2) by (cases r) (simp_all add: takeWhile_append list_all_iff)
  have "\<forall>x \<in> set xs. is_digit x \<Longrightarrow> foldl (\<lambda>n c. 10 * n + (case hex_val c of None \<Rightarrow> 0 | Some d \<Rightarrow> d)) n xs = foldl (\<lambda>n c. 10 * n + digit_val c) n xs" for n xs
    by (induction xs arbitrary: n) (auto simp: dg)
  then show "radix_val 10 (d # ds) = digits_val (d # ds)" unfolding radix_val_def digits_val_def using assms(1) dg(1) by (simp add: list_all_iff)
  show "\<not> starts_with ''0x'' (to_lower (d # ds @ r))"
    using assms dg(5) by (cases ds; cases r) (auto simp: starts_with_def to_lower_def)
qed

lemma parse_int_digits:
  assumes "list_all is_digit (d # ds)" "r \<noteq> [] \<Longrightarrow> \<not> radix_digit 10 (hd r) \<and> to_lower_char (hd r) \<noteq> CHR ''x''"
  shows "parse_int (d # ds @ r) = dbl (of_int (digits_val (d # ds)))"
  using digit_facts[OF digit_cases, of d] scan_digits[OF assms] assms(1) by (simp add: parse_int_def trim_start_def split_sign_def Let_def)

lemma parse_int_minus:
  assumes "list_all is_digit (d # ds)" shows "parse_int (CHR ''-'' # d # ds) = dbl (of_int (- digits_val (d # ds)))"
  using scan_digits[of d ds "[]"] assms by (simp add: parse_int_def trim_start_def split_sign_def is_space_def Let_def)

lemma parse_int_print:
  assumes "0 \<le> n" "n \<le> 2 ^ 53" shows "parse_int (num_to_string (num n)) = num n"
proof -
  obtain d ds where d: "nat_digits (nat n) = d # ds" using nat_digits_ne by (cases "nat_digits (nat n)") auto
  have t: "num_to_string (num n) = d # ds"
  proof -
    have "(of_int n :: rat) \<le> 2 ^ 53" using assms(2) by (metis of_int_le_iff of_int_numeral of_int_power)
    moreover have "\<bar>of_int n :: rat\<bar> = of_int n" using assms(1) by simp
    ultimately show ?thesis using d assms(1) by (simp add: num_to_string_def num_def int_to_string_def)
  qed
  have "digits_val (d # ds) = n" using digits_val_nat_digits[of "nat n"] d assms(1) by simp
  then show ?thesis using parse_int_digits[of d ds "[]"] nat_digits_all[of "nat n"] d t dbl_of_int[of n] assms by simp
qed

lemma parse_int_print_int:
  assumes "\<bar>n\<bar> \<le> 2 ^ 53" shows "parse_int (num_to_string (num n)) = num n"
proof (cases "0 \<le> n")
  case True
  then show ?thesis using parse_int_print[of n] assms by simp
next
  case False
  obtain d ds where d: "nat_digits (nat (- n)) = d # ds" using nat_digits_ne by (cases "nat_digits (nat (- n))") auto
  have "num_to_string (num n) = CHR ''-'' # d # ds" using num_to_string_int[OF assms] d False by (simp add: int_to_string_def)
  moreover have "digits_val (d # ds) = - n" using digits_val_nat_digits[of "nat (- n)"] d False by simp
  ultimately show ?thesis using parse_int_minus[of d ds] nat_digits_all[of "nat (- n)"] d dbl_of_int[of n] assms by simp
qed

end
