(* ===== verification/SparkplugLaws.thy ===== *)
theory SparkplugLaws
  imports Sparkplug JSDigits
begin

text \<open>
  What acquisition from Sparkplug guarantees: values are queued below a locator that gave birth, the
  aliases of a birth name the points of the data that follow, and a node is not asked for a birth
  again too soon. A run feeds messages one after the other; an exception is logged and the next
  message is handled.
\<close>

section \<open>Queueing metrics\<close>

text \<open>A relation between states that the address of a metric and the queueing of its update keep holds
  over a whole payload.\<close>

locale metric_relation =
  fixes R :: "spb \<Rightarrow> spb \<Rightarrow> bool" and e :: sp_env and loc :: string and birth :: bool and mt :: string
  assumes R_refl: "R w w"
    and R_trans: "R w w1 \<Longrightarrow> R w1 w2 \<Longrightarrow> R w w2"
    and R_address: "metric_address e loc t m w = (r, w1) \<Longrightarrow> R w w1"
    and R_enqueue: "metric_address e loc t m w = (Inr (Some addr), w1) \<Longrightarrow> metric_update e birth mt addr ty m v tm = Inr d
      \<Longrightarrow> R w (enqueue_value d w1)"
begin

lemma queue_aux:
  shows "queueMetric e' loc' birth' mt' t x w = (r, w') \<Longrightarrow> (e', loc', birth', mt') = (e, loc, birth, mt) \<Longrightarrow> R w w'"
    and "queueMetrics e' loc' birth' mt' t xs w = (r, w') \<Longrightarrow> (e', loc', birth', mt') = (e, loc, birth, mt) \<Longrightarrow> R w w'"
proof (induction e' loc' birth' mt' t x w and e' loc' birth' mt' t xs w arbitrary: r w' and r w' rule: queueMetric_queueMetrics.induct)
  case (1 e' loc' birth' mt' t x w)
  note IH = 1(1)
  have eqs: "e' = e" "loc' = loc" "birth' = birth" "mt' = mt" using 1(3) by simp_all
  show ?case
  proof (cases "\<exists>m ty addr w1. x = Obj m \<and> fld m ''type'' = Str ty \<and> metric_address e loc t m w = (Inr (Some addr), w1)")
    case False
    then show ?thesis
      using 1(2) eqs by (auto simp: R_refl split: jsval.splits prod.splits sum.splits option.splits intro: R_address)
  next
    case True
    then obtain m ty addr w1 where x: "x = Obj m" "fld m ''type'' = Str ty" "metric_address e loc t m w = (Inr (Some addr), w1)" by blast
    note w1 = R_address[OF x(3)]
    show ?thesis
    proof (cases "\<exists>tm ms. metric_time e m = Inr tm \<and> template_metrics ty m = Some (Arr ms)")
      case True
      then obtain tm ms where t: "metric_time e m = Inr tm" "template_metrics ty m = Some (Arr ms)" by blast
      have "queueMetrics e loc birth mt (fld m ''name'') ms w1 = (r, w')" using 1(2) x t eqs by simp
      then show ?thesis using IH[of m ty "Inr (Some addr)" w1 "Some addr" addr tm "Arr ms" ms] R_trans[OF w1] x t eqs
        by auto
    next
      case False
      then show ?thesis
        using 1(2) x w1 eqs by (auto split: jsval.splits sum.splits option.splits intro: R_enqueue)
    qed
  qed
next
  case (3 e' loc' birth' mt' t m ms w)
  then show ?case by (auto split: prod.splits sum.splits intro: R_trans)
qed (simp add: R_refl)

lemmas queue = queue_aux(2)[OF _ refl]

end


text \<open>Births and the times of requests stay, and no request is made.\<close>

definition same_births :: "spb \<Rightarrow> spb \<Rightarrow> bool" where
  "same_births w w' = (sp_effects w' = sp_effects w \<and> (\<forall>l. map_option (\<lambda>d. (d_birthed d, d_lastReq d)) (map_of (devices w') l)
     = map_option (\<lambda>d. (d_birthed d, d_lastReq d)) (map_of (devices w) l)))"

lemma same_births_address: "metric_address e loc t m w = (r, w') \<Longrightarrow> same_births w w'"
  by (auto simp: same_births_def metric_address_def set_alias_def split: option.splits sum.splits if_splits jsval.splits)

interpretation births: metric_relation same_births e loc birth mt for e loc birth mt
  by unfold_locales (auto simp: same_births_def enqueue_value_def dest: same_births_address[unfolded same_births_def])

text \<open>Aliases name addresses below their locator, and so does all that is queued.\<close>

definition alias_of :: "spb \<Rightarrow> string \<Rightarrow> string \<Rightarrow> string option" where
  "alias_of w l k = Option.bind (map_of (devices w) l) (\<lambda>d. Option.bind (d_aliases d) (\<lambda>as. map_of as k))"

definition aliases_below :: "spb \<Rightarrow> bool" where
  "aliases_below w = (\<forall>l k a. alias_of w l k = Some a \<longrightarrow> prefix (l @ ''/'') a)"

definition address_of :: "doc \<Rightarrow> string" where
  "address_of d = (case fld d ''protocolSourceObjectAddress'' of Str a \<Rightarrow> a | _ \<Rightarrow> [])"

definition adds_below :: "string \<Rightarrow> string \<Rightarrow> spb \<Rightarrow> spb \<Rightarrow> bool" where
  "adds_below loc mt w w' = (aliases_below w \<longrightarrow> aliases_below w' \<and> (\<exists>q. valuesQueue w' = valuesQueue w @ q \<and>
     (\<forall>d \<in> set q. prefix (loc @ ''/'') (address_of d) \<and> fld d ''msgType'' = Str mt)))"

lemma alias_of_set: "alias_of (set_alias loc k a w) l k' = (if l = loc \<and> k' = k \<and> (\<exists>d as. map_of (devices w) loc = Some d \<and> d_aliases d = Some as)
    then Some a else alias_of w l k')"
  by (cases "map_of (devices w) loc"; cases "d_aliases (the (map_of (devices w) loc))") (auto simp: alias_of_def set_alias_def)

lemma queue_set_alias [simp]: "valuesQueue (set_alias loc k a w) = valuesQueue w"
  by (simp add: set_alias_def split: option.splits)

lemma named_address_below: "named_address loc t n = Inr a \<Longrightarrow> prefix (loc @ ''/'') a"
  by (auto simp: named_address_def split: if_splits jsval.splits)

lemma address_below:
  assumes "metric_address e loc t m w = (r, w1)"
  shows "valuesQueue w1 = valuesQueue w" "aliases_below w \<Longrightarrow> aliases_below w1"
    "aliases_below w \<Longrightarrow> r = Inr (Some a) \<Longrightarrow> prefix (loc @ ''/'') a"
proof -
  show "valuesQueue w1 = valuesQueue w"
    using assms by (auto simp: metric_address_def split: option.splits sum.splits if_splits jsval.splits)
  show "aliases_below w \<Longrightarrow> aliases_below w1"
    using assms by (auto simp: metric_address_def aliases_below_def alias_of_set split: option.splits sum.splits if_splits jsval.splits dest: named_address_below)
  assume ok: "aliases_below w" and r: "r = Inr (Some a)"
  have al: "prefix (loc @ ''/'') b" if "map_of (devices w) loc = Some d" "d_aliases d = Some as" "map_of as k = Some b" for d as k b
    using ok that by (auto simp: aliases_below_def alias_of_def)
  show "prefix (loc @ ''/'') a"
    using assms r by (auto simp: metric_address_def split: option.splits sum.splits if_splits jsval.splits dest: named_address_below intro: al)
qed

lemma birth_catalog_keys:
  assumes "catalog e m ty = Inr c" shows "\<not> has_key ''protocolSourceObjectAddress'' c" "\<not> has_key ''msgType'' c"
  using assms unfolding catalog_def Let_def by (auto split: sum.splits if_splits)

lemma update_address:
  assumes "metric_update e b mt addr ty m v tm = Inr d"
  shows "fld d ''protocolSourceObjectAddress'' = Str addr" "fld d ''msgType'' = Str mt"
  using assms birth_catalog_keys
  by (auto simp: metric_update_def fld_def map_of_aspread_other metric_fields_def split: sum.splits prod.splits if_splits)

interpretation below: metric_relation "adds_below loc mt" e loc birth mt for e loc birth mt
proof
  fix w w1 w2 t m r addr ty v tm d
  show "adds_below loc mt w w" by (simp add: adds_below_def)
  show "adds_below loc mt w w1 \<Longrightarrow> adds_below loc mt w1 w2 \<Longrightarrow> adds_below loc mt w w2"
    by (auto simp: adds_below_def)
  show "metric_address e loc t m w = (r, w1) \<Longrightarrow> adds_below loc mt w w1"
    by (auto simp: adds_below_def address_below)
  assume a: "metric_address e loc t m w = (Inr (Some addr), w1)" and u: "metric_update e birth mt addr ty m v tm = Inr d"
  show "adds_below loc mt w (enqueue_value d w1)"
    using address_below[OF a] update_address[OF u] by (auto simp: adds_below_def enqueue_value_def address_of_def aliases_below_def alias_of_def)
qed

section \<open>Runs\<close>

type_synonym sp_msg = "sp_env \<times> topic_info \<times> doc"

definition sp_step :: "sp_msg \<Rightarrow> spb \<Rightarrow> spb" where
  "sp_step m w = (case m of (e, ti, p) \<Rightarrow> snd (sp_message e ti p w))"

definition sp_run :: "sp_msg list \<Rightarrow> spb \<Rightarrow> spb" where
  "sp_run ms w = fold sp_step ms w"

definition sp_start :: spb where
  "sp_start = \<lparr>devices = [], valuesQueue = [], sp_effects = []\<rparr>"

text \<open>The locator a message announces.\<close>

definition birth_locator :: "topic_info \<Rightarrow> string option" where
  "birth_locator ti = (if \<not> valid_topic ti then None else if ti_msgType ti = ''NBIRTH'' then Some (node_locator ti)
     else if ti_msgType ti = ''DBIRTH'' then Some (device_locator ti) else None)"

text \<open>What a message may do.\<close>

lemma step_cases:
  obtains (same) "sp_step (e, ti, p) w = w"
  | (request) "sp_step (e, ti, p) w = request_rebirth e ti w"
  | (data) l r w1 where "is_birthed w l" "queueMetrics e l False (ti_msgType ti) (Str []) (kept_metrics p) w = (r, w1)" "sp_step (e, ti, p) w = w1"
  | (birth) l r w1 w2 where "birth_locator ti = Some l" "w1 = w\<lparr>devices := aupd l birth_entry (devices w)\<rparr>"
      "queueMetrics e l True (ti_msgType ti) (Str []) (kept_metrics p) w1 = (r, w2)" "sp_step (e, ti, p) w = w2 \<or> sp_step (e, ti, p) w = invalidate e l w2"
  | (death) l P where "sp_step (e, ti, p) w = invalidate e l (bury P w)"
proof -
  let ?q = "\<lambda>l b. queueMetrics e l b (ti_msgType ti) (Str []) (kept_metrics p)"
  let ?b = "\<lambda>l. w\<lparr>devices := aupd l birth_entry (devices w)\<rparr>"
  show thesis
  proof (cases "valid_topic ti")
    case False
    then show thesis using same by (simp add: sp_step_def sp_message_def)
  next
    case ok: True
    consider "ti_msgType ti = ''NDATA''" | "ti_msgType ti = ''DDATA''" | "ti_msgType ti = ''NBIRTH''" | "ti_msgType ti = ''DBIRTH''"
      | "ti_msgType ti = ''NDEATH''" | "ti_msgType ti = ''DDEATH''" | "ti_msgType ti \<notin> set [''NDATA'', ''DDATA'', ''NBIRTH'', ''DBIRTH'', ''NDEATH'', ''DDEATH'']"
      by auto
    then show thesis
    proof cases
      case 1
      then show thesis using ok request data[of "node_locator ti" "fst (?q (node_locator ti) False w)" "snd (?q (node_locator ti) False w)"]
        by (cases "is_birthed w (node_locator ti)") (simp_all add: sp_step_def sp_message_def ProcessBirthOrData_def)
    next
      case 2
      then show thesis using ok request data[of "device_locator ti" "fst (?q (device_locator ti) False w)" "snd (?q (device_locator ti) False w)"]
        by (cases "is_birthed w (device_locator ti)") (simp_all add: sp_step_def sp_message_def ProcessBirthOrData_def)
    next
      case 3
      then show thesis using ok birth[of "node_locator ti" "?b (node_locator ti)" "fst (?q (node_locator ti) True (?b (node_locator ti)))" "snd (?q (node_locator ti) True (?b (node_locator ti)))"]
        by (simp add: sp_step_def sp_message_def ProcessBirthOrData_def birth_locator_def Let_def split: prod.splits sum.splits)
    next
      case 4
      then show thesis using ok birth[of "device_locator ti" "?b (device_locator ti)" "fst (?q (device_locator ti) True (?b (device_locator ti)))" "snd (?q (device_locator ti) True (?b (device_locator ti)))"]
        by (simp add: sp_step_def sp_message_def ProcessBirthOrData_def birth_locator_def Let_def)
    next
      case 5
      then show thesis using ok death[of "node_locator ti" "prefix (node_locator ti)"] by (simp add: sp_step_def sp_message_def Let_def)
    next
      case 6
      then show thesis using ok death[of "device_locator ti" "(=) (device_locator ti)"] by (simp add: sp_step_def sp_message_def Let_def)
    next
      case 7
      then show thesis using ok same by (simp add: sp_step_def sp_message_def)
    qed
  qed
qed


lemma is_birthed_same: "same_births w w' \<Longrightarrow> is_birthed w' l = is_birthed w l"
proof -
  assume "same_births w w'"
  then have "map_option (\<lambda>d. (d_birthed d, d_lastReq d)) (map_of (devices w') l) = map_option (\<lambda>d. (d_birthed d, d_lastReq d)) (map_of (devices w) l)"
    by (simp add: same_births_def)
  then show ?thesis by (auto simp: is_birthed_def split: option.splits)
qed

lemma map_of_bury: "map_of (devices (bury P w)) l = map_option (\<lambda>d. if P l then d\<lparr>d_birthed := False\<rparr> else d) (map_of (devices w) l)"
proof -
  have "map_of (map (\<lambda>(k, d). (k, if P k then d\<lparr>d_birthed := False\<rparr> else d)) ds) l = map_option (\<lambda>d. if P l then d\<lparr>d_birthed := False\<rparr> else d) (map_of ds l)"
    for ds :: "(string \<times> device) list"
    by (induction ds) auto
  then show ?thesis by (simp add: bury_def)
qed

lemma is_birthed_bury [simp]: "is_birthed (bury P w) l \<longleftrightarrow> is_birthed w l \<and> \<not> P l"
  by (auto simp: is_birthed_def map_of_bury split: option.splits)

lemma alias_of_bury [simp]: "alias_of (bury P w) l k = alias_of w l k"
  by (cases "map_of (devices w) l") (auto simp: alias_of_def map_of_bury)

lemma invalidate_simps [simp]: "devices (invalidate e l w) = devices w" "valuesQueue (invalidate e l w) = valuesQueue w"
    "is_birthed (invalidate e l w) = is_birthed w" "alias_of (invalidate e l w) = alias_of w" "valuesQueue (bury P w) = valuesQueue w"
  by (simp_all add: invalidate_def sp_emit_def is_birthed_def alias_of_def bury_def fun_eq_iff)

lemma queue_request [simp]: "valuesQueue (request_rebirth e ti w) = valuesQueue w"
  by (auto simp: request_rebirth_def Let_def sp_emit_def)

lemma request_rebirth_keeps:
    "is_birthed (request_rebirth e ti w) l \<Longrightarrow> is_birthed w l" "alias_of (request_rebirth e ti w) l k = Some a \<Longrightarrow> alias_of w l k = Some a"
  by (auto simp: request_rebirth_def Let_def sp_emit_def is_birthed_def alias_of_def split: if_splits)

definition gave_birth :: "sp_msg list \<Rightarrow> string \<Rightarrow> bool" where
  "gave_birth ms l = (\<exists>(e, ti, p) \<in> set ms. birth_locator ti = Some l)"

definition announced :: "sp_msg list \<Rightarrow> spb \<Rightarrow> bool" where
  "announced ms w = ((\<forall>l. is_birthed w l \<longrightarrow> gave_birth ms l) \<and> aliases_below w \<and>
     (\<forall>d \<in> set (valuesQueue w). \<exists>l. gave_birth ms l \<and> prefix (l @ ''/'') (address_of d)))"

lemma announced_step:
  assumes "announced ms w" shows "announced (ms @ [m]) (sp_step m w)"
proof -
  obtain e ti p where m: "m = (e, ti, p)" by (cases m)
  have mono: "gave_birth (ms @ [m]) l" if "gave_birth ms l" for l using that by (auto simp: gave_birth_def)
  have w: "\<And>l. is_birthed w l \<Longrightarrow> gave_birth (ms @ [m]) l" "aliases_below w"
    "\<And>d. d \<in> set (valuesQueue w) \<Longrightarrow> \<exists>l. gave_birth (ms @ [m]) l \<and> prefix (l @ ''/'') (address_of d)"
    using assms mono unfolding announced_def by blast+
  show ?thesis
  proof (cases rule: step_cases[of e ti p w])
    case same
    then show ?thesis using w by (simp add: m announced_def)
  next
    case request
    then show ?thesis using w unfolding m announced_def aliases_below_def by (auto dest: request_rebirth_keeps)
  next
    case (data l r w1)
    note b = is_birthed_same[OF births.queue[OF data(2)]]
    show ?thesis using below.queue[OF data(2)] w b w(1)[OF data(1)]
      unfolding announced_def adds_below_def m data(3) by (auto simp: m)
  next
    case (birth l r w1 w2)
    have l: "gave_birth (ms @ [m]) l" using birth(1) by (auto simp: gave_birth_def m)
    have w1: "aliases_below w1" "valuesQueue w1 = valuesQueue w" "\<And>l'. is_birthed w1 l' \<longleftrightarrow> l' = l \<or> is_birthed w l'"
      using w(2) by (auto simp: birth(2) aliases_below_def alias_of_def is_birthed_def birth_entry_def)
    note b = is_birthed_same[OF births.queue[OF birth(3)]]
    have "announced (ms @ [m]) w2"
      using below.queue[OF birth(3)] w w1 b l unfolding announced_def adds_below_def by auto
    then show ?thesis using birth(4) by (auto simp: m announced_def aliases_below_def)
  next
    case (death l P)
    then show ?thesis using w by (auto simp: m announced_def aliases_below_def)
  qed
qed

lemma sp_run_snoc [simp]: "sp_run (ms @ [m]) w = sp_step m (sp_run ms w)" "sp_run [] w = w"
  by (simp_all add: sp_run_def)

lemma sp_run_append: "sp_run (ms @ ms') w = sp_run ms' (sp_run ms w)"
  by (simp add: sp_run_def)

lemma announced_run: "announced ms (sp_run ms sp_start)"
proof (induction ms rule: rev_induct)
  case Nil
  show ?case by (simp add: announced_def sp_start_def is_birthed_def aliases_below_def alias_of_def)
qed (simp add: announced_step)

section \<open>Requests for a birth\<close>

definition lastReq :: "spb \<Rightarrow> string \<Rightarrow> int option" where
  "lastReq w l = Option.bind (map_of (devices w) l) d_lastReq"

text \<open>The message makes the driver ask its node for a birth.\<close>

definition asks :: "sp_msg \<Rightarrow> spb \<Rightarrow> bool" where
  "asks m w = (case m of (e, ti, p) \<Rightarrow>
     RequestRebirth (ti_groupId ti) (ti_edgeNodeId ti) \<in> set (drop (length (sp_effects w)) (sp_effects (sp_step m w))))"

definition msg_time :: "sp_msg \<Rightarrow> int" where
  "msg_time m = sp_now (fst m)"

definition msg_topic :: "sp_msg \<Rightarrow> topic_info" where
  "msg_topic m = fst (snd m)"

lemma lastReq_same: "same_births w w' \<Longrightarrow> lastReq w' l = lastReq w l"
proof -
  assume "same_births w w'"
  then have "map_option (\<lambda>d. (d_birthed d, d_lastReq d)) (map_of (devices w') l) = map_option (\<lambda>d. (d_birthed d, d_lastReq d)) (map_of (devices w) l)"
    by (simp add: same_births_def)
  then show ?thesis by (cases "map_of (devices w) l"; cases "map_of (devices w') l") (auto simp: lastReq_def)
qed

lemma lastReq_simps [simp]: "lastReq (bury P w) l = lastReq w l" "lastReq (invalidate e l' w) l = lastReq w l"
  by (cases "map_of (devices w) l"; simp add: lastReq_def map_of_bury)+

lemma effects_simps [simp]: "sp_effects (bury P w) = sp_effects w"
    "sp_effects (invalidate e l w) = sp_effects w @ (if sp_mongo e then [InvalidatePath l] else [])"
  by (simp_all add: bury_def invalidate_def sp_emit_def)

lemma asked_lately_lastReq: "asked_lately e l w \<longleftrightarrow> (\<exists>t. lastReq w l = Some t \<and> sp_now e < t + 300000)"
  by (auto simp: asked_lately_def lastReq_def SECONDS_BETWEEN_NODE_REQUESTS_def split: option.splits)

lemma asks_step:
  assumes "asks m w"
  shows "sp_step m w = request_rebirth (fst m) (msg_topic m) w" "\<not> asked_lately (fst m) (node_locator (msg_topic m)) w"
proof -
  obtain e ti p where m: "m = (e, ti, p)" by (cases m)
  have "sp_step (e, ti, p) w = request_rebirth e ti w \<and> \<not> asked_lately e (node_locator ti) w"
  proof (cases rule: step_cases[of e ti p w])
    case request
    then show ?thesis using assms by (auto simp: asks_def m request_rebirth_def)
  next
    case (data l r w1)
    then show ?thesis using assms births.queue[OF data(2)] by (auto simp: asks_def m same_births_def)
  next
    case (birth l r w1 w2)
    then show ?thesis using assms births.queue[OF birth(3)] by (auto simp: asks_def m same_births_def split: if_splits)
  qed (use assms in \<open>auto simp: asks_def m split: if_splits\<close>)
  then show "sp_step m w = request_rebirth (fst m) (msg_topic m) w" "\<not> asked_lately (fst m) (node_locator (msg_topic m)) w"
    by (simp_all add: m msg_topic_def)
qed

lemma lastReq_request: "\<not> asked_lately e (node_locator ti) w \<Longrightarrow> lastReq (request_rebirth e ti w) (node_locator ti) = Some (sp_now e)"
  by (simp add: request_rebirth_def Let_def lastReq_def sp_emit_def)

text \<open>The time of the last request of a locator only grows while it gives no birth.\<close>

lemma lastReq_step:
  assumes "lastReq w l = Some t" "birth_locator (msg_topic m) \<noteq> Some l"
  shows "\<exists>t' \<ge> t. lastReq (sp_step m w) l = Some t'"
proof -
  obtain e ti p where m: "m = (e, ti, p)" by (cases m)
  show ?thesis
  proof (cases rule: step_cases[of e ti p w])
    case request
    show ?thesis
    proof (cases "asked_lately e (node_locator ti) w")
      case False
      then show ?thesis using assms(1) request
        by (cases "node_locator ti = l") (auto simp: m asked_lately_lastReq lastReq_request request_rebirth_def Let_def lastReq_def sp_emit_def)
    qed (use assms(1) request in \<open>simp add: m request_rebirth_def\<close>)
  next
    case (data l' r w1)
    then show ?thesis using assms(1) lastReq_same[OF births.queue[OF data(2)]] by (simp add: m)
  next
    case (birth l' r w1 w2)
    have "l' \<noteq> l" using birth(1) assms(2) by (auto simp: m msg_topic_def)
    then show ?thesis using assms(1) birth(2,4) lastReq_same[OF births.queue[OF birth(3)], of l]
      by (auto simp: m lastReq_def)
  qed (use assms(1) in \<open>auto simp: m\<close>)
qed

lemma lastReq_run:
  assumes "lastReq w l = Some t" "\<forall>m \<in> set ms. birth_locator (msg_topic m) \<noteq> Some l"
  shows "\<exists>t' \<ge> t. lastReq (sp_run ms w) l = Some t'"
  using assms(2)
proof (induction ms rule: rev_induct)
  case (snoc m ms)
  then obtain t1 where "t1 \<ge> t" "lastReq (sp_run ms w) l = Some t1" by auto
  then show ?case using lastReq_step[of "sp_run ms w" l t1 m] snoc(2) by fastforce
qed (simp add: assms)

text \<open>The driver asks a node for a new birth at most once in five minutes: between two messages that
  make it ask the same node, at least 300 seconds passed on its clock, whatever came between, unless the
  node announced itself.\<close>

theorem rebirth_requests_spaced:
  assumes "asks m1 w" "asks m2 (sp_run (m1 # ms) w)" "node_locator (msg_topic m1) = l" "node_locator (msg_topic m2) = l"
    and "\<forall>m \<in> set ms. birth_locator (msg_topic m) \<noteq> Some l"
  shows "msg_time m1 + 300000 \<le> msg_time m2"
proof -
  have "lastReq (sp_step m1 w) l = Some (msg_time m1)"
    using lastReq_request[OF asks_step(2)[OF assms(1)]] asks_step(1)[OF assms(1)] assms(3) by (simp add: msg_time_def)
  from lastReq_run[OF this assms(5)] obtain t where "t \<ge> msg_time m1" "lastReq (sp_run ms (sp_step m1 w)) l = Some t" by blast
  moreover have "sp_run (m1 # ms) w = sp_run ms (sp_step m1 w)" by (simp add: sp_run_def)
  ultimately show ?thesis using asks_step(2)[OF assms(2)] assms(4) by (auto simp: asked_lately_lastReq msg_time_def)
qed


definition spb_topic :: "string \<Rightarrow> string \<Rightarrow> string \<Rightarrow> string option \<Rightarrow> topic_info" where
  "spb_topic g mt n d = \<lparr>ti_namespace = SparkplugNS, ti_groupId = g, ti_msgType = mt, ti_edgeNodeId = n, ti_deviceId = d\<rparr>"

definition sample_env :: "int \<Rightarrow> sp_env" where
  "sample_env t = \<lparr>sp_now = t, long_number = (\<lambda>u v. Inr (to_number v)), obj_text = (\<lambda>d. []), date_text = (\<lambda>t. []), sp_handle = True, sp_mongo = True\<rparr>"

theorem rebirth_requests_spaced_witness:
  "asks (sample_env 5, spb_topic ''G'' ''NDATA'' ''E'' None, []) sp_start \<and>
   asks (sample_env 300006, spb_topic ''G'' ''NDATA'' ''E'' None, [])
     (sp_run [(sample_env 5, spb_topic ''G'' ''NDATA'' ''E'' None, []), (sample_env 200000, spb_topic ''G'' ''NDATA'' ''E'' None, [])] sp_start) \<and>
   (5::int) + 300000 \<le> 300006"
proof -
  let ?m = "\<lambda>t. (sample_env t, spb_topic ''G'' ''NDATA'' ''E'' None, [] :: doc)"
  note d = asks_def sp_step_def sp_message_def sp_run_def sample_env_def spb_topic_def valid_topic_def node_locator_def SparkplugNS_def
    request_rebirth_def asked_lately_def is_birthed_def sp_start_def sp_emit_def Let_def SECONDS_BETWEEN_NODE_REQUESTS_def birth_locator_def
  have a: "asks (?m 5) sp_start" "asks (?m 300006) (sp_run [?m 5, ?m 200000] sp_start)"
    "\<forall>m \<in> set [?m 200000]. birth_locator (msg_topic m) \<noteq> Some (node_locator (msg_topic (?m 5)))"
    by (simp_all add: d msg_topic_def)
  show ?thesis using rebirth_requests_spaced[OF a(1,2) refl _ a(3)] a(1,2) by (simp add: msg_time_def sample_env_def msg_topic_def)
qed


definition sample_metric :: doc where
  "sample_metric = [(''name'', Str ''t''), (''alias'', Num (num 7)), (''type'', Str ''string''), (''value'', Str ''x'')]"

lemmas sp_eval = sp_message_def spb_topic_def sample_env_def valid_topic_def SparkplugNS_def Let_def ProcessBirthOrData_def
  kept_metrics_def fld_def node_locator_def birth_entry_def sp_start_def invalidate_def sp_emit_def sample_metric_def opt_get.simps get_def
  metric_address_def trim_def trim_start_def is_space_def named_address_def alias_key_def js_text_def metric_time_def template_metrics_def
  to_lower_def to_lower_char_def metric_value_def metric_update_def metric_quality_def catalog_def has_value_def enqueue_value_def
  set_alias_def is_birthed_def birth_locator_def device_locator_def has_device_def


section \<open>Deaths\<close>




section \<open>Aliases\<close>

lemma alias_key_has: "alias_key e m = Inr k \<Longrightarrow> has_key ''alias'' m"
  by (auto simp: alias_key_def js_text_def fld_def has_key_def split: option.splits)

lemma alias_of_enqueue [simp]: "alias_of (enqueue_value d w) = alias_of w"
  by (simp add: alias_of_def enqueue_value_def fun_eq_iff)

lemma address_other_alias:
  assumes "metric_address e loc t m w = (r, w1)" "alias_key e m \<noteq> Inr k"
  shows "alias_of w1 l k = alias_of w l k"
  using assms by (auto simp: metric_address_def alias_of_set split: option.splits sum.splits if_splits jsval.splits)

text \<open>The metric is no template and has another alias.\<close>

fun other_alias :: "sp_env \<Rightarrow> string \<Rightarrow> jsval \<Rightarrow> bool" where
  "other_alias e k (Obj m) = (alias_key e m \<noteq> Inr k \<and> (case fld m ''type'' of Str t \<Rightarrow> template_metrics t m = None | _ \<Rightarrow> True))"
| "other_alias e k _ = True"

lemma metric_other_alias:
  assumes "queueMetric e loc b mt t x w = (r, w1)" "other_alias e k x"
  shows "alias_of w1 l k = alias_of w l k"
  using assms
  by (cases x) (auto split: prod.splits sum.splits option.splits jsval.splits dest: address_other_alias)

lemma metrics_other_alias:
  assumes "queueMetrics e loc b mt t xs w = (r, w1)" "\<forall>x \<in> set xs. other_alias e k x"
  shows "alias_of w1 l k = alias_of w l k"
  using assms
proof (induction xs arbitrary: w)
  case (Cons x xs)
  obtain r2 w2 where q: "queueMetric e loc b mt t x w = (r2, w2)" by fastforce
  have "alias_of w2 l k = alias_of w l k" using metric_other_alias[OF q] Cons.prems(2) by simp
  then show ?case using Cons q by (auto split: sum.splits)
qed simp

lemma queueMetrics_append:
  "queueMetrics e loc b mt t (xs @ ys) w = (case queueMetrics e loc b mt t xs w of (Inl err, w1) \<Rightarrow> (Inl err, w1) | (Inr _, w1) \<Rightarrow> queueMetrics e loc b mt t ys w1)"
  by (induction xs arbitrary: w) (auto split: prod.splits sum.splits)

text \<open>A locator that gave birth has a list of aliases.\<close>

definition knows_aliases :: "spb \<Rightarrow> string \<Rightarrow> bool" where
  "knows_aliases w l = (\<exists>d as. map_of (devices w) l = Some d \<and> d_aliases d = Some as)"

lemma knows_aliases_set [simp]: "knows_aliases (set_alias loc k a w) l = knows_aliases w l"
  by (auto simp: knows_aliases_def set_alias_def split: option.splits)

lemma knows_aliases_enqueue [simp]: "knows_aliases (enqueue_value d w) l = knows_aliases w l"
  by (simp add: knows_aliases_def enqueue_value_def)

interpretation known: metric_relation "\<lambda>w w'. knows_aliases w' l = knows_aliases w l" e loc birth mt for l e loc birth mt
  by unfold_locales (auto simp: metric_address_def split: option.splits sum.splits if_splits jsval.splits)

lemma named_alias:
  assumes "queueMetric e loc b mt (Str []) (Obj m) w = (r, w1)" "fld m ''name'' = Str n" "trim n \<noteq> []" "fld m ''type'' = Str ty"
    "alias_key e m = Inr k" "template_metrics ty m = None" "knows_aliases w loc"
  shows "alias_of w1 loc k = Some (loc @ ''/'' @ topicStr (Str n))"
proof -
  obtain d as where d: "map_of (devices w) loc = Some d" "d_aliases d = Some as" using assms(7) by (auto simp: knows_aliases_def)
  have a: "metric_address e loc (Str []) m w = (Inr (Some (loc @ ''/'' @ topicStr (Str n))), set_alias loc k (loc @ ''/'' @ topicStr (Str n)) w)"
    using assms d by (simp add: metric_address_def named_address_def alias_key_has)
  have "alias_of (set_alias loc k (loc @ ''/'' @ topicStr (Str n)) w) loc k = Some (loc @ ''/'' @ topicStr (Str n))"
    using d by (simp add: alias_of_set)
  then show ?thesis using assms(1) a assms(4,6) by (auto split: sum.splits)
qed

lemma resolved_alias:
  assumes "queueMetric e loc b mt t (Obj m) w = (Inr u, w1)" "fld m ''name'' = Undef" "fld m ''type'' = Str ty"
    "alias_key e m = Inr k" "template_metrics ty m = None" "alias_of w loc k = Some a" "a \<noteq> []"
  shows "\<exists>d. valuesQueue w1 = valuesQueue w @ [d] \<and> fld d ''protocolSourceObjectAddress'' = Str a"
proof -
  have "metric_address e loc t m w = (Inr (Some a), w)"
    using assms by (auto simp: metric_address_def alias_of_def alias_key_has split: Option.bind_splits)
  then show ?thesis using assms(1,3,5) by (auto simp: enqueue_value_def dest: update_address split: sum.splits)
qed

text \<open>The node of a topic for messages of nodes, its device for those of devices.\<close>

definition msg_locator :: "topic_info \<Rightarrow> string" where
  "msg_locator ti = (if hd (ti_msgType ti) = CHR ''N'' then node_locator ti else device_locator ti)"

text \<open>C30. An alias stands for the point its birth named: when a node or device gave birth with a metric
  that has a name and an alias, and no later metric of that birth takes the alias, a data message that
  follows with the alias only is queued for the address of that name.\<close>

theorem alias_names_point_of_birth:
  assumes "birth_locator t1 = Some l" "kept_metrics p1 = xs @ Obj m1 # ys" "\<forall>y \<in> set ys. other_alias e1 k y"
    and "fld m1 ''name'' = Str n" "trim n \<noteq> []" "fld m1 ''type'' = Str ty1" "alias_key e1 m1 = Inr k" "template_metrics ty1 m1 = None"
    and "sp_message e1 t1 p1 w = (Inr (), w1)"
    and "valid_topic t2" "ti_msgType t2 \<in> set [''NDATA'', ''DDATA'']" "msg_locator t2 = l" "kept_metrics p2 = [Obj m2]"
    and "fld m2 ''name'' = Undef" "fld m2 ''type'' = Str ty2" "alias_key e2 m2 = Inr k" "template_metrics ty2 m2 = None"
    and "sp_message e2 t2 p2 w1 = (Inr (), w2)"
  shows "\<exists>d. valuesQueue w2 = valuesQueue w1 @ [d] \<and> fld d ''protocolSourceObjectAddress'' = Str (l @ ''/'' @ topicStr (Str n))"
proof -
  let ?w0 = "w\<lparr>devices := aupd l birth_entry (devices w)\<rparr>"
  obtain mt w' where q: "queueMetrics e1 l True mt (Str []) (kept_metrics p1) ?w0 = (Inr (), w')" and w1: "w1 = w' \<or> w1 = invalidate e1 l w'"
    using assms(1,9) by (auto simp: birth_locator_def sp_message_def ProcessBirthOrData_def Let_def split: if_splits prod.splits sum.splits)
  have k0: "knows_aliases ?w0 l" by (simp add: knows_aliases_def birth_entry_def)
  obtain wx r wm where x: "queueMetrics e1 l True mt (Str []) xs ?w0 = (Inr (), wx)" "queueMetric e1 l True mt (Str []) (Obj m1) wx = (Inr r, wm)"
      "queueMetrics e1 l True mt (Str []) ys wm = (Inr (), w')"
    using q assms(2) by (auto simp: queueMetrics_append simp del: queueMetric.simps split: prod.splits sum.splits)
  have "alias_of w' l k = Some (l @ ''/'' @ topicStr (Str n))"
    using metrics_other_alias[OF x(3) assms(3)] named_alias[OF x(2) assms(4-8)] known.queue[OF x(1), of l] k0 by simp
  then have al: "alias_of w1 l k = Some (l @ ''/'' @ topicStr (Str n))" using w1 by auto
  have "is_birthed ?w0 l" by (simp add: is_birthed_def birth_entry_def)
  then have "is_birthed w' l" using is_birthed_same[OF births.queue[OF q]] by simp
  then have b: "is_birthed w1 l" using w1 by auto
  obtain u where "queueMetric e2 l False (ti_msgType t2) (Str []) (Obj m2) w1 = (Inr u, w2)"
    using assms(10-13,18) b
    by (auto simp: sp_message_def ProcessBirthOrData_def Let_def msg_locator_def simp del: queueMetric.simps split: prod.splits sum.splits)
  from resolved_alias[OF this assms(14-17) al] show ?thesis by simp
qed


definition alias_metric :: doc where
  "alias_metric = [(''alias'', Num (num 7)), (''type'', Str ''string''), (''value'', Str ''y'')]"

theorem alias_names_point_of_birth_witness:
  "\<exists>w1 w2 d. sp_message (sample_env 5) (spb_topic ''G'' ''NBIRTH'' ''E'' None) [(''metrics'', Arr [Obj sample_metric])] sp_start = (Inr (), w1) \<and>
     sp_message (sample_env 6) (spb_topic ''G'' ''NDATA'' ''E'' None) [(''metrics'', Arr [Obj alias_metric])] w1 = (Inr (), w2) \<and>
     valuesQueue w2 = valuesQueue w1 @ [d] \<and> fld d ''protocolSourceObjectAddress'' = Str ''spBv1.0/G/E/t''"
proof -
  let ?t1 = "spb_topic ''G'' ''NBIRTH'' ''E'' None" and ?t2 = "spb_topic ''G'' ''NDATA'' ''E'' None"
  let ?p1 = "[(''metrics'', Arr [Obj sample_metric])]" and ?p2 = "[(''metrics'', Arr [Obj alias_metric])]"
  obtain r1 w1 where m1: "sp_message (sample_env 5) ?t1 ?p1 sp_start = (r1, w1)" by fastforce
  then have r1: "r1 = Inr ()" by (auto simp: sp_eval)
  obtain r2 w2 where m2: "sp_message (sample_env 6) ?t2 ?p2 w1 = (r2, w2)" by fastforce
  have r2: "r2 = Inr ()" using m2 m1 by (auto simp: sp_eval alias_metric_def)
  have h: "birth_locator ?t1 = Some ''spBv1.0/G/E''" "kept_metrics ?p1 = [] @ Obj sample_metric # []"
    "fld sample_metric ''name'' = Str ''t''" "trim ''t'' \<noteq> []" "fld sample_metric ''type'' = Str ''string''"
    "alias_key (sample_env 5) sample_metric = Inr (''a'' @ to_string (Num (num 7)))" "template_metrics ''string'' sample_metric = None"
    "valid_topic ?t2" "ti_msgType ?t2 \<in> set [''NDATA'', ''DDATA'']" "msg_locator ?t2 = ''spBv1.0/G/E''" "kept_metrics ?p2 = [Obj alias_metric]"
    "fld alias_metric ''name'' = Undef" "fld alias_metric ''type'' = Str ''string''"
    "alias_key (sample_env 6) alias_metric = Inr (''a'' @ to_string (Num (num 7)))" "template_metrics ''string'' alias_metric = None"
    by (simp_all add: sp_eval alias_metric_def msg_locator_def)
  from alias_names_point_of_birth[OF h(1,2) _ h(3-7) m1[unfolded r1] h(8-15) m2[unfolded r2]]
  have "\<exists>d. valuesQueue w2 = valuesQueue w1 @ [d] \<and> fld d ''protocolSourceObjectAddress'' = Str ''spBv1.0/G/E/t''"
    by (simp add: topicStr_def trim_def is_space_def replace_char_def)
  then show ?thesis using m1 m2 r1 r2 by blast
qed

section \<open>Topics\<close>

text \<open>The topics \<open>publishNodeCmd\<close> and the like build.\<close>

definition build_topic :: "topic_info \<Rightarrow> string" where
  "build_topic ti = ti_namespace ti @ ''/'' @ ti_groupId ti @ ''/'' @ ti_msgType ti @ ''/'' @ ti_edgeNodeId ti @
     (case ti_deviceId ti of None \<Rightarrow> [] | Some d \<Rightarrow> ''/'' @ d)"


lemma split_levels_ne [simp]: "split_char c s \<noteq> []"
  by (induction s) (auto split: list.splits)

lemma split_char_append [simp]: "split_char c (s @ c # t) = split_char c s @ split_char c t"
proof (induction s)
  case (Cons x s)
  then show ?case by (cases "split_char c s") auto
qed simp

lemma join_split [simp]: "join_levels (split_char (CHR ''/'') s) = s"
proof (induction s)
  case (Cons x s)
  obtain l ls where s: "split_char (CHR ''/'') s = l # ls" by (cases "split_char (CHR ''/'') s") auto
  then show ?case using Cons by (cases ls) auto
qed simp

lemma split_char_single: "c \<notin> set s \<Longrightarrow> split_char c s = [s]"
  by (induction s) auto

text \<open>The driver reads its own topics back: a topic built of a group, a type of message, a node
  and, for messages of devices, a device parses to the same parts, for groups and devices of any number of
  levels, when no level of the group is the name of a type of message.\<close>

theorem topic_round_trip:
  assumes "ti_namespace ti = SparkplugNS" "ti_msgType ti \<in> set msg_types" "CHR ''/'' \<notin> set (ti_edgeNodeId ti)"
    and "\<forall>l \<in> set (split_char (CHR ''/'') (ti_groupId ti)). l \<notin> set msg_types"
    and "(ti_deviceId ti = None) = (hd (ti_msgType ti) = CHR ''N'')"
  shows "parseSparkplugTopic (split_char (CHR ''/'') (build_topic ti)) = Some ti"
proof -
  let ?g = "split_char (CHR ''/'') (ti_groupId ti)" and ?d = "case ti_deviceId ti of None \<Rightarrow> [] | Some d \<Rightarrow> split_char (CHR ''/'') d"
  have nd: "hd (ti_msgType ti) = CHR ''D'' \<longleftrightarrow> hd (ti_msgType ti) \<noteq> CHR ''N''" "CHR ''/'' \<notin> set (ti_msgType ti)" "CHR ''/'' \<notin> set SparkplugNS"
    using assms(2) by (auto simp: msg_types_def SparkplugNS_def)
  have ls: "split_char (CHR ''/'') (build_topic ti) = SparkplugNS # ?g @ ti_msgType ti # ti_edgeNodeId ti # ?d"
    using assms(1,3) nd by (auto simp: build_topic_def split_char_single split: option.split)
  have "dropWhile (\<lambda>l. l \<notin> set msg_types) (?g @ ti_msgType ti # ti_edgeNodeId ti # ?d) = ti_msgType ti # ti_edgeNodeId ti # ?d"
    using assms(2,4) by (simp add: dropWhile_append)
  moreover obtain g gs where g: "?g = g # gs" by (cases ?g) auto
  moreover have "g \<notin> set msg_types" using assms(4) g by simp
  ultimately have dw: "dropWhile (\<lambda>l. l \<notin> set msg_types) (drop 1 ?g @ ti_msgType ti # ti_edgeNodeId ti # ?d) = ti_msgType ti # ti_edgeNodeId ti # ?d"
    by simp
  have jg: "join_levels (g # gs) = ti_groupId ti" using g by (metis join_split)
  show ?thesis
    using dw g jg nd assms(1,5) unfolding ls parseSparkplugTopic_def by (cases ti) (auto simp: Let_def split: option.splits)
qed

theorem topic_round_trip_witness:
  "parseSparkplugTopic (split_char (CHR ''/'') (build_topic (spb_topic ''plant/line'' ''DDATA'' ''E'' (Some ''D/1'')))) = Some (spb_topic ''plant/line'' ''DDATA'' ''E'' (Some ''D/1''))"
  by (rule topic_round_trip) (simp_all add: spb_topic_def msg_types_def)

end
