(* ===== verification/MqttPublish.thy ===== *)
theory MqttPublish
  imports Sparkplug
begin

text \<open>
  The way out of the MQTT driver (\<open>mqtt-sparkplug\<close>): the publishing half of \<open>sparkplug-client.js\<close>
  with its sequence numbers, the payloads made of tags (\<open>getNodeBirthPayload\<close>,
  \<open>getDeviceBirthPayload\<close>, \<open>getMetricPayload\<close>), the queue of metrics to publish and the routine that
  empties it, commands out (\<open>getMetricCommandPayload\<close>) and in (\<open>ncmd\<close>, \<open>dcmd\<close>), and the choice of
  the broker. What is published is noted in order; its encoding is the library's.
\<close>

section \<open>The client\<close>

datatype mqtt_out =
    SpPublish string doc
  | TextPublish string string
  | CommandPublish string string jsnum bool
  | Subscribe string
  | ExitProcess int
  | InsertCommand doc
  | AckCommand jsval bool

record client =
  cl_group :: string
  cl_edge :: string
  cl_host :: string
  cl_bdSeq :: jsval
  cl_seq :: nat
  cl_out :: "mqtt_out list"

definition cl_emit :: "mqtt_out \<Rightarrow> client \<Rightarrow> client" where
  "cl_emit x c = c\<lparr>cl_out := cl_out c @ [x]\<rparr>"

definition incrementSeqNum :: "client \<Rightarrow> nat \<times> client" where
  "incrementSeqNum c = (let s = (if cl_seq c = 256 then 0 else cl_seq c) in (s, c\<lparr>cl_seq := s + 1\<rparr>))"

definition addSeqNumber :: "doc \<Rightarrow> client \<Rightarrow> doc \<times> client" where
  "addSeqNumber p c = (let (s, c1) = incrementSeqNum c in (aupd ''seq'' (Num (num (int s))) p, c1))"

definition sp_publish :: "string \<Rightarrow> doc \<Rightarrow> client \<Rightarrow> client" where
  "sp_publish topic p c = (let (p1, c1) = addSeqNumber p c in cl_emit (SpPublish topic p1) c1)"

definition own_topic :: "client \<Rightarrow> string \<Rightarrow> string" where
  "own_topic c mt = SparkplugNS @ ''/'' @ cl_group c @ ''/'' @ mt @ ''/'' @ cl_edge c"

definition getDeathPayload :: "int \<Rightarrow> client \<Rightarrow> doc" where
  "getDeathPayload t c = [(''timestamp'', Num (num t)),
     (''metrics'', Arr [Obj [(''name'', Str ''bdSeq''), (''value'', cl_bdSeq c), (''type'', Str ''uint64'')]])]"

definition publishNDeath :: "int \<Rightarrow> client \<Rightarrow> client" where
  "publishNDeath t c = cl_emit (SpPublish (own_topic c ''NDEATH'') (getDeathPayload t c)) c"

definition add_metric :: "jsval \<Rightarrow> doc \<Rightarrow> doc" where
  "add_metric m p = (case fld p ''metrics'' of Arr ms \<Rightarrow> aupd ''metrics'' (Arr (ms @ [m])) p | _ \<Rightarrow> p)"

definition publishNodeBirth :: "doc \<Rightarrow> client \<Rightarrow> client" where
  "publishNodeBirth p c = (let (p1, c1) = addSeqNumber p (c\<lparr>cl_seq := 0\<rparr>) in
     cl_emit (SpPublish (own_topic c ''NBIRTH'') (add_metric (Obj [(''name'', Str ''bdSeq''), (''type'', Str ''uint64''), (''value'', cl_bdSeq c)]) p1)) c1)"

definition publishNodeData :: "doc \<Rightarrow> client \<Rightarrow> client" where
  "publishNodeData p c = sp_publish (own_topic c ''NDATA'') p c"

definition publishNodeCmd :: "string \<Rightarrow> string \<Rightarrow> doc \<Rightarrow> client \<Rightarrow> client" where
  "publishNodeCmd g n p c = sp_publish (SparkplugNS @ ''/'' @ g @ ''/NCMD/'' @ n) p c"

definition publishDeviceData :: "string \<Rightarrow> doc \<Rightarrow> client \<Rightarrow> client" where
  "publishDeviceData d p c = sp_publish (own_topic c ''DDATA'' @ ''/'' @ d) p c"

definition publishDeviceCmd :: "string \<Rightarrow> string \<Rightarrow> string \<Rightarrow> doc \<Rightarrow> client \<Rightarrow> client" where
  "publishDeviceCmd g n d p c = sp_publish (SparkplugNS @ ''/'' @ g @ ''/DCMD/'' @ n @ ''/'' @ d) p c"

definition publishDeviceBirth :: "string \<Rightarrow> doc \<Rightarrow> client \<Rightarrow> client" where
  "publishDeviceBirth d p c = sp_publish (own_topic c ''DBIRTH'' @ ''/'' @ d) p c"

definition publishDeviceDeath :: "string \<Rightarrow> doc \<Rightarrow> client \<Rightarrow> client" where
  "publishDeviceDeath d p c = sp_publish (own_topic c ''DDEATH'' @ ''/'' @ d) p c"

definition publishScadaHostBirth :: "client \<Rightarrow> client" where
  "publishScadaHostBirth c = (if trim (cl_host c) = [] then c else cl_emit (TextPublish (''STATE/'' @ cl_host c) ''ONLINE'') c)"

section \<open>Payloads of tags\<close>

definition TAGS_SUBTOPIC :: string where "TAGS_SUBTOPIC = ''@json-scada/tags''"
definition MAX_QUEUEDMETRICS :: nat where "MAX_QUEUEDMETRICS = 10000"
definition SECONDS_BETWEEN_REBIRTHS :: int where "SECONDS_BETWEEN_REBIRTHS = 30"

text \<open>\<open>v && v.trim() !== ''\<close>, and \<open>String(v)\<close>.\<close>

definition nonblank :: "jsval \<Rightarrow> js_error + bool" where
  "nonblank v = (if \<not> truthy v then Inr False else (case v of Str s \<Rightarrow> Inr (trim s \<noteq> []) | _ \<Rightarrow> Inl TypeError))"

definition string_of :: "sp_env \<Rightarrow> jsval \<Rightarrow> string" where
  "string_of e v = (case js_text e v of Inr s \<Rightarrow> s | Inl _ \<Rightarrow> to_string v)"

definition getNodeBirthPayload :: "sp_env \<Rightarrow> doc" where
  "getNodeBirthPayload e = (let m = (\<lambda>n t v. Obj [(''name'', Str n), (''type'', Str t), (''value'', v)]) in
     [(''timestamp'', Num (num (sp_now e))),
      (''metrics'', Arr [m ''Node Control/Rebirth'' ''boolean'' (Bool False), m ''Node Control/Reboot'' ''boolean'' (Bool False),
         m ''Node Control/Next Server'' ''boolean'' (Bool False), m ''Properties/sw_version'' ''string'' (Str ''JSON-SCADA MQTT v0.3.0''),
         m ''Properties/hw_version'' ''string'' (Str ''Generic Server Hardware'')])])"

text \<open>The type and the value of a tag; other types are not published.\<close>

definition tag_value :: "sp_env \<Rightarrow> doc \<Rightarrow> js_error + (string \<times> jsval) option" where
  "tag_value e el = (let v = fld el ''value'' in
     if fld el ''type'' = Str ''digital'' then Inr (Some (''boolean'', Bool (\<not> truthy (fld el ''isEvent'') \<and> truthy v)))
     else if fld el ''type'' = Str ''string'' then
       (case fld el ''valueString'' of Str s \<Rightarrow> Inr (Some (''string'', Str s))
        | _ \<Rightarrow> if nullish v then Inr (Some (''string'', Str [])) else map_sum id (\<lambda>s. Some (''string'', Str s)) (js_text e v))
     else if fld el ''type'' = Str ''analog'' then Inr (Some (''double'', if nullish v then Num (num 0) else v))
     else Inr None)"

definition topic_level :: "jsval \<Rightarrow> js_error + string" where
  "topic_level v = map_sum id (\<lambda>b. if b then topicStr v @ ''/'' else []) (nonblank v)"

definition text_prop :: "string \<Rightarrow> string \<Rightarrow> jsval \<Rightarrow> string \<times> jsval" where
  "text_prop k t v = (k, Obj [(''type'', Str t), (''value'', v)])"

text \<open>The topics of a tag for plain clients: by its groups, and by its name.\<close>

definition tag_topics :: "doc \<Rightarrow> doc \<Rightarrow> js_error + doc" where
  "tag_topics conn el =
     (if \<not> has_key ''publishTopicRoot'' conn then Inr []
      else (case fld conn ''publishTopicRoot'' of
          Str base \<Rightarrow>
            if trim base = [] then Inr []
            else (case topic_level (fld el ''group1'') of Inl err \<Rightarrow> Inl err
              | Inr g1 \<Rightarrow> (case topic_level (fld el ''group2'') of Inl err \<Rightarrow> Inl err
              | Inr g2 \<Rightarrow> (case topic_level (fld el ''group3'') of Inl err \<Rightarrow> Inl err
              | Inr g3 \<Rightarrow> (case nonblank (fld el ''ungroupedDescription'') of Inl err \<Rightarrow> Inl err
              | Inr b \<Rightarrow> Inr [text_prop ''topic'' ''string'' (Str (trim base @ ''/'' @ g1 @ g2 @ g3 @ topicStr (fld el (if b then ''ungroupedDescription'' else ''tag'')))),
                             text_prop ''topicAsTag'' ''string'' (Str (trim base @ ''/'' @ (if g1 = [] then [] else TAGS_SUBTOPIC @ ''/'' @ g1) @
                               topicStr (fld el ''tag'') @ ''/value''))]))))
        | _ \<Rightarrow> Inl TypeError))"

definition tag_time :: "(string \<Rightarrow> jsnum) \<Rightarrow> doc \<Rightarrow> jsnum option" where
  "tag_time parse el = (if has_key ''timeTagAtSource'' el \<and> fld el ''timeTagAtSource'' \<noteq> Null then Some (js_date parse (fld el ''timeTagAtSource'')) else None)"

definition time_field :: "jsnum option \<Rightarrow> doc" where
  "time_field t = (case t of None \<Rightarrow> [] | Some x \<Rightarrow> [(''timestamp'', Num x)])"

definition time_good :: "jsnum option \<Rightarrow> jsval \<Rightarrow> doc" where
  "time_good t ok = (case t of None \<Rightarrow> [] | Some _ \<Rightarrow> [text_prop ''timestampGood'' ''boolean'' ok])"

text \<open>One metric of the birth of the device: none for tags of the connection itself.\<close>

definition birth_metric :: "sp_env \<Rightarrow> (string \<Rightarrow> jsnum) \<Rightarrow> jsval \<Rightarrow> doc \<Rightarrow> doc \<Rightarrow> js_error + doc option" where
  "birth_metric e parse connNo conn el =
     (if js_le (fld el ''_id'') (Num (num 0)) \<or> strict_eq (fld el ''protocolSourceConnectionNumber'') connNo then Inr None
      else (case tag_value e el of Inl err \<Rightarrow> Inl err | Inr None \<Rightarrow> Inr None
        | Inr (Some (ty, v)) \<Rightarrow> (let t = tag_time parse el; ok = (if has_key ''timeTagAtSourceOk'' el then fld el ''timeTagAtSourceOk'' else Bool False) in
            map_sum id (\<lambda>tps. Some ([(''name'', fld el ''tag''), (''alias'', fld el ''_id''), (''value'', v), (''type'', Str ty)] @ time_field t @
              [(''properties'', Obj (tps @ (if fld el ''origin'' = Str ''command'' then [text_prop ''isCommand'' ''boolean'' (Bool True)] else []) @
                 [text_prop ''description'' ''string'' (fld el ''description''), text_prop ''good'' ''boolean'' (Bool (\<not> truthy (fld el ''invalid'')))] @
                 time_good t ok))])) (tag_topics conn el))))"

fun birth_metrics :: "sp_env \<Rightarrow> (string \<Rightarrow> jsnum) \<Rightarrow> jsval \<Rightarrow> doc \<Rightarrow> doc list \<Rightarrow> js_error + doc list" where
  "birth_metrics e parse connNo conn [] = Inr []"
| "birth_metrics e parse connNo conn (el # els) = (case birth_metric e parse connNo conn el of Inl err \<Rightarrow> Inl err
     | Inr None \<Rightarrow> birth_metrics e parse connNo conn els
     | Inr (Some m) \<Rightarrow> map_sum id (\<lambda>ms. m # ms) (birth_metrics e parse connNo conn els))"

text \<open>The tags the query finds.\<close>

definition birth_tags :: "bool \<Rightarrow> jsval \<Rightarrow> doc list \<Rightarrow> doc list" where
  "birth_tags commandsEnabled connNo tags = filter (\<lambda>d. \<not> strict_eq (fld d ''protocolSourceConnectionNumber'') connNo \<and>
     (commandsEnabled \<or> fld d ''origin'' \<noteq> Str ''command'') \<and> js_lt (Num (num 0)) (fld d ''_id'')) tags"

definition getDeviceBirthPayload :: "sp_env \<Rightarrow> (string \<Rightarrow> jsnum) \<Rightarrow> doc \<Rightarrow> doc list \<Rightarrow> js_error + doc list" where
  "getDeviceBirthPayload e parse conn tags = birth_metrics e parse (fld conn ''protocolConnectionNumber'') conn
     (birth_tags (truthy (fld conn ''commandsEnabled'')) (fld conn ''protocolConnectionNumber'') tags)"

text \<open>\<open>replace(/^"(.*)"$/, '$1')\<close> on JSON text.\<close>

definition strip_quotes :: "string \<Rightarrow> string" where
  "strip_quotes s = (if 2 \<le> length s \<and> hd s = CHR 0x22 \<and> last s = CHR 0x22 then butlast (tl s) else s)"

definition getMetricPayload :: "sp_env \<Rightarrow> (string \<Rightarrow> jsnum) \<Rightarrow> doc \<Rightarrow> doc \<Rightarrow> js_error + doc option" where
  "getMetricPayload e parse conn el =
     (if fld el ''origin'' = Str ''command'' \<or> js_lt (fld el ''_id'') (Num (num 1)) then Inr None
      else (case tag_value e el of Inl err \<Rightarrow> Inl err | Inr None \<Rightarrow> Inr None
        | Inr (Some (ty, v)) \<Rightarrow> (let t = tag_time parse el in
            map_sum id (\<lambda>tps. Some ([(''alias'', fld el ''_id''), (''value'', v), (''type'', Str ty)] @ time_field t @
              [(''properties'', Obj ([text_prop ''valueJson'' ''string'' (Str (strip_quotes (json_val iso_of (js_or (fld el ''valueJson'') v)))),
                  text_prop ''valueString'' ''string'' (js_or (fld el ''valueString'') (Str (string_of e v))),
                  text_prop ''good'' ''boolean'' (Bool (\<not> truthy (fld el ''invalid'')))] @ tps @ time_good t (fld el ''timeTagAtSourceOk'')))])) (tag_topics conn el))))"

section \<open>The queue of metrics\<close>

record pub =
  pubQueue :: "doc list"
  deviceBirthed :: bool
  lastNodeRebirth :: int
  currentBroker :: nat
  connectionRetries :: nat
  cl_connected :: bool
  handle :: "client option"
  out_log :: "mqtt_out list"

text \<open>What the client of the time did is kept when it is dropped.\<close>

definition drop_client :: "pub \<Rightarrow> pub" where
  "drop_client w = w\<lparr>handle := None, cl_connected := False, out_log := out_log w @ (case handle w of None \<Rightarrow> [] | Some c \<Rightarrow> cl_out c)\<rparr>"

definition with_client :: "(client \<Rightarrow> client) \<Rightarrow> pub \<Rightarrow> pub" where
  "with_client f w = w\<lparr>handle := map_option f (handle w)\<rparr>"

definition enqueue_metric :: "doc \<Rightarrow> pub \<Rightarrow> pub" where
  "enqueue_metric d w = w\<lparr>pubQueue := pubQueue w @ [d]\<rparr>"

definition uses_group :: "doc \<Rightarrow> js_error + bool" where
  "uses_group conn = nonblank (fld conn ''groupId'')"

text \<open>A change of a tag is queued once the client is connected and, with a group, its device born.\<close>

definition on_tag_change :: "sp_env \<Rightarrow> (string \<Rightarrow> jsnum) \<Rightarrow> doc \<Rightarrow> doc \<Rightarrow> pub \<Rightarrow> (js_error + unit) \<times> pub" where
  "on_tag_change e parse conn el w =
     (if handle w = None \<or> \<not> cl_connected w then (Inr (), w)
      else (case uses_group conn of Inl err \<Rightarrow> (Inl err, w)
        | Inr g \<Rightarrow> if g \<and> \<not> deviceBirthed w then (Inr (), w)
            else (case getMetricPayload e parse conn el of Inl err \<Rightarrow> (Inl err, w) | Inr None \<Rightarrow> (Inr (), w)
              | Inr (Some d) \<Rightarrow> (Inr (), enqueue_metric d w))))"

text \<open>\<open>data.properties.k.value\<close> for properties that are an object.\<close>

definition props_of :: "doc \<Rightarrow> doc" where
  "props_of data = (case fld data ''properties'' of Obj p \<Rightarrow> p | _ \<Rightarrow> [])"

definition tag_text :: "doc \<Rightarrow> doc" where
  "tag_text data = (let p = props_of data; pv = (\<lambda>k. opt_get (fld p k) ''value'') in
     [(''value'', fld data ''value''), (''valueString'', pv ''valueString''), (''valueJson'', pv ''valueJson''), (''type'', fld data ''type'')] @
     (if has_key ''timestamp'' data then [(''timestamp'', fld data ''timestamp'')] else []) @
     (if has_key ''quality'' data then [(''quality'', fld data ''quality'')] else []) @
     (if has_key ''good'' p then [(''good'', pv ''good'')] else []))"

definition without_topics :: "doc \<Rightarrow> doc" where
  "without_topics data = aupd ''properties'' (Obj (adel ''topicAsTag'' (adel ''topic'' (props_of data)))) data"

text \<open>One element: published under its topics, then kept for the device unless it has a name.\<close>

definition plain_publish :: "sp_env \<Rightarrow> doc \<Rightarrow> client \<Rightarrow> (js_error + unit) \<times> client" where
  "plain_publish e data c = (let p = props_of data in
     case (if has_key ''topic'' p then map_sum id (\<lambda>t. cl_emit (TextPublish (to_string t) (string_of e (fld data ''value''))) c) (get (fld p ''topic'') ''value'') else Inr c) of
       Inl err \<Rightarrow> (Inl err, c)
     | Inr c1 \<Rightarrow> (case get (fld p ''topicAsTag'') ''value'' of Inl err \<Rightarrow> (Inl err, c1)
         | Inr t \<Rightarrow> (Inr (), cl_emit (TextPublish (to_string t) (json_val iso_of (Obj (tag_text data)))) c1)))"

definition publish_one :: "sp_env \<Rightarrow> doc \<Rightarrow> doc \<Rightarrow> client \<Rightarrow> (js_error + doc list) \<times> client" where
  "publish_one e conn data c = (case nonblank (fld conn ''publishTopicRoot'') of Inl err \<Rightarrow> (Inl err, c)
     | Inr b \<Rightarrow> (let plain = b \<and> has_key ''properties'' data in
         case (if plain then plain_publish e data c else (Inr (), c)) of (Inl err, c1) \<Rightarrow> (Inl err, c1)
         | (Inr _, c1) \<Rightarrow> (case uses_group conn of Inl err \<Rightarrow> (Inl err, c1)
             | Inr g \<Rightarrow> (Inr (if g \<and> \<not> has_key ''name'' data then [if plain then without_topics data else data] else []), c1))))"

text \<open>The queue is emptied from its head; an exception leaves the rest in it.\<close>

fun publish_all :: "sp_env \<Rightarrow> doc \<Rightarrow> doc list \<Rightarrow> doc list \<Rightarrow> client \<Rightarrow> (js_error + doc list) \<times> doc list \<times> client" where
  "publish_all e conn [] ms c = (Inr ms, [], c)"
| "publish_all e conn (d # q) ms c = (case publish_one e conn d c of (Inl err, c1) \<Rightarrow> (Inl err, q, c1)
     | (Inr ds, c1) \<Rightarrow> publish_all e conn q (ms @ ds) c1)"

definition publish_tick :: "sp_env \<Rightarrow> doc \<Rightarrow> pub \<Rightarrow> (js_error + unit) \<times> pub" where
  "publish_tick e conn w = (case (if cl_connected w then handle w else None) of
       None \<Rightarrow> (Inr (), w\<lparr>pubQueue := drop (length (pubQueue w) - MAX_QUEUEDMETRICS) (pubQueue w)\<rparr>)
     | Some c \<Rightarrow> (case publish_all e conn (pubQueue w) [] c of (Inl err, q, c1) \<Rightarrow> (Inl err, w\<lparr>pubQueue := q, handle := Some c1\<rparr>)
         | (Inr ms, q, c1) \<Rightarrow> (Inr (), w\<lparr>pubQueue := q, handle := Some (if ms = [] then c1
             else publishDeviceData (to_string (fld conn ''deviceId'')) [(''timestamp'', Num (num (sp_now e))), (''metrics'', Arr (map Obj ms))] c1)\<rparr>)))"

section \<open>Births\<close>

definition device_birth :: "sp_env \<Rightarrow> doc \<Rightarrow> doc list \<Rightarrow> pub \<Rightarrow> pub" where
  "device_birth e conn ms w = (with_client (publishDeviceBirth (to_string (fld conn ''deviceId''))
     [(''timestamp'', Num (num (sp_now e))), (''metrics'', Arr (map Obj ms))]) w)\<lparr>deviceBirthed := True\<rparr>"

text \<open>The handler of \<open>birth\<close>; \<open>tags\<close> is the collection when the query runs, \<open>up\<close> that the
  database is connected.\<close>

definition on_birth :: "sp_env \<Rightarrow> (string \<Rightarrow> jsnum) \<Rightarrow> bool \<Rightarrow> doc \<Rightarrow> doc list \<Rightarrow> pub \<Rightarrow> (js_error + unit) \<times> pub" where
  "on_birth e parse up conn tags w =
     (if \<not> has_key ''groupId'' conn then (Inr (), w)
      else (case fld conn ''groupId'' of
          Str g \<Rightarrow>
            if trim g = [] \<or> \<not> up then (Inr (), w)
            else (let w1 = w\<lparr>pubQueue := []\<rparr> in case nonblank (fld conn ''scadaHostId'') of Inl err \<Rightarrow> (Inl err, w1)
              | Inr h \<Rightarrow> (let w2 = with_client (publishNodeBirth (getNodeBirthPayload e)) (if h then with_client publishScadaHostBirth w1 else w1) in
                  case getDeviceBirthPayload e parse conn tags of Inl err \<Rightarrow> (Inl err, w2)
                  | Inr ms \<Rightarrow> (let w3 = device_birth e conn ms w2 in (Inr (), w3\<lparr>pubQueue := pubQueue w3 @ ms\<rparr>))))
        | _ \<Rightarrow> (Inl TypeError, w)))"

section \<open>Commands to other devices\<close>

definition clamp :: "int \<Rightarrow> int \<Rightarrow> jsnum \<Rightarrow> jsnum" where
  "clamp lo hi x = (if num hi < x then num hi else if x < num lo then num lo else x)"

definition command_type :: "string \<Rightarrow> string" where
  "command_type s = (let t = to_lower s in if t = ''int'' then ''int64'' else if t = ''text'' then ''string'' else t)"

definition command_value :: "sp_env \<Rightarrow> string \<Rightarrow> doc \<Rightarrow> (js_error + jsval) option" where
  "command_value e t cmd = (let v = fld cmd ''value''; i = parse_int (string_of e v); n = (\<lambda>x. Some (Inr (Num x))) in
     if t = ''int8'' then n (clamp (- (2 ^ 7)) (2 ^ 7 - 1) i)
     else if t = ''int16'' then n (clamp (- (2 ^ 15)) (2 ^ 15 - 1) i)
     else if t = ''int32'' then n (clamp (- (2 ^ 31)) (2 ^ 31 - 1) i)
     else if t = ''int64'' then n i
     else if t = ''uint8'' then n (clamp 0 (2 ^ 8 - 1) i)
     else if t = ''uint16'' then n (clamp 0 (2 ^ 16 - 1) i)
     else if t = ''uint32'' then n (clamp 0 (2 ^ 32 - 1) i)
     else if t = ''uint64'' then n (if i < num 0 then num 0 else i)
     else if t = ''float'' \<or> t = ''double'' then n (parse_float (string_of e v))
     else if t = ''boolean'' then Some (Inr (Bool (\<not> strict_eq v (Num (num 0)))))
     else if t = ''string'' then Some (if truthy (fld cmd ''valueString'') then Inr (fld cmd ''valueString'') else map_sum id Str (js_text e v))
     else if t = ''datetime'' then n (let x = parse_int (num_to_string (num_abs (to_number v))) in if x < num 0 then num 0 else x)
     else None)"

definition getMetricCommandPayload :: "sp_env \<Rightarrow> doc \<Rightarrow> js_error + doc option" where
  "getMetricCommandPayload e cmd = (case (fld cmd ''protocolSourceASDU'', fld cmd ''protocolSourceObjectAddress'') of
       (Str asdu, Str addr) \<Rightarrow>
         if trim asdu = [] then Inr None
         else (case command_value e (command_type asdu) cmd of None \<Rightarrow> Inr None
           | Some (Inl err) \<Rightarrow> Inl err
           | Some (Inr v) \<Rightarrow> (let ls = split_char (CHR ''/'') addr;
                 metric = (\<lambda>n. (''metric'', Obj [(''name'', Str n), (''value'', v), (''type'', Str (command_type asdu)), (''timestamp'', Num (num (sp_now e)))])) in
               if hd ls = SparkplugNS then
                 (if 5 \<le> length ls then Inr (Some [(''groupId'', Str (ls ! 1)), (''edgeNodeId'', Str (ls ! 2)), (''deviceId'', Str (ls ! 3)), metric (join_levels (drop 4 ls))])
                  else if length ls = 4 then Inr (Some [(''groupId'', Str (ls ! 1)), (''edgeNodeId'', Str (ls ! 2)), metric (ls ! 3)])
                  else Inr None)
               else Inr (Some [(''topic'', Str addr), (''value'', v)])))
     | _ \<Rightarrow> Inr None)"

text \<open>\<open>qos\<close> and \<open>retain\<close> of a plain command.\<close>

definition command_qos :: "sp_env \<Rightarrow> doc \<Rightarrow> jsnum" where
  "command_qos e cmd = (let d = fld cmd ''protocolSourceCommandDuration''; q = (if is_nan d then num 0 else parse_int (string_of e d)) in
     if q \<in> set [num 0, num 1, num 2] then q else num 0)"

definition command_retain :: "doc \<Rightarrow> bool" where
  "command_retain cmd = (fld cmd ''protocolSourceCommandUseSBO'' = Bool True)"

text \<open>A command inserted in the queue; \<open>delivered\<close> is what the client reports of the publication.\<close>

definition on_command :: "sp_env \<Rightarrow> (string \<Rightarrow> jsnum) \<Rightarrow> doc \<Rightarrow> bool \<Rightarrow> doc \<Rightarrow> pub \<Rightarrow> (js_error + unit) \<times> pub" where
  "on_command e parse conn delivered cmd w = (case uses_group conn of Inl err \<Rightarrow> (Inl err, w)
     | Inr g \<Rightarrow>
         if g \<and> \<not> deviceBirthed w \<or> handle w = None \<or> \<not> cl_connected w then (Inr (), w)
         else if \<not> strict_eq (fld cmd ''protocolSourceConnectionNumber'') (fld conn ''protocolConnectionNumber'') then (Inr (), w)
         else (case getMetricCommandPayload e cmd of Inl err \<Rightarrow> (Inl err, w) | Inr None \<Rightarrow> (Inr (), w)
           | Inr (Some d) \<Rightarrow> (let t = Num (js_date parse (fld cmd ''timeTag''));
                 m = (case fld d ''metric'' of Obj x \<Rightarrow> x | _ \<Rightarrow> []);
                 p = [(''timestamp'', t), (''metrics'', Arr [Obj (aupd ''timestamp'' t m)])];
                 gr = to_string (fld d ''groupId''); n = to_string (fld d ''edgeNodeId''); dv = to_string (fld d ''deviceId'');
                 ack = cl_emit (AckCommand (fld cmd ''_id'') delivered) in
               if truthy (fld d ''deviceId'') then (Inr (), with_client (\<lambda>c. ack (publishDeviceCmd gr n dv p c)) w)
               else if truthy (fld d ''groupId'') then (Inr (), with_client (\<lambda>c. ack (publishNodeCmd gr n p c)) w)
               else (case js_text e (fld d ''value'') of Inl err \<Rightarrow> (Inl err, w)
                 | Inr s \<Rightarrow> (Inr (), with_client (\<lambda>c. ack (cl_emit (CommandPublish (to_string (fld d ''topic'')) s (command_qos e cmd) (command_retain cmd)) c)) w)))))"

section \<open>Commands from other nodes\<close>

text \<open>The value of a command for a tag: the converted number, its text and its JSON; \<open>long_affine\<close> is
  \<open>Long\<close> arithmetic. \<open>None\<close> when the metric has no type.\<close>

definition dcmd_value :: "sp_env \<Rightarrow> (bool \<Rightarrow> jsval \<Rightarrow> jsval \<Rightarrow> jsval \<Rightarrow> js_error + jsnum) \<Rightarrow> doc \<Rightarrow> doc \<Rightarrow> js_error + (jsval \<times> jsval \<times> jsval) option" where
  "dcmd_value e long_affine m el =
     (let v = fld m ''value''; k1 = fld el ''kconv1''; k2 = fld el ''kconv2''; j = Str (json_val iso_of (Obj m)); f = parse_float (string_of e v);
          value = Num (if num_is_nan f then num 0 else f) in
      if \<not> has_key ''type'' m then Inr None
      else (case fld m ''type'' of Str type \<Rightarrow> (let t = to_lower type in
          if t = ''boolean'' then (let b = (truthy v \<noteq> strict_eq k1 (Num (num (-1)))) in Inr (Some (Num (num (if b then 1 else 0)), Str (if b then ''true'' else ''false''), j)))
          else if t \<in> set [''uuid'', ''text'', ''string''] then Inr (Some (value, v, j))
          else if t \<in> set [''int8'', ''int16'', ''uint8'', ''uint16'', ''int32'', ''uint32'', ''float'', ''double''] then
            (case castSparkplugValue e type v of Inr (Plain x) \<Rightarrow> (let y = js_add (Num (to_number k1 * to_number x)) k2 in Inr (Some (y, Str (to_string y), j)))
             | Inr (LongOf n) \<Rightarrow> Inl TypeError | Inl err \<Rightarrow> Inl err)
          else if t = ''int64'' \<or> t = ''uint64'' then map_sum id (\<lambda>n. Some (Num n, Str (num_to_string n), j)) (long_affine (t = ''uint64'') v k1 k2)
          else Inr (Some (value, j, j)))
        | _ \<Rightarrow> Inl TypeError))"

text \<open>The command queued for one tag that has the name of the metric.\<close>

definition dcmd_command :: "sp_env \<Rightarrow> (bool \<Rightarrow> jsval \<Rightarrow> jsval \<Rightarrow> jsval \<Rightarrow> js_error + jsnum) \<Rightarrow> doc \<Rightarrow> nat \<Rightarrow> doc \<Rightarrow> doc \<Rightarrow> js_error + doc option" where
  "dcmd_command e long_affine conn broker m el =
     (if fld el ''origin'' \<noteq> Str ''command'' \<or> js_le (fld el ''_id'') (Num (num 0)) then Inr None
      else if strict_eq (fld el ''protocolSourceConnectionNumber'') (fld conn ''protocolConnectionNumber'') then Inr None
      else (case dcmd_value e long_affine m el of Inl err \<Rightarrow> Inl err | Inr None \<Rightarrow> Inr None
        | Inr (Some (v, s, j)) \<Rightarrow> (case js_index (fld conn ''endpointURLs'') broker of Inl err \<Rightarrow> Inl err
            | Inr url \<Rightarrow> Inr (Some (map (\<lambda>k. (k, fld el k)) [''protocolSourceConnectionNumber'', ''protocolSourceCommonAddress'', ''protocolSourceObjectAddress'', ''protocolSourceASDU'',
                 ''protocolSourceCommandDuration'', ''protocolSourceCommandUseSBO''] @
               [(''pointKey'', Num (to_number (fld el ''_id''))), (''tag'', fld el ''tag''), (''value'', Num (to_number v)), (''valueString'', s), (''valueJson'', j),
                (''originatorUserName'', fld conn ''name''), (''originatorIpAddress'', url), (''timeTag'', Date (num (sp_now e)))])))))"

text \<open>\<open>ProcessDeviceCommand\<close> over the tags of that name; each is handled by a function of its own, whose
  exception stops no other.\<close>

definition ProcessDeviceCommand :: "sp_env \<Rightarrow> (bool \<Rightarrow> jsval \<Rightarrow> jsval \<Rightarrow> jsval \<Rightarrow> js_error + jsnum) \<Rightarrow> doc \<Rightarrow> nat \<Rightarrow> doc list \<Rightarrow> doc \<Rightarrow> doc list" where
  "ProcessDeviceCommand e long_affine conn broker tags m =
     concat (map (\<lambda>el. case dcmd_command e long_affine conn broker m el of Inr (Some c) \<Rightarrow> [c] | _ \<Rightarrow> [])
       (filter (\<lambda>d. strict_eq (fld d ''tag'') (fld m ''name'') \<and> fld d ''origin'' = Str ''command'') tags))"

definition metrics_of :: "doc \<Rightarrow> doc list" where
  "metrics_of payload = (case fld payload ''metrics'' of Arr ms \<Rightarrow> concat (map (\<lambda>m. case m of Obj d \<Rightarrow> [d] | _ \<Rightarrow> []) ms) | _ \<Rightarrow> [])"

definition on_dcmd :: "sp_env \<Rightarrow> (bool \<Rightarrow> jsval \<Rightarrow> jsval \<Rightarrow> jsval \<Rightarrow> js_error + jsnum) \<Rightarrow> bool \<Rightarrow> doc \<Rightarrow> doc list \<Rightarrow> doc \<Rightarrow> pub \<Rightarrow> pub" where
  "on_dcmd e long_affine up conn tags payload w = (if \<not> truthy (fld conn ''commandsEnabled'') \<or> \<not> up then w
     else w\<lparr>out_log := out_log w @ map InsertCommand (concat (map (ProcessDeviceCommand e long_affine conn (currentBroker w) tags) (metrics_of payload)))\<rparr>)"

definition broker_count :: "doc \<Rightarrow> nat" where
  "broker_count conn = (case fld conn ''endpointURLs'' of Arr us \<Rightarrow> length us | _ \<Rightarrow> 0)"

definition next_broker :: "doc \<Rightarrow> pub \<Rightarrow> pub" where
  "next_broker conn w = (drop_client w)\<lparr>currentBroker := (currentBroker w + 1) mod broker_count conn, connectionRetries := 0\<rparr>"

text \<open>A command for this node; \<open>Inl\<close> is an exception of the metric's own function.\<close>

definition ncmd_metric :: "sp_env \<Rightarrow> (string \<Rightarrow> jsnum) \<Rightarrow> doc \<Rightarrow> doc list \<Rightarrow> doc \<Rightarrow> pub \<Rightarrow> (js_error + unit) \<times> pub" where
  "ncmd_metric e parse conn tags m w =
     (if fld m ''name'' = Str ''Node Control/Rebirth'' then
        (if \<not> has_key ''groupId'' conn then (Inr (), w)
         else (case fld conn ''groupId'' of
             Str g \<Rightarrow>
               if trim g = [] \<or> fld m ''value'' \<noteq> Bool True then (Inr (), w)
               else if sp_now e < lastNodeRebirth w + SECONDS_BETWEEN_REBIRTHS * 1000 then (Inr (), w)
               else (let w1 = w\<lparr>lastNodeRebirth := sp_now e\<rparr> in
                 if handle w = None then (Inl TypeError, w1)
                 else (let w2 = with_client (publishNodeBirth (getNodeBirthPayload e)) w1 in
                   case getDeviceBirthPayload e parse conn tags of Inl err \<Rightarrow> (Inl err, w2) | Inr ms \<Rightarrow> (Inr (), device_birth e conn ms w2)))
           | _ \<Rightarrow> (Inl TypeError, w)))
      else if fld m ''name'' = Str ''Node Control/Reboot'' then (Inr (), w\<lparr>out_log := out_log w @ [ExitProcess 999]\<rparr>)
      else if fld m ''name'' = Str ''Node Control/Next Server'' then
        (if broker_count conn \<le> 1 then (Inr (), w) else if handle w = None then (Inl TypeError, w\<lparr>currentBroker := (currentBroker w + 1) mod broker_count conn\<rparr>)
         else (Inr (), next_broker conn w))
      else (Inr (), w))"

definition on_ncmd :: "sp_env \<Rightarrow> (string \<Rightarrow> jsnum) \<Rightarrow> doc \<Rightarrow> doc list \<Rightarrow> doc \<Rightarrow> pub \<Rightarrow> pub" where
  "on_ncmd e parse conn tags payload w = fold (\<lambda>m w. snd (ncmd_metric e parse conn tags m w)) (metrics_of payload) w"

section \<open>The connection to a broker\<close>

definition connectionRetriesLimit :: nat where "connectionRetriesLimit = 20"

text \<open>Events of the client.\<close>

definition subscriptions :: "doc \<Rightarrow> jsval list" where
  "subscriptions conn = (let arr = (\<lambda>k. case fld conn k of Arr vs \<Rightarrow> vs | _ \<Rightarrow> []) in
     arr ''topics'' @ arr ''topicsAsFiles'' @ filter truthy (map (\<lambda>el. opt_get el ''topic'') (arr ''topicsScripted'')))"

definition on_connect :: "doc \<Rightarrow> pub \<Rightarrow> pub" where
  "on_connect conn w = with_client (fold (\<lambda>t. case t of Str s \<Rightarrow> if trim s = [] then id else cl_emit (Subscribe (fst (JsonPathTopic s))) | _ \<Rightarrow> id) (subscriptions conn))
     (w\<lparr>connectionRetries := 0, cl_connected := True\<rparr>)"

definition on_error :: "pub \<Rightarrow> pub" where
  "on_error w = drop_client w"

definition on_close :: "pub \<Rightarrow> pub" where
  "on_close w = (drop_client w)\<lparr>deviceBirthed := False\<rparr>"

definition on_reconnect :: "doc \<Rightarrow> pub \<Rightarrow> pub" where
  "on_reconnect conn w = (let w1 = w\<lparr>connectionRetries := connectionRetries w + 1\<rparr> in
     if 1 < broker_count conn \<and> connectionRetriesLimit \<le> connectionRetries w1 then next_broker conn w1 else w1)"

text \<open>The routine run every five seconds: \<open>active\<close> is the state of the redundancy, \<open>fresh\<close> the client made
  of the configuration.\<close>

definition sparkplugProcess :: "bool \<Rightarrow> bool \<Rightarrow> client \<Rightarrow> pub \<Rightarrow> pub" where
  "sparkplugProcess up active fresh w =
     (if \<not> up then drop_client w
      else if handle w = None then (if active then w\<lparr>handle := Some fresh, cl_connected := False\<rparr> else w)
      else if active then (if cl_connected w then w\<lparr>connectionRetries := 0\<rparr> else w)
      else drop_client w)"

end
