(* ===== verification/PubLaws.thy ===== *)
theory PubLaws
  imports MqttPublish JSDigits
begin

text \<open>
  What the way out of the MQTT driver guarantees: sequence numbers, the range of commands, no command
  back to the connection it came from, the brokers tried in turn, the metrics of births and data.
\<close>

section \<open>Sequence numbers\<close>

definition seq_of :: "mqtt_out \<Rightarrow> jsval" where
  "seq_of x = (case x of SpPublish _ p \<Rightarrow> fld p ''seq'' | _ \<Rightarrow> Undef)"

lemma sp_publish_seq:
  assumes "cl_seq c = (if n = 0 then 0 else (n - 1) mod 256 + 1)"
  shows "\<exists>x. cl_out (sp_publish t p c) = cl_out c @ [x] \<and> seq_of x = Num (num (int (n mod 256)))"
    and "cl_seq (sp_publish t p c) = n mod 256 + 1"
proof -
  have "(if cl_seq c = 256 then 0 else cl_seq c) = n mod 256"
  proof (cases n)
    case (Suc k)
    then show ?thesis using assms by (auto simp: mod_Suc)
  qed (use assms in simp)
  then show "\<exists>x. cl_out (sp_publish t p c) = cl_out c @ [x] \<and> seq_of x = Num (num (int (n mod 256)))"
    and "cl_seq (sp_publish t p c) = n mod 256 + 1"
    by (simp_all add: sp_publish_def addSeqNumber_def incrementSeqNum_def cl_emit_def seq_of_def Let_def)
qed

lemma birth_seq:
  "\<exists>x. cl_out (publishNodeBirth p c) = cl_out c @ [x] \<and> seq_of x = Num (num 0)" "cl_seq (publishNodeBirth p c) = 1"
  by (auto simp: publishNodeBirth_def addSeqNumber_def incrementSeqNum_def cl_emit_def seq_of_def Let_def add_metric_def split: jsval.splits)

text \<open>The messages the driver publishes after the birth of its node are numbered from it: the birth
  has number 0 and the following ones 1, 2, up to 255, and then 0 again, whatever their topics.\<close>

theorem sequence_numbers:
  "map seq_of (cl_out (fold (\<lambda>(t, p). sp_publish t p) ms (publishNodeBirth b c))) =
     map seq_of (cl_out c) @ map (\<lambda>i. Num (num (int (i mod 256)))) [0..<Suc (length ms)]"
proof -
  have "map seq_of (cl_out (fold (\<lambda>(t, p). sp_publish t p) ms (publishNodeBirth b c))) =
     map seq_of (cl_out c) @ map (\<lambda>i. Num (num (int (i mod 256)))) [0..<Suc (length ms)] \<and>
     cl_seq (fold (\<lambda>(t, p). sp_publish t p) ms (publishNodeBirth b c)) = length ms mod 256 + 1"
  proof (induction ms rule: rev_induct)
    case Nil
    then show ?case using birth_seq[of b c] by auto
  next
    case (snoc m ms)
    obtain t p where m: "m = (t, p)" by (cases m)
    let ?c = "fold (\<lambda>(t, p). sp_publish t p) ms (publishNodeBirth b c)"
    have s: "cl_seq ?c = (if Suc (length ms) = 0 then 0 else (Suc (length ms) - 1) mod 256 + 1)" using snoc by simp
    show ?case using sp_publish_seq[OF s, of t p] snoc by (auto simp: m)
  qed
  then show ?thesis by blast
qed

section \<open>The range of commands\<close>

text \<open>The least and the greatest value of a type of integers.\<close>

definition int_range :: "string \<Rightarrow> (int \<times> int) option" where
  "int_range t = map_of [(''int8'', - (2 ^ 7), 2 ^ 7 - 1), (''int16'', - (2 ^ 15), 2 ^ 15 - 1), (''int32'', - (2 ^ 31), 2 ^ 31 - 1),
     (''uint8'', 0, 2 ^ 8 - 1), (''uint16'', 0, 2 ^ 16 - 1), (''uint32'', 0, 2 ^ 32 - 1)] t"

lemma clamp_range: "lo \<le> hi \<Longrightarrow> clamp lo hi x = NaN \<or> num lo \<le> clamp lo hi x \<and> clamp lo hi x \<le> num hi"
  by (cases x) (auto simp: clamp_def num_def split: if_splits)

definition payload_value :: "doc \<Rightarrow> jsval" where
  "payload_value d = (case fld d ''metric'' of Obj m \<Rightarrow> fld m ''value'' | _ \<Rightarrow> fld d ''value'')"

lemma command_value_range:
  assumes "command_value e t cmd = Some (Inr v)" "int_range t = Some (lo, hi)"
  shows "\<exists>x. v = Num x \<and> (x = NaN \<or> num lo \<le> x \<and> x \<le> num hi)"
  using assms clamp_range[of lo hi "parse_int (string_of e (fld cmd ''value''))"]
  by (auto simp: command_value_def int_range_def Let_def split: if_splits)

lemma payload_command_value:
  assumes "getMetricCommandPayload e cmd = Inr (Some d)"
  shows "\<exists>t v. fld cmd ''protocolSourceASDU'' = Str t \<and> command_value e (command_type t) cmd = Some (Inr v) \<and> payload_value d = v"
  using assms by (auto simp: getMetricCommandPayload_def payload_value_def Let_def split: jsval.splits if_splits option.splits sum.splits)


definition sample_cmd :: "jsval \<Rightarrow> string \<Rightarrow> doc" where
  "sample_cmd v t = [(''protocolSourceASDU'', Str t), (''protocolSourceObjectAddress'', Str ''spBv1.0/G/E/D/m''), (''value'', v)]"

definition quiet_env :: sp_env where
  "quiet_env = \<lparr>sp_now = 0, long_number = (\<lambda>u v. Inr (to_number v)), obj_text = (\<lambda>d. []), date_text = (\<lambda>t. []), sp_handle = True, sp_mongo = True\<rparr>"

lemma sample_payload:
  assumes "command_value quiet_env ''int8'' (sample_cmd v ''int8'') = Some (Inr u)"
  shows "\<exists>d. getMetricCommandPayload quiet_env (sample_cmd v ''int8'') = Inr (Some d) \<and> payload_value d = u"
proof -
  have t: "command_type ''int8'' = ''int8''" by (simp add: command_type_def to_lower_def to_lower_char_def Let_def)
  show ?thesis using assms
    by (simp add: getMetricCommandPayload_def sample_cmd_def t Let_def SparkplugNS_def trim_def is_space_def payload_value_def)
qed


text \<open>A command whose number JavaScript prints with an exponent goes out as the digits before it: the
  value is read back from its text by \<open>parseInt\<close>, which stops at the \<open>e\<close>.\<close>

theorem exponents_misread:
  assumes "string_of e (fld cmd ''value'') = d # ds @ CHR ''e'' # r" "is_digit d" "list_all is_digit ds"
  shows "command_value e ''int64'' cmd = Some (Inr (Num (dbl (of_int (digits_val (d # ds))))))"
proof -
  have "parse_int (d # ds @ CHR ''e'' # r) = dbl (of_int (digits_val (d # ds)))"
    using assms(2,3) by (intro parse_int_digits) (simp_all add: radix_digit_def hex_val_def to_lower_char_def)
  then show ?thesis using assms(1) by (simp add: command_value_def Let_def)
qed

theorem exponents_misread_witness:
  "command_value quiet_env ''int64'' [(''value'', Num (Fin (10 ^ 21)))] = Some (Inr (Num (dbl 1)))"
proof -
  have t: "num_to_string (Fin (10 ^ 21)) = ''1e+21''" by code_simp
  have "digits_val ''1'' = 1" by (simp add: digits_val_def digit_val_def)
  then show ?thesis
    using exponents_misread[of quiet_env "[(''value'', Num (Fin (10 ^ 21)))]" "CHR ''1''" "[]" "''+21''"]
    by (simp add: string_of_def js_text_def t is_digit_def del: power_numeral)
qed

section \<open>Commands received\<close>

lemma dcmd_command_source:
  assumes "dcmd_command e la conn broker m el = Inr (Some c)"
  shows "fld c ''tag'' = fld el ''tag''" "fld c ''protocolSourceObjectAddress'' = fld el ''protocolSourceObjectAddress''"
    "fld c ''protocolSourceConnectionNumber'' = fld el ''protocolSourceConnectionNumber''"
    "\<not> strict_eq (fld el ''protocolSourceConnectionNumber'') (fld conn ''protocolConnectionNumber'')"
  using assms by (auto simp: dcmd_command_def split: sum.splits option.splits if_splits prod.splits)

text \<open>A command the driver receives is queued only for command points of that name, and never for
  points of the connection it came by, so that it cannot return to the sender.\<close>

theorem received_commands_leave:
  assumes "c \<in> set (ProcessDeviceCommand e la conn broker tags m)"
  shows "\<exists>el \<in> set tags. strict_eq (fld el ''tag'') (fld m ''name'') \<and> fld el ''origin'' = Str ''command'' \<and>
     fld c ''tag'' = fld el ''tag'' \<and> fld c ''protocolSourceObjectAddress'' = fld el ''protocolSourceObjectAddress'' \<and>
     \<not> strict_eq (fld c ''protocolSourceConnectionNumber'') (fld conn ''protocolConnectionNumber'')"
proof -
  obtain el where el: "el \<in> set tags" "strict_eq (fld el ''tag'') (fld m ''name'')" "fld el ''origin'' = Str ''command''"
      "c \<in> set (case dcmd_command e la conn broker m el of Inr (Some c) \<Rightarrow> [c] | _ \<Rightarrow> [])"
    using assms by (auto simp: ProcessDeviceCommand_def)
  then have "dcmd_command e la conn broker m el = Inr (Some c)" by (auto split: sum.splits option.splits)
  from dcmd_command_source[OF this] show ?thesis using el by metis
qed

definition sample_tag :: doc where
  "sample_tag = [(''tag'', Str ''C''), (''origin'', Str ''command''), (''_id'', Num (num 7)), (''protocolSourceConnectionNumber'', Num (num 2)),
     (''kconv1'', Num (num 1)), (''kconv2'', Num (num 0))]"

theorem received_commands_leave_witness:
  "\<exists>c. c \<in> set (ProcessDeviceCommand quiet_env (\<lambda>u v a b. Inr (num 0)) [(''protocolConnectionNumber'', Num (num 1)), (''endpointURLs'', Arr [Str ''u''])] 0
       [sample_tag] [(''name'', Str ''C''), (''type'', Str ''boolean''), (''value'', Bool True)]) \<and>
     \<not> strict_eq (fld c ''protocolSourceConnectionNumber'') (Num (num 1))"
proof -
  let ?conn = "[(''protocolConnectionNumber'', Num (num 1)), (''endpointURLs'', Arr [Str ''u''])]" and ?m = "[(''name'', Str ''C''), (''type'', Str ''boolean''), (''value'', Bool True)]"
  let ?cs = "ProcessDeviceCommand quiet_env (\<lambda>u v a b. Inr (num 0)) ?conn 0 [sample_tag] ?m"
  have "?cs \<noteq> []"
    by (simp add: ProcessDeviceCommand_def dcmd_command_def dcmd_value_def sample_tag_def Let_def to_lower_def to_lower_char_def js_index_def num_eq_iff num_def)
  then obtain c where c: "c \<in> set ?cs" by (meson last_in_set)
  from received_commands_leave[OF c] c show ?thesis by auto
qed

section \<open>Brokers\<close>

text \<open>Twenty attempts to reconnect and a new client.\<close>

definition broker_round :: "doc \<Rightarrow> client \<Rightarrow> pub \<Rightarrow> pub" where
  "broker_round conn fresh w = sparkplugProcess True True fresh ((on_reconnect conn ^^ 20) w)"

lemma reconnects:
  assumes "k < connectionRetriesLimit" "connectionRetries w = 0"
  shows "(on_reconnect conn ^^ k) w = w\<lparr>connectionRetries := k\<rparr>"
  using assms(1)
proof (induction k)
  case (Suc k)
  then show ?case by (simp add: on_reconnect_def Let_def)
qed (use assms(2) in simp)

lemma round_next:
  assumes "1 < broker_count conn" "connectionRetries w = 0"
  shows "currentBroker (broker_round conn fresh w) = (currentBroker w + 1) mod broker_count conn"
    "connectionRetries (broker_round conn fresh w) = 0" "handle (broker_round conn fresh w) = Some fresh"
proof -
  have "(on_reconnect conn ^^ 20) w = on_reconnect conn ((on_reconnect conn ^^ 19) w)" by (simp add: eval_nat_numeral del: funpow.simps(1))
  then have *: "(on_reconnect conn ^^ 20) w = next_broker conn (w\<lparr>connectionRetries := 20\<rparr>)"
    using assms reconnects[of 19 w conn] by (simp add: on_reconnect_def connectionRetriesLimit_def)
  show "currentBroker (broker_round conn fresh w) = (currentBroker w + 1) mod broker_count conn"
    "connectionRetries (broker_round conn fresh w) = 0" "handle (broker_round conn fresh w) = Some fresh"
    unfolding broker_round_def * by (simp_all add: sparkplugProcess_def next_broker_def drop_client_def)
qed


definition idle_pub :: pub where
  "idle_pub = \<lparr>pubQueue = [], deviceBirthed = False, lastNodeRebirth = 0, currentBroker = 0, connectionRetries = 0, cl_connected = False, handle = None, out_log = []\<rparr>"

definition plain_client :: client where
  "plain_client = \<lparr>cl_group = ''G'', cl_edge = ''E'', cl_host = [], cl_bdSeq = Num (num 0), cl_seq = 0, cl_out = []\<rparr>"


section \<open>Births and data\<close>

lemma birth_metrics_mem:
  assumes "birth_metrics e parse n conn els = Inr ms" "el \<in> set els" "birth_metric e parse n conn el = Inr (Some m)"
  shows "m \<in> set ms"
  using assms
proof (induction els arbitrary: ms)
  case (Cons x els)
  then show ?case by (auto split: sum.splits option.splits)
qed simp

lemma birth_metrics_fine:
  assumes "birth_metrics e parse n conn els = Inr ms" "el \<in> set els"
  shows "\<exists>x. birth_metric e parse n conn el = Inr x"
  using assms
proof (induction els arbitrary: ms)
  case (Cons x els)
  then show ?case by (auto split: sum.splits option.splits)
qed simp

text \<open>What data names by its alias alone, the birth of the device named: when a metric of a tag is
  published, the birth made of the same tags has a metric with that alias and the name of the tag, of the
  same type, unless the tag is acquired by the connection itself.\<close>

theorem data_is_announced:
  assumes "getMetricPayload e parse conn el = Inr (Some d)" "getDeviceBirthPayload e' parse' conn tags = Inr ms" "el \<in> set tags"
    and "\<not> strict_eq (fld el ''protocolSourceConnectionNumber'') (fld conn ''protocolConnectionNumber'')" "fld el ''_id'' = Num (num i)"
  shows "\<exists>m \<in> set ms. fld m ''alias'' = fld d ''alias'' \<and> fld m ''name'' = fld el ''tag'' \<and> fld m ''type'' = fld d ''type''"
proof -
  have i: "1 \<le> i" using assms(1,5) by (auto simp: getMetricPayload_def split: if_splits)
  have o: "fld el ''origin'' \<noteq> Str ''command''" using assms(1) by (auto simp: getMetricPayload_def)
  obtain ty v where tv: "tag_value e el = Inr (Some (ty, v))" "fld d ''type'' = Str ty" "fld d ''alias'' = fld el ''_id''"
    using assms(1) by (auto simp: getMetricPayload_def Let_def time_field_def split: if_splits sum.splits option.splits prod.splits)
  let ?n = "fld conn ''protocolConnectionNumber''"
  have mem: "el \<in> set (birth_tags (truthy (fld conn ''commandsEnabled'')) ?n tags)"
    using assms(3,4,5) i o by (simp add: birth_tags_def)
  obtain x where x: "birth_metric e' parse' ?n conn el = Inr x"
    using birth_metrics_fine assms(2) mem unfolding getDeviceBirthPayload_def by blast
  obtain m where m: "x = Some m" "fld m ''alias'' = fld el ''_id''" "fld m ''name'' = fld el ''tag''" "fld m ''type'' = Str ty"
    using x tv(1) assms(4,5) i
    by (auto simp: birth_metric_def tag_value_def Let_def time_field_def split: if_splits sum.splits option.splits prod.splits jsval.splits)
  show ?thesis using birth_metrics_mem[OF assms(2)[unfolded getDeviceBirthPayload_def] mem] x m tv by auto
qed

definition data_tag :: doc where
  "data_tag = [(''tag'', Str ''A''), (''type'', Str ''digital''), (''value'', Num (num 1)), (''origin'', Str ''supervised''), (''_id'', Num (num 7)), (''protocolSourceConnectionNumber'', Num (num 2))]"

theorem data_is_announced_witness:
  "\<exists>d ms m. getMetricPayload quiet_env (\<lambda>s. NaN) [(''protocolConnectionNumber'', Num (num 1))] data_tag = Inr (Some d) \<and>
     getDeviceBirthPayload quiet_env (\<lambda>s. NaN) [(''protocolConnectionNumber'', Num (num 1))] [data_tag] = Inr ms \<and> m \<in> set ms \<and>
     fld m ''alias'' = fld d ''alias'' \<and> fld m ''name'' = Str ''A''"
proof -
  let ?c = "[(''protocolConnectionNumber'', Num (num 1))]"
  have d: "\<exists>d. getMetricPayload quiet_env (\<lambda>s. NaN) ?c data_tag = Inr (Some d)"
    by (simp add: getMetricPayload_def data_tag_def tag_value_def tag_topics_def Let_def)
  have b: "\<exists>ms. getDeviceBirthPayload quiet_env (\<lambda>s. NaN) ?c [data_tag] = Inr ms"
    by (simp add: getDeviceBirthPayload_def birth_tags_def birth_metric_def data_tag_def tag_value_def tag_topics_def Let_def num_eq_iff num_def)
  obtain d ms where dm: "getMetricPayload quiet_env (\<lambda>s. NaN) ?c data_tag = Inr (Some d)" "getDeviceBirthPayload quiet_env (\<lambda>s. NaN) ?c [data_tag] = Inr ms"
    using d b by blast
  have h: "data_tag \<in> set [data_tag]" "\<not> strict_eq (fld data_tag ''protocolSourceConnectionNumber'') (fld ?c ''protocolConnectionNumber'')" "fld data_tag ''_id'' = Num (num 7)"
    by (simp_all add: data_tag_def num_eq_iff)
  have "fld data_tag ''tag'' = Str ''A''" by (simp add: data_tag_def)
  then show ?thesis using data_is_announced[OF dm h] dm by metis
qed

text \<open>A tag the connection itself acquires is published as data although no birth announces it: the
  rule that keeps such tags out of the birth is missing for data.\<close>

theorem own_points_published:
  assumes "strict_eq (fld el ''protocolSourceConnectionNumber'') (fld conn ''protocolConnectionNumber'')" "fld el ''origin'' \<noteq> Str ''command''"
    and "fld el ''_id'' = Num (num i)" "1 \<le> i" "tag_value e el = Inr (Some tv)" "tag_topics conn el = Inr tps"
  shows "(\<exists>d. getMetricPayload e parse conn el = Inr (Some d) \<and> fld d ''alias'' = fld el ''_id'') \<and> getDeviceBirthPayload e parse conn [el] = Inr []"
  using assms by (cases tv) (auto simp: getMetricPayload_def getDeviceBirthPayload_def birth_tags_def Let_def)

theorem own_points_published_witness:
  "(\<exists>d. getMetricPayload quiet_env (\<lambda>s. NaN) [(''protocolConnectionNumber'', Num (num 2))] data_tag = Inr (Some d)) \<and>
   getDeviceBirthPayload quiet_env (\<lambda>s. NaN) [(''protocolConnectionNumber'', Num (num 2))] [data_tag] = Inr []"
proof -
  let ?c = "[(''protocolConnectionNumber'', Num (num 2))]"
  have h: "strict_eq (fld data_tag ''protocolSourceConnectionNumber'') (fld ?c ''protocolConnectionNumber'')" "fld data_tag ''origin'' \<noteq> Str ''command''"
    "fld data_tag ''_id'' = Num (num 7)" "tag_value quiet_env data_tag = Inr (Some (''boolean'', Bool True))" "tag_topics ?c data_tag = Inr []"
    by (simp_all add: data_tag_def num_eq_iff tag_value_def tag_topics_def) (simp_all add: num_def)
  show ?thesis using own_points_published[OF h(1-3) _ h(4,5)] by auto
qed

end
