(* ===== verification/AutoTag.thy ===== *)
theory AutoTag
  imports Sparkplug
begin

text \<open>
  How the values the MQTT driver acquired reach the database (\<open>mqtt-sparkplug\<close>): its configuration
  (\<open>load-config.js\<close>, \<open>getConnection\<close>), the tags it creates (\<open>auto-tag.js\<close>) and
  \<open>processMongoUpdates\<close>, which empties the queue of values. The collection of tags is the list \<open>rt\<close> in the
  order of insertion; the outcome of an insertion and of an update is a parameter.
\<close>

section \<open>Configuration\<close>

text \<open>\<open>args\<close> are the arguments after the program, \<open>env\<close> the variables of the environment; a number that
  is not one or is zero gives way to the next source.\<close>

definition config_instance :: "string list \<Rightarrow> (string \<Rightarrow> string option) \<Rightarrow> jsval" where
  "config_instance args env = (let i = (if 0 < length args then Num (parse_int (args ! 0)) else Null) in
     js_or (js_or i (Num (parse_int (case env ''JS_MQTTSPB_INSTANCE'' of Some s \<Rightarrow> s | None \<Rightarrow> ''undefined'')))) (Num (num 1)))"

definition config_level :: "string list \<Rightarrow> (string \<Rightarrow> string option) \<Rightarrow> jsnum" where
  "config_level args env = (if 1 < length args then parse_int (args ! 1)
     else (case env ''JS_MQTTSPB_LOGLEVEL'' of Some s \<Rightarrow> parse_int s | None \<Rightarrow> num 1))"

definition config_file :: "string list \<Rightarrow> (string \<Rightarrow> string option) \<Rightarrow> string" where
  "config_file args env = (let dflt = (case env ''JS_CONFIG_FILE'' of Some s \<Rightarrow> if s = [] then ''../../conf/json-scada.json'' else s | None \<Rightarrow> ''../../conf/json-scada.json'') in
     if 2 < length args \<and> args ! 2 \<noteq> [] then args ! 2 else dflt)"

definition fixed_names :: doc where
  "fixed_names = [(''GridFsCollectionName'', Str ''files''), (''RealtimeDataCollectionName'', Str ''realtimeData''), (''SoeDataCollectionName'', Str ''soeData''),
     (''CommandsQueueCollectionName'', Str ''commandsQueue''), (''ProtocolDriverInstancesCollectionName'', Str ''protocolDriverInstances''),
     (''ProtocolConnectionsCollectionName'', Str ''protocolConnections''), (''GroupSep'', Str ''~''), (''ConnectionNumber'', Num (num 0))]"

text \<open>\<open>None\<close>: the process exits. An exception is a file that is not JSON.\<close>

definition getMongoConnectionOptions :: "doc \<Rightarrow> doc \<times> doc" where
  "getMongoConnectionOptions c =
     (let base = [(''appname'', Str (''MQTT-SPARKPLUG-B Version:0.3.0 Instance:'' @ to_string (fld c ''Instance''))), (''readPreference'', Str ''primary'')] in
      case fld c ''tlsCaPemFile'' of
        Str ca \<Rightarrow>
          if trim ca = [] then (base, c)
          else (let c1 = aupd ''tlsInsecure'' (js_or (fld c ''tlsInsecure'') (Bool False)) (aupd ''tlsAllowChainErrors'' (js_or (fld c ''tlsAllowChainErrors'') (Bool False))
                  (aupd ''tlsAllowInvalidHostnames'' (js_or (fld c ''tlsAllowInvalidHostnames'') (Bool False)) (aupd ''tlsClientKeyPassword'' (js_or (fld c ''tlsClientKeyPassword'') (Str [])) c))) in
                (base @ [(''tls'', Bool True), (''tlsCAFile'', Str ca), (''tlsCertificateKeyFile'', fld c1 ''tlsClientPemFile''), (''tlsCertificateKeyFilePassword'', fld c1 ''tlsClientKeyPassword''),
                   (''tlsAllowInvalidHostnames'', fld c1 ''tlsAllowInvalidHostnames''), (''tlsInsecure'', fld c1 ''tlsInsecure'')], c1))
      | _ \<Rightarrow> (base, c))"

definition LoadConfig :: "string list \<Rightarrow> (string \<Rightarrow> string option) \<Rightarrow> (string \<Rightarrow> string option) \<Rightarrow> js_error + doc option" where
  "LoadConfig args env files = (case files (config_file args env) of None \<Rightarrow> Inr None
     | Some raw \<Rightarrow> (case json_parse raw of Inl err \<Rightarrow> Inl err
         | Inr v \<Rightarrow> (case get v ''mongoConnectionString'' of Inl err \<Rightarrow> Inl err
             | Inr (Str s) \<Rightarrow> if s = [] then Inr None
                 else (case v of Obj d \<Rightarrow>
                     (let c = aspread (aupd ''Instance'' (config_instance args env) (aupd ''LogLevel'' (Num (config_level args env)) d)) fixed_names;
                          (opts, c1) = getMongoConnectionOptions c in Inr (Some (aupd ''MongoConnectionOptions'' (Obj opts) c1)))
                   | _ \<Rightarrow> Inr None)
             | Inr _ \<Rightarrow> Inr None)))"

text \<open>The connection of the instance, or the code the process exits with.\<close>

definition getConnection :: "jsval \<Rightarrow> doc list \<Rightarrow> nat + doc" where
  "getConnection inst conns =
     (case filter (\<lambda>c. fld c ''protocolDriver'' = Str ''MQTT-SPARKPLUG-B'' \<and> strict_eq (fld c ''protocolDriverInstanceNumber'') inst) conns of
        [] \<Rightarrow> Inl 1
      | c # _ \<Rightarrow> if \<not> has_key ''protocolConnectionNumber'' c then Inl 2 else if fld c ''enabled'' = Bool False then Inl 3 else Inr c)"

text \<open>The options of the client; \<open>files\<close> gives the contents of the files that exist.\<close>

definition tls_versions :: "doc \<Rightarrow> string \<times> string" where
  "tls_versions c = (let vs = map snd (filter (\<lambda>(k, v). truthy (fld c k)) [(''allowTLSv10'', ''TLSv1''), (''allowTLSv11'', ''TLSv1.1''), (''allowTLSv12'', ''TLSv1.2''), (''allowTLSv13'', ''TLSv1.3'')]) in
     if vs = [] then (''TLSv1.2'', ''TLSv1.3'') else (hd vs, last vs))"

definition cert_file :: "(string \<Rightarrow> string option) \<Rightarrow> jsval \<Rightarrow> string option" where
  "cert_file files v = (case v of Str p \<Rightarrow> if p = [] then None else files p | _ \<Rightarrow> None)"

definition cert_options :: "(string \<Rightarrow> string option) \<Rightarrow> doc \<Rightarrow> doc" where
  "cert_options files c = (case cert_file files (fld c ''pfxFilePath'') of
       Some x \<Rightarrow> [(''pfx'', Str x), (''passphrase'', fld c ''passphrase'')]
     | None \<Rightarrow> (let f = (\<lambda>k p. case cert_file files (fld c p) of None \<Rightarrow> [] | Some x \<Rightarrow> [(k, Str x)]) in
         f ''ca'' ''rootCertFilePath'' @ f ''key'' ''privateKeyFilePath'' @ f ''cert'' ''localCertFilePath'' @ [(''passphrase'', fld c ''passphrase'')]))"

definition getSparkplugConfig :: "(string \<Rightarrow> string option) \<Rightarrow> doc \<Rightarrow> js_error + doc" where
  "getSparkplugConfig files c = (let o1 = (\<lambda>k. js_or (fld c k) (Str [])) in
     map_sum id (\<lambda>url. [(''clean'', Bool True), (''keepalive'', Num (num 15)), (''connectTimeout'', Num (num 30000)), (''serverUrl'', url), (''username'', o1 ''username''),
        (''password'', o1 ''password''), (''groupId'', o1 ''groupId''), (''edgeNode'', o1 ''edgeNodeId''), (''clientId'', o1 ''clientId''), (''version'', Str SparkplugNS),
        (''scadaHostId'', o1 ''scadaHostId'')] @
       (if truthy (fld c ''useSecurity'') then (let (lo, hi) = tls_versions c in [(''rejectUnauthorized'', fld c ''chainValidation''), (''minVersion'', Str lo), (''maxVersion'', Str hi),
          (''ciphers'', fld c ''cipherList'')] @ cert_options files c) else [])) (js_index (fld c ''endpointURLs'') 0))"

section \<open>Tags created automatically\<close>

definition AUTOTAG_PREFIX :: string where "AUTOTAG_PREFIX = ''MQTT''"
definition AutoKeyMultiplier :: int where "AutoKeyMultiplier = 1000000"
definition max_value :: jsnum where "max_value = Fin ((2 ^ 53 - 1) * 2 ^ 971)"

record autotag =
  autoKeyId :: jsnum
  createdTags :: "string list"
  rt :: "doc list"

definition NewTag :: "autotag \<Rightarrow> doc \<times> autotag" where
  "NewTag w = (let k = autoKeyId w + num 1; s = Str []; f = Bool False; z = Num (num 0); one = Num (num 1) in
     ([(''_id'', Num k), (''protocolSourceASDU'', s), (''protocolSourceCommonAddress'', s), (''protocolSourceConnectionNumber'', z), (''protocolSourceObjectAddress'', s),
       (''protocolSourceCommandUseSBO'', f), (''protocolSourceCommandDuration'', z), (''alarmState'', Num (num (-1))), (''alarmRange'', z),
       (''description'', s), (''ungroupedDescription'', s), (''group1'', s), (''group2'', s), (''group3'', s),
       (''stateTextFalse'', s), (''stateTextTrue'', s), (''eventTextFalse'', s), (''eventTextTrue'', s), (''origin'', Str ''supervised''), (''tag'', s),
       (''type'', Str ''analog''), (''value'', z), (''valueString'', s), (''valueJson'', Obj []), (''alarmDisabled'', f), (''alerted'', f), (''alarmed'', f),
       (''alertState'', s), (''annotation'', s), (''commandBlocked'', f), (''commandOfSupervised'', z), (''commissioningRemarks'', s), (''formula'', z),
       (''frozen'', f), (''frozenDetectTimeout'', z), (''hiLimit'', Num max_value), (''hihiLimit'', Num max_value), (''hihihiLimit'', Num max_value),
       (''historianDeadBand'', z), (''historianPeriod'', z), (''hysteresis'', z), (''invalid'', Bool True), (''invalidDetectTimeout'', Num (num 60000)),
       (''isEvent'', f), (''kconv1'', one), (''kconv2'', z), (''location'', Null), (''loLimit'', Num (- max_value)), (''loloLimit'', Num (- max_value)),
       (''lololoLimit'', Num (- max_value)), (''notes'', s), (''overflow'', f), (''parcels'', Null), (''priority'', z), (''protocolDestinations'', Null),
       (''sourceDataUpdate'', Null), (''supervisedOfCommand'', z), (''substituted'', f), (''timeTag'', Null), (''timeTagAlarm'', Null),
       (''timeTagAtSource'', Null), (''timeTagAtSourceOk'', f), (''transient'', f), (''unit'', s), (''updatesCnt'', z), (''valueDefault'', z), (''zeroDeadband'', z)],
      w\<lparr>autoKeyId := k\<rparr>))"

text \<open>The greatest key of the range of the connection.\<close>

definition key_number :: "doc \<Rightarrow> jsnum" where
  "key_number d = to_number (fld d ''_id'')"

definition last_key :: "jsnum \<Rightarrow> jsnum \<Rightarrow> doc list \<Rightarrow> jsnum option" where
  "last_key lo hi ds = fold (\<lambda>d m. let k = key_number d in if lo < k \<and> k < hi \<and> (case m of None \<Rightarrow> True | Some x \<Rightarrow> x < k) then Some k else m) ds None"

definition GetAutoKeyInitialValue :: "jsnum \<Rightarrow> autotag \<Rightarrow> autotag" where
  "GetAutoKeyInitialValue connNo w = (let b = connNo * num AutoKeyMultiplier in
     case last_key b ((connNo + num 1) * num AutoKeyMultiplier) (rt w) of None \<Rightarrow> w\<lparr>autoKeyId := b\<rparr>
     | Some k \<Rightarrow> (let p = parse_int (num_to_string k) in w\<lparr>autoKeyId := (if b \<le> p then p else b)\<rparr>))"

definition is_spb_address :: "string \<Rightarrow> bool" where
  "is_spb_address a = starts_with (SparkplugNS @ ''/'') a"

definition tag_name :: "jsnum \<Rightarrow> string \<Rightarrow> string" where
  "tag_name connNo a = AUTOTAG_PREFIX @ '':'' @ num_to_string connNo @ '':'' @ (if is_spb_address a then drop (length SparkplugNS + 1) a else a)"

text \<open>\<open>s.replace(p, '')\<close> of the first occurrence.\<close>

fun remove_first :: "string \<Rightarrow> string \<Rightarrow> string" where
  "remove_first p [] = []"
| "remove_first p (c # s) = (if starts_with p (c # s) then drop (length p) (c # s) else c # remove_first p s)"

definition nth_level :: "string list \<Rightarrow> nat \<Rightarrow> jsval" where
  "nth_level ls i = (if i < length ls then Str (ls ! i) else Undef)"

text \<open>The groups and the descriptions of a new tag.\<close>

definition tag_texts :: "jsnum \<Rightarrow> string \<Rightarrow> doc \<Rightarrow> js_error + doc" where
  "tag_texts connNo a data =
     (let ls = (if is_spb_address a then split_char (CHR ''/'') a else []);
          ud = js_or (fld data ''ungroupedDescription'') (Str a);
          g1 = js_or (fld data ''group1'') (Str (AUTOTAG_PREFIX @ '':'' @ num_to_string connNo));
          g2 = js_or (js_or (fld data ''group2'') (nth_level ls 1)) (Str []);
          g3 = js_or (fld data ''group3'') (if 2 < length ls then Str (ls ! 2 @ (if 4 < length ls then ''/'' @ ls ! 3 else [])) else Str []);
          descr = js_or (fld data ''description'') (js_add (js_add (js_add (js_add g1 (Str ''~'')) g2) (Str ''~'')) ud);
          doc_of = (\<lambda>de u. [(''ungroupedDescription'', u), (''group1'', g1), (''group2'', g2), (''group3'', g3), (''description'', de)]) in
      if is_spb_address a then
        (case descr of Str s \<Rightarrow> Inr (doc_of (Str (remove_first (to_string (fld data ''group2'') @ ''/'') (remove_first (SparkplugNS @ ''/'') s))) (Str (last ls)))
         | _ \<Rightarrow> Inl TypeError)
      else Inr (doc_of descr ud))"

definition number_of_value :: "jsval \<Rightarrow> jsnum" where
  "number_of_value v = (let x = parse_float (to_string v) in if num_is_nan x then num 0 else x)"

definition fill_tag :: "jsnum \<Rightarrow> string \<Rightarrow> doc \<Rightarrow> doc \<Rightarrow> js_error + doc" where
  "fill_tag connNo a data t =
     (let ty = (if has_key ''type'' data then fld data ''type'' else Str ''analog'') in
      map_sum id (\<lambda>texts. aspread t
        ([(''protocolSourceConnectionNumber'', Num connNo), (''protocolSourceObjectAddress'', Str a),
          (''protocolSourceASDU'', js_or (js_or (fld data ''metricType'') (fld data ''asduAtSource'')) (Str [])),
          (''protocolSourceCommonAddress'', Str (if is_spb_address a then SparkplugNS else [])), (''tag'', Str (tag_name connNo a)), (''type'', ty)] @
         (if ty = Str ''analog'' then [(''unit'', js_or (fld data ''unit'') (Str ''units''))] else []) @
         (if ty = Str ''digital'' then [(''eventTextFalse'', Str ''false''), (''eventTextTrue'', Str ''true''), (''stateTextFalse'', Str ''false''), (''stateTextTrue'', Str ''true'')] else []) @
         texts @
         [(''value'', Num (number_of_value (fld data ''value''))), (''valueString'', js_or (fld data ''valueString'') (Str [])), (''valueJson'', js_or (fld data ''valueJson'') (Obj [])),
          (''transient'', Bool (fld data ''transient'' = Bool True)), (''invalid'', Bool (fld data ''invalid'' \<noteq> Bool False)),
          (''timeTagAtSource'', js_or (fld data ''timeTagAtSource'') Null), (''commissioningRemarks'', js_or (fld data ''commissioningRemarks'') (Str [])), (''priority'', Num (num 3))]))
        (tag_texts connNo a data))"

text \<open>The search before the creation, and the creation after the answer; \<open>ins\<close> is the outcome of
  \<open>insertOne\<close>, true when it is acknowledged.\<close>

definition of_point :: "jsnum \<Rightarrow> string \<Rightarrow> doc \<Rightarrow> bool" where
  "of_point connNo a d = (fld d ''protocolSourceConnectionNumber'' = Num connNo \<and> fld d ''protocolSourceObjectAddress'' = Str a)"

definition tag_missing :: "jsnum \<Rightarrow> string \<Rightarrow> autotag \<Rightarrow> bool" where
  "tag_missing connNo a w = (filter (of_point connNo a) (rt w) = [])"

definition list_created :: "string \<Rightarrow> autotag \<Rightarrow> autotag" where
  "list_created t w = w\<lparr>createdTags := createdTags w @ [t]\<rparr>"

definition create_tag :: "(doc \<Rightarrow> js_error + bool) \<Rightarrow> jsnum \<Rightarrow> string \<Rightarrow> doc \<Rightarrow> autotag \<Rightarrow> (js_error + unit) \<times> autotag" where
  "create_tag ins connNo a data w =
     (let (t, w1) = NewTag w in
      case fill_tag connNo a data t of Inl err \<Rightarrow> (Inl err, w1)
      | Inr d \<Rightarrow> (case ins d of Inl err \<Rightarrow> (Inl err, w1)
          | Inr False \<Rightarrow> (Inr (), w1)
          | Inr True \<Rightarrow> (Inr (), list_created (tag_name connNo a) (w1\<lparr>rt := rt w1 @ [d]\<rparr>))))"

definition AutoCreateTag :: "(doc \<Rightarrow> js_error + bool) \<Rightarrow> doc \<Rightarrow> jsnum \<Rightarrow> autotag \<Rightarrow> (js_error + unit) \<times> autotag" where
  "AutoCreateTag ins data connNo w = (case fld data ''protocolSourceObjectAddress'' of
       Str a \<Rightarrow>
         if tag_name connNo a \<in> set (createdTags w) then (Inr (), w)
         else if tag_missing connNo a w then create_tag ins connNo a data w
         else (Inr (), list_created (tag_name connNo a) w)
     | _ \<Rightarrow> (Inl TypeError, w))"

section \<open>Updates\<close>

text \<open>The groups taken from the address when the value has none.\<close>

definition fill_groups :: "string \<Rightarrow> doc \<Rightarrow> doc" where
  "fill_groups a data =
     (let ls = split_char (CHR ''/'') a;
          d1 = (if truthy (fld data ''group2'') then data
                else aupd ''group2'' (Str (if 1 < length ls \<and> hd ls = SparkplugNS then ls ! 1 else hd ls)) data) in
      if \<not> truthy (fld d1 ''group3'') \<and> 2 < length ls then aupd ''group3'' (Str (ls ! 2)) d1 else d1)"

definition source_update :: "int \<Rightarrow> jsnum \<Rightarrow> doc \<Rightarrow> doc" where
  "source_update now connNo data =
     [(''valueAtSource'', Num (number_of_value (fld data ''value''))), (''valueStringAtSource'', fld data ''valueString''), (''valueJsonAtSource'', fld data ''valueJson''),
      (''asduAtSource'', fld data ''asduAtSource''), (''causeOfTransmissionAtSource'', fld data ''causeOfTransmissionAtSource''),
      (''timeTagAtSource'', fld data ''timeTagAtSource''), (''timeTagAtSourceOk'', fld data ''timeTagAtSourceOk''), (''timeTag'', Date (num now)),
      (''originator'', Str (''MQTT-SPARKPLUG-B|'' @ num_to_string connNo @ (if truthy (fld data ''msgType'') then ''|'' @ to_string (fld data ''msgType'') else []))),
      (''invalidAtSource'', fld data ''invalid''), (''transientAtSource'', Bool False), (''notTopicalAtSource'', Bool False), (''overflowAtSource'', Bool False),
      (''blockedAtSource'', Bool False), (''substitutedAtSource'', Bool False)]"

fun update_first :: "(doc \<Rightarrow> bool) \<Rightarrow> (doc \<Rightarrow> doc) \<Rightarrow> doc list \<Rightarrow> doc list" where
  "update_first P f [] = []"
| "update_first P f (d # ds) = (if P d then f d # ds else d # update_first P f ds)"

text \<open>One value of the queue; an exception is logged and the value is lost.\<close>

definition process_value :: "(doc \<Rightarrow> js_error + bool) \<Rightarrow> int \<Rightarrow> bool \<Rightarrow> jsnum \<Rightarrow> doc \<Rightarrow> autotag \<Rightarrow> autotag" where
  "process_value ins now auto connNo data w = (case fld data ''protocolSourceObjectAddress'' of
       Str a \<Rightarrow>
         (let upd = (\<lambda>v w. w\<lparr>rt := update_first (of_point connNo a) (aupd ''sourceDataUpdate'' (Obj (source_update now connNo v))) (rt w)\<rparr>) in
          if auto then (let d1 = fill_groups a data in case AutoCreateTag ins d1 connNo w of (Inl _, w1) \<Rightarrow> w1 | (Inr _, w1) \<Rightarrow> upd d1 w1)
          else upd data w)
     | _ \<Rightarrow> w)"

definition processMongoUpdates :: "(doc \<Rightarrow> js_error + bool) \<Rightarrow> int \<Rightarrow> bool \<Rightarrow> bool \<Rightarrow> jsnum \<Rightarrow> doc list \<Rightarrow> autotag \<Rightarrow> doc list \<times> autotag" where
  "processMongoUpdates ins now up auto connNo q w = (if up then ([], fold (process_value ins now auto connNo) q w) else (q, w))"

end
