(* ===== verification/AutoTagLaws.thy ===== *)
theory AutoTagLaws
  imports AutoTag JSDigits
begin

text \<open>
  What the tags the MQTT driver creates keep: their keys and their points are unique as long as the range
  of the connection has room and the runs that empty the queue do not overlap.
\<close>

section \<open>Updates in place\<close>

lemma update_first_map:
  assumes "\<And>d. g (f d) = g d" shows "map g (update_first P f ds) = map g ds"
  by (induction ds) (simp_all add: assms)

lemma update_first_filter:
  assumes "\<And>d. Q (f d) = Q d" shows "length (filter Q (update_first P f ds)) = length (filter Q ds)"
  by (induction ds) (simp_all add: assms)

section \<open>Keys\<close>

definition limit_of :: "int \<Rightarrow> int" where
  "limit_of c = (c + 1) * AutoKeyMultiplier"

definition id_of :: "doc \<Rightarrow> jsval" where
  "id_of d = fld d ''_id''"

definition tidy :: "int \<Rightarrow> int \<Rightarrow> autotag \<Rightarrow> bool" where
  "tidy c n w = (autoKeyId w = num n \<and> 0 \<le> n \<and>
     (\<forall>d \<in> set (rt w). \<exists>i. id_of d = Num (num i) \<and> (i \<le> n \<or> limit_of c \<le> i)) \<and>
     distinct (map id_of (rt w)) \<and> (\<forall>a. length (filter (of_point (num c) a) (rt w)) \<le> 1))"

lemma fill_tag_id:
  assumes "fill_tag cn a data t = Inr d" shows "id_of d = id_of t" "of_point cn b d = (a = b)"
proof -
  obtain texts where x: "tag_texts cn a data = Inr texts"
    using assms by (auto simp: fill_tag_def Let_def)
  have keys: "map fst texts = [''ungroupedDescription'', ''group1'', ''group2'', ''group3'', ''description'']"
    using x by (auto simp: tag_texts_def Let_def split: if_splits jsval.splits)
  then obtain x1 x2 x3 x4 x5 where t: "texts = [(''ungroupedDescription'', x1), (''group1'', x2), (''group2'', x3), (''group3'', x4), (''description'', x5)]"
    by (auto simp: map_eq_Cons_conv)
  show "id_of d = id_of t" "of_point cn b d = (a = b)"
    using assms x by (auto simp: fill_tag_def Let_def t id_of_def of_point_def fld_aspread_other)
qed

lemma NewTag_id: "id_of (fst (NewTag w)) = Num (autoKeyId w + num 1)" "snd (NewTag w) = w\<lparr>autoKeyId := autoKeyId w + num 1\<rparr>"
  by (simp_all add: NewTag_def Let_def id_of_def)

lemma create_tidy:
  assumes "tidy c n w" "n + 1 < limit_of c" "limit_of c \<le> 2 ^ 53" "tag_missing (num c) a w"
  shows "\<exists>n'. n \<le> n' \<and> n' \<le> n + 1 \<and> tidy c n' (snd (create_tag ins (num c) a data w))"
proof -
  have k: "autoKeyId w + num 1 = num (n + 1)" using assms(1-3) by (simp add: tidy_def num_add_int)
  note nt = NewTag_id[of w, unfolded k]
  have new: "tidy c (n + 1) (w\<lparr>autoKeyId := num (n + 1)\<rparr>)" using assms(1) by (fastforce simp: tidy_def)
  have "tidy c (n + 1) (snd (create_tag ins (num c) a data w))"
  proof (cases "\<exists>d. fill_tag (num c) a data (fst (NewTag w)) = Inr d \<and> ins d = Inr True")
    case False
    then show ?thesis using new nt(2) by (auto simp: create_tag_def split: prod.splits sum.splits bool.splits)
  next
    case True
    then obtain d where d: "fill_tag (num c) a data (fst (NewTag w)) = Inr d" "ins d = Inr True" by blast
    have r: "snd (create_tag ins (num c) a data w) = list_created (tag_name (num c) a) (w\<lparr>autoKeyId := num (n + 1), rt := rt w @ [d]\<rparr>)"
      using d nt(2) by (cases "NewTag w") (simp add: create_tag_def)
    have id: "id_of d = Num (num (n + 1))" using fill_tag_id(1)[OF d(1)] nt(1) by simp
    moreover have "Num (num (n + 1)) \<notin> id_of ` set (rt w)"
    proof
      assume "Num (num (n + 1)) \<in> id_of ` set (rt w)"
      then obtain x i where "x \<in> set (rt w)" "id_of x = Num (num (n + 1))" "id_of x = Num (num i)" "i \<le> n \<or> limit_of c \<le> i"
        using assms(1) unfolding tidy_def by fastforce
      then show False using assms(2) by auto
    qed
    moreover have "length (filter (of_point (num c) b) (rt w @ [d])) \<le> 1" for b
      using fill_tag_id(2)[OF d(1), of b] assms(1,4) by (auto simp: tidy_def tag_missing_def)
    ultimately show ?thesis using new unfolding r tidy_def list_created_def by auto
  qed
  then show ?thesis by (intro exI[of _ "n + 1"]) simp
qed

lemma tidy_list [simp]: "tidy c n (list_created t w) = tidy c n w"
  by (simp add: tidy_def list_created_def)

lemma AutoCreate_tidy:
  assumes "tidy c n w" "n + 1 < limit_of c" "limit_of c \<le> 2 ^ 53"
  shows "\<exists>n'. n \<le> n' \<and> n' \<le> n + 1 \<and> tidy c n' (snd (AutoCreateTag ins data (num c) w))"
proof (cases "\<exists>a. fld data ''protocolSourceObjectAddress'' = Str a \<and> tag_name (num c) a \<notin> set (createdTags w) \<and> tag_missing (num c) a w")
  case True
  then obtain a where a: "fld data ''protocolSourceObjectAddress'' = Str a" "tag_name (num c) a \<notin> set (createdTags w)" "tag_missing (num c) a w" by blast
  then show ?thesis using create_tidy[OF assms a(3)] by (simp add: AutoCreateTag_def)
next
  case False
  then have "\<exists>t. snd (AutoCreateTag ins data (num c) w) = w \<or> snd (AutoCreateTag ins data (num c) w) = list_created t w"
    by (auto simp: AutoCreateTag_def split: jsval.splits)
  then have "tidy c n (snd (AutoCreateTag ins data (num c) w))" using assms(1) by (elim exE disjE) simp_all
  then show ?thesis by (intro exI[of _ n]) simp
qed

lemma update_first_ids:
  "(\<forall>d \<in> set (update_first P (aupd ''sourceDataUpdate'' v) ds). Q (id_of d)) = (\<forall>d \<in> set ds. Q (id_of d))"
  by (induction ds) (simp_all add: id_of_def)

lemma tidy_update: "tidy c n (w\<lparr>rt := update_first P (aupd ''sourceDataUpdate'' v) (rt w)\<rparr>) = tidy c n w"
proof -
  have g: "id_of (aupd ''sourceDataUpdate'' v d) = id_of d" "of_point cn a (aupd ''sourceDataUpdate'' v d) = of_point cn a d" for d cn a
    by (simp_all add: id_of_def of_point_def)
  have m: "map id_of (update_first P (aupd ''sourceDataUpdate'' v) ds) = map id_of ds" for ds by (rule update_first_map) (rule g)
  have f: "length (filter (of_point cn a) (update_first P (aupd ''sourceDataUpdate'' v) ds)) = length (filter (of_point cn a) ds)" for ds cn a
    by (rule update_first_filter) (rule g)
  note s = update_first_ids[of P v "rt w" "\<lambda>x. \<exists>i. x = Num (num i) \<and> (i \<le> n \<or> limit_of c \<le> i)"]
  show ?thesis unfolding tidy_def by (simp add: m f s)
qed

lemma process_tidy:
  assumes "tidy c n w" "n + 1 < limit_of c" "limit_of c \<le> 2 ^ 53"
  shows "\<exists>n'. n \<le> n' \<and> n' \<le> n + 1 \<and> tidy c n' (process_value ins now auto (num c) data w)"
proof (cases "\<exists>a. fld data ''protocolSourceObjectAddress'' = Str a")
  case False
  then have "process_value ins now auto (num c) data w = w" by (auto simp: process_value_def split: jsval.splits)
  then show ?thesis using assms(1) by (intro exI[of _ n]) simp
next
  case True
  then obtain a where a: "fld data ''protocolSourceObjectAddress'' = Str a" by blast
  show ?thesis
  proof (cases auto)
    case False
    then have "tidy c n (process_value ins now auto (num c) data w)" using a assms(1) by (simp add: process_value_def tidy_update)
    then show ?thesis by (intro exI[of _ n]) simp
  next
    case True
    obtain n' r w1 where n': "n \<le> n'" "n' \<le> n + 1" "AutoCreateTag ins (fill_groups a data) (num c) w = (r, w1)" "tidy c n' w1"
      using AutoCreate_tidy[OF assms, of ins "fill_groups a data"] by (metis prod.collapse)
    then have "tidy c n' (process_value ins now auto (num c) data w)"
      using a True by (cases r) (simp_all add: process_value_def Let_def tidy_update)
    then show ?thesis using n' by blast
  qed
qed

lemma fold_tidy:
  assumes "tidy c n w" "n + int (length q) < limit_of c" "limit_of c \<le> 2 ^ 53"
  shows "\<exists>n'. n \<le> n' \<and> n' \<le> n + int (length q) \<and> tidy c n' (fold (process_value ins now auto (num c)) q w)"
  using assms(1,2)
proof (induction q arbitrary: n w)
  case (Cons d q)
  obtain n1 where n1: "n \<le> n1" "n1 \<le> n + 1" "tidy c n1 (process_value ins now auto (num c) d w)"
    using process_tidy[OF Cons.prems(1) _ assms(3)] Cons.prems(2) by fastforce
  then obtain n' where "n1 \<le> n'" "n' \<le> n1 + int (length q)" "tidy c n' (fold (process_value ins now auto (num c)) q (process_value ins now auto (num c) d w))"
    using Cons.IH[OF n1(3)] Cons.prems(2) by fastforce
  then show ?case using n1 by (intro exI[of _ n']) simp
qed auto

section \<open>The first key\<close>

lemma last_key_snoc:
  "last_key lo hi (ds @ [d]) = (let m = last_key lo hi ds; k = key_number d in
     if lo < k \<and> k < hi \<and> (case m of None \<Rightarrow> True | Some x \<Rightarrow> x < k) then Some k else m)"
  by (simp add: last_key_def Let_def)

lemma last_key_greatest:
  assumes "\<forall>d \<in> set ds. \<exists>i. id_of d = Num (num i)"
  shows "(case last_key (num lo) (num hi) ds of
      None \<Rightarrow> \<forall>d \<in> set ds. \<forall>i. id_of d = Num (num i) \<longrightarrow> \<not> (lo < i \<and> i < hi)
    | Some k \<Rightarrow> \<exists>m. k = num m \<and> lo < m \<and> m < hi \<and> (\<forall>d \<in> set ds. \<forall>i. id_of d = Num (num i) \<longrightarrow> lo < i \<and> i < hi \<longrightarrow> i \<le> m))"
  using assms
proof (induction ds rule: rev_induct)
  case Nil
  then show ?case by (simp add: last_key_def)
next
  case (snoc d ds)
  obtain j where j: "id_of d = Num (num j)" using snoc.prems by auto
  then have k: "key_number d = num j" by (simp add: key_number_def id_of_def)
  show ?case
  proof (cases "last_key (num lo) (num hi) ds")
    case None
    then show ?thesis using snoc j by (auto simp: last_key_snoc Let_def k)
  next
    case (Some x)
    then obtain m where "x = num m" "lo < m" "m < hi" "\<forall>d \<in> set ds. \<forall>i. id_of d = Num (num i) \<longrightarrow> lo < i \<and> i < hi \<longrightarrow> i \<le> m"
      using snoc by auto
    then show ?thesis using Some j by (fastforce simp: last_key_snoc Let_def k)
  qed
qed

text \<open>Tags as an operator or an earlier run left them: whole keys, no two of a key, no two of a point of
  the connection.\<close>

definition sound_tags :: "int \<Rightarrow> doc list \<Rightarrow> bool" where
  "sound_tags c ds = ((\<forall>d \<in> set ds. \<exists>i. id_of d = Num (num i)) \<and> distinct (map id_of ds) \<and> (\<forall>a. length (filter (of_point (num c) a) ds) \<le> 1))"

lemma start_tidy:
  assumes "sound_tags c (rt w)" "0 \<le> c" "limit_of c \<le> 2 ^ 53"
  shows "\<exists>n. tidy c n (GetAutoKeyInitialValue (num c) w) \<and> autoKeyId (GetAutoKeyInitialValue (num c) w) = num n"
proof -
  have ids: "\<forall>d \<in> set (rt w). \<exists>i. id_of d = Num (num i)" and sd: "distinct (map id_of (rt w))" "\<forall>a. length (filter (of_point (num c) a) (rt w)) \<le> 1"
    using assms(1) by (auto simp: sound_tags_def)
  let ?b = "c * AutoKeyMultiplier"
  have b: "0 \<le> ?b" "?b \<le> limit_of c" "c + 1 \<le> 2 ^ 53" using assms(2,3) by (auto simp: limit_of_def AutoKeyMultiplier_def)
  have e: "num c * num AutoKeyMultiplier = num ?b" "(num c + num 1) * num AutoKeyMultiplier = num (limit_of c)"
    using b assms by (auto simp: num_mul_int num_add_int limit_of_def)
  note g = last_key_greatest[OF ids, of ?b "limit_of c"]
  show ?thesis
  proof (cases "last_key (num ?b) (num (limit_of c)) (rt w)")
    case None
    then have k: "GetAutoKeyInitialValue (num c) w = w\<lparr>autoKeyId := num ?b\<rparr>" by (simp add: GetAutoKeyInitialValue_def e Let_def)
    have "\<exists>i. id_of d = Num (num i) \<and> (i \<le> ?b \<or> limit_of c \<le> i)" if "d \<in> set (rt w)" for d
      using g None ids that by fastforce
    then show ?thesis unfolding k tidy_def using b(1) sd by auto
  next
    case (Some x)
    then obtain m where m: "x = num m" "?b < m" "m < limit_of c" "\<forall>d \<in> set (rt w). \<forall>i. id_of d = Num (num i) \<longrightarrow> ?b < i \<and> i < limit_of c \<longrightarrow> i \<le> m"
      using g by auto
    have p: "parse_int (num_to_string (num m)) = num m" using m b assms(3) by (intro parse_int_print) auto
    then have k: "GetAutoKeyInitialValue (num c) w = w\<lparr>autoKeyId := num m\<rparr>" using Some m by (simp add: GetAutoKeyInitialValue_def e Let_def p)
    have "\<exists>i. id_of d = Num (num i) \<and> (i \<le> m \<or> limit_of c \<le> i)" if "d \<in> set (rt w)" for d
      using m ids that by fastforce
    then show ?thesis unfolding k tidy_def using b(1) m(2) sd by auto
  qed
qed



section \<open>Where points are lost or doubled\<close>

text \<open>The list of created tags is kept by name, and the name drops the namespace of Sparkplug: once a
  point of a Sparkplug node has its tag, a plain topic of the same levels never gets one, and every value of
  it is lost.\<close>

theorem name_clash_loses_values:
  assumes "tag_name cn (SparkplugNS @ ''/'' @ a) \<in> set (createdTags w)" "\<not> is_spb_address a" "tag_missing cn a w"
    and "fld data ''protocolSourceObjectAddress'' = Str a"
  shows "process_value ins now True cn data w = w"
proof -
  have n: "tag_name cn a = tag_name cn (SparkplugNS @ ''/'' @ a)"
    using assms(2) by (simp add: tag_name_def is_spb_address_def starts_with_def SparkplugNS_def)
  have u: "update_first (of_point cn a) f ds = ds" if "filter (of_point cn a) ds = []" for f ds
    using that by (induction ds) (auto split: if_splits)
  have f: "fld (fill_groups a data) ''protocolSourceObjectAddress'' = Str a" using assms(4) by (simp add: fill_groups_def Let_def)
  show ?thesis using assms(1,3,4) n f u[of "rt w"] by (simp add: process_value_def AutoCreateTag_def tag_missing_def Let_def)
qed

theorem name_clash_loses_values_witness:
  "process_value (\<lambda>d. Inr True) 0 True (num 1) [(''protocolSourceObjectAddress'', Str ''G/E/m''), (''value'', Num (num 5))]
     \<lparr>autoKeyId = num 1000001, createdTags = [tag_name (num 1) ''spBv1.0/G/E/m''], rt = []\<rparr> =
   \<lparr>autoKeyId = num 1000001, createdTags = [tag_name (num 1) ''spBv1.0/G/E/m''], rt = []\<rparr>"
  by (rule name_clash_loses_values[of _ "''G/E/m''"]) (simp_all add: SparkplugNS_def is_spb_address_def starts_with_def tag_missing_def)

text \<open>Runs that overlap double a point: when two values of a point without a tag are searched for
  before either is created, both searches miss and both creations succeed, and the connection has two tags
  of the point, with keys that follow each other.\<close>

theorem overlapping_runs_double:
  assumes "tag_missing (num c) a w" "autoKeyId w = num n" "\<bar>n\<bar> \<le> 2 ^ 52"
    and "create_tag (\<lambda>d. Inr True) (num c) a d1 w = (Inr (), w1)" "create_tag (\<lambda>d. Inr True) (num c) a d2 w1 = (Inr (), w2)"
  shows "\<exists>x y. filter (of_point (num c) a) (rt w2) = [x, y] \<and> id_of x = Num (num (n + 1)) \<and> id_of y = Num (num (n + 2))"
proof -
  have step: "\<exists>x. rt w' = rt v @ [x] \<and> of_point (num c) a x \<and> id_of x = Num (autoKeyId v + num 1) \<and> autoKeyId w' = autoKeyId v + num 1"
    if "create_tag (\<lambda>d. Inr True) (num c) a d v = (Inr (), w')" for d v w'
    using that NewTag_id[of v] fill_tag_id
    by (cases "NewTag v") (fastforce simp: create_tag_def list_created_def split: sum.splits)
  have k: "num n + num 1 = num (n + 1)" "num (n + 1) + num 1 = num (n + 2)" using assms(3) by (simp_all add: num_add_int)
  show ?thesis using step[OF assms(4)] step[OF assms(5)] assms(1,2) k by (auto simp: tag_missing_def)
qed

theorem overlapping_runs_double_witness:
  "\<exists>w1 w2 x y. create_tag (\<lambda>d. Inr True) (num 1) ''t'' [] \<lparr>autoKeyId = num 1000000, createdTags = [], rt = []\<rparr> = (Inr (), w1) \<and>
     create_tag (\<lambda>d. Inr True) (num 1) ''t'' [] w1 = (Inr (), w2) \<and> filter (of_point (num 1) ''t'') (rt w2) = [x, y]"
proof -
  have ok: "\<exists>w'. create_tag (\<lambda>d. Inr True) (num 1) ''t'' [] w = (Inr (), w')" for w
    by (cases "NewTag w") (simp add: create_tag_def fill_tag_def tag_texts_def is_spb_address_def starts_with_def SparkplugNS_def Let_def)
  obtain w1 where w1: "create_tag (\<lambda>d. Inr True) (num 1) ''t'' [] \<lparr>autoKeyId = num 1000000, createdTags = [], rt = []\<rparr> = (Inr (), w1)" using ok by blast
  obtain w2 where w2: "create_tag (\<lambda>d. Inr True) (num 1) ''t'' [] w1 = (Inr (), w2)" using ok by blast
  have "tag_missing (num 1) ''t'' \<lparr>autoKeyId = num 1000000, createdTags = [], rt = []\<rparr>" by (simp add: tag_missing_def)
  from overlapping_runs_double[OF this _ _ w1 w2, of 1000000] show ?thesis using w1 w2 by auto
qed

end
