(* ===== verification/MqttPlain.thy ===== *)
theory MqttPlain
  imports Sparkplug
begin

text \<open>
  Acquisition from plain messages in the MQTT driver (\<open>mqtt-sparkplug/index.js\<close>): the match of topics
  against subscriptions, the handler of messages outside Sparkplug (files, scripts, JSON with paths) and OPC UA
  PubSub. The lenient JSON reader, decompression, JSON paths and the sandbox of scripts are parameters.
\<close>

section \<open>Topics and subscriptions\<close>

text \<open>The characters a dot of a regular expression does not match.\<close>

definition one_line :: "string \<Rightarrow> bool" where
  "one_line s = (CHR 0x0A \<notin> set s \<and> CHR 0x0D \<notin> set s \<and> \<not> sublist [CHR 0xE2, CHR 0x80, CHR 0xA8] s \<and> \<not> sublist [CHR 0xE2, CHR 0x80, CHR 0xA9] s)"

text \<open>A level of the pattern against a level of the topic.\<close>

definition level_ok :: "string \<Rightarrow> string \<Rightarrow> bool" where
  "level_ok p l = (if p = ''+'' then l \<noteq> [] else l = p)"

text \<open>The regular expression made of the subscription: a final \<open>#\<close> stands for the level above it and all
  below.\<close>

definition topicMatchSub :: "jsval \<Rightarrow> jsval \<Rightarrow> bool" where
  "topicMatchSub t s = (case (t, s) of
       (Str topic, Str sub) \<Rightarrow>
         (let ps = split_char (CHR ''/'') sub; ls = split_char (CHR ''/'') topic in
          topic = sub \<or>
          (if ps = [''#''] then one_line topic
           else if last ps = ''#'' then
             (let n = length ps - 1 in n \<le> length ls \<and> list_all2 level_ok (butlast ps) (take n ls) \<and> one_line (join_levels (drop n ls)))
           else list_all2 level_ok ps ls))
     | _ \<Rightarrow> False)"

section \<open>Values\<close>

record plain_env =
  pl_sp :: sp_env
  pl_date :: "string \<Rightarrow> jsnum"
  rjson :: "string \<Rightarrow> jsval option"
  gunzip :: "string \<Rightarrow> string option"
  jsonpath :: "string \<Rightarrow> jsval \<Rightarrow> jsval"
  vm_run :: "string \<Rightarrow> string \<Rightarrow> js_error + jsval"

definition TryPayloadAsRJson :: "plain_env \<Rightarrow> string \<Rightarrow> jsval" where
  "TryPayloadAsRJson e payload = (case json_parse payload of Inr v \<Rightarrow> v
     | Inl _ \<Rightarrow> (case rjson e payload of Some v \<Rightarrow> v
         | None \<Rightarrow> (case gunzip e payload of None \<Rightarrow> Str payload
             | Some t \<Rightarrow> (case json_parse t of Inr v \<Rightarrow> v | Inl _ \<Rightarrow> Str payload))))"

text \<open>\<open>forEach\<close> with a function that may throw.\<close>

fun eachE :: "('a \<Rightarrow> 'w \<Rightarrow> (js_error + unit) \<times> 'w) \<Rightarrow> 'a list \<Rightarrow> 'w \<Rightarrow> (js_error + unit) \<times> 'w" where
  "eachE f [] w = (Inr (), w)"
| "eachE f (x # xs) w = (case f x w of (Inl err, w1) \<Rightarrow> (Inl err, w1) | (Inr _, w1) \<Rightarrow> eachE f xs w1)"

definition json_kind :: "jsval \<Rightarrow> jsval \<times> jsval \<times> string" where
  "json_kind v = (case v of
       Bool b \<Rightarrow> (Num (num (if b then 1 else 0)), Str (to_string v), ''digital'')
     | Num x \<Rightarrow> (Num (if num_is_nan x then num 0 else x), Str (num_to_string x), ''analog'')
     | Str s \<Rightarrow> (let x = parse_float s in (Num (if num_is_nan x then num 0 else x), v, ''string''))
     | Null \<Rightarrow> (Num (num 0), Str [], ''json'')
     | _ \<Rightarrow> (Num (num 0), json_of v, ''json''))"

definition plain_update :: "string \<Rightarrow> jsval \<times> jsval \<times> string \<Rightarrow> jsval \<Rightarrow> bool \<Rightarrow> jsnum \<Rightarrow> bool \<Rightarrow> string \<Rightarrow> doc" where
  "plain_update addr k j invd t ok asdu = [(''protocolSourceObjectAddress'', Str addr), (''value'', fst k), (''valueString'', fst (snd k)), (''valueJson'', j),
     (''invalid'', Bool invd), (''transient'', Bool False), (''causeOfTransmissionAtSource'', Str ''3''), (''timeTagAtSource'', Date t), (''timeTagAtSourceOk'', Bool ok),
     (''asduAtSource'', Str asdu), (''type'', Str (snd (snd k)))]"

definition EnqueueJsonValue :: "plain_env \<Rightarrow> jsval \<Rightarrow> string \<Rightarrow> spb \<Rightarrow> spb" where
  "EnqueueJsonValue e v addr w =
     enqueue_value (plain_update addr (json_kind v) (json_of (if v = Null then Obj [] else v)) False (num (sp_now (pl_sp e))) False (typeof v)) w"

section \<open>OPC UA PubSub\<close>

text \<open>\<open>x & 0x80000000\<close> and \<open>x & 0x40000000\<close> are not zero.\<close>

definition bad_code :: "jsval \<Rightarrow> bool" where
  "bad_code c = (\<not> nullish c \<and> \<not> strict_eq c (Num (num 0)) \<and> (bit (to_int32 (to_number c)) 31 \<or> bit (to_int32 (to_number c)) 30))"

text \<open>The value of a field, its time, whether the time is its own, and whether it is invalid.\<close>

definition opc_data_value :: "plain_env \<Rightarrow> doc \<Rightarrow> jsnum \<times> bool \<Rightarrow> bool \<Rightarrow> js_error + jsval \<times> (jsnum \<times> bool) \<times> bool" where
  "opc_data_value e fv tm invd =
     (let v = fld fv ''Value''; b = opt_get v ''Body''; x = (if nullish b then v else b);
          tm' = (if truthy (fld fv ''SourceTimestamp'') then (js_date (pl_date e) (fld fv ''SourceTimestamp''), True)
                 else if truthy (fld fv ''ServerTimestamp'') then (js_date (pl_date e) (fld fv ''ServerTimestamp''), True) else tm) in
      if \<not> has_key ''StatusCode'' fv then Inr (x, tm', invd)
      else (let s = fld fv ''StatusCode'' in
        case (if typeof s = ''object'' then get s ''Code'' else Inr s) of Inl err \<Rightarrow> Inl err
        | Inr c \<Rightarrow> Inr (x, tm', invd \<or> bad_code c)))"

definition opc_extract :: "plain_env \<Rightarrow> jsval \<Rightarrow> jsnum \<times> bool \<Rightarrow> bool \<Rightarrow> js_error + jsval \<times> (jsnum \<times> bool) \<times> bool" where
  "opc_extract e v tm invd = (case v of
       Obj fv \<Rightarrow> if has_key ''Value'' fv then opc_data_value e fv tm invd
         else Inr (if has_key ''Body'' fv then fld fv ''Body'' else v, tm, invd)
     | _ \<Rightarrow> Inr (v, tm, invd))"

definition opc_kind :: "jsval \<Rightarrow> jsval \<times> jsval \<times> string" where
  "opc_kind v = (if v = Undef then (Num (num 0), Str [], ''json'') else case v of Num x \<Rightarrow> (v, Str (num_to_string x), ''analog'') | _ \<Rightarrow> json_kind v)"

definition opc_field :: "plain_env \<Rightarrow> string \<Rightarrow> jsnum \<times> bool \<Rightarrow> bool \<Rightarrow> string \<times> jsval \<Rightarrow> spb \<Rightarrow> (js_error + unit) \<times> spb" where
  "opc_field e base tm invd f w = (case opc_extract e (snd f) tm invd of Inl err \<Rightarrow> (Inl err, w)
     | Inr (x, (t, ok), i) \<Rightarrow>
         (Inr (), enqueue_value (plain_update (base @ ''/'' @ fst f) (opc_kind x) (json_of (snd f)) (i \<or> x = Null) t ok ''opcua-pubsub'') w))"

definition js_entries :: "jsval \<Rightarrow> (string \<times> jsval) list" where
  "js_entries v = (case v of Obj d \<Rightarrow> d | Arr vs \<Rightarrow> map (\<lambda>i. (int_to_string (int i), vs ! i)) [0..<length vs] | _ \<Rightarrow> [])"

definition status_bad :: "jsval \<Rightarrow> js_error + bool" where
  "status_bad s = (if \<not> truthy s then Inr False
     else (case opt_get s ''Symbol'' of Str t \<Rightarrow> Inr (\<not> str_includes ''Good'' t) | Arr vs \<Rightarrow> Inr (Str ''Good'' \<notin> set vs)
       | Undef \<Rightarrow> Inr True | Null \<Rightarrow> Inr True | _ \<Rightarrow> Inl TypeError))"

definition opc_message :: "plain_env \<Rightarrow> string \<Rightarrow> jsval \<Rightarrow> jsval \<Rightarrow> spb \<Rightarrow> (js_error + unit) \<times> spb" where
  "opc_message e topic publisher m w =
     (let writer = js_or (opt_get m ''DataSetWriterId'') (Str ''unknown''); ts = opt_get m ''Timestamp'';
          tm = (if truthy ts then js_date (pl_date e) ts else num (sp_now (pl_sp e)), truthy ts); p = opt_get m ''Payload'' in
      case status_bad (opt_get m ''Status'') of Inl err \<Rightarrow> (Inl err, w)
      | Inr bad \<Rightarrow> if truthy p \<and> typeof p = ''object''
          then eachE (opc_field e (topic @ ''/'' @ to_string publisher @ ''/'' @ to_string writer) tm bad) (js_entries p) w else (Inr (), w))"

definition ProcessOpcUaPubSubMessage :: "plain_env \<Rightarrow> jsval \<Rightarrow> string \<Rightarrow> spb \<Rightarrow> (js_error + unit) \<times> spb" where
  "ProcessOpcUaPubSubMessage e msg topic w =
     (if opt_get msg ''MessageType'' \<noteq> Str ''ua-data'' then (Inr (), w)
      else (case opt_get msg ''Messages'' of Arr ms \<Rightarrow> eachE (opc_message e topic (js_or (opt_get msg ''PublisherId'') (Str ''unknown''))) ms w | _ \<Rightarrow> (Inr (), w)))"

section \<open>The handler\<close>

text \<open>A value a script gives; an exception ends the values of the script.\<close>

definition script_value :: "plain_env \<Rightarrow> string \<Rightarrow> jsval \<Rightarrow> spb \<Rightarrow> (js_error + unit) \<times> spb" where
  "script_value e topic el w = (case get el ''id'' of Inl err \<Rightarrow> (Inl err, w)
     | Inr i \<Rightarrow>
         if \<not> truthy i then (Inr (), w)
         else (case js_in ''value'' el of Inl err \<Rightarrow> (Inl err, w) | Inr False \<Rightarrow> (Inr (), w)
           | Inr True \<Rightarrow> (let fd = opt_get el; v = fd ''value''; ts = fd ''timestamp'' in
               case (if truthy (fd ''valueString'') then Inr (fd ''valueString'') else map_sum id Str (js_text (pl_sp e) v)) of Inl err \<Rightarrow> (Inl err, w)
               | Inr s \<Rightarrow> (Inr (), enqueue_value
                   [(''protocolSourceObjectAddress'', Str (topic @ ''/'' @ to_string i)), (''value'', v), (''valueString'', s), (''valueJson'', js_or (fd ''valueJson'') v),
                    (''invalid'', Bool (fd ''qualityOk'' = Bool False)), (''transient'', Bool (fd ''transient'' = Bool True)),
                    (''causeOfTransmissionAtSource'', if js_in ''causeOfTransmissionAtSource'' el = Inr True then fd ''causeOfTransmissionAtSource'' else Str ''3''),
                    (''timeTagAtSource'', Date (if truthy ts then js_date (pl_date e) ts else num (sp_now (pl_sp e)))), (''timeTagAtSourceOk'', Bool (truthy ts)),
                    (''asduAtSource'', Str ''scripted''), (''type'', js_or (fd ''type'') (Str ''analog''))] w))))"

definition run_topic_script :: "plain_env \<Rightarrow> string \<Rightarrow> string \<Rightarrow> string \<Rightarrow> spb \<Rightarrow> spb" where
  "run_topic_script e topic payload script w = (case vm_run e script payload of Inr (Arr els) \<Rightarrow> snd (eachE (script_value e topic) els w) | _ \<Rightarrow> w)"

text \<open>The scripts of the topics that match, and whether there was one.\<close>

fun run_scripts :: "plain_env \<Rightarrow> string \<Rightarrow> string \<Rightarrow> jsval list \<Rightarrow> bool \<times> spb \<Rightarrow> (js_error + bool) \<times> spb" where
  "run_scripts e topic payload [] (m, w) = (Inr m, w)"
| "run_scripts e topic payload (el # els) (m, w) = (case get el ''topic'' of Inl err \<Rightarrow> (Inl err, w)
     | Inr t \<Rightarrow>
         if truthy t \<and> topicMatchSub (Str topic) t
         then run_scripts e topic payload els (True, case opt_get el ''script'' of Str s \<Rightarrow> if s = [] then w else run_topic_script e topic payload s w | _ \<Rightarrow> w)
         else run_scripts e topic payload els (m, w))"

definition is_ua_data :: "jsval \<Rightarrow> bool" where
  "is_ua_data v = (typeof v = ''object'' \<and> opt_get v ''MessageType'' = Str ''ua-data'')"

definition text_ends :: "string \<Rightarrow> string \<Rightarrow> bool" where
  "text_ends p s = (length p \<le> length s \<and> drop (length s - length p) s = p)"

text \<open>\<open>s.replace(p, r)\<close> of the first occurrence, for a replacement without \<open>$\<close>.\<close>

fun replace_once :: "string \<Rightarrow> string \<Rightarrow> string \<Rightarrow> string" where
  "replace_once p r [] = []"
| "replace_once p r (c # s) = (if starts_with p (c # s) then r @ drop (length p) (c # s) else c # replace_once p r s)"

text \<open>One subscription of the list against a message: \<open>None\<close> when it is done with.\<close>

definition plain_topic :: "plain_env \<Rightarrow> string \<Rightarrow> string \<Rightarrow> string \<Rightarrow> spb \<Rightarrow> (js_error + unit option) \<times> spb" where
  "plain_topic e topic payload sub w = (let v = TryPayloadAsRJson e payload in
     if is_ua_data v then (case ProcessOpcUaPubSubMessage e v topic w of (Inl err, w1) \<Rightarrow> (Inl err, w1) | (Inr _, w1) \<Rightarrow> (Inr None, w1))
     else (Inr (Some ()), EnqueueJsonValue e v topic w))"

text \<open>The paths of a subscription; with \<open>*~\<close> at its end they name the properties of the payload, each a
  point of its own.\<close>

definition path_values :: "plain_env \<Rightarrow> string \<Rightarrow> string \<Rightarrow> string \<Rightarrow> spb \<Rightarrow> (js_error + unit) \<times> spb" where
  "path_values e topic payload sub w =
     (if index_of ''$.'' sub = -1 then (Inr (), w)
      else (let v = TryPayloadAsRJson e payload; (t, path) = JsonPathTopic sub in
        if path = [] \<or> \<not> topicMatchSub (Str topic) (Str t) then (Inr (), w)
        else if text_ends ''*~'' sub then
          (case jsonpath e path v of
             Arr names \<Rightarrow> eachE (\<lambda>n w. let t1 = replace_once ''*~'' (to_string n) sub in
                 (Inr (), EnqueueJsonValue e (jsonpath e (snd (JsonPathTopic t1)) v) (replace_once ''$.'' [] t1) w)) names w
           | _ \<Rightarrow> (Inl TypeError, w))
        else (Inr (), EnqueueJsonValue e (jsonpath e path v) sub w)))"

definition plain_subscription :: "plain_env \<Rightarrow> string \<Rightarrow> string \<Rightarrow> jsval \<Rightarrow> spb \<Rightarrow> (js_error + unit) \<times> spb" where
  "plain_subscription e topic payload el w =
     (if \<not> truthy el then (Inr (), w)
      else (case el of
          Str sub \<Rightarrow>
            (case (if topic = sub then plain_topic e topic payload sub w else (Inr (Some ()), w)) of
               (Inl err, w1) \<Rightarrow> (Inl err, w1) | (Inr None, w1) \<Rightarrow> (Inr (), w1)
             | (Inr (Some _), w1) \<Rightarrow>
                 (case (if text_ends ''#'' sub \<and> starts_with (butlast sub) topic then plain_topic e topic payload sub w1 else (Inr (Some ()), w1)) of
                    (Inl err, w2) \<Rightarrow> (Inl err, w2) | (Inr None, w2) \<Rightarrow> (Inr (), w2)
                  | (Inr (Some _), w2) \<Rightarrow> path_values e topic payload sub w2))
        | _ \<Rightarrow> (Inl TypeError, w)))"

definition arr_of :: "doc \<Rightarrow> string \<Rightarrow> jsval list" where
  "arr_of d k = (case fld d k of Arr vs \<Rightarrow> vs | _ \<Rightarrow> [])"

text \<open>A message outside Sparkplug; the third part is the file saved under the topic. \<open>up\<close>: the database is
  connected.\<close>

definition nonSparkplugMessage :: "plain_env \<Rightarrow> bool \<Rightarrow> doc \<Rightarrow> string \<Rightarrow> string \<Rightarrow> spb \<Rightarrow> (js_error + unit) \<times> spb \<times> string option" where
  "nonSparkplugMessage e up conn topic payload w =
     (if \<not> up then (Inr (), w, None)
      else if list_ex (topicMatchSub (Str topic)) (arr_of conn ''topicsAsFiles'') then (Inr (), w, Some topic)
      else (case run_scripts e topic payload (arr_of conn ''topicsScripted'') (False, w) of
          (Inl err, w1) \<Rightarrow> (Inl err, w1, None)
        | (Inr True, w1) \<Rightarrow> (Inr (), w1, None)
        | (Inr False, w1) \<Rightarrow> (case eachE (plain_subscription e topic payload) (arr_of conn ''topics'') w1 of (r, w2) \<Rightarrow> (r, w2, None))))"

end
