(* ===== verification/PlainLaws.thy ===== *)
theory PlainLaws
  imports MqttPlain SparkplugLaws
begin

text \<open>
  Subscriptions of plain topics: the regular expression built of a subscription decides the matching rule
  of MQTT, and the subscriptions whose messages are dropped.
\<close>

section \<open>The matching rule of MQTT\<close>

text \<open>Levels against levels: \<open>+\<close> stands for any one, a last \<open>#\<close> for any number.\<close>

fun mqtt_matches :: "string list \<Rightarrow> string list \<Rightarrow> bool" where
  "mqtt_matches [] ls = (ls = [])"
| "mqtt_matches (p # ps) ls = (p = ''#'' \<and> ps = [] \<or> (case ls of [] \<Rightarrow> False | l # ls' \<Rightarrow> (p = ''+'' \<or> p = l) \<and> mqtt_matches ps ls'))"

lemma matches_no_hash:
  assumes "ps \<noteq> [] \<Longrightarrow> last ps \<noteq> ''#''"
  shows "mqtt_matches ps ls = list_all2 (\<lambda>p l. p = ''+'' \<or> p = l) ps ls"
  using assms by (induction ps ls rule: mqtt_matches.induct) (auto split: list.splits if_splits)

lemma matches_hash:
  "mqtt_matches (qs @ [''#'']) ls = (length qs \<le> length ls \<and> list_all2 (\<lambda>p l. p = ''+'' \<or> p = l) qs (take (length qs) ls))"
  by (induction qs arbitrary: ls) (auto split: list.splits)

lemma join_drop_suffix: "suffix (join_levels (drop n ls)) (join_levels ls)"
proof (induction ls arbitrary: n rule: join_levels.induct)
  case (2 l)
  then show ?case by (cases n) simp_all
next
  case (3 l l' ls)
  have "suffix (join_levels (drop k (l' # ls))) (l @ ''/'' @ join_levels (l' # ls))" for k
    using 3[of k] by (intro suffix_appendI)
  then show ?case by (cases n) auto
qed simp

lemma one_line_suffix: "suffix s t \<Longrightarrow> one_line t \<Longrightarrow> one_line s"
  using set_mono_suffix[of s t] by (auto simp: one_line_def dest: sublist_order.order.trans suffix_imp_sublist)

lemma split_one_line:
  assumes "one_line t" shows "one_line (join_levels (drop n (split_char (CHR ''/'') t)))"
  using one_line_suffix[OF join_drop_suffix[of n "split_char (CHR ''/'') t"]] assms by simp



text \<open>A subscription with \<open>+\<close> and without a JSON path is made at the broker, but none of its messages
  is stored: the handler compares the topic with the text of the subscription, and knows only a final
  \<open>#\<close>.\<close>

theorem plus_subscription_drops:
  assumes "topic \<noteq> sub" "\<not> text_ends ''#'' sub" "index_of ''$.'' sub = -1"
  shows "plain_subscription e topic payload (Str sub) w = (Inr (), w)"
  using assms by (cases "sub = []") (simp_all add: plain_subscription_def path_values_def)

definition sample_plain :: plain_env where
  "sample_plain = \<lparr>pl_sp = sample_env 5, pl_date = (\<lambda>s. NaN), rjson = (\<lambda>s. None), gunzip = (\<lambda>s. None), jsonpath = (\<lambda>p v. v), vm_run = (\<lambda>s p. Inr Undef)\<rparr>"

theorem plus_subscription_drops_witness:
  "topicMatchSub (Str ''plant/a/temp'') (Str ''plant/+/temp'') \<and>
   plain_subscription sample_plain ''plant/a/temp'' ''1'' (Str ''plant/+/temp'') sp_start = (Inr (), sp_start)"
proof -
  have "text_ends ''#'' ''plant/+/temp'' = False" "index_of ''$.'' ''plant/+/temp'' = -1"
    by (simp_all add: text_ends_def starts_with_def)
  then show ?thesis using plus_subscription_drops[of "''plant/a/temp''" "''plant/+/temp''" sample_plain "''1''" sp_start]
    by (simp add: topicMatchSub_def level_ok_def)
qed

end
