(* ===== verification/N8n.thy ===== *)
theory N8n
  imports AutoTag MqttPublish
begin

text \<open>
  The driver that connects workflows of n8n (\<open>n8n-client\<close>): the filters of what is sent
  (\<open>filters.js\<close>), the queues of the webhooks with their retries (\<open>webhook-push.js\<close>), the batches,
  the dead band and the snapshots of \<open>index.js\<close>, the tags it creates (\<open>tags-creation.js\<close>) and the
  requests it listens to (\<open>http-listener.js\<close>). Sockets, the decoding of base 64 and the outcomes of the
  database are parameters.
\<close>

section \<open>Constants\<close>

definition AUTOKEY_MULTIPLIER :: int where "AUTOKEY_MULTIPLIER = 100000"
definition BATCH_MAX_SIZE :: int where "BATCH_MAX_SIZE = 50"
definition RETRY_BASE_MS :: int where "RETRY_BASE_MS = 1000"
definition RETRY_MAX_MS :: int where "RETRY_MAX_MS = 60000"
definition MAX_QUEUE_SIZE :: int where "MAX_QUEUE_SIZE = 5000"

section \<open>Filters\<close>

datatype value_rule = Group1 string | Group2 string | ByTag string | TagPrefix string
datatype soe_rule = SoeAll | PriorityMax jsnum | SoeGroup1 string

definition soe_entry :: "string \<Rightarrow> soe_rule list" where
  "soe_entry entry = (let spec = trim (drop 4 entry); low = to_lower spec in
     if low = ''all'' then [SoeAll]
     else if starts_with ''priority<='' low then
       (let n = parse_int (drop 10 spec) in if num_is_nan n then [] else [PriorityMax n])
     else if starts_with ''group1:'' low then [SoeGroup1 (drop 7 spec)] else [])"

definition value_entry :: "string \<Rightarrow> value_rule" where
  "value_entry entry = (let i = index_of '':'' entry in
     if i = -1 then Group1 entry
     else (let key = to_lower (take (nat i) entry); v = drop (nat i + 1) entry in
       if key = ''group1'' then Group1 v else if key = ''group2'' then Group2 v
       else if key = ''tag'' then ByTag v else if key = ''tagprefix'' then TagPrefix v else Group1 entry))"

fun parse_entries :: "jsval list \<Rightarrow> value_rule list \<times> soe_rule list" where
  "parse_entries [] = ([], [])"
| "parse_entries (raw # raws) = (let (vs, ss) = parse_entries raws in
     case raw of Str s \<Rightarrow> (let entry = trim s in
         if entry = [] then (vs, ss)
         else if starts_with ''soe:'' (to_lower entry) then (vs, soe_entry entry @ ss)
         else (value_entry entry # vs, ss))
     | _ \<Rightarrow> (vs, ss))"

definition ParseFilters :: "jsval \<Rightarrow> value_rule list \<times> soe_rule list" where
  "ParseFilters topics = (case topics of Arr ts \<Rightarrow> parse_entries ts | _ \<Rightarrow> ([], []))"

fun value_rule_ok :: "doc \<Rightarrow> value_rule \<Rightarrow> bool" where
  "value_rule_ok d (Group1 v) = (fld d ''group1'' = Str v)"
| "value_rule_ok d (Group2 v) = (fld d ''group2'' = Str v)"
| "value_rule_ok d (ByTag v) = (fld d ''tag'' = Str v)"
| "value_rule_ok d (TagPrefix v) = (case fld d ''tag'' of Str t \<Rightarrow> starts_with v t | _ \<Rightarrow> False)"

definition MatchValue :: "doc \<Rightarrow> value_rule list \<Rightarrow> bool" where
  "MatchValue d rules = (rules = [] \<or> list_ex (value_rule_ok d) rules)"

fun soe_rule_ok :: "doc \<Rightarrow> soe_rule \<Rightarrow> bool" where
  "soe_rule_ok d SoeAll = True"
| "soe_rule_ok d (PriorityMax n) = (case fld d ''priority'' of Num p \<Rightarrow> p \<le> n | _ \<Rightarrow> False)"
| "soe_rule_ok d (SoeGroup1 v) = (fld d ''group1'' = Str v)"

definition MatchSoe :: "doc \<Rightarrow> soe_rule list \<Rightarrow> bool" where
  "MatchSoe d rules = list_ex (soe_rule_ok d) rules"

fun group1_only :: "value_rule list \<Rightarrow> string list option" where
  "group1_only [] = Some []"
| "group1_only (Group1 v # rs) = map_option (\<lambda>vs. v # vs) (group1_only rs)"
| "group1_only (_ # rs) = None"

definition BuildChangeStreamGroup1Match :: "value_rule list \<Rightarrow> string list option" where
  "BuildChangeStreamGroup1Match rules = (if rules = [] then None else group1_only rules)"

section \<open>Webhooks\<close>

text \<open>A channel keeps the body in flight: \<open>sending\<close> of the code. \<open>waking\<close> is the pending
  \<open>setImmediate\<close>; \<open>delivered\<close> notes the bodies whose request succeeded.\<close>

record channel =
  ch_url :: string
  ch_queue :: "string list"
  in_flight :: "string option"
  backoffMs :: int
  retry_timer :: bool
  waking :: bool
  delivered :: "string list"

record push_stats =
  st_sent :: nat
  st_dropped :: nat
  st_errors :: nat
  st_lastError :: string

record pusher =
  maxQueueSize :: nat
  retryMaxMs :: int
  channels :: "channel list"
  pstats :: push_stats

definition new_channel :: "string \<Rightarrow> channel" where
  "new_channel u = \<lparr>ch_url = trim u, ch_queue = [], in_flight = None, backoffMs = 0, retry_timer = False, waking = False, delivered = []\<rparr>"

definition new_pusher :: "nat \<Rightarrow> int \<Rightarrow> jsval list \<Rightarrow> pusher" where
  "new_pusher maxq retry urls = \<lparr>maxQueueSize = (if maxq = 0 then nat MAX_QUEUE_SIZE else maxq), retryMaxMs = (if retry = 0 then RETRY_MAX_MS else retry),
     channels = concat (map (\<lambda>u. case u of Str s \<Rightarrow> if trim s = [] then [] else [new_channel s] | _ \<Rightarrow> []) urls),
     pstats = \<lparr>st_sent = 0, st_dropped = 0, st_errors = 0, st_lastError = []\<rparr>\<rparr>"

definition hasTargets :: "pusher \<Rightarrow> bool" where
  "hasTargets p = (channels p \<noteq> [])"

definition queueSizes :: "pusher \<Rightarrow> doc" where
  "queueSizes p = fold (\<lambda>c s. aupd (ch_url c) (Num (num (int (length (ch_queue c))))) s) (channels p) []"

definition ch_drain :: "channel \<Rightarrow> channel" where
  "ch_drain c = (if in_flight c \<noteq> None \<or> retry_timer c then c
     else (case ch_queue c of [] \<Rightarrow> c | b # _ \<Rightarrow> c\<lparr>in_flight := Some b\<rparr>))"

definition ch_push :: "nat \<Rightarrow> string \<Rightarrow> channel \<Rightarrow> channel" where
  "ch_push maxq body c = ch_drain (c\<lparr>ch_queue := (if maxq \<le> length (ch_queue c) then tl (ch_queue c) else ch_queue c) @ [body]\<rparr>)"

definition push :: "string \<Rightarrow> pusher \<Rightarrow> pusher" where
  "push body p = p\<lparr>channels := map (ch_push (maxQueueSize p) body) (channels p),
     pstats := (pstats p)\<lparr>st_dropped := st_dropped (pstats p) + length (filter (\<lambda>c. maxQueueSize p \<le> length (ch_queue c)) (channels p))\<rparr>\<rparr>"

text \<open>The answer to the request in flight, the end of the wait, the continuation.\<close>

definition ch_done :: "channel \<Rightarrow> channel" where
  "ch_done c = (case in_flight c of None \<Rightarrow> c
     | Some b \<Rightarrow> c\<lparr>ch_queue := tl (ch_queue c), in_flight := None, backoffMs := 0, waking := True, delivered := delivered c @ [b]\<rparr>)"

definition next_backoff :: "int \<Rightarrow> int \<Rightarrow> int" where
  "next_backoff maxms b = min (if b \<noteq> 0 then b * 2 else RETRY_BASE_MS) maxms"

definition ch_fail :: "int \<Rightarrow> channel \<Rightarrow> channel" where
  "ch_fail maxms c = (if in_flight c = None then c else c\<lparr>in_flight := None, backoffMs := next_backoff maxms (backoffMs c), retry_timer := True\<rparr>)"

definition ch_retry :: "channel \<Rightarrow> channel" where
  "ch_retry c = (if retry_timer c then ch_drain (c\<lparr>retry_timer := False\<rparr>) else c)"

definition ch_wake :: "channel \<Rightarrow> channel" where
  "ch_wake c = (if waking c then ch_drain (c\<lparr>waking := False\<rparr>) else c)"

datatype push_event = Push string | PostOk nat | PostFailed nat string | RetryDue nat | Continue nat

definition at_channel :: "nat \<Rightarrow> (channel \<Rightarrow> channel) \<Rightarrow> pusher \<Rightarrow> pusher" where
  "at_channel i f p = (if i < length (channels p) then p\<lparr>channels := (channels p)[i := f (channels p ! i)]\<rparr> else p)"

definition flying :: "nat \<Rightarrow> pusher \<Rightarrow> bool" where
  "flying i p = (i < length (channels p) \<and> in_flight (channels p ! i) \<noteq> None)"

definition push_step :: "push_event \<Rightarrow> pusher \<Rightarrow> pusher" where
  "push_step ev p = (case ev of
       Push b \<Rightarrow> push b p
     | PostOk i \<Rightarrow> if flying i p then (at_channel i ch_done p)\<lparr>pstats := (pstats p)\<lparr>st_sent := st_sent (pstats p) + 1\<rparr>\<rparr> else p
     | PostFailed i err \<Rightarrow> if flying i p then (at_channel i (ch_fail (retryMaxMs p)) p)\<lparr>pstats := (pstats p)\<lparr>st_errors := st_errors (pstats p) + 1,
         st_lastError := ch_url (channels p ! i) @ '': '' @ err\<rparr>\<rparr> else p
     | RetryDue i \<Rightarrow> at_channel i ch_retry p
     | Continue i \<Rightarrow> at_channel i ch_wake p)"

definition stop_pusher :: "pusher \<Rightarrow> pusher" where
  "stop_pusher p = p\<lparr>channels := map (\<lambda>c. c\<lparr>retry_timer := False, ch_queue := []\<rparr>) (channels p)\<rparr>"

text \<open>The request of a body: the parts of the address are the reading of the library; \<open>None\<close> is a
  rejected address.\<close>

record url_parts =
  u_protocol :: string
  u_hostname :: string
  u_port :: string
  u_path :: string

definition post_request :: "(string \<Rightarrow> url_parts option) \<Rightarrow> jsval \<Rightarrow> jsval \<Rightarrow> string \<Rightarrow> string \<Rightarrow> string + doc" where
  "post_request read_url token reject url body = (case read_url url of None \<Rightarrow> Inl ''invalid URL''
     | Some u \<Rightarrow>
         if u_protocol u \<noteq> ''http:'' \<and> u_protocol u \<noteq> ''https:'' then Inl (''unsupported scheme '' @ u_protocol u)
         else (let https = (u_protocol u = ''https:'') in
           Inr ([(''method'', Str ''POST''), (''hostname'', Str (u_hostname u)),
             (''port'', if u_port u = [] then Num (num (if https then 443 else 80)) else Str (u_port u)), (''path'', Str (u_path u)),
             (''headers'', Obj ([(''Content-Type'', Str ''application/json''), (''Content-Length'', Num (num (int (length body))))] @
                (case token of Str t \<Rightarrow> if trim t = [] then [] else [(''Authorization'', Str (''Bearer '' @ trim t))] | _ \<Rightarrow> [])))] @
             (if https \<and> reject = Bool False then [(''rejectUnauthorized'', Bool False)] else []))))"

section \<open>Points out\<close>

record n8n =
  key_id :: int
  n_created :: "string list"
  n_rt :: "doc list"
  n_cmds :: "doc list"
  n_actions :: "doc list"
  inboundUpdates :: int
  inboundCommands :: int
  valueBatch :: "doc list"
  batch_timer :: bool
  deadBandCache :: "(string \<times> jsnum) list"
  n_push :: pusher
  flushed :: "push_stats \<times> doc \<times> int"

record n8n_env =
  n_sp :: sp_env
  n_date :: "string \<Rightarrow> jsnum"
  n_active :: bool
  n_conn :: doc
  n_opts :: doc
  n_node :: jsval

definition empty_object :: "jsval \<Rightarrow> bool" where
  "empty_object v = (case v of Obj d \<Rightarrow> d = [] | Arr vs \<Rightarrow> vs = [] | Str s \<Rightarrow> s = [] | _ \<Rightarrow> True)"

definition pointFromDoc :: "doc \<Rightarrow> doc" where
  "pointFromDoc d = (let v = fld d ''value''; o1 = (\<lambda>k x. (k, js_or (fld d k) x)); b = (\<lambda>k. (k, Bool (fld d k = Bool True))); s = (\<lambda>k. o1 k (Str [])) in
     [(''tag'', fld d ''tag''), (''pointKey'', Num (parse_int (to_string (fld d ''_id'')))), (''value'', if typeof v = ''object'' then Num (parse_float (to_string v)) else v),
      (''valueString'', fld d ''valueString''), (''valueJson'', if truthy (fld d ''valueJson'') \<and> \<not> empty_object (fld d ''valueJson'') then fld d ''valueJson'' else Null),
      (''type'', fld d ''type''), b ''invalid'', b ''substituted'', b ''alarmed'', o1 ''timeTag'' Null, o1 ''timeTagAtSource'' Null,
      s ''group1'', s ''group2'', s ''group3'', s ''description'', s ''unit''])"

definition makeEnvelope :: "n8n_env \<Rightarrow> string \<Rightarrow> doc \<Rightarrow> doc" where
  "makeEnvelope e type extra = aspread [(''schema'', Str ''jsonscada-n8n/1''), (''type'', Str type), (''nodeName'', n_node e),
     (''connectionNumber'', fld (n_conn e) ''protocolConnectionNumber''), (''connectionName'', fld (n_conn e) ''name''), (''timestamp'', Str (iso_of (num (sp_now (n_sp e)))))] extra"

definition push_envelope :: "n8n_env \<Rightarrow> string \<Rightarrow> doc \<Rightarrow> n8n \<Rightarrow> n8n" where
  "push_envelope e type extra w = w\<lparr>n_push := push (json_val iso_of (Obj (makeEnvelope e type extra))) (n_push w)\<rparr>"

definition points_field :: "doc list \<Rightarrow> doc" where
  "points_field ps = [(''points'', Arr (map Obj ps))]"

definition flushValueBatch :: "n8n_env \<Rightarrow> n8n \<Rightarrow> n8n" where
  "flushValueBatch e w = (let w1 = w\<lparr>batch_timer := False\<rparr> in
     if valueBatch w = [] then w1
     else if \<not> hasTargets (n_push w) then w1\<lparr>valueBatch := []\<rparr>
     else push_envelope e ''valueChange'' (points_field (valueBatch w)) (w1\<lparr>valueBatch := []\<rparr>))"

definition batch_max :: "n8n_env \<Rightarrow> jsnum" where
  "batch_max e = to_number (js_or (fld (n_opts e) ''batchMaxSize'') (Num (num BATCH_MAX_SIZE)))"

definition enqueueValue :: "n8n_env \<Rightarrow> doc \<Rightarrow> n8n \<Rightarrow> n8n" where
  "enqueueValue e p w = (let w1 = w\<lparr>valueBatch := valueBatch w @ [p]\<rparr> in
     if batch_max e \<le> num (int (length (valueBatch w1))) then flushValueBatch e w1 else w1\<lparr>batch_timer := True\<rparr>)"

text \<open>The condition of the change stream: \<open>op\<close> is the operation, \<open>source\<close> that the update touches
  \<open>sourceDataUpdate\<close>.\<close>

definition value_pipeline :: "value_rule list \<Rightarrow> string \<Rightarrow> bool \<Rightarrow> doc \<Rightarrow> bool" where
  "value_pipeline rules op source d = ((\<not> source \<and> js_lt (Num (num 0)) (fld d ''_id'') \<and> op = ''update'' \<or> op = ''replace'') \<and>
     (case BuildChangeStreamGroup1Match rules of None \<Rightarrow> True | Some gs \<Rightarrow> (case fld d ''group1'' of Str g \<Rightarrow> g \<in> set gs | _ \<Rightarrow> False)))"

definition dead_band :: "n8n_env \<Rightarrow> jsnum" where
  "dead_band e = to_number (js_or (fld (n_conn e) ''deadBand'') (Num (num 0)))"

definition on_value_change :: "n8n_env \<Rightarrow> value_rule list \<Rightarrow> doc \<Rightarrow> n8n \<Rightarrow> n8n" where
  "on_value_change e rules d w =
     (if \<not> n_active e \<or> parse_int (to_string (fld d ''_id'')) \<le> num 0 \<or> \<not> MatchValue d rules then w
      else if num 0 < dead_band e \<and> fld d ''type'' = Str ''analog'' then
        (let key = to_string (fld d ''tag''); v = parse_float (to_string (fld d ''value'')) in
         case map_of (deadBandCache w) key of
           Some l \<Rightarrow> if num_abs (v - l) < dead_band e \<and> \<not> truthy (fld d ''invalid'') then w
             else enqueueValue e (pointFromDoc d) (w\<lparr>deadBandCache := aupd key v (deadBandCache w)\<rparr>)
         | None \<Rightarrow> enqueueValue e (pointFromDoc d) (w\<lparr>deadBandCache := aupd key v (deadBandCache w)\<rparr>))
      else enqueueValue e (pointFromDoc d) w)"

definition soe_event :: "doc \<Rightarrow> doc" where
  "soe_event ev = [(''tag'', fld ev ''tag''), (''pointKey'', if truthy (fld ev ''pointKey'') then Num (parse_int (to_string (fld ev ''pointKey''))) else Null),
     (''eventText'', fld ev ''eventText''), (''priority'', fld ev ''priority''), (''group1'', js_or (fld ev ''group1'') (Str [])), (''description'', js_or (fld ev ''description'') (Str [])),
     (''invalid'', Bool (fld ev ''invalid'' = Bool True)), (''ack'', fld ev ''ack''), (''timeTag'', js_or (fld ev ''timeTag'') Null), (''timeTagAtSource'', js_or (fld ev ''timeTagAtSource'') Null)]"

definition on_soe_change :: "n8n_env \<Rightarrow> soe_rule list \<Rightarrow> doc \<Rightarrow> n8n \<Rightarrow> n8n" where
  "on_soe_change e rules ev w = (if \<not> n_active e \<or> \<not> MatchSoe ev rules \<or> \<not> hasTargets (n_push w) then w
     else push_envelope e ''soeEvent'' [(''events'', Arr [Obj (soe_event ev)])] w)"

definition heartbeat :: "n8n_env \<Rightarrow> n8n \<Rightarrow> n8n" where
  "heartbeat e w = (if n_active e \<and> hasTargets (n_push w) then push_envelope e ''heartbeat'' [] w else w)"

fun push_snapshot :: "n8n_env \<Rightarrow> value_rule list \<Rightarrow> doc list \<Rightarrow> doc list \<Rightarrow> n8n \<Rightarrow> n8n" where
  "push_snapshot e rules [] batch w = (if batch = [] then w else push_envelope e ''integrity'' (points_field batch) w)"
| "push_snapshot e rules (d # ds) batch w =
     (if \<not> MatchValue d rules then push_snapshot e rules ds batch w
      else if batch_max e \<le> num (int (length batch) + 1)
      then push_snapshot e rules ds [] (push_envelope e ''integrity'' (points_field (batch @ [pointFromDoc d])) w)
      else push_snapshot e rules ds (batch @ [pointFromDoc d]) w)"

definition pushIntegritySnapshot :: "n8n_env \<Rightarrow> value_rule list \<Rightarrow> doc list \<Rightarrow> n8n \<Rightarrow> n8n" where
  "pushIntegritySnapshot e rules tags w = (if \<not> n_active e \<or> \<not> hasTargets (n_push w) then w
     else push_snapshot e rules (filter (\<lambda>d. js_lt (Num (num 0)) (fld d ''_id'') \<and>
       (case BuildChangeStreamGroup1Match rules of None \<Rightarrow> True | Some gs \<Rightarrow> (case fld d ''group1'' of Str g \<Rightarrow> g \<in> set gs | _ \<Rightarrow> False))) tags) [] w)"

text \<open>The figures of the pusher are taken over every ten seconds; \<open>flushed\<close> holds the last ones.\<close>

definition stats_tick :: "n8n_env \<Rightarrow> n8n \<Rightarrow> n8n" where
  "stats_tick e w = (if truthy (fld (n_conn e) ''protocolConnectionNumber'') \<and> n_active e then w\<lparr>flushed := (pstats (n_push w), queueSizes (n_push w), sp_now (n_sp e))\<rparr> else w)"

definition n8n_stats :: "n8n_env \<Rightarrow> n8n \<Rightarrow> doc" where
  "n8n_stats e w = (let n = (\<lambda>k. Num (num (int k))); (s, sizes, t) = flushed w in
     [(''nodeName'', n_node e), (''notificationsSent'', n (st_sent s)), (''notificationsDropped'', n (st_dropped s)), (''webhookErrors'', n (st_errors s)),
      (''lastWebhookError'', Str (st_lastError s)), (''inboundUpdates'', Num (num (inboundUpdates w))), (''inboundCommands'', Num (num (inboundCommands w))),
      (''queueSizes'', Obj sizes), (''timeTag'', Date (num t))])"

section \<open>Tags\<close>

definition inferType :: "jsval \<Rightarrow> string" where
  "inferType v = (case v of Bool _ \<Rightarrow> ''digital'' | Num x \<Rightarrow> if num_is_nan x then ''string'' else ''analog'' | Undef \<Rightarrow> ''string'' | Null \<Rightarrow> ''string''
     | Str s \<Rightarrow> if trim s \<noteq> [] \<and> \<not> num_is_nan (parse_float s) \<and> num_finite (str_to_num s) then ''analog'' else ''string''
     | _ \<Rightarrow> ''json'')"

definition numericValue :: "jsval \<Rightarrow> jsnum" where
  "numericValue v = (case v of Bool b \<Rightarrow> num (if b then 1 else 0) | Num x \<Rightarrow> if num_is_nan x then num 0 else x | _ \<Rightarrow> number_of_value v)"

definition n8n_value_text :: "jsval \<Rightarrow> jsval" where
  "n8n_value_text v = (if inferType v = ''json'' then json_of v else Str (to_string v))"

definition n8n_source_time :: "n8n_env \<Rightarrow> doc \<Rightarrow> jsval \<Rightarrow> jsval" where
  "n8n_source_time e m other = (if truthy (fld m ''timeTagAtSource'') then Date (js_date (n_date e) (fld m ''timeTagAtSource'')) else other)"

definition n8n_NewTag :: "n8n_env \<Rightarrow> doc \<Rightarrow> int \<Rightarrow> doc" where
  "n8n_NewTag e m key = (let s = Str []; f = Bool False; z = Num (num 0); one = Num (num 1); tag = fld m ''tag''; v = fld m ''value''; type = inferType v; cname = fld (n_conn e) ''name'';
       or_empty = (\<lambda>k. (k, js_or (fld m k) s)) in
     [(''_id'', Num (num key)), (''protocolSourceASDU'', s), (''protocolSourceCommonAddress'', s),
      (''protocolSourceConnectionNumber'', Num (to_number (fld (n_conn e) ''protocolConnectionNumber''))), (''protocolSourceObjectAddress'', tag),
      (''protocolSourceCommandDuration'', z), (''protocolSourceCommandUseSBO'', f), (''alarmState'', Num (num (-1))), (''alarmRange'', z),
      (''description'', js_or (fld m ''description'') (js_add (if truthy cname then js_add cname (Str ''~'') else s) tag)),
      (''ungroupedDescription'', js_or (fld m ''ungroupedDescription'') tag), (''group1'', js_or (js_or (fld m ''group1'') cname) s), or_empty ''group2'', or_empty ''group3'',
      (''stateTextFalse'', s), (''stateTextTrue'', s), (''eventTextFalse'', s), (''eventTextTrue'', s), (''origin'', Str ''supervised''), (''tag'', tag), (''type'', Str type),
      (''value'', Num (numericValue v)), (''valueString'', n8n_value_text v), (''valueJson'', if type = ''json'' then v else Obj []), (''alarmDisabled'', f), (''alerted'', f), (''alarmed'', f),
      (''alertState'', s), (''annotation'', s), (''commandBlocked'', f), (''commandOfSupervised'', z), (''commissioningRemarks'', Str ''Auto created by N8N''), (''formula'', z),
      (''frozen'', f), (''frozenDetectTimeout'', z), (''hiLimit'', Num max_value), (''hihiLimit'', Num max_value), (''hihihiLimit'', Num max_value),
      (''historianDeadBand'', z), (''historianPeriod'', z), (''hysteresis'', z), (''invalid'', Bool (truthy (fld m ''invalid''))), (''invalidDetectTimeout'', Num (num 60000)),
      (''isEvent'', f), (''kconv1'', one), (''kconv2'', z), (''location'', Null), (''loLimit'', Num (- max_value)), (''loloLimit'', Num (- max_value)), (''lololoLimit'', Num (- max_value)),
      (''notes'', s), (''overflow'', f), (''parcels'', Null), (''priority'', z), (''protocolDestinations'', Null), (''sourceDataUpdate'', Null), (''substituted'', f),
      (''supervisedOfCommand'', z), (''timeTag'', Null), (''timeTagAlarm'', Null), (''timeTagAtSource'', n8n_source_time e m Null), (''timeTagAtSourceOk'', f), (''transient'', f),
      or_empty ''unit'', (''updatesCnt'', z), (''valueDefault'', z), (''zeroDeadband'', z)])"

definition SourceDataUpdate :: "n8n_env \<Rightarrow> doc \<Rightarrow> doc" where
  "SourceDataUpdate e m = (let v = fld m ''value''; f = Bool False in
     [(''valueAtSource'', Num (numericValue v)), (''valueStringAtSource'', n8n_value_text v),
      (''valueJsonAtSource'', if inferType v = ''json'' then v else (case json_parse (to_string v) of Inr j \<Rightarrow> j | Inl _ \<Rightarrow> Null)),
      (''asduAtSource'', Str []), (''causeOfTransmissionAtSource'', Str ''3''), (''timeTagAtSource'', n8n_source_time e m (Date (num (sp_now (n_sp e))))),
      (''timeTagAtSourceOk'', Bool (fld m ''timeTagAtSourceOk'' = Bool True)), (''timeTag'', Date (num (sp_now (n_sp e)))),
      (''originator'', Str (''N8N|'' @ to_string (fld (n_conn e) ''protocolConnectionNumber''))), (''notTopicalAtSource'', f), (''invalidAtSource'', Bool (fld m ''invalid'' = Bool True)),
      (''overflowAtSource'', f), (''blockedAtSource'', f), (''substitutedAtSource'', f)])"

definition n8n_first_key :: "int \<Rightarrow> doc list \<Rightarrow> jsnum" where
  "n8n_first_key c ds = (let b = num c * num AUTOKEY_MULTIPLIER in
     case last_key b ((num c + num 1) * num AUTOKEY_MULTIPLIER) ds of None \<Rightarrow> b
     | Some k \<Rightarrow> (let p = parse_int (num_to_string k) in if b \<le> p then p else b))"

section \<open>Requests in\<close>

record n8n_listener =
  allowedIps :: "jsval list"
  basicUser :: jsval
  basicPass :: jsval
  enableDirectCommands :: bool
  autoCreateTags :: bool

record http_req =
  h_method :: string
  h_path :: string
  h_headers :: doc
  h_remote :: string
  h_body :: jsval

definition clientIp :: "http_req \<Rightarrow> jsval" where
  "clientIp r = (let x = fld (h_headers r) ''x-forwarded-for''; first = (case x of Str s \<Rightarrow> trim (hd (split_char (CHR '','') s)) | _ \<Rightarrow> []) in
     js_or (js_or (js_or (fld (h_headers r) ''x-real-ip'') (Str first)) (Str (h_remote r))) (Str []))"

definition ip_allowed :: "n8n_listener \<Rightarrow> http_req \<Rightarrow> bool" where
  "ip_allowed l r = (allowedIps l = [] \<or> clientIp r \<in> set (allowedIps l))"

text \<open>The user and the password of the header; \<open>b64\<close> decodes base 64.\<close>

definition basic_credentials :: "(string \<Rightarrow> string) \<Rightarrow> string \<Rightarrow> string \<times> string" where
  "basic_credentials b64 hdr = (let c = b64 (drop 6 hdr); i = index_of '':'' c in
     if 0 \<le> i then (take (nat i) c, drop (nat i + 1) c) else (c, []))"

definition basic_ok :: "(string \<Rightarrow> string) \<Rightarrow> n8n_listener \<Rightarrow> http_req \<Rightarrow> bool" where
  "basic_ok b64 l r = (truthy (basicUser l) \<and> (case fld (h_headers r) ''authorization'' of
       Str hdr \<Rightarrow> starts_with ''Basic '' hdr \<and> (let (u, p) = basic_credentials b64 hdr in Str u = basicUser l \<and> Str p = basicPass l)
     | _ \<Rightarrow> False))"

datatype n8n_reply = N8nReply nat doc

definition err_text :: "js_error \<Rightarrow> jsval" where
  "err_text err = (case err of Thrown s \<Rightarrow> Str s | _ \<Rightarrow> Str [])"

definition http_error :: "nat \<Rightarrow> string \<Rightarrow> n8n_reply" where
  "http_error s msg = N8nReply s [(''error'', Str msg)]"

text \<open>One point of an update: \<open>ins\<close> is the outcome of its insertion. The three parts of the result are the
  points updated, those created and the errors.\<close>

definition of_n8n_point :: "n8n_env \<Rightarrow> string \<Rightarrow> doc \<Rightarrow> bool" where
  "of_n8n_point e t d = (strict_eq (fld d ''protocolSourceConnectionNumber'') (fld (n_conn e) ''protocolConnectionNumber'') \<and> fld d ''protocolSourceObjectAddress'' = Str t)"

definition create_n8n :: "n8n_env \<Rightarrow> (doc \<Rightarrow> js_error + bool) \<Rightarrow> doc \<Rightarrow> string \<Rightarrow> n8n \<Rightarrow> (js_error + int) \<times> n8n" where
  "create_n8n e ins m t w =
     (if filter (of_n8n_point e t) (n_rt w) \<noteq> [] then (Inr 0, w\<lparr>n_created := n_created w @ [t]\<rparr>)
      else (let k = key_id w + 1; w1 = w\<lparr>key_id := k\<rparr>; d = n8n_NewTag e m k in
        case ins d of Inl err \<Rightarrow> (Inl err, w1) | Inr False \<Rightarrow> (Inr 0, w1)
        | Inr True \<Rightarrow> (Inr 1, w1\<lparr>n_rt := n_rt w1 @ [d], n_created := n_created w1 @ [t]\<rparr>)))"

definition update_point :: "n8n_env \<Rightarrow> n8n_listener \<Rightarrow> (doc \<Rightarrow> js_error + bool) \<Rightarrow> jsval \<Rightarrow> n8n \<Rightarrow> (int \<times> int \<times> doc list) \<times> n8n" where
  "update_point e l ins p w = (case p of
       Obj m \<Rightarrow> (case fld m ''tag'' of
           Str t \<Rightarrow>
             if t = [] then ((0, 0, [[(''point'', p), (''error'', Str ''missing tag'')]]), w)
             else (case (if autoCreateTags l \<and> t \<notin> set (n_created w) then create_n8n e ins m t w else (Inr 0, w)) of
                 (Inl err, w1) \<Rightarrow> ((0, 0, [[(''tag'', Str t), (''error'', err_text err)]]), w1)
               | (Inr c, w1) \<Rightarrow>
                   if filter (of_n8n_point e t) (n_rt w1) = [] then ((0, c, [[(''tag'', Str t), (''error'', Str ''tag not found (autoCreate off?)'')]]), w1)
                   else ((1, c, []), w1\<lparr>n_rt := update_first (of_n8n_point e t) (aupd ''sourceDataUpdate'' (Obj (SourceDataUpdate e m))) (n_rt w1)\<rparr>))
         | _ \<Rightarrow> ((0, 0, [[(''point'', p), (''error'', Str ''missing tag'')]]), w))
     | _ \<Rightarrow> ((0, 0, [[(''point'', p), (''error'', Str ''missing tag'')]]), w))"

fun update_points :: "n8n_env \<Rightarrow> n8n_listener \<Rightarrow> (doc \<Rightarrow> js_error + bool) \<Rightarrow> jsval list \<Rightarrow> n8n \<Rightarrow> (int \<times> int \<times> doc list) \<times> n8n" where
  "update_points e l ins [] w = ((0, 0, []), w)"
| "update_points e l ins (p # ps) w = (let ((u, c, errs), w1) = update_point e l ins p w; ((u', c', errs'), w2) = update_points e l ins ps w1 in ((u + u', c + c', errs @ errs'), w2))"

definition post_updates :: "n8n_env \<Rightarrow> n8n_listener \<Rightarrow> (doc \<Rightarrow> js_error + bool) \<Rightarrow> jsval \<Rightarrow> n8n \<Rightarrow> n8n_reply \<times> n8n" where
  "post_updates e l ins body w =
     (if \<not> n_active e then (http_error 503 ''driver instance not active'', w)
      else (case (case opt_get body ''points'' of Arr ps \<Rightarrow> Some ps | _ \<Rightarrow> (case body of Arr ps \<Rightarrow> Some ps | _ \<Rightarrow> None)) of
          None \<Rightarrow> (http_error 400 ''expected {points:[...]}'', w)
        | Some ps \<Rightarrow> (let ((u, c, errs), w1) = update_points e l ins ps w in
            (N8nReply 200 [(''updated'', Num (num u)), (''created'', Num (num c)), (''errors'', Arr (map Obj errs))], w1\<lparr>inboundUpdates := inboundUpdates w1 + u\<rparr>))))"

definition command_address :: "doc \<Rightarrow> doc" where
  "command_address p = (let ca = fld p ''protocolSourceCommonAddress''; oa = fld p ''protocolSourceObjectAddress''; asdu = fld p ''protocolSourceASDU'' in
     if \<not> loose_eq ca (Str []) \<and> is_nan ca \<or> is_nan oa \<or> is_nan asdu
     then [(''protocolSourceCommonAddress'', ca), (''protocolSourceObjectAddress'', oa), (''protocolSourceASDU'', asdu)]
     else [(''protocolSourceCommonAddress'', Num (to_number ca)), (''protocolSourceObjectAddress'', Num (to_number oa)), (''protocolSourceASDU'', Num (to_number asdu))])"

definition n8n_command :: "n8n_env \<Rightarrow> http_req \<Rightarrow> doc \<Rightarrow> jsval \<Rightarrow> doc" where
  "n8n_command e r p v = [(''protocolSourceConnectionNumber'', Num (to_number (fld p ''protocolSourceConnectionNumber'')))] @ command_address p @
     [(''protocolSourceCommandDuration'', Num (to_number (js_or (fld p ''protocolSourceCommandDuration'') (Num (num 0))))),
      (''protocolSourceCommandUseSBO'', js_or (fld p ''protocolSourceCommandUseSBO'') (Bool False)), (''pointKey'', Num (to_number (fld p ''_id''))), (''tag'', fld p ''tag''),
      (''timeTag'', Date (num (sp_now (n_sp e)))), (''value'', Num (case v of Bool b \<Rightarrow> num (if b then 1 else 0) | _ \<Rightarrow> parse_float (to_string v))), (''valueString'', Str (to_string v)),
      (''originatorUserName'', Str (''N8N:'' @ to_string (js_or (fld (n_conn e) ''name'') (Str [])))), (''originatorIpAddress'', clientIp r)]"

definition post_commands :: "n8n_env \<Rightarrow> n8n_listener \<Rightarrow> (doc \<Rightarrow> js_error + bool) \<Rightarrow> bool \<Rightarrow> http_req \<Rightarrow> n8n \<Rightarrow> n8n_reply \<times> n8n" where
  "post_commands e l ins audit r w =
     (if \<not> n_active e then (http_error 503 ''driver instance not active'', w)
      else if \<not> enableDirectCommands l then (http_error 403 ''direct commands disabled (require commandsEnabled and options.enableDirectCommands)'', w)
      else (case opt_get (h_body r) ''tag'' of
          Str t \<Rightarrow> (let v = opt_get (h_body r) ''value'' in
            if t = [] then (http_error 400 ''missing tag'', w)
            else if nullish v then (http_error 400 ''missing value'', w)
            else (case filter (\<lambda>d. fld d ''tag'' = Str t) (n_rt w) of
                [] \<Rightarrow> (http_error 404 (''tag not found: '' @ t), w)
              | p # _ \<Rightarrow>
                  if fld p ''origin'' \<noteq> Str ''command'' then (http_error 400 (''tag is not a command point: '' @ t), w)
                  else (let c = n8n_command e r p v in case ins c of
                      Inl err \<Rightarrow> (N8nReply 500 [(''error'', err_text err)], w)
                    | Inr False \<Rightarrow> (http_error 500 ''could not queue command'', w)
                    | Inr True \<Rightarrow> (N8nReply 200 [(''queued'', Bool True), (''tag'', Str t), (''value'', v)],
                        w\<lparr>n_cmds := n_cmds w @ [c], inboundCommands := inboundCommands w + 1,
                          n_actions := n_actions w @ (if audit then [[(''username'', fld c ''originatorUserName''), (''properties'', Obj [(''command'', Str t), (''value'', v)]),
                            (''action'', Str ''issue command''), (''timeTag'', Date (num (sp_now (n_sp e))))]] else [])\<rparr>))))
        | _ \<Rightarrow> (http_error 400 ''missing tag'', w)))"

definition health :: "n8n_env \<Rightarrow> n8n \<Rightarrow> n8n_reply" where
  "health e w = N8nReply 200 [(''app'', Str ''N8N''), (''version'', Str ''0.1.0''), (''active'', Bool (n_active e)), (''connection'', fld (n_conn e) ''protocolConnectionNumber''),
     (''connectionName'', fld (n_conn e) ''name''), (''stats'', Obj (n8n_stats e w))]"

text \<open>The order of the checks and the routes, which are found in any case and with a final slash.\<close>

definition route :: "string \<Rightarrow> http_req \<Rightarrow> bool" where
  "route p r = (to_lower (h_path r) = p \<or> to_lower (h_path r) = p @ ''/'')"

definition n8n_request :: "n8n_env \<Rightarrow> (string \<Rightarrow> string) \<Rightarrow> n8n_listener \<Rightarrow> (doc \<Rightarrow> js_error + bool) \<Rightarrow> bool \<Rightarrow> http_req \<Rightarrow> n8n \<Rightarrow> n8n_reply \<times> n8n" where
  "n8n_request e b64 l ins audit r w =
     (if \<not> ip_allowed l r then (http_error 403 ''source IP not allowed'', w)
      else if h_path r \<noteq> ''/n8n/health'' \<and> \<not> truthy (basicUser l) then (http_error 401 ''listener credentials not configured'', w)
      else if h_path r \<noteq> ''/n8n/health'' \<and> \<not> (case fld (h_headers r) ''authorization'' of Str h \<Rightarrow> starts_with ''Basic '' h | _ \<Rightarrow> False)
      then (http_error 401 ''missing Basic authorization'', w)
      else if h_path r \<noteq> ''/n8n/health'' \<and> \<not> basic_ok b64 l r then (http_error 401 ''invalid credentials'', w)
      else if h_method r = ''GET'' \<and> route ''/n8n/health'' r then (health e w, w)
      else if h_method r = ''POST'' \<and> route ''/n8n/updates'' r then post_updates e l ins (h_body r) w
      else if h_method r = ''POST'' \<and> route ''/n8n/commands'' r then post_commands e l ins audit r w
      else (N8nReply 404 [], w))"

section \<open>Start\<close>

text \<open>The address and the port of the listener.\<close>

definition bind_address :: "doc \<Rightarrow> (string \<Rightarrow> string option) \<Rightarrow> string" where
  "bind_address conn env = (let own = (case fld conn ''ipAddressLocalBind'' of Str s \<Rightarrow> if trim s = [] then [] else trim (hd (split_char (CHR '':'') s)) | _ \<Rightarrow> []) in
     case env ''JS_N8N_BIND_ADDRESS'' of Some a \<Rightarrow> if a \<noteq> [] then a else if own = [] then ''0.0.0.0'' else own | None \<Rightarrow> if own = [] then ''0.0.0.0'' else own)"

definition bind_port :: "doc \<Rightarrow> (string \<Rightarrow> string option) \<Rightarrow> jsnum" where
  "bind_port conn env = (let own = (case fld conn ''ipAddressLocalBind'' of Str s \<Rightarrow>
         (if trim s = [] then num 51930 else (case split_char (CHR '':'') s of _ # p # _ \<Rightarrow> if num_is_nan (parse_int p) then num 51930 else parse_int p | _ \<Rightarrow> num 51930))
       | _ \<Rightarrow> num 51930) in
     case env ''JS_N8N_BIND_PORT'' of Some p \<Rightarrow> if p \<noteq> [] then parse_int p else own | None \<Rightarrow> own)"

definition start_listener :: "doc \<Rightarrow> doc \<Rightarrow> n8n_listener" where
  "start_listener conn opts = \<lparr>allowedIps = (case fld conn ''ipAddresses'' of Arr vs \<Rightarrow> vs | _ \<Rightarrow> []), basicUser = js_or (fld conn ''username'') (Str []),
     basicPass = js_or (fld conn ''password'') (Str []), enableDirectCommands = (fld conn ''commandsEnabled'' \<noteq> Bool False \<and> fld opts ''enableDirectCommands'' = Bool True),
     autoCreateTags = (fld conn ''autoCreateTags'' \<noteq> Bool False)\<rparr>"

definition parse_options :: "doc \<Rightarrow> jsval" where
  "parse_options conn = (case fld conn ''options'' of Str s \<Rightarrow> if trim s = [] then Obj [] else (case json_parse s of Inr v \<Rightarrow> v | Inl _ \<Rightarrow> Obj []) | _ \<Rightarrow> Obj [])"

end
