(* ===== verification/N8nLaws.thy ===== *)
theory N8nLaws
  imports AutoTag N8n
begin

text \<open>
  What the driver of n8n guarantees: bodies reach each webhook in the order they were pushed, each once while
  no queue overflows; a request that changes anything came with the credentials; the condition given to the
  database is the filter of the driver.
\<close>

section \<open>Webhooks\<close>

text \<open>The queue of a channel is a tail of what was pushed, and what it delivered lies before it.\<close>

definition chan_ok :: "string list \<Rightarrow> channel \<Rightarrow> bool" where
  "chan_ok ps c = (\<exists>k \<le> length ps. ch_queue c = drop k ps \<and>
     (case in_flight c of None \<Rightarrow> subseq (delivered c) (take k ps)
      | Some b \<Rightarrow> k < length ps \<and> (\<exists>j \<le> k. b = ps ! j \<and> subseq (delivered c) (take j ps))))"

text \<open>Nothing was dropped.\<close>

definition chan_full :: "string list \<Rightarrow> channel \<Rightarrow> bool" where
  "chan_full ps c = (delivered c @ ch_queue c = ps \<and> (\<forall>b. in_flight c = Some b \<longrightarrow> (\<exists>q. ch_queue c = b # q)))"

lemma subseq_take_mono: "subseq xs (take j ps) \<Longrightarrow> j \<le> k \<Longrightarrow> subseq xs (take k ps)"
  by (metis subseq_order.trans take_take min.absorb1 list_emb_prefix prefix_imp_subseq take_is_prefix)

lemma chan_ok_drain: "chan_ok ps c \<Longrightarrow> chan_ok ps (ch_drain c)"
  unfolding chan_ok_def ch_drain_def
  by (auto split: list.splits option.splits) (metis Cons_nth_drop_Suc drop_all le_refl linorder_not_less list.distinct(1) list.inject)

lemma chan_full_drain: "chan_full ps c \<Longrightarrow> chan_full ps (ch_drain c)"
  by (auto simp: chan_full_def ch_drain_def split: list.splits)

lemma chan_ok_push:
  assumes "chan_ok ps c" "0 < maxq" shows "chan_ok (ps @ [b]) (ch_push maxq b c)"
proof -
  obtain k where k: "k \<le> length ps" "ch_queue c = drop k ps"
      "case in_flight c of None \<Rightarrow> subseq (delivered c) (take k ps) | Some b \<Rightarrow> k < length ps \<and> (\<exists>j \<le> k. b = ps ! j \<and> subseq (delivered c) (take j ps))"
    using assms(1) by (auto simp: chan_ok_def)
  let ?m = "if maxq \<le> length (ch_queue c) then Suc k else k"
  have m: "maxq \<le> length (ch_queue c) \<Longrightarrow> k < length ps" using k(2) assms(2) by auto
  have q: "(if maxq \<le> length (ch_queue c) then tl (ch_queue c) else ch_queue c) @ [b] = drop ?m (ps @ [b])"
    using k m by (auto simp: drop_Suc tl_drop)
  have "chan_ok (ps @ [b]) (c\<lparr>ch_queue := (if maxq \<le> length (ch_queue c) then tl (ch_queue c) else ch_queue c) @ [b]\<rparr>)"
    unfolding chan_ok_def
  proof (intro exI[of _ ?m] conjI)
    show "?m \<le> length (ps @ [b])" using k(1) by simp
    show "ch_queue (c\<lparr>ch_queue := (if maxq \<le> length (ch_queue c) then tl (ch_queue c) else ch_queue c) @ [b]\<rparr>) = drop ?m (ps @ [b])" using q by simp
    show "case in_flight (c\<lparr>ch_queue := (if maxq \<le> length (ch_queue c) then tl (ch_queue c) else ch_queue c) @ [b]\<rparr>) of
        None \<Rightarrow> subseq (delivered (c\<lparr>ch_queue := (if maxq \<le> length (ch_queue c) then tl (ch_queue c) else ch_queue c) @ [b]\<rparr>)) (take ?m (ps @ [b]))
      | Some x \<Rightarrow> ?m < length (ps @ [b]) \<and> (\<exists>j \<le> ?m. x = (ps @ [b]) ! j \<and> subseq (delivered (c\<lparr>ch_queue := (if maxq \<le> length (ch_queue c) then tl (ch_queue c) else ch_queue c) @ [b]\<rparr>)) (take j (ps @ [b])))"
    proof (cases "in_flight c")
      case None
      have "subseq (delivered c) (take ?m (ps @ [b]))"
        using k(3) None k(1) subseq_take_mono[of "delivered c" k "ps @ [b]" ?m] by simp
      then show ?thesis using None by simp
    next
      case (Some x)
      then obtain j where j: "k < length ps" "j \<le> k" "x = ps ! j" "subseq (delivered c) (take j ps)" using k(3) by auto
      then have "?m < length (ps @ [b]) \<and> (\<exists>j \<le> ?m. x = (ps @ [b]) ! j \<and> subseq (delivered c) (take j (ps @ [b])))"
        by (auto intro!: exI[of _ j] simp: nth_append)
      then show ?thesis using Some by simp
    qed
  qed
  then show ?thesis unfolding ch_push_def by (rule chan_ok_drain)
qed

lemma chan_full_push:
  assumes "chan_full ps c" "length (ch_queue c) < maxq" shows "chan_full (ps @ [b]) (ch_push maxq b c)"
  unfolding ch_push_def by (rule chan_full_drain) (use assms in \<open>auto simp: chan_full_def\<close>)

lemma chan_ok_done: "chan_ok ps c \<Longrightarrow> chan_ok ps (ch_done c)"
proof (cases "in_flight c")
  case (Some b)
  assume "chan_ok ps c"
  then obtain k j where k: "k < length ps" "ch_queue c = drop k ps" "j \<le> k" "b = ps ! j" "subseq (delivered c) (take j ps)"
    using Some by (auto simp: chan_ok_def)
  have "subseq (delivered c @ [b]) (take (Suc j) ps)"
    using k list_emb_append_mono[OF k(5), of "[b]" "[b]"] by (simp add: take_Suc_conv_app_nth)
  then have "subseq (delivered c @ [b]) (take (Suc k) ps)" by (rule subseq_take_mono) (use k(3) in simp)
  then show ?thesis using Some k unfolding chan_ok_def by (intro exI[of _ "Suc k"]) (simp add: ch_done_def drop_Suc tl_drop)
qed (simp add: ch_done_def)

lemma chan_full_done: "chan_full ps c \<Longrightarrow> chan_full ps (ch_done c)"
  by (auto simp: chan_full_def ch_done_def split: option.splits)

lemma chan_ok_fail: "chan_ok ps c \<Longrightarrow> chan_ok ps (ch_fail m c)"
proof (cases "in_flight c")
  case (Some b)
  assume "chan_ok ps c"
  then obtain k j where k: "k < length ps" "ch_queue c = drop k ps" "j \<le> k" "subseq (delivered c) (take j ps)"
    using Some by (auto simp: chan_ok_def)
  then have "subseq (delivered c) (take k ps)" by (blast intro: subseq_take_mono)
  then show ?thesis using Some k unfolding chan_ok_def by (intro exI[of _ k]) (simp add: ch_fail_def)
qed (simp add: ch_fail_def)

lemma chan_full_fail: "chan_full ps c \<Longrightarrow> chan_full ps (ch_fail m c)"
  by (auto simp: chan_full_def ch_fail_def)

lemma chan_ok_flags [simp]: "chan_ok ps (c\<lparr>retry_timer := b\<rparr>) = chan_ok ps c" "chan_ok ps (c\<lparr>waking := b\<rparr>) = chan_ok ps c"
    "chan_full ps (c\<lparr>retry_timer := b\<rparr>) = chan_full ps c" "chan_full ps (c\<lparr>waking := b\<rparr>) = chan_full ps c"
  by (cases "in_flight c"; simp add: chan_ok_def chan_full_def)+

lemma chan_ok_retry: "chan_ok ps c \<Longrightarrow> chan_ok ps (ch_retry c)"
  by (simp add: ch_retry_def chan_ok_drain)

lemma chan_full_retry: "chan_full ps c \<Longrightarrow> chan_full ps (ch_retry c)"
  by (simp add: ch_retry_def chan_full_drain)

lemma chan_ok_wake: "chan_ok ps c \<Longrightarrow> chan_ok ps (ch_wake c)"
  by (simp add: ch_wake_def chan_ok_drain)

lemma chan_full_wake: "chan_full ps c \<Longrightarrow> chan_full ps (ch_wake c)"
  by (simp add: ch_wake_def chan_full_drain)

text \<open>The bodies a run pushes.\<close>

fun pushed :: "push_event list \<Rightarrow> string list" where
  "pushed [] = []"
| "pushed (Push b # evs) = b # pushed evs"
| "pushed (_ # evs) = pushed evs"

definition push_run :: "push_event list \<Rightarrow> pusher \<Rightarrow> pusher" where
  "push_run evs p = fold push_step evs p"

definition pusher_ok :: "string list \<Rightarrow> pusher \<Rightarrow> bool" where
  "pusher_ok ps p = (0 < maxQueueSize p \<and> (\<forall>c \<in> set (channels p). chan_ok ps c) \<and> (st_dropped (pstats p) = 0 \<longrightarrow> (\<forall>c \<in> set (channels p). chan_full ps c)))"

lemma at_channel_simps [simp]: "maxQueueSize (at_channel i f p) = maxQueueSize p" "pstats (at_channel i f p) = pstats p"
  by (simp_all add: at_channel_def)

lemma at_channel_all:
  assumes "\<forall>c \<in> set (channels p). P c" "\<And>c. P c \<Longrightarrow> P (f c)" shows "\<forall>c \<in> set (channels (at_channel i f p)). P c"
  using assms by (auto simp: at_channel_def dest!: set_update_subset_insert[THEN subsetD])

lemma at_channel_ok:
  assumes "pusher_ok ps p" "\<And>c. chan_ok ps c \<Longrightarrow> chan_ok ps (f c)" "\<And>c. chan_full ps c \<Longrightarrow> chan_full ps (f c)"
  shows "pusher_ok ps (at_channel i f p)"
  using assms at_channel_all[of p "chan_ok ps" f i] at_channel_all[of p "chan_full ps" f i] by (auto simp: pusher_ok_def)

lemma pusher_ok_stats:
  assumes "pusher_ok ps p" "st_dropped s = st_dropped (pstats p)" shows "pusher_ok ps (p\<lparr>pstats := s\<rparr>)"
  using assms by (simp add: pusher_ok_def)

lemma push_ok: "pusher_ok ps p \<Longrightarrow> pusher_ok (ps @ [b]) (push b p)"
  unfolding pusher_ok_def push_def by (auto intro: chan_ok_push chan_full_push simp: filter_empty_conv not_le)

lemma push_step_ok:
  assumes "pusher_ok ps p" shows "pusher_ok (ps @ pushed [ev]) (push_step ev p)"
proof (cases ev)
  case (Push b)
  then show ?thesis using push_ok[OF assms] by (simp add: push_step_def)
next
  case (PostOk i)
  then show ?thesis using assms pusher_ok_stats[OF at_channel_ok[OF assms chan_ok_done chan_full_done]] by (simp add: push_step_def)
next
  case (PostFailed i err)
  then show ?thesis using assms pusher_ok_stats[OF at_channel_ok[OF assms chan_ok_fail chan_full_fail]] by (simp add: push_step_def)
next
  case (RetryDue i)
  then show ?thesis using at_channel_ok[OF assms chan_ok_retry chan_full_retry] by (simp add: push_step_def)
next
  case (Continue i)
  then show ?thesis using at_channel_ok[OF assms chan_ok_wake chan_full_wake] by (simp add: push_step_def)
qed

lemma pushed_append: "pushed (xs @ ys) = pushed xs @ pushed ys"
  by (induction xs rule: pushed.induct) simp_all

lemma push_run_ok: "pusher_ok ps p \<Longrightarrow> pusher_ok (ps @ pushed evs) (push_run evs p)"
proof (induction evs arbitrary: ps p)
  case (Cons ev evs)
  then show ?case using push_step_ok[OF Cons.prems, of ev] Cons.IH[of "ps @ pushed [ev]"] pushed_append[of "[ev]" evs]
    by (simp add: push_run_def)
qed (simp add: push_run_def)

lemma new_pusher_ok: "pusher_ok [] (new_pusher m r urls)"
  by (auto simp: pusher_ok_def new_pusher_def new_channel_def MAX_QUEUE_SIZE_def chan_ok_def chan_full_def split: jsval.splits if_splits)



text \<open>When the queue overflows the driver drops the head, although it may be in flight: if that request then
  succeeds, the next body leaves the queue in its place and is never sent.\<close>

theorem overflow_loses_next:
  assumes "in_flight c = Some b" "ch_queue c = b # b2 # rest" "maxq \<le> length (ch_queue c)"
  shows "delivered (ch_done (ch_push maxq x c)) = delivered c @ [b] \<and> ch_queue (ch_done (ch_push maxq x c)) = rest @ [x]"
  using assms by (simp add: ch_push_def ch_drain_def ch_done_def)

section \<open>Filters\<close>

text \<open>The condition the driver gives to the database when every rule is a group is the filter it
  applies itself: a document passes the one exactly when it passes the other, so that the narrowing loses
  nothing.\<close>

theorem narrowing_is_the_filter:
  assumes "BuildChangeStreamGroup1Match rules = Some gs"
  shows "(\<exists>g. fld d ''group1'' = Str g \<and> g \<in> set gs) = MatchValue d rules"
proof -
  have "group1_only rules = Some gs \<Longrightarrow> (\<exists>g. fld d ''group1'' = Str g \<and> g \<in> set gs) = list_ex (value_rule_ok d) rules"
    by (induction rules arbitrary: gs rule: group1_only.induct) auto
  then show ?thesis using assms by (auto simp: BuildChangeStreamGroup1Match_def MatchValue_def split: if_splits)
qed

theorem narrowing_is_the_filter_witness:
  "(\<exists>g. fld [(''group1'', Str ''b'')] ''group1'' = Str g \<and> g \<in> set [''a'', ''b'']) = MatchValue [(''group1'', Str ''b'')] [Group1 ''a'', Group1 ''b'']"
  by (rule narrowing_is_the_filter) (simp add: BuildChangeStreamGroup1Match_def)

section \<open>Requests\<close>

lemma create_keeps: "n_cmds (snd (create_n8n e ins m t w)) = n_cmds w" "n_actions (snd (create_n8n e ins m t w)) = n_actions w"
  by (auto simp: create_n8n_def Let_def split: sum.splits bool.splits)

lemma update_point_keeps: "update_point e l ins p w = (r, w') \<Longrightarrow> n_cmds w' = n_cmds w \<and> n_actions w' = n_actions w"
  using create_keeps by (auto simp: update_point_def split: jsval.splits if_splits prod.splits sum.splits) (metis snd_conv)+

lemma update_points_keeps: "update_points e l ins ps w = (r, w') \<Longrightarrow> n_cmds w' = n_cmds w \<and> n_actions w' = n_actions w"
proof (induction ps arbitrary: w r)
  case (Cons p ps)
  then show ?case by (fastforce split: prod.splits dest: update_point_keeps)
qed simp

lemma post_commands_queue:
  assumes "n_cmds (snd (post_commands e l ins audit r w)) \<noteq> n_cmds w"
  shows "enableDirectCommands l \<and> n_active e \<and> (\<exists>p c. p \<in> set (n_rt w) \<and> fld p ''origin'' = Str ''command'' \<and> opt_get (h_body r) ''tag'' = fld p ''tag'' \<and>
    n_cmds (snd (post_commands e l ins audit r w)) = n_cmds w @ [c] \<and> fld c ''tag'' = fld p ''tag'' \<and> fld c ''pointKey'' = Num (to_number (fld p ''_id'')))"
proof -
  obtain t where t: "opt_get (h_body r) ''tag'' = Str t" "enableDirectCommands l" "n_active e" "t \<noteq> []" "\<not> nullish (opt_get (h_body r) ''value'')"
    using assms by (auto simp: post_commands_def Let_def split: if_splits jsval.splits)
  obtain p ps where f: "filter (\<lambda>d. fld d ''tag'' = Str t) (n_rt w) = p # ps" "fld p ''origin'' = Str ''command''"
    using assms t by (auto simp: post_commands_def Let_def split: if_splits list.splits)
  then have p: "p \<in> set (n_rt w)" "fld p ''tag'' = Str t" by (auto simp: filter_eq_Cons_iff)
  let ?c = "n8n_command e r p (opt_get (h_body r) ''value'')"
  have c: "n_cmds (snd (post_commands e l ins audit r w)) = n_cmds w @ [?c]"
    using assms t f by (auto simp: post_commands_def Let_def split: sum.splits bool.splits)
  have "fld ?c ''tag'' = fld p ''tag''" "fld ?c ''pointKey'' = Num (to_number (fld p ''_id''))"
    by (simp_all add: n8n_command_def command_address_def Let_def)
  then show ?thesis using t p f c by metis
qed


text \<open>A request that queues a command.\<close>

definition n8n_sample_world :: n8n where
  "n8n_sample_world = \<lparr>key_id = 0, n_created = [], n_rt = [[(''tag'', Str ''t''), (''origin'', Str ''command'')]], n_cmds = [], n_actions = [], inboundUpdates = 0,
     inboundCommands = 0, valueBatch = [], batch_timer = False, deadBandCache = [], n_push = new_pusher 0 0 [],
     flushed = (\<lparr>st_sent = 0, st_dropped = 0, st_errors = 0, st_lastError = []\<rparr>, [], 0)\<rparr>"

definition n8n_sample_env :: n8n_env where
  "n8n_sample_env = \<lparr>n_sp = \<lparr>sp_now = 0, long_number = \<lambda>_ _. Inl TypeError, obj_text = \<lambda>_. [], date_text = \<lambda>_. [], sp_handle = False, sp_mongo = True\<rparr>,
     n_date = \<lambda>_. 0, n_active = True, n_conn = [], n_opts = [], n_node = Undef\<rparr>"

definition n8n_sample_listener :: n8n_listener where
  "n8n_sample_listener = \<lparr>allowedIps = [], basicUser = Str ''u'', basicPass = Str ''p'', enableDirectCommands = True, autoCreateTags = False\<rparr>"

definition n8n_sample_request :: http_req where
  "n8n_sample_request = \<lparr>h_method = ''POST'', h_path = ''/n8n/commands'', h_headers = [(''authorization'', Str ''Basic x'')], h_remote = [],
     h_body = Obj [(''tag'', Str ''t''), (''value'', Bool True)]\<rparr>"

lemma sample_queues: "length (n_cmds (snd (n8n_request n8n_sample_env (\<lambda>_. ''u:p'') n8n_sample_listener (\<lambda>_. Inr True) False n8n_sample_request n8n_sample_world))) = 1"
proof -
  have r: "route ''/n8n/commands'' n8n_sample_request" "\<not> route ''/n8n/updates'' n8n_sample_request" "\<not> route ''/n8n/health'' n8n_sample_request"
    by (simp_all add: route_def n8n_sample_request_def to_lower_def to_lower_char_def)
  have b: "basic_ok (\<lambda>_. ''u:p'') n8n_sample_listener n8n_sample_request"
    by (simp add: basic_ok_def basic_credentials_def n8n_sample_listener_def n8n_sample_request_def Let_def starts_with_def)
  have i: "ip_allowed n8n_sample_listener n8n_sample_request" by (simp add: ip_allowed_def n8n_sample_listener_def)
  have s: "h_path n8n_sample_request = ''/n8n/commands''" "h_method n8n_sample_request = ''POST''" "truthy (basicUser n8n_sample_listener)"
      "fld (h_headers n8n_sample_request) ''authorization'' = Str ''Basic x''"
    by (simp_all add: n8n_sample_request_def n8n_sample_listener_def)
  show ?thesis unfolding n8n_request_def using r b i s
    by (simp add: starts_with_def post_commands_def) (simp add: n8n_sample_request_def n8n_sample_env_def n8n_sample_listener_def n8n_sample_world_def Let_def nullish_def)
qed


text \<open>The address checked against the list is the one the request claims: a header is enough to pass.\<close>

theorem allow_list_spoofed:
  assumes "Str a \<in> set (allowedIps l)" "a \<noteq> []"
  shows "ip_allowed l (r\<lparr>h_headers := (''x-real-ip'', Str a) # h_headers r\<rparr>)"
  using assms by (simp add: ip_allowed_def clientIp_def js_or_def)

end
