(* ===== verification/Telegraf.thy ===== *)
theory Telegraf
  imports AutoTag MqttPlain Redundancy
begin

text \<open>
  The driver that listens to Telegraf (\<open>telegraf-listener/index.js\<close>): a datagram with the metrics of a
  measurement becomes entries of a queue, which a timer stores as tags and updates of the database. Its copy
  of the redundancy control is a variant of the module of \<open>Redundancy\<close>. The tags and the keys are kept as
  in \<open>AutoTag\<close>; the outcomes of the database are parameters.
\<close>

section \<open>Text of a parsed value\<close>

text \<open>A value read by \<open>JSON.parse\<close> has a text unless it contains an object with an own property
  \<open>toString\<close>, which is no function: \<open>String(v)\<close>, \<open>v.toString()\<close> and the coercion to a number then throw.\<close>

fun has_text :: "jsval \<Rightarrow> bool" where
  "has_text (Obj d) = (\<not> has_key ''toString'' d)"
| "has_text (Arr vs) = (\<forall>v \<in> set vs. has_text v)"
| "has_text _ = True"

definition text_of :: "jsval \<Rightarrow> js_error + string" where
  "text_of v = (if has_text v then Inr (to_string v) else Inl TypeError)"

section \<open>Start\<close>

definition tl_instance :: "string list \<Rightarrow> (string \<Rightarrow> string option) \<Rightarrow> jsval" where
  "tl_instance args env = (let i = (if 0 < length args then Num (parse_int (args ! 0)) else Null) in
     js_or (js_or i (case env ''JS_TELEGRAF_LISTENER_INSTANCE'' of Some s \<Rightarrow> Str s | None \<Rightarrow> Undef)) (Num (num 1)))"

definition tl_level :: "string list \<Rightarrow> (string \<Rightarrow> string option) \<Rightarrow> jsval" where
  "tl_level args env = (let l = (if 1 < length args then Num (parse_int (args ! 1)) else Null) in
     js_or (js_or l (case env ''JS_TELEGRAF_LISTENER_LOGLEVEL'' of Some s \<Rightarrow> Str s | None \<Rightarrow> Undef)) (Num (num 1)))"

definition tl_options :: "jsval \<Rightarrow> doc \<Rightarrow> doc" where
  "tl_options inst c =
     [(''appname'', Str (''TELEGRAF-LISTENER Version:0.1.4 Instance:'' @ to_string inst)), (''maxPoolSize'', Num (num 20)), (''readPreference'', Str ''primary'')] @
     (case fld c ''tlsCaPemFile'' of
        Str ca \<Rightarrow> if trim ca = [] then [] else
          [(''tls'', Bool True), (''tlsCAFile'', Str ca), (''tlsCertificateKeyFile'', fld c ''tlsClientPemFile''),
           (''tlsCertificateKeyFilePassword'', js_or (fld c ''tlsClientKeyPassword'') (Str [])),
           (''tlsAllowInvalidHostnames'', js_or (fld c ''tlsAllowInvalidHostnames'') (Bool False)), (''tlsInsecure'', js_or (fld c ''tlsInsecure'') (Bool False))]
      | _ \<Rightarrow> [])"

text \<open>What a connection to the database sets. The socket is bound once; an error leaves what was set
  before it.\<close>

record listener =
  l_autoCreate :: bool
  l_address :: string
  l_port :: jsval
  l_origins :: "jsval list"
  l_bound :: "(string \<times> jsval) option"
  l_conn :: jsval

definition tl_bind :: "doc \<Rightarrow> listener \<Rightarrow> js_error + listener" where
  "tl_bind c l = (if \<not> has_key ''ipAddressLocalBind'' c then Inr l
     else (case fld c ''ipAddressLocalBind'' of
         Str s \<Rightarrow> if trim s = [] then Inr l
           else (let aux = split_char (CHR '':'') s; l1 = l\<lparr>l_address := hd aux\<rparr> in
             if 1 < length aux \<and> \<not> num_is_nan (parse_int (aux ! 1)) then Inr (l1\<lparr>l_port := Num (parse_int (aux ! 1))\<rparr>) else Inr l1)
       | _ \<Rightarrow> Inl TypeError))"

definition tl_configure :: "doc \<Rightarrow> listener \<Rightarrow> (js_error + unit) \<times> listener" where
  "tl_configure c l =
     (let l1 = (if has_key ''autoCreateTags'' c then l\<lparr>l_autoCreate := truthy (fld c ''autoCreateTags'')\<rparr> else l) in
      case tl_bind c l1 of Inl err \<Rightarrow> (Inl err, l1)
      | Inr l2 \<Rightarrow> (let l3 = (case fld c ''ipAddresses'' of Arr vs \<Rightarrow> l2\<lparr>l_origins := vs\<rparr> | _ \<Rightarrow> l2);
            l4 = (if l_bound l3 = None then l3\<lparr>l_bound := Some (l_address l3, l_port l3)\<rparr> else l3) in
          (Inr (), l4\<lparr>l_conn := fld c ''protocolConnectionNumber''\<rparr>)))"

text \<open>The connection of the instance, or the code the process exits with.\<close>

definition tl_connection :: "jsval \<Rightarrow> doc list \<Rightarrow> nat + doc" where
  "tl_connection inst conns =
     (case filter (\<lambda>c. fld c ''protocolDriver'' = Str ''TELEGRAF-LISTENER'' \<and> strict_eq (fld c ''protocolDriverInstanceNumber'') inst) conns of
        [] \<Rightarrow> Inl 1
      | c # _ \<Rightarrow> if \<not> has_key ''protocolConnectionNumber'' c then Inl 2 else if fld c ''enabled'' = Bool False then Inl 3 else Inr c)"

definition tl_variant :: red_variant where
  "tl_variant = \<lparr>nameField = ''protocolDriver'', numberField = ''protocolDriverInstanceNumber'',
     connectedGuard = True, arrayGuard = False, fixedLogLevel = Some (Fin 1), statsField = Some (Obj [])\<rparr>"

definition tl_redundancy :: "red_config \<Rightarrow> bool \<Rightarrow> doc option \<Rightarrow> jsnum \<Rightarrow> red_state \<Rightarrow> red_result" where
  "tl_redundancy = process_redundancy tl_variant"

section \<open>Messages\<close>

record tl_entry =
  e_tag :: string
  e_value :: jsval
  e_group1 :: jsval
  e_group2 :: string
  e_group3 :: string
  e_ungrouped :: string
  e_invalid :: bool
  e_time :: jsnum

definition notEmpty :: "jsval \<Rightarrow> bool" where
  "notEmpty v = (case v of Str s \<Rightarrow> trim s \<noteq> [] | _ \<Rightarrow> False)"

definition addGrpIfNotEmpty :: "jsval \<Rightarrow> string" where
  "addGrpIfNotEmpty v = (case v of Str s \<Rightarrow> if trim s \<noteq> [] then s @ ''~'' else [] | _ \<Rightarrow> [])"

text \<open>The levels before the last slash and the last one.\<close>

definition split_last :: "string \<Rightarrow> string \<times> string" where
  "split_last t = (if CHR ''/'' \<notin> set t then (t, t)
     else (rev (tl (dropWhile (\<lambda>c. c \<noteq> CHR ''/'') (rev t))), rev (takeWhile (\<lambda>c. c \<noteq> CHR ''/'') (rev t))))"

text \<open>The second group: its part of the grouping, the group and the description.\<close>

definition second_group :: "jsval \<Rightarrow> string \<times> string \<times> string" where
  "second_group tags = (let g = opt_get tags ''group2''; t = opt_get tags ''topic''; h = opt_get tags ''host'' in
     if notEmpty g then (addGrpIfNotEmpty g, to_string g, [])
     else if notEmpty t then (let (g2, u) = split_last (to_string t) in (g2 @ ''~'', g2, u))
     else if notEmpty h then (addGrpIfNotEmpty h, to_string h, [])
     else ([], [], []))"

definition skipped_tags :: "string list" where
  "skipped_tags = [''instance'', ''host'', ''hostname'', ''node_type'', ''rs_name'', ''topic'', ''group1'', ''group2'', ''group3'']"

fun other_tags :: "(string \<times> jsval) list \<Rightarrow> string \<Rightarrow> js_error + string" where
  "other_tags [] g = Inr g"
| "other_tags ((k, v) # es) g = (if k \<in> set skipped_tags \<or> v = Str [] then other_tags es g
     else bindS (text_of v) (\<lambda>s. other_tags es (if s \<in> set (split_char (CHR ''~'') g) then g else g @ s @ ''~'')))"

definition tl_grouping :: "jsval \<Rightarrow> jsval \<Rightarrow> js_error + string" where
  "tl_grouping data tags = (let g1 = opt_get tags ''group1'';
       g = addGrpIfNotEmpty (if notEmpty g1 then g1 else opt_get data ''name'') @ fst (second_group tags) @ addGrpIfNotEmpty (opt_get tags ''group3'') in
     bindS (if truthy (opt_get tags ''group2'') \<and> truthy (opt_get tags ''group3'') then Inr g else other_tags (js_entries tags) g)
       (\<lambda>g'. Inr (g' @ addGrpIfNotEmpty (opt_get tags ''instance''))))"

text \<open>The quality of all fields, before any entry is queued.\<close>

fun fields_invalid :: "(string \<times> jsval) list \<Rightarrow> js_error + bool" where
  "fields_invalid [] = Inr False"
| "fields_invalid ((k, v) # es) = (if k = ''Quality'' \<and> \<not> nullish v
     then bindS (text_of v) (\<lambda>s. bindS (fields_invalid es) (\<lambda>b. Inr (index_of ''OK'' s = -1 \<or> b))) else fields_invalid es)"

text \<open>\<open>s.replace(/~\s*$/, '')\<close>.\<close>

definition strip_sep :: "string \<Rightarrow> string" where
  "strip_sep s = (case dropWhile is_space (rev s) of c # r \<Rightarrow> if c = CHR ''~'' then rev r else s | [] \<Rightarrow> s)"

text \<open>The entries of the fields; \<open>e\<close> holds what they share and the description so far.\<close>

fun field_entries :: "string \<Rightarrow> tl_entry \<Rightarrow> (string \<times> jsval) list \<Rightarrow> tl_entry list" where
  "field_entries g e [] = []"
| "field_entries g e ((k, v) # es) = (if k = ''Quality'' \<or> nullish v then field_entries g e es
     else if k = ''value'' then
       e\<lparr>e_tag := if e_ungrouped e = [] then strip_sep g else g @ e_ungrouped e, e_value := v\<rparr> # field_entries g e es
     else (let e1 = e\<lparr>e_ungrouped := k\<rparr> in e1\<lparr>e_tag := g @ k, e_value := v\<rparr> # field_entries g e1 es))"

definition object_or_empty :: "jsval \<Rightarrow> jsval" where
  "object_or_empty v = (case v of Obj d \<Rightarrow> v | Arr vs \<Rightarrow> v | _ \<Rightarrow> Obj [])"

definition message_time :: "int \<Rightarrow> jsval \<Rightarrow> js_error + jsnum" where
  "message_time now ts = (if \<not> has_text ts then Inl TypeError
     else (let t = time_clip (num_mul (num 1000) (to_number ts)) in Inr (if num_is_nan t then num now else t)))"

definition processMessageJSON :: "int \<Rightarrow> jsval \<Rightarrow> js_error + tl_entry list" where
  "processMessageJSON now data =
     (if \<not> (case data of Obj _ \<Rightarrow> True | Arr _ \<Rightarrow> True | _ \<Rightarrow> False) then Inr []
      else (let tags = object_or_empty (opt_get data ''tags''); fields = js_entries (object_or_empty (opt_get data ''fields''));
           g1 = opt_get tags ''group1''; g3 = opt_get tags ''group3''; (p, g2, u) = second_group tags in
        bindS (tl_grouping data tags) (\<lambda>g. bindS (message_time now (opt_get data ''timestamp'')) (\<lambda>t. bindS (fields_invalid fields) (\<lambda>b.
          Inr (field_entries g \<lparr>e_tag = [], e_value = Undef, e_group1 = if notEmpty g1 then g1 else opt_get data ''name'', e_group2 = g2,
            e_group3 = if notEmpty g3 then to_string g3 else [], e_ungrouped = u, e_invalid = b, e_time = t\<rparr> fields))))))"

text \<open>A datagram from an address; an exception is logged and the datagram is lost.\<close>

definition tl_on_message :: "int \<Rightarrow> jsval list \<Rightarrow> bool \<Rightarrow> string \<Rightarrow> string \<Rightarrow> tl_entry list \<Rightarrow> tl_entry list" where
  "tl_on_message now origins active address msg q =
     (if origins \<noteq> [] \<and> Str address \<notin> set origins then q
      else (case json_parse msg of Inl _ \<Rightarrow> q
        | Inr data \<Rightarrow> if \<not> active then q else (case processMessageJSON now data of Inl _ \<Rightarrow> q | Inr es \<Rightarrow> q @ es)))"

section \<open>Updates\<close>

definition TL_AutoKeyMultiplier :: int where "TL_AutoKeyMultiplier = 100000"

definition tl_first_key :: "jsnum \<Rightarrow> autotag \<Rightarrow> autotag" where
  "tl_first_key connNo w = (let b = connNo * num TL_AutoKeyMultiplier in
     case last_key b ((connNo + num 1) * num TL_AutoKeyMultiplier) (rt w) of None \<Rightarrow> w\<lparr>autoKeyId := b\<rparr>
     | Some k \<Rightarrow> (let p = parse_int (num_to_string k) in w\<lparr>autoKeyId := (if b \<le> p then p else b)\<rparr>))"

definition value_type :: "jsval \<Rightarrow> string" where
  "value_type v = (case v of Bool _ \<Rightarrow> ''digital'' | Num x \<Rightarrow> if num_is_nan x then ''string'' else ''analog'' | _ \<Rightarrow> ''string'')"

definition rtData :: "jsnum \<Rightarrow> jsnum \<Rightarrow> tl_entry \<Rightarrow> js_error + doc" where
  "rtData connNo key m = (let s = Str []; f = Bool False; z = Num (num 0); one = Num (num 1); v = e_value m in
     map_sum id (\<lambda>txt.
     [(''_id'', Num key), (''protocolSourceASDU'', s), (''protocolSourceCommonAddress'', s), (''protocolSourceConnectionNumber'', Num connNo),
      (''protocolSourceObjectAddress'', Str (e_tag m)), (''protocolSourceCommandDuration'', z), (''protocolSourceCommandUseSBO'', f), (''alarmState'', Num (num (-1))),
      (''alarmRange'', z), (''description'', Str (e_tag m)), (''ungroupedDescription'', Str (e_ungrouped m)), (''group1'', e_group1 m), (''group2'', Str (e_group2 m)),
      (''group3'', Str (e_group3 m)), (''stateTextFalse'', s), (''stateTextTrue'', s), (''eventTextFalse'', s), (''eventTextTrue'', s), (''origin'', Str ''supervised''),
      (''tag'', Str (e_tag m)), (''type'', Str (value_type v)), (''value'', Num (case v of Bool b \<Rightarrow> num (if b then 1 else 0) | Num x \<Rightarrow> x | _ \<Rightarrow> num 0)),
      (''valueString'', Str txt), (''alarmDisabled'', f), (''alerted'', f), (''alarmed'', f), (''alertState'', s), (''annotation'', s), (''commandBlocked'', f),
      (''commandOfSupervised'', z), (''commissioningRemarks'', Str ''Auto created by TELEGRAF-LISTENER''), (''formula'', z), (''frozen'', f), (''frozenDetectTimeout'', z),
      (''hiLimit'', Num max_value), (''hihiLimit'', Num max_value), (''hihihiLimit'', Num max_value), (''historianDeadBand'', z), (''historianPeriod'', z), (''hysteresis'', z),
      (''invalid'', Bool (e_invalid m)), (''invalidDetectTimeout'', Num (num 60000)), (''isEvent'', f), (''kconv1'', one), (''kconv2'', z), (''location'', Null),
      (''loLimit'', Num (- max_value)), (''loloLimit'', Num (- max_value)), (''lololoLimit'', Num (- max_value)), (''notes'', s), (''overflow'', f), (''parcels'', Null),
      (''priority'', z), (''protocolDestinations'', Null), (''sourceDataUpdate'', Null), (''substituted'', f), (''supervisedOfCommand'', z), (''timeTag'', Null),
      (''timeTagAlarm'', Null), (''timeTagAtSource'', Date (e_time m)), (''timeTagAtSourceOk'', f), (''transient'', f), (''unit'', s), (''updatesCnt'', z),
      (''valueDefault'', z), (''zeroDeadband'', z)]) (text_of v))"

definition tl_update :: "int \<Rightarrow> jsnum \<Rightarrow> tl_entry \<Rightarrow> js_error + doc" where
  "tl_update now connNo m = (let v = e_value m; f = Bool False in
     map_sum id (\<lambda>txt.
     [(''valueAtSource'', Num (case v of Bool b \<Rightarrow> num (if b then 1 else 0) | _ \<Rightarrow> parse_float txt)), (''valueStringAtSource'', Str txt),
      (''valueJsonAtSource'', case json_parse txt of Inr j \<Rightarrow> j | Inl _ \<Rightarrow> Null), (''asduAtSource'', Str []), (''causeOfTransmissionAtSource'', Str ''3''),
      (''timeTagAtSource'', Date (e_time m)), (''timeTagAtSourceOk'', f), (''timeTag'', Date (num now)), (''originator'', Str (''TELEGRAF-LISTENER|'' @ num_to_string connNo)),
      (''notTopicalAtSource'', f), (''invalidAtSource'', Bool (e_invalid m)), (''overflowAtSource'', f), (''blockedAtSource'', f), (''substitutedAtSource'', f)]) (text_of v))"

text \<open>The outcomes of the database for one entry: the search, the insertion, the update.\<close>

record tl_io =
  io_found :: "js_error + unit"
  io_inserted :: "js_error + bool"
  io_updated :: "js_error + unit"

definition tl_ensure :: "tl_io \<Rightarrow> jsnum \<Rightarrow> tl_entry \<Rightarrow> autotag \<Rightarrow> (js_error + unit) \<times> autotag" where
  "tl_ensure x connNo m w =
     (if e_tag m \<in> set (createdTags w) then (Inr (), w)
      else (case io_found x of Inl err \<Rightarrow> (Inl err, w)
        | Inr _ \<Rightarrow>
            if \<not> tag_missing connNo (e_tag m) w then (Inr (), list_created (e_tag m) w)
            else (let k = autoKeyId w + num 1; w1 = w\<lparr>autoKeyId := k\<rparr> in
              case rtData connNo k m of Inl err \<Rightarrow> (Inl err, w1)
              | Inr d \<Rightarrow> (Inr (), (if io_inserted x = Inr True then list_created (e_tag m) (w1\<lparr>rt := rt w1 @ [d]\<rparr>) else w1)))))"

definition tl_store :: "tl_io \<Rightarrow> int \<Rightarrow> bool \<Rightarrow> jsnum \<Rightarrow> tl_entry \<Rightarrow> autotag \<Rightarrow> (js_error + string \<times> doc) \<times> autotag" where
  "tl_store x now auto connNo m w =
     (case (if auto then tl_ensure x connNo m w else (Inr (), w)) of (Inl err, w1) \<Rightarrow> (Inl err, w1)
      | (Inr _, w1) \<Rightarrow> (case tl_update now connNo m of Inl err \<Rightarrow> (Inl err, w1)
          | Inr u \<Rightarrow> (case io_updated x of Inl err \<Rightarrow> (Inl err, w1)
              | Inr _ \<Rightarrow> (Inr (e_tag m, u), w1\<lparr>rt := update_first (of_point connNo (e_tag m)) (aupd ''sourceDataUpdate'' (Obj u)) (rt w1)\<rparr>))))"

text \<open>A cycle: the head of the queue leaves it once it is stored. The updates made are returned.\<close>

fun tl_drain :: "(nat \<Rightarrow> tl_io) \<Rightarrow> int \<Rightarrow> bool \<Rightarrow> jsnum \<Rightarrow> nat \<Rightarrow> tl_entry list \<Rightarrow> autotag \<Rightarrow> tl_entry list \<times> autotag \<times> (string \<times> doc) list" where
  "tl_drain io now auto connNo i [] w = ([], w, [])"
| "tl_drain io now auto connNo i (m # q) w = (case tl_store (io i) now auto connNo m w of
       (Inl _, w1) \<Rightarrow> (m # q, w1, [])
     | (Inr u, w1) \<Rightarrow> (let (q', w2, us) = tl_drain io now auto connNo (i + 1) q w1 in (q', w2, u # us)))"

definition tl_cycle :: "bool \<Rightarrow> (nat \<Rightarrow> tl_io) \<Rightarrow> int \<Rightarrow> bool \<Rightarrow> jsnum \<Rightarrow> tl_entry list \<Rightarrow> autotag \<Rightarrow> tl_entry list \<times> autotag \<times> (string \<times> doc) list" where
  "tl_cycle up io now auto connNo q w = (if up then tl_drain io now auto connNo 0 q w else (q, w, []))"

end
