(* ===== verification/TelegrafLaws.thy ===== *)
theory TelegrafLaws
  imports Telegraf
begin

text \<open>
  What the listener keeps: a datagram queues its values in order under one quality, the queue is stored in
  order, and where it goes wrong: the name of a field that precedes \<open>value\<close>, a value without a text, an
  instance number from the environment.
\<close>

section \<open>Messages\<close>

definition carries_value :: "string \<times> jsval \<Rightarrow> bool" where
  "carries_value f = (fst f \<noteq> ''Quality'' \<and> \<not> nullish (snd f))"

lemma field_entries_values: "map e_value (field_entries g e fs) = map snd (filter carries_value fs)"
  by (induction g e fs rule: field_entries.induct) (auto simp: carries_value_def Let_def)

lemma field_entries_shared:
  "x \<in> set (field_entries g e fs) \<Longrightarrow> e_invalid x = e_invalid e \<and> e_time x = e_time e \<and> e_group1 x = e_group1 e"
  by (induction g e fs rule: field_entries.induct) (auto simp: Let_def split: if_splits)

lemma field_entries_tags:
  "map e_tag (field_entries g e (filter (\<lambda>f. fst f \<noteq> ''value'') fs)) = map (\<lambda>f. g @ fst f) (filter (\<lambda>f. carries_value f \<and> fst f \<noteq> ''value'') fs)"
  by (induction fs arbitrary: e) (auto simp: carries_value_def Let_def)

text \<open>The quality of a set of fields.\<close>

definition not_ok :: "(string \<times> jsval) list \<Rightarrow> bool" where
  "not_ok fs = (case map_of fs ''Quality'' of None \<Rightarrow> False | Some q \<Rightarrow> \<not> nullish q \<and> index_of ''OK'' (to_string q) = -1)"

lemma no_quality: "''Quality'' \<notin> fst ` set fs \<Longrightarrow> fields_invalid fs = Inr False"
  by (induction fs rule: fields_invalid.induct) auto

lemma fields_invalid_exact:
  assumes "distinct (map fst fs)" "fields_invalid fs = Inr b" shows "b = not_ok fs"
  using assms
proof (induction fs arbitrary: b rule: fields_invalid.induct)
  case (2 k v fs)
  show ?case
  proof (cases "k = ''Quality''")
    case True
    then have n: "fields_invalid fs = Inr False" using "2.prems"(1) no_quality[of fs] by simp
    then show ?thesis using "2.prems"(2) True by (auto simp: not_ok_def text_of_def split: if_splits)
  next
    case False
    then show ?thesis using "2.prems" "2.IH"(2) by (simp add: not_ok_def)
  qed
qed (simp add: not_ok_def)

text \<open>A datagram queues one entry for each of its values, in their order, and all of them carry the quality
  of the datagram, wherever its field stands.\<close>

theorem datagram_entries:
  assumes "processMessageJSON now (Obj d) = Inr es" "fld d ''fields'' = Obj fs" "distinct (map fst fs)"
  shows "map e_value es = map snd (filter carries_value fs) \<and> (\<forall>x \<in> set es. e_invalid x = not_ok fs)"
proof -
  obtain g e b where e: "es = field_entries g e fs" "e_invalid e = b" "fields_invalid fs = Inr b"
    using assms(1,2) by (auto simp: processMessageJSON_def object_or_empty_def js_entries_def Let_def bindS_Inr split: prod.splits)
  then show ?thesis using fields_invalid_exact[OF assms(3) e(3)] by (auto simp: field_entries_values dest: field_entries_shared)
qed

text \<open>The field \<open>value\<close> goes by the name of the measurement, but after another field it takes that field's
  name: both values then go to one tag.\<close>

theorem value_takes_other_name:
  assumes "k \<noteq> ''value''" "k \<noteq> ''Quality''" "k \<noteq> []" "\<not> nullish v" "\<not> nullish w" "e_ungrouped e = []"
  shows "map e_tag (field_entries g e [(k, v), (''value'', w)]) = [g @ k, g @ k] \<and>
    map e_tag (field_entries g e [(''value'', w), (k, v)]) = [strip_sep g, g @ k]"
  using assms by (simp add: Let_def)

section \<open>The queue\<close>

lemma text_of_Inl: "text_of v = Inl err \<Longrightarrow> \<not> has_text v"
  by (simp add: text_of_def split: if_splits)

lemma tl_store_update:
  assumes "tl_store y now auto c m w = (Inr u, w')" shows "fst u = e_tag m \<and> tl_update now c m = Inr (snd u)"
  using assms by (auto simp: tl_store_def split: prod.splits sum.splits)

text \<open>A cycle stores a first part of the queue, in order, and leaves the rest; each entry stored was
  written with its own tag and value.\<close>

theorem drained_in_order:
  assumes "tl_drain io now auto c i q w = (q', w', us)"
  shows "\<exists>k \<le> length q. q' = drop k q \<and> map fst us = map e_tag (take k q) \<and> map (\<lambda>u. Inr (snd u)) us = map (tl_update now c) (take k q)"
  using assms
proof (induction q arbitrary: i w w' us)
  case (Cons m q)
  show ?case
  proof (cases "tl_store (io i) now auto c m w")
    case (Pair r w1)
    show ?thesis
    proof (cases r)
      case (Inl err)
      then show ?thesis using Cons.prems Pair by (intro exI[of _ 0]) simp
    next
      case (Inr u)
      obtain q2 w2 us2 where d: "tl_drain io now auto c (i + 1) q w1 = (q2, w2, us2)" by (cases "tl_drain io now auto c (i + 1) q w1") auto
      then have r: "q' = q2" "us = u # us2" using Cons.prems Pair Inr by simp_all
      obtain k where "k \<le> length q" "q2 = drop k q" "map fst us2 = map e_tag (take k q)" "map (\<lambda>u. Inr (snd u)) us2 = map (tl_update now c) (take k q)"
        using Cons.IH[of "i + 1" w1 w2 us2] d r(1) by blast
      then show ?thesis using r tl_store_update[of "io i" now auto c m w u w1] Pair Inr by (intro exI[of _ "Suc k"]) simp
    qed
  qed
qed simp

lemma tl_ensure_ok:
  assumes "has_text (e_value m)" "io_found y = Inr ()" shows "fst (tl_ensure y c m w) = Inr ()"
  using assms by (auto simp: tl_ensure_def rtData_def text_of_def Let_def)

lemma tl_store_ok:
  assumes "has_text (e_value m)" "io_found y = Inr ()" "io_updated y = Inr ()"
  shows "\<exists>u. fst (tl_store y now auto c m w) = Inr u"
  using assms tl_ensure_ok[OF assms(1,2), of c w] by (auto simp: tl_store_def tl_update_def text_of_def Let_def split: prod.splits)

text \<open>A cycle in which the database answers empties the queue, if every value has a text.\<close>

theorem drained_whole:
  assumes "\<forall>m \<in> set q. has_text (e_value m)" "\<forall>j. io_found (io j) = Inr () \<and> io_updated (io j) = Inr ()"
  shows "fst (tl_drain io now auto c i q w) = []"
  using assms(1)
proof (induction q arbitrary: i w)
  case (Cons m q)
  obtain u w1 where s: "tl_store (io i) now auto c m w = (Inr u, w1)"
    using tl_store_ok[of m "io i" now auto c w] Cons.prems assms(2) by (metis list.set_intros(1) prod.collapse)
  then show ?case using Cons.IH[of "i + 1" w1] Cons.prems by (auto split: prod.splits)
qed simp

text \<open>A value without a text at the head of the queue is never stored and never leaves: one datagram with an
  object that has a field \<open>toString\<close> stops the driver for good. Each cycle also uses up a key.\<close>

theorem one_value_blocks:
  assumes "\<not> has_text (e_value m)"
  shows "\<exists>w'. tl_cycle up io now auto c (m # q) w = (m # q, w', [])"
    and "auto \<Longrightarrow> up \<Longrightarrow> e_tag m \<notin> set (createdTags w) \<Longrightarrow> tag_missing c (e_tag m) w \<Longrightarrow> io_found (io 0) = Inr () \<Longrightarrow>
      autoKeyId (fst (snd (tl_cycle up io now auto c (m # q) w))) = autoKeyId w + num 1"
proof -
  have t: "text_of (e_value m) = Inl TypeError" using assms by (simp add: text_of_def)
  have u: "tl_update now c m = Inl TypeError" using t by (simp add: tl_update_def Let_def)
  show "\<exists>w'. tl_cycle up io now auto c (m # q) w = (m # q, w', [])"
    by (auto simp: tl_cycle_def tl_store_def u split: prod.splits sum.splits)
  show "auto \<Longrightarrow> up \<Longrightarrow> e_tag m \<notin> set (createdTags w) \<Longrightarrow> tag_missing c (e_tag m) w \<Longrightarrow> io_found (io 0) = Inr () \<Longrightarrow>
      autoKeyId (fst (snd (tl_cycle up io now auto c (m # q) w))) = autoKeyId w + num 1"
    using t by (simp add: tl_cycle_def tl_store_def tl_ensure_def rtData_def Let_def)
qed

lemma blocking_datagram:
  "\<exists>m. processMessageJSON 0 (Obj [(''fields'', Obj [(''a'', Obj [(''toString'', Null)])])]) = Inr [m] \<and> \<not> has_text (e_value m)"
proof -
  have "truthy Undef = False" by simp
  then show ?thesis
    by (simp add: processMessageJSON_def object_or_empty_def second_group_def tl_grouping_def notEmpty_def addGrpIfNotEmpty_def js_entries_def
      message_time_def nullish_def Let_def time_clip_def has_key_def)
qed

section \<open>Start\<close>

text \<open>An instance number given by the environment is a text, which no number of the database equals.\<close>

theorem instance_of_environment_not_found:
  assumes "env ''JS_TELEGRAF_LISTENER_INSTANCE'' = Some s" "s \<noteq> []" "\<forall>c \<in> set conns. \<exists>x. fld c ''protocolDriverInstanceNumber'' = Num x"
  shows "tl_connection (tl_instance [] env) conns = Inl 1"
proof -
  have i: "tl_instance [] env = Str s" using assms(1,2) by (simp add: tl_instance_def js_or_def Let_def)
  have "filter (\<lambda>c. fld c ''protocolDriver'' = Str ''TELEGRAF-LISTENER'' \<and> strict_eq (fld c ''protocolDriverInstanceNumber'') (Str s)) conns = []"
    using assms(3) by (fastforce simp: filter_empty_conv)
  then show ?thesis unfolding tl_connection_def i by simp
qed

end
