(* ===== verification/OpcUaHist.thy ===== *)
theory OpcUaHist
  imports AutoTag
begin

text \<open>
  Historical access of the OPC UA server (\<open>OPC-UA-Server/historian.js\<close>): the conversion of values, which
  the live path shares, the tags with history, the two backends with their queries and rows, and the reading
  of a range. Data types are named as in the library \<open>node-opcua\<close>; its tests of dates and of values are
  parameters, as are the answers of the databases.
\<close>

unbundle bit_operations_syntax

section \<open>Values\<close>

text \<open>\<open>a & b\<close> on numbers.\<close>

definition bit_and :: "jsnum \<Rightarrow> jsnum \<Rightarrow> jsnum" where
  "bit_and x y = num (sint (to_int32 x AND to_int32 y))"

definition string_types :: "(string \<times> string) list" where
  "string_types = [(''string'', ''String''), (''guid'', ''Guid''), (''bytestring'', ''ByteString''), (''xmlelement'', ''XmlElement''), (''nodeid'', ''NodeId''),
     (''expandednodeid'', ''ExpandedNodeId''), (''qualifiedname'', ''QualifiedName''), (''localizedtext'', ''LocalizedText'')]"

definition string_type :: "jsval \<Rightarrow> string" where
  "string_type asdu = (case asdu of Str s \<Rightarrow> (case map_of string_types s of Some t \<Rightarrow> t | None \<Rightarrow> ''String'') | _ \<Rightarrow> ''String'')"

definition convert_analog :: "(string \<Rightarrow> jsnum) \<Rightarrow> string \<Rightarrow> jsval \<Rightarrow> string \<times> jsval" where
  "convert_analog parse asdu v = (let n = parse_int (to_string v); x = Num (parse_float (to_string v)); mask = (\<lambda>m. Num (bit_and n (num m))) in
     if asdu = ''datavalue'' then (''DataValue'', x)
     else if asdu = ''statuscode'' then (''StatusCode'', mask 0xffffffff)
     else if asdu = ''float'' then (''Float'', x)
     else if asdu = ''int16'' then (''Int16'', mask 0xffff)
     else if asdu = ''uint16'' then (''UInt16'', mask 0xffff)
     else if asdu = ''int32'' then (''Int32'', mask 0xffffffff)
     else if asdu = ''uint32'' then (''UInt32'', mask 0xffffffff)
     else if asdu = ''int64'' then (''Int64'', Num n)
     else if asdu = ''uint64'' then (''UInt64'', Num n)
     else if asdu = ''byte'' then (''Byte'', mask 0xff)
     else if asdu = ''sbyte'' then (''SByte'', mask 0xff)
     else if asdu = ''boolean'' then (''Boolean'', Bool (v \<noteq> Num (num 0)))
     else if asdu = ''datetime'' then (''DateTime'', Date (js_date parse v))
     else (''Double'', x))"

text \<open>An empty data type is the one of a type it does not know.\<close>

definition convertHistValue :: "(string \<Rightarrow> jsnum) \<Rightarrow> jsval \<Rightarrow> jsval \<Rightarrow> jsval \<Rightarrow> jsval \<Rightarrow> string \<times> jsval" where
  "convertHistValue parse type asdu v vstr =
     (if type = Str ''digital'' then (''Boolean'', Bool (v \<noteq> Num (num 0)))
      else if type = Str ''string'' then (string_type asdu, if vstr \<noteq> Undef then vstr else Str (to_string v))
      else if type = Str ''analog'' then convert_analog parse (case asdu of Str s \<Rightarrow> s | _ \<Rightarrow> []) v
      else ([], Null))"

section \<open>Settings\<close>

definition MIN_DATE_MS :: int where "MIN_DATE_MS = -11644473600000"

definition isUnbounded :: "(jsval \<Rightarrow> js_error + bool) \<Rightarrow> jsval \<Rightarrow> bool" where
  "isUnbounded isMinDate d = (nullish d \<or> isMinDate d = Inr True \<or> d = Date (num MIN_DATE_MS))"

definition normInt :: "jsval \<Rightarrow> int \<Rightarrow> jsnum" where
  "normInt v def = (let n = parse_int (to_string v) in if num_finite n \<and> num 0 < n then n else num def)"

definition validateTsField :: "jsval \<Rightarrow> string" where
  "validateTsField v = (if v = Str ''timeTagAtSource'' then ''timeTagAtSource'' else ''timeTag'')"

definition isTagEligibleForHistory :: "doc \<Rightarrow> doc \<Rightarrow> bool" where
  "isTagEligibleForHistory connection element =
     (fld connection ''historyEnabled'' = Bool True \<and> fld element ''origin'' \<noteq> Str ''command'' \<and> \<not> js_lt (fld element ''historianPeriod'') (Num (num 0)) \<and>
      fld element ''type'' \<in> {Str ''analog'', Str ''digital'', Str ''string''})"

datatype hist_backend = MongoBackend | PgBackend

definition backend_of :: "doc \<Rightarrow> hist_backend" where
  "backend_of connection = (let n = to_lower (to_string (js_or (fld connection ''historian'') (Str ''mongodb''))) in
     if n = ''postgresql'' \<or> n = ''postgres'' then PgBackend else MongoBackend)"

text \<open>The options of the pool of connections; \<open>env\<close> are the variables of the environment.\<close>

definition buildPgPoolConfig :: "(string \<Rightarrow> string option) \<Rightarrow> doc \<Rightarrow> jsnum \<Rightarrow> doc" where
  "buildPgPoolConfig env connection ms = (let base = [(''query_timeout'', Num ms), (''statement_timeout'', Num ms), (''connectionTimeoutMillis'', Num ms), (''max'', Num (num 5))];
       var = (\<lambda>k d. case env k of Some s \<Rightarrow> if s = [] then Str d else Str s | None \<Rightarrow> Str d);
       port = (case env ''PGPORT'' of Some s \<Rightarrow> parse_int s | None \<Rightarrow> NaN);
       own = base @ [(''host'', var ''PGHOST'' ''127.0.0.1''), (''port'', Num (if num_is_nan port \<or> port = num 0 then num 5432 else port)),
         (''user'', var ''PGUSER'' ''json_scada''), (''password'', var ''PGPASSWORD'' ''json_scada''), (''database'', var ''PGDATABASE'' ''json_scada'')] in
     case fld connection ''postgresConnectionString'' of Str cs \<Rightarrow> if trim cs \<noteq> [] then base @ [(''connectionString'', Str (trim cs))] else own | _ \<Rightarrow> own)"

section \<open>Queries\<close>

record hist_span =
  hs_start :: jsval
  hs_end :: jsval
  hs_limit :: jsnum
  hs_reverse :: bool

record hist_row =
  hr_value :: jsval
  hr_valueString :: jsval
  hr_invalid :: bool
  hr_timeTag :: jsval
  hr_source :: jsval
  hr_sourceOk :: bool

text \<open>The search, the order, the limit and the time of a query of MongoDB.\<close>

record mongo_read =
  mr_find :: doc
  mr_sort :: doc
  mr_limit :: jsnum
  mr_maxTime :: jsnum

definition mongo_query :: "string \<Rightarrow> jsnum \<Rightarrow> string \<Rightarrow> hist_span \<Rightarrow> mongo_read" where
  "mongo_query ts ms tag r = (let lo = (if truthy (hs_start r) then [(''$gte'', hs_start r)] else []); hi = (if truthy (hs_end r) then [(''$lte'', hs_end r)] else []) in
     \<lparr>mr_find = [(''tag'', Str tag)] @ (if truthy (hs_start r) \<or> truthy (hs_end r) then [(ts, Obj (lo @ hi))] else []),
      mr_sort = [(ts, Num (num (if hs_reverse r then -1 else 1)))], mr_limit = hs_limit r, mr_maxTime = ms\<rparr>)"

definition mongo_row :: "doc \<Rightarrow> hist_row" where
  "mongo_row r = \<lparr>hr_value = fld r ''value'', hr_valueString = (case fld r ''value'' of Str s \<Rightarrow> Str s | _ \<Rightarrow> fld r ''valueString''), hr_invalid = truthy (fld r ''invalid''),
     hr_timeTag = fld r ''timeTag'', hr_source = js_or (fld r ''timeTagAtSource'') Null, hr_sourceOk = (fld r ''timeTagAtSourceOk'' \<noteq> Bool False)\<rparr>"

definition pg_sql :: "string \<Rightarrow> hist_span \<Rightarrow> string" where
  "pg_sql ts r = (let col = (if ts = ''timeTagAtSource'' then ''time_tag_at_source'' else ''time_tag'') in
     ''SELECT value, value_json, time_tag, time_tag_at_source, flags FROM hist WHERE tag = $1 AND ($2::timestamptz IS NULL OR '' @ col @ '' >= $2) AND ($3::timestamptz IS NULL OR '' @ col @
     '' <= $3) ORDER BY '' @ col @ '' '' @ (if hs_reverse r then ''DESC'' else ''ASC'') @ '' LIMIT $4'')"

definition pg_params :: "string \<Rightarrow> hist_span \<Rightarrow> jsval list" where
  "pg_params tag r = [Str tag, js_or (hs_start r) Null, js_or (hs_end r) Null, Num (hs_limit r)]"

text \<open>\<open>parseInt(s, 2) || 0\<close>.\<close>

definition parse_binary :: "string \<Rightarrow> jsnum" where
  "parse_binary str = (let (neg, s) = split_sign (trim_start str); ds = takeWhile (radix_digit 2) s in
     dbl (of_int (if neg then - radix_val 2 ds else radix_val 2 ds)))"

definition pg_flags :: "jsval \<Rightarrow> jsnum" where
  "pg_flags v = (case v of Str s \<Rightarrow> if s = [] then num 0 else parse_binary s | Num x \<Rightarrow> x | _ \<Rightarrow> num 0)"

definition pg_row :: "doc \<Rightarrow> hist_row" where
  "pg_row r = (let flags = pg_flags (fld r ''flags'') in
     \<lparr>hr_value = fld r ''value'', hr_valueString = (case fld r ''value_json'' of Obj j \<Rightarrow> fld j ''s'' | _ \<Rightarrow> Undef), hr_invalid = (bit_and flags (num 0x80) \<noteq> num 0),
      hr_timeTag = fld r ''time_tag'', hr_source = js_or (fld r ''time_tag_at_source'') Null, hr_sourceOk = (bit_and flags (num 0x40) = num 0)\<rparr>)"

text \<open>\<open>readRange\<close>: \<open>None\<close> is a driver that is not connected or not installed; the outcome of the query is a
  parameter.\<close>

record hist_env =
  h_mongo :: "(mongo_read \<Rightarrow> js_error + doc list) option"
  h_pg :: "(string \<Rightarrow> jsval list \<Rightarrow> js_error + doc list) option"
  h_date :: "string \<Rightarrow> jsnum"
  h_isMinDate :: "jsval \<Rightarrow> js_error + bool"
  h_variant :: "string \<Rightarrow> jsval \<Rightarrow> bool"

definition readRange :: "hist_env \<Rightarrow> doc \<Rightarrow> string \<Rightarrow> hist_span \<Rightarrow> js_error + hist_row list" where
  "readRange e connection tag r = (let ts = validateTsField (fld connection ''historyTimestampField''); ms = normInt (fld connection ''historyQueryTimeoutMs'') 10000 in
     case backend_of connection of
       MongoBackend \<Rightarrow> (case h_mongo e of None \<Rightarrow> Inl (Thrown ''MongoDB not connected'') | Some q \<Rightarrow> map_sum id (map mongo_row) (q (mongo_query ts ms tag r)))
     | PgBackend \<Rightarrow> (case h_pg e of None \<Rightarrow> Inl (Thrown ''pg package not installed'') | Some q \<Rightarrow> map_sum id (map pg_row) (q (pg_sql ts r) (pg_params tag r))))"

section \<open>Reading a range\<close>

record data_value =
  dv_type :: string
  dv_value :: jsval
  dv_good :: bool
  dv_source :: jsval
  dv_server :: jsval

text \<open>A value the library does not take as one of its type is left out, like a number that is none.\<close>

definition rowToDataValue :: "hist_env \<Rightarrow> doc \<Rightarrow> hist_row \<Rightarrow> data_value option" where
  "rowToDataValue e element row = (let (t, v) = convertHistValue (h_date e) (fld element ''type'') (fld element ''protocolSourceASDU'') (hr_value row) (hr_valueString row) in
     if t = [] \<or> (fld element ''type'' = Str ''analog'' \<and> v = Num NaN) \<or> \<not> h_variant e t v then None
     else Some \<lparr>dv_type = t, dv_value = v, dv_good = (\<not> hr_invalid row), dv_source = js_or (hr_source row) (hr_timeTag row), dv_server = hr_timeTag row\<rparr>)"

definition history_limit :: "doc \<Rightarrow> jsnum \<Rightarrow> jsnum" where
  "history_limit connection most = (let cap = normInt (fld connection ''historyMaxReturnDataValues'') 20000 in
     if num 0 < most then (if most < cap then most else cap) else cap)"

definition history_span :: "hist_env \<Rightarrow> doc \<Rightarrow> doc option \<Rightarrow> jsnum \<Rightarrow> bool \<Rightarrow> hist_span" where
  "history_span e connection details most back = (let bound = (\<lambda>k. case details of None \<Rightarrow> Null | Some d \<Rightarrow> if isUnbounded (h_isMinDate e) (fld d k) then Null else fld d k) in
     \<lparr>hs_start = bound ''startTime'', hs_end = bound ''endTime'', hs_limit = history_limit connection most, hs_reverse = back\<rparr>)"

definition extractDataValues :: "hist_env \<Rightarrow> doc \<Rightarrow> doc \<Rightarrow> doc option \<Rightarrow> jsnum \<Rightarrow> bool \<Rightarrow> bool \<Rightarrow> js_error + data_value list" where
  "extractDataValues e connection element details most back turn =
     map_sum id (\<lambda>rows. (if turn then rev else id) (List.map_filter (rowToDataValue e element) rows))
       (readRange e connection (to_string (fld element ''tag'')) (history_span e connection details most back))"

end
