(* ===== verification/OpcUa.thy ===== *)
theory OpcUa
  imports OpcUaHist
begin

text \<open>
  The OPC UA server (\<open>OPC-UA-Server/index.js\<close>): the conversion of live values, commands from clients, the
  tags a connection serves, the folders and the nodes made of them, who may connect, and the change stream
  that feeds all servers. The objects of the library \<open>node-opcua\<close> are represented by what is passed to it.
\<close>

section \<open>Live values\<close>

record live =
  lv_value :: jsval
  lv_type :: string
  lv_array :: "string option"

text \<open>What the library makes of a node identifier (the type, the identifier and the namespace; \<open>None\<close> is an
  exception), and the text of the objects it reads.\<close>

record ua_env =
  u_date :: "string \<Rightarrow> jsnum"
  u_nodeId :: "jsval \<Rightarrow> jsval \<Rightarrow> jsval \<Rightarrow> jsval option"
  u_nullId :: jsval
  u_text :: "jsval \<Rightarrow> string"
  u_now :: int

definition array_types :: "(string \<times> string) list" where
  "array_types = [(''boolean[]'', ''Boolean''), (''double[]'', ''Double''), (''float[]'', ''Float''), (''int16[]'', ''Int16''), (''uint16[]'', ''UInt16''), (''int32[]'', ''Int32''),
     (''uint32[]'', ''UInt32''), (''int64[]'', ''Int64''), (''uint64[]'', ''UInt64''), (''byte[]'', ''Byte''), (''sbyte[]'', ''SByte''), (''string[]'', ''String''),
     (''guid[]'', ''Guid''), (''datetime[]'', ''DateTime''), (''bytestring[]'', ''ByteString''), (''xmlelement[]'', ''XmlElement''), (''nodeid'', ''NodeId''), (''nodeid[]'', ''NodeId''),
     (''expandednodeid[]'', ''ExpandedNodeId''), (''qualifiedname[]'', ''QualifiedName''), (''localizedtext[]'', ''LocalizedText'')]"

definition json_type :: "jsval \<Rightarrow> string" where
  "json_type asdu = (case asdu of Str s \<Rightarrow> (case map_of array_types s of Some t \<Rightarrow> t | None \<Rightarrow> ''Double'') | _ \<Rightarrow> ''Double'')"

definition array_items :: "jsval \<Rightarrow> jsval list" where
  "array_items v = (case v of Arr vs \<Rightarrow> vs | Str s \<Rightarrow> map (\<lambda>c. Str [c]) s | _ \<Rightarrow> [])"

definition guid_items :: "jsval \<Rightarrow> jsval" where
  "guid_items obj = Arr (concat (map (\<lambda>x. case x of Str s \<Rightarrow> [x] | _ \<Rightarrow> if truthy (opt_get x ''GuidString'') then [opt_get x ''GuidString''] else []) (array_items obj)))"

definition date_items :: "ua_env \<Rightarrow> jsval \<Rightarrow> jsval" where
  "date_items e obj = Arr (map (\<lambda>x. Date (js_date (u_date e) x)) (array_items obj))"

text \<open>Objects that imitate an array are not considered. The case of a node identifier; \<open>in\<close> throws on a value that is no object.\<close>

definition node_item :: "ua_env \<Rightarrow> jsval \<Rightarrow> js_error + jsval" where
  "node_item e obj = (if obj = Null then Inr (u_nullId e)
     else bindS (js_in ''Identifier'' obj) (\<lambda>i. bindS (js_in ''NamespaceIndex'' obj) (\<lambda>n.
       if \<not> i \<or> \<not> n then Inr (u_nullId e)
       else (let ty = (case opt_get obj ''Identifier'' of Num _ \<Rightarrow> Str ''NUMERIC'' | Str _ \<Rightarrow> Str ''STRING''
                | _ \<Rightarrow> if truthy (opt_get obj ''IdType'') then opt_get obj ''IdType'' else Str ''NUMERIC'') in
         Inr (case u_nodeId e ty (opt_get obj ''Identifier'') (opt_get obj ''NamespaceIndex'') of Some x \<Rightarrow> x | None \<Rightarrow> u_nullId e)))))"

definition json_object :: "ua_env \<Rightarrow> jsval \<Rightarrow> jsval \<Rightarrow> js_error + jsval" where
  "json_object e asdu obj = (if asdu = Str ''guid[]'' then Inr (guid_items obj) else if asdu = Str ''datetime[]'' then Inr (date_items e obj)
     else if asdu = Str ''nodeid'' then node_item e obj else Inr obj)"

definition text_ends :: "string \<Rightarrow> string \<Rightarrow> bool" where
  "text_ends p s = (length p \<le> length s \<and> drop (length s - length p) s = p)"

definition convert_json :: "ua_env \<Rightarrow> doc \<Rightarrow> js_error + live" where
  "convert_json e d = (let asdu = fld d ''protocolSourceASDU''; vj = fld d ''valueJson''; none = \<lparr>lv_value = Null, lv_type = [], lv_array = None\<rparr> in
     case (if truthy vj then json_parse (to_string vj) else Inr Null) of
       Inl _ \<Rightarrow> Inr none
     | Inr parsed \<Rightarrow> bindS (json_object e asdu parsed) (\<lambda>obj.
         case obj of
           Arr vs \<Rightarrow> (case asdu of
               Str s \<Rightarrow> if text_ends ''[][]'' s then Inr \<lparr>lv_value = obj, lv_type = json_type asdu, lv_array = Some ''Matrix''\<rparr>
                 else Inr \<lparr>lv_value = obj, lv_type = (case vs of Bool _ # _ \<Rightarrow> ''Boolean'' | _ \<Rightarrow> json_type asdu), lv_array = Some ''Array''\<rparr>
             | v \<Rightarrow> if nullish v then Inr \<lparr>lv_value = obj, lv_type = (case vs of Bool _ # _ \<Rightarrow> ''Boolean'' | _ \<Rightarrow> json_type asdu), lv_array = Some ''Array''\<rparr> else Inl TypeError)
         | _ \<Rightarrow> Inr \<lparr>lv_value = obj, lv_type = json_type asdu, lv_array = None\<rparr>))"

definition convertValueVariant :: "ua_env \<Rightarrow> doc \<Rightarrow> js_error + live" where
  "convertValueVariant e d = (let ty = fld d ''type'' in
     if ty = Str ''json'' then convert_json e d
     else (let (t, v) = (if ty \<in> {Str ''digital'', Str ''string'', Str ''analog''}
            then convertHistValue (u_date e) ty (fld d ''protocolSourceASDU'') (fld d ''value'') (if ty = Str ''string'' then fld d ''valueString'' else Undef) else ([], Null)) in
       Inr \<lparr>lv_value = v, lv_type = t, lv_array = None\<rparr>))"

section \<open>Commands\<close>

datatype status = Good | BadNotFound | BadNotWritable | BadInternalError

definition text_types :: "string list" where
  "text_types = [''Variant'', ''StatusCode'', ''Guid'', ''QualifiedName'', ''LocalizedText'', ''DiagnosticInfo'', ''ByteString'', ''ExpandedNodeId'', ''NodeId'', ''XmlElement'', ''String'']"

text \<open>The number and the text of the value a client writes.\<close>

definition value_string :: "ua_env \<Rightarrow> jsval \<Rightarrow> string" where
  "value_string e v = (case v of Str s \<Rightarrow> s | Num x \<Rightarrow> num_to_string x | Bool b \<Rightarrow> to_string v | _ \<Rightarrow> u_text e v)"

definition written_value :: "ua_env \<Rightarrow> string \<Rightarrow> jsval \<Rightarrow> jsval \<times> string" where
  "written_value e type v =
     (if type = ''Boolean'' then (Num (num (if truthy v then 1 else 0)), value_string e v)
      else if type \<in> set text_types then (Num (parse_float (value_string e v)), value_string e v) else (v, value_string e v))"

definition converted_value :: "doc \<Rightarrow> jsval \<times> string \<Rightarrow> jsval \<times> string" where
  "converted_value d x =
     (let x1 = (if fld d ''type'' = Str ''digital'' then
           (let b = truthy (fst x); b' = (if fld d ''kconv1'' = Num (num (-1)) then \<not> b else b) in (Num (num (if b' then 1 else 0)), if b' then ''true'' else ''false'')) else x) in
      if fld d ''type'' = Str ''analog'' \<and> has_key ''kconv1'' d \<and> has_key ''kconv2'' d
      then (let y = js_add (Num (num_mul (to_number (fst x1)) (to_number (fld d ''kconv1'')))) (fld d ''kconv2'') in (y, to_string y)) else x1)"

definition ua_command :: "ua_env \<Rightarrow> doc \<Rightarrow> doc \<Rightarrow> jsval \<times> string \<Rightarrow> doc" where
  "ua_command e connection d x = (let same = (\<lambda>k. (k, fld d k)) in
     [same ''protocolSourceConnectionNumber'', same ''protocolSourceCommonAddress'', same ''protocolSourceObjectAddress'', same ''protocolSourceASDU'',
      same ''protocolSourceCommandDuration'', same ''protocolSourceCommandUseSBO'', (''pointKey'', fld d ''_id''), same ''tag'', (''value'', Num (to_number (fst x))),
      (''valueString'', Str (snd x)),
      (''originatorUserName'', Str (''Protocol connection: '' @ to_string (fld connection ''protocolConnectionNumber'') @ '' '' @ to_string (fld connection ''name''))),
      (''originatorIpAddress'', Str []), (''timeTag'', Date (num (u_now e)))])"

definition supervised_blocked :: "doc list \<Rightarrow> doc \<Rightarrow> bool" where
  "supervised_blocked tags d = (\<not> loose_eq (fld d ''supervisedOfCommand'') (Num (num 0)) \<and>
     (case filter (\<lambda>p. fld p ''_id'' = fld d ''supervisedOfCommand'') tags of
        p # _ \<Rightarrow> has_key ''_id'' p \<and> fld p ''commandBlocked'' \<noteq> Bool False | [] \<Rightarrow> False))"

text \<open>The answer and what is put in the queue; \<open>ins\<close> is the outcome of the insertion.\<close>

definition sendCommand :: "ua_env \<Rightarrow> doc \<Rightarrow> doc list \<Rightarrow> (doc \<Rightarrow> js_error + unit) \<Rightarrow> string \<Rightarrow> string \<Rightarrow> jsval \<Rightarrow> (js_error + status) \<times> doc list" where
  "sendCommand e connection tags ins tag type v =
     (case filter (\<lambda>d. fld d ''tag'' = Str tag) tags of
        [] \<Rightarrow> (Inr BadNotFound, [])
      | d # _ \<Rightarrow>
          if \<not> has_key ''_id'' d then (Inr BadNotFound, [])
          else if fld d ''commandBlocked'' \<noteq> Bool False then (Inr BadNotWritable, [])
          else if supervised_blocked tags d then (Inr BadNotWritable, [])
          else if nullish v then (Inl TypeError, [])
          else (let c = ua_command e connection d (converted_value d (written_value e type v)) in
            case ins c of Inl _ \<Rightarrow> (Inr BadInternalError, []) | Inr _ \<Rightarrow> (Inr Good, [c])))"

text \<open>The setter of a variable: the command is sent, its answer not awaited.\<close>

definition set_command :: "ua_env \<Rightarrow> doc \<Rightarrow> doc list \<Rightarrow> (doc \<Rightarrow> js_error + unit) \<Rightarrow> doc \<Rightarrow> string \<Rightarrow> jsval \<Rightarrow> status \<times> doc list" where
  "set_command e connection tags ins element type v = (Good, snd (sendCommand e connection tags ins (to_string (fld element ''tag'')) type v))"

text \<open>The value a command shows before it is written.\<close>

definition command_variant :: "doc \<Rightarrow> string \<times> jsval" where
  "command_variant d = (if fld d ''type'' = Str ''digital'' then (''Boolean'', Bool (\<not> loose_eq (fld d ''value'') (Num (num 0))))
     else if fld d ''type'' = Str ''string'' then (''String'', fld d ''valueString'') else (''Double'', fld d ''value''))"

section \<open>Connections\<close>

definition isRemoteAddressAllowed :: "doc \<Rightarrow> jsval \<Rightarrow> bool" where
  "isRemoteAddressAllowed connection remote = (case fld connection ''ipAddresses'' of
       Arr vs \<Rightarrow> vs = [] \<or> (let addr = remove_first ''::ffff:'' (case remote of Str s \<Rightarrow> s | _ \<Rightarrow> []) in addr = [] \<or> Str addr \<in> set vs)
     | _ \<Rightarrow> True)"

definition server_port :: "doc \<Rightarrow> js_error + jsnum" where
  "server_port c = (if \<not> has_key ''ipAddressLocalBind'' c then Inr (num 4840)
     else (case fld c ''ipAddressLocalBind'' of Str s \<Rightarrow> (case split_char (CHR '':'') s of _ # p # _ \<Rightarrow> Inr (parse_int p) | _ \<Rightarrow> Inr (num 4840)) | _ \<Rightarrow> Inl TypeError))"

definition server_timeout :: "doc \<Rightarrow> jsnum" where
  "server_timeout c = (if has_key ''timeoutMs'' c then parse_int (to_string (fld c ''timeoutMs'')) else num 15000)"

definition certificate_options :: "doc \<Rightarrow> doc" where
  "certificate_options c = (let f = (\<lambda>k p. case fld c p of Str s \<Rightarrow> if s \<noteq> [] then [(k, Str s)] else [] | _ \<Rightarrow> []) in
     if fld c ''useSecurity'' = Bool True then f ''certificateFile'' ''localCertFilePath'' @ f ''privateKeyFile'' ''privateKeyFilePath'' else [])"

definition resource_path :: "doc \<Rightarrow> string" where
  "resource_path c = ''/'' @ to_string (js_or (fld c ''groupId'') (Str ''UA/JsonScada''))"

text \<open>The tags a connection serves, in the order of the database.\<close>

definition serves :: "doc \<Rightarrow> doc \<Rightarrow> bool" where
  "serves c d = (\<not> strict_eq (fld d ''protocolSourceConnectionNumber'') (fld c ''protocolConnectionNumber'') \<and>
     (case fld c ''topics'' of Arr ts \<Rightarrow> ts = [] \<or> fld d ''group1'' \<in> set ts | _ \<Rightarrow> True) \<and>
     (truthy (fld c ''commandsEnabled'') \<or> fld d ''origin'' \<noteq> Str ''command'') \<and> (case fld d ''_id'' of Num k \<Rightarrow> num 0 < k | _ \<Rightarrow> False))"

definition start_connection :: "doc \<Rightarrow> doc option" where
  "start_connection c = (if fld c ''enabled'' = Bool False \<or> \<not> has_key ''_id'' c then None
     else Some (aupd ''historyEnabled'' (if nullish (fld c ''historyEnabled'') then Bool True else fld c ''historyEnabled'') c))"

text \<open>The groups the shared change stream is filtered by; \<open>None\<close> stands for all.\<close>

definition stream_groups :: "doc list \<Rightarrow> jsval list option" where
  "stream_groups cs = fold (\<lambda>c g. case g of None \<Rightarrow> None
     | Some vs \<Rightarrow> (case fld c ''topics'' of Arr ts \<Rightarrow> if ts = [] then None else Some (vs @ ts) | _ \<Rightarrow> None)) (List.map_filter start_connection cs) (Some [])"

section \<open>Folders\<close>

text \<open>A folder has its own number, the folder it lies in (\<open>None\<close> is the folder of the objects) and its name.
  Number 0 is the folder of the server.\<close>

record tree =
  folders :: "(nat \<times> nat option \<times> string) list"
  next_folder :: nat
  group_folders :: "(string \<times> nat) list"

datatype place = Root | InFolder nat | InNode string string | Nowhere

definition browse_path :: "doc \<Rightarrow> string option" where
  "browse_path d = (case fld d ''protocolSourceBrowsePath'' of Str s \<Rightarrow> if s = [] then None else Some s | _ \<Rightarrow> None)"

definition make_folder :: "nat option \<Rightarrow> string \<Rightarrow> string \<Rightarrow> tree \<Rightarrow> nat \<times> tree" where
  "make_folder parent name key t = (case map_of (group_folders t) key of
       Some n \<Rightarrow> (n, t)
     | None \<Rightarrow> (next_folder t, t\<lparr>folders := folders t @ [(next_folder t, parent, name)], next_folder := next_folder t + 1,
         group_folders := (key, next_folder t) # group_folders t\<rparr>))"

text \<open>The three passes over the groups: the key of a level holds the whole path, so that equal names under
  different parents stay apart. Groups are taken not to have the name of a property every object inherits.\<close>

definition path_key :: "nat \<Rightarrow> jsval list \<Rightarrow> string" where
  "path_key k gs = (if k = 1 then ''1:'' @ to_string (hd gs) else if k = 2 then ''2:'' @ json_val iso_of (Arr gs) else ''3:'' @ json_val iso_of (Arr gs))"

definition group_path :: "nat \<Rightarrow> doc \<Rightarrow> jsval list" where
  "group_path k d = take k [fld d ''group1'', fld d ''group2'', fld d ''group3'']"

definition group_pass :: "nat \<Rightarrow> doc \<times> place \<Rightarrow> tree \<Rightarrow> place \<times> tree" where
  "group_pass k x t = (let (d, p) = x in
     if browse_path d \<noteq> None then (p, t)
     else if list_ex (\<lambda>g. loose_eq g (Str [])) (group_path k d) then (if k = 1 then InFolder 0 else p, t)
     else (let (n, t') = make_folder (case p of InFolder m \<Rightarrow> Some m | _ \<Rightarrow> Some 0) (to_string (last (group_path k d))) (path_key k (group_path k d)) t in (InFolder n, t')))"

fun group_passes :: "nat \<Rightarrow> (doc \<times> place) list \<Rightarrow> tree \<Rightarrow> (doc \<times> place) list \<times> tree" where
  "group_passes k [] t = ([], t)"
| "group_passes k (x # xs) t = (let (p, t1) = group_pass k x t; (ys, t2) = group_passes k xs t1 in ((fst x, p) # ys, t2))"

definition group_tree :: "doc list \<Rightarrow> tree \<Rightarrow> (doc \<times> place) list \<times> tree" where
  "group_tree ds t = (let (xs1, t1) = group_passes 1 (map (\<lambda>d. (d, Nowhere)) ds) t; (xs2, t2) = group_passes 2 xs1 t1 in group_passes 3 xs2 t2)"

text \<open>A tag whose path ends at another variable goes below that variable; \<open>Inl\<close> is the exception of an
  address that is no text.\<close>

fun parent_variable :: "doc list \<Rightarrow> nat \<Rightarrow> nat \<Rightarrow> doc \<Rightarrow> js_error + doc option" where
  "parent_variable [] k i d = Inr None"
| "parent_variable (x # xs) k i d =
     (if k = i \<or> \<not> strict_eq (fld x ''group1'') (fld d ''group1'') \<or> browse_path x = None then parent_variable xs (k + 1) i d
      else (case fld x ''protocolSourceObjectAddress'' of
          Str a \<Rightarrow> if starts_with ''ns='' a \<and> Str (the (browse_path x) @ ''/'' @ to_string (fld x ''ungroupedDescription'')) = Str (the (browse_path d)) then Inr (Some x)
            else parent_variable xs (k + 1) i d
        | _ \<Rightarrow> Inl TypeError))"

fun path_folders :: "string list \<Rightarrow> string \<Rightarrow> nat option \<Rightarrow> tree \<Rightarrow> nat option \<times> tree" where
  "path_folders [] key p t = (p, t)"
| "path_folders (s # ss) key p t = (if s = [] then path_folders ss key p t
     else (let (n, t1) = make_folder p s (''path:'' @ key @ ''/'' @ s) t in path_folders ss (key @ ''/'' @ s) (Some n) t1))"

definition path_place :: "doc \<Rightarrow> doc list \<Rightarrow> nat \<Rightarrow> doc \<Rightarrow> tree \<Rightarrow> (js_error + place) \<times> tree" where
  "path_place c ds i d t = (case browse_path d of None \<Rightarrow> (Inr Nowhere, t)
     | Some path \<Rightarrow> (case parent_variable ds 0 i d of
         Inl err \<Rightarrow> (Inl err, t)
       | Inr (Some x) \<Rightarrow> (Inr (InNode (to_string (fld x ''protocolSourceObjectAddress'')) (to_string (fld x ''tag''))), t)
       | Inr None \<Rightarrow> (case fld c ''topics'' of
             Arr ts \<Rightarrow> (let g = to_string (fld d ''group1'');
                 (p0, t0) = (if length ts \<noteq> 1 then (let (n, t') = make_folder None g (''path:'' @ g) t in (Some n, t')) else (None, t));
                 (p, t1) = path_folders (split_char (CHR ''/'') path) (if length ts \<noteq> 1 then g else []) p0 t0 in
               (Inr (case p of Some n \<Rightarrow> InFolder n | None \<Rightarrow> Root), t1))
           | _ \<Rightarrow> (Inl TypeError, t))))"

fun path_pass :: "doc \<Rightarrow> doc list \<Rightarrow> nat \<Rightarrow> (doc \<times> place) list \<Rightarrow> tree \<Rightarrow> js_error + (doc \<times> place) list \<times> tree" where
  "path_pass c ds i [] t = Inr ([], t)"
| "path_pass c ds i ((d, p) # xs) t = (case path_place c ds i d t of (Inl err, t1) \<Rightarrow> Inl err
     | (Inr q, t1) \<Rightarrow> bindS (path_pass c ds (i + 1) xs t1) (\<lambda>(ys, t2). Inr ((d, if browse_path d = None then p else q) # ys, t2)))"

definition first_tree :: tree where
  "first_tree = \<lparr>folders = [(0, None, ''JsonScadaServer'')], next_folder = 1, group_folders = []\<rparr>"

definition place_tags :: "doc \<Rightarrow> doc list \<Rightarrow> js_error + (doc \<times> place) list \<times> tree" where
  "place_tags c ds = (let (xs, t) = group_tree ds first_tree in path_pass c ds 0 xs t)"

section \<open>Nodes\<close>

text \<open>The identifier asked for: that of the source when it has one, else the key when it fits.\<close>

definition own_id :: "doc \<Rightarrow> bool" where
  "own_id d = (case fld d ''protocolSourceObjectAddress'' of Str a \<Rightarrow> starts_with ''ns='' a | _ \<Rightarrow> False)"

definition wanted_id :: "doc \<Rightarrow> string option" where
  "wanted_id d = (case fld d ''protocolSourceObjectAddress'' of
       Str a \<Rightarrow> if starts_with ''ns='' a then Some (drop (nat (index_of '';'' a + 1)) a) else if js_le (fld d ''_id'') (Num (num 4294967295)) then Some (''i='' @ to_string (fld d ''_id'')) else None
     | _ \<Rightarrow> if js_le (fld d ''_id'') (Num (num 4294967295)) then Some (''i='' @ to_string (fld d ''_id'')) else None)"

record ua_node =
  nd_id :: string
  nd_tag :: jsval
  nd_browseName :: jsval
  nd_type :: string
  nd_write :: bool
  nd_command :: bool

text \<open>\<open>auto\<close> is the identifier the library gives when none is asked for, of those in use.\<close>

definition write_flag :: "doc \<Rightarrow> bool" where
  "write_flag d = (case fld d ''protocolSourceAccessLevel'' of Str s \<Rightarrow> s \<noteq> [] \<and> \<not> num_is_nan (parse_int s) \<and> bit_and (parse_int s) (num 2) \<noteq> num 0 | _ \<Rightarrow> False)"

definition add_node :: "ua_env \<Rightarrow> (string list \<Rightarrow> string) \<Rightarrow> string list \<Rightarrow> doc \<Rightarrow> ua_node list \<Rightarrow> ua_node list" where
  "add_node e auto used d ns = (case convertValueVariant e d of
       Inl _ \<Rightarrow> ns
     | Inr v \<Rightarrow> (let ids = used @ map nd_id ns; cmd = (fld d ''origin'' = Str ''command'') in
         if js_le (fld d ''_id'') (Num (num 0)) \<or> lv_type v = [] then ns
         else if cmd \<and> own_id d \<and> (case wanted_id d of Some i \<Rightarrow> i \<noteq> [] \<and> i \<in> set ids | None \<Rightarrow> False) then ns
         else ns @ [\<lparr>nd_id = (case wanted_id d of Some i \<Rightarrow> if i = [] \<or> i \<in> set ids then auto ids else i | None \<Rightarrow> auto ids), nd_tag = fld d ''tag'',
           nd_browseName = js_or (fld d ''ungroupedDescription'') (fld d ''tag''), nd_type = lv_type v, nd_write = (cmd \<or> write_flag d), nd_command = cmd\<rparr>]))"

definition create_nodes :: "ua_env \<Rightarrow> (string list \<Rightarrow> string) \<Rightarrow> string list \<Rightarrow> doc list \<Rightarrow> ua_node list" where
  "create_nodes e auto used ds = fold (add_node e auto used) ds []"

section \<open>Changes\<close>

record ua_shown =
  sh_value :: jsval
  sh_type :: string
  sh_good :: bool
  sh_time :: jsval

definition show_value :: "live \<Rightarrow> doc \<Rightarrow> ua_shown" where
  "show_value v d = \<lparr>sh_value = lv_value v, sh_type = lv_type v, sh_good = (\<not> truthy (fld d ''invalid'')),
     sh_time = (if \<not> has_key ''timeTagAtSource'' d \<or> fld d ''timeTagAtSource'' = Null then Date (num 0) else fld d ''timeTagAtSource'')\<rparr>"

text \<open>The condition of the stream: \<open>source\<close> says that the update touches \<open>sourceDataUpdate\<close>.\<close>

definition stream_passes :: "jsval list option \<Rightarrow> string \<Rightarrow> bool \<Rightarrow> doc \<Rightarrow> bool" where
  "stream_passes groups op source d = (\<not> source \<and>
     (case groups of Some (g # gs) \<Rightarrow> fld d ''group1'' \<in> set (g # gs) | _ \<Rightarrow> has_key ''group1'' d) \<and>
     fld d ''_id'' \<noteq> Num (num (-2)) \<and> fld d ''_id'' \<noteq> Num (num (-1)) \<and> op = ''update'' \<or> op = ''replace'')"

text \<open>The variables of a server by tag.\<close>

type_synonym ua_server = "(string \<times> ua_shown) list"

definition on_change_all :: "ua_env \<Rightarrow> doc \<Rightarrow> ua_server list \<Rightarrow> js_error + ua_server list" where
  "on_change_all e d servers = map_sum id (\<lambda>v. case fld d ''tag'' of
       Str t \<Rightarrow> map (\<lambda>s. if has_key t s then aupd t (show_value v d) s else s) servers
     | _ \<Rightarrow> servers) (convertValueVariant e d)"

end
