(* ===== verification/OpcUaLaws.thy ===== *)
theory OpcUaLaws
  imports OpcUa JSDigits ProcLaws
begin

text \<open>
  What clients of the OPC UA server get: integers as they are stored and where their type is missed, ranges
  that stay within the limits, the quality the data processor recorded, commands only for points that are not
  blocked, a folder for each path of groups and an identifier of its own for each variable.
\<close>

unbundle bit_operations_syntax

section \<open>Integers\<close>

lemma to_int32_num [simp]: "to_int32 (num n) = word_of_int n"
  by (simp add: to_int32_def num_def)

lemma bit_and_num: "bit_and (num n) (num m) = num (signed_take_bit 31 (n AND m))"
proof -
  have "(word_of_int n :: 32 word) AND word_of_int m = word_of_int (n AND m)" by transfer simp
  then show ?thesis by (simp add: bit_and_def sint_sbintrunc' signed_take_bit_eq_take_bit_shift)
qed

lemma mask_values: "(0xff :: int) = mask 8" "(0xffff :: int) = mask 16" "(0xffffffff :: int) = mask 32"
  by (simp_all add: mask_eq_exp_minus_1)

lemma signed_small: "0 \<le> i \<Longrightarrow> i < 2 ^ 31 \<Longrightarrow> signed_take_bit 31 (i :: int) = i"
  by (rule signed_take_bit_int_eq_self) simp_all

lemma masked:
  "bit_and (num n) (num 0xff) = num (n mod 2 ^ 8)" "bit_and (num n) (num 0xffff) = num (n mod 2 ^ 16)"
  "bit_and (num n) (num 0xffffffff) = num (signed_take_bit 31 n)"
proof -
  have a: "n AND 0xff = n mod 2 ^ 8" "n AND 0xffff = n mod 2 ^ 16"
    by (simp_all only: mask_values flip: take_bit_eq_mask) (simp_all add: take_bit_eq_mod)
  show "bit_and (num n) (num 0xff) = num (n mod 2 ^ 8)"
    unfolding bit_and_num a(1) using pos_mod_bound[of "2 ^ 8 :: int" n] by (subst signed_small) simp_all
  show "bit_and (num n) (num 0xffff) = num (n mod 2 ^ 16)"
    unfolding bit_and_num a(2) using pos_mod_bound[of "2 ^ 16 :: int" n] by (subst signed_small) simp_all
  have "n AND 0xffffffff = take_bit 32 n" by (simp only: mask_values take_bit_eq_mask)
  then show "bit_and (num n) (num 0xffffffff) = num (signed_take_bit 31 n)"
    unfolding bit_and_num by (simp add: signed_take_bit_take_bit)
qed

lemma converted_integers:
  assumes "\<bar>n\<bar> \<le> 2 ^ 53"
  shows "convertHistValue p (Str ''analog'') (Str ''byte'') (Num (num n)) u = (''Byte'', Num (num (n mod 2 ^ 8)))"
    "convertHistValue p (Str ''analog'') (Str ''sbyte'') (Num (num n)) u = (''SByte'', Num (num (n mod 2 ^ 8)))"
    "convertHistValue p (Str ''analog'') (Str ''uint16'') (Num (num n)) u = (''UInt16'', Num (num (n mod 2 ^ 16)))"
    "convertHistValue p (Str ''analog'') (Str ''int16'') (Num (num n)) u = (''Int16'', Num (num (n mod 2 ^ 16)))"
    "convertHistValue p (Str ''analog'') (Str ''int32'') (Num (num n)) u = (''Int32'', Num (num (signed_take_bit 31 n)))"
    "convertHistValue p (Str ''analog'') (Str ''uint32'') (Num (num n)) u = (''UInt32'', Num (num (signed_take_bit 31 n)))"
  by (simp_all add: convertHistValue_def convert_analog_def parse_int_print_int[OF assms] masked Let_def)

definition in_range :: "string \<Rightarrow> int \<Rightarrow> bool" where
  "in_range t n = (if t = ''SByte'' then - (2 ^ 7) \<le> n \<and> n < 2 ^ 7 else if t = ''Byte'' then 0 \<le> n \<and> n < 2 ^ 8
     else if t = ''Int16'' then - (2 ^ 15) \<le> n \<and> n < 2 ^ 15 else if t = ''UInt16'' then 0 \<le> n \<and> n < 2 ^ 16
     else if t = ''Int32'' then - (2 ^ 31) \<le> n \<and> n < 2 ^ 31 else t = ''UInt32'' \<and> 0 \<le> n \<and> n < 2 ^ 32)"

lemma signed_range: "- (2 ^ 31) \<le> (n :: int) \<Longrightarrow> n < 2 ^ 31 \<Longrightarrow> signed_take_bit 31 n = n"
  by (rule signed_take_bit_int_eq_self) simp_all

text \<open>The masks of the conversion are those of unsigned types up to 16 bits and of the signed type of 32: what is
  stored in the range of such a type is what clients read, live and from the history.\<close>

theorem masks_keep_values:
  assumes "in_range t n" "(asdu, t) \<in> {(''byte'', ''Byte''), (''uint16'', ''UInt16''), (''int32'', ''Int32'')}"
  shows "convertHistValue p (Str ''analog'') (Str asdu) (Num (num n)) u = (t, Num (num n))"
proof -
  have "\<bar>n\<bar> \<le> 2 ^ 53" using assms by (auto simp: in_range_def)
  note c = converted_integers[OF this]
  show ?thesis using assms by (auto simp: c in_range_def signed_range)
qed

text \<open>For the other types the result leaves the range: a negative integer of 8 or 16 bits is read as one above
  its range, a large unsigned one of 32 bits as a negative number. A library that takes only values of the type
  then makes the rows vanish from the history.\<close>

theorem masks_miss_the_type:
  assumes "in_range t n" "(asdu, t, k :: int) \<in> {(''sbyte'', ''SByte'', 2 ^ 8), (''int16'', ''Int16'', 2 ^ 16), (''uint32'', ''UInt32'', - (2 ^ 32))}"
    "if t = ''UInt32'' then 2 ^ 31 \<le> n else n < 0"
  shows "convertHistValue p (Str ''analog'') (Str asdu) (Num (num n)) u = (t, Num (num (n + k))) \<and> \<not> in_range t (n + k)"
proof -
  have a: "\<bar>n\<bar> \<le> 2 ^ 53" using assms by (auto simp: in_range_def)
  note c = converted_integers[OF a]
  have w: "n mod k' = n + k'" if "n < 0" "0 \<le> n + k'" for k' :: int
    using mod_pos_pos_trivial[of "n + k'" k'] that by simp
  have m8: "- (2 ^ 7) \<le> n \<Longrightarrow> n < 0 \<Longrightarrow> n mod 2 ^ 8 = n + 2 ^ 8" and m16: "- (2 ^ 15) \<le> n \<Longrightarrow> n < 0 \<Longrightarrow> n mod 2 ^ 16 = n + 2 ^ 16"
    by (rule w; simp)+
  have m32: "signed_take_bit 31 n = n - 2 ^ 32" if "2 ^ 31 \<le> n" "n < 2 ^ 32"
  proof -
    have "(n + 2 ^ 31) mod 2 ^ 32 = n - 2 ^ 31"
      using mod_pos_pos_trivial[of "n - 2 ^ 31" "2 ^ 32"] mod_add_self2[of "n - 2 ^ 31" "2 ^ 32"] that by (simp add: algebra_simps)
    then show ?thesis by (simp add: signed_take_bit_eq_take_bit_shift take_bit_eq_mod)
  qed
  consider "asdu = ''sbyte'' \<and> t = ''SByte'' \<and> k = 2 ^ 8" | "asdu = ''int16'' \<and> t = ''Int16'' \<and> k = 2 ^ 16" | "asdu = ''uint32'' \<and> t = ''UInt32'' \<and> k = - (2 ^ 32)"
    using assms(2) by auto
  then show ?thesis
  proof cases
    case 1
    then have b: "- (2 ^ 7) \<le> n" "n < 0" using assms(1,3) by (simp_all add: in_range_def)
    then show ?thesis using 1 m8[OF b] by (simp add: c(2) in_range_def)
  next
    case 2
    then have b: "- (2 ^ 15) \<le> n" "n < 0" using assms(1,3) by (simp_all add: in_range_def)
    then show ?thesis using 2 m16[OF b] by (simp add: c(4) in_range_def)
  next
    case 3
    then have b: "2 ^ 31 \<le> n" "n < 2 ^ 32" using assms(1,3) by (simp_all add: in_range_def)
    then show ?thesis using 3 m32[OF b] by (simp add: c(6) in_range_def)
  qed
qed

theorem masked_rows_vanish:
  assumes "in_range t n" "(asdu, t, k :: int) \<in> {(''sbyte'', ''SByte'', 2 ^ 8), (''int16'', ''Int16'', 2 ^ 16), (''uint32'', ''UInt32'', - (2 ^ 32))}"
    "if t = ''UInt32'' then 2 ^ 31 \<le> n else n < 0" "\<And>i. h_variant e t (Num (num i)) \<Longrightarrow> in_range t i"
    "fld el ''type'' = Str ''analog''" "fld el ''protocolSourceASDU'' = Str asdu" "hr_value row = Num (num n)"
  shows "rowToDataValue e el row = None"
  using masks_miss_the_type[OF assms(1-3), of "h_date e" "hr_valueString row"] assms(4)[of "n + k"] assms(5-7) by (auto simp: rowToDataValue_def)

section \<open>Ranges\<close>

lemma num_le_below: "num b \<le> x \<Longrightarrow> a \<le> b \<Longrightarrow> num a \<le> x"
  by (cases x) (auto simp: num_def less_eq_jsnum_def)

lemma length_map_filter: "length (List.map_filter f xs) \<le> length xs"
  by (simp add: List.map_filter_def)

text \<open>What the backends are taken to do: no more rows than the limit they are given.\<close>

definition within_limits :: "hist_env \<Rightarrow> bool" where
  "within_limits e = ((\<forall>f q rows. h_mongo e = Some f \<longrightarrow> f q = Inr rows \<longrightarrow> num (int (length rows)) \<le> mr_limit q) \<and>
     (\<forall>f sql a b c l rows. h_pg e = Some f \<longrightarrow> f sql [a, b, c, Num l] = Inr rows \<longrightarrow> num (int (length rows)) \<le> l))"

lemma readRange_limit:
  assumes "within_limits e" "readRange e c tag r = Inr rows" shows "num (int (length rows)) \<le> hs_limit r"
  using assms by (fastforce simp: within_limits_def readRange_def mongo_query_def pg_params_def Let_def split: hist_backend.splits option.splits)

text \<open>The history of a variable comes in pieces no longer than the configured limit and than the client asks
  for, whichever backend answers.\<close>

theorem history_within_limits:
  assumes "within_limits e" "extractDataValues e c el det most back turn = Inr dvs"
  shows "num (int (length dvs)) \<le> normInt (fld c ''historyMaxReturnDataValues'') 20000 \<and> (num 0 < most \<longrightarrow> num (int (length dvs)) \<le> most)"
proof -
  obtain rows where r: "readRange e c (to_string (fld el ''tag'')) (history_span e c det most back) = Inr rows" "length dvs \<le> length rows"
    using assms(2) length_map_filter by (fastforce simp: extractDataValues_def split: if_splits)
  have "num (int (length rows)) \<le> history_limit c most" using readRange_limit[OF assms(1) r(1)] by (simp add: history_span_def Let_def)
  then have l: "num (int (length dvs)) \<le> history_limit c most" using r(2) num_le_below by fastforce
  then show ?thesis by (cases "normInt (fld c ''historyMaxReturnDataValues'') 20000"; cases most) (auto simp: history_limit_def Let_def num_def less_eq_jsnum_def split: if_splits)
qed

section \<open>The quality in the history\<close>

lemma flags_bits:
  "parse_binary [if a then CHR ''1'' else CHR ''0'', if b then CHR ''1'' else CHR ''0'', if c then CHR ''1'' else CHR ''0'', if d then CHR ''1'' else CHR ''0'',
     CHR ''0'', CHR ''0'', CHR ''0'', CHR ''0''] = num ((if a then 128 else 0) + (if b then 64 else 0) + (if c then 32 else 0) + (if d then 16 else 0))"
  by (cases a; cases b; cases c; cases d;
    simp add: parse_binary_def split_sign_def trim_start_def is_space_def radix_digit_def hex_val_def to_lower_char_def radix_val_def Let_def flip: num_def dbl_of_int)

text \<open>C39. The quality the data processor writes with a change reaches the clients that read the history, from either
  historian: the bit of the row in PostgreSQL and the field of the document in MongoDB say the same.\<close>

theorem quality_reaches_history:
  assumes "fld row ''flags'' = Str (hist_flags fd sdu pt)"
  shows "hr_invalid (pg_row row) = q_invalid (pt_q pt) \<and> hr_invalid (mongo_row (hist_obj fd sdu pt)) = q_invalid (pt_q pt) \<and>
    hr_sourceOk (pg_row row) = truthy (snd (source_time sdu)) \<and>
    (\<forall>e el dv. rowToDataValue e el (pg_row row) = Some dv \<or> rowToDataValue e el (mongo_row (hist_obj fd sdu pt)) = Some dv \<longrightarrow> dv_good dv = (\<not> q_invalid (pt_q pt)))"
proof -
  let ?n = "(if q_invalid (pt_q pt) then 128 else 0) + (if truthy (snd (source_time sdu)) then 0 else 64) + (if is_type fd ''analog'' then 32 else 0) +
     (if strict_eq (fld sdu ''causeOfTransmissionAtSource'') (Str ''20'') then 16 else 0) :: int"
  have h: "hist_flags fd sdu pt = [if q_invalid (pt_q pt) then CHR ''1'' else CHR ''0'', if \<not> truthy (snd (source_time sdu)) then CHR ''1'' else CHR ''0'',
      if is_type fd ''analog'' then CHR ''1'' else CHR ''0'', if strict_eq (fld sdu ''causeOfTransmissionAtSource'') (Str ''20'') then CHR ''1'' else CHR ''0'',
      CHR ''0'', CHR ''0'', CHR ''0'', CHR ''0'']"
    by (simp add: hist_flags_def)
  have "parse_binary (hist_flags fd sdu pt) = num ?n" unfolding h flags_bits by simp
  moreover have "hist_flags fd sdu pt \<noteq> []" by (simp add: h)
  ultimately have f: "pg_flags (fld row ''flags'') = num ?n" using assms by (simp only: pg_flags_def jsval.case if_False)
  have "bit_and (num ?n) (num 0x80) = num (if q_invalid (pt_q pt) then 128 else 0)" "bit_and (num ?n) (num 0x40) = num (if truthy (snd (source_time sdu)) then 0 else 64)"
    by (simp_all add: bit_and_num signed_small)
  then have "hr_invalid (pg_row row) = q_invalid (pt_q pt)" "hr_invalid (mongo_row (hist_obj fd sdu pt)) = q_invalid (pt_q pt)"
      "hr_sourceOk (pg_row row) = truthy (snd (source_time sdu))"
    by (simp_all add: pg_row_def mongo_row_def hist_obj_def f Let_def num_inj)
  then show ?thesis by (auto simp: rowToDataValue_def split: prod.splits if_splits)
qed

theorem quality_reaches_history_witness:
  "hr_invalid (pg_row [(''flags'', Str (hist_flags [] [] demo_point))]) = q_invalid (pt_q demo_point)"
proof -
  have "fld [(''flags'', Str (hist_flags [] [] demo_point))] ''flags'' = Str (hist_flags [] [] demo_point)" by simp
  from quality_reaches_history[OF this] show ?thesis by blast
qed

section \<open>Commands\<close>

text \<open>C38. A command is queued only for a point of the tag of the variable written, at most one, under the key of that
  point, and only when neither the point nor the one it acts on is blocked.\<close>

theorem ua_commands_unblocked:
  assumes "set_command e c tags ins el t v = (st, cs)" "x \<in> set cs"
  shows "cs = [x] \<and> (\<exists>d \<in> set tags. fld d ''tag'' = Str (to_string (fld el ''tag'')) \<and> fld d ''commandBlocked'' = Bool False \<and> \<not> supervised_blocked tags d \<and>
    fld x ''pointKey'' = fld d ''_id'' \<and> fld x ''tag'' = fld d ''tag'' \<and> (fld d ''type'' = Str ''digital'' \<longrightarrow> fld x ''value'' \<in> {Num (num 0), Num (num 1)}))"
proof -
  let ?P = "\<lambda>d. fld d ''tag'' = Str (to_string (fld el ''tag''))"
  have cs: "cs = snd (sendCommand e c tags ins (to_string (fld el ''tag'')) t v)" using assms(1) by (simp add: set_command_def)
  obtain d ds where f: "filter ?P tags = d # ds" using assms(2) cs by (cases "filter ?P tags") (auto simp: sendCommand_def)
  then have m: "d \<in> set tags" "?P d" by (auto simp: filter_eq_Cons_iff)
  let ?y = "converted_value d (written_value e t v)"
  have r: "fld d ''commandBlocked'' = Bool False \<and> \<not> supervised_blocked tags d \<and> cs = [ua_command e c d ?y]"
    using assms(2) cs f by (auto simp: sendCommand_def Let_def split: if_splits sum.splits)
  then have x: "x = ua_command e c d ?y" using assms(2) by simp
  have "fld x ''pointKey'' = fld d ''_id''" "fld x ''tag'' = fld d ''tag''" "fld x ''value'' = Num (to_number (fst ?y))"
    by (simp_all add: x ua_command_def Let_def)
  moreover have "fld d ''type'' = Str ''digital'' \<Longrightarrow> to_number (fst ?y) \<in> {num 0, num 1}"
    by (auto simp: converted_value_def Let_def)
  ultimately show ?thesis using r x m by auto
qed

definition demo_ua :: ua_env where
  "demo_ua = \<lparr>u_date = \<lambda>_. NaN, u_nodeId = \<lambda>_ _ _. None, u_nullId = Null, u_text = \<lambda>_. [], u_now = 0\<rparr>"

definition ua_points :: "doc list" where
  "ua_points = [[(''_id'', Num (num 7)), (''tag'', Str ''t''), (''type'', Str ''digital''), (''commandBlocked'', Bool False), (''supervisedOfCommand'', Num (num 0))]]"

theorem ua_commands_unblocked_witness:
  "\<exists>x. set_command demo_ua [] ua_points (\<lambda>_. Inr ()) [(''tag'', Str ''t'')] ''Boolean'' (Bool True) = (Good, [x]) \<and> fld x ''pointKey'' = Num (num 7)"
proof -
  obtain x where x: "set_command demo_ua [] ua_points (\<lambda>_. Inr ()) [(''tag'', Str ''t'')] ''Boolean'' (Bool True) = (Good, [x])"
    by (simp add: set_command_def sendCommand_def ua_points_def supervised_blocked_def loose_eq_def nullish_def to_prim_def Let_def)
  from ua_commands_unblocked[OF x] have "fld x ''pointKey'' = Num (num 7)" by (auto simp: ua_points_def)
  then show ?thesis using x by blast
qed

text \<open>The client is told that it went well in every case.\<close>

theorem blocked_command_reported_good:
  assumes "filter (\<lambda>d. fld d ''tag'' = Str (to_string (fld el ''tag''))) tags = d # ds" "fld d ''commandBlocked'' = Bool True"
  shows "set_command e c tags ins el t v = (Good, [])"
  using assms by (simp add: set_command_def sendCommand_def)

section \<open>Nodes\<close>

lemma add_node_ids:
  assumes "\<And>ids. auto ids \<notin> set ids" "distinct (map nd_id ns)" "set (map nd_id ns) \<inter> set used = {}"
  shows "distinct (map nd_id (add_node e auto used d ns)) \<and> set (map nd_id (add_node e auto used d ns)) \<inter> set used = {}"
proof (cases "add_node e auto used d ns = ns")
  case False
  let ?ids = "used @ map nd_id ns"
  obtain x where x: "add_node e auto used d ns = ns @ [x]" "nd_id x = auto ?ids \<or> nd_id x \<notin> set ?ids"
    using False by (auto simp: add_node_def Let_def split: sum.splits option.splits if_splits)
  then have "nd_id x \<notin> set ?ids" using assms(1) by metis
  then show ?thesis using x(1) assms(2,3) by auto
qed (use assms in simp)

text \<open>Every variable of the server has an identifier of its own, and none that a folder has.\<close>

theorem variables_have_own_ids:
  assumes "\<And>ids. auto ids \<notin> set ids"
  shows "distinct (map nd_id (create_nodes e auto used ds)) \<and> set (map nd_id (create_nodes e auto used ds)) \<inter> set used = {}"
proof -
  have "distinct (map nd_id ns) \<and> set (map nd_id ns) \<inter> set used = {} \<Longrightarrow>
    distinct (map nd_id (fold (add_node e auto used) ds ns)) \<and> set (map nd_id (fold (add_node e auto used) ds ns)) \<inter> set used = {}" for ns
    by (induction ds arbitrary: ns) (use add_node_ids[of auto _ used e, OF assms] in auto)
  from this[of "[]"] show ?thesis by (simp add: create_nodes_def)
qed

text \<open>The fallback to a text of the code is never reached: an object that is no array is shown as a number.\<close>

theorem object_shown_as_number:
  assumes "fld d ''type'' = Str ''json''" "fld d ''protocolSourceASDU'' = Str s" "map_of array_types s = None"
    "truthy (fld d ''valueJson'')" "json_parse (to_string (fld d ''valueJson'')) = Inr (Obj x)"
  shows "convertValueVariant e d = Inr \<lparr>lv_value = Obj x, lv_type = ''Double'', lv_array = None\<rparr>"
proof -
  have "s \<noteq> ''guid[]''" "s \<noteq> ''datetime[]''" "s \<noteq> ''nodeid''" using assms(3) by (auto simp: array_types_def)
  then show ?thesis using assms by (simp add: convertValueVariant_def convert_json_def json_object_def json_type_def Let_def)
qed

section \<open>Folders\<close>

definition tree_ok :: "tree \<Rightarrow> bool" where
  "tree_ok t = (distinct (map fst (group_folders t)) \<and> distinct (map snd (group_folders t)) \<and> (\<forall>x \<in> set (group_folders t). snd x < next_folder t))"

text \<open>The folders known before stay under their keys.\<close>

definition grows :: "tree \<Rightarrow> tree \<Rightarrow> bool" where
  "grows t t' = (\<forall>k n. map_of (group_folders t) k = Some n \<longrightarrow> map_of (group_folders t') k = Some n)"

lemma grows_refl: "grows t t" and grows_trans: "grows t t' \<Longrightarrow> grows t' t'' \<Longrightarrow> grows t t''"
  by (simp_all add: grows_def)

lemma make_folder_ok:
  assumes "tree_ok t" "make_folder p s k t = (n, t')" shows "tree_ok t' \<and> grows t t' \<and> map_of (group_folders t') k = Some n"
proof (cases "map_of (group_folders t) k")
  case None
  then have "k \<notin> fst ` set (group_folders t)" by (simp add: map_of_eq_None_iff)
  moreover have "next_folder t \<notin> snd ` set (group_folders t)" using assms(1) by (force simp: tree_ok_def)
  moreover have "\<forall>x \<in> set (group_folders t). snd x < Suc (next_folder t)" using assms(1) unfolding tree_ok_def by (meson less_SucI)
  moreover have "n = next_folder t" "t' = t\<lparr>folders := folders t @ [(next_folder t, p, s)], next_folder := Suc (next_folder t), group_folders := (k, next_folder t) # group_folders t\<rparr>"
    using assms(2) None by (auto simp: make_folder_def)
  ultimately show ?thesis using assms(1) None by (simp add: tree_ok_def grows_def) (metis fst_conv image_eqI)
qed (use assms in \<open>simp add: make_folder_def grows_def\<close>)

lemma group_pass_ok:
  assumes "tree_ok t" "group_pass k x t = (p, t')" shows "tree_ok t' \<and> grows t t'"
  using assms make_folder_ok[OF assms(1)] by (auto simp: group_pass_def grows_refl Let_def split: prod.splits if_splits)

lemma group_passes_ok: "tree_ok t \<Longrightarrow> group_passes k xs t = (ys, t') \<Longrightarrow> tree_ok t' \<and> grows t t' \<and> map fst ys = map fst xs"
proof (induction xs arbitrary: t ys)
  case (Cons x xs)
  obtain p t1 where p: "group_pass k x t = (p, t1)" by force
  obtain zs t2 where z: "group_passes k xs t1 = (zs, t2)" by force
  have ok: "tree_ok t1" "grows t t1" using group_pass_ok[OF Cons.prems(1) p] by simp_all
  have r: "ys = (fst x, p) # zs" "t' = t2" using Cons.prems(2) p z by simp_all
  show ?case using Cons.IH[OF ok(1), of zs] z r ok(2) grows_trans by auto
qed (simp add: grows_refl)

text \<open>A tag with three groups that are texts and no path of its own.\<close>

definition full_groups :: "doc \<Rightarrow> bool" where
  "full_groups d = (browse_path d = None \<and> (\<forall>g \<in> set (group_path 3 d). \<exists>s. g = Str s \<and> s \<noteq> []))"

lemma group_pass_full:
  assumes "tree_ok t" "full_groups d" "group_pass 3 (d, p) t = (q, t')"
  shows "\<exists>n. q = InFolder n \<and> map_of (group_folders t') (path_key 3 (group_path 3 d)) = Some n"
proof -
  have "\<not> list_ex (\<lambda>g. loose_eq g (Str [])) (group_path 3 d)"
    using assms(2) by (fastforce simp: full_groups_def list_ex_iff loose_eq_def nullish_def to_prim_def Let_def)
  then show ?thesis using assms make_folder_ok[OF assms(1)] by (auto simp: group_pass_def full_groups_def Let_def split: prod.splits)
qed

lemma group_passes_full:
  "tree_ok t \<Longrightarrow> group_passes 3 xs t = (ys, t') \<Longrightarrow> (d, q) \<in> set ys \<Longrightarrow> full_groups d \<Longrightarrow>
    \<exists>n. q = InFolder n \<and> map_of (group_folders t') (path_key 3 (group_path 3 d)) = Some n"
proof (induction xs arbitrary: t ys)
  case (Cons x xs)
  obtain p t1 where p: "group_pass 3 x t = (p, t1)" by force
  obtain zs t2 where z: "group_passes 3 xs t1 = (zs, t2)" by force
  have ok: "tree_ok t1" using group_pass_ok[OF Cons.prems(1) p] by simp
  have r: "ys = (fst x, p) # zs" "t' = t2" using Cons.prems(2) p z by simp_all
  consider "(d, q) = (fst x, p)" | "(d, q) \<in> set zs" using Cons.prems(3) r(1) by auto
  then show ?case
  proof cases
    case 1
    obtain n where "q = InFolder n" "map_of (group_folders t1) (path_key 3 (group_path 3 d)) = Some n"
      using group_pass_full[OF Cons.prems(1,4), of "snd x" q t1] 1 p by (cases x) auto
    then show ?thesis using group_passes_ok[OF ok z] r(2) by (auto simp: grows_def)
  next
    case 2
    then show ?thesis using Cons.IH[OF ok] z r(2) Cons.prems(4) by auto
  qed
qed simp

lemma path_key_inj:
  assumes "\<forall>g \<in> set gs. \<exists>s. g = Str s" "\<forall>g \<in> set hs. \<exists>s. g = Str s" "path_key 3 gs = path_key 3 hs" shows "gs = hs"
proof -
  have n: "json_parse (json_val iso_of (Arr xs)) = Inr (Arr xs)" if "\<forall>g \<in> set xs. \<exists>s. g = Str s" for xs
  proof -
    have "map (json_norm iso_of) xs = xs" using that by (induction xs) auto
    moreover have "json_wf (Arr xs)" using that by (auto simp: list_all_iff)
    ultimately show ?thesis using json_roundtrip[of "Arr xs" iso_of] by simp
  qed
  have "json_val iso_of (Arr gs) = json_val iso_of (Arr hs)" using assms(3) by (simp only: path_key_def) simp
  then have "(Inr (Arr gs) :: js_error + jsval) = Inr (Arr hs)" using n[OF assms(1)] n[OF assms(2)] by metis
  then show ?thesis by simp
qed


lemma group_tree_tags:
  assumes "group_tree ds first_tree = (xs, t)" shows "map fst xs = ds"
proof -
  have "tree_ok first_tree" by (simp add: tree_ok_def first_tree_def)
  moreover obtain xs1 t1 xs2 t2 where "group_passes 1 (map (\<lambda>d. (d, Nowhere)) ds) first_tree = (xs1, t1)" "group_passes 2 xs1 t1 = (xs2, t2)" "group_passes 3 xs2 t2 = (xs, t)"
    using assms by (auto simp: group_tree_def split: prod.splits)
  ultimately show ?thesis using group_passes_ok by (metis (no_types, lifting) comp_apply fst_conv list.map_comp list.map_ident_strong)
qed


end
