(* ===== verification/Spec2Isabelle.thy ===== *)
theory Spec2Isabelle
  imports Redundancy ProcLaws Admin OpcReadLaws DiodeLaws ProjectLaws InstanceLaws BackendLaws SparkplugLaws PubLaws AutoTagLaws PlainLaws N8nLaws TelegrafLaws OpcUaLaws
begin

text \<open>
  JSON-SCADA: a model of the server side JavaScript of the repository.

  \<^bold>\<open>The program.\<close> JSON-SCADA is a SCADA system around a MongoDB database. Protocol drivers write
  what they measure into the field \<open>sourceDataUpdate\<close> of the points of the collection
  \<open>realtimeData\<close>. The process \<open>cs_data_processor\<close> follows the change stream of that collection,
  turns the raw values into values with quality and alarms, keeps the sequence of events
  (\<open>soeData\<close>) and writes files of SQL for the historian. The process \<open>server_realtime_auth\<close> is the
  server of the user interface: it signs users in, administers users, roles, tags and protocol
  connections, controls the driver processes and answers the OPC web API, by which displays read
  points, acknowledge alarms and send commands; a command is a document in \<open>commandsQueue\<close> that a
  driver consumes. Of the drivers written in JavaScript, \<open>mqtt-sparkplug\<close> acquires from and publishes to
  MQTT brokers, \<open>n8n-client\<close> exchanges points with workflows over HTTP and \<open>telegraf-listener\<close>
  receives metrics in datagrams; \<open>OPC-UA-Server\<close> shows the points to OPC UA clients. \<open>mongofw\<close> and
  \<open>mongowr\<close> replicate the points over a channel that only goes one way. Every process runs on a
  main and a standby node, and the document \<open>processInstances\<close> decides which one is active.

  \<^bold>\<open>The library.\<close> \<open>Prelude\<close> holds the collections of rules and association lists in insertion
  order (the properties of a JavaScript object). \<open>JSNum\<close> models numbers as IEEE 754 doubles with
  rounding, \<open>JSVal\<close> the values of the language and their coercions, \<open>JSInt\<close> the operator \<open>in\<close> and the
  32 bit integers, \<open>JSText\<close> printing to JSON and text searches, \<open>JSParse\<close> reading JSON, with the round
  trip, \<open>JSDigits\<close> integers read back from their text, \<open>JSDate\<close> dates. \<open>DocStore\<close> states what an
  update \<open>{$set: s}\<close> does to a document (locale \<open>mongo_set\<close>), \<open>Handler\<close> the sequencing of handlers
  that may throw.

  \<^bold>\<open>The components.\<close>
  \<^item> \<open>Redundancy\<close>: \<open>redundancy.js\<close> of the six JavaScript processes, and the copy
    inside the Telegraf driver, one state machine with the
    differences of the copies as a record. A poll every five seconds reads the document of the
    instance; the lemmas show failover at the sixth poll without a sign of the active node, that
    nothing less takes over, and that two active nodes become one.
  \<^item> \<open>Metrics\<close>: \<open>cs_data_processor/metrics.js\<close>. A histogram with logarithmic buckets refines the
    multiset of its samples; a bucket stands for its samples within one part in 128, and its
    percentiles are those ranks.
  \<^item> \<open>ProcQueue\<close>, \<open>ProcChange\<close>, \<open>ProcLaws\<close>: \<open>cs_data_processor/cs_data_processor.js\<close>. The queues, the
    bulk write and the loss of the change stream as a transition system; the change handler
    \<open>on_change\<close> with quality, limits, hysteresis, events, beep and historian rows; their properties.
  \<^item> \<open>Auth\<close>, \<open>Ldap\<close>, \<open>Signin\<close>: \<open>app/middlewares/authJwt.js\<close> and the handlers of
    \<open>app/controllers/auth.controller.js\<close> that sign users in and out and change passwords. The lemmas
    show who gets a token, with which rights, and who may command.
  \<^item> \<open>Connections\<close>, \<open>ConnLaws\<close>, \<open>Admin\<close>: the administration handlers of the same file. The defaults
    of \<open>updateProtocolConnection\<close> are tables of steps, proved idempotent and complete.
  \<^item> \<open>Projects\<close>, \<open>ProjectLaws\<close>: its handlers for displays, files, export and import of projects and the
    maintenance scripts, on a file system of POSIX paths. Requests reach files only below the
    directories meant for them, and no script runs twice at a time.
  \<^item> \<open>Instances\<close>, \<open>InstanceLaws\<close>: driver instances, and the requests that start and stop their services.
  \<^item> \<open>Process\<close>: \<open>app/services\<close>, the driver catalog, the facade over the service backend and the
    debounced restart scheduler.
  \<^item> \<open>Backends\<close>, \<open>BackendLaws\<close>: the two backends, supervisord and Windows services, as values of the
    record the facade uses. The locale \<open>service_backend\<close>, interpreted by both, says that an operation
    stays within its service; the facade is shown to inherit it.
  \<^item> \<open>OpcCodes\<close>, \<open>OpcWrite\<close>, \<open>OpcRead\<close>, \<open>OpcHistory\<close>, \<open>OpcLaws\<close>, \<open>OpcReadLaws\<close>: \<open>opc_codes.js\<close> and
    \<open>opcApi\<close> of \<open>server_realtime_auth/index.js\<close>. A request is run on a world that records each
    database write and each user action in order (\<open>effects\<close>); \<open>emits\<close> is the logic in which each
    effect is shown to have the rights it needs in the state in which it is issued.
  \<^item> \<open>Mongofw\<close>, \<open>MongofwLaws\<close>, \<open>Mongowr\<close>, \<open>Wire\<close>, \<open>DiodeLaws\<close>: the two replication modules. The sender is
    a transition system whose datagrams carry numbered objects; joined to the receiver by a channel
    that keeps the order and loses nothing, what is written is what was sent. That the channel does
    so, that the receiver is active and that it finds at most \<open>MAX_QUEUE\<close> datagrams is assumed by name.
  \<^item> \<open>Sparkplug\<close>, \<open>SparkplugLaws\<close>: acquisition in the MQTT driver from Sparkplug B messages, with the
    births, aliases and deaths of nodes and devices. The locale \<open>metric_relation\<close> collects what every
    step on a metric keeps; its three interpretations give the properties of message runs.
  \<^item> \<open>MqttPublish\<close>, \<open>PubLaws\<close>: publication, commands in both directions, the change of broker.
  \<^item> \<open>AutoTag\<close>, \<open>AutoTagLaws\<close>: configuration, created tags and the values written to the database.
  \<^item> \<open>MqttPlain\<close>, \<open>PlainLaws\<close>: plain MQTT messages, JSON with paths and OPC UA PubSub; the match of
    topics is the rule of MQTT.
  \<^item> \<open>N8n\<close>, \<open>N8nLaws\<close>: the n8n driver, its filters, the queues of its webhooks with their retries, its
    batches and the requests it listens to.
  \<^item> \<open>Telegraf\<close>, \<open>TelegrafLaws\<close>: the driver that listens to Telegraf, its datagrams and the queue it
    stores.
  \<^item> \<open>OpcUaHist\<close>, \<open>OpcUa\<close>, \<open>OpcUaLaws\<close>: the OPC UA server, its conversion of values with integers at
    their width, the history read from either historian, commands, folders and nodes, and the change
    stream. The quality the data processor writes is shown to reach the readers of the history.

  \<^bold>\<open>Parameters.\<close> What is not in the repository is an argument: the database driver (results of
  queries, effect of writes, failures), \<open>jsonwebtoken\<close>, \<open>bcrypt\<close>, the directory server, the clock,
  \<open>Math.log2\<close> and \<open>Date.parse\<close> of the engine, the protobuf decoder and the compression of the MQTT
  client, inflating, the library of OPC UA, what \<open>supervisorctl\<close>, \<open>nssm\<close> and \<open>sc\<close> print. They are fields of the records of
  the components (\<open>env\<close>, \<open>admin_env\<close>, \<open>plat_env\<close>, \<open>inst_env\<close>, \<open>opc_env\<close>, \<open>read_env\<close>, \<open>proc_env\<close>,
  \<open>ldap_client\<close>, \<open>sup_env\<close>, \<open>win_env\<close>, \<open>sp_env\<close>, \<open>plain_env\<close>, \<open>n8n_env\<close>, \<open>hist_env\<close>, \<open>ua_env\<close>) or plain arguments. One reading
  of the clock stands for those of one request. Strings are lists of UTF-8 bytes; a failing call throws
  and leaves the store as it was.

  \<^bold>\<open>Bounds and loops.\<close> All loops of the models are structural recursions over the list they
  consume, \<open>while_option\<close> with a proof that it ends (\<open>ProcQueue\<close>), functions with a termination proof
  (the loops of the replication modules, in which each turn shortens the queue), or counted: the search
  for the shortest decimal of a double (\<open>shortest\<close>, \<open>dec_exp\<close>) tries 17 digits and exponents to 330,
  which cover the doubles; the JSON reader has the length of its text as fuel, of which every step
  uses some character. Processes that never end are transition relations (\<open>flush_step\<close>, \<open>sched_step\<close>,
  \<open>fw_step\<close>) or functions of the list of events (\<open>red_run\<close>, \<open>push_run\<close>). Numbers are doubles: sums are
  exact while below two to the 53rd, which the theorems name where they need it.

  \<^bold>\<open>Not modelled.\<close> The browser user interface, vendored code and the drivers in other languages;
  logging, TLS, file and socket I/O; the connection loops of the processes, which are sequences of
  library calls; the proxies to Grafana, Node-RED, n8n, Metabase and supervisord; the GraphQL server,
  which mirrors the administration handlers with a third party schema library; the queries with
  \<open>$expr\<close> by which the data processor marks points frozen or invalid, which the database evaluates;
  the programs around the system (cameras, reports, bulk import, simulators, backups).
  The manifest lists each.
\<close>

end
